(* ===== verification/Gateway_Prelude.thy ===== *)
theory Gateway_Prelude
  imports Main "HOL-Library.Sublist" "HOL-Library.Signed_Division"
begin

text \<open>
  Shared vocabulary of the development.

  \<^item> Go's basic types: identifiers (canonical UUID text), wall-clock instants (nanoseconds
    since the zero \<^verbatim>\<open>time.Time\<close>), 64-bit wrap-around, the \<^verbatim>\<open>strings\<close> functions the gateway calls.
  \<^item> SQL tables as lists of rows in insertion order, with \<^verbatim>\<open>UPDATE .. WHERE\<close>, keyed
    \<^verbatim>\<open>SELECT\<close> and \<^verbatim>\<open>ORDER BY .. LIMIT\<close>; the laws of a guarded update are a locale that every
    table instantiates.
  \<^item> The effect type of the paid engine: a state transformer that returns an error or a value
    and keeps every mutation made before the error, as Go code behind pointers does.
\<close>

named_theorems sql_simps \<open>rewrite rules for table operations\<close>
named_theorems eng_simps \<open>definitions of the effect combinators\<close>
named_theorems steps_intro \<open>composition rules for two-state contracts\<close>

section \<open>Go values\<close>

type_synonym uuid = string
type_synonym time = int
type_synonym wei = int

definition uuid_nil :: uuid where
  "uuid_nil = ''00000000-0000-0000-0000-000000000000''"

abbreviation second :: int where "second \<equiv> 1000000000"

text \<open>The zero \<^verbatim>\<open>time.Time\<close> is instant 0.\<close>

definition IsZero :: "time \<Rightarrow> bool" where
  "IsZero t \<longleftrightarrow> t = 0"

text \<open>Two's complement 64-bit wrap-around of an exact result.\<close>

definition wrap64 :: "int \<Rightarrow> int" where
  "wrap64 n = (n + 2 ^ 63) mod 2 ^ 64 - 2 ^ 63"

definition int64_range :: "int \<Rightarrow> bool" where
  "int64_range n \<longleftrightarrow> - (2 ^ 63) \<le> n \<and> n < 2 ^ 63"

lemma wrap64_id [simp]: "int64_range n \<Longrightarrow> wrap64 n = n"
  by (simp add: wrap64_def int64_range_def)

lemma wrap64_range: "int64_range (wrap64 n)"
proof -
  have "0 \<le> (n + 2 ^ 63) mod 2 ^ 64" and "(n + 2 ^ 63) mod 2 ^ 64 < (2 :: int) ^ 64"
    by simp_all
  then show ?thesis by (simp add: wrap64_def int64_range_def)
qed

section \<open>Go strings\<close>

definition HasPrefix :: "string \<Rightarrow> string \<Rightarrow> bool" where
  "HasPrefix s p \<longleftrightarrow> prefix p s"

definition HasSuffix :: "string \<Rightarrow> string \<Rightarrow> bool" where
  "HasSuffix s p \<longleftrightarrow> suffix p s"

definition TrimPrefix :: "string \<Rightarrow> string \<Rightarrow> string" where
  "TrimPrefix s p = (if prefix p s then drop (length p) s else s)"

definition TrimRight1 :: "string \<Rightarrow> char \<Rightarrow> string" where
  "TrimRight1 s c = rev (dropWhile (\<lambda>x. x = c) (rev s))"

definition to_lower_char :: "char \<Rightarrow> char" where
  "to_lower_char c = (let n = (of_char c :: nat) in
     if 65 \<le> n \<and> n \<le> 90 then char_of (n + 32) else c)"

definition to_upper_char :: "char \<Rightarrow> char" where
  "to_upper_char c = (let n = (of_char c :: nat) in
     if 97 \<le> n \<and> n \<le> 122 then char_of (n - 32) else c)"

abbreviation ToLower :: "string \<Rightarrow> string" where "ToLower \<equiv> map to_lower_char"
abbreviation ToUpper :: "string \<Rightarrow> string" where "ToUpper \<equiv> map to_upper_char"

definition EqualFold :: "string \<Rightarrow> string \<Rightarrow> bool" where
  "EqualFold a b \<longleftrightarrow> ToLower a = ToLower b"

text \<open>\<^verbatim>\<open>strings.Cut\<close> at the first occurrence of a character.\<close>

fun Cut1 :: "string \<Rightarrow> char \<Rightarrow> string \<times> string" where
  "Cut1 [] c = ([], [])"
| "Cut1 (x # xs) c = (if x = c then ([], xs) else (case Cut1 xs c of (a, b) \<Rightarrow> (x # a, b)))"

fun Join1 :: "string list \<Rightarrow> char \<Rightarrow> string" where
  "Join1 [] c = []"
| "Join1 [x] c = x"
| "Join1 (x # y # ys) c = x @ c # Join1 (y # ys) c"

text \<open>Decimal text of a number, as \<^verbatim>\<open>strconv.FormatInt(n, 10)\<close> and \<^verbatim>\<open>%d\<close> print it.\<close>

fun nat_text :: "nat \<Rightarrow> string" where
  "nat_text n = (if n < 10 then [char_of (48 + n)]
                 else nat_text (n div 10) @ [char_of (48 + n mod 10)])"

declare nat_text.simps [simp del]

definition int_text :: "int \<Rightarrow> string" where
  "int_text n = (if n < 0 then CHR ''-'' # nat_text (nat (- n)) else nat_text (nat n))"

lemma nat_text_nonempty [simp]: "nat_text n \<noteq> []"
  by (subst nat_text.simps) simp

lemma Cut1_fst_no_sep: "c \<notin> set (fst (Cut1 xs c))"
  by (induction xs c rule: Cut1.induct) (auto split: prod.splits)

lemma Cut1_no_sep: "c \<notin> set xs \<Longrightarrow> Cut1 xs c = (xs, [])"
  by (induction xs) auto

lemma Cut1_append: "c \<notin> set a \<Longrightarrow> Cut1 (a @ c # b) c = (a, b)"
  by (induction a) auto

lemma TrimPrefix_append [simp]: "TrimPrefix (p @ s) p = s"
  by (simp add: TrimPrefix_def)

section \<open>SQL tables as row lists\<close>

definition row_by :: "('r \<Rightarrow> 'k) \<Rightarrow> 'k \<Rightarrow> 'r list \<Rightarrow> 'r option" where
  "row_by key k t = find (\<lambda>r. key r = k) t"

definition sql_update :: "('r \<Rightarrow> bool) \<Rightarrow> ('r \<Rightarrow> 'r) \<Rightarrow> 'r list \<Rightarrow> 'r list" where
  "sql_update p f t = map (\<lambda>r. if p r then f r else r) t"

definition rows_affected :: "('r \<Rightarrow> bool) \<Rightarrow> 'r list \<Rightarrow> nat" where
  "rows_affected p t = length (filter p t)"

text \<open>SQL's \<^verbatim>\<open>NULLIF($n,'')\<close> and \<^verbatim>\<open>COALESCE\<close>.\<close>

definition nullif_empty :: "string \<Rightarrow> string option" where
  "nullif_empty s = (if s = [] then None else Some s)"

definition coalesce :: "'a option \<Rightarrow> 'a option \<Rightarrow> 'a option" where
  "coalesce a b = (case a of None \<Rightarrow> b | Some _ \<Rightarrow> a)"

lemma coalesce_simps [simp]: "coalesce None b = b" "coalesce (Some x) b = Some x"
  by (simp_all add: coalesce_def)

text \<open>\<^verbatim>\<open>ORDER BY k DESC LIMIT n\<close> and \<^verbatim>\<open>ORDER BY k ASC LIMIT n\<close>; PostgreSQL leaves the order of
  equal keys open, the stable sort fixes one admissible choice.\<close>

definition order_desc :: "('r \<Rightarrow> int) \<Rightarrow> 'r list \<Rightarrow> 'r list" where
  "order_desc k t = sort_key (\<lambda>r. - k r) t"

definition order_asc :: "('r \<Rightarrow> int) \<Rightarrow> 'r list \<Rightarrow> 'r list" where
  "order_asc k t = sort_key k t"

lemma sql_update_Nil [simp]: "sql_update p f [] = []"
  by (simp add: sql_update_def)

lemma sql_update_Cons [simp]:
  "sql_update p f (r # t) = (if p r then f r else r) # sql_update p f t"
  by (simp add: sql_update_def)

lemma length_sql_update [simp]: "length (sql_update p f t) = length t"
  by (simp add: sql_update_def)

lemma row_by_Nil [simp]: "row_by key k [] = None"
  by (simp add: row_by_def)

lemma row_by_Cons [simp]:
  "row_by key k (r # t) = (if key r = k then Some r else row_by key k t)"
  by (simp add: row_by_def)

lemma row_by_SomeD: "row_by key k t = Some r \<Longrightarrow> r \<in> set t \<and> key r = k"
  by (induction t) (auto split: if_splits)

lemma row_by_None_iff: "row_by key k t = None \<longleftrightarrow> k \<notin> key ` set t"
  by (induction t) auto

lemma row_by_distinct:
  "distinct (map key t) \<Longrightarrow> r \<in> set t \<Longrightarrow> row_by key (key r) t = Some r"
  by (induction t) (auto simp: image_iff)

lemma row_by_append_new:
  "row_by key k (t @ [r]) = (case row_by key k t of Some x \<Rightarrow> Some x
     | None \<Rightarrow> if key r = k then Some r else None)"
  by (induction t) auto

lemma set_sql_update:
  "set (sql_update p f t) = (\<lambda>r. if p r then f r else r) ` set t"
  by (simp add: sql_update_def)

lemma row_by_list_all2:
  assumes "list_all2 R t t'" and "\<And>r r'. R r r' \<Longrightarrow> key r' = key r" and "row_by key k t = Some r"
  shows "\<exists>r'. row_by key k t' = Some r' \<and> R r r'"
  using assms(1,3)
proof (induction rule: list_all2_induct)
  case Nil
  then show ?case by simp
next
  case (Cons x xs y ys)
  then show ?case using assms(2) by (cases "key x = k") auto
qed

text \<open>
  The contract of an \<^verbatim>\<open>UPDATE .. SET .. WHERE p\<close>: the \<^verbatim>\<open>SET\<close> clause does not write the
  primary key. Every repository update below is an instance.
\<close>

locale keyed_update =
  fixes key :: "'r \<Rightarrow> 'k" and upd :: "'r \<Rightarrow> 'r"
  assumes key_upd: "key (upd r) = key r"
begin

lemma keys_kept: "map key (sql_update p upd t) = map key t"
  by (induction t) (auto simp: key_upd)

lemma distinct_kept: "distinct (map key t) \<Longrightarrow> distinct (map key (sql_update p upd t))"
  by (simp add: keys_kept)

lemma row_after:
  "row_by key k (sql_update p upd t) = map_option (\<lambda>r. if p r then upd r else r) (row_by key k t)"
  by (induction t) (auto simp: key_upd)

lemma row_unmatched:
  "(\<And>r. key r = k \<Longrightarrow> \<not> p r) \<Longrightarrow> row_by key k (sql_update p upd t) = row_by key k t"
  by (induction t) (auto simp: key_upd)

end

section \<open>Effects with errors\<close>

type_synonym ('s, 'e, 'a) eff = "'s \<Rightarrow> ('e + 'a) \<times> 's"

definition ret :: "'a \<Rightarrow> ('s, 'e, 'a) eff" where [eng_simps]:
  "ret x = (\<lambda>s. (Inr x, s))"

definition throw :: "'e \<Rightarrow> ('s, 'e, 'a) eff" where [eng_simps]:
  "throw e = (\<lambda>s. (Inl e, s))"

text \<open>\<^verbatim>\<open>x, err := m; if err != nil { return err }; k x\<close>.\<close>

definition bindE :: "('s, 'e, 'a) eff \<Rightarrow> ('a \<Rightarrow> ('s, 'e, 'b) eff) \<Rightarrow> ('s, 'e, 'b) eff" where [eng_simps]:
  "bindE m k = (\<lambda>s. case m s of (Inl e, s') \<Rightarrow> (Inl e, s') | (Inr x, s') \<Rightarrow> k x s')"

abbreviation thenE :: "('s, 'e, unit) eff \<Rightarrow> ('s, 'e, 'b) eff \<Rightarrow> ('s, 'e, 'b) eff" where
  "thenE m k \<equiv> bindE m (\<lambda>_. k)"

text \<open>\<^verbatim>\<open>x, err := m\<close> with the error inspected by the code that follows.\<close>

definition attempt :: "('s, 'e, 'a) eff \<Rightarrow> ('s, 'e, 'e + 'a) eff" where [eng_simps]:
  "attempt m = (\<lambda>s. case m s of (r, s') \<Rightarrow> (Inr r, s'))"

definition get_state :: "('s, 'e, 's) eff" where [eng_simps]:
  "get_state = (\<lambda>s. (Inr s, s))"

definition modify :: "('s \<Rightarrow> 's) \<Rightarrow> ('s, 'e, unit) eff" where [eng_simps]:
  "modify f = (\<lambda>s. (Inr (), f s))"

abbreviation with_state :: "('s \<Rightarrow> ('s, 'e, 'a) eff) \<Rightarrow> ('s, 'e, 'a) eff" where
  "with_state k \<equiv> bindE get_state k"

definition whenE :: "bool \<Rightarrow> ('s, 'e, unit) eff \<Rightarrow> ('s, 'e, unit) eff" where
  "whenE b m = (if b then m else ret ())"

definition exec :: "('s, 'e, 'a) eff \<Rightarrow> 's \<Rightarrow> 's" where
  "exec m s = snd (m s)"

definition result :: "('s, 'e, 'a) eff \<Rightarrow> 's \<Rightarrow> 'e + 'a" where
  "result m s = fst (m s)"

text \<open>Partial-correctness triples with separate normal and error postconditions.\<close>

definition triple ::
  "('s \<Rightarrow> bool) \<Rightarrow> ('s, 'e, 'a) eff \<Rightarrow> ('a \<Rightarrow> 's \<Rightarrow> bool) \<Rightarrow> ('e \<Rightarrow> 's \<Rightarrow> bool) \<Rightarrow> bool" where
  "triple P m Q R \<longleftrightarrow> (\<forall>s. P s \<longrightarrow>
     (case m s of (Inr x, s') \<Rightarrow> Q x s' | (Inl e, s') \<Rightarrow> R e s'))"

lemma triple_ret: "(\<And>s. P s \<Longrightarrow> Q x s) \<Longrightarrow> triple P (ret x) Q R"
  by (simp add: triple_def ret_def)

lemma triple_throw: "(\<And>s. P s \<Longrightarrow> R e s) \<Longrightarrow> triple P (throw e) Q R"
  by (simp add: triple_def throw_def)

lemma triple_modify: "(\<And>s. P s \<Longrightarrow> Q () (f s)) \<Longrightarrow> triple P (modify f) Q R"
  by (simp add: triple_def modify_def)

lemma triple_bind:
  "triple P m M R \<Longrightarrow> (\<And>x. triple (M x) (k x) Q R) \<Longrightarrow> triple P (bindE m k) Q R"
  by (fastforce simp: triple_def bindE_def split: prod.splits sum.splits)

lemma triple_attempt:
  "triple P m (\<lambda>x. Q (Inr x)) (\<lambda>e. Q (Inl e)) \<Longrightarrow> triple P (attempt m) Q R"
  unfolding triple_def attempt_def
  by (auto split: prod.splits sum.splits) (metis old.sum.exhaust)

lemma triple_state: "(\<And>s. triple (\<lambda>t. P t \<and> t = s) (k s) Q R) \<Longrightarrow> triple P (with_state k) Q R"
  by (fastforce simp: triple_def bindE_def get_state_def split: prod.splits sum.splits)

lemma triple_if:
  "(b \<Longrightarrow> triple P m Q R) \<Longrightarrow> (\<not> b \<Longrightarrow> triple P n Q R) \<Longrightarrow> triple P (if b then m else n) Q R"
  by simp

lemma triple_when:
  "(b \<Longrightarrow> triple P m Q R) \<Longrightarrow> (\<And>s. \<not> b \<Longrightarrow> P s \<Longrightarrow> Q () s) \<Longrightarrow> triple P (whenE b m) Q R"
  by (cases b) (simp_all add: whenE_def triple_ret)

lemma triple_pre: "triple P m Q R \<Longrightarrow> (\<And>s. P' s \<Longrightarrow> P s) \<Longrightarrow> triple P' m Q R"
  by (simp add: triple_def)

lemma triple_post:
  "triple P m Q R \<Longrightarrow> (\<And>x s. Q x s \<Longrightarrow> Q' x s) \<Longrightarrow> (\<And>e s. R e s \<Longrightarrow> R' e s) \<Longrightarrow> triple P m Q' R'"
  by (fastforce simp: triple_def split: prod.splits sum.splits)

lemma tripleD_ok: "triple P m Q R \<Longrightarrow> P s \<Longrightarrow> m s = (Inr x, s') \<Longrightarrow> Q x s'"
  by (fastforce simp: triple_def)

lemma tripleD_err: "triple P m Q R \<Longrightarrow> P s \<Longrightarrow> m s = (Inl e, s') \<Longrightarrow> R e s'"
  by (fastforce simp: triple_def)

lemma triple_same: "triple P m (\<lambda>_. P) (\<lambda>_. P) \<longleftrightarrow> (\<forall>s. P s \<longrightarrow> P (snd (m s)))"
proof -
  have "(case m s of (Inr x, s') \<Rightarrow> P s' | (Inl e, s') \<Rightarrow> P s') = P (snd (m s))" for s
    by (cases "m s"; cases "fst (m s)") auto
  then show ?thesis by (simp add: triple_def)
qed

lemma triple_option: "(x = None \<Longrightarrow> triple P f Q R) \<Longrightarrow> (\<And>y. x = Some y \<Longrightarrow> triple P (g y) Q R) \<Longrightarrow>
    triple P (case x of None \<Rightarrow> f | Some y \<Rightarrow> g y) Q R"
  by (cases x) simp_all

lemma triple_sum: "(\<And>e. x = Inl e \<Longrightarrow> triple P (f e) Q R) \<Longrightarrow> (\<And>y. x = Inr y \<Longrightarrow> triple P (g y) Q R) \<Longrightarrow>
    triple P (case x of Inl e \<Rightarrow> f e | Inr y \<Rightarrow> g y) Q R"
  by (cases x) simp_all

text \<open>Total correctness: the effect succeeds.\<close>

abbreviation succeeds :: "('s \<Rightarrow> bool) \<Rightarrow> ('s, 'e, 'a) eff \<Rightarrow> ('a \<Rightarrow> 's \<Rightarrow> bool) \<Rightarrow> bool" where
  "succeeds P m Q \<equiv> triple P m Q (\<lambda>_ _. False)"

lemma succeedsD: "succeeds P m Q \<Longrightarrow> P x \<Longrightarrow> \<exists>y z. m x = (Inr y, z) \<and> Q y z"
  by (cases "m x"; cases "fst (m x)") (auto simp: triple_def)

lemma triple_weaken_error: "succeeds P m Q \<Longrightarrow> triple P m Q R"
  by (erule triple_post) auto

lemma triple_both: "triple P m (\<lambda>_. Q) (\<lambda>_. Q) \<Longrightarrow> P x \<Longrightarrow> Q (snd (m x))"
  by (cases "m x"; cases "fst (m x)") (auto simp: triple_def)

lemma triple_ex:
  assumes "\<And>m. triple (P m) k Q R"
  shows "triple (\<lambda>x. \<exists>m. P m x) k Q R"
  unfolding triple_def
proof (intro allI impI, elim exE)
  fix x m
  assume "P m x"
  with assms [of m] show "case k x of (Inl e, s') \<Rightarrow> R e s' | (Inr y, s') \<Rightarrow> Q y s'"
    by (simp add: triple_def)
qed

lemma triple_pure: "(A \<Longrightarrow> triple P k Q R) \<Longrightarrow> triple (\<lambda>x. P x \<and> A) k Q R"
  by (auto simp: triple_def)

text \<open>An invariant kept by an effect whether it succeeds or fails, with a condition on the error.\<close>

definition keeps :: "('s \<Rightarrow> bool) \<Rightarrow> ('e \<Rightarrow> bool) \<Rightarrow> ('s, 'e, 'a) eff \<Rightarrow> bool" where
  "keeps K G m \<longleftrightarrow> triple K m (\<lambda>_. K) (\<lambda>e x. K x \<and> G e)"

lemma keeps_ret [simp]: "keeps K G (ret y)"
  by (simp add: keeps_def triple_ret)

lemma keeps_throw: "G e \<Longrightarrow> keeps K G (throw e)"
  by (simp add: keeps_def triple_throw)

lemma keeps_bind: "keeps K G m \<Longrightarrow> (\<And>y. keeps K G (k y)) \<Longrightarrow> keeps K G (bindE m k)"
  unfolding keeps_def by (rule triple_bind)

lemma keeps_state: "(\<And>x. K x \<Longrightarrow> keeps K G (k x)) \<Longrightarrow> keeps K G (with_state k)"
  by (auto simp: keeps_def triple_def bindE_def get_state_def)

lemma keeps_attempt: "keeps K G m \<Longrightarrow> (\<And>a. (\<forall>e. a = Inl e \<longrightarrow> G e) \<Longrightarrow> keeps K G (k a)) \<Longrightarrow> keeps K G (bindE (attempt m) k)"
  unfolding keeps_def
  by (rule triple_bind [where M = "\<lambda>a x. K x \<and> (\<forall>e. a = Inl e \<longrightarrow> G e)"], rule triple_attempt)
     (auto intro: triple_pure)

lemma keeps_modify: "(\<And>x. K x \<Longrightarrow> K (f x)) \<Longrightarrow> keeps K G (modify f)"
  by (simp add: keeps_def triple_modify)

lemma keeps_if: "(b \<Longrightarrow> keeps K G m) \<Longrightarrow> (\<not> b \<Longrightarrow> keeps K G n) \<Longrightarrow> keeps K G (if b then m else n)"
  by simp

lemma keeps_when: "(b \<Longrightarrow> keeps K G m) \<Longrightarrow> keeps K G (whenE b m)"
  by (simp add: whenE_def)

lemma keeps_sum: "(\<And>e. a = Inl e \<Longrightarrow> keeps K G (f e)) \<Longrightarrow> (\<And>y. a = Inr y \<Longrightarrow> keeps K G (g y)) \<Longrightarrow>
    keeps K G (case a of Inl e \<Rightarrow> f e | Inr y \<Rightarrow> g y)"
  by (cases a) simp_all

lemma keeps_option: "(a = None \<Longrightarrow> keeps K G f) \<Longrightarrow> (\<And>y. a = Some y \<Longrightarrow> keeps K G (g y)) \<Longrightarrow>
    keeps K G (case a of None \<Rightarrow> f | Some y \<Rightarrow> g y)"
  by (cases a) simp_all

lemma keepsD: "keeps K G m \<Longrightarrow> K x \<Longrightarrow> K (snd (m x)) \<and> (\<forall>e. fst (m x) = Inl e \<longrightarrow> G e)"
  by (cases "m x"; cases "fst (m x)") (auto simp: keeps_def triple_def)

lemmas keeps_rules = keeps_attempt keeps_bind keeps_state keeps_if keeps_when keeps_sum keeps_option

text \<open>
  A two-state contract relates the state before and after an effect whether or not it fails.
  Reflexive and transitive contracts compose along the code, which is what the rules of this
  locale say; the engine's frame, monotonicity and journal invariants are its instances.
\<close>

definition steps :: "('s \<Rightarrow> 's \<Rightarrow> bool) \<Rightarrow> ('s, 'e, 'a) eff \<Rightarrow> bool" where
  "steps R m \<longleftrightarrow> (\<forall>s. R s (snd (m s)))"

lemma stepsD: "steps R m \<Longrightarrow> R s (snd (m s))"
  by (simp add: steps_def)

definition steps_from :: "('s \<Rightarrow> bool) \<Rightarrow> ('s \<Rightarrow> 's \<Rightarrow> bool) \<Rightarrow> ('s, 'e, 'a) eff \<Rightarrow> bool" where
  "steps_from P R m \<longleftrightarrow> (\<forall>s. P s \<longrightarrow> R s (snd (m s)))"

text \<open>What holds after a successful effect, whatever happens on failure.\<close>

abbreviation after :: "('s \<Rightarrow> bool) \<Rightarrow> ('s, 'e, 'a) eff \<Rightarrow> ('a \<Rightarrow> 's \<Rightarrow> bool) \<Rightarrow> bool" where
  "after P m Q \<equiv> triple P m Q (\<lambda>_ _. True)"

locale step_contract =
  fixes R :: "'s \<Rightarrow> 's \<Rightarrow> bool"
  assumes R_refl: "R s s"
    and R_trans: "R s t \<Longrightarrow> R t u \<Longrightarrow> R s u"
begin

lemma steps_ret: "steps R (ret x)"
  by (simp add: steps_def ret_def R_refl)

lemma steps_throw: "steps R (throw e)"
  by (simp add: steps_def throw_def R_refl)

lemma steps_bind: "steps R m \<Longrightarrow> (\<And>x. steps R (k x)) \<Longrightarrow> steps R (bindE m k)"
proof -
  assume m: "steps R m" and k: "\<And>x. steps R (k x)"
  have "R s (snd (bindE m k s))" for s
  proof (cases "m s")
    case (Pair r s')
    with m have "R s s'" by (metis stepsD snd_conv)
    with k Pair show ?thesis
      by (cases r) (auto simp: bindE_def steps_def intro: R_trans)
  qed
  then show ?thesis by (simp add: steps_def)
qed

lemma steps_state: "(\<And>s. steps R (k s)) \<Longrightarrow> steps R (with_state k)"
  by (simp add: steps_def bindE_def get_state_def)

lemma steps_attempt: "steps R m \<Longrightarrow> steps R (attempt m)"
  by (simp add: steps_def attempt_def split: prod.splits) (metis snd_conv)

lemma steps_if: "(b \<Longrightarrow> steps R m) \<Longrightarrow> (\<not> b \<Longrightarrow> steps R n) \<Longrightarrow> steps R (if b then m else n)"
  by simp

lemma steps_when: "(b \<Longrightarrow> steps R m) \<Longrightarrow> steps R (whenE b m)"
  by (simp add: whenE_def steps_ret)

lemma steps_sum: "(\<And>e. x = Inl e \<Longrightarrow> steps R (f e)) \<Longrightarrow> (\<And>y. x = Inr y \<Longrightarrow> steps R (g y)) \<Longrightarrow>
    steps R (case x of Inl e \<Rightarrow> f e | Inr y \<Rightarrow> g y)"
  by (cases x) simp_all

lemma steps_option: "(x = None \<Longrightarrow> steps R f) \<Longrightarrow> (\<And>y. x = Some y \<Longrightarrow> steps R (g y)) \<Longrightarrow>
    steps R (case x of None \<Rightarrow> f | Some y \<Rightarrow> g y)"
  by (cases x) simp_all

lemma from_steps: "steps R m \<Longrightarrow> steps_from P R m"
  by (simp add: steps_def steps_from_def)

lemma from_bind:
  assumes m: "steps_from P R m" "after P m Q" and k: "\<And>x. steps_from (Q x) R (k x)"
  shows "steps_from P R (bindE m k)"
  unfolding steps_from_def
proof (intro allI impI)
  fix s
  assume s: "P s"
  show "R s (snd (bindE m k s))"
  proof (cases "m s")
    case (Pair r t)
    with s m(1) have "R s t" by (metis steps_from_def snd_conv)
    moreover have "R t (snd (k y t))" if "r = Inr y" for y
      using tripleD_ok [OF m(2) s, of y t] k [of y] Pair that by (simp add: steps_from_def)
    ultimately show ?thesis
      using Pair by (cases r) (auto simp: bindE_def intro: R_trans)
  qed
qed

lemma from_state: "(\<And>s. steps_from (\<lambda>t. P t \<and> t = s) R (k s)) \<Longrightarrow> steps_from P R (with_state k)"
  by (simp add: steps_from_def bindE_def get_state_def)

lemma from_pre: "steps_from P R m \<Longrightarrow> (\<And>s. P' s \<Longrightarrow> P s) \<Longrightarrow> steps_from P' R m"
  by (simp add: steps_from_def)

lemmas steps_rules = steps_ret steps_throw steps_bind steps_state steps_attempt steps_if
  steps_when steps_sum steps_option

end

end
