(* ===== verification/Repo_Types.thy ===== *)
theory Repo_Types
  imports Gateway_Prelude Complex_Main
begin

text \<open>
  The rows of the gateway's PostgreSQL tables (\<^verbatim>\<open>internal/repo/types.go\<close> and
  \<^verbatim>\<open>internal/repo/operations.go\<close>), with the enumerations their \<^verbatim>\<open>CHECK\<close> constraints fix.
  Nullable columns are options; JSON columns the gateway never interprets are text.
\<close>

section \<open>Enumerations\<close>

datatype WaitlistStatus = WaitlistPending | WaitlistApproved | WaitlistRejected

datatype ReservationState = ReservationOpen | ReservationCommitted | ReservationRefunded

datatype SettleState = SettleNone | SettlePending | SettleSettled | SettleRefunded | SettleFailed

datatype LiveStreamStatus = LiveProvisioning | LiveActive | LiveEnded | LiveFailed

text \<open>The text of a status column; the \<^verbatim>\<open>CHECK\<close> constraint of \<^verbatim>\<open>live_streams.status\<close> admits
  exactly these four values.\<close>

fun live_status_text :: "LiveStreamStatus \<Rightarrow> string" where
  "live_status_text LiveProvisioning = ''provisioning''"
| "live_status_text LiveActive = ''live''"
| "live_status_text LiveEnded = ''ended''"
| "live_status_text LiveFailed = ''failed''"

definition live_status_check :: "string \<Rightarrow> LiveStreamStatus option" where
  "live_status_check s =
     (if s = ''provisioning'' then Some LiveProvisioning
      else if s = ''live'' then Some LiveActive
      else if s = ''ended'' then Some LiveEnded
      else if s = ''failed'' then Some LiveFailed
      else None)"

lemma live_status_check_text [simp]: "live_status_check (live_status_text st) = Some st"
  by (cases st) (simp_all add: live_status_check_def)

lemma live_status_check_Some: "live_status_check s = Some st \<longleftrightarrow> s = live_status_text st"
  by (cases st) (auto simp: live_status_check_def split: if_splits)

section \<open>Rows\<close>

record Waitlist =
  wl_ID :: uuid
  wl_Name :: string
  wl_Email :: string
  wl_IPHash :: "string option"
  wl_EmailVerifiedAt :: "time option"
  wl_VerificationTokenHash :: "string option"
  wl_VerificationTokenExpiresAt :: "time option"
  wl_Status :: WaitlistStatus
  wl_ApprovedAt :: "time option"
  wl_ApprovedBy :: "string option"
  wl_CreatedAt :: time

record APIKey =
  ak_ID :: uuid
  ak_WaitlistID :: uuid
  ak_Label :: "string option"
  ak_KeyPrefix :: string
  ak_KeyHash :: string
  ak_CreatedAt :: time
  ak_LastUsedAt :: "time option"
  ak_RevokedAt :: "time option"

record UserSession =
  us_ID :: uuid
  us_APIKeyID :: uuid
  us_SessionHash :: string
  us_ExpiresAt :: time
  us_RevokedAt :: "time option"
  us_CreatedAt :: time

text \<open>\<^verbatim>\<open>usage_reservations\<close>; the last column is the foreign key of migration 0005 that the Go
  struct does not scan.\<close>

record UsageReservation =
  ur_ID :: uuid
  ur_APIKeyID :: uuid
  ur_WorkID :: uuid
  ur_Capability :: string
  ur_Offering :: string
  ur_BrokerURL :: "string option"
  ur_EthAddress :: "string option"
  ur_State :: ReservationState
  ur_EstimatedWorkUnits :: "int option"
  ur_CommittedWorkUnits :: "int option"
  ur_PricePerWorkUnitWei :: "wei option"
  ur_LatencyMs :: "int option"
  ur_StatusCode :: "int option"
  ur_ErrorText :: "string option"
  ur_RunnerJobID :: "string option"
  ur_WebhookSecret :: "string option"
  ur_RunnerStatus :: "string option"
  ur_RunnerPhase :: "string option"
  ur_RunnerProgress :: "rat option"
  ur_RunnerErrorCode :: "string option"
  ur_RunnerErrorText :: "string option"
  ur_RunnerStateJSON :: "string option"
  ur_RunnerCompletedAt :: "time option"
  ur_LOCJobID :: "uuid option"
  ur_LOCWorkID :: "string option"
  ur_FundedValueWei :: "wei option"
  ur_ExpectedValueWei :: "wei option"
  ur_BilledValueWei :: "wei option"
  ur_SettledAt :: "time option"
  ur_SettleState :: SettleState
  ur_CreatedAt :: time
  ur_ResolvedAt :: "time option"
  ur_live_stream_id :: "uuid option"

record LiveStream =
  ls_ID :: uuid
  ls_APIKeyID :: uuid
  ls_ReservationID :: "uuid option"
  ls_Name :: "string option"
  ls_Status :: LiveStreamStatus
  ls_Capability :: string
  ls_Offering :: string
  ls_BrokerURL :: "string option"
  ls_EthAddress :: "string option"
  ls_IngestURL :: "string option"
  ls_StreamKeyHash :: "string option"
  ls_PlaybackURL :: "string option"
  ls_LadderJSON :: "string option"
  ls_ErrorText :: "string option"
  ls_BrokerSessionID :: "string option"
  ls_RunnerSessionID :: "string option"
  ls_BrokerWorkID :: "uuid option"
  ls_CloseReason :: "string option"
  ls_LastBrokerSyncAt :: "time option"
  ls_S3OutputPrefix :: "string option"
  ls_PrivateIngestURL :: "string option"
  ls_StreamKeyHint :: "string option"
  ls_CreatedAt :: time
  ls_StartedAt :: "time option"
  ls_LastHeartbeatAt :: "time option"
  ls_EndedAt :: "time option"
  ls_RunnerStatusJSON :: "string option"
  ls_LOCSessionID :: "uuid option"
  ls_LOCWorkID :: "string option"
  ls_LOCRefillCount :: int
  ls_LOCClosedAt :: "time option"

section \<open>Numeric columns as text\<close>

text \<open>
  \<^verbatim>\<open>numeric(78,0)\<close> columns cross the driver as decimal text: \<^verbatim>\<open>stringifyBig\<close> writes it and
  \<^verbatim>\<open>parseBig\<close> reads it back with \<^verbatim>\<open>big.Int.SetString(s, 10)\<close>, which accepts an optional sign
  and decimal digits only.
\<close>

definition digit_val :: "char \<Rightarrow> nat option" where
  "digit_val c = (let n = (of_char c :: nat) in if 48 \<le> n \<and> n \<le> 57 then Some (n - 48) else None)"

fun parse_digits :: "nat \<Rightarrow> string \<Rightarrow> nat option" where
  "parse_digits acc [] = Some acc"
| "parse_digits acc (c # cs) =
     (case digit_val c of None \<Rightarrow> None | Some d \<Rightarrow> parse_digits (10 * acc + d) cs)"

definition parse_nat10 :: "string \<Rightarrow> nat option" where
  "parse_nat10 s = (if s = [] then None else parse_digits 0 s)"

definition SetString10 :: "string \<Rightarrow> int option" where
  "SetString10 s = (case s of
      [] \<Rightarrow> None
    | c # cs \<Rightarrow> if c = CHR ''-'' then map_option (\<lambda>n. - int n) (parse_nat10 cs)
                else if c = CHR ''+'' then map_option int (parse_nat10 cs)
                else map_option int (parse_nat10 s))"

definition parseBig :: "string option \<Rightarrow> wei option" where
  "parseBig s = (case s of
      None \<Rightarrow> None
    | Some t \<Rightarrow> if t = [] then None else SetString10 t)"

definition stringifyBig :: "wei option \<Rightarrow> string option" where
  "stringifyBig b = map_option int_text b"

lemma of_char_char_of_digit: "n < 10 \<Longrightarrow> (of_char (char_of (48 + n)) :: nat) = 48 + n"
  by (simp add: of_char_of)

lemma digit_val_char [simp]: "n < 10 \<Longrightarrow> digit_val (char_of (48 + n)) = Some n"
  by (simp add: digit_val_def of_char_char_of_digit Let_def)

lemma parse_digits_append:
  "parse_digits acc (xs @ ys) =
     (case parse_digits acc xs of None \<Rightarrow> None | Some a \<Rightarrow> parse_digits a ys)"
  by (induction acc xs rule: parse_digits.induct) (auto split: option.splits)

lemma parse_digits_nat_text: "parse_digits 0 (nat_text n) = Some n"
proof (induction n rule: nat_text.induct)
  case (1 n)
  show ?case
  proof (cases "n < 10")
    case True
    then show ?thesis by (subst nat_text.simps) simp
  next
    case False
    with "1.IH" have "parse_digits 0 (nat_text (n div 10)) = Some (n div 10)" by simp
    with False show ?thesis
      by (subst nat_text.simps) (simp add: parse_digits_append)
  qed
qed

lemma nat_text_hd_digit: "\<exists>d < 10. hd (nat_text n) = char_of (48 + d :: nat)"
proof (induction n rule: nat_text.induct)
  case (1 n)
  show ?case
  proof (cases "n < 10")
    case True
    then have "hd (nat_text n) = char_of (48 + n)" by (subst nat_text.simps) simp
    with True show ?thesis by blast
  next
    case False
    with "1.IH" show ?thesis by (subst nat_text.simps) simp
  qed
qed

lemma digit_char_not_sign:
  assumes "d < 10"
  shows "char_of (48 + d :: nat) \<noteq> CHR ''-''" and "char_of (48 + d :: nat) \<noteq> CHR ''+''"
proof -
  have d: "(of_char (char_of (48 + d :: nat)) :: nat) = 48 + d"
    using assms by (rule of_char_char_of_digit)
  have ne: "c \<noteq> char_of (48 + d :: nat)" if "(of_char c :: nat) < 48" for c
    using d that by auto
  show "char_of (48 + d :: nat) \<noteq> CHR ''-''"
    by (rule not_sym [OF ne]) simp
  show "char_of (48 + d :: nat) \<noteq> CHR ''+''"
    by (rule not_sym [OF ne]) simp
qed

lemma SetString10_nat_text: "SetString10 (nat_text n) = Some (int n)"
proof -
  obtain c cs where c: "nat_text n = c # cs" by (cases "nat_text n") auto
  then have "c = hd (nat_text n)" by simp
  then have "c \<noteq> CHR ''-''" and "c \<noteq> CHR ''+''"
    using nat_text_hd_digit [of n] digit_char_not_sign by metis+
  then show ?thesis
    using c parse_digits_nat_text [of n] by (simp add: SetString10_def parse_nat10_def)
qed

lemma SetString10_int_text: "SetString10 (int_text n) = Some n"
proof (cases "n < 0")
  case True
  then show ?thesis
    by (simp add: int_text_def SetString10_def parse_nat10_def parse_digits_nat_text)
next
  case False
  then show ?thesis by (simp add: int_text_def SetString10_nat_text)
qed

lemma int_text_nonempty [simp]: "int_text n \<noteq> []"
  by (simp add: int_text_def)

lemma parseBig_stringifyBig: "parseBig (stringifyBig b) = b"
  by (cases b) (simp_all add: parseBig_def stringifyBig_def SetString10_int_text)

section \<open>Properties\<close>

text \<open>Wei amounts survive the database. An arbitrary-precision amount written as numeric text reads
  back as the same amount, and an absent one as absent.\<close>

theorem wei_column_roundtrip: "parseBig (stringifyBig b) = b"
  by (rule parseBig_stringifyBig)

end
