(* ===== verification/Upstream.thy ===== *)
theory Upstream
  imports Repo_Types
begin

text \<open>
  What the gateway knows of a failed upstream exchange: the error values of
  \<^verbatim>\<open>internal/proxy/loc/errors.go\<close>, \<^verbatim>\<open>internal/proxy/livepeer/errors.go\<close> and of the Go standard
  library that the gateway distinguishes, with the predicates that classify them; and the shape
  of an HTTP response. JSON text is parsed by the standard library: parsers are parameters, and
  dynamically typed JSON (\<^verbatim>\<open>map[string]any\<close> decoded with \<^verbatim>\<open>UseNumber\<close>) is a datatype.
\<close>

section \<open>JSON values and HTTP responses\<close>

datatype json = JNull | JBool bool | JNum string | JStr string
  | JArr "json list" | JObj "(string \<times> json) list"

definition jfield :: "json \<Rightarrow> string \<Rightarrow> json" where
  "jfield j k = (case j of
      JObj fs \<Rightarrow> (case map_of fs k of Some v \<Rightarrow> v | None \<Rightarrow> JNull)
    | _ \<Rightarrow> JNull)"

definition is_obj :: "json \<Rightarrow> bool" where
  "is_obj j = (case j of JObj _ \<Rightarrow> True | _ \<Rightarrow> False)"

type_synonym header = "(string \<times> string) list"

text \<open>\<^verbatim>\<open>http.Header.Get\<close>: the first value, or the empty string.\<close>

definition hget :: "header \<Rightarrow> string \<Rightarrow> string" where
  "hget h k = (case map_of h k of None \<Rightarrow> '''' | Some v \<Rightarrow> v)"

section \<open>Errors\<close>

record APIError =
  ae_StatusCode :: int
  ae_Code :: string
  ae_Message :: string
  ae_Details :: "(string \<times> json) list"
  ae_RetryAfter :: int

record BrokerError =
  be_URL :: string
  be_StatusCode :: int
  be_Body :: string

text \<open>
  An error value as \<^verbatim>\<open>errors.As\<close> sees it: a LOC or broker response, a pending exchange (which
  unwraps to \<^verbatim>\<open>ErrAccountingPending\<close>), a deadline, a network error with its \<^verbatim>\<open>Timeout()\<close>, a
  database failure, a huma HTTP error of the API layer, or a plain \<^verbatim>\<open>errors.New\<close>.
\<close>

datatype err =
    LocErr APIError
  | BrokerErr BrokerError
  | ExchangePending string
  | AccountingPending
  | DeadlineExceeded
  | Canceled
  | NetErr bool
  | DbErr string
  | HumaErr int string
  | Msg string

section \<open>LOC error classification\<close>

definition codeIs :: "err \<Rightarrow> string list \<Rightarrow> bool" where
  "codeIs e codes = (case e of
      LocErr a \<Rightarrow> list_ex (\<lambda>c. EqualFold (ae_Code a) c) codes
    | _ \<Rightarrow> False)"

definition IsInsufficientCredit :: "err \<Rightarrow> bool" where
  "IsInsufficientCredit e = codeIs e [''INSUFFICIENT_CREDIT'', ''SPEND_CAP_EXCEEDED'', ''cap_reached'']"

definition IsNoRoute :: "err \<Rightarrow> bool" where
  "IsNoRoute e = codeIs e [''NO_ROUTE_AVAILABLE'']"

definition IsNotFound :: "err \<Rightarrow> bool" where
  "IsNotFound e = codeIs e [''job_not_found'', ''session_not_found'']"

definition IsAlreadySettled :: "err \<Rightarrow> bool" where
  "IsAlreadySettled e = codeIs e [''job_already_settled'', ''session_not_open'']"

definition IsDaemonUnavailable :: "err \<Rightarrow> bool" where
  "IsDaemonUnavailable e = codeIs e [''DAEMON_UNAVAILABLE'']"

definition LocIsRetryable :: "err option \<Rightarrow> bool" where
  "LocIsRetryable eo = (case eo of
      None \<Rightarrow> False
    | Some (LocErr a) \<Rightarrow> ae_StatusCode a = 429 \<or> (ae_StatusCode a \<ge> 500 \<and> ae_StatusCode a \<le> 599)
    | Some _ \<Rightarrow> True)"

definition retryAfterOf :: "err \<Rightarrow> int" where
  "retryAfterOf e = (case e of LocErr a \<Rightarrow> ae_RetryAfter a | _ \<Rightarrow> 0)"

text \<open>\<^verbatim>\<open>strings.TrimSpace\<close> on ASCII white space, \<^verbatim>\<open>strconv.Atoi\<close> at 64 bits.\<close>

definition is_space :: "char \<Rightarrow> bool" where
  "is_space c \<longleftrightarrow> (of_char c :: nat) \<in> {9, 10, 11, 12, 13, 32}"

definition TrimSpace :: "string \<Rightarrow> string" where
  "TrimSpace s = rev (dropWhile is_space (rev (dropWhile is_space s)))"

definition ParseInt64 :: "string \<Rightarrow> int option" where
  "ParseInt64 s = (case SetString10 s of
      None \<Rightarrow> None | Some n \<Rightarrow> if int64_range n then Some n else None)"

definition truncate_body :: "string \<Rightarrow> nat \<Rightarrow> string" where
  "truncate_body b n = (if length b \<le> n then b else take n b @ [CHR 0xE2, CHR 0x80, CHR 0xA6])"

text \<open>The first argument is \<^verbatim>\<open>json.Unmarshal\<close> into LOC's envelope: code, message, details.\<close>

definition parseAPIError :: "(string \<Rightarrow> (string \<times> string \<times> (string \<times> json) list) option) \<Rightarrow>
    int \<Rightarrow> string \<Rightarrow> string \<Rightarrow> APIError" where
  "parseAPIError unmarshal status retryAfter body =
     (let out = \<lparr>ae_StatusCode = status, ae_Code = '''', ae_Message = ''HTTP '' @ int_text status,
                 ae_Details = [], ae_RetryAfter = 0\<rparr>;
          out = (case ParseInt64 (TrimSpace retryAfter) of
                   Some secs \<Rightarrow> if secs > 0 then out\<lparr>ae_RetryAfter := wrap64 (secs * second)\<rparr> else out
                 | None \<Rightarrow> out);
          raw = (if length body > 0 then out\<lparr>ae_Message := truncate_body body 200\<rparr> else out)
      in case unmarshal body of
           Some (code, msg, details) \<Rightarrow>
             if code \<noteq> '''' \<or> msg \<noteq> ''''
             then out\<lparr>ae_Code := code, ae_Message := (if msg \<noteq> '''' then msg else ae_Message out),
                      ae_Details := details\<rparr>
             else raw
         | None \<Rightarrow> raw)"

definition credit_code :: "err \<Rightarrow> string" where
  "credit_code e = (case e of
      LocErr a \<Rightarrow> if EqualFold (ae_Code a) ''SPEND_CAP_EXCEEDED'' then ''spend_cap_exceeded''
                  else if EqualFold (ae_Code a) ''cap_reached'' then ''session_cap_reached''
                  else ''insufficient_credit''
    | _ \<Rightarrow> ''insufficient_credit'')"

definition credit_text :: "string \<Rightarrow> string" where
  "credit_text code =
     (if code = ''spend_cap_exceeded'' then
        ''Payment required: the spend cap for the current period has been reached. Raise the per-period spend cap or wait for the next period.''
      else if code = ''session_cap_reached'' then
        ''Payment required: the session/credit cap has been reached. Raise the cap or wait for it to reset.''
      else ''Payment required: your prepaid credit balance can't cover this session (reserved = price '' @
        [CHR 0xC3, CHR 0x97] @ '' runway). Top up your credit balance and retry.'')"

text \<open>\<^verbatim>\<open>CreditError\<close>: code and message; the hint prints whole seconds of a positive Retry-After.\<close>

definition CreditError :: "err \<Rightarrow> string \<times> string" where
  "CreditError e =
     (let code = credit_code e; message = credit_text code in
      (code, if retryAfterOf e > 0
             then message @ '' Retry after ~'' @ int_text (retryAfterOf e div second) @ ''s.''
             else message))"

section \<open>Broker error classification\<close>

definition BrokerIsRetryable :: "err option \<Rightarrow> bool" where
  "BrokerIsRetryable eo = (case eo of
      None \<Rightarrow> False
    | Some (BrokerErr b) \<Rightarrow> be_StatusCode b = 429 \<or> (be_StatusCode b \<ge> 500 \<and> be_StatusCode b \<le> 599)
    | Some _ \<Rightarrow> True)"

definition contains :: "string \<Rightarrow> string \<Rightarrow> bool" where
  "contains s sub \<longleftrightarrow> sublist sub s"

definition IsInvalidRecipientRandError :: "err option \<Rightarrow> bool" where
  "IsInvalidRecipientRandError eo = (case eo of
      Some (BrokerErr b) \<Rightarrow> be_StatusCode b = 401 \<and> contains (be_Body b) ''INVALID_RECIPIENT_RAND''
    | _ \<Rightarrow> False)"

text \<open>The first argument reads \<^verbatim>\<open>error.code\<close> of a JSON body, \<^const>\<open>None\<close> when it does not decode.\<close>

definition IsRefillRefusedError :: "(string \<Rightarrow> string option) \<Rightarrow> err \<Rightarrow> bool" where
  "IsRefillRefusedError error_code e = (case e of
      BrokerErr b \<Rightarrow> be_StatusCode b = 409 \<and> error_code (be_Body b) = Some ''refill_refused''
    | _ \<Rightarrow> False)"

section \<open>Facts\<close>

lemma EqualFold_refl [simp]: "EqualFold a a"
  by (simp add: EqualFold_def)

lemma EqualFold_trans: "EqualFold a b \<Longrightarrow> EqualFold a c \<Longrightarrow> EqualFold b c"
  by (simp add: EqualFold_def)

lemma IsInsufficientCredit_LocErr: "IsInsufficientCredit e \<Longrightarrow> \<exists>a. e = LocErr a"
  by (cases e) (simp_all add: IsInsufficientCredit_def codeIs_def)

lemma IsAlreadySettled_LocErr: "IsAlreadySettled e \<Longrightarrow> \<exists>a. e = LocErr a"
  by (cases e) (simp_all add: IsAlreadySettled_def codeIs_def)

lemma parseAPIError_status [simp]: "ae_StatusCode (parseAPIError u status ra body) = status"
  by (simp add: parseAPIError_def Let_def split: option.splits prod.splits)

lemma parseAPIError_code:
  "ae_Code (parseAPIError u status ra body) =
     (case u body of Some (code, msg, _) \<Rightarrow> if code \<noteq> '''' \<or> msg \<noteq> '''' then code else '''' | None \<Rightarrow> '''')"
  by (simp add: parseAPIError_def Let_def split: option.splits prod.splits)

end
