(* ===== verification/LOC_Client.thy ===== *)
theory LOC_Client
  imports Upstream
begin

text \<open>
  \<^verbatim>\<open>internal/proxy/loc\<close>: the Livepeer Open Clearinghouse client. The remote service is a
  parameter: an effect that performs one HTTP exchange and returns the decoded body or the error
  \<^verbatim>\<open>doJSONHeaders\<close> builds. What is modelled is the client's own code around it: the idempotency
  key guard of \<^verbatim>\<open>issueV2\<close>, the acceptance checks on every authorization response, the claim
  guards of settle and close, and the bounded retry of accounting calls.
\<close>

section \<open>Wire types\<close>

record CreateJobRequestV2 =
  cj_RequestID :: string
  cj_Capability :: string
  cj_Offering :: string
  cj_Transport :: string
  cj_EstimatedUnits :: int
  cj_MaxTotalUnits :: int
  cj_WorkloadRequestDigest :: string
  cj_CallerPublicKey :: string

record CreateJobResponseV2 =
  job_JobID :: uuid
  job_RequestID :: string
  job_WorkID :: string
  job_BrokerURL :: string
  job_Protocol :: string
  job_Transport :: string
  job_WorkUnit :: string
  job_SpendAuthorization :: string
  job_AccountingMode :: string
  job_ExpectedValueWei :: "wei option"
  job_FundedValueWei :: "wei option"

record SettleJobRequestV2 =
  sj_ActualUnits :: int
  sj_BrokerJobID :: string
  sj_WorkUnit :: string
  sj_Settlement :: "json option"

record SettleJobResponse =
  sr_JobID :: uuid
  sr_WorkID :: string
  sr_ActualUnits :: int
  sr_BilledValueWei :: "wei option"
  sr_RefundWei :: "wei option"
  sr_Outcome :: string
  sr_ClosedAt :: time

record PrepareSessionRequestV2 =
  ps_RequestID :: string
  ps_Capability :: string
  ps_Offering :: string
  ps_DescriptorSchema :: string

record PrepareSessionResponseV2 =
  prep_GatewaySessionID :: uuid
  prep_RouteBinding :: json
  prep_BrokerURL :: string
  prep_PreparationToken :: string
  prep_ExpiresAt :: time

record CreateSessionRequestV2 =
  cs_RequestID :: string
  cs_Capability :: string
  cs_Offering :: string
  cs_DescriptorSchema :: string
  cs_SessionParams :: json
  cs_EstimatedRunwayUnits :: int
  cs_MaxTotalUnits :: int
  cs_GatewaySessionID :: uuid
  cs_PreparationToken :: string
  cs_RouteBinding :: json
  cs_WorkloadRequestDigest :: string
  cs_CallerPublicKey :: string

record CreateSessionResponseV2 =
  sess_SessionID :: uuid
  sess_RequestID :: string
  sess_WorkID :: string
  sess_BrokerURL :: string
  sess_Protocol :: string
  sess_DescriptorSchema :: string
  sess_Refill :: string
  sess_SpendAuthorization :: string
  sess_AccountingMode :: string
  sess_ExpectedValueWei :: "wei option"
  sess_FundedValueWei :: "wei option"

record RefillSessionRequestV2 =
  rf_RequestID :: string
  rf_ObservedConsumedUnits :: "int option"
  rf_MaxTotalUnits :: int
  rf_WorkloadRequestDigest :: string

record RefillSessionResponseV2 =
  refill_WorkID :: string
  refill_RequestID :: string
  refill_RefillSeq :: int
  refill_SpendAuthorization :: string
  refill_AccountingMode :: string

record CloseSessionRequestV2 =
  cl_ActualUnits :: int
  cl_Settlement :: "json option"

record CloseSessionResponse =
  cr_SessionID :: uuid
  cr_WorkID :: string
  cr_ActualUnits :: int
  cr_BilledValueWei :: "wei option"
  cr_ClosedAt :: time

record JobStatusResponseV2 =
  js_JobID :: uuid
  js_State :: string
  js_AccountingOutcome :: string
  js_BrokerExchangeOutcome :: "string option"
  js_ActualUnits :: "int option"
  js_BilledValueWei :: "wei option"
  js_ClosedAt :: "time option"

record SessionStatusResponse =
  ss_SessionID :: uuid
  ss_State :: string
  ss_BilledValueWei :: "wei option"
  ss_ActualUnits :: "int option"
  ss_ClosedAt :: "time option"

section \<open>Issuance\<close>

text \<open>\<^verbatim>\<open>issueV2\<close> refuses to send without a persisted idempotency key.\<close>

definition issueV2 :: "string \<Rightarrow> ('s, err, 'a) eff \<Rightarrow> ('s, err, 'a) eff" where
  "issueV2 rid send = (if rid = '''' then throw (Msg ''loc: persistent idempotency key is required'') else send)"

definition job_response_ok :: "CreateJobRequestV2 \<Rightarrow> CreateJobResponseV2 \<Rightarrow> bool" where
  "job_response_ok i r \<longleftrightarrow> \<not> (job_Protocol r \<noteq> ''paid-job/v1'' \<or> job_Transport r \<noteq> cj_Transport i \<or>
     job_RequestID r = '''' \<or> job_AccountingMode r \<noteq> ''wholesale_account'' \<or>
     job_SpendAuthorization r = '''' \<or> job_WorkID r = '''' \<or> job_JobID r = uuid_nil \<or> job_WorkUnit r = '''')"

definition CreateJobV2 :: "(CreateJobRequestV2 \<Rightarrow> ('s, err, CreateJobResponseV2) eff) \<Rightarrow>
    CreateJobRequestV2 \<Rightarrow> ('s, err, CreateJobResponseV2) eff" where
  "CreateJobV2 post i = bindE (issueV2 (cj_RequestID i) (post i)) (\<lambda>r.
     if job_response_ok i r then ret r else throw (Msg ''loc: invalid paid-job authorization response''))"

definition prepare_response_ok :: "PrepareSessionResponseV2 \<Rightarrow> bool" where
  "prepare_response_ok r \<longleftrightarrow> \<not> (prep_GatewaySessionID r = uuid_nil \<or> prep_PreparationToken r = '''' \<or> prep_BrokerURL r = '''')"

definition PrepareSessionV2 :: "(PrepareSessionRequestV2 \<Rightarrow> ('s, err, PrepareSessionResponseV2) eff) \<Rightarrow>
    PrepareSessionRequestV2 \<Rightarrow> ('s, err, PrepareSessionResponseV2) eff" where
  "PrepareSessionV2 post i = bindE (issueV2 (ps_RequestID i) (post i)) (\<lambda>r.
     if prepare_response_ok r then ret r else throw (Msg ''loc: incomplete session preparation''))"

definition session_response_ok :: "CreateSessionRequestV2 \<Rightarrow> CreateSessionResponseV2 \<Rightarrow> bool" where
  "session_response_ok i r \<longleftrightarrow> \<not> (sess_Protocol r \<noteq> ''paid-session/v1'' \<or>
     sess_DescriptorSchema r \<noteq> cs_DescriptorSchema i \<or> sess_RequestID r = '''' \<or>
     sess_AccountingMode r \<noteq> ''wholesale_account'' \<or> sess_SpendAuthorization r = '''' \<or>
     sess_SessionID r = uuid_nil \<or> sess_WorkID r = '''')"

definition LocOpenSessionV2 :: "(CreateSessionRequestV2 \<Rightarrow> ('s, err, CreateSessionResponseV2) eff) \<Rightarrow>
    CreateSessionRequestV2 \<Rightarrow> ('s, err, CreateSessionResponseV2) eff" where
  "LocOpenSessionV2 post i = bindE (issueV2 (cs_RequestID i) (post i)) (\<lambda>r.
     if session_response_ok i r then ret r else throw (Msg ''loc: invalid paid-session authorization response''))"

definition refill_response_ok :: "RefillSessionResponseV2 \<Rightarrow> bool" where
  "refill_response_ok r \<longleftrightarrow> \<not> (refill_RequestID r = '''' \<or> refill_SpendAuthorization r = '''' \<or>
     refill_AccountingMode r \<noteq> ''wholesale_account'')"

definition RefillSessionV2 :: "(RefillSessionRequestV2 \<Rightarrow> ('s, err, RefillSessionResponseV2) eff) \<Rightarrow>
    RefillSessionRequestV2 \<Rightarrow> ('s, err, RefillSessionResponseV2) eff" where
  "RefillSessionV2 post i = bindE (issueV2 (rf_RequestID i) (post i)) (\<lambda>r.
     if refill_response_ok r then ret r else throw (Msg ''loc: invalid authorization revision response''))"

section \<open>Bounded retry\<close>

text \<open>
  \<^verbatim>\<open>doJSONRetry\<close> with \<^verbatim>\<open>attempts = Suc r\<close>: the result of the last attempt is returned as it
  is; before every other one the loop waits for the backoff, which doubles, or for the server's
  positive Retry-After. \<open>wait\<close> is the \<^verbatim>\<open>select\<close> on the timer and the context and fails when the
  context is done.
\<close>

fun doJSONRetry :: "('s, err, 'a) eff \<Rightarrow> (int \<Rightarrow> ('s, err, unit) eff) \<Rightarrow> int \<Rightarrow> nat \<Rightarrow> ('s, err, 'a) eff" where
  "doJSONRetry call wait backoff 0 = call"
| "doJSONRetry call wait backoff (Suc r) = bindE (attempt call) (\<lambda>x. case x of
      Inr y \<Rightarrow> ret y
    | Inl e \<Rightarrow> if \<not> LocIsRetryable (Some e) then throw e
               else thenE (wait (if retryAfterOf e > 0 then retryAfterOf e else backoff))
                      (doJSONRetry call wait (wrap64 (backoff * 2)) r))"

abbreviation loc_retry :: "('s, err, 'a) eff \<Rightarrow> (int \<Rightarrow> ('s, err, unit) eff) \<Rightarrow> ('s, err, 'a) eff" where
  "loc_retry call wait \<equiv> doJSONRetry call wait 200000000 2"

definition SettleJobV2 :: "(SettleJobRequestV2 \<Rightarrow> ('s, err, SettleJobResponse) eff) \<Rightarrow>
    (int \<Rightarrow> ('s, err, unit) eff) \<Rightarrow> SettleJobRequestV2 \<Rightarrow> ('s, err, SettleJobResponse) eff" where
  "SettleJobV2 post wait i =
     (if sj_Settlement i = None \<or> sj_BrokerJobID i = '''' \<or> sj_WorkUnit i = '''' \<or> sj_ActualUnits i < 0
      then throw (Msg ''loc: signed terminal claim required'')
      else loc_retry (post i) wait)"

definition CloseSessionV2 :: "(CloseSessionRequestV2 \<Rightarrow> ('s, err, CloseSessionResponse) eff) \<Rightarrow>
    (int \<Rightarrow> ('s, err, unit) eff) \<Rightarrow> CloseSessionRequestV2 \<Rightarrow> ('s, err, CloseSessionResponse) eff" where
  "CloseSessionV2 post wait i =
     (if cl_Settlement i = None \<or> cl_ActualUnits i < 0
      then throw (Msg ''loc: signed terminal claim required'')
      else loc_retry (post i) wait)"

section \<open>Facts\<close>

text \<open>
  The accounting retry against a scripted service: the \<open>n\<close>-th call returns \<open>f n\<close> and no wait is
  cancelled. The state counts the calls and lists the waits.
\<close>

definition scripted_call :: "(nat \<Rightarrow> err + 'a) \<Rightarrow> (nat \<times> int list, err, 'a) eff" where
  "scripted_call f = (\<lambda>(n, ws). (f n, (Suc n, ws)))"

definition scripted_wait :: "int \<Rightarrow> (nat \<times> int list, err, unit) eff" where
  "scripted_wait d = (\<lambda>(n, ws). (Inr (), (n, ws @ [d])))"

definition retryable_result :: "err + 'a \<Rightarrow> bool" where
  "retryable_result x = (case x of Inl e \<Rightarrow> LocIsRetryable (Some e) | Inr _ \<Rightarrow> False)"

lemma doJSONRetry_step:
  "doJSONRetry (scripted_call f) scripted_wait b (Suc r) (n, ws) =
     (if retryable_result (f n)
      then doJSONRetry (scripted_call f) scripted_wait (wrap64 (b * 2)) r
             (Suc n, ws @ [case f n of Inl e \<Rightarrow> if retryAfterOf e > 0 then retryAfterOf e else b | Inr _ \<Rightarrow> 0])
      else (f n, (Suc n, ws)))"
  by (cases "f n")
     (simp_all add: scripted_call_def scripted_wait_def retryable_result_def eng_simps)

lemma doJSONRetry_spec:
  "\<exists>k \<le> r. fst (doJSONRetry (scripted_call f) scripted_wait b r (n, ws)) = f (n + k)
     \<and> fst (snd (doJSONRetry (scripted_call f) scripted_wait b r (n, ws))) = n + k + 1
     \<and> (\<forall>j < k. retryable_result (f (n + j)))
     \<and> (k < r \<longrightarrow> \<not> retryable_result (f (n + k)))"
proof (induction r arbitrary: b n ws)
  case 0
  show ?case by (simp add: scripted_call_def)
next
  case (Suc r)
  show ?case
  proof (cases "retryable_result (f n)")
    case False
    then show ?thesis unfolding doJSONRetry_step by (intro exI [of _ 0]) simp
  next
    case True
    define ws' where "ws' = ws @ [case f n of Inl e \<Rightarrow> if retryAfterOf e > 0 then retryAfterOf e else b | Inr _ \<Rightarrow> 0]"
    obtain k where k: "k \<le> r"
        "fst (doJSONRetry (scripted_call f) scripted_wait (wrap64 (b * 2)) r (Suc n, ws')) = f (Suc n + k)"
        "fst (snd (doJSONRetry (scripted_call f) scripted_wait (wrap64 (b * 2)) r (Suc n, ws'))) = Suc n + k + 1"
        "\<forall>j < k. retryable_result (f (Suc n + j))"
        "k < r \<longrightarrow> \<not> retryable_result (f (Suc n + k))"
      using Suc.IH [of "wrap64 (b * 2)" "Suc n" ws'] by blast
    from True k(4) have "\<forall>j < Suc k. retryable_result (f (n + j))"
      by (auto simp: less_Suc_eq_0_disj)
    with True k show ?thesis
      unfolding doJSONRetry_step ws'_def by (intro exI [of _ "Suc k"]) simp
  qed
qed

lemma doJSONRetry_terminal:
  assumes "f n = Inl e" and "\<not> LocIsRetryable (Some e)"
  shows "doJSONRetry (scripted_call f) scripted_wait b r (n, ws) = (Inl e, (Suc n, ws))"
  using assms by (cases r) (simp_all add: scripted_call_def eng_simps)

lemma issueV2_needs_key: "issueV2 '''' send s = (Inl (Msg ''loc: persistent idempotency key is required''), s)"
  by (simp add: issueV2_def throw_def)

text \<open>LOC's accounting calls are retried within bounds. A complete settlement is posted one to three
  times; the answer is that of the last post; every earlier post failed retryably, and a
  definitive answer is never followed by another post.\<close>

theorem SettleJobV2_retries:
  assumes "sj_Settlement i \<noteq> None" and "sj_BrokerJobID i \<noteq> ''''" and "sj_WorkUnit i \<noteq> ''''" and "0 \<le> sj_ActualUnits i"
  shows "\<exists>k \<le> 2. fst (SettleJobV2 (\<lambda>_. scripted_call f) scripted_wait i (0, [])) = f k \<and>
    fst (snd (SettleJobV2 (\<lambda>_. scripted_call f) scripted_wait i (0, []))) = k + 1 \<and>
    (\<forall>j < k. retryable_result (f j)) \<and> (k < 2 \<longrightarrow> \<not> retryable_result (f k))"
proof -
  have "SettleJobV2 (\<lambda>_. scripted_call f) scripted_wait i = loc_retry (scripted_call f) scripted_wait"
    using assms by (auto simp: SettleJobV2_def)
  then show ?thesis using doJSONRetry_spec [of 2 f 200000000 0 "[]"] by simp
qed

theorem SettleJobV2_retries_witness:
  "\<exists>k \<le> 2 :: nat. fst (SettleJobV2 (\<lambda>_. scripted_call (\<lambda>n. if n = 0 then Inl (NetErr True) else (Inl (Msg ''no'') :: err + SettleJobResponse)))
      scripted_wait \<lparr>sj_ActualUnits = 3, sj_BrokerJobID = ''job'', sj_WorkUnit = ''unit'', sj_Settlement = Some JNull\<rparr> (0, [])) =
    (if k = 0 then Inl (NetErr True) else Inl (Msg ''no''))"
proof -
  let ?f = "\<lambda>n :: nat. (if n = 0 then Inl (NetErr True) else Inl (Msg ''no'')) :: err + SettleJobResponse"
  let ?i = "\<lparr>sj_ActualUnits = 3, sj_BrokerJobID = ''job'', sj_WorkUnit = ''unit'', sj_Settlement = Some JNull\<rparr>"
  from SettleJobV2_retries [of ?i ?f] obtain k where "k \<le> 2"
      "fst (SettleJobV2 (\<lambda>_. scripted_call ?f) scripted_wait ?i (0, [])) = ?f k" by auto
  then show ?thesis by (intro exI [of _ k]) simp
qed

end
