(* ===== verification/Broker_Client.thy ===== *)
theory Broker_Client
  imports Upstream
begin

text \<open>
  \<^verbatim>\<open>internal/proxy/livepeer\<close>: the capability-broker client. An exchange is a parameter that
  yields an HTTP response or a transport error; everything the client does with it is modelled:
  the scoped header guard, the server-sent-event reader, decoding and validating the signed
  terminal claim, and the identity checks of the session calls. The standard library's decoders
  (base64, JSON into a given Go type) are the fields of a codec record.
\<close>

section \<open>Types\<close>

record BrokerAuth =
  ba_Capability :: string
  ba_Offering :: string
  ba_RequestID :: string
  ba_Authorization :: string
  ba_CallerProof :: string
  ba_WorkID :: string

record SSEEvent =
  ev_ID :: string
  ev_Event :: string
  ev_Data :: string

record TerminalClaim =
  tc_BrokerJobID :: string
  tc_SessionID :: string
  tc_GatewaySessionID :: string
  tc_RequestID :: string
  tc_WorkID :: string
  tc_WorkUnit :: string
  tc_ActualUnits :: int
  tc_Settlement :: json
  tc_State :: string
  tc_Outcome :: string
  tc_CloseReason :: string
  tc_OutputState :: string
  tc_FailureCode :: string

record RuntimeGrantV2 =
  gr_ID :: string
  gr_Operations :: "string list"
  gr_Secret :: string
  gr_ExpiresAt :: string

text \<open>The nested structs of \<^verbatim>\<open>BrokerSessionV2\<close> are flattened; \<^verbatim>\<open>Runtime.Public\<close> is a Go map,
  listed in the key order in which \<^verbatim>\<open>json.Marshal\<close> emits it.\<close>

record BrokerSessionV2 =
  bs_SessionID :: string
  bs_GatewaySessionID :: string
  bs_WorkID :: string
  bs_State :: string
  bs_Credential :: string
  bs_RuntimeSchema :: string
  bs_RuntimePublic :: "(string \<times> json) list"
  bs_RuntimeGrants :: "RuntimeGrantV2 list"
  bs_BalanceStatus :: string
  bs_ClaimedUnits :: int
  bs_RunwaySecondsEstimate :: "int option"
  bs_CapRemaining :: int
  bs_WillRefuseNextRefill :: bool
  bs_LeaseExpiresAt :: string
  bs_UsageUnit :: string
  bs_UsageClaimedTotal :: int
  bs_OutputState :: string
  bs_LastFailureCode :: string
  bs_CloseReason :: string

record SessionOpenOutcomeV2 =
  so_RequestID :: string
  so_SessionID :: string
  so_GatewaySessionID :: string
  so_Outcome :: string

record HttpResponse =
  hr_Status :: int
  hr_URL :: string
  hr_Header :: header
  hr_Trailer :: header
  hr_Body :: string
  hr_ReadErr :: "err option"

text \<open>Standard-library decoders: strict base64; the first JSON value of a text as \<^verbatim>\<open>any\<close> or into
  the named type; \<^verbatim>\<open>fmt.Sprint\<close> of a composite JSON value; \<^verbatim>\<open>error.code\<close> of a JSON error body.\<close>

record codec =
  b64_decode :: "string \<Rightarrow> string option"
  json_any :: "string \<Rightarrow> json option"
  json_session :: "string \<Rightarrow> BrokerSessionV2 option"
  json_open_outcome :: "string \<Rightarrow> SessionOpenOutcomeV2 option"
  json_error_code :: "string \<Rightarrow> string option"
  sprint_composite :: "json \<Rightarrow> string"

section \<open>Requests\<close>

definition endpoint :: "string \<Rightarrow> string \<Rightarrow> string" where
  "endpoint base path = TrimRight1 base (CHR ''/'') @ path"

definition auth_headers :: "BrokerAuth \<Rightarrow> string \<Rightarrow> err + header" where
  "auth_headers a protocol =
     (if ba_Capability a = '''' \<or> ba_Offering a = '''' \<or> ba_RequestID a = '''' \<or>
         ba_Authorization a = '''' \<or> ba_CallerProof a = ''''
      then Inl (Msg ''broker: incomplete scoped authorization'')
      else Inr [(''Livepeer-Capability'', ba_Capability a), (''Livepeer-Offering'', ba_Offering a),
                (''Livepeer-Protocol'', protocol), (''Livepeer-Request-Id'', ba_RequestID a),
                (''Livepeer-Authorization'', ba_Authorization a), (''Livepeer-Caller-Proof'', ba_CallerProof a)])"

definition credentialHeader :: "string \<Rightarrow> err + header" where
  "credentialHeader credential =
     (if credential = '''' then Inl (Msg ''broker: session credential required'')
      else Inr [(''Authorization'', ''Bearer '' @ credential)])"

definition status_ok :: "int \<Rightarrow> bool" where
  "status_ok s \<longleftrightarrow> \<not> (s < 200 \<or> s \<ge> 300)"

definition brokerResponseError :: "HttpResponse \<Rightarrow> err" where
  "brokerResponseError r =
     BrokerErr \<lparr>be_URL = hr_URL r, be_StatusCode = hr_Status r, be_Body = take 65536 (hr_Body r)\<rparr>"

definition jsonV2 :: "(string \<Rightarrow> 'a option) \<Rightarrow> HttpResponse \<Rightarrow> err + header \<times> 'a" where
  "jsonV2 decode r =
     (if \<not> status_ok (hr_Status r) then Inl (brokerResponseError r)
      else case decode (take 4194304 (hr_Body r)) of
             None \<Rightarrow> Inl (Msg ''broker: malformed JSON'')
           | Some x \<Rightarrow> Inr (hr_Header r, x))"

section \<open>Server-sent events\<close>

text \<open>
  \<^verbatim>\<open>bufio.Scanner\<close> with its default split function and the 4 MB buffer \<^verbatim>\<open>readSSE\<close> gives it: a
  token is a line without its newline and without one carriage return before it, the rest of the
  text after the last newline is a line if it is not empty, and a line that does not fit into the
  buffer with its newline stops the scanner with \<^verbatim>\<open>ErrTooLong\<close>. The lines before it, and what was
  read before an error of the connection, have been handed out by then.
\<close>

definition max_token :: nat where
  "max_token = 4194304"

definition ErrTooLong :: err where
  "ErrTooLong = Msg ''bufio.Scanner: token too long''"

definition newline :: char where
  "newline = CHR 0x0A"

definition dropCR :: "string \<Rightarrow> string" where
  "dropCR line = (if line \<noteq> [] \<and> last line = CHR 0x0D then butlast line else line)"

function scan_lines :: "string \<Rightarrow> string list \<times> err option" where
  "scan_lines body =
     (if body = [] then ([], None)
      else let line = takeWhile (\<lambda>c. c \<noteq> newline) body in
        if max_token \<le> length line then ([], Some ErrTooLong)
        else case scan_lines (drop (Suc (length line)) body) of (ls, e) \<Rightarrow> (dropCR line # ls, e))"
  by pat_completeness auto

termination scan_lines
  by (relation "measure length") auto

declare scan_lines.simps [simp del]

text \<open>
  \<^verbatim>\<open>readSSE\<close>: the scanner's lines, then its error if any. \<open>ev\<close> and \<open>data\<close> are the event under
  construction; an event without data is not delivered and its fields carry over.
\<close>

definition empty_event :: SSEEvent where
  "empty_event = \<lparr>ev_ID = '''', ev_Event = '''', ev_Data = ''''\<rparr>"

definition sse_dispatch :: "(SSEEvent \<Rightarrow> ('s, err, unit) eff) \<Rightarrow> SSEEvent \<Rightarrow> string list \<Rightarrow>
    ('s, err, SSEEvent \<times> string list) eff" where
  "sse_dispatch callback ev data =
     (if data = [] then ret (ev, data)
      else thenE (callback (ev\<lparr>ev_Data := Join1 data (CHR 0x0A)\<rparr>)) (ret (empty_event, [])))"

definition sse_field :: "string \<Rightarrow> SSEEvent \<Rightarrow> string list \<Rightarrow> SSEEvent \<times> string list" where
  "sse_field line ev data =
     (let (key, v) = Cut1 line (CHR '':''); v = TrimPrefix v '' '' in
      if key = ''event'' then (ev\<lparr>ev_Event := v\<rparr>, data)
      else if key = ''id'' then (ev\<lparr>ev_ID := v\<rparr>, data)
      else if key = ''data'' then (ev, data @ [v])
      else (ev, data))"

fun readSSE_loop :: "(SSEEvent \<Rightarrow> ('s, err, unit) eff) \<Rightarrow> err option \<Rightarrow> string list \<Rightarrow> SSEEvent \<Rightarrow>
    string list \<Rightarrow> ('s, err, unit) eff" where
  "readSSE_loop callback scan_err [] ev data = (case scan_err of
      Some e \<Rightarrow> throw e
    | None \<Rightarrow> bindE (sse_dispatch callback ev data) (\<lambda>_. ret ()))"
| "readSSE_loop callback scan_err (line # lines) ev data =
     (if line = '''' then
        bindE (sse_dispatch callback ev data) (\<lambda>(ev', data'). readSSE_loop callback scan_err lines ev' data')
      else if HasPrefix line '':'' then readSSE_loop callback scan_err lines ev data
      else (case sse_field line ev data of (ev', data') \<Rightarrow> readSSE_loop callback scan_err lines ev' data'))"

definition readSSE :: "(SSEEvent \<Rightarrow> ('s, err, unit) eff) \<Rightarrow> string \<Rightarrow> err option \<Rightarrow> ('s, err, unit) eff" where
  "readSSE callback body read_err = (case scan_lines body of (ls, e) \<Rightarrow>
     readSSE_loop callback (case e of Some x \<Rightarrow> Some x | None \<Rightarrow> read_err) ls empty_event [])"

section \<open>Claims\<close>

definition scalar :: "codec \<Rightarrow> json \<Rightarrow> string" where
  "scalar C v = (case v of
      JStr s \<Rightarrow> s
    | JNum s \<Rightarrow> s
    | JNull \<Rightarrow> ''''
    | JBool b \<Rightarrow> if b then ''true'' else ''false''
    | _ \<Rightarrow> sprint_composite C v)"

definition hex_val :: "char \<Rightarrow> nat option" where
  "hex_val c = (let n = (of_char c :: nat) in
     if 48 \<le> n \<and> n \<le> 57 then Some (n - 48)
     else if 97 \<le> n \<and> n \<le> 102 then Some (n - 87)
     else if 65 \<le> n \<and> n \<le> 70 then Some (n - 55) else None)"

fun hex_decode :: "string \<Rightarrow> nat list option" where
  "hex_decode [] = Some []"
| "hex_decode [c] = None"
| "hex_decode (a # b # cs) = (case (hex_val a, hex_val b, hex_decode cs) of
      (Some x, Some y, Some zs) \<Rightarrow> Some ((16 * x + y) # zs)
    | _ \<Rightarrow> None)"

text \<open>The signature object of an envelope: algorithm, canonicalization, 65 bytes of 0x-hex.\<close>

definition signature_shape :: "codec \<Rightarrow> json \<Rightarrow> err option" where
  "signature_shape C sig =
     (if \<not> is_obj sig \<or> scalar C (jfield sig ''algorithm'') \<noteq> ''secp256k1'' \<or>
         scalar C (jfield sig ''canonicalization'') \<noteq> ''jcs''
      then Some (Msg ''broker: unsigned or unsupported settlement'')
      else let v = scalar C (jfield sig ''value'') in
        case hex_decode (TrimPrefix v ''0x'') of
          None \<Rightarrow> Some (Msg ''broker: malformed settlement signature'')
        | Some bs \<Rightarrow> if \<not> HasPrefix v ''0x'' \<or> length bs \<noteq> 65
                     then Some (Msg ''broker: malformed settlement signature'') else None)"

text \<open>The claim the payload states, before its units are read.\<close>

definition payload_claim :: "codec \<Rightarrow> json \<Rightarrow> json \<Rightarrow> TerminalClaim" where
  "payload_claim C envelope p =
     (let b = jfield p ''breakdown''; bf = (\<lambda>k. if is_obj b then scalar C (jfield b k) else '''') in
      \<lparr>tc_BrokerJobID = scalar C (jfield p ''job_id''), tc_SessionID = scalar C (jfield p ''session_id''),
       tc_GatewaySessionID = scalar C (jfield p ''gateway_session_id''),
       tc_RequestID = scalar C (jfield p ''request_id''),
       tc_WorkID = (if scalar C (jfield p ''work_id'') = '''' then scalar C (jfield p ''authorization_id'')
                    else scalar C (jfield p ''work_id'')),
       tc_WorkUnit = scalar C (jfield p ''work_unit_name''), tc_ActualUnits = 0,
       tc_Settlement = envelope, tc_State = scalar C (jfield p ''state''),
       tc_Outcome = scalar C (jfield p ''outcome''), tc_CloseReason = bf ''termination_reason'',
       tc_OutputState = bf ''output_state'', tc_FailureCode = bf ''last_failure_code''\<rparr>)"

definition claim_units :: "codec \<Rightarrow> json \<Rightarrow> TerminalClaim \<Rightarrow> err + TerminalClaim" where
  "claim_units C p c =
     (let k = (if tc_SessionID c \<noteq> '''' then ''debited_units'' else ''actual_units'');
          units = scalar C (jfield p k);
          units = (if units = '''' then ''0'' else units)
      in case ParseInt64 units of
           None \<Rightarrow> Inl (Msg ''broker: invalid settlement units or identity'')
         | Some n \<Rightarrow> if n < 0 \<or> tc_WorkUnit c = '''' \<or> tc_WorkID c = ''''
                     then Inl (Msg ''broker: invalid settlement units or identity'')
                     else Inr (c\<lparr>tc_ActualUnits := n\<rparr>))"

definition decode_envelope :: "codec \<Rightarrow> json \<Rightarrow> err + TerminalClaim" where
  "decode_envelope C envelope =
     (let p = jfield envelope ''payload'' in
      if \<not> is_obj p then Inl (Msg ''broker: missing settlement payload'')
      else case signature_shape C (jfield envelope ''signature'') of
        Some e \<Rightarrow> Inl e
      | None \<Rightarrow>
          let aid = scalar C (jfield p ''authorization_id''); wid = scalar C (jfield p ''work_id'') in
          if aid \<noteq> '''' \<and> wid \<noteq> '''' \<and> aid \<noteq> wid
          then Inl (Msg ''broker: inconsistent settlement authorization identity'')
          else claim_units C p (payload_claim C envelope p))"

definition decodeClaim :: "codec \<Rightarrow> string \<Rightarrow> err + TerminalClaim" where
  "decodeClaim C encoded = (case b64_decode C encoded of
      None \<Rightarrow> Inl (Msg ''broker: missing or malformed signed settlement'')
    | Some raw \<Rightarrow>
        if raw = [] then Inl (Msg ''broker: missing or malformed signed settlement'')
        else case json_any C raw of
          None \<Rightarrow> Inl (Msg ''broker: malformed settlement JSON'')
        | Some j \<Rightarrow> if is_obj j \<or> j = JNull then decode_envelope C j
                    else Inl (Msg ''broker: malformed settlement JSON''))"

definition validateJobClaim :: "TerminalClaim \<Rightarrow> string \<Rightarrow> string \<Rightarrow> string \<Rightarrow> string \<Rightarrow> err option" where
  "validateJobClaim c requestID jobID unit workID =
     (if tc_BrokerJobID c = '''' \<or> tc_RequestID c \<noteq> requestID \<or>
         (jobID \<noteq> '''' \<and> tc_BrokerJobID c \<noteq> jobID) \<or> tc_WorkUnit c \<noteq> unit \<or>
         (workID \<noteq> '''' \<and> tc_WorkID c \<noteq> workID)
      then Some (Msg ''broker: settlement identity or work-unit mismatch'') else None)"

definition validateClaimHeaders :: "TerminalClaim \<Rightarrow> header \<Rightarrow> err option" where
  "validateClaimHeaders c h =
     (case find (\<lambda>(k, want). hget h k \<noteq> '''' \<and> hget h k \<noteq> want)
        [(''Livepeer-Job-Id'', tc_BrokerJobID c), (''Livepeer-Work-Unit'', tc_WorkUnit c),
         (''Livepeer-Work-Units'', int_text (tc_ActualUnits c))] of
        None \<Rightarrow> None
      | Some (k, _) \<Rightarrow> Some (Msg (''broker: settlement conflicts with '' @ k)))"

section \<open>Job exchange\<close>

definition exchange_outcomes :: "string list" where
  "exchange_outcomes = [''ADMISSION_REJECTED'', ''ACCOUNTING_PENDING'', ''IN_FLIGHT'',
     ''ADMITTED_OUTCOME_UNKNOWN'', ''ADMITTED_EVIDENCE_EXPIRED'', ''NOT_ADMITTED'', ''NO_RECORD'']"

text \<open>A settled exchange: header and body settlement agree, then the claim and the body agree.\<close>

definition settled_exchange :: "codec \<Rightarrow> header \<Rightarrow> json \<Rightarrow> string \<Rightarrow> string \<Rightarrow> string \<Rightarrow> string \<Rightarrow> err + TerminalClaim" where
  "settled_exchange C h body requestID jobID unit workID =
     (let enc = hget h ''Livepeer-Settlement''; fromBody = scalar C (jfield body ''settlement'') in
      if enc \<noteq> '''' \<and> fromBody \<noteq> '''' \<and> enc \<noteq> fromBody
      then Inl (Msg ''broker: settlement header/body mismatch'')
      else case decodeClaim C (if enc = '''' then fromBody else enc) of
        Inl e \<Rightarrow> Inl e
      | Inr c \<Rightarrow> (case validateJobClaim c requestID jobID unit workID of
          Some e \<Rightarrow> Inl e
        | None \<Rightarrow>
            if scalar C (jfield body ''job_id'') \<noteq> tc_BrokerJobID c \<or>
               scalar C (jfield body ''unit'') \<noteq> tc_WorkUnit c \<or>
               scalar C (jfield body ''work_units'') \<noteq> int_text (tc_ActualUnits c)
            then Inl (Msg ''broker: exchange terminal claim mismatch'')
            else case validateClaimHeaders c h of Some e \<Rightarrow> Inl e | None \<Rightarrow> Inr c))"

definition LookupJobV2 :: "codec \<Rightarrow> HttpResponse \<Rightarrow> string \<Rightarrow> string \<Rightarrow> string \<Rightarrow> string \<Rightarrow> err + TerminalClaim" where
  "LookupJobV2 C r requestID jobID unit workID =
     (case jsonV2 (json_any C) r of
        Inl e \<Rightarrow> Inl e
      | Inr (h, body) \<Rightarrow>
          if \<not> (is_obj body \<or> body = JNull) then Inl (Msg ''broker: malformed JSON'')
          else if scalar C (jfield body ''request_id'') \<noteq> requestID
          then Inl (Msg ''broker: exchange request identity mismatch'')
          else let outcome = scalar C (jfield body ''outcome'') in
            if outcome \<noteq> ''SETTLED''
            then Inl (ExchangePending (if outcome \<in> set exchange_outcomes then outcome else ''UNKNOWN''))
            else settled_exchange C h body requestID jobID unit workID)"

text \<open>
  \<^verbatim>\<open>SubmitJobV2\<close>: one streamed POST whose events go to the callback; the settlement trailer is
  decoded and validated, and a missing one is recovered through the exchange lookup. Trailer
  values replace header values.
\<close>

definition SubmitJobV2 :: "codec \<Rightarrow> BrokerAuth \<Rightarrow> string \<Rightarrow> ('s, err, HttpResponse) eff \<Rightarrow>
    (string \<Rightarrow> ('s, err, TerminalClaim) eff) \<Rightarrow> (SSEEvent \<Rightarrow> ('s, err, unit) eff) \<Rightarrow> ('s, err, TerminalClaim) eff" where
  "SubmitJobV2 C auth unit post lookup onEvent = (case auth_headers auth ''paid-job/v1'' of
      Inl e \<Rightarrow> throw e
    | Inr _ \<Rightarrow> bindE post (\<lambda>r.
        if \<not> status_ok (hr_Status r) then throw (brokerResponseError r)
        else if \<not> HasPrefix (ToLower (hget (hr_Header r) ''Content-Type'')) ''text/event-stream''
        then throw (Msg ''broker: expected stream response'')
        else thenE (readSSE onEvent (hr_Body r) (hr_ReadErr r))
          (let merged = hr_Trailer r @ hr_Header r; jobID = hget (hr_Header r) ''Livepeer-Job-Id'' in
           if hget merged ''Livepeer-Settlement'' \<noteq> '''' then
             (case decodeClaim C (hget merged ''Livepeer-Settlement'') of
                Inl e \<Rightarrow> throw e
              | Inr c \<Rightarrow> (case validateJobClaim c (ba_RequestID auth) jobID unit (ba_WorkID auth) of
                  Some e \<Rightarrow> throw e
                | None \<Rightarrow> (case validateClaimHeaders c merged of Some e \<Rightarrow> throw e | None \<Rightarrow> ret c)))
           else lookup jobID)))"

section \<open>Session calls\<close>

definition BrokerOpenSessionV2 :: "codec \<Rightarrow> BrokerAuth \<Rightarrow> ('s, err, HttpResponse) eff \<Rightarrow> ('s, err, BrokerSessionV2) eff" where
  "BrokerOpenSessionV2 C auth post = (case auth_headers auth ''paid-session/v1'' of
      Inl e \<Rightarrow> throw e
    | Inr _ \<Rightarrow> bindE post (\<lambda>r. case jsonV2 (json_session C) r of
        Inl e \<Rightarrow> throw e
      | Inr (_, out) \<Rightarrow>
          if bs_SessionID out = '''' \<or> bs_Credential out = '''' \<or> bs_WorkID out \<noteq> ba_WorkID auth \<or> bs_RuntimeSchema out = ''''
          then throw (Msg ''broker: incomplete session or mismatched work identity'')
          else ret out))"

text \<open>Status, top-up and end share the decode and the session identity check.\<close>

definition session_reply :: "codec \<Rightarrow> string \<Rightarrow> HttpResponse \<Rightarrow> err + BrokerSessionV2" where
  "session_reply C sid r = (case jsonV2 (json_session C) r of
      Inl e \<Rightarrow> Inl e
    | Inr (_, out) \<Rightarrow> if bs_SessionID out \<noteq> sid then Inl (Msg ''broker: session identity mismatch'') else Inr out)"

definition lift_result :: "err + 'a \<Rightarrow> ('s, err, 'a) eff" where
  "lift_result x = (case x of Inl e \<Rightarrow> throw e | Inr y \<Rightarrow> ret y)"

definition StatusSessionV2 :: "codec \<Rightarrow> string \<Rightarrow> string \<Rightarrow> ('s, err, HttpResponse) eff \<Rightarrow> ('s, err, BrokerSessionV2) eff" where
  "StatusSessionV2 C sid credential call = (case credentialHeader credential of
      Inl e \<Rightarrow> throw e
    | Inr _ \<Rightarrow> bindE call (\<lambda>r. lift_result (session_reply C sid r)))"

definition TopUpSessionV2 :: "codec \<Rightarrow> string \<Rightarrow> string \<Rightarrow> BrokerAuth \<Rightarrow> ('s, err, HttpResponse) eff \<Rightarrow> ('s, err, BrokerSessionV2) eff" where
  "TopUpSessionV2 C sid credential auth call = (case auth_headers auth ''paid-session/v1'' of
      Inl e \<Rightarrow> throw e
    | Inr _ \<Rightarrow> if credential = '''' then throw (Msg ''broker: session credential required'')
               else bindE call (\<lambda>r. lift_result (session_reply C sid r)))"

definition EndSessionV2 :: "codec \<Rightarrow> string \<Rightarrow> string \<Rightarrow> ('s, err, HttpResponse) eff \<Rightarrow> ('s, err, BrokerSessionV2) eff" where
  "EndSessionV2 C sid credential call = (case credentialHeader credential of
      Inl e \<Rightarrow> throw e
    | Inr _ \<Rightarrow> bindE call (\<lambda>r. lift_result (session_reply C sid r)))"

definition LookupSessionSettlementV2 :: "codec \<Rightarrow> HttpResponse \<Rightarrow> string \<Rightarrow> string \<Rightarrow> string \<Rightarrow> err + TerminalClaim" where
  "LookupSessionSettlementV2 C r sid workID unit =
     (case jsonV2 (json_any C) r of
        Inl e \<Rightarrow> Inl e
      | Inr (h, body) \<Rightarrow>
          if \<not> (is_obj body \<or> body = JNull) then Inl (Msg ''broker: malformed JSON'')
          else case decodeClaim C (hget h ''Livepeer-Settlement'') of
            Inl e \<Rightarrow> Inl e
          | Inr c \<Rightarrow>
              if tc_State c \<noteq> ''closed'' then Inl AccountingPending
              else if (tc_SessionID c \<noteq> sid \<and> tc_GatewaySessionID c \<noteq> sid) \<or> tc_WorkUnit c \<noteq> unit \<or>
                      (workID \<noteq> '''' \<and> tc_WorkID c \<noteq> workID)
              then Inl (Msg ''broker: session settlement identity mismatch'')
              else Inr c)"

definition LookupSessionOpenV2 :: "codec \<Rightarrow> HttpResponse \<Rightarrow> string \<Rightarrow> string \<Rightarrow> err + SessionOpenOutcomeV2" where
  "LookupSessionOpenV2 C r requestID gatewayID =
     (case jsonV2 (json_open_outcome C) r of
        Inl e \<Rightarrow> Inl e
      | Inr (_, out) \<Rightarrow>
          if so_RequestID out \<noteq> requestID \<or> (so_SessionID out \<noteq> '''' \<and> so_GatewaySessionID out \<noteq> gatewayID)
          then Inl (Msg ''broker: session exchange identity mismatch'')
          else if so_Outcome out = ''ADMISSION_REJECTED'' \<or> so_Outcome out = ''NOT_ADMITTED''
          then (if so_SessionID out \<noteq> '''' then Inl (Msg ''broker: contradictory session admission outcome'') else Inr out)
          else if so_Outcome out \<in> {''IN_FLIGHT'', ''ACCOUNTING_PENDING'', ''SETTLED'', ''NO_RECORD'',
                 ''ADMITTED_OUTCOME_UNKNOWN'', ''ADMITTED_EVIDENCE_EXPIRED''}
          then Inr out
          else Inl AccountingPending)"

section \<open>Facts\<close>

text \<open>Cuts \<open>split: if_splits sum.splits option.splits prod.splits\<close> would make of a validated result.\<close>

lemma jsonV2_InrD: "jsonV2 dec r = Inr (h, x) \<Longrightarrow> status_ok (hr_Status r) \<and> h = hr_Header r"
  by (auto simp: jsonV2_def split: if_splits option.splits)

lemma ParseInt64_range: "ParseInt64 s = Some n \<Longrightarrow> n < 2 ^ 63"
  by (auto simp: ParseInt64_def int64_range_def split: option.splits if_splits)

lemma claim_units_InrD:
  "claim_units C p c = Inr c' \<Longrightarrow> 0 \<le> tc_ActualUnits c' \<and> tc_ActualUnits c' < 2 ^ 63 \<and> tc_WorkUnit c' \<noteq> '''' \<and> tc_WorkID c' \<noteq> ''''"
  by (auto simp: claim_units_def Let_def split: option.split_asm if_split_asm dest: ParseInt64_range)

lemma decodeClaim_InrD:
  assumes "decodeClaim C s = Inr c"
  shows "0 \<le> tc_ActualUnits c \<and> tc_ActualUnits c < 2 ^ 63 \<and> tc_WorkUnit c \<noteq> '''' \<and> tc_WorkID c \<noteq> ''''"
proof -
  have "claim_units C p d = Inr c \<Longrightarrow> ?thesis" for p d by (rule claim_units_InrD)
  with assms show ?thesis
    by (auto simp: decodeClaim_def decode_envelope_def Let_def split: if_splits option.splits)
qed

lemma settled_exchange_InrD:
  assumes "settled_exchange C h body req job unit work = Inr c"
  shows "validateJobClaim c req job unit work = None \<and> 0 \<le> tc_ActualUnits c \<and> tc_ActualUnits c < 2 ^ 63 \<and> tc_WorkID c \<noteq> '''' \<and>
    scalar C (jfield body ''work_units'') = int_text (tc_ActualUnits c)"
  using assms decodeClaim_InrD [of C "if hget h ''Livepeer-Settlement'' = '''' then scalar C (jfield body ''settlement'') else hget h ''Livepeer-Settlement''" c]
  by (auto simp: settled_exchange_def Let_def split: if_splits sum.splits option.splits)

lemma scan_lines_error: "snd (scan_lines body) = Some e \<Longrightarrow> e = ErrTooLong"
  by (induction body rule: scan_lines.induct)
     (subst (asm) (2) scan_lines.simps, auto simp: Let_def split: if_splits prod.splits)

text \<open>What the reader does is what the loop does on some lines: with the error of the connection,
  or with the scanner's.\<close>

lemma readSSE_cases:
  assumes "\<And>ls. P (readSSE_loop cb read_err ls empty_event [])"
    and "\<And>ls. P (readSSE_loop cb (Some ErrTooLong) ls empty_event [])"
  shows "P (readSSE cb body read_err)"
  using assms scan_lines_error [of body] by (auto simp: readSSE_def split: prod.split option.split)

section \<open>Properties\<close>

text \<open>The text an event is sent as, and a callback that records what it is given.\<close>

definition sse_lines :: "SSEEvent \<Rightarrow> string list" where
  "sse_lines e = [''event: '' @ ev_Event e, ''id: '' @ ev_ID e, ''data: '' @ ev_Data e, '''']"

definition sse_text :: "SSEEvent \<Rightarrow> string" where
  "sse_text e = concat (map (\<lambda>l. l @ [newline]) (sse_lines e))"

definition record_event :: "SSEEvent \<Rightarrow> (SSEEvent list, err, unit) eff" where
  "record_event e = modify (\<lambda>s. s @ [e])"

text \<open>A text that stays one line of the stream: no newline, no carriage return at its end, and
  short enough for the scanner's buffer with the seven characters of the longest field name.\<close>

definition one_line :: "string \<Rightarrow> bool" where
  "one_line v \<longleftrightarrow> newline \<notin> set v \<and> (v = [] \<or> last v \<noteq> CHR 0x0D) \<and> length v + 7 < max_token"

definition sendable :: "SSEEvent \<Rightarrow> bool" where
  "sendable e \<longleftrightarrow> one_line (ev_Event e) \<and> one_line (ev_ID e) \<and> one_line (ev_Data e)"

lemma scan_lines_Nil [simp]: "scan_lines [] = ([], None)"
  by (simp add: scan_lines.simps)

lemma take_line: "newline \<notin> set l \<Longrightarrow> takeWhile (\<lambda>c. c \<noteq> newline) (l @ newline # rest) = l"
  by (subst takeWhile_append2) auto

lemma scan_lines_line:
  assumes "newline \<notin> set l" and "length l < max_token"
  shows "scan_lines (l @ newline # rest) = (case scan_lines rest of (ls, e) \<Rightarrow> (dropCR l # ls, e))"
  using assms by (subst scan_lines.simps) (simp add: Let_def take_line)

lemma scan_lines_too_long:
  assumes "newline \<notin> set l" and "max_token \<le> length l"
  shows "scan_lines (l @ newline # rest) = ([], Some ErrTooLong)"
  using assms by (subst scan_lines.simps) (simp add: Let_def take_line)

lemma sse_prefixes:
  assumes "one_line v"
  shows "newline \<notin> set (''event: '' @ v)" "length (''event: '' @ v) < max_token" "dropCR (''event: '' @ v) = ''event: '' @ v"
    "newline \<notin> set (''id: '' @ v)" "length (''id: '' @ v) < max_token" "dropCR (''id: '' @ v) = ''id: '' @ v"
    "newline \<notin> set (''data: '' @ v)" "length (''data: '' @ v) < max_token" "dropCR (''data: '' @ v) = ''data: '' @ v"
  using assms by (auto simp: one_line_def newline_def dropCR_def)

lemma scan_lines_event:
  assumes "sendable e"
  shows "scan_lines (sse_text e @ rest) = (case scan_lines rest of (ls, err) \<Rightarrow> (sse_lines e @ ls, err))"
proof -
  have one: "one_line (ev_Event e)" "one_line (ev_ID e)" "one_line (ev_Data e)"
    using assms by (simp_all add: sendable_def)
  have blank: "scan_lines (newline # r) = (case scan_lines r of (ls, err) \<Rightarrow> ([] # ls, err))" for r
    using scan_lines_line [of "[]" r] by (simp add: max_token_def dropCR_def)
  have body: "sse_text e @ rest = (''event: '' @ ev_Event e) @ newline # (''id: '' @ ev_ID e) @ newline #
      (''data: '' @ ev_Data e) @ newline # newline # rest"
    by (simp add: sse_text_def sse_lines_def)
  show ?thesis
    unfolding body scan_lines_line [OF sse_prefixes(1,2) [OF one(1)]] scan_lines_line [OF sse_prefixes(4,5) [OF one(2)]]
      scan_lines_line [OF sse_prefixes(7,8) [OF one(3)]] blank
      sse_prefixes(3) [OF one(1)] sse_prefixes(6) [OF one(2)] sse_prefixes(9) [OF one(3)]
    by (simp add: sse_lines_def split: prod.split)
qed

lemma scan_lines_events:
  "list_all sendable es \<Longrightarrow> scan_lines (concat (map sse_text es)) = (concat (map sse_lines es), None)"
  by (induction es) (simp_all add: scan_lines_event)

lemma scan_lines_events_long:
  "list_all sendable es \<Longrightarrow> newline \<notin> set l \<Longrightarrow> max_token \<le> length l \<Longrightarrow>
   scan_lines (concat (map sse_text es) @ l @ newline # rest) = (concat (map sse_lines es), Some ErrTooLong)"
  by (induction es) (simp_all add: scan_lines_event scan_lines_too_long)

lemma sse_fields:
  "sse_field (''event: '' @ x) e data = (e\<lparr>ev_Event := x\<rparr>, data)"
  "sse_field (''id: '' @ x) e data = (e\<lparr>ev_ID := x\<rparr>, data)"
  "sse_field (''data: '' @ x) e data = (e, data @ [x])"
  by (simp_all add: sse_field_def TrimPrefix_def Let_def)

lemma readSSE_one:
  "readSSE_loop record_event err (sse_lines e @ ls) empty_event [] s = readSSE_loop record_event err ls empty_event [] (s @ [e])"
  using sse_fields(1) [of "ev_Event e" empty_event "[]"] sse_fields(2) [of "ev_ID e" "empty_event\<lparr>ev_Event := ev_Event e\<rparr>" "[]"]
    sse_fields(3) [of "ev_Data e" "empty_event\<lparr>ev_Event := ev_Event e, ev_ID := ev_ID e\<rparr>" "[]"]
  by (cases e) (simp add: sse_lines_def sse_dispatch_def record_event_def HasPrefix_def eng_simps empty_event_def)

lemma readSSE_delivers:
  "readSSE_loop record_event err (concat (map sse_lines es)) empty_event [] s = (case err of None \<Rightarrow> Inr () | Some e \<Rightarrow> Inl e, s @ es)"
proof (induction es arbitrary: s)
  case Nil
  then show ?case by (simp add: sse_dispatch_def eng_simps split: option.split)
next
  case (Cons e es)
  then show ?case by (simp add: readSSE_one)
qed

text \<open>C19: the event stream is read back exactly. From a response body that is the text of some events,
  each an event, an id and a data line and a blank line, every value free of newlines and of a
  carriage return at its end and within the scanner's 4 MB, the callback receives these events one
  by one, in order and unchanged, and an error of the connection after them is returned after they
  were delivered; if a line the buffer does not hold follows them, they have been delivered and
  the reader ends with the scanner's error.\<close>

theorem readSSE_roundtrip:
  assumes "list_all sendable es"
  shows "readSSE record_event (concat (map sse_text es)) err s = (case err of None \<Rightarrow> Inr () | Some e \<Rightarrow> Inl e, s @ es) \<and>
    (\<forall>l rest. newline \<notin> set l \<and> max_token \<le> length l \<longrightarrow>
       readSSE record_event (concat (map sse_text es) @ l @ newline # rest) err s = (Inl ErrTooLong, s @ es))"
  using scan_lines_events [OF assms] scan_lines_events_long [OF assms] by (simp add: readSSE_def readSSE_delivers)

definition sample_events :: "SSEEvent list" where
  "sample_events = [\<lparr>ev_ID = ''1'', ev_Event = ''progress'', ev_Data = ''{}''\<rparr>, \<lparr>ev_ID = ''2'', ev_Event = ''done'', ev_Data = '':x''\<rparr>]"

theorem readSSE_roundtrip_witness:
  "readSSE record_event (concat (map sse_text sample_events)) None [] = (Inr (), sample_events)"
proof -
  have "list_all sendable sample_events"
    by (simp add: sample_events_def sendable_def one_line_def newline_def max_token_def)
  from readSSE_roundtrip [OF this, of None "[]"] show ?thesis by simp
qed

text \<open>C14: a claim is only accepted for the job it was asked for. When the exchange look-up returns a
  terminal claim, the broker answered with a success status and the claim names the request, the
  work unit, and the job and authorization if they were given; its metered units are a
  non-negative 64-bit number.\<close>

theorem LookupJobV2_sound:
  assumes "LookupJobV2 C r req job unit work = Inr c"
  shows "200 \<le> hr_Status r \<and> hr_Status r < 300 \<and> tc_RequestID c = req \<and> tc_BrokerJobID c \<noteq> '''' \<and>
    (job \<noteq> '''' \<longrightarrow> tc_BrokerJobID c = job) \<and> tc_WorkUnit c = unit \<and> (work \<noteq> '''' \<longrightarrow> tc_WorkID c = work) \<and>
    tc_WorkID c \<noteq> '''' \<and> 0 \<le> tc_ActualUnits c \<and> tc_ActualUnits c < 2 ^ 63"
proof -
  obtain h body where j: "jsonV2 (json_any C) r = Inr (h, body)" and s: "settled_exchange C h body req job unit work = Inr c"
    using assms by (auto simp: LookupJobV2_def Let_def split: if_splits sum.splits)
  from jsonV2_InrD [OF j] settled_exchange_InrD [OF s] show ?thesis
    by (auto simp: status_ok_def validateJobClaim_def split: if_splits)
qed

definition sample_claim_json :: json where
  "sample_claim_json = JObj [(''payload'', JObj [(''job_id'', JStr ''job''), (''request_id'', JStr ''req''), (''work_id'', JStr ''work''),
      (''work_unit_name'', JStr ''frames''), (''actual_units'', JStr ''42'')]),
     (''signature'', JObj [(''algorithm'', JStr ''secp256k1''), (''canonicalization'', JStr ''jcs''),
      (''value'', JStr (''0x'' @ replicate 130 (CHR ''0'')))])]"

definition sample_exchange_codec :: codec where
  "sample_exchange_codec = \<lparr>b64_decode = Some, json_any = (\<lambda>s. Some (if s = ''claim'' then sample_claim_json
       else JObj [(''request_id'', JStr ''req''), (''outcome'', JStr ''SETTLED''), (''job_id'', JStr ''job''), (''unit'', JStr ''frames''),
         (''work_units'', JStr ''42'')])), json_session = (\<lambda>_. None), json_open_outcome = (\<lambda>_. None),
     json_error_code = (\<lambda>_. None), sprint_composite = (\<lambda>_. [])\<rparr>"

definition sample_response :: HttpResponse where
  "sample_response = \<lparr>hr_Status = 200, hr_URL = ''https://broker'', hr_Header = [(''Livepeer-Settlement'', ''claim'')],
     hr_Trailer = [], hr_Body = ''body'', hr_ReadErr = None\<rparr>"

lemma json_simps:
  "is_obj (JObj fs)" "\<not> is_obj JNull" "jfield (JObj fs) k = (case map_of fs k of Some v \<Rightarrow> v | None \<Rightarrow> JNull)" "jfield JNull k = JNull"
  "scalar C (JStr s) = s" "scalar C JNull = []"
  by (simp_all add: is_obj_def jfield_def scalar_def)

lemma hex_decode_zeros: "hex_decode (replicate (2 * n) (CHR ''0'')) = Some (replicate n 0)"
  by (induction n) (simp_all add: hex_val_def)

lemma sample_claim:
  "decodeClaim sample_exchange_codec ''claim'' = Inr \<lparr>tc_BrokerJobID = ''job'', tc_SessionID = '''', tc_GatewaySessionID = '''',
     tc_RequestID = ''req'', tc_WorkID = ''work'', tc_WorkUnit = ''frames'', tc_ActualUnits = 42, tc_Settlement = sample_claim_json,
     tc_State = '''', tc_Outcome = '''', tc_CloseReason = '''', tc_OutputState = '''', tc_FailureCode = ''''\<rparr>"
proof -
  have hex: "hex_decode (replicate 130 (CHR ''0'')) = Some (replicate 65 0)" using hex_decode_zeros [of 65] by simp
  have sig: "signature_shape sample_exchange_codec (jfield sample_claim_json ''signature'') = None"
    by (simp add: signature_shape_def sample_claim_json_def jfield_def is_obj_def scalar_def Let_def TrimPrefix_def HasPrefix_def hex)
  have units: "ParseInt64 ''42'' = Some 42" by code_simp
  have env: "is_obj sample_claim_json" "json_any sample_exchange_codec ''claim'' = Some sample_claim_json"
      "b64_decode sample_exchange_codec = Some"
    by (simp_all add: is_obj_def sample_claim_json_def sample_exchange_codec_def)
  have payload: "jfield sample_claim_json ''payload'' = JObj [(''job_id'', JStr ''job''), (''request_id'', JStr ''req''),
      (''work_id'', JStr ''work''), (''work_unit_name'', JStr ''frames''), (''actual_units'', JStr ''42'')]"
    by (simp add: jfield_def sample_claim_json_def)
  show ?thesis
    by (simp add: decodeClaim_def decode_envelope_def env sig payload claim_units_def payload_claim_def json_simps units Let_def)
qed

theorem LookupJobV2_sound_witness:
  "\<exists>c. LookupJobV2 sample_exchange_codec sample_response ''req'' '''' ''frames'' ''work'' = Inr c \<and> tc_WorkID c = ''work'' \<and>
     tc_WorkUnit c = ''frames'' \<and> 0 \<le> tc_ActualUnits c"
proof -
  let ?body = "JObj [(''request_id'', JStr ''req''), (''outcome'', JStr ''SETTLED''), (''job_id'', JStr ''job''), (''unit'', JStr ''frames''),
         (''work_units'', JStr ''42'')]"
  have units: "int_text 42 = ''42''" by code_simp
  have body: "jsonV2 (json_any sample_exchange_codec) sample_response = Inr ([(''Livepeer-Settlement'', ''claim'')], ?body)"
    by (simp add: jsonV2_def sample_response_def status_ok_def sample_exchange_codec_def)
  obtain c where "LookupJobV2 sample_exchange_codec sample_response ''req'' '''' ''frames'' ''work'' = Inr c"
    by (simp add: LookupJobV2_def body settled_exchange_def hget_def sample_claim validateJobClaim_def validateClaimHeaders_def
        Let_def json_simps units)
  from LookupJobV2_sound [OF this] this show ?thesis by simp
qed

end
