(* ===== verification/Reservation_Repo.thy ===== *)
theory Reservation_Repo
  imports Repo_Types
begin

text \<open>
  \<^verbatim>\<open>internal/repo/reservations.go\<close>: the usage ledger. Each function is the table transformer
  or the query its SQL text denotes; \<^verbatim>\<open>now()\<close> is an argument. The ledger row has two independent
  lifecycles: \<^verbatim>\<open>state\<close> (open, then committed or refunded, once) and \<^verbatim>\<open>settle_state\<close>.
\<close>

type_synonym reservations = "UsageReservation list"

record OpenInput =
  oi_APIKeyID :: uuid
  oi_WorkID :: uuid
  oi_Capability :: string
  oi_Offering :: string
  oi_EstimatedWorkUnits :: "int option"
  oi_PricePerWorkUnitWei :: "wei option"

record CommitInput =
  ci_BrokerURL :: string
  ci_EthAddress :: string
  ci_CommittedWorkUnits :: "int option"
  ci_LatencyMs :: "int option"
  ci_StatusCode :: "int option"

record RunnerStateUpdate =
  ru_Status :: string
  ru_Phase :: string
  ru_Progress :: rat
  ru_ErrorCode :: string
  ru_ErrorText :: string
  ru_StateJSON :: "string option"
  ru_CompletedAt :: "time option"

section \<open>Inserting\<close>

text \<open>A row as the column defaults of the schema leave it.\<close>

definition fresh_reservation ::
  "uuid \<Rightarrow> uuid \<Rightarrow> uuid \<Rightarrow> string \<Rightarrow> string \<Rightarrow> int option \<Rightarrow> wei option \<Rightarrow> time \<Rightarrow> UsageReservation" where
  "fresh_reservation rid key work capab offering estimated price created =
     \<lparr>ur_ID = rid, ur_APIKeyID = key, ur_WorkID = work, ur_Capability = capab,
      ur_Offering = offering, ur_BrokerURL = None, ur_EthAddress = None, ur_State = ReservationOpen,
      ur_EstimatedWorkUnits = estimated, ur_CommittedWorkUnits = None,
      ur_PricePerWorkUnitWei = price, ur_LatencyMs = None, ur_StatusCode = None,
      ur_ErrorText = None, ur_RunnerJobID = None, ur_WebhookSecret = None, ur_RunnerStatus = None,
      ur_RunnerPhase = None, ur_RunnerProgress = None, ur_RunnerErrorCode = None,
      ur_RunnerErrorText = None, ur_RunnerStateJSON = None, ur_RunnerCompletedAt = None,
      ur_LOCJobID = None, ur_LOCWorkID = None, ur_FundedValueWei = None, ur_ExpectedValueWei = None,
      ur_BilledValueWei = None, ur_SettledAt = None, ur_SettleState = SettleNone,
      ur_CreatedAt = created, ur_ResolvedAt = None, ur_live_stream_id = None\<rparr>"

text \<open>The primary key and the unique index on \<^verbatim>\<open>work_id\<close> refuse a duplicate.\<close>

definition reservation_clash :: "UsageReservation \<Rightarrow> reservations \<Rightarrow> bool" where
  "reservation_clash r t \<longleftrightarrow> ur_ID r \<in> set (map ur_ID t) \<or> ur_WorkID r \<in> set (map ur_WorkID t)"

definition reservation_insert :: "UsageReservation \<Rightarrow> reservations \<Rightarrow> reservations option" where
  "reservation_insert r t = (if reservation_clash r t then None else Some (t @ [r]))"

definition Open :: "uuid \<Rightarrow> time \<Rightarrow> OpenInput \<Rightarrow> reservations \<Rightarrow> (UsageReservation \<times> reservations) option" where
  "Open gen now i t =
     (let r = fresh_reservation gen (oi_APIKeyID i) (oi_WorkID i) (oi_Capability i) (oi_Offering i)
                (oi_EstimatedWorkUnits i) (parseBig (stringifyBig (oi_PricePerWorkUnitWei i))) now
      in map_option (\<lambda>t'. (r, t')) (reservation_insert r t))"

section \<open>Resolving\<close>

definition commit_row :: "time \<Rightarrow> CommitInput \<Rightarrow> UsageReservation \<Rightarrow> UsageReservation" where
  "commit_row now i r = r\<lparr>ur_State := ReservationCommitted,
     ur_BrokerURL := nullif_empty (ci_BrokerURL i), ur_EthAddress := nullif_empty (ci_EthAddress i),
     ur_CommittedWorkUnits := ci_CommittedWorkUnits i, ur_LatencyMs := ci_LatencyMs i,
     ur_StatusCode := ci_StatusCode i, ur_ResolvedAt := Some now\<rparr>"

definition Commit :: "time \<Rightarrow> uuid \<Rightarrow> CommitInput \<Rightarrow> reservations \<Rightarrow> reservations" where
  "Commit now rid i t =
     sql_update (\<lambda>r. ur_ID r = rid \<and> ur_State r = ReservationOpen) (commit_row now i) t"

definition refund_row :: "time \<Rightarrow> int \<Rightarrow> string \<Rightarrow> UsageReservation \<Rightarrow> UsageReservation" where
  "refund_row now code msg r = r\<lparr>ur_State := ReservationRefunded, ur_StatusCode := Some code,
     ur_ErrorText := Some msg, ur_ResolvedAt := Some now\<rparr>"

definition Refund :: "time \<Rightarrow> uuid \<Rightarrow> int \<Rightarrow> string \<Rightarrow> reservations \<Rightarrow> reservations" where
  "Refund now rid code msg t =
     sql_update (\<lambda>r. ur_ID r = rid \<and> ur_State r = ReservationOpen) (refund_row now code msg) t"

section \<open>Runner and LOC linkage\<close>

definition SetLiveStreamID :: "uuid \<Rightarrow> uuid \<Rightarrow> reservations \<Rightarrow> reservations" where
  "SetLiveStreamID work live t =
     sql_update (\<lambda>r. ur_WorkID r = work) (\<lambda>r. r\<lparr>ur_live_stream_id := Some live\<rparr>) t"

definition SetWebhookSecret :: "uuid \<Rightarrow> string \<Rightarrow> reservations \<Rightarrow> reservations" where
  "SetWebhookSecret work secret t =
     sql_update (\<lambda>r. ur_WorkID r = work) (\<lambda>r. r\<lparr>ur_WebhookSecret := Some secret\<rparr>) t"

definition runner_row :: "RunnerStateUpdate \<Rightarrow> UsageReservation \<Rightarrow> UsageReservation" where
  "runner_row i r = r\<lparr>ur_RunnerStatus := nullif_empty (ru_Status i),
     ur_RunnerPhase := nullif_empty (ru_Phase i), ur_RunnerProgress := Some (ru_Progress i),
     ur_RunnerErrorCode := nullif_empty (ru_ErrorCode i),
     ur_RunnerErrorText := nullif_empty (ru_ErrorText i),
     ur_RunnerStateJSON := ru_StateJSON i, ur_RunnerCompletedAt := ru_CompletedAt i\<rparr>"

definition RecordRunnerWebhook :: "uuid \<Rightarrow> RunnerStateUpdate \<Rightarrow> reservations \<Rightarrow> reservations" where
  "RecordRunnerWebhook work i t = sql_update (\<lambda>r. ur_WorkID r = work) (runner_row i) t"

definition SetRunnerJobID :: "uuid \<Rightarrow> string \<Rightarrow> reservations \<Rightarrow> reservations" where
  "SetRunnerJobID work job t =
     sql_update (\<lambda>r. ur_WorkID r = work) (\<lambda>r. r\<lparr>ur_RunnerJobID := Some job\<rparr>) t"

definition loc_job_row :: "uuid \<Rightarrow> string \<Rightarrow> wei option \<Rightarrow> wei option \<Rightarrow> UsageReservation \<Rightarrow> UsageReservation" where
  "loc_job_row job lwork funded expected r = r\<lparr>ur_LOCJobID := Some job, ur_LOCWorkID := Some lwork,
     ur_FundedValueWei := parseBig (stringifyBig funded),
     ur_ExpectedValueWei := parseBig (stringifyBig expected), ur_SettleState := SettlePending\<rparr>"

definition SetLOCJob :: "uuid \<Rightarrow> uuid \<Rightarrow> string \<Rightarrow> wei option \<Rightarrow> wei option \<Rightarrow> reservations \<Rightarrow> reservations" where
  "SetLOCJob work job lwork funded expected t =
     sql_update (\<lambda>r. ur_WorkID r = work) (loc_job_row job lwork funded expected) t"

definition settled_row :: "time \<Rightarrow> wei option \<Rightarrow> SettleState \<Rightarrow> UsageReservation \<Rightarrow> UsageReservation" where
  "settled_row now billed st r = r\<lparr>ur_SettleState := st,
     ur_BilledValueWei := coalesce (parseBig (stringifyBig billed)) (ur_BilledValueWei r),
     ur_SettledAt := Some now\<rparr>"

definition MarkSettled :: "time \<Rightarrow> uuid \<Rightarrow> wei option \<Rightarrow> SettleState \<Rightarrow> reservations \<Rightarrow> reservations" where
  "MarkSettled now rid billed st t = sql_update (\<lambda>r. ur_ID r = rid) (settled_row now billed st) t"

section \<open>Queries\<close>

definition GetByWorkID :: "uuid \<Rightarrow> reservations \<Rightarrow> UsageReservation option" where
  "GetByWorkID work t = row_by ur_WorkID work t"

definition GetByID :: "uuid \<Rightarrow> reservations \<Rightarrow> UsageReservation option" where
  "GetByID rid t = row_by ur_ID rid t"

definition LookupByRunnerJobID :: "string \<Rightarrow> reservations \<Rightarrow> UsageReservation option" where
  "LookupByRunnerJobID job t = row_by ur_RunnerJobID (Some job) t"

definition ListByAPIKey :: "uuid \<Rightarrow> time \<Rightarrow> nat \<Rightarrow> reservations \<Rightarrow> UsageReservation list" where
  "ListByAPIKey key since lmt t =
     take lmt (order_desc ur_CreatedAt (filter (\<lambda>r. ur_APIKeyID r = key \<and> ur_CreatedAt r \<ge> since) t))"

definition default_limit :: "int \<Rightarrow> nat \<Rightarrow> nat" where
  "default_limit lmt d = (if lmt \<le> 0 then d else nat lmt)"

definition ListByCapability :: "string \<Rightarrow> time \<Rightarrow> int \<Rightarrow> reservations \<Rightarrow> UsageReservation list" where
  "ListByCapability capab since lmt t =
     take (default_limit lmt 200)
       (order_desc ur_CreatedAt (filter (\<lambda>r. ur_Capability r = capab \<and> ur_CreatedAt r \<ge> since) t))"

definition ListPendingSettle :: "time \<Rightarrow> int \<Rightarrow> reservations \<Rightarrow> UsageReservation list" where
  "ListPendingSettle olderThan lmt t =
     take (default_limit lmt 200)
       (order_asc ur_CreatedAt
          (filter (\<lambda>r. ur_SettleState r = SettlePending \<and> ur_CreatedAt r < olderThan) t))"

definition count_where :: "('r \<Rightarrow> bool) \<Rightarrow> 'r list \<Rightarrow> nat" where
  "count_where p t = length (filter p t)"

definition max_created :: "reservations \<Rightarrow> time option" where
  "max_created t = (if t = [] then None else Some (Max (set (map ur_CreatedAt t))))"

record UsageSummary =
  sum_TotalRequests :: nat
  sum_CommittedTotal :: nat
  sum_RefundedTotal :: nat
  sum_OpenTotal :: nat
  sum_LastUsedAt :: "time option"

definition summary_of :: "reservations \<Rightarrow> UsageSummary" where
  "summary_of t = \<lparr>sum_TotalRequests = length t,
     sum_CommittedTotal = count_where (\<lambda>r. ur_State r = ReservationCommitted) t,
     sum_RefundedTotal = count_where (\<lambda>r. ur_State r = ReservationRefunded) t,
     sum_OpenTotal = count_where (\<lambda>r. ur_State r = ReservationOpen) t,
     sum_LastUsedAt = max_created t\<rparr>"

text \<open>\<^verbatim>\<open>JOIN api_keys ak ON ak.id = ur.api_key_id WHERE ak.waitlist_id = $1\<close>; api key ids are
  a primary key, so each reservation joins at most one key.\<close>

definition SummaryByWaitlist :: "APIKey list \<Rightarrow> uuid \<Rightarrow> reservations \<Rightarrow> UsageSummary" where
  "SummaryByWaitlist keys wl t =
     summary_of (filter (\<lambda>r. case row_by ak_ID (ur_APIKeyID r) keys of
        None \<Rightarrow> False | Some k \<Rightarrow> ak_WaitlistID k = wl) t)"

record CapabilityRollup =
  cr_Capability :: string
  cr_Summary :: UsageSummary
  cr_RunnerSucceeded :: nat
  cr_RunnerFailed :: nat

definition capability_rollup :: "string \<Rightarrow> reservations \<Rightarrow> CapabilityRollup" where
  "capability_rollup c t = (let g = filter (\<lambda>r. ur_Capability r = c) t in
     \<lparr>cr_Capability = c, cr_Summary = summary_of g,
      cr_RunnerSucceeded = count_where (\<lambda>r. ur_RunnerStatus r = Some ''complete'') g,
      cr_RunnerFailed = count_where (\<lambda>r. ur_RunnerStatus r = Some ''error'') g\<rparr>)"

text \<open>\<^verbatim>\<open>GROUP BY capability\<close>; the alphabetical order of the groups depends on the database
  collation and is left to the caller.\<close>

definition SummaryByCapability :: "time \<Rightarrow> reservations \<Rightarrow> CapabilityRollup list" where
  "SummaryByCapability since t = (let w = filter (\<lambda>r. ur_CreatedAt r \<ge> since) t in
     map (\<lambda>c. capability_rollup c w) (remdups (map ur_Capability w)))"

section \<open>Update contracts\<close>

lemmas reservation_row_defs = commit_row_def refund_row_def runner_row_def loc_job_row_def settled_row_def

interpretation commit_id: keyed_update ur_ID "commit_row now i" for now i
  by unfold_locales (simp add: commit_row_def)

interpretation refund_id: keyed_update ur_ID "refund_row now code msg" for now code msg
  by unfold_locales (simp add: refund_row_def)

interpretation runner_id: keyed_update ur_ID "runner_row i" for i
  by unfold_locales (simp add: runner_row_def)

interpretation loc_job_id: keyed_update ur_ID "loc_job_row job lwork funded expected"
  for job lwork funded expected
  by unfold_locales (simp add: loc_job_row_def)

interpretation settled_id: keyed_update ur_ID "settled_row now billed st" for now billed st
  by unfold_locales (simp add: settled_row_def)

lemmas GetByID_after [simp] =
  commit_id.row_after refund_id.row_after runner_id.row_after loc_job_id.row_after
  settled_id.row_after

lemma GetByID_Commit:
  "GetByID k (Commit now rid i t) = map_option
     (\<lambda>r. if k = rid \<and> ur_State r = ReservationOpen then commit_row now i r else r) (GetByID k t)"
  by (cases "row_by ur_ID k t") (auto simp: GetByID_def Commit_def dest: row_by_SomeD)

lemma GetByID_Refund:
  "GetByID k (Refund now rid code msg t) = map_option
     (\<lambda>r. if k = rid \<and> ur_State r = ReservationOpen then refund_row now code msg r else r) (GetByID k t)"
  by (cases "row_by ur_ID k t") (auto simp: GetByID_def Refund_def dest: row_by_SomeD)

lemma GetByID_MarkSettled:
  "GetByID k (MarkSettled now rid billed st t) = map_option
     (\<lambda>r. if k = rid then settled_row now billed st r else r) (GetByID k t)"
  by (cases "row_by ur_ID k t") (auto simp: GetByID_def MarkSettled_def dest: row_by_SomeD)

lemma GetByID_SetLOCJob:
  "GetByID k (SetLOCJob work job lwork funded expected t) = map_option
     (\<lambda>r. if ur_WorkID r = work then loc_job_row job lwork funded expected r else r) (GetByID k t)"
  by (simp add: GetByID_def SetLOCJob_def)

lemma GetByID_RecordRunnerWebhook:
  "GetByID k (RecordRunnerWebhook work i t) = map_option
     (\<lambda>r. if ur_WorkID r = work then runner_row i r else r) (GetByID k t)"
  by (simp add: GetByID_def RecordRunnerWebhook_def)

lemmas GetByID_updates = GetByID_Commit GetByID_Refund GetByID_MarkSettled GetByID_SetLOCJob
  GetByID_RecordRunnerWebhook

section \<open>The ledger only moves forward\<close>

text \<open>
  How one ledger row may evolve: identity columns never change, a resolved row keeps its
  resolution, and a billed amount is never erased.
\<close>

definition ledger_row_le :: "UsageReservation \<Rightarrow> UsageReservation \<Rightarrow> bool" where
  "ledger_row_le r r' \<longleftrightarrow> ur_ID r' = ur_ID r \<and> ur_WorkID r' = ur_WorkID r \<and>
     ur_APIKeyID r' = ur_APIKeyID r \<and> ur_Capability r' = ur_Capability r \<and>
     ur_Offering r' = ur_Offering r \<and> ur_CreatedAt r' = ur_CreatedAt r \<and>
     (ur_State r \<noteq> ReservationOpen \<longrightarrow> ur_State r' = ur_State r \<and>
        ur_ResolvedAt r' = ur_ResolvedAt r \<and> ur_CommittedWorkUnits r' = ur_CommittedWorkUnits r) \<and>
     (ur_BilledValueWei r \<noteq> None \<longrightarrow> ur_BilledValueWei r' \<noteq> None)"

definition ledger_le :: "reservations \<Rightarrow> reservations \<Rightarrow> bool" where
  "ledger_le t t' \<longleftrightarrow> list_all2 ledger_row_le t t'"

lemma ledger_row_le_refl: "ledger_row_le r r"
  by (simp add: ledger_row_le_def)

lemma ledger_row_le_trans: "ledger_row_le a b \<Longrightarrow> ledger_row_le b c \<Longrightarrow> ledger_row_le a c"
  unfolding ledger_row_le_def by (metis option.distinct(1))

lemma ledger_le_refl: "ledger_le t t"
  by (simp add: ledger_le_def list_all2_refl ledger_row_le_refl)

lemma ledger_le_trans: "ledger_le a b \<Longrightarrow> ledger_le b c \<Longrightarrow> ledger_le a c"
  unfolding ledger_le_def
  using list_all2_trans [of ledger_row_le ledger_row_le ledger_row_le a b c]
  by (blast intro: ledger_row_le_trans)

lemma ledger_le_update:
  "(\<And>r. p r \<Longrightarrow> ledger_row_le r (f r)) \<Longrightarrow> ledger_le t (sql_update p f t)"
  by (induction t) (auto simp: ledger_le_def ledger_row_le_refl)

lemma ledger_le_Commit: "ledger_le t (Commit now rid i t)"
  unfolding Commit_def by (rule ledger_le_update) (simp add: ledger_row_le_def commit_row_def)

lemma ledger_le_Refund: "ledger_le t (Refund now rid code msg t)"
  unfolding Refund_def by (rule ledger_le_update) (simp add: ledger_row_le_def refund_row_def)

lemma ledger_le_MarkSettled: "ledger_le t (MarkSettled now rid billed st t)"
  unfolding MarkSettled_def
  by (rule ledger_le_update)
     (auto simp: ledger_row_le_def settled_row_def coalesce_def split: option.splits)

lemma ledger_le_SetLOCJob: "ledger_le t (SetLOCJob work job lwork funded expected t)"
  unfolding SetLOCJob_def by (rule ledger_le_update) (simp add: ledger_row_le_def loc_job_row_def)

lemma ledger_le_RecordRunnerWebhook: "ledger_le t (RecordRunnerWebhook work i t)"
  unfolding RecordRunnerWebhook_def
  by (rule ledger_le_update) (simp add: ledger_row_le_def runner_row_def)

lemmas ledger_le_ops [intro] = ledger_le_Commit ledger_le_Refund ledger_le_MarkSettled
  ledger_le_SetLOCJob ledger_le_RecordRunnerWebhook

lemma ledger_le_GetByID:
  "ledger_le t t' \<Longrightarrow> GetByID k t = Some r \<Longrightarrow> \<exists>r'. GetByID k t' = Some r' \<and> ledger_row_le r r'"
  unfolding ledger_le_def GetByID_def
  by (erule row_by_list_all2) (simp_all add: ledger_row_le_def)

section \<open>Properties\<close>

text \<open>Attempts to resolve a reservation, in any order.\<close>

datatype resolve_op = DoCommit time CommitInput | DoRefund time int string

fun resolve_with :: "uuid \<Rightarrow> resolve_op \<Rightarrow> reservations \<Rightarrow> reservations" where
  "resolve_with rid (DoCommit now i) t = Commit now rid i t"
| "resolve_with rid (DoRefund now code msg) t = Refund now rid code msg t"

definition resolved_state :: "resolve_op \<Rightarrow> ReservationState" where
  "resolved_state x = (case x of DoCommit _ _ \<Rightarrow> ReservationCommitted | DoRefund _ _ _ \<Rightarrow> ReservationRefunded)"

lemma resolve_with_closed:
  assumes "GetByID rid t = Some r" and "ur_State r \<noteq> ReservationOpen"
  shows "GetByID rid (resolve_with rid x t) = Some r"
  using assms by (cases x) (simp_all add: GetByID_Commit GetByID_Refund)

lemma fold_resolve_closed:
  assumes "GetByID rid t = Some r" and "ur_State r \<noteq> ReservationOpen"
  shows "GetByID rid (fold (resolve_with rid) xs t) = Some r"
  using assms(1)
proof (induction xs arbitrary: t)
  case Nil
  then show ?case by simp
next
  case (Cons x xs)
  then show ?case using resolve_with_closed [OF Cons.prems assms(2)] by simp
qed

lemma resolve_first:
  assumes "GetByID rid t = Some r" and "ur_State r = ReservationOpen"
  shows "\<exists>r'. GetByID rid (resolve_with rid x t) = Some r' \<and> ur_State r' = resolved_state x
    \<and> ur_State r' \<noteq> ReservationOpen \<and> ur_ResolvedAt r' \<noteq> None"
  using assms
  by (cases x) (simp_all add: GetByID_Commit GetByID_Refund resolved_state_def commit_row_def refund_row_def)

text \<open>C10: a reservation is resolved exactly once. The first commit or refund of an open reservation
  fixes its state, its resolution instant and its units; whatever sequence of commits and refunds
  follows, the row stays as it is, so a committed reservation is never refunded and a refunded one
  never billed.\<close>

theorem resolve_exactly_once:
  assumes "GetByID rid t = Some r" and "ur_State r = ReservationOpen"
  shows "\<exists>r'. ur_State r' = resolved_state x \<and> ur_State r' \<noteq> ReservationOpen \<and> ur_ResolvedAt r' \<noteq> None \<and>
    (\<forall>xs. GetByID rid (fold (resolve_with rid) (x # xs) t) = Some r')"
proof -
  obtain r' where "GetByID rid (resolve_with rid x t) = Some r'" "ur_State r' = resolved_state x"
      "ur_State r' \<noteq> ReservationOpen" "ur_ResolvedAt r' \<noteq> None"
    using resolve_first [OF assms] by blast
  then show ?thesis using fold_resolve_closed by auto
qed

theorem resolve_exactly_once_witness:
  "\<exists>r'. ur_State r' = ReservationRefunded \<and> ur_State r' \<noteq> ReservationOpen \<and> ur_ResolvedAt r' \<noteq> None \<and>
    (\<forall>xs. GetByID ''res'' (fold (resolve_with ''res'') (DoRefund 7 402 ''no credit'' # xs)
       [fresh_reservation ''res'' ''key'' ''work'' ''cap'' ''off'' (Some 5) None 1]) = Some r')"
  using resolve_exactly_once [of "''res''" "[fresh_reservation ''res'' ''key'' ''work'' ''cap'' ''off'' (Some 5) None 1]" _
      "DoRefund 7 402 ''no credit''"]
  by (simp add: GetByID_def fresh_reservation_def resolved_state_def)

end
