(* ===== verification/Live_Repo.thy ===== *)
theory Live_Repo
  imports Reservation_Repo
begin

text \<open>
  \<^verbatim>\<open>internal/repo/live.go\<close>: the \<^verbatim>\<open>live_streams\<close> table. Rows are provisioning or live until one
  of the guarded updates makes them ended or failed; the guards are the \<^verbatim>\<open>WHERE\<close> clauses.
\<close>

type_synonym live_streams = "LiveStream list"

section \<open>Inserting\<close>

definition fresh_live ::
  "uuid \<Rightarrow> uuid \<Rightarrow> uuid option \<Rightarrow> string option \<Rightarrow> string \<Rightarrow> string \<Rightarrow> string option \<Rightarrow>
   string option \<Rightarrow> string option \<Rightarrow> time \<Rightarrow> LiveStream" where
  "fresh_live lid key res name capab offering ladder hash hint created =
     \<lparr>ls_ID = lid, ls_APIKeyID = key, ls_ReservationID = res, ls_Name = name,
      ls_Status = LiveProvisioning, ls_Capability = capab, ls_Offering = offering,
      ls_BrokerURL = None, ls_EthAddress = None, ls_IngestURL = None, ls_StreamKeyHash = hash,
      ls_PlaybackURL = None, ls_LadderJSON = ladder, ls_ErrorText = None, ls_BrokerSessionID = None,
      ls_RunnerSessionID = None, ls_BrokerWorkID = None, ls_CloseReason = None,
      ls_LastBrokerSyncAt = None, ls_S3OutputPrefix = None, ls_PrivateIngestURL = None,
      ls_StreamKeyHint = hint, ls_CreatedAt = created, ls_StartedAt = None,
      ls_LastHeartbeatAt = None, ls_EndedAt = None, ls_RunnerStatusJSON = None,
      ls_LOCSessionID = None, ls_LOCWorkID = None, ls_LOCRefillCount = 0, ls_LOCClosedAt = None\<rparr>"

definition live_insert :: "LiveStream \<Rightarrow> live_streams \<Rightarrow> live_streams option" where
  "live_insert r t = (if ls_ID r \<in> set (map ls_ID t) then None else Some (t @ [r]))"

record InsertLiveInput =
  il_APIKeyID :: uuid
  il_ReservationID :: "uuid option"
  il_Name :: string
  il_Capability :: string
  il_Offering :: string
  il_LadderJSON :: "string option"

definition LiveInsert :: "uuid \<Rightarrow> time \<Rightarrow> InsertLiveInput \<Rightarrow> live_streams \<Rightarrow> (LiveStream \<times> live_streams) option" where
  "LiveInsert gen now i t =
     (let r = fresh_live gen (il_APIKeyID i) (il_ReservationID i) (nullif_empty (il_Name i))
                (il_Capability i) (il_Offering i) (il_LadderJSON i) None None now
      in map_option (\<lambda>t'. (r, t')) (live_insert r t))"

section \<open>Guarded updates\<close>

definition live_open :: "LiveStream \<Rightarrow> bool" where
  "live_open r \<longleftrightarrow> ls_Status r = LiveProvisioning \<or> ls_Status r = LiveActive"

record ActivateLiveGatewayInput =
  ag_BrokerURL :: string
  ag_EthAddress :: string
  ag_StreamKeyHash :: string
  ag_StreamKeyHint :: string
  ag_S3OutputPrefix :: string
  ag_PrivateIngestURL :: string
  ag_PlaybackURL :: string
  ag_BrokerSessionID :: string
  ag_RunnerSessionID :: string
  ag_BrokerWorkID :: "uuid option"
  ag_LOCSessionID :: "uuid option"
  ag_LOCWorkID :: string

definition activate_row :: "time \<Rightarrow> ActivateLiveGatewayInput \<Rightarrow> LiveStream \<Rightarrow> LiveStream" where
  "activate_row now i r = r\<lparr>ls_Status := LiveActive, ls_BrokerURL := Some (ag_BrokerURL i),
     ls_EthAddress := Some (ag_EthAddress i), ls_StreamKeyHash := Some (ag_StreamKeyHash i),
     ls_StreamKeyHint := nullif_empty (ag_StreamKeyHint i),
     ls_S3OutputPrefix := Some (ag_S3OutputPrefix i),
     ls_PrivateIngestURL := Some (ag_PrivateIngestURL i),
     ls_PlaybackURL := Some (ag_PlaybackURL i),
     ls_BrokerSessionID := nullif_empty (ag_BrokerSessionID i),
     ls_RunnerSessionID := nullif_empty (ag_RunnerSessionID i),
     ls_BrokerWorkID := ag_BrokerWorkID i, ls_LOCSessionID := ag_LOCSessionID i,
     ls_LOCWorkID := nullif_empty (ag_LOCWorkID i),
     ls_StartedAt := Some now, ls_LastHeartbeatAt := Some now\<rparr>"

text \<open>The functions that inspect \<^verbatim>\<open>RowsAffected\<close> return \<^const>\<open>None\<close> for the error they build
  when no row matched; the table is unchanged then.\<close>

definition ActivateGatewayIngest ::
  "time \<Rightarrow> uuid \<Rightarrow> ActivateLiveGatewayInput \<Rightarrow> live_streams \<Rightarrow> live_streams option" where
  "ActivateGatewayIngest now lid i t =
     (let p = (\<lambda>r. ls_ID r = lid \<and> ls_Status r = LiveProvisioning)
      in if rows_affected p t = 0 then None else Some (sql_update p (activate_row now i) t))"

definition IncrementLOCRefill :: "uuid \<Rightarrow> live_streams \<Rightarrow> live_streams" where
  "IncrementLOCRefill lid t =
     sql_update (\<lambda>r. ls_ID r = lid) (\<lambda>r. r\<lparr>ls_LOCRefillCount := ls_LOCRefillCount r + 1\<rparr>) t"

definition loc_close_row :: "time \<Rightarrow> LiveStream \<Rightarrow> LiveStream" where
  "loc_close_row now r = r\<lparr>ls_LOCClosedAt := Some now\<rparr>"

definition ClaimLOCClose :: "time \<Rightarrow> uuid \<Rightarrow> live_streams \<Rightarrow> bool \<times> live_streams" where
  "ClaimLOCClose now lid t =
     (let p = (\<lambda>r. ls_ID r = lid \<and> ls_LOCSessionID r \<noteq> None \<and> ls_LOCClosedAt r = None)
      in (rows_affected p t > 0, sql_update p (loc_close_row now) t))"

definition fail_row :: "time \<Rightarrow> string \<Rightarrow> LiveStream \<Rightarrow> LiveStream" where
  "fail_row now msg r = r\<lparr>ls_Status := LiveFailed, ls_ErrorText := Some msg, ls_EndedAt := Some now\<rparr>"

definition Fail :: "time \<Rightarrow> uuid \<Rightarrow> string \<Rightarrow> live_streams \<Rightarrow> live_streams" where
  "Fail now lid msg t = sql_update (\<lambda>r. ls_ID r = lid \<and> live_open r) (fail_row now msg) t"

definition end_row :: "time \<Rightarrow> LiveStreamStatus \<Rightarrow> string \<Rightarrow> LiveStream \<Rightarrow> LiveStream" where
  "end_row now st reason r =
     r\<lparr>ls_Status := st, ls_CloseReason := nullif_empty reason, ls_EndedAt := Some now\<rparr>"

text \<open>The empty status argument, \<^const>\<open>None\<close> here, defaults to ended.\<close>

definition EndWithReason ::
  "time \<Rightarrow> uuid \<Rightarrow> LiveStreamStatus option \<Rightarrow> string \<Rightarrow> live_streams \<Rightarrow> live_streams option" where
  "EndWithReason now lid st reason t =
     (let st' = (case st of None \<Rightarrow> LiveEnded | Some x \<Rightarrow> x);
          p = (\<lambda>r. ls_ID r = lid \<and> live_open r)
      in if rows_affected p t = 0 then None else Some (sql_update p (end_row now st' reason) t))"

definition EndStream :: "time \<Rightarrow> uuid \<Rightarrow> live_streams \<Rightarrow> live_streams option" where
  "EndStream now lid t = EndWithReason now lid (Some LiveEnded) ''gateway_close'' t"

definition Heartbeat :: "uuid \<Rightarrow> time \<Rightarrow> live_streams \<Rightarrow> live_streams" where
  "Heartbeat lid seen t =
     sql_update (\<lambda>r. ls_ID r = lid \<and> ls_Status r = LiveActive) (\<lambda>r. r\<lparr>ls_LastHeartbeatAt := Some seen\<rparr>) t"

record ReconcileSnapshot =
  rs_Status :: "LiveStreamStatus option"
  rs_PlaybackURL :: string
  rs_CloseReason :: string
  rs_Heartbeat :: "time option"
  rs_EndedAt :: "time option"
  rs_RunnerStatusJSON :: "string option"

definition sync_row :: "time \<Rightarrow> ReconcileSnapshot \<Rightarrow> LiveStream \<Rightarrow> LiveStream" where
  "sync_row now s r = r\<lparr>
     ls_Status := (case rs_Status s of None \<Rightarrow> ls_Status r | Some x \<Rightarrow> x),
     ls_PlaybackURL := coalesce (nullif_empty (rs_PlaybackURL s)) (ls_PlaybackURL r),
     ls_CloseReason := coalesce (nullif_empty (rs_CloseReason s)) (ls_CloseReason r),
     ls_LastHeartbeatAt := coalesce (rs_Heartbeat s) (ls_LastHeartbeatAt r),
     ls_EndedAt := coalesce (rs_EndedAt s) (ls_EndedAt r),
     ls_RunnerStatusJSON := coalesce (rs_RunnerStatusJSON s) (ls_RunnerStatusJSON r),
     ls_LastBrokerSyncAt := Some now\<rparr>"

definition RecordBrokerSync :: "time \<Rightarrow> uuid \<Rightarrow> ReconcileSnapshot \<Rightarrow> live_streams \<Rightarrow> live_streams" where
  "RecordBrokerSync now lid s t = sql_update (\<lambda>r. ls_ID r = lid) (sync_row now s) t"

section \<open>Queries\<close>

definition FindActiveByStreamKeyHash :: "string \<Rightarrow> live_streams \<Rightarrow> LiveStream option" where
  "FindActiveByStreamKeyHash hash t =
     (case order_desc ls_CreatedAt (filter (\<lambda>r. ls_StreamKeyHash r = Some hash \<and> live_open r) t)
      of [] \<Rightarrow> None | r # _ \<Rightarrow> Some r)"

definition LiveGetByID :: "uuid \<Rightarrow> uuid \<Rightarrow> live_streams \<Rightarrow> LiveStream option" where
  "LiveGetByID lid key t = find (\<lambda>r. ls_ID r = lid \<and> ls_APIKeyID r = key) t"

definition LiveListAll :: "bool \<Rightarrow> int \<Rightarrow> live_streams \<Rightarrow> LiveStream list" where
  "LiveListAll activeOnly lmt t =
     take (default_limit lmt 200)
       (order_desc ls_CreatedAt (if activeOnly then filter live_open t else t))"

definition ListActiveForReconcile :: "time \<Rightarrow> int \<Rightarrow> live_streams \<Rightarrow> LiveStream list" where
  "ListActiveForReconcile epoch lmt t =
     take (default_limit lmt 500)
       (order_asc (\<lambda>r. case ls_LastBrokerSyncAt r of None \<Rightarrow> epoch | Some x \<Rightarrow> x)
          (filter (\<lambda>r. live_open r \<and> ls_BrokerSessionID r \<noteq> None) t))"

definition LiveListByAPIKey :: "uuid \<Rightarrow> nat \<Rightarrow> live_streams \<Rightarrow> LiveStream list" where
  "LiveListByAPIKey key lmt t = take lmt (order_desc ls_CreatedAt (filter (\<lambda>r. ls_APIKeyID r = key) t))"

definition CountActive :: "live_streams \<Rightarrow> nat" where
  "CountActive t = count_where (\<lambda>r. ls_Status r = LiveActive) t"

section \<open>Update contracts\<close>

interpretation activate_id: keyed_update ls_ID "activate_row now i" for now i
  by unfold_locales (simp add: activate_row_def)

interpretation loc_close_id: keyed_update ls_ID "loc_close_row now" for now
  by unfold_locales (simp add: loc_close_row_def)

interpretation fail_id: keyed_update ls_ID "fail_row now msg" for now msg
  by unfold_locales (simp add: fail_row_def)

interpretation end_id: keyed_update ls_ID "end_row now st reason" for now st reason
  by unfold_locales (simp add: end_row_def)

interpretation sync_id: keyed_update ls_ID "sync_row now s" for now s
  by unfold_locales (simp add: sync_row_def)

lemmas live_row_after [simp] = activate_id.row_after loc_close_id.row_after fail_id.row_after
  end_id.row_after sync_id.row_after

lemma rows_affected_pos: "rows_affected p t > 0 \<longleftrightarrow> (\<exists>r \<in> set t. p r)"
  by (auto simp: rows_affected_def filter_empty_conv)

lemma row_by_matches:
  "distinct (map key t) \<Longrightarrow>
   (\<exists>r \<in> set t. key r = k \<and> p r) \<longleftrightarrow> (\<exists>r. row_by key k t = Some r \<and> p r)"
  by (induction t) (auto simp: image_iff)

text \<open>
  A LOC close is claimed at most once: after any claim on the stream, a later claim on it
  loses, whatever instants the two callers write.
\<close>

lemma ClaimLOCClose_closes:
  assumes "r \<in> set (snd (ClaimLOCClose now lid t))" and "ls_ID r = lid" and "ls_LOCSessionID r \<noteq> None"
  shows "ls_LOCClosedAt r \<noteq> None"
proof -
  obtain x where x: "x \<in> set t" and r: "r = (if ls_ID x = lid \<and> ls_LOCSessionID x \<noteq> None \<and> ls_LOCClosedAt x = None
      then loc_close_row now x else x)"
    using assms(1) by (auto simp: ClaimLOCClose_def Let_def set_sql_update)
  then show ?thesis
    using assms(2,3) by (cases "ls_LOCClosedAt x = None") (simp_all add: loc_close_row_def split: if_splits)
qed

lemma ClaimLOCClose_loses:
  assumes "\<forall>r \<in> set t. ls_ID r = lid \<longrightarrow> ls_LOCSessionID r \<noteq> None \<longrightarrow> ls_LOCClosedAt r \<noteq> None"
  shows "\<not> fst (ClaimLOCClose now lid t)"
proof -
  have "rows_affected (\<lambda>r. ls_ID r = lid \<and> ls_LOCSessionID r \<noteq> None \<and> ls_LOCClosedAt r = None) t = 0"
    using assms by (auto simp: rows_affected_def filter_empty_conv)
  then show ?thesis by (simp add: ClaimLOCClose_def Let_def)
qed

text \<open>The RTMP admission lookup only ever returns a stream that is still open and owns the key.\<close>

lemma FindActiveByStreamKeyHash_SomeD:
  assumes "FindActiveByStreamKeyHash hash t = Some r"
  shows "r \<in> set t" and "ls_StreamKeyHash r = Some hash" and "live_open r"
proof -
  have "r \<in> set (order_desc ls_CreatedAt (filter (\<lambda>r. ls_StreamKeyHash r = Some hash \<and> live_open r) t))"
    using assms by (auto simp: FindActiveByStreamKeyHash_def split: list.splits)
  then have "r \<in> set (filter (\<lambda>r. ls_StreamKeyHash r = Some hash \<and> live_open r) t)"
    by (simp add: order_desc_def)
  then show "r \<in> set t" and "ls_StreamKeyHash r = Some hash" and "live_open r" by simp_all
qed

lemma order_desc_Nil_iff: "order_desc k t = [] \<longleftrightarrow> t = []"
  using length_sort [of "\<lambda>r. - k r" t] by (metis length_0_conv order_desc_def)

lemma FindActiveByStreamKeyHash_None_iff:
  "FindActiveByStreamKeyHash hash t = None \<longleftrightarrow>
     (\<forall>r \<in> set t. ls_StreamKeyHash r = Some hash \<longrightarrow> \<not> live_open r)"
proof -
  have "FindActiveByStreamKeyHash hash t = None \<longleftrightarrow>
      order_desc ls_CreatedAt (filter (\<lambda>r. ls_StreamKeyHash r = Some hash \<and> live_open r) t) = []"
    by (simp add: FindActiveByStreamKeyHash_def split: list.splits)
  then show ?thesis by (auto simp: order_desc_Nil_iff filter_empty_conv)
qed

section \<open>Properties\<close>

text \<open>A sequence of attempts to claim the LOC close of a stream; the answers the callers get.\<close>

fun claim_results :: "uuid \<Rightarrow> time list \<Rightarrow> live_streams \<Rightarrow> bool list" where
  "claim_results lid [] t = []"
| "claim_results lid (now # ts) t = (case ClaimLOCClose now lid t of (won, t') \<Rightarrow> won # claim_results lid ts t')"

lemma claim_results_lost:
  assumes "\<forall>r \<in> set t. ls_ID r = lid \<longrightarrow> ls_LOCSessionID r \<noteq> None \<longrightarrow> ls_LOCClosedAt r \<noteq> None"
  shows "filter id (claim_results lid ts t) = []"
  using assms
proof (induction ts arbitrary: t)
  case (Cons now ts)
  have keep: "\<forall>r \<in> set (snd (ClaimLOCClose now lid t)). ls_ID r = lid \<longrightarrow> ls_LOCSessionID r \<noteq> None \<longrightarrow> ls_LOCClosedAt r \<noteq> None"
    using ClaimLOCClose_closes by blast
  show ?case using ClaimLOCClose_loses [OF Cons.prems, of now] Cons.IH [OF keep] by (cases "ClaimLOCClose now lid t") auto
qed simp

text \<open>The LOC close of a stream is claimed at most once. However many callers race for it and
  whatever instants they write, at most one is told it won; the first does exactly when the stream
  has a LOC session that is not closed yet.\<close>

theorem ClaimLOCClose_at_most_once:
  "length (filter id (claim_results lid ts t)) \<le> 1 \<and>
   (fst (ClaimLOCClose now lid t) \<longleftrightarrow> (\<exists>r \<in> set t. ls_ID r = lid \<and> ls_LOCSessionID r \<noteq> None \<and> ls_LOCClosedAt r = None))"
proof
  show "length (filter id (claim_results lid ts t)) \<le> 1"
  proof (cases ts)
    case (Cons n ns)
    have "filter id (claim_results lid ns (snd (ClaimLOCClose n lid t))) = []"
      by (rule claim_results_lost) (use ClaimLOCClose_closes in blast)
    then show ?thesis using Cons by (cases "ClaimLOCClose n lid t") auto
  qed simp
  show "fst (ClaimLOCClose now lid t) \<longleftrightarrow> (\<exists>r \<in> set t. ls_ID r = lid \<and> ls_LOCSessionID r \<noteq> None \<and> ls_LOCClosedAt r = None)"
    by (simp add: ClaimLOCClose_def Let_def rows_affected_pos)
qed

end
