(* ===== verification/Operation_Repo.thy ===== *)
theory Operation_Repo
  imports Live_Repo
begin

text \<open>
  \<^verbatim>\<open>internal/repo/operations.go\<close>: the durable operation journal. The encrypted secrets and the
  public JSON are opaque to the repository, hence type parameters. \<^verbatim>\<open>CreateIntent\<close> is one
  transaction over three tables; \<^verbatim>\<open>Lock\<close> is PostgreSQL's session advisory lock on the
  operation id, modelled as the list of ids held.
\<close>

record ('s, 'v) PaidOperation =
  op_ID :: uuid
  op_APIKeyID :: uuid
  op_ReservationID :: uuid
  op_LiveStreamID :: "uuid option"
  op_Kind :: string
  op_RequestKey :: string
  op_RequestHash :: string
  op_State :: string
  op_Secrets :: 's
  op_PublicJSON :: 'v
  op_LastError :: "string option"
  op_Attempts :: int
  op_NextAttemptAt :: time
  op_StopRequested :: bool
  op_CreatedAt :: time
  op_UpdatedAt :: time
  op_FinishedAt :: "time option"

record ('s, 'v) db =
  db_reservations :: reservations
  db_live :: live_streams
  db_ops :: "('s, 'v) PaidOperation list"

section \<open>Reads\<close>

definition OpGet :: "uuid \<Rightarrow> ('s, 'v) db \<Rightarrow> ('s, 'v) PaidOperation option" where
  "OpGet i d = row_by op_ID i (db_ops d)"

definition FindRequest :: "uuid \<Rightarrow> string \<Rightarrow> string \<Rightarrow> ('s, 'v) db \<Rightarrow> ('s, 'v) PaidOperation option" where
  "FindRequest key kind request d =
     find (\<lambda>r. op_APIKeyID r = key \<and> op_Kind r = kind \<and> op_RequestKey r = request) (db_ops d)"

definition GetLive :: "uuid \<Rightarrow> ('s, 'v) db \<Rightarrow> ('s, 'v) PaidOperation option" where
  "GetLive lid d = row_by op_LiveStreamID (Some lid) (db_ops d)"

text \<open>The listing projection: no secrets, no request material.\<close>

record 'v PublicView =
  pv_ID :: uuid
  pv_State :: string
  pv_PublicJSON :: 'v
  pv_StopRequested :: bool
  pv_FinishedAt :: "time option"

definition public_view :: "('s, 'v) PaidOperation \<Rightarrow> 'v PublicView" where
  "public_view r = \<lparr>pv_ID = op_ID r, pv_State = op_State r, pv_PublicJSON = op_PublicJSON r,
     pv_StopRequested = op_StopRequested r, pv_FinishedAt = op_FinishedAt r\<rparr>"

definition PublicViews :: "uuid list \<Rightarrow> ('s, 'v) db \<Rightarrow> uuid \<rightharpoonup> 'v PublicView" where
  "PublicViews ids d = (\<lambda>i. if i \<in> set ids then map_option public_view (OpGet i d) else None)"

definition Pending :: "time \<Rightarrow> string \<Rightarrow> nat \<Rightarrow> ('s, 'v) db \<Rightarrow> uuid list" where
  "Pending now kind lmt d =
     map op_ID (take lmt (sort_key (\<lambda>r. \<not> op_StopRequested r) (sort_key op_NextAttemptAt
       (filter (\<lambda>r. op_FinishedAt r = None \<and> op_Kind r = kind \<and> op_NextAttemptAt r \<le> now) (db_ops d)))))"

section \<open>Writes\<close>

text \<open>Primary key, uniqueness of \<^verbatim>\<open>(api_key_id, kind, request_key)\<close> and the \<^verbatim>\<open>CHECK\<close> on kind.\<close>

definition op_same_request :: "('s, 'v) PaidOperation \<Rightarrow> ('s, 'v) PaidOperation \<Rightarrow> bool" where
  "op_same_request a b \<longleftrightarrow> op_APIKeyID a = op_APIKeyID b \<and> op_Kind a = op_Kind b \<and> op_RequestKey a = op_RequestKey b"

definition op_clash :: "('s, 'v) PaidOperation \<Rightarrow> ('s, 'v) PaidOperation list \<Rightarrow> bool" where
  "op_clash r t \<longleftrightarrow> op_ID r \<in> set (map op_ID t) \<or> list_ex (op_same_request r) t \<or>
     (op_Kind r \<noteq> ''abr'' \<and> op_Kind r \<noteq> ''live'')"

text \<open>The row as inserted: the columns the statement does not name take their defaults.\<close>

definition op_inserted :: "time \<Rightarrow> ('s, 'v) PaidOperation \<Rightarrow> ('s, 'v) PaidOperation" where
  "op_inserted now r = r\<lparr>op_LastError := None, op_Attempts := 0, op_NextAttemptAt := now,
     op_StopRequested := False, op_CreatedAt := now, op_UpdatedAt := now, op_FinishedAt := None\<rparr>"

definition op_insert :: "time \<Rightarrow> ('s, 'v) PaidOperation \<Rightarrow> ('s, 'v) PaidOperation list \<Rightarrow>
    ('s, 'v) PaidOperation list option" where
  "op_insert now r t = (if op_clash r t then None else Some (t @ [op_inserted now r]))"

definition OpCreate :: "time \<Rightarrow> ('s, 'v) PaidOperation \<Rightarrow> ('s, 'v) db \<Rightarrow> ('s, 'v) db option" where
  "OpCreate now r d = map_option (\<lambda>t. d\<lparr>db_ops := t\<rparr>) (op_insert now r (db_ops d))"

definition CreateIntent :: "time \<Rightarrow> ('s, 'v) PaidOperation \<Rightarrow> string \<Rightarrow> string \<Rightarrow> string \<Rightarrow> string \<Rightarrow>
    string \<Rightarrow> int \<Rightarrow> ('s, 'v) db \<Rightarrow> ('s, 'v) db option" where
  "CreateIntent now r capab offering name streamHash streamHint estimated d =
     Option.bind (reservation_insert (fresh_reservation (op_ReservationID r) (op_APIKeyID r) (op_ID r)
                    capab offering (Some estimated) None now) (db_reservations d)) (\<lambda>res.
     Option.bind (case op_LiveStreamID r of
                    None \<Rightarrow> Some (db_live d)
                  | Some lid \<Rightarrow> live_insert (fresh_live lid (op_APIKeyID r) (Some (op_ReservationID r))
                      (Some name) capab offering None (Some streamHash) (Some streamHint) now) (db_live d)) (\<lambda>lives.
     Option.bind (op_insert now r (db_ops d)) (\<lambda>ops.
     Some (d\<lparr>db_reservations := res, db_live := lives, db_ops := ops\<rparr>))))"

definition stop_row :: "time \<Rightarrow> ('s, 'v) PaidOperation \<Rightarrow> ('s, 'v) PaidOperation" where
  "stop_row now r = r\<lparr>op_StopRequested := True, op_NextAttemptAt := now, op_UpdatedAt := now\<rparr>"

definition RequestStop :: "time \<Rightarrow> uuid \<Rightarrow> ('s, 'v) db \<Rightarrow> ('s, 'v) db" where
  "RequestStop now i d = d\<lparr>db_ops :=
     sql_update (\<lambda>r. op_ID r = i \<and> op_FinishedAt r = None) (stop_row now) (db_ops d)\<rparr>"

definition save_row :: "time \<Rightarrow> ('s, 'v) PaidOperation \<Rightarrow> ('s, 'v) PaidOperation \<Rightarrow> ('s, 'v) PaidOperation" where
  "save_row now x r = r\<lparr>op_State := op_State x, op_Secrets := op_Secrets x,
     op_PublicJSON := op_PublicJSON x, op_LastError := op_LastError x, op_Attempts := op_Attempts x,
     op_NextAttemptAt := op_NextAttemptAt x, op_FinishedAt := op_FinishedAt x, op_UpdatedAt := now\<rparr>"

definition OpSave :: "time \<Rightarrow> ('s, 'v) PaidOperation \<Rightarrow> ('s, 'v) db \<Rightarrow> ('s, 'v) db" where
  "OpSave now x d = d\<lparr>db_ops := sql_update (\<lambda>r. op_ID r = op_ID x) (save_row now x) (db_ops d)\<rparr>"

section \<open>Advisory locks\<close>

definition TryLock :: "uuid \<Rightarrow> uuid list \<Rightarrow> uuid list option" where
  "TryLock i held = (if i \<in> set held then None else Some (i # held))"

definition Unlock :: "uuid \<Rightarrow> uuid list \<Rightarrow> uuid list" where
  "Unlock i held = remove1 i held"

section \<open>Cut-over guard\<close>

definition legacy_count :: "('s, 'v) db \<Rightarrow> nat" where
  "legacy_count d =
     count_where (\<lambda>u. ur_SettleState u = SettlePending \<and>
        \<not> list_ex (\<lambda>p. op_ReservationID p = ur_ID u) (db_ops d)) (db_reservations d) +
     count_where (\<lambda>l. live_open l \<and>
        \<not> list_ex (\<lambda>p. op_LiveStreamID p = Some (ls_ID l)) (db_ops d)) (db_live d)"

definition CheckLegacyDrain :: "('s, 'v) db \<Rightarrow> nat + unit" where
  "CheckLegacyDrain d = (if legacy_count d > 0 then Inl (legacy_count d) else Inr ())"

section \<open>Update contracts\<close>

interpretation stop_id: keyed_update op_ID "stop_row now" for now
  by unfold_locales (simp add: stop_row_def)

interpretation save_id: keyed_update op_ID "save_row now x" for now x
  by unfold_locales (simp add: save_row_def)

lemma OpGet_RequestStop:
  "OpGet k (RequestStop now i d) = map_option
     (\<lambda>r. if k = i \<and> op_FinishedAt r = None then stop_row now r else r) (OpGet k d)"
  by (cases "row_by op_ID k (db_ops d)")
     (auto simp: OpGet_def RequestStop_def stop_id.row_after dest: row_by_SomeD)

lemma OpGet_OpSave:
  "OpGet k (OpSave now x d) = map_option (\<lambda>r. if k = op_ID x then save_row now x r else r) (OpGet k d)"
  by (cases "row_by op_ID k (db_ops d)")
     (auto simp: OpGet_def OpSave_def save_id.row_after dest: row_by_SomeD)

lemma db_simps [simp]:
  "db_reservations (RequestStop now i d) = db_reservations d"
  "db_live (RequestStop now i d) = db_live d"
  "db_reservations (OpSave now x d) = db_reservations d"
  "db_live (OpSave now x d) = db_live d"
  by (simp_all add: RequestStop_def OpSave_def)

section \<open>What a journal row keeps\<close>

text \<open>Identity columns are immutable and the stop flag is monotone: no writer but the stop
  request touches it, and that one only sets it.\<close>

definition op_row_le :: "('s, 'v) PaidOperation \<Rightarrow> ('s, 'v) PaidOperation \<Rightarrow> bool" where
  "op_row_le r r' \<longleftrightarrow> op_ID r' = op_ID r \<and> op_APIKeyID r' = op_APIKeyID r \<and>
     op_ReservationID r' = op_ReservationID r \<and> op_LiveStreamID r' = op_LiveStreamID r \<and>
     op_Kind r' = op_Kind r \<and> op_RequestKey r' = op_RequestKey r \<and>
     op_RequestHash r' = op_RequestHash r \<and> op_CreatedAt r' = op_CreatedAt r \<and>
     (op_StopRequested r \<longrightarrow> op_StopRequested r')"

definition journal_le :: "('s, 'v) PaidOperation list \<Rightarrow> ('s, 'v) PaidOperation list \<Rightarrow> bool" where
  "journal_le t t' \<longleftrightarrow> list_all2 op_row_le t t'"

lemma op_row_le_refl: "op_row_le r r"
  by (simp add: op_row_le_def)

lemma op_row_le_trans: "op_row_le a b \<Longrightarrow> op_row_le b c \<Longrightarrow> op_row_le a c"
  by (simp add: op_row_le_def)

lemma journal_le_refl: "journal_le t t"
  by (simp add: journal_le_def list_all2_refl op_row_le_refl)

lemma journal_le_trans: "journal_le a b \<Longrightarrow> journal_le b c \<Longrightarrow> journal_le a c"
  unfolding journal_le_def
  using list_all2_trans [of op_row_le op_row_le op_row_le a b c] by (blast intro: op_row_le_trans)

lemma journal_le_update: "(\<And>r. p r \<Longrightarrow> op_row_le r (f r)) \<Longrightarrow> journal_le t (sql_update p f t)"
  by (induction t) (auto simp: journal_le_def op_row_le_refl)

lemma journal_le_RequestStop: "journal_le (db_ops d) (db_ops (RequestStop now i d))"
  unfolding RequestStop_def by (simp add: journal_le_update op_row_le_def stop_row_def)

lemma journal_le_OpSave: "journal_le (db_ops d) (db_ops (OpSave now x d))"
  unfolding OpSave_def by (simp add: journal_le_update op_row_le_def save_row_def)

lemma journal_le_OpGet:
  assumes "journal_le (db_ops d) (db_ops d')" and "OpGet k d = Some r"
  shows "\<exists>r'. OpGet k d' = Some r' \<and> op_row_le r r'"
  unfolding OpGet_def
  by (rule row_by_list_all2 [OF assms(1) [unfolded journal_le_def] _ assms(2) [unfolded OpGet_def]])
     (simp add: op_row_le_def)

section \<open>Properties\<close>

lemma CreateIntent_SomeD:
  assumes "CreateIntent now r capab offering name h1 h2 est d = Some d'"
  shows "db_ops d' = db_ops d @ [op_inserted now r]" and "\<not> op_clash r (db_ops d)"
    and "db_reservations d' = db_reservations d @
      [fresh_reservation (op_ReservationID r) (op_APIKeyID r) (op_ID r) capab offering (Some est) None now]"
    and "op_ReservationID r \<notin> set (map ur_ID (db_reservations d))"
  using assms
  by (auto simp: CreateIntent_def op_insert_def reservation_insert_def reservation_clash_def fresh_reservation_def
      split: Option.bind_splits if_splits)

lemma find_append_new: "find p (t @ [x]) = (case find p t of Some y \<Rightarrow> Some y | None \<Rightarrow> if p x then Some x else None)"
  by (induction t) auto

lemma op_clash_same: "op_same_request r q \<Longrightarrow> op_clash q (t @ [op_inserted now r])"
  by (auto simp: op_clash_def op_same_request_def op_inserted_def)

text \<open>C13: admission is atomic and idempotent. A successful create inserts the operation, in the state it
  was given and as unfinished, unattempted, not stopped and due at once, together with its open
  reservation of the estimate, where neither the operation nor the reservation existed, and changes
  no other operation and no other reservation; afterwards no second operation can be created for the
  same API key, kind and idempotency key, whatever its identity, and a lookup by that key finds the
  first.\<close>

theorem CreateIntent_once:
  assumes "CreateIntent now r capab offering name h1 h2 est d = Some d'"
  shows "\<exists>q. OpGet (op_ID r) d = None \<and> OpGet (op_ID r) d' = Some q \<and>
    op_State q = op_State r \<and> op_FinishedAt q = None \<and> op_Attempts q = 0 \<and> op_NextAttemptAt q = now \<and> \<not> op_StopRequested q \<and>
    op_ReservationID q = op_ReservationID r \<and> op_Secrets q = op_Secrets r \<and>
    (\<forall>k. k \<noteq> op_ID r \<longrightarrow> OpGet k d' = OpGet k d) \<and>
    GetByID (op_ReservationID r) (db_reservations d) = None \<and>
    (\<exists>u. GetByID (op_ReservationID r) (db_reservations d') = Some u \<and> ur_State u = ReservationOpen \<and>
       ur_EstimatedWorkUnits u = Some est) \<and>
    (\<forall>k. k \<noteq> op_ReservationID r \<longrightarrow> GetByID k (db_reservations d') = GetByID k (db_reservations d)) \<and>
    FindRequest (op_APIKeyID r) (op_Kind r) (op_RequestKey r) d' = Some q \<and>
    (\<forall>q t2 c2 o2 n2 a2 b2 e2. op_same_request r q \<longrightarrow> CreateIntent t2 q c2 o2 n2 a2 b2 e2 d' = None)"
proof (intro exI [of _ "op_inserted now r"] conjI)
  note eff = CreateIntent_SomeD [OF assms]
  from eff(2) show new: "OpGet (op_ID r) d = None"
    by (auto simp: OpGet_def row_by_None_iff op_clash_def)
  then show "OpGet (op_ID r) d' = Some (op_inserted now r)"
    by (simp add: OpGet_def eff(1) row_by_append_new op_inserted_def)
  show "\<forall>k. k \<noteq> op_ID r \<longrightarrow> OpGet k d' = OpGet k d"
    by (auto simp: OpGet_def eff(1) row_by_append_new op_inserted_def split: option.split)
  show "op_State (op_inserted now r) = op_State r" "op_FinishedAt (op_inserted now r) = None" "op_Attempts (op_inserted now r) = 0"
    "op_NextAttemptAt (op_inserted now r) = now" "\<not> op_StopRequested (op_inserted now r)"
    "op_ReservationID (op_inserted now r) = op_ReservationID r" "op_Secrets (op_inserted now r) = op_Secrets r"
    by (simp_all add: op_inserted_def)
  from eff(4) have none: "row_by ur_ID (op_ReservationID r) (db_reservations d) = None"
    by (auto simp: row_by_None_iff)
  then show "GetByID (op_ReservationID r) (db_reservations d) = None" by (simp add: GetByID_def)
  show "\<forall>k. k \<noteq> op_ReservationID r \<longrightarrow> GetByID k (db_reservations d') = GetByID k (db_reservations d)"
    by (auto simp: GetByID_def eff(3) row_by_append_new split: option.split) (simp add: fresh_reservation_def)
  from none show "\<exists>u. GetByID (op_ReservationID r) (db_reservations d') = Some u \<and> ur_State u = ReservationOpen \<and>
       ur_EstimatedWorkUnits u = Some est"
    by (simp add: GetByID_def eff(3) row_by_append_new) (simp add: fresh_reservation_def)
  have "find (op_same_request r) (db_ops d) = None"
    using eff(2) by (auto simp: op_clash_def find_None_iff list_ex_iff)
  moreover have "(\<lambda>q. op_APIKeyID q = op_APIKeyID r \<and> op_Kind q = op_Kind r \<and> op_RequestKey q = op_RequestKey r) = op_same_request r"
    by (auto simp: op_same_request_def fun_eq_iff)
  ultimately show "FindRequest (op_APIKeyID r) (op_Kind r) (op_RequestKey r) d' = Some (op_inserted now r)"
    unfolding FindRequest_def eff(1) find_append_new
    by (simp add: op_same_request_def op_inserted_def)
  show "\<forall>q t2 c2 o2 n2 a2 b2 e2. op_same_request r q \<longrightarrow> CreateIntent t2 q c2 o2 n2 a2 b2 e2 d' = None"
    using op_clash_same [of r _ "db_ops d" now]
    by (auto simp: CreateIntent_def op_insert_def eff(1) split: Option.bind_split)
qed

theorem CreateIntent_once_witness:
  "\<exists>d'. CreateIntent 5 \<lparr>op_ID = ''op'', op_APIKeyID = ''key'', op_ReservationID = ''res'', op_LiveStreamID = None, op_Kind = ''abr'',
       op_RequestKey = ''req'', op_RequestHash = ''hash'', op_State = ''queued'', op_Secrets = (), op_PublicJSON = (), op_LastError = None,
       op_Attempts = 0, op_NextAttemptAt = 0, op_StopRequested = False, op_CreatedAt = 0, op_UpdatedAt = 0, op_FinishedAt = None\<rparr>
     ''cap'' ''off'' '''' '''' '''' 9 \<lparr>db_reservations = [], db_live = [], db_ops = []\<rparr> = Some d' \<and>
   (\<exists>u. GetByID ''res'' (db_reservations d') = Some u \<and> ur_State u = ReservationOpen \<and> ur_EstimatedWorkUnits u = Some 9)"
proof -
  let ?r = "\<lparr>op_ID = ''op'', op_APIKeyID = ''key'', op_ReservationID = ''res'', op_LiveStreamID = None, op_Kind = ''abr'',
       op_RequestKey = ''req'', op_RequestHash = ''hash'', op_State = ''queued'', op_Secrets = (), op_PublicJSON = (), op_LastError = None,
       op_Attempts = 0, op_NextAttemptAt = 0, op_StopRequested = False, op_CreatedAt = 0, op_UpdatedAt = 0, op_FinishedAt = None\<rparr>"
  obtain d' where d': "CreateIntent 5 ?r ''cap'' ''off'' '''' '''' '''' 9 \<lparr>db_reservations = [], db_live = [], db_ops = []\<rparr> = Some d'"
    by (simp add: CreateIntent_def reservation_insert_def reservation_clash_def op_insert_def op_clash_def)
  then show ?thesis using CreateIntent_once [OF d'] by auto
qed

end
