(* ===== verification/Paid_Model.thy ===== *)
theory Paid_Model
  imports LOC_Client Broker_Client Operation_Repo
begin

text \<open>
  State and primitive effects of the paid engine (\<^verbatim>\<open>internal/server/paid_engine.go\<close>).

  One run of \<^verbatim>\<open>Process\<close> works on three Go pointers: the operation row \<open>o\<close>, its decrypted
  secrets \<open>s\<close> and its public view \<open>v\<close>. They are fields of the engine state, so a mutation made
  before an error is kept, as it is in Go. Every interaction with the outside (an upstream call,
  an SQL statement) consumes one tick; the environment decides, per tick, what the upstream
  answers, whether the statement fails (before or after it took effect), and which customers'
  stop requests committed just before it. Nothing is assumed about these answers.

  The journal's ciphertext is symbolic: \<open>Sealed key nonce identity plain\<close> is what AES-GCM under
  \<open>key\<close> with the identity as associated data yields, and opens under exactly that key and
  identity; any other bytes are \<open>Opaque\<close>.
\<close>

section \<open>Configuration and URLs\<close>

record Config =
  ABRCapability :: string
  ABROffering :: string
  ABRMaxTotalUnits :: int
  ABRJobTimeoutSecs :: int
  LiveCapability :: string
  LiveGatewayIngestOffering :: string
  LiveMaxTotalUnits :: int
  LiveTopupRunwayThresholdSecs :: int
  LiveTopupFundSecs :: int
  LiveReconcileIntervalSecs :: int
  LiveRTMPPort :: int
  LiveExternalRTMPURL :: string
  GatewayPublicURL :: string
  LiveOutputProfile :: string
  LiveMeteringRendition :: string
  RefreshMS :: int
  LOCAPIKey :: string
  CallerPrivateKey :: string
  OperationSecretsKey :: string

text \<open>The components of \<^verbatim>\<open>url.Parse\<close> the gateway reads.\<close>

record URL =
  u_Scheme :: string
  u_Host :: string
  u_Hostname :: string
  u_HasUser :: bool
  u_RawQuery :: string
  u_Fragment :: string
  u_Path :: string

text \<open>\<^verbatim>\<open>config.Load\<close> after \<^verbatim>\<open>env.Parse\<close>: the checks that decide whether the gateway starts.\<close>

definition rtmp_server_url_ok :: "URL option \<Rightarrow> bool" where
  "rtmp_server_url_ok p = (case p of
      None \<Rightarrow> False
    | Some u \<Rightarrow> \<not> (u_Scheme u \<noteq> ''rtmp'' \<and> u_Scheme u \<noteq> ''rtmps'' \<or> u_Hostname u = '''' \<or> u_HasUser u \<or>
        u_RawQuery u \<noteq> '''' \<or> u_Fragment u \<noteq> '''' \<or> u_Path u \<noteq> ''/live''))"

definition Load :: "(string \<Rightarrow> URL option) \<Rightarrow> Config \<Rightarrow> string + Config" where
  "Load parse c =
     (if RefreshMS c \<le> 0 \<or> ABRMaxTotalUnits c \<le> 0 \<or> ABRJobTimeoutSecs c \<le> 0 \<or> LiveMaxTotalUnits c \<le> 0 \<or>
         LiveTopupFundSecs c \<le> 0 \<or> LiveReconcileIntervalSecs c \<le> 0 \<or> LiveTopupRunwayThresholdSecs c < 0 \<or>
         LiveRTMPPort c < 0 \<or> LiveRTMPPort c > 65535
      then Inl ''config: catalog interval and paid operation limits must be positive''
      else if LOCAPIKey c \<noteq> '''' \<and> (CallerPrivateKey c = '''' \<or> OperationSecretsKey c = '''')
      then Inl ''config: LOC_CALLER_PRIVATE_KEY and OPERATION_SECRETS_KEY are required for v2 paid operations''
      else if LiveExternalRTMPURL c \<noteq> '''' \<and> \<not> rtmp_server_url_ok (parse (LiveExternalRTMPURL c))
      then Inl ''config: LIVE_EXTERNAL_RTMP_URL must be an rtmp(s) server URL ending in /live without a stream key''
      else Inr c)"

section \<open>Journal contents\<close>

record Grant =
  g_ID :: string
  g_Operations :: "string list"
  g_Secret :: string
  g_ExpiresAt :: string

record brokerSession =
  b_SessionID :: string
  b_Credential :: string
  b_WorkID :: string
  b_State :: string
  b_Schema :: string
  b_RTMPURL :: string
  b_HLSURL :: string
  b_KeyIssueURL :: string
  b_Grants :: "Grant list"
  b_BalanceStatus :: string
  b_RunwaySeconds :: int
  b_ClaimedUnits :: int
  b_Remaining :: int
  b_WillRefuse :: bool
  b_UsageUnit :: string
  b_ClaimedTotal :: int
  b_LeaseExpiresAt :: string
  b_OutputState :: string
  b_LastFailureCode :: string
  b_CloseReason :: string

record operationSecrets =
  s_RefillRefused :: bool
  s_Capability :: string
  s_Offering :: string
  s_Body :: string
  s_Params :: json
  s_CallerPublicKey :: string
  s_EstimatedUnits :: int
  s_LimitUnits :: int
  s_CurrentCap :: int
  s_CustomerKey :: string
  s_UpstreamURL :: string
  s_UpstreamKeyExpiresAt :: time
  s_KeyIssueRequestID :: string
  s_Job :: "CreateJobResponseV2 option"
  s_Preparation :: "PrepareSessionResponseV2 option"
  s_Session :: "CreateSessionResponseV2 option"
  s_Broker :: "brokerSession option"
  s_Claim :: "TerminalClaim option"
  s_DispatchAttempted :: bool
  s_RefillID :: string
  s_RefillBody :: string
  s_RefillCap :: int
  s_Refill :: "RefillSessionResponseV2 option"
  s_EndReason :: string

record ABRRendition =
  rd_Name :: string
  rd_PlaylistURL :: string
  rd_Bandwidth :: int

record operationView =
  v_MediaEndedAt :: "time option"
  v_Status :: string
  v_Phase :: string
  v_Progress :: rat
  v_Preset :: string
  v_MasterURL :: string
  v_Renditions :: "ABRRendition list"
  v_WorkUnit :: string
  v_ActualUnits :: "int option"
  v_OutputState :: string
  v_FailureCode :: string
  v_CloseReason :: string
  v_TerminalOutcome :: string

datatype sealed =
    Sealed (box_key: string) (box_nonce: string) (box_identity: string) (box_plain: operationSecrets)
  | Opaque string

type_synonym operation = "(sealed, operationView) PaidOperation"
type_synonym database = "(sealed, operationView) db"

text \<open>\<^verbatim>\<open>SecretBox.Seal\<close> and \<^verbatim>\<open>SecretBox.Open\<close> composed with the JSON encoding of the secrets.\<close>

definition BoxSeal :: "string \<Rightarrow> string \<Rightarrow> string \<Rightarrow> operationSecrets \<Rightarrow> sealed" where
  "BoxSeal key nonce identity plain = Sealed key nonce identity plain"

definition BoxOpen :: "string \<Rightarrow> string \<Rightarrow> sealed \<Rightarrow> operationSecrets option" where
  "BoxOpen key identity c = (case c of
      Sealed k _ i p \<Rightarrow> if k = key \<and> i = identity then Some p else None
    | Opaque _ \<Rightarrow> None)"

text \<open>The contract the journal relies on: what was sealed for an operation opens for it, and a
  ciphertext opens for no other operation and under no other key.\<close>

locale secret_box =
  fixes seal :: "'k \<Rightarrow> 'n \<Rightarrow> 'i \<Rightarrow> 'p \<Rightarrow> 'c" and openb :: "'k \<Rightarrow> 'i \<Rightarrow> 'c \<Rightarrow> 'p option"
  assumes open_seal: "openb k i (seal k n i p) = Some p"
    and open_binding: "openb k' i' (seal k n i p) = Some q \<Longrightarrow> k' = k \<and> i' = i \<and> q = p"
begin

lemma not_transplantable: "i \<noteq> i' \<Longrightarrow> openb k i' (seal k n i p) = None"
  using open_binding by (metis not_None_eq)

lemma key_required: "k \<noteq> k' \<Longrightarrow> openb k' i (seal k n i p) = None"
  using open_binding by (metis not_None_eq)

end

interpretation box: secret_box BoxSeal BoxOpen
  by unfold_locales (auto simp: BoxSeal_def BoxOpen_def split: if_splits)

section \<open>Upstream calls and environment\<close>

datatype upstream_call =
    CallCreateJob CreateJobRequestV2
  | CallSettleJob uuid SettleJobRequestV2
  | CallGetJob uuid
  | CallPrepareSession PrepareSessionRequestV2
  | CallLocOpenSession CreateSessionRequestV2
  | CallRefillSession uuid RefillSessionRequestV2
  | CallCloseSession uuid CloseSessionRequestV2
  | CallGetSession uuid
  | CallSubmitJob string BrokerAuth string
  | CallLookupJob string string
  | CallOpenSession string BrokerAuth string
  | CallStatusSession string string
  | CallTopUpSession string string BrokerAuth string
  | CallEndSession string string string
  | CallLookupSettlement string string
  | CallLookupOpen string string
  | CallIssueKey string string string

datatype db_fault = LostBefore err | LostAfter err

record SSEData =
  d_Schema :: string
  d_WorkloadID :: string
  d_Phase :: string
  d_OverallProgress :: rat
  d_Outcome :: string

record StreamKeyReply =
  k_StreamKey :: string
  k_RequestID :: string
  k_ExpiresAt :: string

record env =
  cfg :: Config
  codecs :: codec
  boxKey :: string
  signerPublicKey :: string
  signerProof :: "string \<Rightarrow> err + string"
  requestDigest :: "string \<Rightarrow> string"
  marshal :: "json \<Rightarrow> string"
  urlParse :: "string \<Rightarrow> URL option"
  timeParse :: "string \<Rightarrow> time option"
  sseData :: "string \<Rightarrow> SSEData option"
  viewText :: "operationView \<Rightarrow> string"
  hasRTMPProbe :: bool
  clock :: "nat \<Rightarrow> time"
  freshUUID :: "nat \<Rightarrow> uuid"
  nonces :: "nat \<Rightarrow> string"
  sealFault :: "nat \<Rightarrow> err option"
  dbFault :: "nat \<Rightarrow> db_fault option"
  waitFault :: "nat \<Rightarrow> err option"
  stops :: "nat \<Rightarrow> uuid list"
  lockedByOthers :: "nat \<Rightarrow> uuid list"
  locCreateJob :: "nat \<Rightarrow> err + CreateJobResponseV2"
  locSettleJob :: "nat \<Rightarrow> err + SettleJobResponse"
  locGetJob :: "nat \<Rightarrow> err + JobStatusResponseV2"
  locPrepare :: "nat \<Rightarrow> err + PrepareSessionResponseV2"
  locOpen :: "nat \<Rightarrow> err + CreateSessionResponseV2"
  locRefill :: "nat \<Rightarrow> err + RefillSessionResponseV2"
  locClose :: "nat \<Rightarrow> err + CloseSessionResponse"
  locGetSession :: "nat \<Rightarrow> err + SessionStatusResponse"
  brokerHTTP :: "nat \<Rightarrow> err + HttpResponse"
  keyReply :: "nat \<Rightarrow> err + StreamKeyReply"

record estate =
  tick :: nat
  edb :: database
  calls :: "(upstream_call \<times> operation option) list"
  closed :: "uuid list"
  woken :: bool
  lastSaved :: time
  eo :: operation
  es :: operationSecrets
  ev :: operationView

type_synonym 'a eng = "(estate, err, 'a) eff"

section \<open>Primitive effects\<close>

text \<open>
  Reading through an optional pointer of Go: dereferencing \<^verbatim>\<open>nil\<close> is a run-time panic, which the
  model raises as an error no answer carries. \<open>andE\<close> and \<open>orE\<close> are \<^verbatim>\<open>&&\<close> and \<^verbatim>\<open>||\<close>, which evaluate
  the right operand only when the left one leaves the result open: a guard protects the
  dereferences after it and no others.
\<close>

definition nil_dereference :: err where
  "nil_dereference = Msg ''nil pointer dereference''"

definition deref :: "'a option \<Rightarrow> 'a eng" where
  "deref p = (case p of Some y \<Rightarrow> ret y | None \<Rightarrow> throw nil_dereference)"

definition andE :: "bool eng \<Rightarrow> bool eng \<Rightarrow> bool eng" where
  "andE a b = bindE a (\<lambda>t. if t then b else ret False)"

definition orE :: "bool eng \<Rightarrow> bool eng \<Rightarrow> bool eng" where
  "orE a b = bindE a (\<lambda>t. if t then ret True else b)"

lemma guard_simps:
  "deref (Some y) = ret y"
  "andE (ret t) b = (if t then b else ret False)" "orE (ret t) b = (if t then ret True else b)"
  "bindE (ret y) k = k y"
  by (simp_all add: deref_def andE_def orE_def bindE_def ret_def)

definition set_o :: "(operation \<Rightarrow> operation) \<Rightarrow> unit eng" where
  "set_o f = modify (\<lambda>x. x\<lparr>eo := f (eo x)\<rparr>)"

definition set_s :: "(operationSecrets \<Rightarrow> operationSecrets) \<Rightarrow> unit eng" where
  "set_s f = modify (\<lambda>x. x\<lparr>es := f (es x)\<rparr>)"

definition set_v :: "(operationView \<Rightarrow> operationView) \<Rightarrow> unit eng" where
  "set_v f = modify (\<lambda>x. x\<lparr>ev := f (ev x)\<rparr>)"

text \<open>One interaction with the outside: time passes and pending stop requests commit first.\<close>

definition arrive :: "env \<Rightarrow> nat \<Rightarrow> estate \<Rightarrow> estate" where
  "arrive E t x = x\<lparr>tick := Suc t, edb := fold (RequestStop (clock E t)) (stops E t) (edb x)\<rparr>"

definition interact :: "env \<Rightarrow> (nat \<Rightarrow> 'a eng) \<Rightarrow> 'a eng" where
  "interact E k = (\<lambda>x. k (tick x) (arrive E (tick x) x))"

text \<open>An upstream call is logged together with the journal row as it stood in the database.\<close>

definition log_call :: "upstream_call \<Rightarrow> unit eng" where
  "log_call c = modify (\<lambda>x. x\<lparr>calls := (c, OpGet (op_ID (eo x)) (edb x)) # calls x\<rparr>)"

definition upcall :: "env \<Rightarrow> upstream_call \<Rightarrow> (nat \<Rightarrow> err + 'a) \<Rightarrow> 'a eng" where
  "upcall E c answer = interact E (\<lambda>t. thenE (log_call c) (lift_result (answer t)))"

definition db_apply :: "(database \<Rightarrow> database) \<Rightarrow> unit eng" where
  "db_apply f = modify (\<lambda>x. x\<lparr>edb := f (edb x)\<rparr>)"

definition db_write :: "env \<Rightarrow> (time \<Rightarrow> database \<Rightarrow> database) \<Rightarrow> unit eng" where
  "db_write E f = interact E (\<lambda>t. case dbFault E t of
      None \<Rightarrow> db_apply (f (clock E t))
    | Some (LostBefore e) \<Rightarrow> throw e
    | Some (LostAfter e) \<Rightarrow> thenE (db_apply (f (clock E t))) (throw e))"

definition db_read :: "env \<Rightarrow> (database \<Rightarrow> 'a) \<Rightarrow> 'a eng" where
  "db_read E g = interact E (\<lambda>t. case dbFault E t of
      None \<Rightarrow> with_state (\<lambda>x. ret (g (edb x)))
    | Some (LostBefore e) \<Rightarrow> throw e
    | Some (LostAfter e) \<Rightarrow> throw e)"

definition res_write :: "env \<Rightarrow> (time \<Rightarrow> reservations \<Rightarrow> reservations) \<Rightarrow> unit eng" where
  "res_write E f = db_write E (\<lambda>t d. d\<lparr>db_reservations := f t (db_reservations d)\<rparr>)"

definition live_write :: "env \<Rightarrow> (time \<Rightarrow> live_streams \<Rightarrow> live_streams) \<Rightarrow> unit eng" where
  "live_write E f = db_write E (\<lambda>t d. d\<lparr>db_live := f t (db_live d)\<rparr>)"

definition time_now :: "env \<Rightarrow> time eng" where
  "time_now E = with_state (\<lambda>x. ret (clock E (tick x)))"

definition Wake :: "unit eng" where
  "Wake = modify (\<lambda>x. x\<lparr>woken := True\<rparr>)"

definition CloseRTMP :: "env \<Rightarrow> unit eng" where
  "CloseRTMP E = (if hasRTMPProbe E then modify (\<lambda>x. x\<lparr>closed := op_ID (eo x) # closed x\<rparr>) else ret ())"

text \<open>The timer of the accounting retry; it fails when the context is done.\<close>

definition wait_timer :: "env \<Rightarrow> int \<Rightarrow> unit eng" where
  "wait_timer E d = interact E (\<lambda>t. case waitFault E t of Some e \<Rightarrow> throw e | None \<Rightarrow> ret ())"

section \<open>Sealing and saving the journal\<close>

definition decode :: "env \<Rightarrow> operation \<Rightarrow> err + operationSecrets \<times> operationView" where
  "decode E o1 = (case BoxOpen (boxKey E) (op_ID o1) (op_Secrets o1) of
      None \<Rightarrow> Inl (Msg ''operation secrets cannot be decrypted; restore original wrapping key'')
    | Some s \<Rightarrow>
        if s_CallerPublicKey s \<noteq> signerPublicKey E
        then Inl (Msg ''operation caller key changed; restore original caller key'')
        else Inr (s, op_PublicJSON o1))"

definition seal :: "env \<Rightarrow> unit eng" where
  "seal E = with_state (\<lambda>x. case sealFault E (tick x) of
      Some e \<Rightarrow> throw e
    | None \<Rightarrow> set_o (\<lambda>o1. o1\<lparr>op_Secrets := BoxSeal (boxKey E) (nonces E (tick x)) (op_ID o1) (es x),
                             op_PublicJSON := ev x\<rparr>))"

definition lock_save :: "env \<Rightarrow> unit eng" where
  "lock_save E = with_state (\<lambda>x. db_write E (\<lambda>t. OpSave t (eo x)))"

definition save :: "env \<Rightarrow> unit eng" where
  "save E = thenE (seal E) (lock_save E)"

text \<open>\<^verbatim>\<open>OperationRepo.Lock\<close>: \<open>True\<close> when the advisory lock was free. Which ids other workers hold
  at each tick is the environment's choice.\<close>

definition lock_op :: "env \<Rightarrow> uuid \<Rightarrow> bool eng" where
  "lock_op E i = interact E (\<lambda>t. case dbFault E t of
      None \<Rightarrow> ret (TryLock i (lockedByOthers E t) \<noteq> None)
    | Some (LostBefore e) \<Rightarrow> throw e
    | Some (LostAfter e) \<Rightarrow> throw e)"

text \<open>\<^verbatim>\<open>lock.Get\<close>.\<close>

definition lock_get :: "env \<Rightarrow> operation option eng" where
  "lock_get E = with_state (\<lambda>x. db_read E (OpGet (op_ID (eo x))))"

text \<open>The re-read of the row in \<^verbatim>\<open>current, err := l.Get(ctx)\<close>, whose result is dereferenced.\<close>

definition lock_current :: "env \<Rightarrow> operation eng" where
  "lock_current E = bindE (lock_get E) (\<lambda>r. case r of
      Some c \<Rightarrow> ret c | None \<Rightarrow> throw (Msg ''nil pointer dereference''))"

section \<open>Authorization of a broker call\<close>

definition auth :: "env \<Rightarrow> string \<Rightarrow> string \<Rightarrow> string \<Rightarrow> BrokerAuth eng" where
  "auth E request authorization workID = with_state (\<lambda>x. case signerProof E authorization of
      Inl e \<Rightarrow> throw e
    | Inr proof \<Rightarrow> ret \<lparr>ba_Capability = s_Capability (es x), ba_Offering = s_Offering (es x),
        ba_RequestID = request, ba_Authorization = authorization, ba_CallerProof = proof, ba_WorkID = workID\<rparr>)"

section \<open>Bounded error codes\<close>

definition safePaidError :: "err \<Rightarrow> string" where
  "safePaidError e = (case e of
      LocErr a \<Rightarrow> ''loc_http_'' @ int_text (ae_StatusCode a)
    | BrokerErr b \<Rightarrow> ''broker_http_'' @ int_text (be_StatusCode b)
    | ExchangePending outcome \<Rightarrow> ''broker_'' @ ToLower outcome
    | DeadlineExceeded \<Rightarrow> ''upstream_timeout''
    | NetErr timeout \<Rightarrow> if timeout then ''upstream_timeout'' else ''upstream_or_accounting_pending''
    | _ \<Rightarrow> ''upstream_or_accounting_pending'')"

section \<open>Issuance refusal\<close>

definition definitive_refusal :: "err \<Rightarrow> int option" where
  "definitive_refusal e = (case e of
      LocErr a \<Rightarrow> let c = ae_StatusCode a in
        if c \<ge> 400 \<and> c < 500 \<and> c \<noteq> 408 \<and> c \<noteq> 409 \<and> c \<noteq> 429 then Some c else None
    | _ \<Rightarrow> None)"

definition issuanceFailure :: "env \<Rightarrow> err \<Rightarrow> 'a eng" where
  "issuanceFailure E e = with_state (\<lambda>x.
     case definitive_refusal e of
       Some code \<Rightarrow>
         if op_Attempts (eo x) = 1 \<or> op_State (eo x) = ''issuance_refused'' then
           thenE (set_o (\<lambda>o1. o1\<lparr>op_State := ''issuance_refused''\<rparr>))
          (thenE (set_v (\<lambda>v. v\<lparr>v_Status := ''failed'', v_FailureCode := safePaidError e\<rparr>))
          (bindE (time_now E) (\<lambda>now.
           thenE (res_write E (\<lambda>t. Refund t (op_ReservationID (eo x)) code (safePaidError e)))
          (thenE (case op_LiveStreamID (eo x) of
                    None \<Rightarrow> ret ()
                  | Some lid \<Rightarrow> live_write E (\<lambda>t. Fail t lid (safePaidError e)))
          (thenE (set_o (\<lambda>o1. o1\<lparr>op_FinishedAt := Some now\<rparr>))
           (throw e))))))
         else throw e
     | None \<Rightarrow> throw e)"

end
