(* ===== verification/Paid_ABR.thy ===== *)
theory Paid_ABR
  imports Paid_Model
begin

text \<open>
  The ABR job lifecycle, \<^verbatim>\<open>runABR\<close>: authorize with LOC, link the ledger row, recover an earlier
  dispatch, dispatch the workload to the broker, settle with LOC. The phases are separate
  definitions composed in the order of the code; \<open>abr_recover\<close> returns \<open>True\<close> where the code
  returns from the middle of the function.
\<close>

section \<open>Phases\<close>

definition abr_create_request :: "env \<Rightarrow> estate \<Rightarrow> CreateJobRequestV2" where
  "abr_create_request E x = \<lparr>cj_RequestID = op_ID (eo x), cj_Capability = s_Capability (es x),
     cj_Offering = s_Offering (es x), cj_Transport = ''stream'',
     cj_EstimatedUnits = s_EstimatedUnits (es x), cj_MaxTotalUnits = s_LimitUnits (es x),
     cj_WorkloadRequestDigest = requestDigest E (s_Body (es x)),
     cj_CallerPublicKey = s_CallerPublicKey (es x)\<rparr>"

definition abr_authorize :: "env \<Rightarrow> unit eng" where
  "abr_authorize E = with_state (\<lambda>x0.
     if s_Job (es x0) = None then
       thenE (set_o (\<lambda>o1. o1\<lparr>op_State := ''authorizing''\<rparr>))
      (thenE (save E)
      (with_state (\<lambda>x.
       bindE (attempt (CreateJobV2 (\<lambda>i. upcall E (CallCreateJob i) (locCreateJob E)) (abr_create_request E x)))
         (\<lambda>r. case r of
            Inl e \<Rightarrow> issuanceFailure E e
          | Inr job \<Rightarrow>
              thenE (set_s (\<lambda>s. s\<lparr>s_Job := Some job\<rparr>))
             (thenE (set_o (\<lambda>o1. o1\<lparr>op_State := ''authorized''\<rparr>))
              (save E))))))
     else ret ())"

text \<open>The job is present after authorization; reading it is the nil-safe pointer access.\<close>

definition the_job :: "CreateJobResponseV2 eng" where
  "the_job = with_state (\<lambda>x. case s_Job (es x) of
      Some j \<Rightarrow> ret j | None \<Rightarrow> throw (Msg ''nil pointer dereference''))"

definition abr_link :: "env \<Rightarrow> unit eng" where
  "abr_link E = bindE the_job (\<lambda>j.
     if job_WorkUnit j \<noteq> ''video-frame-megapixel'' then throw (Msg ''ABR offering work unit is incompatible'')
     else with_state (\<lambda>x. res_write E (\<lambda>t. SetLOCJob (op_ID (eo x)) (job_JobID j) (job_WorkID j)
            (job_FundedValueWei j) (job_ExpectedValueWei j))))"

definition lookup_job :: "env \<Rightarrow> CreateJobResponseV2 \<Rightarrow> string \<Rightarrow> TerminalClaim eng" where
  "lookup_job E j jobID =
     bindE (upcall E (CallLookupJob (job_BrokerURL j) (job_RequestID j)) (brokerHTTP E))
       (\<lambda>r. lift_result (LookupJobV2 (codecs E) r (job_RequestID j) jobID (job_WorkUnit j) (job_WorkID j)))"

definition runner_outcome :: "bool \<Rightarrow> string" where
  "runner_outcome ok = (if ok then ''complete'' else ''error'')"

definition commit_input :: "string \<Rightarrow> int option \<Rightarrow> CommitInput" where
  "commit_input url units = \<lparr>ci_BrokerURL = url, ci_EthAddress = '''', ci_CommittedWorkUnits = units,
     ci_LatencyMs = None, ci_StatusCode = None\<rparr>"

definition job_status_final :: "CreateJobResponseV2 \<Rightarrow> JobStatusResponseV2 \<Rightarrow> bool" where
  "job_status_final j st \<longleftrightarrow> js_JobID st = job_JobID j \<and>
     (case js_ClosedAt st of None \<Rightarrow> False | Some c \<Rightarrow> \<not> IsZero c) \<and>
     js_BilledValueWei st \<noteq> None \<and> js_AccountingOutcome st \<noteq> ''''"

text \<open>The same condition as the code evaluates it, operand by operand through the pointers.\<close>

definition check_job_final :: "CreateJobResponseV2 \<Rightarrow> JobStatusResponseV2 \<Rightarrow> bool eng" where
  "check_job_final j st = andE (ret (js_JobID st = job_JobID j)) (andE (ret (js_ClosedAt st \<noteq> None))
     (andE (bindE (deref (js_ClosedAt st)) (\<lambda>c. ret (\<not> IsZero c))) (andE (ret (js_BilledValueWei st \<noteq> None))
       (ret (js_AccountingOutcome st \<noteq> '''')))))"

lemma check_job_final_eq: "check_job_final j st = ret (job_status_final j st)"
  by (cases "js_ClosedAt st") (simp_all add: check_job_final_def job_status_final_def guard_simps)

definition broker_not_admitted :: "JobStatusResponseV2 \<Rightarrow> bool eng" where
  "broker_not_admitted st = andE (ret (js_BrokerExchangeOutcome st \<noteq> None))
     (bindE (deref (js_BrokerExchangeOutcome st)) (\<lambda>out. ret (out = ''NOT_ADMITTED'')))"

lemma broker_not_admitted_eq: "broker_not_admitted st = ret (js_BrokerExchangeOutcome st = Some ''NOT_ADMITTED'')"
  by (cases "js_BrokerExchangeOutcome st") (simp_all add: broker_not_admitted_def guard_simps)

text \<open>LOC's terminal accounting of the job, lines 332 to 352.\<close>

definition loc_final_view :: "bool \<Rightarrow> JobStatusResponseV2 \<Rightarrow> operationView \<Rightarrow> operationView" where
  "loc_final_view not_admitted st v0 =
     (let v1 = v0\<lparr>v_Status := ''failed'', v_FailureCode := js_AccountingOutcome st, v_Phase := ''finished''\<rparr>;
          v2 = (if not_admitted then v1\<lparr>v_FailureCode := ''not_admitted''\<rparr> else v1);
          v3 = (case js_ActualUnits st of None \<Rightarrow> v2 | Some u \<Rightarrow> v2\<lparr>v_ActualUnits := Some u\<rparr>)
      in if js_AccountingOutcome st = ''broker_settled'' \<and> v_TerminalOutcome v3 = ''succeeded''
         then v3\<lparr>v_Status := ''succeeded'', v_Progress := 100, v_FailureCode := ''''\<rparr> else v3)"

definition abr_adopt_loc_final :: "env \<Rightarrow> CreateJobResponseV2 \<Rightarrow> JobStatusResponseV2 \<Rightarrow> unit eng" where
  "abr_adopt_loc_final E j st =
     thenE (set_o (\<lambda>o1. o1\<lparr>op_State := js_AccountingOutcome st\<rparr>))
    (bindE (broker_not_admitted st) (\<lambda>not_admitted.
     thenE (set_o (\<lambda>o1. o1\<lparr>op_FinishedAt := js_ClosedAt st\<rparr>))
    (thenE (set_v (loc_final_view not_admitted st))
    (with_state (\<lambda>x.
     thenE (res_write E (\<lambda>t. MarkSettled t (op_ReservationID (eo x)) (js_BilledValueWei st) SettleSettled))
    (thenE (res_write E (\<lambda>t. Commit t (op_ReservationID (eo x)) (commit_input (job_BrokerURL j) (js_ActualUnits st))))
     (res_write E (\<lambda>t. RecordRunnerWebhook (op_ID (eo x))
        \<lparr>ru_Status = runner_outcome (v_Status (ev x) = ''succeeded''), ru_Phase = v_Phase (ev x),
         ru_Progress = v_Progress (ev x), ru_ErrorCode = v_FailureCode (ev x), ru_ErrorText = '''',
         ru_StateJSON = None, ru_CompletedAt = js_ClosedAt st\<rparr>))))))))"

lemma abr_adopt_loc_final_eq:
  "abr_adopt_loc_final E j st =
     thenE (set_o (\<lambda>o1. o1\<lparr>op_State := js_AccountingOutcome st, op_FinishedAt := js_ClosedAt st\<rparr>))
    (thenE (set_v (loc_final_view (js_BrokerExchangeOutcome st = Some ''NOT_ADMITTED'') st))
    (with_state (\<lambda>x.
     thenE (res_write E (\<lambda>t. MarkSettled t (op_ReservationID (eo x)) (js_BilledValueWei st) SettleSettled))
    (thenE (res_write E (\<lambda>t. Commit t (op_ReservationID (eo x)) (commit_input (job_BrokerURL j) (js_ActualUnits st))))
     (res_write E (\<lambda>t. RecordRunnerWebhook (op_ID (eo x))
        \<lparr>ru_Status = runner_outcome (v_Status (ev x) = ''succeeded''), ru_Phase = v_Phase (ev x),
         ru_Progress = v_Progress (ev x), ru_ErrorCode = v_FailureCode (ev x), ru_ErrorText = '''',
         ru_StateJSON = None, ru_CompletedAt = js_ClosedAt st\<rparr>))))))"
  unfolding abr_adopt_loc_final_def broker_not_admitted_eq guard_simps by (simp add: fun_eq_iff bindE_def set_o_def modify_def)

definition abr_recover :: "env \<Rightarrow> bool eng" where
  "abr_recover E = bindE the_job (\<lambda>j. with_state (\<lambda>x.
     if s_Claim (es x) = None \<and> s_DispatchAttempted (es x) then
       bindE (attempt (lookup_job E j '''')) (\<lambda>r. case r of
           Inr claim \<Rightarrow> thenE (set_s (\<lambda>s. s\<lparr>s_Claim := Some claim\<rparr>)) (ret False)
         | Inl e \<Rightarrow>
             thenE (whenE (e = ExchangePending ''ADMISSION_REJECTED'')
                      (set_v (\<lambda>v. v\<lparr>v_Status := ''admission_rejected'', v_Phase := ''settlement_pending'',
                                   v_FailureCode := ''broker_admission_rejected''\<rparr>)))
            (bindE (attempt (upcall E (CallGetJob (job_JobID j)) (locGetJob E))) (\<lambda>sr. case sr of
                Inl _ \<Rightarrow> ret False
              | Inr st \<Rightarrow> bindE (check_job_final j st) (\<lambda>final. if final
                          then thenE (abr_adopt_loc_final E j st) (ret True) else ret False))))
     else ret False))"

lemmas abr_recover_eq = abr_recover_def [unfolded check_job_final_eq guard_simps]

section \<open>Dispatch\<close>

definition abr_event_apply :: "SSEData \<Rightarrow> operationView \<Rightarrow> err + operationView" where
  "abr_event_apply d v =
     (if d_Schema d = ''video-transcode-abr-progress/v2'' then
        (if d_OverallProgress d < 0 \<or> d_OverallProgress d > 100 then Inl (Msg ''invalid progress'')
         else Inr (v\<lparr>v_Phase := d_Phase d, v_Progress := d_OverallProgress d\<rparr>))
      else if d_Schema d = ''video-transcode-abr-result/v2'' then
        (if d_Outcome d \<noteq> ''succeeded'' \<and> d_Outcome d \<noteq> ''failed''
         then Inl (Msg ''invalid runner terminal outcome'')
         else Inr (v\<lparr>v_TerminalOutcome := d_Outcome d\<rparr>))
      else Inl (Msg ''unsupported runner event schema''))"

definition abr_on_event :: "env \<Rightarrow> SSEEvent \<Rightarrow> unit eng" where
  "abr_on_event E e = (case sseData E (ev_Data e) of
      None \<Rightarrow> throw (Msg ''invalid runner event'')
    | Some d \<Rightarrow> with_state (\<lambda>x.
        if d_WorkloadID d \<noteq> op_ID (eo x) then throw (Msg ''runner workload identity mismatch'')
        else case abr_event_apply d (ev x) of
          Inl er \<Rightarrow> throw er
        | Inr v' \<Rightarrow>
            thenE (set_v (\<lambda>_. v'))
           (bindE (time_now E) (\<lambda>now.
            if now - lastSaved x > second \<or> v_TerminalOutcome v' \<noteq> ''''
            then thenE (modify (\<lambda>y. y\<lparr>lastSaved := now\<rparr>)) (save E)
            else ret ()))))"

definition abr_dispatch :: "env \<Rightarrow> unit eng" where
  "abr_dispatch E = bindE the_job (\<lambda>j. with_state (\<lambda>x.
     if s_Claim (es x) = None then
       bindE (auth E (job_RequestID j) (job_SpendAuthorization j) (job_WorkID j)) (\<lambda>a.
       thenE (set_s (\<lambda>s. s\<lparr>s_DispatchAttempted := True\<rparr>))
      (thenE (set_o (\<lambda>o1. o1\<lparr>op_State := ''dispatching''\<rparr>))
      (thenE (set_v (\<lambda>v. v\<lparr>v_Status := ''processing''\<rparr>))
      (thenE (save E)
      (thenE (modify (\<lambda>y. y\<lparr>lastSaved := 0\<rparr>))
      (bindE (SubmitJobV2 (codecs E) a (job_WorkUnit j)
                (upcall E (CallSubmitJob (job_BrokerURL j) a (s_Body (es x))) (brokerHTTP E))
                (lookup_job E j) (abr_on_event E)) (\<lambda>claim.
       thenE (set_s (\<lambda>s. s\<lparr>s_Claim := Some claim\<rparr>))
      (thenE (set_o (\<lambda>o1. o1\<lparr>op_State := ''accounting_pending''\<rparr>))
       (save E)))))))))
     else ret ()))"

section \<open>Settlement\<close>

definition the_claim :: "TerminalClaim eng" where
  "the_claim = with_state (\<lambda>x. case s_Claim (es x) of
      Some c \<Rightarrow> ret c | None \<Rightarrow> throw (Msg ''nil pointer dereference''))"

definition settle_request :: "TerminalClaim \<Rightarrow> SettleJobRequestV2" where
  "settle_request c = \<lparr>sj_ActualUnits = tc_ActualUnits c, sj_BrokerJobID = tc_BrokerJobID c,
     sj_WorkUnit = tc_WorkUnit c, sj_Settlement = Some (tc_Settlement c)\<rparr>"

text \<open>LOC's confirmation of a duplicate settle, line 426 negated.\<close>

definition duplicate_settle_confirmed :: "CreateJobResponseV2 \<Rightarrow> TerminalClaim \<Rightarrow> JobStatusResponseV2 \<Rightarrow> bool" where
  "duplicate_settle_confirmed j c st \<longleftrightarrow> js_JobID st = job_JobID j \<and> js_ClosedAt st \<noteq> None \<and>
     js_ActualUnits st = Some (tc_ActualUnits c) \<and> js_BilledValueWei st \<noteq> None \<and>
     js_AccountingOutcome st = ''broker_settled''"

text \<open>The negated condition of line 426 as the code evaluates it.\<close>

definition check_duplicate_settle :: "CreateJobResponseV2 \<Rightarrow> TerminalClaim \<Rightarrow> JobStatusResponseV2 \<Rightarrow> bool eng" where
  "check_duplicate_settle j c st = orE (ret (js_JobID st \<noteq> job_JobID j)) (orE (ret (js_ClosedAt st = None))
     (orE (ret (js_ActualUnits st = None)) (orE (bindE (deref (js_ActualUnits st)) (\<lambda>u. ret (u \<noteq> tc_ActualUnits c)))
     (orE (ret (js_BilledValueWei st = None)) (ret (js_AccountingOutcome st \<noteq> ''broker_settled''))))))"

lemma check_duplicate_settle_eq: "check_duplicate_settle j c st = ret (\<not> duplicate_settle_confirmed j c st)"
  by (cases "js_ActualUnits st"; cases "js_ClosedAt st"; cases "js_BilledValueWei st")
     (simp_all add: check_duplicate_settle_def duplicate_settle_confirmed_def guard_simps)

definition settle_response_matches :: "CreateJobResponseV2 \<Rightarrow> TerminalClaim \<Rightarrow> SettleJobResponse \<Rightarrow> bool" where
  "settle_response_matches j c r \<longleftrightarrow> \<not> (sr_JobID r \<noteq> job_JobID j \<or> sr_ActualUnits r \<noteq> tc_ActualUnits c \<or>
     sr_BilledValueWei r = None \<or> IsZero (sr_ClosedAt r))"

definition mark_settled :: "env \<Rightarrow> wei option \<Rightarrow> unit eng" where
  "mark_settled E billed = with_state (\<lambda>x.
     res_write E (\<lambda>t. MarkSettled t (op_ReservationID (eo x)) billed SettleSettled))"

definition abr_settle_loc :: "env \<Rightarrow> CreateJobResponseV2 \<Rightarrow> TerminalClaim \<Rightarrow> unit eng" where
  "abr_settle_loc E j c =
     bindE (attempt (SettleJobV2 (\<lambda>i. upcall E (CallSettleJob (job_JobID j) i) (locSettleJob E))
                       (wait_timer E) (settle_request c))) (\<lambda>r. case r of
         Inl e \<Rightarrow>
           if \<not> IsAlreadySettled e then throw e
           else bindE (attempt (upcall E (CallGetJob (job_JobID j)) (locGetJob E))) (\<lambda>sr. case sr of
               Inl _ \<Rightarrow> throw e
             | Inr st \<Rightarrow> bindE (check_duplicate_settle j c st) (\<lambda>unconfirmed.
                 if unconfirmed then throw e else mark_settled E (js_BilledValueWei st)))
       | Inr resp \<Rightarrow>
           if \<not> settle_response_matches j c resp
           then throw (Msg ''LOC settlement response does not match job claim'')
           else mark_settled E (sr_BilledValueWei resp))"

lemma abr_settle_loc_eq:
  "abr_settle_loc E j c =
     bindE (attempt (SettleJobV2 (\<lambda>i. upcall E (CallSettleJob (job_JobID j) i) (locSettleJob E))
                       (wait_timer E) (settle_request c))) (\<lambda>r. case r of
         Inl e \<Rightarrow>
           if \<not> IsAlreadySettled e then throw e
           else bindE (attempt (upcall E (CallGetJob (job_JobID j)) (locGetJob E))) (\<lambda>sr. case sr of
               Inl _ \<Rightarrow> throw e
             | Inr st \<Rightarrow> if duplicate_settle_confirmed j c st then mark_settled E (js_BilledValueWei st) else throw e)
       | Inr resp \<Rightarrow>
           if \<not> settle_response_matches j c resp
           then throw (Msg ''LOC settlement response does not match job claim'')
           else mark_settled E (sr_BilledValueWei resp))"
proof -
  have flip: "bindE (check_duplicate_settle j c st) (\<lambda>unconfirmed. if unconfirmed then throw e else m) =
      (if duplicate_settle_confirmed j c st then m else throw e)" for st e and m :: "unit eng"
    by (simp add: check_duplicate_settle_eq guard_simps)
  show ?thesis unfolding abr_settle_loc_def flip ..
qed

definition settled_view :: "TerminalClaim \<Rightarrow> operationView \<Rightarrow> operationView" where
  "settled_view c v0 =
     (let v1 = v0\<lparr>v_ActualUnits := Some (tc_ActualUnits c), v_Status := ''failed'', v_Phase := ''finished'',
                 v_FailureCode := ''''\<rparr>
      in if v_TerminalOutcome v1 = ''succeeded'' then v1\<lparr>v_Status := ''succeeded'', v_Progress := 100\<rparr> else v1)"

definition abr_settle :: "env \<Rightarrow> unit eng" where
  "abr_settle E = bindE the_job (\<lambda>j. bindE the_claim (\<lambda>c.
     thenE (abr_settle_loc E j c)
    (thenE (set_v (settled_view c))
    (bindE (time_now E) (\<lambda>now.
     thenE (set_o (\<lambda>o1. o1\<lparr>op_State := ''broker_settled'', op_FinishedAt := Some now\<rparr>))
    (with_state (\<lambda>x.
     thenE (res_write E (\<lambda>t. Commit t (op_ReservationID (eo x)) (commit_input (job_BrokerURL j) (Some (tc_ActualUnits c)))))
     (res_write E (\<lambda>t. RecordRunnerWebhook (op_ID (eo x))
        \<lparr>ru_Status = runner_outcome (v_Status (ev x) = ''succeeded''), ru_Phase = v_Phase (ev x),
         ru_Progress = v_Progress (ev x), ru_ErrorCode = '''', ru_ErrorText = '''',
         ru_StateJSON = None, ru_CompletedAt = Some now\<rparr>)))))))))"

section \<open>The whole run\<close>

definition abr_reject_guard :: "unit eng" where
  "abr_reject_guard = with_state (\<lambda>x.
     if s_Claim (es x) = None \<and> v_Status (ev x) = ''admission_rejected''
     then throw (ExchangePending ''ADMISSION_REJECTED'') else ret ())"

definition runABR :: "env \<Rightarrow> unit eng" where
  "runABR E =
     thenE (abr_authorize E)
    (thenE (abr_link E)
    (bindE (abr_recover E) (\<lambda>finished.
     if finished then ret ()
     else thenE abr_reject_guard (thenE (abr_dispatch E) (abr_settle E)))))"

end
