(* ===== verification/Paid_Live.thy ===== *)
theory Paid_Live
  imports Paid_ABR
begin

text \<open>
  The live session lifecycle of \<^verbatim>\<open>paid_engine.go\<close>: projection of the journal onto
  \<^verbatim>\<open>live_streams\<close>, terminal accounting (\<^verbatim>\<open>finishLive\<close>, \<^verbatim>\<open>recoverClosedLive\<close>, \<^verbatim>\<open>endLive\<close>),
  refills, stop before open, stream-key issuance and the driver \<^verbatim>\<open>runLive\<close>, whose phases are
  separate definitions composed in the order of the code.
\<close>

section \<open>Pointer accesses\<close>

definition the_session :: "CreateSessionResponseV2 eng" where
  "the_session = with_state (\<lambda>x. case s_Session (es x) of
      Some c \<Rightarrow> ret c | None \<Rightarrow> throw (Msg ''nil pointer dereference''))"

definition the_prep :: "PrepareSessionResponseV2 eng" where
  "the_prep = with_state (\<lambda>x. case s_Preparation (es x) of
      Some c \<Rightarrow> ret c | None \<Rightarrow> throw (Msg ''nil pointer dereference''))"

definition the_broker :: "brokerSession eng" where
  "the_broker = with_state (\<lambda>x. case s_Broker (es x) of
      Some c \<Rightarrow> ret c | None \<Rightarrow> throw (Msg ''nil pointer dereference''))"

definition the_refill :: "RefillSessionResponseV2 eng" where
  "the_refill = with_state (\<lambda>x. case s_Refill (es x) of
      Some c \<Rightarrow> ret c | None \<Rightarrow> throw (Msg ''nil pointer dereference''))"

definition the_live_id :: "uuid eng" where
  "the_live_id = with_state (\<lambda>x. case op_LiveStreamID (eo x) of
      Some c \<Rightarrow> ret c | None \<Rightarrow> throw (Msg ''nil pointer dereference''))"

section \<open>Broker descriptors\<close>

text \<open>
  \<^verbatim>\<open>convertBroker\<close> re-decodes the response into the journal shape. A public runtime field of the
  wrong JSON type is reported as an error, but the partially filled session is returned with it.
  Field names match without regard to case and the last match wins.
\<close>

fun public_string :: "string \<Rightarrow> (string \<times> json) list \<Rightarrow> string \<Rightarrow> string \<times> bool" where
  "public_string name [] acc = (acc, False)"
| "public_string name ((k, v) # fs) acc =
     (if EqualFold k name then
        (case v of
           JStr s \<Rightarrow> public_string name fs s
         | JNull \<Rightarrow> public_string name fs acc
         | _ \<Rightarrow> (fst (public_string name fs acc), True))
      else public_string name fs acc)"

definition convertBroker :: "BrokerSessionV2 \<Rightarrow> brokerSession \<times> err option" where
  "convertBroker r =
     (let pub = (\<lambda>n. public_string n (bs_RuntimePublic r) '''');
          bad = (snd (pub ''rtmp_url'') \<or> snd (pub ''hls_url'') \<or> snd (pub ''key_issue_url''))
      in (\<lparr>b_SessionID = bs_SessionID r, b_Credential = bs_Credential r, b_WorkID = bs_WorkID r,
           b_State = bs_State r, b_Schema = bs_RuntimeSchema r, b_RTMPURL = fst (pub ''rtmp_url''),
           b_HLSURL = fst (pub ''hls_url''), b_KeyIssueURL = fst (pub ''key_issue_url''),
           b_Grants = map (\<lambda>g. \<lparr>g_ID = gr_ID g, g_Operations = gr_Operations g, g_Secret = gr_Secret g,
                                g_ExpiresAt = gr_ExpiresAt g\<rparr>) (bs_RuntimeGrants r),
           b_BalanceStatus = bs_BalanceStatus r,
           b_RunwaySeconds = (case bs_RunwaySecondsEstimate r of None \<Rightarrow> 0 | Some n \<Rightarrow> n),
           b_ClaimedUnits = bs_ClaimedUnits r, b_Remaining = bs_CapRemaining r,
           b_WillRefuse = bs_WillRefuseNextRefill r, b_UsageUnit = bs_UsageUnit r,
           b_ClaimedTotal = bs_UsageClaimedTotal r, b_LeaseExpiresAt = bs_LeaseExpiresAt r,
           b_OutputState = bs_OutputState r, b_LastFailureCode = bs_LastFailureCode r,
           b_CloseReason = bs_CloseReason r\<rparr>,
          if bad then Some (Msg ''json: cannot unmarshal'') else None))"

definition brokerTerminal :: "string \<Rightarrow> bool" where
  "brokerTerminal state \<longleftrightarrow> state = ''ended'' \<or> state = ''failed''"

definition http_url_ok :: "env \<Rightarrow> string \<Rightarrow> bool" where
  "http_url_ok E raw = (case urlParse E raw of
      None \<Rightarrow> False
    | Some u \<Rightarrow> \<not> (u_Host u = '''' \<or> u_HasUser u \<or> u_Fragment u \<noteq> '''' \<or>
                   (u_Scheme u \<noteq> ''https'' \<and> u_Scheme u \<noteq> ''http'')))"

definition validateRuntimeURLs :: "env \<Rightarrow> brokerSession \<Rightarrow> err option" where
  "validateRuntimeURLs E b =
     (if \<not> (http_url_ok E (b_HLSURL b) \<and> http_url_ok E (b_KeyIssueURL b))
      then Some (Msg ''invalid runtime HTTP URL'')
      else case urlParse E (b_RTMPURL b) of
        None \<Rightarrow> Some (Msg ''invalid runtime ingest URL'')
      | Some u \<Rightarrow> if u_Host u = '''' \<or> u_HasUser u \<or> u_RawQuery u \<noteq> '''' \<or> u_Fragment u \<noteq> '''' \<or>
                     (u_Scheme u \<noteq> ''rtmp'' \<and> u_Scheme u \<noteq> ''rtmps'')
                  then Some (Msg ''invalid runtime ingest URL'') else None)"

definition JoinHostPort :: "string \<Rightarrow> string \<Rightarrow> string" where
  "JoinHostPort host port =
     (if CHR '':'' \<in> set host then ''['' @ host @ '']:'' @ port else host @ '':'' @ port)"

definition publicRTMPURL :: "env \<Rightarrow> string" where
  "publicRTMPURL E =
     (if LiveExternalRTMPURL (cfg E) \<noteq> '''' then TrimRight1 (LiveExternalRTMPURL (cfg E)) (CHR ''/'')
      else case urlParse E (GatewayPublicURL (cfg E)) of
        None \<Rightarrow> ''''
      | Some u \<Rightarrow> if u_Hostname u = '''' then ''''
                  else ''rtmp://'' @ JoinHostPort (u_Hostname u) (int_text (LiveRTMPPort (cfg E))) @ ''/live'')"

section \<open>Projection onto \<^verbatim>\<open>live_streams\<close>\<close>

definition project_status :: "operation \<Rightarrow> operationView \<Rightarrow> string" where
  "project_status o1 v =
     (if op_FinishedAt o1 \<noteq> None \<or> v_MediaEndedAt v \<noteq> None then v_Status v
      else if v_Status v = ''provisioning'' then ''provisioning'' else ''live'')"

definition project_row :: "env \<Rightarrow> operation \<Rightarrow> operationSecrets \<Rightarrow> operationView \<Rightarrow>
    CreateSessionResponseV2 \<Rightarrow> LiveStreamStatus \<Rightarrow> time \<Rightarrow> LiveStream \<Rightarrow> LiveStream" where
  "project_row E o1 s v sess st now r = r\<lparr>ls_Status := st, ls_BrokerURL := Some (sess_BrokerURL sess),
     ls_BrokerSessionID := (case s_Broker s of None \<Rightarrow> None | Some b \<Rightarrow> nullif_empty (b_SessionID b)),
     ls_LOCSessionID := Some (sess_SessionID sess), ls_LOCWorkID := Some (sess_WorkID sess),
     ls_PlaybackURL := nullif_empty (v_MasterURL v), ls_IngestURL := Some (publicRTMPURL E),
     ls_StartedAt := coalesce (ls_StartedAt r) (Some now), ls_LastBrokerSyncAt := Some now,
     ls_CloseReason := nullif_empty (v_CloseReason v),
     ls_EndedAt := coalesce (v_MediaEndedAt v) (op_FinishedAt o1),
     ls_LOCClosedAt := op_FinishedAt o1, ls_RunnerStatusJSON := Some (viewText E v)\<rparr>"

text \<open>The statement fails on the table's \<^verbatim>\<open>CHECK\<close> when it would write a status outside it.\<close>

definition project_update :: "env \<Rightarrow> operation \<Rightarrow> operationSecrets \<Rightarrow> operationView \<Rightarrow>
    CreateSessionResponseV2 \<Rightarrow> uuid \<Rightarrow> time \<Rightarrow> live_streams \<Rightarrow> live_streams option" where
  "project_update E o1 s v sess lid now t = (case live_status_check (project_status o1 v) of
      Some st \<Rightarrow> Some (sql_update (\<lambda>r. ls_ID r = lid) (project_row E o1 s v sess st now) t)
    | None \<Rightarrow> if list_ex (\<lambda>r. ls_ID r = lid) t then None else Some t)"

definition live_write_checked :: "env \<Rightarrow> (time \<Rightarrow> live_streams \<Rightarrow> live_streams option) \<Rightarrow> unit eng" where
  "live_write_checked E f = interact E (\<lambda>t. case dbFault E t of
      Some (LostBefore e) \<Rightarrow> throw e
    | flt \<Rightarrow> with_state (\<lambda>x. case f (clock E t) (db_live (edb x)) of
        None \<Rightarrow> throw (DbErr ''violates check constraint'')
      | Some l \<Rightarrow> thenE (db_apply (\<lambda>d. d\<lparr>db_live := l\<rparr>))
          (case flt of Some (LostAfter e) \<Rightarrow> throw e | _ \<Rightarrow> ret ())))"

definition projectLive :: "env \<Rightarrow> unit eng" where
  "projectLive E = bindE the_session (\<lambda>sess. bindE the_live_id (\<lambda>lid. with_state (\<lambda>x.
     thenE (live_write_checked E (project_update E (eo x) (es x) (ev x) sess lid))
     (if op_FinishedAt (eo x) \<noteq> None then
        res_write E (\<lambda>t. Commit t (op_ReservationID (eo x)) (commit_input (sess_BrokerURL sess) (v_ActualUnits (ev x))))
      else ret ()))))"

section \<open>Terminal view\<close>

definition failed_reasons :: "string list" where
  "failed_reasons = [''output_failed'', ''runner_failed'', ''open_failed'', ''backend_failed'',
     ''capacity_exhausted'', ''recovery_failed'', ''ingest_failed'', ''payment_unrecoverable'']"

definition claim_overrides :: "TerminalClaim \<Rightarrow> operationView \<Rightarrow> operationView" where
  "claim_overrides c v0 =
     (let v1 = (if tc_CloseReason c \<noteq> '''' then v0\<lparr>v_CloseReason := tc_CloseReason c\<rparr> else v0);
          v2 = (if tc_OutputState c \<noteq> '''' then v1\<lparr>v_OutputState := tc_OutputState c\<rparr> else v1)
      in if tc_FailureCode c \<noteq> '''' \<or>
            (v_FailureCode v2 \<noteq> ''stream_key_grant_expired'' \<and> v_FailureCode v2 \<noteq> ''refill_refused'')
         then v2\<lparr>v_FailureCode := tc_FailureCode c\<rparr> else v2)"

definition applyLiveTerminalView :: "operationSecrets \<Rightarrow> int \<Rightarrow> operationView \<Rightarrow> operationView" where
  "applyLiveTerminalView s units v0 =
     (let v1 = v0\<lparr>v_ActualUnits := Some units, v_Status := ''ended'', v_CloseReason := s_EndReason s\<rparr>;
          v2 = (case s_Claim s of None \<Rightarrow> v1 | Some c \<Rightarrow> claim_overrides c v1);
          v3 = (if v_CloseReason v2 \<in> set failed_reasons then v2\<lparr>v_Status := ''failed''\<rparr> else v2)
      in if v_FailureCode v3 \<noteq> '''' \<or> v_OutputState v3 = ''stalled'' then v3\<lparr>v_Status := ''failed''\<rparr> else v3)"

definition observeLiveEnd :: "env \<Rightarrow> unit eng" where
  "observeLiveEnd E = bindE (time_now E) (\<lambda>now.
     thenE (set_v (\<lambda>v. if v_MediaEndedAt v = None then v\<lparr>v_MediaEndedAt := Some now\<rparr> else v))
    (thenE (set_o (\<lambda>o1. o1\<lparr>op_State := ''accounting_pending''\<rparr>))
    (thenE (CloseRTMP E) (projectLive E))))"

definition finalizeLiveProjection :: "env \<Rightarrow> int \<Rightarrow> time \<Rightarrow> unit eng" where
  "finalizeLiveProjection E units closedAt =
     thenE (with_state (\<lambda>x. set_v (applyLiveTerminalView (es x) units)))
    (thenE (set_o (\<lambda>o1. o1\<lparr>op_FinishedAt := Some closedAt\<rparr>))
    (bindE (attempt (projectLive E)) (\<lambda>r. case r of
        Inl e \<Rightarrow> thenE (set_o (\<lambda>o1. o1\<lparr>op_FinishedAt := None, op_State := ''accounting_pending''\<rparr>)) (throw e)
      | Inr _ \<Rightarrow> ret ())))"

section \<open>Accounting\<close>

definition session_status_complete :: "CreateSessionResponseV2 \<Rightarrow> SessionStatusResponse \<Rightarrow> bool" where
  "session_status_complete sess st \<longleftrightarrow> \<not> (ss_SessionID st \<noteq> sess_SessionID sess \<or>
     (case ss_ActualUnits st of None \<Rightarrow> True | Some u \<Rightarrow> u < 0) \<or> ss_BilledValueWei st = None \<or>
     (case ss_ClosedAt st of None \<Rightarrow> True | Some c \<Rightarrow> IsZero c))"

text \<open>The condition of line 862 as the code evaluates it, operand by operand through the pointers.\<close>

definition check_session_status :: "CreateSessionResponseV2 \<Rightarrow> SessionStatusResponse \<Rightarrow> bool eng" where
  "check_session_status sess st = orE (ret (ss_SessionID st \<noteq> sess_SessionID sess))
     (orE (ret (ss_ActualUnits st = None)) (orE (bindE (deref (ss_ActualUnits st)) (\<lambda>u. ret (u < 0)))
     (orE (ret (ss_BilledValueWei st = None)) (bindE (deref (ss_ClosedAt st)) (\<lambda>c. ret (IsZero c))))))"

lemma check_session_status_eq:
  "ss_ClosedAt st \<noteq> None \<Longrightarrow> check_session_status sess st = ret (\<not> session_status_complete sess st)"
  by (cases "ss_ActualUnits st"; cases "ss_ClosedAt st"; cases "ss_BilledValueWei st")
     (simp_all add: check_session_status_def session_status_complete_def guard_simps)

text \<open>\<open>True\<close>: LOC had closed the session and its accounting was adopted. Errors are thrown.\<close>

definition recoverClosedLive :: "env \<Rightarrow> bool eng" where
  "recoverClosedLive E = bindE the_session (\<lambda>sess.
     bindE (attempt (upcall E (CallGetSession (sess_SessionID sess)) (locGetSession E))) (\<lambda>r. case r of
         Inl _ \<Rightarrow> ret False
       | Inr st \<Rightarrow>
           if ss_ClosedAt st = None then ret False
           else bindE (check_session_status sess st) (\<lambda>incomplete.
             if incomplete then throw (Msg ''incomplete LOC terminal session accounting'')
             else thenE (mark_settled E (ss_BilledValueWei st))
                 (thenE (set_o (\<lambda>o1. o1\<lparr>op_State := ''loc_settled''\<rparr>))
                 (thenE (set_s (\<lambda>s. if s_Broker s = None \<and> s_EndReason s = '''' then s\<lparr>s_EndReason := ''open_failed''\<rparr> else s))
                 (bindE (deref (ss_ActualUnits st)) (\<lambda>units.
                  bindE (deref (ss_ClosedAt st)) (\<lambda>closedAt.
                  thenE (finalizeLiveProjection E units closedAt) (ret True)))))))))"

text \<open>The guards leave no dereference open: of an accepted answer both pointers are set.\<close>

abbreviation adopt_session_status :: "env \<Rightarrow> SessionStatusResponse \<Rightarrow> bool eng" where
  "adopt_session_status E st \<equiv>
     thenE (mark_settled E (ss_BilledValueWei st))
    (thenE (set_o (\<lambda>o1. o1\<lparr>op_State := ''loc_settled''\<rparr>))
    (thenE (set_s (\<lambda>s. if s_Broker s = None \<and> s_EndReason s = '''' then s\<lparr>s_EndReason := ''open_failed''\<rparr> else s))
    (thenE (finalizeLiveProjection E (the (ss_ActualUnits st)) (the (ss_ClosedAt st))) (ret True))))"

lemma recover_step_eq:
  "(if ss_ClosedAt st = None then ret False
    else bindE (check_session_status sess st) (\<lambda>incomplete.
      if incomplete then throw (Msg ''incomplete LOC terminal session accounting'')
      else thenE (mark_settled E (ss_BilledValueWei st))
          (thenE (set_o (\<lambda>o1. o1\<lparr>op_State := ''loc_settled''\<rparr>))
          (thenE (set_s (\<lambda>s. if s_Broker s = None \<and> s_EndReason s = '''' then s\<lparr>s_EndReason := ''open_failed''\<rparr> else s))
          (bindE (deref (ss_ActualUnits st)) (\<lambda>units.
           bindE (deref (ss_ClosedAt st)) (\<lambda>closedAt.
           thenE (finalizeLiveProjection E units closedAt) (ret True))))))))
   = (if ss_ClosedAt st = None then ret False
      else if \<not> session_status_complete sess st then throw (Msg ''incomplete LOC terminal session accounting'')
      else adopt_session_status E st)"
proof (cases "ss_ClosedAt st = None \<or> \<not> session_status_complete sess st")
  case True
  then show ?thesis by (auto simp: check_session_status_eq guard_simps)
next
  case False
  then obtain u c where "ss_ActualUnits st = Some u" "ss_ClosedAt st = Some c"
    by (auto simp: session_status_complete_def split: option.splits)
  then show ?thesis using False by (simp add: check_session_status_eq guard_simps)
qed

lemma recoverClosedLive_eq:
  "recoverClosedLive E = bindE the_session (\<lambda>sess.
     bindE (attempt (upcall E (CallGetSession (sess_SessionID sess)) (locGetSession E))) (\<lambda>r. case r of
         Inl _ \<Rightarrow> ret False
       | Inr st \<Rightarrow>
           if ss_ClosedAt st = None then ret False
           else if \<not> session_status_complete sess st then throw (Msg ''incomplete LOC terminal session accounting'')
           else adopt_session_status E st))"
  unfolding recoverClosedLive_def recover_step_eq ..

text \<open>The idiom \<^verbatim>\<open>if recovered, err := recoverClosedLive(..); recovered || err != nil { return err }\<close>.\<close>

definition or_recovered :: "env \<Rightarrow> unit eng \<Rightarrow> unit eng" where
  "or_recovered E k = bindE (recoverClosedLive E) (\<lambda>recovered. if recovered then ret () else k)"

definition close_response_matches :: "CreateSessionResponseV2 \<Rightarrow> TerminalClaim \<Rightarrow> CloseSessionResponse \<Rightarrow> bool" where
  "close_response_matches sess c r \<longleftrightarrow> \<not> (cr_SessionID r \<noteq> sess_SessionID sess \<or>
     cr_ActualUnits r \<noteq> tc_ActualUnits c \<or> cr_BilledValueWei r = None \<or> IsZero (cr_ClosedAt r))"

definition finishLive :: "env \<Rightarrow> unit eng" where
  "finishLive E = with_state (\<lambda>x0. case s_Claim (es x0) of
      None \<Rightarrow> throw (Msg ''live terminal claim required'')
    | Some c \<Rightarrow>
        thenE (set_v (applyLiveTerminalView (es x0) (tc_ActualUnits c)))
       (thenE (observeLiveEnd E)
       (thenE (save E)
       (bindE the_session (\<lambda>sess.
        bindE (attempt (CloseSessionV2 (\<lambda>i. upcall E (CallCloseSession (sess_SessionID sess) i) (locClose E))
                 (wait_timer E) \<lparr>cl_ActualUnits = tc_ActualUnits c, cl_Settlement = Some (tc_Settlement c)\<rparr>))
          (\<lambda>r. case r of
             Inl e \<Rightarrow> or_recovered E (throw e)
           | Inr cl \<Rightarrow>
               if \<not> close_response_matches sess c cl then throw (Msg ''LOC close accounting identity mismatch'')
               else thenE (mark_settled E (cr_BilledValueWei cl))
                   (thenE (set_o (\<lambda>o1. o1\<lparr>op_State := ''broker_settled''\<rparr>))
                    (finalizeLiveProjection E (tc_ActualUnits c) (cr_ClosedAt cl)))))))))"

definition claim_known_grant :: "operationSecrets \<Rightarrow> CreateSessionResponseV2 \<Rightarrow> TerminalClaim \<Rightarrow> bool" where
  "claim_known_grant s sess c \<longleftrightarrow> \<not> (tc_WorkID c \<noteq> sess_WorkID sess \<and>
     (case s_Refill s of None \<Rightarrow> True | Some r \<Rightarrow> tc_WorkID c \<noteq> refill_WorkID r))"

definition lookupLiveClaim :: "env \<Rightarrow> TerminalClaim eng" where
  "lookupLiveClaim E = bindE the_prep (\<lambda>p. bindE the_session (\<lambda>sess. with_state (\<lambda>x.
     let sid = (case s_Broker (es x) of None \<Rightarrow> prep_GatewaySessionID p | Some b \<Rightarrow> b_SessionID b) in
     bindE (upcall E (CallLookupSettlement (sess_BrokerURL sess) sid) (brokerHTTP E)) (\<lambda>r.
     bindE (lift_result (LookupSessionSettlementV2 (codecs E) r sid '''' ''output_seconds'')) (\<lambda>c.
     if \<not> claim_known_grant (es x) sess c then throw (Msg ''unknown live settlement authorization'')
     else if tc_GatewaySessionID c \<noteq> prep_GatewaySessionID p
     then throw (Msg ''live settlement gateway identity mismatch'')
     else ret c)))))"

definition end_broker_session :: "env \<Rightarrow> err option eng" where
  "end_broker_session E = bindE the_session (\<lambda>sess. with_state (\<lambda>x. case s_Broker (es x) of
      None \<Rightarrow> ret None
    | Some b \<Rightarrow> bindE (attempt (EndSessionV2 (codecs E) (b_SessionID b) (b_Credential b)
          (upcall E (CallEndSession (sess_BrokerURL sess) (b_SessionID b) (s_EndReason (es x))) (brokerHTTP E))))
        (\<lambda>r. ret (case r of Inl e \<Rightarrow> Some e | Inr _ \<Rightarrow> None))))"

definition endLive :: "env \<Rightarrow> unit eng" where
  "endLive E =
     thenE (with_state (\<lambda>x. whenE (v_MediaEndedAt (ev x) = None)
        (thenE (set_o (\<lambda>o1. o1\<lparr>op_State := ''ending''\<rparr>))
          (set_v (\<lambda>v. v\<lparr>v_Status := ''ending'', v_CloseReason := s_EndReason (es x)\<rparr>)))))
    (thenE (save E)
    (thenE (CloseRTMP E)
    (with_state (\<lambda>x. if s_Claim (es x) = None then
        bindE (end_broker_session E) (\<lambda>endErr.
        bindE (attempt (lookupLiveClaim E)) (\<lambda>r. case r of
            Inl e \<Rightarrow> or_recovered E (throw (case endErr of Some ee \<Rightarrow> ee | None \<Rightarrow> e))
          | Inr c \<Rightarrow>
              thenE (set_s (\<lambda>s. s\<lparr>s_Claim := Some c\<rparr>))
             (thenE (set_o (\<lambda>o1. o1\<lparr>op_State := ''accounting_pending''\<rparr>))
             (thenE (save E) (finishLive E)))))
      else finishLive E))))"

section \<open>Refill\<close>

definition clearPendingLiveRefill :: "operationSecrets \<Rightarrow> operationSecrets" where
  "clearPendingLiveRefill s = s\<lparr>s_RefillID := '''', s_RefillBody := '''', s_Refill := None, s_RefillCap := 0\<rparr>"

text \<open>Requesting the revision from LOC; \<open>False\<close> means the function already returned.\<close>

definition refill_request :: "env \<Rightarrow> bool eng" where
  "refill_request E = with_state (\<lambda>x. if s_Refill (es x) = None then
      bindE the_session (\<lambda>sess.
      bindE (attempt (RefillSessionV2 (\<lambda>i. upcall E (CallRefillSession (sess_SessionID sess) i) (locRefill E))
          \<lparr>rf_RequestID = s_RefillID (es x), rf_ObservedConsumedUnits = v_ActualUnits (ev x),
           rf_MaxTotalUnits = s_RefillCap (es x), rf_WorkloadRequestDigest = requestDigest E (s_RefillBody (es x))\<rparr>))
        (\<lambda>r. case r of
           Inl e \<Rightarrow>
             if IsInsufficientCredit e then
               thenE (set_s (\<lambda>s. (clearPendingLiveRefill s)\<lparr>s_EndReason := ''refill_refused''\<rparr>))
              (thenE (endLive E) (ret False))
             else thenE (or_recovered E (throw e)) (ret False)
         | Inr rf \<Rightarrow> thenE (set_s (\<lambda>s. s\<lparr>s_Refill := Some rf\<rparr>)) (thenE (save E) (ret True))))
    else ret True)"

definition refill_failed :: "env \<Rightarrow> err \<Rightarrow> unit eng" where
  "refill_failed E e =
     (if IsRefillRefusedError (json_error_code (codecs E)) e then
        thenE (set_s (\<lambda>s. s\<lparr>s_RefillRefused := True, s_EndReason := ''gateway_close''\<rparr>))
       (thenE (set_v (\<lambda>v. v\<lparr>v_FailureCode := ''refill_refused''\<rparr>))
       (thenE (save E) (endLive E)))
      else bindE (attempt (lookupLiveClaim E)) (\<lambda>r. case r of
          Inr c \<Rightarrow> thenE (set_s (\<lambda>s. s\<lparr>s_Claim := Some c\<rparr>)) (thenE (save E) (finishLive E))
        | Inl _ \<Rightarrow> or_recovered E (throw e)))"

definition adopt_refill :: "RefillSessionResponseV2 \<Rightarrow> operationSecrets \<Rightarrow> operationSecrets" where
  "adopt_refill rf s = clearPendingLiveRefill (s\<lparr>
     s_Session := map_option (\<lambda>c. c\<lparr>sess_WorkID := refill_WorkID rf\<rparr>) (s_Session s),
     s_Broker := map_option (\<lambda>b. b\<lparr>b_WorkID := refill_WorkID rf\<rparr>) (s_Broker s),
     s_CurrentCap := s_RefillCap s\<rparr>)"

definition refill_deliver :: "env \<Rightarrow> unit eng" where
  "refill_deliver E = bindE the_refill (\<lambda>rf. bindE (auth E (refill_RequestID rf) (refill_SpendAuthorization rf) (refill_WorkID rf)) (\<lambda>a.
     bindE the_session (\<lambda>sess. bindE the_broker (\<lambda>b. with_state (\<lambda>x.
     bindE (attempt (TopUpSessionV2 (codecs E) (b_SessionID b) (b_Credential b) a
        (upcall E (CallTopUpSession (sess_BrokerURL sess) (b_SessionID b) a (s_RefillBody (es x))) (brokerHTTP E))))
       (\<lambda>r. case r of
          Inl e \<Rightarrow> refill_failed E e
        | Inr resp \<Rightarrow>
            if bs_WorkID resp \<noteq> refill_WorkID rf then throw (Msg ''refill authorization identity mismatch'')
            else thenE (set_s (adopt_refill rf))
                (thenE (save E)
                (bindE the_live_id (\<lambda>lid. live_write E (\<lambda>t. IncrementLOCRefill lid))))))))))"

definition refillLive :: "env \<Rightarrow> unit eng" where
  "refillLive E = bindE (refill_request E) (\<lambda>go. if go then refill_deliver E else ret ())"

section \<open>Stop before the broker session is known\<close>

definition observe_stop :: "env \<Rightarrow> (operationView \<Rightarrow> operationView) \<Rightarrow> 'a eng" where
  "observe_stop E f = thenE (set_v f) (thenE (observeLiveEnd E) (throw AccountingPending))"

definition stop_outcome :: "env \<Rightarrow> SessionOpenOutcomeV2 \<Rightarrow> bool eng" where
  "stop_outcome E out =
     (if so_Outcome out = ''ADMISSION_REJECTED'' \<or> so_Outcome out = ''NOT_ADMITTED'' then
        observe_stop E (\<lambda>v. v\<lparr>v_Status := ''ended'', v_CloseReason := ''gateway_close'', v_OutputState := ''waiting''\<rparr>)
      else if so_Outcome out = ''SETTLED'' then
        bindE (lookupLiveClaim E) (\<lambda>c.
        thenE (set_s (\<lambda>s. s\<lparr>s_Claim := Some c\<rparr>)) (thenE (finishLive E) (ret False)))
      else if so_Outcome out = ''IN_FLIGHT'' \<or> so_Outcome out = ''ACCOUNTING_PENDING'' then
        (if so_SessionID out \<noteq> '''' then ret True else throw AccountingPending)
      else throw AccountingPending)"

text \<open>\<open>True\<close>: the broker confirmed an existing session, whose open may be replayed.\<close>

definition stopUnopenedLive :: "env \<Rightarrow> bool eng" where
  "stopUnopenedLive E =
     thenE (set_s (\<lambda>s. s\<lparr>s_EndReason := ''gateway_close''\<rparr>))
    (thenE (CloseRTMP E)
    (bindE (recoverClosedLive E) (\<lambda>recovered. if recovered then ret False else
     with_state (\<lambda>x. if \<not> s_DispatchAttempted (es x) \<or> v_MediaEndedAt (ev x) \<noteq> None then
        observe_stop E (\<lambda>v. v\<lparr>v_Status := ''ended'', v_CloseReason := ''gateway_close''\<rparr>)
      else bindE the_session (\<lambda>sess. bindE the_prep (\<lambda>p.
        bindE (upcall E (CallLookupOpen (sess_BrokerURL sess) (sess_RequestID sess)) (brokerHTTP E)) (\<lambda>r.
        bindE (lift_result (LookupSessionOpenV2 (codecs E) r (sess_RequestID sess) (prep_GatewaySessionID p)))
          (stop_outcome E))))))))"

section \<open>Stream keys\<close>

definition liveKeyUsable :: "operationSecrets \<Rightarrow> time \<Rightarrow> bool" where
  "liveKeyUsable s now \<longleftrightarrow> s_UpstreamURL s \<noteq> '''' \<and> s_KeyIssueRequestID s = '''' \<and>
     s_UpstreamKeyExpiresAt s > now + 15 * second"

text \<open>The last unexpired grant that may issue stream keys wins.\<close>

fun pick_grant :: "env \<Rightarrow> time \<Rightarrow> Grant list \<Rightarrow> string \<Rightarrow> string" where
  "pick_grant E now [] acc = acc"
| "pick_grant E now (g # gs) acc =
     pick_grant E now gs
       (case timeParse E (g_ExpiresAt g) of
          None \<Rightarrow> acc
        | Some expires \<Rightarrow>
            if \<not> expires > now + 15 * second \<or> g_Secret g = '''' then acc
            else if list_ex (\<lambda>p. p = ''stream-key-issue'') (g_Operations g) then g_Secret g else acc)"

definition key_request_id :: "env \<Rightarrow> unit eng" where
  "key_request_id E = with_state (\<lambda>x. whenE (s_KeyIssueRequestID (es x) = '''')
     (thenE (set_s (\<lambda>s. s\<lparr>s_KeyIssueRequestID :=
        (if s_UpstreamURL s = '''' \<and> IsZero (s_UpstreamKeyExpiresAt s) then op_ID (eo x) @ '':key''
         else op_ID (eo x) @ '':key:'' @ freshUUID E (tick x))\<rparr>))
      (save E)))"

definition issue_runtime_key :: "env \<Rightarrow> brokerSession \<Rightarrow> string \<Rightarrow> StreamKeyReply eng" where
  "issue_runtime_key E b grant = with_state (\<lambda>x.
     let body = marshal E (JObj [(''audience'', JStr ''gateway-relay''), (''request_id'', JStr (s_KeyIssueRequestID (es x)))]) in
     case urlParse E (b_KeyIssueURL b) of
       None \<Rightarrow> throw (Msg ''broker: invalid runtime grant endpoint'')
     | Some u \<Rightarrow>
         if (u_Scheme u \<noteq> ''http'' \<and> u_Scheme u \<noteq> ''https'') \<or> u_Hostname u = '''' \<or> u_HasUser u \<or> u_Fragment u \<noteq> ''''
         then throw (Msg ''broker: invalid runtime grant endpoint'')
         else (case credentialHeader grant of
             Inl e \<Rightarrow> throw e
           | Inr _ \<Rightarrow> upcall E (CallIssueKey (b_KeyIssueURL b) grant body) (keyReply E)))"

text \<open>One round of the issuance loop; \<open>True\<close> when the stored key is usable.\<close>

definition issue_round :: "env \<Rightarrow> brokerSession \<Rightarrow> string \<Rightarrow> bool eng" where
  "issue_round E b grant =
     thenE (key_request_id E)
    (bindE (issue_runtime_key E b grant) (\<lambda>key. with_state (\<lambda>x.
     case timeParse E (k_ExpiresAt key) of
       None \<Rightarrow> throw (Msg ''invalid stream-key issuance response'')
     | Some expires \<Rightarrow>
         if k_RequestID key \<noteq> s_KeyIssueRequestID (es x) \<or> k_StreamKey key = ''''
         then throw (Msg ''invalid stream-key issuance response'')
         else let upstream = TrimRight1 (b_RTMPURL b) (CHR ''/'') @ ''/'' @ k_StreamKey key in
           (case urlParse E upstream of
              None \<Rightarrow> throw (Msg ''invalid runner ingest URL'')
            | Some u \<Rightarrow>
                if u_HasUser u \<or> u_Fragment u \<noteq> '''' then throw (Msg ''invalid runner ingest URL'')
                else thenE (set_s (\<lambda>s. s\<lparr>s_UpstreamURL := upstream, s_UpstreamKeyExpiresAt := expires,
                                        s_KeyIssueRequestID := ''''\<rparr>))
                    (thenE (save E)
                    (bindE (time_now E) (\<lambda>now. with_state (\<lambda>y. ret (liveKeyUsable (es y) now)))))))))"

definition grant_expired :: "env \<Rightarrow> unit eng" where
  "grant_expired E = bindE (time_now E) (\<lambda>now.
     thenE (set_s (\<lambda>s. s\<lparr>s_EndReason := ''recovery_failed''\<rparr>))
    (thenE (set_v (\<lambda>v. v\<lparr>v_FailureCode := ''stream_key_grant_expired'', v_Status := ''ending'',
                         v_CloseReason := ''recovery_failed''\<rparr>))
    (thenE (set_o (\<lambda>o1. o1\<lparr>op_State := ''ending'', op_NextAttemptAt := now\<rparr>))
    (thenE (save E)
    (thenE Wake
     (throw (Msg ''stream-key grant expired; session winddown requested'')))))))"

definition issueLiveStreamKey :: "env \<Rightarrow> unit eng" where
  "issueLiveStreamKey E = with_state (\<lambda>x. case s_Broker (es x) of
      None \<Rightarrow> throw (Msg ''live broker descriptor missing'')
    | Some b \<Rightarrow> (case validateRuntimeURLs E b of
        Some e \<Rightarrow> throw e
      | None \<Rightarrow> bindE (time_now E) (\<lambda>now.
          let grant = pick_grant E now (b_Grants b) '''' in
          if grant = '''' then grant_expired E
          else bindE (issue_round E b grant) (\<lambda>ok1. if ok1 then ret ()
          else bindE (issue_round E b grant) (\<lambda>ok2. if ok2 then ret ()
          else throw (Msg ''runner issued an expired stream key''))))))"

end
