(* ===== verification/Paid_Engine.thy ===== *)
theory Paid_Engine
  imports Paid_Live
begin

text \<open>
  The drivers of the paid engine: \<^verbatim>\<open>runLive\<close> in the order of its phases, \<^verbatim>\<open>Process\<close> (one
  locked attempt on one operation, with the journal's error bookkeeping) and \<^verbatim>\<open>UpstreamURL\<close>
  (what the RTMP relay asks before it connects a publisher to the runner).
\<close>

section \<open>Cancel before any authorization\<close>

definition cancel_row :: "time \<Rightarrow> LiveStream \<Rightarrow> LiveStream" where
  "cancel_row now r = r\<lparr>ls_Status := LiveEnded, ls_CloseReason := Some ''gateway_close'',
     ls_EndedAt := coalesce (ls_EndedAt r) (Some now)\<rparr>"

definition live_cancel :: "env \<Rightarrow> unit eng" where
  "live_cancel E = with_state (\<lambda>x.
     thenE (res_write E (\<lambda>t. Refund t (op_ReservationID (eo x)) 0 ''canceled_before_authorization''))
    (bindE the_live_id (\<lambda>lid.
     thenE (live_write E (\<lambda>t. sql_update (\<lambda>r. ls_ID r = lid) (cancel_row t)))
    (bindE (time_now E) (\<lambda>now.
     thenE (set_o (\<lambda>o1. o1\<lparr>op_State := ''canceled'', op_FinishedAt := Some now\<rparr>))
     (set_v (\<lambda>v. v\<lparr>v_Status := ''ended'', v_CloseReason := ''gateway_close'', v_MediaEndedAt := Some now\<rparr>)))))))"

section \<open>Preparation and authorization\<close>

definition live_prepare_request :: "estate \<Rightarrow> PrepareSessionRequestV2" where
  "live_prepare_request x = \<lparr>ps_RequestID = op_ID (eo x) @ '':prepare'', ps_Capability = s_Capability (es x),
     ps_Offering = s_Offering (es x), ps_DescriptorSchema = ''rtmp-hls/v1''\<rparr>"

definition live_prepare :: "env \<Rightarrow> unit eng" where
  "live_prepare E = with_state (\<lambda>x. if s_Preparation (es x) = None then
      bindE (attempt (PrepareSessionV2 (\<lambda>i. upcall E (CallPrepareSession i) (locPrepare E)) (live_prepare_request x)))
        (\<lambda>r. case r of
           Inl e \<Rightarrow> issuanceFailure E e
         | Inr p \<Rightarrow>
             thenE (set_s (\<lambda>s. s\<lparr>s_Preparation := Some p,
                s_Body := marshal E (JObj [(''gateway_session_id'', JStr (prep_GatewaySessionID p)),
                                           (''session_params'', s_Params s)])\<rparr>))
            (thenE (set_o (\<lambda>o1. o1\<lparr>op_State := ''prepared''\<rparr>))
             (save E)))
    else ret ())"

definition live_session_request :: "env \<Rightarrow> PrepareSessionResponseV2 \<Rightarrow> estate \<Rightarrow> CreateSessionRequestV2" where
  "live_session_request E p x = \<lparr>cs_RequestID = op_ID (eo x), cs_Capability = s_Capability (es x),
     cs_Offering = s_Offering (es x), cs_DescriptorSchema = ''rtmp-hls/v1'', cs_SessionParams = s_Params (es x),
     cs_EstimatedRunwayUnits = s_CurrentCap (es x), cs_MaxTotalUnits = s_CurrentCap (es x),
     cs_GatewaySessionID = prep_GatewaySessionID p, cs_PreparationToken = prep_PreparationToken p,
     cs_RouteBinding = prep_RouteBinding p, cs_WorkloadRequestDigest = requestDigest E (s_Body (es x)),
     cs_CallerPublicKey = s_CallerPublicKey (es x)\<rparr>"

definition live_authorize :: "env \<Rightarrow> unit eng" where
  "live_authorize E = with_state (\<lambda>x. if s_Session (es x) = None then
      bindE the_prep (\<lambda>p.
      bindE (attempt (LocOpenSessionV2 (\<lambda>i. upcall E (CallLocOpenSession i) (locOpen E)) (live_session_request E p x)))
        (\<lambda>r. case r of
           Inl e \<Rightarrow> issuanceFailure E e
         | Inr sess \<Rightarrow>
             thenE (set_s (\<lambda>s. s\<lparr>s_Session := Some sess\<rparr>))
            (thenE (set_o (\<lambda>o1. o1\<lparr>op_State := ''authorized''\<rparr>))
             (save E))))
    else ret ())"

section \<open>Opening the broker session\<close>

text \<open>The stop flag re-read from the row; the rest of the row is owned under the lock.\<close>

definition reread_stop :: "env \<Rightarrow> unit eng" where
  "reread_stop E = bindE (lock_current E) (\<lambda>current.
     whenE (op_StopRequested current) (set_o (\<lambda>o1. o1\<lparr>op_StopRequested := True\<rparr>)))"

text \<open>The open failed: an admitted session may have been settled at once.\<close>

definition open_failed :: "env \<Rightarrow> err \<Rightarrow> unit eng" where
  "open_failed E e = bindE the_session (\<lambda>sess. bindE the_prep (\<lambda>p.
     bindE (attempt (bindE (upcall E (CallLookupSettlement (sess_BrokerURL sess) (prep_GatewaySessionID p)) (brokerHTTP E))
         (\<lambda>r. lift_result (LookupSessionSettlementV2 (codecs E) r (prep_GatewaySessionID p) (sess_WorkID sess) ''output_seconds''))))
       (\<lambda>cr. case cr of
          Inr claim \<Rightarrow>
            thenE (set_s (\<lambda>s. s\<lparr>s_Claim := Some claim, s_EndReason := ''open_failed''\<rparr>))
           (thenE (save E) (finishLive E))
        | Inl _ \<Rightarrow> or_recovered E (throw e))))"

text \<open>
  \<^verbatim>\<open>True\<close>: a descriptor was obtained and the run goes on. The converted session is stored before
  its checks, as in the code.
\<close>

definition live_dispatch :: "env \<Rightarrow> bool eng" where
  "live_dispatch E = bindE the_session (\<lambda>sess.
     bindE (auth E (sess_RequestID sess) (sess_SpendAuthorization sess) (sess_WorkID sess)) (\<lambda>a.
     thenE (set_s (\<lambda>s. s\<lparr>s_DispatchAttempted := True\<rparr>))
    (thenE (set_o (\<lambda>o1. o1\<lparr>op_State := ''dispatching''\<rparr>))
    (thenE (save E)
    (with_state (\<lambda>x.
     bindE (attempt (BrokerOpenSessionV2 (codecs E) a
        (upcall E (CallOpenSession (sess_BrokerURL sess) a (s_Body (es x))) (brokerHTTP E))))
       (\<lambda>r. case r of
          Inl e \<Rightarrow> thenE (open_failed E e) (ret False)
        | Inr resp \<Rightarrow> (case convertBroker resp of (b, berr) \<Rightarrow>
            thenE (set_s (\<lambda>s. s\<lparr>s_Broker := Some b\<rparr>))
            (case berr of
               Some e \<Rightarrow> throw e
             | None \<Rightarrow>
                 if b_Credential b = '''' \<or> b_Schema b \<noteq> ''rtmp-hls/v1'' then throw (Msg ''invalid live descriptor'')
                 else thenE (set_o (\<lambda>o1. o1\<lparr>op_State := ''provisioning''\<rparr>))
                     (thenE (save E) (ret True)))))))))))"

definition live_open_session :: "env \<Rightarrow> bool eng" where
  "live_open_session E = with_state (\<lambda>x. if s_Broker (es x) = None then
      thenE (reread_stop E)
     (with_state (\<lambda>y.
      bindE (if op_StopRequested (eo y) then stopUnopenedLive E else ret True) (\<lambda>go.
      if go then live_dispatch E else ret False)))
    else ret True)"

section \<open>Control of an open session\<close>

definition live_stop_check :: "env \<Rightarrow> unit eng" where
  "live_stop_check E =
     thenE (reread_stop E)
    (with_state (\<lambda>x.
     thenE (whenE (op_StopRequested (eo x) \<and> s_EndReason (es x) = '''') (set_s (\<lambda>s. s\<lparr>s_EndReason := ''gateway_close''\<rparr>)))
     (whenE (op_StopRequested (eo x)) (CloseRTMP E))))"

text \<open>Replaying a pending refill; \<open>False\<close> when it finished the operation.\<close>

definition live_pending_refill :: "env \<Rightarrow> bool eng" where
  "live_pending_refill E = with_state (\<lambda>x.
     if s_RefillID (es x) \<noteq> '''' \<and> \<not> s_RefillRefused (es x) then
       thenE (refillLive E) (with_state (\<lambda>y. ret (op_FinishedAt (eo y) = None)))
     else ret True)"

definition live_publish :: "env \<Rightarrow> unit eng" where
  "live_publish E = with_state (\<lambda>x. whenE (s_UpstreamURL (es x) = '''')
     (thenE (issueLiveStreamKey E)
     (bindE the_broker (\<lambda>b.
      thenE (set_v (\<lambda>v. v\<lparr>v_MasterURL := b_HLSURL b\<rparr>))
     (thenE (set_o (\<lambda>o1. o1\<lparr>op_State := ''active''\<rparr>))
     (thenE (set_v (\<lambda>v. v\<lparr>v_Status := ''live''\<rparr>))
      (save E)))))))"

definition refill_needed :: "env \<Rightarrow> CreateSessionResponseV2 \<Rightarrow> operationSecrets \<Rightarrow> brokerSession \<Rightarrow> bool" where
  "refill_needed E sess s st \<longleftrightarrow> b_RunwaySeconds st < LiveTopupRunwayThresholdSecs (cfg E) \<and>
     sess_Refill sess = ''extensible'' \<and> s_CurrentCap s < s_LimitUnits s \<and> \<not> b_WillRefuse st"

definition begin_refill :: "env \<Rightarrow> uuid \<Rightarrow> operationSecrets \<Rightarrow> operationSecrets" where
  "begin_refill E i s = s\<lparr>s_RefillCap := min (s_LimitUnits s) (wrap64 (s_CurrentCap s + LiveTopupFundSecs (cfg E))),
     s_RefillID := i, s_RefillBody := marshal E (JObj [])\<rparr>"

definition live_reconcile :: "env \<Rightarrow> CreateSessionResponseV2 \<Rightarrow> brokerSession \<Rightarrow> unit eng" where
  "live_reconcile E sess st =
     thenE (with_state (\<lambda>x. whenE (refill_needed E sess (es x) st)
       (thenE (set_s (begin_refill E (freshUUID E (tick x))))
       (thenE (save E) (refillLive E)))))
    (bindE (time_now E) (\<lambda>now.
     thenE (set_o (\<lambda>o1. o1\<lparr>op_NextAttemptAt := now + max 1 (LiveReconcileIntervalSecs (cfg E)) * second\<rparr>))
     (projectLive E)))"

definition live_observe :: "env \<Rightarrow> CreateSessionResponseV2 \<Rightarrow> brokerSession \<Rightarrow> unit eng" where
  "live_observe E sess st =
     (if b_UsageUnit st \<noteq> ''output_seconds'' \<or> b_ClaimedTotal st < 0 then throw (Msg ''invalid live usage unit'')
      else thenE (set_v (\<lambda>v. v\<lparr>v_OutputState := b_OutputState st, v_FailureCode := b_LastFailureCode st,
                              v_ActualUnits := Some (b_ClaimedTotal st)\<rparr>))
       (if brokerTerminal (b_State st) then
          thenE (set_s (\<lambda>s. s\<lparr>s_EndReason := (if b_CloseReason st = '''' then ''runner_ended'' else b_CloseReason st)\<rparr>))
         (thenE (with_state (\<lambda>x. set_v (applyLiveTerminalView (es x) (b_ClaimedTotal st))))
         (thenE (observeLiveEnd E) (endLive E)))
        else if b_State st = ''winding_down'' then
          thenE (set_s (\<lambda>s. s\<lparr>s_EndReason := ''runner_ended''\<rparr>)) (endLive E)
        else live_reconcile E sess st))"

definition live_monitor :: "env \<Rightarrow> unit eng" where
  "live_monitor E =
     thenE (projectLive E)
    (bindE the_session (\<lambda>sess. bindE the_broker (\<lambda>b.
     bindE (attempt (StatusSessionV2 (codecs E) (b_SessionID b) (b_Credential b)
        (upcall E (CallStatusSession (sess_BrokerURL sess) (b_SessionID b)) (brokerHTTP E))))
       (\<lambda>r. case r of
          Inl e \<Rightarrow> or_recovered E (throw e)
        | Inr resp \<Rightarrow> (case convertBroker resp of
            (st, Some e) \<Rightarrow> throw e
          | (st, None) \<Rightarrow> live_observe E sess st)))))"

definition live_control :: "env \<Rightarrow> unit eng" where
  "live_control E =
     thenE (live_stop_check E)
    (bindE (live_pending_refill E) (\<lambda>go. if \<not> go then ret () else
     with_state (\<lambda>x. if s_EndReason (es x) \<noteq> '''' then endLive E
       else thenE (live_publish E) (live_monitor E))))"

definition runLive :: "env \<Rightarrow> unit eng" where
  "runLive E = with_state (\<lambda>x.
     if op_StopRequested (eo x) \<and> s_Preparation (es x) = None \<and> s_Session (es x) = None then live_cancel E
     else thenE (live_prepare E)
         (thenE (live_authorize E)
         (with_state (\<lambda>y. if s_Claim (es y) \<noteq> None then finishLive E
           else bindE (live_open_session E) (\<lambda>go. if go then live_control E else ret ())))))"

section \<open>One locked attempt\<close>

definition acquire_slot :: "env \<Rightarrow> unit eng" where
  "acquire_slot E = wait_timer E 0"

definition key_unavailable :: "env \<Rightarrow> err \<Rightarrow> unit eng" where
  "key_unavailable E e = bindE (time_now E) (\<lambda>now.
     thenE (set_o (\<lambda>o1. o1\<lparr>op_LastError := Some ''recovery_key_unavailable'', op_NextAttemptAt := now + 60 * second\<rparr>))
    (thenE (lock_save E) (throw e)))"

text \<open>Backoff of a failed attempt in nanoseconds, \<^verbatim>\<open>min(60, 2*o.Attempts)\<close> seconds.\<close>

definition retry_delay :: "int \<Rightarrow> int" where
  "retry_delay attempts = min 60 (wrap64 (2 * attempts)) * second"

definition record_failure :: "env \<Rightarrow> err \<Rightarrow> unit eng" where
  "record_failure E e = bindE (time_now E) (\<lambda>now.
     set_o (\<lambda>o1. o1\<lparr>op_FinishedAt := (if op_State o1 \<noteq> ''issuance_refused'' then None else op_FinishedAt o1),
        op_LastError := Some (safePaidError e), op_NextAttemptAt := now + retry_delay (op_Attempts o1)\<rparr>))"

definition run_operation :: "env \<Rightarrow> unit eng" where
  "run_operation E =
     thenE (set_o (\<lambda>o1. o1\<lparr>op_Attempts := wrap64 (op_Attempts o1 + 1), op_LastError := None\<rparr>))
    (bindE (attempt (with_state (\<lambda>x. if op_Kind (eo x) = ''abr'' then runABR E else runLive E))) (\<lambda>r. case r of
        Inl e \<Rightarrow> thenE (record_failure E e) (thenE (save E) (throw e))
      | Inr _ \<Rightarrow> save E))"

definition load_operation :: "operation \<Rightarrow> operationSecrets \<Rightarrow> operationView \<Rightarrow> unit eng" where
  "load_operation o1 s v = modify (\<lambda>x. x\<lparr>eo := o1, es := s, ev := v\<rparr>)"

definition Process :: "env \<Rightarrow> uuid \<Rightarrow> unit eng" where
  "Process E i =
     thenE (acquire_slot E)
    (bindE (lock_op E i) (\<lambda>locked. if \<not> locked then ret () else
     bindE (db_read E (OpGet i)) (\<lambda>r. case r of
         None \<Rightarrow> ret ()
       | Some o1 \<Rightarrow>
           if op_FinishedAt o1 \<noteq> None then ret ()
           else (case decode E o1 of
               Inl e \<Rightarrow> thenE (set_o (\<lambda>_. o1)) (key_unavailable E e)
             | Inr (s, v) \<Rightarrow> thenE (load_operation o1 s v) (run_operation E)))))"

section \<open>The relay's upstream address\<close>

text \<open>
  \<^verbatim>\<open>UpstreamURL\<close> polls the lock every 50 ms until it is free or the caller's context is done.
  \<open>patience\<close> is the number of polls after which the context ends; a context may also end
  earlier, at any poll, by \<open>waitFault\<close>. The empty string means no relay target.
\<close>

fun lock_poll :: "env \<Rightarrow> uuid \<Rightarrow> nat \<Rightarrow> unit eng" where
  "lock_poll E i 0 = throw Canceled"
| "lock_poll E i (Suc n) = bindE (lock_op E i) (\<lambda>locked.
     if locked then ret () else thenE (wait_timer E 50000000) (lock_poll E i n))"

definition relayable :: "operation \<Rightarrow> bool" where
  "relayable o1 \<longleftrightarrow> \<not> (op_StopRequested o1 \<or> op_FinishedAt o1 \<noteq> None \<or> op_State o1 \<noteq> ''active'')"

definition upstream_serve :: "env \<Rightarrow> operationSecrets \<Rightarrow> string eng" where
  "upstream_serve E s = bindE (time_now E) (\<lambda>now.
     thenE (whenE (\<not> liveKeyUsable s now) (issueLiveStreamKey E))
    (bindE (lock_current E) (\<lambda>current.
     if op_StopRequested current \<or> op_FinishedAt current \<noteq> None then ret ''''
     else with_state (\<lambda>x. ret (s_UpstreamURL (es x))))))"

definition upstream_locked :: "env \<Rightarrow> uuid \<Rightarrow> string eng" where
  "upstream_locked E i = bindE (db_read E (OpGet i)) (\<lambda>r. case r of
      None \<Rightarrow> ret ''''
    | Some o1 \<Rightarrow> if \<not> relayable o1 then ret ''''
        else bindE (lift_result (decode E o1)) (\<lambda>(s, v). thenE (load_operation o1 s v) (upstream_serve E s)))"

definition UpstreamURL :: "env \<Rightarrow> nat \<Rightarrow> uuid \<Rightarrow> string eng" where
  "UpstreamURL E patience lid = bindE (db_read E (GetLive lid)) (\<lambda>r. case r of
      None \<Rightarrow> ret ''''
    | Some o1 \<Rightarrow> if \<not> relayable o1 then ret ''''
        else bindE (lift_result (decode E o1)) (\<lambda>(s, v).
          bindE (time_now E) (\<lambda>now.
          if liveKeyUsable s now then ret (s_UpstreamURL s)
          else thenE (acquire_slot E) (thenE (lock_poll E (op_ID o1) patience) (upstream_locked E (op_ID o1))))))"

end
