(* ===== verification/Paid_Sample.thy ===== *)
theory Paid_Sample
  imports Paid_Engine
begin

text \<open>
  A small concrete deployment: one configuration, an environment whose upstreams are all
  unreachable, one live and one ABR operation with their journal rows, reservations and stream.
  The properties of the engine are exercised at these values.
\<close>

definition sample_config :: Config where
  "sample_config = \<lparr>ABRCapability = ''video:abr'', ABROffering = ''default'', ABRMaxTotalUnits = 100000,
     ABRJobTimeoutSecs = 3600, LiveCapability = ''video:live'', LiveGatewayIngestOffering = ''relay'',
     LiveMaxTotalUnits = 3600, LiveTopupRunwayThresholdSecs = 60, LiveTopupFundSecs = 300,
     LiveReconcileIntervalSecs = 5, LiveRTMPPort = 1935, LiveExternalRTMPURL = ''rtmp://edge/live'',
     GatewayPublicURL = ''https://gateway'', LiveOutputProfile = ''hls-standard'', LiveMeteringRendition = ''720p'',
     RefreshMS = 60000, LOCAPIKey = ''loc-key'', CallerPrivateKey = ''caller-key'', OperationSecretsKey = ''wrap''\<rparr>"

definition sample_codec :: codec where
  "sample_codec = \<lparr>b64_decode = (\<lambda>_. None), json_any = (\<lambda>_. None), json_session = (\<lambda>_. None),
     json_open_outcome = (\<lambda>_. None), json_error_code = (\<lambda>_. None), sprint_composite = (\<lambda>_. [])\<rparr>"

abbreviation unreachable :: "nat \<Rightarrow> err + 'a" where
  "unreachable \<equiv> \<lambda>_. Inl (NetErr True)"

text \<open>The wrapping key and the upstream answer to \<^verbatim>\<open>GetJobV2\<close> are what the samples vary.\<close>

definition sample_env :: "string \<Rightarrow> env" where
  "sample_env key = \<lparr>cfg = sample_config, codecs = sample_codec, boxKey = key, signerPublicKey = ''caller'',
     signerProof = (\<lambda>a. Inr (''proof:'' @ a)), requestDigest = (\<lambda>b. ''digest:'' @ b), marshal = (\<lambda>_. ''{}''),
     urlParse = (\<lambda>_. None), timeParse = (\<lambda>_. None), sseData = (\<lambda>_. None), viewText = v_Status,
     hasRTMPProbe = True, clock = (\<lambda>t. (1000 + int t) * second), freshUUID = (\<lambda>t. ''uuid-'' @ nat_text t),
     nonces = nat_text, sealFault = (\<lambda>_. None), dbFault = (\<lambda>_. None), waitFault = (\<lambda>_. None),
     stops = (\<lambda>_. []), lockedByOthers = (\<lambda>_. []),
     locCreateJob = unreachable, locSettleJob = unreachable, locGetJob = unreachable, locPrepare = unreachable,
     locOpen = unreachable, locRefill = unreachable, locClose = unreachable, locGetSession = unreachable,
     brokerHTTP = unreachable, keyReply = unreachable\<rparr>"

definition sample_secrets :: operationSecrets where
  "sample_secrets = \<lparr>s_RefillRefused = False, s_Capability = ''video:live'', s_Offering = ''relay'',
     s_Body = '''', s_Params = JNull, s_CallerPublicKey = ''caller'', s_EstimatedUnits = 0, s_LimitUnits = 3600,
     s_CurrentCap = 600, s_CustomerKey = ''customer-key'', s_UpstreamURL = '''', s_UpstreamKeyExpiresAt = 0,
     s_KeyIssueRequestID = '''', s_Job = None, s_Preparation = None, s_Session = None, s_Broker = None,
     s_Claim = None, s_DispatchAttempted = False, s_RefillID = '''', s_RefillBody = '''', s_RefillCap = 0,
     s_Refill = None, s_EndReason = ''''\<rparr>"

definition sample_view :: operationView where
  "sample_view = \<lparr>v_MediaEndedAt = None, v_Status = ''provisioning'', v_Phase = '''', v_Progress = 0, v_Preset = '''',
     v_MasterURL = '''', v_Renditions = [], v_WorkUnit = ''output_seconds'', v_ActualUnits = None,
     v_OutputState = ''waiting'', v_FailureCode = '''', v_CloseReason = '''', v_TerminalOutcome = ''''\<rparr>"

definition sample_row :: operation where
  "sample_row = \<lparr>op_ID = ''op'', op_APIKeyID = ''key'', op_ReservationID = ''res'', op_LiveStreamID = Some ''op'',
     op_Kind = ''live'', op_RequestKey = ''req'', op_RequestHash = ''hash'', op_State = ''queued'',
     op_Secrets = BoxSeal ''wrap'' ''n0'' ''op'' sample_secrets, op_PublicJSON = sample_view, op_LastError = None,
     op_Attempts = 0, op_NextAttemptAt = 0, op_StopRequested = False, op_CreatedAt = 0, op_UpdatedAt = 0,
     op_FinishedAt = None\<rparr>"

definition sample_db :: "operation \<Rightarrow> database" where
  "sample_db r = \<lparr>db_reservations = [fresh_reservation ''res'' ''key'' ''op'' ''video:live'' ''relay'' (Some 600) None 0],
     db_live = [fresh_live ''op'' ''key'' (Some ''res'') (Some ''stream'') ''video:live'' ''relay'' None
                  (Some ''keyhash'') (Some ''-key'') 0],
     db_ops = [r]\<rparr>"

definition sample_state :: "operation \<Rightarrow> estate" where
  "sample_state r = \<lparr>tick = 0, edb = sample_db r, calls = [], closed = [], woken = False, lastSaved = 0,
     eo = r, es = sample_secrets, ev = sample_view\<rparr>"

lemmas sample_defs = sample_config_def sample_codec_def sample_env_def sample_secrets_def sample_view_def
  sample_row_def sample_db_def sample_state_def

lemma sample_OpGet [simp]: "OpGet ''op'' (edb (sample_state r)) = (if op_ID r = ''op'' then Some r else None)"
  by (simp add: sample_state_def sample_db_def OpGet_def)

lemma sample_row_simps [simp]:
  "op_ID sample_row = ''op''" "op_FinishedAt sample_row = None" "op_Kind sample_row = ''live''"
  "op_Secrets sample_row = BoxSeal ''wrap'' ''n0'' ''op'' sample_secrets"
  by (simp_all add: sample_row_def)

end
