(* ===== verification/Paid_Facts.thy ===== *)
theory Paid_Facts
  imports Paid_Sample
begin

text \<open>
  Properties of single functions of the paid engine: what ends up in the durable error column,
  when a failed attempt is retried, how authorizations grow, what a terminated stream's view
  says, and what a stream-key issuance leaves behind.
\<close>

section \<open>Error codes\<close>

lemma validate_errors:
  "validateJobClaim c req job unit work = Some e \<Longrightarrow> e \<in> range Msg"
  "validateClaimHeaders c h = Some e \<Longrightarrow> e \<in> range Msg"
  "signature_shape C sig = Some e \<Longrightarrow> e \<in> range Msg"
  "claim_units C p c = Inl e \<Longrightarrow> e \<in> range Msg"
  by (auto simp: validateJobClaim_def validateClaimHeaders_def signature_shape_def claim_units_def Let_def
      split: if_split_asm option.split_asm prod.split_asm)

lemma decodeClaim_InlD:
  assumes "decodeClaim C s = Inl e"
  shows "e \<in> range Msg"
proof -
  have env: "decode_envelope C j = Inl e \<Longrightarrow> e \<in> range Msg" for j
    unfolding decode_envelope_def Let_def
    by (auto split: if_split_asm option.split_asm dest: validate_errors)
  with assms show ?thesis
    by (auto simp: decodeClaim_def split: if_split_asm option.split_asm)
qed

lemma settled_exchange_InlD:
  assumes "settled_exchange C h body req job unit work = Inl e"
  shows "e \<in> range Msg"
proof -
  define enc where "enc = (if hget h ''Livepeer-Settlement'' = '''' then scalar C (jfield body ''settlement'') else hget h ''Livepeer-Settlement'')"
  show ?thesis
  proof (cases "decodeClaim C enc")
    case (Inl e')
    with assms decodeClaim_InlD [OF Inl] show ?thesis
      by (auto simp: settled_exchange_def Let_def enc_def [symmetric] split: if_split_asm)
  next
    case (Inr c)
    with assms show ?thesis
      by (auto simp: settled_exchange_def Let_def enc_def [symmetric] split: if_split_asm option.split_asm dest: validate_errors)
  qed
qed

lemma LookupJobV2_InlD:
  assumes "LookupJobV2 C r req job unit work = Inl e"
  shows "e = brokerResponseError r \<or> e \<in> range Msg \<or> e \<in> ExchangePending ` (set exchange_outcomes \<union> {''UNKNOWN''})"
  using assms settled_exchange_InlD
  by (auto simp: LookupJobV2_def jsonV2_def Let_def split: if_split_asm sum.split_asm option.split_asm prod.split_asm)

text \<open>Upstream text never reaches the durable error column. Whatever a broker answers to an exchange
  look-up, the code recorded for a failed look-up is one of a fixed vocabulary that depends only on
  the HTTP status and on the seven known exchange outcomes; no byte of a response body gets into it.\<close>

theorem lookup_error_codes_bounded:
  assumes "LookupJobV2 C r req job unit work = Inl e"
  shows "safePaidError e \<in> {''broker_http_'' @ int_text (hr_Status r), ''upstream_or_accounting_pending''} \<union>
    (\<lambda>outcome. ''broker_'' @ ToLower outcome) ` (set exchange_outcomes \<union> {''UNKNOWN''})"
proof -
  consider "e = brokerResponseError r" | "e \<in> range Msg"
    | outcome where "e = ExchangePending outcome" "outcome \<in> set exchange_outcomes \<union> {''UNKNOWN''}"
    using LookupJobV2_InlD [OF assms] by blast
  then show ?thesis
    by cases (auto simp: safePaidError_def brokerResponseError_def)
qed

theorem lookup_error_codes_bounded_witness:
  "safePaidError (BrokerErr \<lparr>be_URL = ''https://broker'', be_StatusCode = 503, be_Body = ''bearer secret''\<rparr>) \<in>
     {''broker_http_'' @ int_text 503, ''upstream_or_accounting_pending''} \<union>
       (\<lambda>outcome. ''broker_'' @ ToLower outcome) ` (set exchange_outcomes \<union> {''UNKNOWN''})"
proof -
  let ?r = "\<lparr>hr_Status = 503, hr_URL = ''https://broker'', hr_Header = [], hr_Trailer = [], hr_Body = ''bearer secret'',
     hr_ReadErr = None\<rparr>"
  have "LookupJobV2 sample_codec ?r ''req'' '''' ''unit'' ''work'' =
      Inl (BrokerErr \<lparr>be_URL = ''https://broker'', be_StatusCode = 503, be_Body = ''bearer secret''\<rparr>)"
    by (simp add: LookupJobV2_def jsonV2_def status_ok_def brokerResponseError_def)
  from lookup_error_codes_bounded [OF this] show ?thesis by simp
qed

section \<open>Retries\<close>

text \<open>A failed attempt is retried with a bounded, growing delay. The bookkeeping of a failure records
  the bounded code, schedules the next attempt two seconds per attempt made, at most a minute,
  after the clock, and leaves a finish time only on a definitively refused issuance.\<close>

theorem record_failure_schedule:
  assumes "1 \<le> op_Attempts (eo x)" and "op_Attempts (eo x) < 2 ^ 62"
  shows "fst (record_failure E e x) = Inr () \<and>
    (let o1 = eo (snd (record_failure E e x)); now = clock E (tick x) in
       op_LastError o1 = Some (safePaidError e) \<and>
       op_NextAttemptAt o1 = now + min 60 (2 * op_Attempts (eo x)) * second \<and>
       now + 2 * second \<le> op_NextAttemptAt o1 \<and> op_NextAttemptAt o1 \<le> now + 60 * second \<and>
       (op_State o1 \<noteq> ''issuance_refused'' \<longrightarrow> op_FinishedAt o1 = None))"
proof -
  have "wrap64 (2 * op_Attempts (eo x)) = 2 * op_Attempts (eo x)"
    using assms by (simp add: int64_range_def)
  with assms show ?thesis
    by (simp add: record_failure_def time_now_def set_o_def eng_simps retry_delay_def Let_def min_def)
qed

theorem record_failure_schedule_witness:
  "op_NextAttemptAt (eo (snd (record_failure (sample_env ''wrap'') DeadlineExceeded
      ((sample_state sample_row)\<lparr>eo := sample_row\<lparr>op_Attempts := 3\<rparr>\<rparr>)))) = 1000 * second + 6 * second"
  using record_failure_schedule [of "(sample_state sample_row)\<lparr>eo := sample_row\<lparr>op_Attempts := 3\<rparr>\<rparr>" "sample_env ''wrap''" DeadlineExceeded]
  by (simp add: Let_def sample_state_def sample_env_def)

section \<open>Spending\<close>

text \<open>A refill raises the authorization and never past the limit. When the engine decides to refill,
  the cap it asks for is strictly above the current one, at most one funding increment above it,
  and within the operation's limit, so a stream can be refilled only finitely often.\<close>

theorem begin_refill_bounds:
  assumes "refill_needed E sess s st" and "0 < LiveTopupFundSecs (cfg E)" and "- (2 ^ 63) \<le> s_CurrentCap s"
    and "s_CurrentCap s + LiveTopupFundSecs (cfg E) < 2 ^ 63"
  shows "s_CurrentCap s < s_RefillCap (begin_refill E i s) \<and>
    s_RefillCap (begin_refill E i s) \<le> s_CurrentCap s + LiveTopupFundSecs (cfg E) \<and>
    s_RefillCap (begin_refill E i s) \<le> s_LimitUnits s \<and>
    s_LimitUnits s - s_RefillCap (begin_refill E i s) < s_LimitUnits s - s_CurrentCap s"
proof -
  have "wrap64 (s_CurrentCap s + LiveTopupFundSecs (cfg E)) = s_CurrentCap s + LiveTopupFundSecs (cfg E)"
    using assms by (simp add: int64_range_def)
  with assms show ?thesis by (auto simp: begin_refill_def refill_needed_def min_def)
qed

definition sample_broker :: brokerSession where
  "sample_broker = \<lparr>b_SessionID = ''s'', b_Credential = ''c'', b_WorkID = ''w'', b_State = ''active'', b_Schema = ''rtmp-hls/v1'',
     b_RTMPURL = '''', b_HLSURL = '''', b_KeyIssueURL = '''', b_Grants = [], b_BalanceStatus = '''', b_RunwaySeconds = 10,
     b_ClaimedUnits = 0, b_Remaining = 0, b_WillRefuse = False, b_UsageUnit = ''output_seconds'', b_ClaimedTotal = 590,
     b_LeaseExpiresAt = '''', b_OutputState = '''', b_LastFailureCode = '''', b_CloseReason = ''''\<rparr>"

theorem begin_refill_bounds_witness:
  "s_CurrentCap sample_secrets < s_RefillCap (begin_refill (sample_env ''wrap'') ''refill'' sample_secrets) \<and>
   s_RefillCap (begin_refill (sample_env ''wrap'') ''refill'' sample_secrets) \<le> 3600"
proof -
  let ?sess = "\<lparr>sess_SessionID = ''s'', sess_RequestID = ''r'', sess_WorkID = ''w'', sess_BrokerURL = ''b'', sess_Protocol = ''p'',
     sess_DescriptorSchema = ''d'', sess_Refill = ''extensible'', sess_SpendAuthorization = ''a'', sess_AccountingMode = ''m'',
     sess_ExpectedValueWei = None, sess_FundedValueWei = None\<rparr>"
  have "refill_needed (sample_env ''wrap'') ?sess sample_secrets sample_broker"
    by (simp add: refill_needed_def sample_broker_def sample_defs)
  then show ?thesis
    using begin_refill_bounds [of "sample_env ''wrap''" ?sess sample_secrets sample_broker "''refill''"]
    by (simp add: sample_defs)
qed

section \<open>Terminal view\<close>

text \<open>What the terminal view takes from the evidence.\<close>

definition terminal_reason :: "operationSecrets \<Rightarrow> string" where
  "terminal_reason s = (case s_Claim s of None \<Rightarrow> s_EndReason s
     | Some c \<Rightarrow> if tc_CloseReason c = '''' then s_EndReason s else tc_CloseReason c)"

definition terminal_output :: "operationSecrets \<Rightarrow> string \<Rightarrow> string" where
  "terminal_output s w = (case s_Claim s of None \<Rightarrow> w | Some c \<Rightarrow> if tc_OutputState c = '''' then w else tc_OutputState c)"

definition terminal_code :: "operationSecrets \<Rightarrow> string \<Rightarrow> string" where
  "terminal_code s w = (case s_Claim s of None \<Rightarrow> w | Some c \<Rightarrow> if tc_FailureCode c \<noteq> '''' \<or>
     (w \<noteq> ''stream_key_grant_expired'' \<and> w \<noteq> ''refill_refused'') then tc_FailureCode c else w)"

definition terminal_status :: "operationSecrets \<Rightarrow> string \<Rightarrow> string \<Rightarrow> string" where
  "terminal_status s out code = (if terminal_reason s \<in> set failed_reasons \<or> code \<noteq> '''' \<or> out = ''stalled''
     then ''failed'' else ''ended'')"

lemma claim_view:
  "claim_overrides c (v\<lparr>v_ActualUnits := u, v_Status := st, v_CloseReason := r\<rparr>) = v\<lparr>v_ActualUnits := u, v_Status := st,
     v_CloseReason := (if tc_CloseReason c = '''' then r else tc_CloseReason c),
     v_OutputState := (if tc_OutputState c = '''' then v_OutputState v else tc_OutputState c),
     v_FailureCode := (if tc_FailureCode c \<noteq> '''' \<or>
      (v_FailureCode v \<noteq> ''stream_key_grant_expired'' \<and> v_FailureCode v \<noteq> ''refill_refused'') then tc_FailureCode c else v_FailureCode v)\<rparr>"
  unfolding claim_overrides_def Let_def
  by (cases "tc_CloseReason c = ''''"; cases "tc_OutputState c = ''''"; cases "tc_FailureCode c = ''''") simp_all

lemma terminal_view_fields:
  "applyLiveTerminalView s units v = v\<lparr>v_ActualUnits := Some units,
     v_Status := terminal_status s (terminal_output s (v_OutputState v)) (terminal_code s (v_FailureCode v)),
     v_CloseReason := terminal_reason s, v_OutputState := terminal_output s (v_OutputState v),
     v_FailureCode := terminal_code s (v_FailureCode v)\<rparr>"
proof (cases "s_Claim s")
  case None
  then show ?thesis
    by (simp add: applyLiveTerminalView_def Let_def terminal_reason_def terminal_output_def terminal_code_def terminal_status_def)
next
  case (Some c)
  define w where "w = claim_overrides c (v\<lparr>v_ActualUnits := Some units, v_Status := ''ended'', v_CloseReason := s_EndReason s\<rparr>)"
  have w: "w = v\<lparr>v_ActualUnits := Some units, v_Status := ''ended'', v_CloseReason := terminal_reason s,
      v_OutputState := terminal_output s (v_OutputState v), v_FailureCode := terminal_code s (v_FailureCode v)\<rparr>"
    unfolding w_def claim_view by (simp add: Some terminal_reason_def terminal_output_def terminal_code_def)
  have "applyLiveTerminalView s units v = (let w3 = (if v_CloseReason w \<in> set failed_reasons then w\<lparr>v_Status := ''failed''\<rparr> else w)
      in if v_FailureCode w3 \<noteq> '''' \<or> v_OutputState w3 = ''stalled'' then w3\<lparr>v_Status := ''failed''\<rparr> else w3)"
    by (simp add: applyLiveTerminalView_def Let_def Some w_def)
  then show ?thesis by (simp add: w Let_def terminal_status_def)
qed

lemma terminal_idem:
  "terminal_output s (terminal_output s w) = terminal_output s w" "terminal_code s (terminal_code s w) = terminal_code s w"
  by (auto simp: terminal_output_def terminal_code_def split: option.split)

text \<open>A terminated stream's view is settled by its evidence. Applying the terminal view records the
  units, yields ended or failed and nothing else, failed exactly on a failure reason, a failure
  code or a stalled output; a signed close reason outranks the local one; and applying it again, as
  recovery does, changes nothing.\<close>

theorem applyLiveTerminalView_settles:
  "let v' = applyLiveTerminalView s units v in
     v_ActualUnits v' = Some units \<and> v_Status v' \<in> {''ended'', ''failed''} \<and>
     (v_Status v' = ''failed'') = (v_CloseReason v' \<in> set failed_reasons \<or> v_FailureCode v' \<noteq> '''' \<or> v_OutputState v' = ''stalled'') \<and>
     v_CloseReason v' = (case s_Claim s of None \<Rightarrow> s_EndReason s | Some c \<Rightarrow> if tc_CloseReason c = '''' then s_EndReason s else tc_CloseReason c) \<and>
     applyLiveTerminalView s units v' = v'"
  by (simp add: terminal_view_fields Let_def terminal_idem terminal_reason_def [symmetric]) (simp add: terminal_status_def)

theorem applyLiveTerminalView_settles_witness:
  "v_Status (applyLiveTerminalView (sample_secrets\<lparr>s_EndReason := ''output_failed''\<rparr>) 42 sample_view) = ''failed'' \<and>
   v_ActualUnits (applyLiveTerminalView (sample_secrets\<lparr>s_EndReason := ''output_failed''\<rparr>) 42 sample_view) = Some 42"
proof -
  let ?v = "applyLiveTerminalView (sample_secrets\<lparr>s_EndReason := ''output_failed''\<rparr>) 42 sample_view"
  from applyLiveTerminalView_settles [of "sample_secrets\<lparr>s_EndReason := ''output_failed''\<rparr>" 42 sample_view]
  have p: "v_ActualUnits ?v = Some 42" "v_CloseReason ?v = ''output_failed''"
      "(v_Status ?v = ''failed'') = (v_CloseReason ?v \<in> set failed_reasons \<or> v_FailureCode ?v \<noteq> '''' \<or> v_OutputState ?v = ''stalled'')"
    by (simp_all add: Let_def) (simp_all add: sample_secrets_def)
  have "''output_failed'' \<in> set failed_reasons" by (simp add: failed_reasons_def)
  with p show ?thesis by simp
qed

section \<open>Stream keys\<close>

lemma triple_any: "triple P m (\<lambda>_ _. True) (\<lambda>_ _. True)"
  by (simp add: triple_def split: prod.split sum.split)

lemma issue_round_usable:
  "triple (\<lambda>_. True) (issue_round E b g) (\<lambda>ok x. ok \<longrightarrow> liveKeyUsable (es x) (clock E (tick x))) (\<lambda>_ _. True)"
proof -
  have last: "triple (\<lambda>_. True) (bindE (time_now E) (\<lambda>now. with_state (\<lambda>y. ret (liveKeyUsable (es y) now))))
      (\<lambda>ok x. ok \<longrightarrow> liveKeyUsable (es x) (clock E (tick x))) (\<lambda>_ _. True)"
    by (simp add: triple_def time_now_def eng_simps)
  show ?thesis
    unfolding issue_round_def
    by (rule triple_bind [OF triple_any], rule triple_bind [OF triple_any], rule triple_state, rule triple_pre [where P = "\<lambda>_. True"])
       (auto simp: Let_def intro!: triple_throw last split: option.split intro: triple_bind [OF triple_any])
qed

text \<open>C18: a successful issuance leaves a usable key. If issuing a stream key returns without error, the
  operation's upstream address is set, no issuance is pending, and by the clock at the moment of
  returning the key is valid for more than fifteen seconds; otherwise the call reports an error.\<close>

theorem issueLiveStreamKey_usable:
  "case issueLiveStreamKey E x of (Inl e, y) \<Rightarrow> True
   | (Inr _, y) \<Rightarrow> s_UpstreamURL (es y) \<noteq> '''' \<and> s_KeyIssueRequestID (es y) = '''' \<and>
       clock E (tick y) + 15 * second < s_UpstreamKeyExpiresAt (es y)"
proof -
  let ?Q = "\<lambda>(_ :: unit) x. liveKeyUsable (es x) (clock E (tick x))"
  have round: "triple (\<lambda>_. True) (bindE (issue_round E b g) (\<lambda>ok. if ok then ret () else k)) ?Q (\<lambda>_ _. True)"
    if "triple (\<lambda>_. True) k ?Q (\<lambda>_ _. True)" for b g k
    by (rule triple_bind [OF issue_round_usable], rule triple_if)
       (auto intro: triple_ret triple_pre [OF that])
  have expired: "triple (\<lambda>_. True) (grant_expired E) ?Q (\<lambda>_ _. True)"
    unfolding grant_expired_def by (intro triple_bind [OF triple_any] triple_throw) simp
  have "triple (\<lambda>_. True) (issueLiveStreamKey E) ?Q (\<lambda>_ _. True)"
    unfolding issueLiveStreamKey_def Let_def
    by (rule triple_state, rule triple_pre [where P = "\<lambda>_. True"])
       (auto intro!: triple_throw triple_bind [OF triple_any] round expired triple_if split: option.split)
  then show ?thesis
    by (simp add: triple_def liveKeyUsable_def split: prod.splits sum.splits)
qed

end
