(* ===== verification/Engine_Contracts.thy ===== *)
theory Engine_Contracts
  imports Paid_Sample
begin

text \<open>
  Contracts of the paid engine. A contract is a reflexive and transitive relation between the
  state before and after an effect. The locales below say which primitive effects a relation has
  to admit; their lemmas carry it through every function of the engine up to \<open>run_operation\<close>,
  once for all contracts. Dispatching an operation and finishing it are separate layers, because
  the interesting contracts treat exactly these two specially.
\<close>

section \<open>What the engine may do to its working copies\<close>

text \<open>Updates of the operation row that do not finish it: identity columns and ciphertext stay,
  the stop flag is only ever raised.\<close>

definition o_frame :: "(operation \<Rightarrow> operation) \<Rightarrow> bool" where
  "o_frame f \<longleftrightarrow> (\<forall>r. op_row_le r (f r) \<and> op_Secrets (f r) = op_Secrets r \<and>
     (op_FinishedAt (f r) = op_FinishedAt r \<or> op_FinishedAt (f r) = None))"

text \<open>Updates that may set the finish time as well.\<close>

definition o_finish :: "(operation \<Rightarrow> operation) \<Rightarrow> bool" where
  "o_finish f \<longleftrightarrow> (\<forall>r. op_row_le r (f r) \<and> op_Secrets (f r) = op_Secrets r)"

text \<open>The part of the secrets that defines the customer's request and its spending limit.\<close>

definition request_part :: "operationSecrets \<Rightarrow> string \<times> string \<times> json \<times> string \<times> int \<times> int \<times> string" where
  "request_part s = (s_Capability s, s_Offering s, s_Params s, s_CallerPublicKey s,
     s_EstimatedUnits s, s_LimitUnits s, s_CustomerKey s)"

definition caps_ok :: "operationSecrets \<Rightarrow> bool" where
  "caps_ok s \<longleftrightarrow> s_CurrentCap s \<le> s_LimitUnits s \<and> s_RefillCap s \<le> s_LimitUnits s \<and> 0 \<le> s_LimitUnits s"

definition s_dispatch_frame :: "(operationSecrets \<Rightarrow> operationSecrets) \<Rightarrow> bool" where
  "s_dispatch_frame f \<longleftrightarrow> (\<forall>s. request_part (f s) = request_part s \<and> (caps_ok s \<longrightarrow> caps_ok (f s)))"

definition s_frame :: "(operationSecrets \<Rightarrow> operationSecrets) \<Rightarrow> bool" where
  "s_frame f \<longleftrightarrow> s_dispatch_frame f \<and> (\<forall>s. s_DispatchAttempted (f s) = s_DispatchAttempted s)"

lemmas frame_defs = o_frame_def o_finish_def s_frame_def s_dispatch_frame_def op_row_le_def
  request_part_def caps_ok_def clearPendingLiveRefill_def adopt_refill_def begin_refill_def

text \<open>Calls that ask a broker to start work.\<close>

fun dispatch_call :: "upstream_call \<Rightarrow> bool" where
  "dispatch_call (CallSubmitJob _ _ _) = True"
| "dispatch_call (CallOpenSession _ _ _) = True"
| "dispatch_call _ = False"

text \<open>The ledger statements the engine issues.\<close>

inductive ledger_op :: "(reservations \<Rightarrow> reservations) \<Rightarrow> bool" where
  op_commit: "ledger_op (Commit t rid i)"
| op_refund: "ledger_op (Refund t rid code msg)"
| op_settled: "ledger_op (MarkSettled t rid billed st)"
| op_loc_job: "ledger_op (SetLOCJob w j wid funded expected)"
| op_webhook: "ledger_op (RecordRunnerWebhook w u)"

lemma arrive_simps [simp]:
  "eo (arrive E t x) = eo x" "es (arrive E t x) = es x" "ev (arrive E t x) = ev x"
  "calls (arrive E t x) = calls x" "tick (arrive E t x) = Suc t"
  "lastSaved (arrive E t x) = lastSaved x"
  "edb (arrive E t x) = fold (RequestStop (clock E t)) (stops E t) (edb x)"
  by (simp_all add: arrive_def)

section \<open>Primitive contracts\<close>

locale engine_prims = step_contract R for R :: "estate \<Rightarrow> estate \<Rightarrow> bool" +
  fixes E :: env
  assumes R_o: "o_frame f \<Longrightarrow> R x (x\<lparr>eo := f (eo x)\<rparr>)"
    and R_s: "s_frame g \<Longrightarrow> R x (x\<lparr>es := g (es x)\<rparr>)"
    and R_v: "R x (x\<lparr>ev := v\<rparr>)"
    and R_local: "R x (x\<lparr>woken := w\<rparr>)" "R x (x\<lparr>closed := c\<rparr>)" "R x (x\<lparr>lastSaved := ls\<rparr>)"
    and R_arrive: "R x (arrive E (tick x) x)"
    and R_log: "\<not> dispatch_call k \<Longrightarrow> R x (x\<lparr>calls := (k, OpGet (op_ID (eo x)) (edb x)) # calls x\<rparr>)"
    and R_res: "ledger_op h \<Longrightarrow> R x (x\<lparr>edb := (edb x)\<lparr>db_reservations := h (db_reservations (edb x))\<rparr>\<rparr>)"
    and R_live: "R x (x\<lparr>edb := (edb x)\<lparr>db_live := l\<rparr>\<rparr>)"
    and R_save: "R x (x\<lparr>edb := OpSave t (eo x) (edb x)\<rparr>)"
    and R_seal: "R x (x\<lparr>eo := (eo x)\<lparr>op_Secrets := BoxSeal (boxKey E) n (op_ID (eo x)) (es x),
                    op_PublicJSON := ev x\<rparr>\<rparr>)"
begin

lemma st_get: "steps R get_state"
  by (simp add: steps_def get_state_def R_refl)

lemma st_prod: "(\<And>a b. p = (a, b) \<Longrightarrow> steps R (f a b)) \<Longrightarrow> steps R (case p of (a, b) \<Rightarrow> f a b)"
  by (cases p) simp

lemma st_o: "o_frame f \<Longrightarrow> steps R (set_o f)"
  by (simp add: steps_def set_o_def modify_def R_o)

lemma st_s: "s_frame f \<Longrightarrow> steps R (set_s f)"
  by (simp add: steps_def set_s_def modify_def R_s)

lemma st_v: "steps R (set_v f)"
  by (simp add: steps_def set_v_def modify_def R_v)

lemma st_lift: "steps R (lift_result r)"
  by (cases r) (simp_all add: lift_result_def steps_ret steps_throw)

lemma st_interact: "(\<And>t. steps R (k t)) \<Longrightarrow> steps R (interact E k)"
  unfolding steps_def interact_def by (blast intro: R_trans R_arrive)

lemma st_log: "\<not> dispatch_call c \<Longrightarrow> steps R (log_call c)"
  by (simp add: steps_def log_call_def modify_def R_log)

lemma st_upcall: "\<not> dispatch_call c \<Longrightarrow> steps R (upcall E c a)"
  unfolding upcall_def by (intro st_interact steps_bind st_log st_lift)

lemma st_db_write:
  assumes "\<And>t x. R x (x\<lparr>edb := f t (edb x)\<rparr>)"
  shows "steps R (db_write E f)"
proof -
  have "steps R (db_apply (f t))" for t
    by (simp add: steps_def db_apply_def modify_def assms)
  then show ?thesis
    unfolding db_write_def
    by (intro st_interact) (auto split: option.split db_fault.split intro: steps_bind steps_throw)
qed

lemma st_res_write: "(\<And>t. ledger_op (f t)) \<Longrightarrow> steps R (res_write E f)"
  unfolding res_write_def by (intro st_db_write) (simp add: R_res)

lemma st_live_write: "steps R (live_write E f)"
  unfolding live_write_def by (intro st_db_write) (simp add: R_live)

lemma st_db_read: "steps R (db_read E g)"
  unfolding db_read_def
  by (intro st_interact) (auto split: option.split db_fault.split intro: steps_bind steps_throw st_get steps_ret)

lemma st_time: "steps R (time_now E)"
  unfolding time_now_def by (intro steps_bind st_get steps_ret)

lemma st_wait: "steps R (wait_timer E d)"
  unfolding wait_timer_def by (intro st_interact) (auto split: option.split intro: steps_throw steps_ret)

lemma st_wake: "steps R Wake"
  by (simp add: steps_def Wake_def modify_def R_local)

lemma st_close: "steps R (CloseRTMP E)"
  by (simp add: steps_def CloseRTMP_def modify_def ret_def R_local R_refl)

lemma st_last: "steps R (modify (\<lambda>y. y\<lparr>lastSaved := n\<rparr>))"
  by (simp add: steps_def modify_def R_local)

lemma R_save_after:
  "R x ((arrive E (tick x) x)\<lparr>edb := OpSave t (eo x) (edb (arrive E (tick x) x))\<rparr>)"
  using R_trans [OF R_arrive R_save [of "arrive E (tick x) x" t]] by (simp del: arrive_simps(7))

lemma st_lock_save: "steps R (lock_save E)"
  unfolding lock_save_def db_write_def
  by (auto simp: steps_def eng_simps interact_def db_apply_def R_save_after R_arrive
      simp del: arrive_simps(7) split: option.split db_fault.split)

lemma st_seal: "steps R (seal E)"
  unfolding seal_def steps_def
  by (auto simp: eng_simps set_o_def R_refl R_seal split: option.split)

lemma st_save: "steps R (save E)"
  unfolding save_def by (intro steps_bind st_seal st_lock_save)

lemma st_lock_get: "steps R (lock_get E)"
  unfolding lock_get_def by (intro steps_bind st_get st_db_read)

lemma st_lock_current: "steps R (lock_current E)"
  unfolding lock_current_def by (intro steps_bind st_lock_get steps_option steps_ret steps_throw)

lemma st_auth: "steps R (auth E r a w)"
  unfolding auth_def by (intro steps_bind st_get steps_sum steps_ret steps_throw)

lemma st_retry: "steps R call \<Longrightarrow> steps R (doJSONRetry call (wait_timer E) b n)"
  by (induction n arbitrary: b)
     (simp_all, intro steps_bind steps_attempt steps_sum steps_if steps_throw steps_ret st_wait)

lemmas st_basic = st_o st_s st_v st_lift st_upcall st_res_write st_live_write st_db_read st_time st_wait
  st_wake st_close st_last st_save st_lock_get st_lock_current st_auth st_retry
  steps_ret steps_throw steps_attempt steps_if steps_when steps_sum steps_option st_prod st_get steps_bind

subsection \<open>Pointer accesses and client calls\<close>

lemma st_pointers:
  "steps R the_job" "steps R the_claim" "steps R the_session" "steps R the_prep" "steps R the_broker"
  "steps R the_refill" "steps R the_live_id"
  unfolding the_job_def the_claim_def the_session_def the_prep_def the_broker_def the_refill_def the_live_id_def
  by (intro st_basic)+

lemma st_clients:
  "(\<And>i. steps R (p1 i)) \<Longrightarrow> steps R (CreateJobV2 p1 i1)"
  "(\<And>i. steps R (p2 i)) \<Longrightarrow> steps R (SettleJobV2 p2 (wait_timer E) i2)"
  "(\<And>i. steps R (p3 i)) \<Longrightarrow> steps R (PrepareSessionV2 p3 i3)"
  "(\<And>i. steps R (p4 i)) \<Longrightarrow> steps R (LocOpenSessionV2 p4 i4)"
  "(\<And>i. steps R (p5 i)) \<Longrightarrow> steps R (RefillSessionV2 p5 i5)"
  "(\<And>i. steps R (p6 i)) \<Longrightarrow> steps R (CloseSessionV2 p6 (wait_timer E) i6)"
  "steps R m7 \<Longrightarrow> steps R (StatusSessionV2 C sid cred m7)"
  "steps R m8 \<Longrightarrow> steps R (TopUpSessionV2 C sid cred a m8)"
  "steps R m9 \<Longrightarrow> steps R (EndSessionV2 C sid cred m9)"
  "steps R m10 \<Longrightarrow> steps R (BrokerOpenSessionV2 C a m10)"
  unfolding CreateJobV2_def SettleJobV2_def PrepareSessionV2_def LocOpenSessionV2_def RefillSessionV2_def
    CloseSessionV2_def StatusSessionV2_def TopUpSessionV2_def EndSessionV2_def BrokerOpenSessionV2_def issueV2_def
  by (intro st_basic | assumption)+

lemma st_lookup_job: "steps R (lookup_job E j jid)"
  unfolding lookup_job_def by (intro st_basic) simp_all

lemma st_sse_dispatch: "(\<And>e. steps R (cb e)) \<Longrightarrow> steps R (sse_dispatch cb w data)"
  unfolding sse_dispatch_def by (intro st_basic) simp_all

lemma st_sse_loop: "(\<And>e. steps R (cb e)) \<Longrightarrow> steps R (readSSE_loop cb err ls w data)"
  by (induction ls arbitrary: w data)
     (auto intro!: st_sse_dispatch steps_bind steps_ret steps_throw split: option.split prod.split)

lemma st_readSSE: "(\<And>e. steps R (cb e)) \<Longrightarrow> steps R (readSSE cb ls err)"
  by (rule readSSE_cases; rule st_sse_loop)

lemma st_on_event: "steps R (abr_on_event E e)"
  unfolding abr_on_event_def by (intro st_basic)

lemma st_mark_settled: "steps R (mark_settled E billed)"
  unfolding mark_settled_def by (intro st_basic ledger_op.intros)

lemma st_checked: "steps R (live_write_checked E f)"
  unfolding live_write_checked_def db_apply_def
  by (intro st_interact)
     (auto simp: steps_def eng_simps R_refl R_live split: option.split db_fault.split)

lemma st_project: "steps R (projectLive E)"
  unfolding projectLive_def by (intro st_basic st_pointers st_checked ledger_op.intros)

lemma st_observe_end: "steps R (observeLiveEnd E)"
  unfolding observeLiveEnd_def by (intro st_basic st_project) (simp add: frame_defs)

lemmas st_parts = st_pointers st_clients st_lookup_job st_readSSE st_on_event st_mark_settled st_checked
  st_project st_observe_end ledger_op.intros

subsection \<open>Stream keys\<close>

lemma st_issue_key: "steps R (issueLiveStreamKey E)"
proof -
  have a: "steps R (key_request_id E)"
    unfolding key_request_id_def by (intro st_basic) (simp add: frame_defs)
  have b: "steps R (issue_runtime_key E b g)" for b g
    unfolding issue_runtime_key_def Let_def by (intro st_basic) simp
  have c: "steps R (issue_round E b g)" for b g
    unfolding issue_round_def Let_def by (intro a b st_basic) (simp add: frame_defs)
  have d: "steps R (grant_expired E)"
    unfolding grant_expired_def by (intro st_basic) (simp_all add: frame_defs)
  show ?thesis
    unfolding issueLiveStreamKey_def Let_def by (intro c d st_basic)
qed

lemma st_lookup_claim: "steps R (lookupLiveClaim E)"
  unfolding lookupLiveClaim_def Let_def by (intro st_basic st_parts) simp

lemma st_end_broker: "steps R (end_broker_session E)"
  unfolding end_broker_session_def by (intro st_basic st_parts) simp

lemma st_observe_stop: "steps R (observe_stop E f)"
  unfolding observe_stop_def by (intro st_basic st_parts)

lemma st_reread: "steps R (reread_stop E)"
  unfolding reread_stop_def by (intro st_basic) (simp add: frame_defs)

lemma st_publish: "steps R (live_publish E)"
  unfolding live_publish_def by (intro st_basic st_issue_key st_parts) (simp add: frame_defs)

lemma st_link: "steps R (abr_link E)"
  unfolding abr_link_def by (intro st_basic st_parts)

lemma st_settle_loc: "steps R (abr_settle_loc E j c)"
  unfolding abr_settle_loc_eq by (intro st_basic st_parts) simp_all

lemma st_failure: "steps R (record_failure E e)"
  unfolding record_failure_def by (intro st_basic) (simp add: frame_defs)

lemma st_key_unavailable: "steps R (key_unavailable E e)"
  unfolding key_unavailable_def by (intro st_basic st_lock_save) (simp add: frame_defs)

end

section \<open>Contracts that admit finishing\<close>

text \<open>The three functions that finish an operation from the inside of a live run or an
  issuance.\<close>

locale engine_finish = engine_prims +
  assumes R_issuance: "steps R (issuanceFailure E e :: unit eng)"
    and R_finalize: "steps R (finalizeLiveProjection E units closedAt)"
    and R_cancel: "steps R (live_cancel E)"
begin

lemma st_recover: "steps R (recoverClosedLive E)"
  unfolding recoverClosedLive_eq
  by (intro R_finalize st_basic st_parts) (simp_all add: frame_defs)

lemma st_or_recovered: "steps R k \<Longrightarrow> steps R (or_recovered E k)"
  unfolding or_recovered_def by (intro st_recover st_basic)

lemma st_finish: "steps R (finishLive E)"
  unfolding finishLive_def
  by (intro R_finalize st_or_recovered st_basic st_parts) (simp_all add: frame_defs)

lemma st_end: "steps R (endLive E)"
  unfolding endLive_def
  by (intro st_finish st_or_recovered st_lookup_claim st_end_broker st_basic) (simp_all add: frame_defs)

lemma st_refill: "steps R (refillLive E)"
proof -
  have a: "steps R (refill_request E)"
    unfolding refill_request_def
    by (intro st_end st_or_recovered st_basic st_parts) (simp_all add: frame_defs)
  have b: "steps R (refill_failed E e)" for e
    unfolding refill_failed_def
    by (intro st_end st_finish st_or_recovered st_lookup_claim st_basic) (simp_all add: frame_defs)
  have c: "steps R (refill_deliver E)"
    unfolding refill_deliver_def by (intro b st_basic st_parts) (simp_all add: frame_defs)
  show ?thesis unfolding refillLive_def by (intro a c st_basic)
qed

lemma st_stop_unopened: "steps R (stopUnopenedLive E)"
proof -
  have "steps R (stop_outcome E out)" for out
    unfolding stop_outcome_def
    by (intro st_finish st_observe_stop st_lookup_claim st_basic) (simp add: frame_defs)
  then show ?thesis
    unfolding stopUnopenedLive_def
    by (intro st_recover st_observe_stop st_basic st_parts) (simp_all add: frame_defs)
qed

lemma st_prepare: "steps R (live_prepare E)"
  unfolding live_prepare_def by (intro R_issuance st_basic st_parts) (simp_all add: frame_defs)

lemma st_authorize: "steps R (live_authorize E)"
  unfolding live_authorize_def by (intro R_issuance st_basic st_parts) (simp_all add: frame_defs)

lemma st_open_failed: "steps R (open_failed E e)"
  unfolding open_failed_def
  by (intro st_finish st_or_recovered st_basic st_parts) (simp_all add: frame_defs)

lemma st_control: "steps R (live_control E)"
proof -
  have a: "steps R (live_stop_check E)"
    unfolding live_stop_check_def by (intro st_reread st_basic) (simp add: frame_defs)
  have b: "steps R (live_pending_refill E)"
    unfolding live_pending_refill_def by (intro st_refill st_basic)
  have c: "steps R (live_reconcile E sess st)" for sess st
    unfolding live_reconcile_def by (intro st_refill st_basic st_parts) (simp_all add: frame_defs)
  have d: "steps R (live_observe E sess st)" for sess st
    unfolding live_observe_def by (intro c st_end st_basic st_parts) (simp_all add: frame_defs)
  have e: "steps R (live_monitor E)"
    unfolding live_monitor_def by (intro d st_or_recovered st_basic st_parts) simp_all
  show ?thesis
    unfolding live_control_def by (intro a b e st_end st_publish st_basic)
qed

lemma st_abr_authorize: "steps R (abr_authorize E)"
  unfolding abr_authorize_def by (intro R_issuance st_basic st_parts) (simp_all add: frame_defs)

end


section \<open>Contracts that admit dispatching\<close>

locale engine_drive = engine_finish +
  assumes R_abr_dispatch: "steps R (abr_dispatch E)"
    and R_live_dispatch: "steps R (live_dispatch E)"
begin

lemma st_open_session: "steps R (live_open_session E)"
  unfolding live_open_session_def by (intro R_live_dispatch st_reread st_stop_unopened st_basic)

lemma st_run_live: "steps R (runLive E)"
  unfolding runLive_def
  by (intro R_cancel st_open_session st_prepare st_authorize st_finish st_control st_basic)

lemma st_reject_guard: "steps R abr_reject_guard"
  unfolding abr_reject_guard_def by (intro st_basic)

end

text \<open>A contract that does not single out dispatch calls.\<close>

locale engine_dispatch = engine_finish +
  assumes R_sd: "s_dispatch_frame g \<Longrightarrow> R x (x\<lparr>es := g (es x)\<rparr>)"
    and R_logd: "R x (x\<lparr>calls := (k, OpGet (op_ID (eo x)) (edb x)) # calls x\<rparr>)"
begin

lemma st_sd: "s_dispatch_frame f \<Longrightarrow> steps R (set_s f)"
  by (simp add: steps_def set_s_def modify_def R_sd)

lemma st_upcall_any: "steps R (upcall E c a)"
  unfolding upcall_def log_call_def
  by (intro st_interact steps_bind st_lift) (simp add: steps_def modify_def R_logd)

lemma st_abr_dispatch: "steps R (abr_dispatch E)"
  unfolding abr_dispatch_def SubmitJobV2_def Let_def
  by (intro st_sd st_upcall_any st_basic st_parts) (simp_all add: frame_defs)

lemma st_live_dispatch: "steps R (live_dispatch E)"
  unfolding live_dispatch_def
  by (intro st_sd st_upcall_any st_open_failed st_basic st_parts) (simp_all add: frame_defs)

end

sublocale engine_dispatch \<subseteq> engine_drive
  by unfold_locales (rule st_abr_dispatch st_live_dispatch)+

section \<open>Whole runs\<close>

locale engine_run = engine_drive +
  assumes R_adopt: "steps R (abr_adopt_loc_final E j st)"
    and R_settle: "steps R (abr_settle E)"
begin

lemma st_run_abr: "steps R (runABR E)"
proof -
  have "steps R (abr_recover E)"
    unfolding abr_recover_eq by (intro R_adopt st_basic st_parts) (simp_all add: frame_defs)
  then show ?thesis
    unfolding runABR_def
    by (intro R_settle R_abr_dispatch st_reject_guard st_abr_authorize st_link st_basic)
qed

lemma st_run: "steps R (run_operation E)"
  unfolding run_operation_def
  by (intro st_run_abr st_run_live st_failure st_basic) (simp add: frame_defs)

end

text \<open>A contract that does not single out finishing.\<close>

locale engine_settle = engine_prims +
  assumes R_of: "o_finish f \<Longrightarrow> R x (x\<lparr>eo := f (eo x)\<rparr>)"
begin

lemma st_of: "o_finish f \<Longrightarrow> steps R (set_o f)"
  by (simp add: steps_def set_o_def modify_def R_of)

lemma st_issuance: "steps R (issuanceFailure E e :: unit eng)"
  unfolding issuanceFailure_def by (intro st_of st_basic st_parts) (simp_all add: frame_defs)

lemma st_finalize: "steps R (finalizeLiveProjection E units closedAt)"
  unfolding finalizeLiveProjection_def by (intro st_of st_basic st_parts) (simp_all add: frame_defs)

lemma st_cancel: "steps R (live_cancel E)"
  unfolding live_cancel_def by (intro st_of st_basic st_parts) (simp_all add: frame_defs)

lemma st_adopt: "steps R (abr_adopt_loc_final E j st)"
  unfolding abr_adopt_loc_final_eq by (intro st_of st_basic st_parts) (simp_all add: frame_defs)

lemma st_settle: "steps R (abr_settle E)"
  unfolding abr_settle_def by (intro st_of st_settle_loc st_basic st_parts) (simp_all add: frame_defs)

end

sublocale engine_settle \<subseteq> engine_finish
  by unfold_locales (rule st_issuance st_finalize st_cancel)+

text \<open>A contract that singles out neither finishing nor dispatching.\<close>

locale engine_free = engine_settle +
  assumes R_sdf: "s_dispatch_frame g \<Longrightarrow> R x (x\<lparr>es := g (es x)\<rparr>)"
    and R_logf: "R x (x\<lparr>calls := (k, OpGet (op_ID (eo x)) (edb x)) # calls x\<rparr>)"

sublocale engine_free \<subseteq> engine_dispatch
  by unfold_locales (erule R_sdf, rule R_logf)

sublocale engine_free \<subseteq> engine_run
  by unfold_locales (rule st_adopt st_settle)+

section \<open>Entering a run\<close>

text \<open>
  \<^verbatim>\<open>Process\<close> up to the decoded operation: nothing but stop requests happens before the row is
  read, and the run starts from the durable row and its decrypted secrets.
\<close>

definition arrivals :: "env \<Rightarrow> estate \<Rightarrow> nat \<Rightarrow> estate" where
  "arrivals E x n = ((\<lambda>y. arrive E (tick y) y) ^^ n) x"

lemma arrivals_simps [simp]:
  "eo (arrivals E x n) = eo x" "es (arrivals E x n) = es x" "ev (arrivals E x n) = ev x"
  "calls (arrivals E x n) = calls x" "tick (arrivals E x n) = tick x + n"
  "lastSaved (arrivals E x n) = lastSaved x"
  by (induction n) (simp_all add: arrivals_def)

lemma arrivals_Suc: "arrive E (tick x) x = arrivals E x 1" "arrive E (tick x + n) (arrivals E x n) = arrivals E x (Suc n)"
  using arrivals_simps(5) [of E x n] by (simp_all add: arrivals_def)

inductive process_outcome :: "env \<Rightarrow> uuid \<Rightarrow> estate \<Rightarrow> estate \<Rightarrow> bool" for E i x where
  idle: "process_outcome E i x (arrivals E x n)"
| unreadable: "OpGet i (edb (arrivals E x 3)) = Some r \<Longrightarrow> op_FinishedAt r = None \<Longrightarrow> decode E r = Inl e \<Longrightarrow>
    process_outcome E i x (snd (key_unavailable E e ((arrivals E x 3)\<lparr>eo := r\<rparr>)))"
| attempted: "OpGet i (edb (arrivals E x 3)) = Some r \<Longrightarrow> op_FinishedAt r = None \<Longrightarrow> decode E r = Inr (s, v) \<Longrightarrow>
    process_outcome E i x (snd (run_operation E ((arrivals E x 3)\<lparr>eo := r, es := s, ev := v\<rparr>)))"

inductive_cases process_outcomeE: "process_outcome E i x y"

lemma bindE_snd: "bindE m k x = (case fst (m x) of Inl e \<Rightarrow> (Inl e, snd (m x)) | Inr y \<Rightarrow> k y (snd (m x)))"
  by (cases "m x") (auto simp: bindE_def split: sum.split)

lemma wait_timer_arrives: "snd (wait_timer E d x) = arrive E (tick x) x"
  by (simp add: wait_timer_def interact_def eng_simps split: option.split)

lemma lock_op_arrives: "snd (lock_op E i x) = arrive E (tick x) x"
  by (simp add: lock_op_def interact_def eng_simps split: option.split db_fault.split)

lemma db_read_arrives: "snd (db_read E g x) = arrive E (tick x) x"
  by (simp add: db_read_def interact_def eng_simps split: option.split db_fault.split)

lemma db_read_result: "fst (db_read E g x) = Inr r \<Longrightarrow> r = g (edb (arrive E (tick x) x))"
  by (simp add: db_read_def interact_def eng_simps split: option.splits db_fault.splits)

lemma Process_outcome: "process_outcome E i x (snd (Process E i x))"
proof -
  let ?a = "arrivals E x"
  have s1: "snd (acquire_slot E x) = ?a 1"
    by (simp add: acquire_slot_def wait_timer_arrives arrivals_Suc)
  have s2: "snd (lock_op E i (?a 1)) = ?a 2"
    using arrivals_Suc(2) [of E x 1] by (simp add: lock_op_arrives numeral_2_eq_2)
  have s3: "snd (db_read E (OpGet i) (?a 2)) = ?a 3"
    using arrivals_Suc(2) [of E x 2] by (simp add: db_read_arrives numeral_3_eq_3)
  define row where "row r = (case r of None \<Rightarrow> ret () | Some o1 \<Rightarrow>
       if op_FinishedAt o1 \<noteq> None then ret ()
       else (case decode E o1 of
           Inl e \<Rightarrow> thenE (set_o (\<lambda>_. o1)) (key_unavailable E e)
         | Inr (s, v) \<Rightarrow> thenE (load_operation o1 s v) (run_operation E)))" for r
  have row: "process_outcome E i x (snd (row r (?a 3)))" if "r = OpGet i (edb (?a 3))" for r
    using that unfolding row_def
    by (auto simp: set_o_def load_operation_def eng_simps split: option.split sum.split
        intro: process_outcome.intros)
  have body: "process_outcome E i x (snd (bindE (lock_op E i) (\<lambda>locked. if \<not> locked then ret () else
      bindE (db_read E (OpGet i)) row) (?a 1)))"
    using row idle [of E i x 2] idle [of E i x 3] s2 s3 db_read_result [of E "OpGet i" "?a 2"] db_read_arrives [of E "OpGet i" "?a 2"]
    by (cases "fst (lock_op E i (?a 1))"; cases "fst (db_read E (OpGet i) (?a 2))") (auto simp: bindE_snd ret_def)
  show ?thesis
    unfolding Process_def row_def [symmetric]
    using body idle [of E i x 1] s1
    by (cases "fst (acquire_slot E x)") (simp_all add: bindE_snd)
qed
text \<open>Case analysis on what one call of \<^verbatim>\<open>Process\<close> did.\<close>

lemma Process_cases:
  assumes "\<And>n. P (arrivals E x n)"
    and "\<And>r e. OpGet i (edb (arrivals E x 3)) = Some r \<Longrightarrow> op_FinishedAt r = None \<Longrightarrow> decode E r = Inl e \<Longrightarrow>
      P (snd (key_unavailable E e ((arrivals E x 3)\<lparr>eo := r\<rparr>)))"
    and "\<And>r s v. OpGet i (edb (arrivals E x 3)) = Some r \<Longrightarrow> op_FinishedAt r = None \<Longrightarrow> decode E r = Inr (s, v) \<Longrightarrow>
      P (snd (run_operation E ((arrivals E x 3)\<lparr>eo := r, es := s, ev := v\<rparr>)))"
  shows "P (snd (Process E i x))"
  by (rule process_outcomeE [OF Process_outcome [of E i x]]) (auto simp: assms)

end
