(* ===== verification/Engine_Safety.thy ===== *)
theory Engine_Safety
  imports Engine_Contracts
begin

text \<open>
  Contracts of the engine as instances of the locales of Engine\_Contracts, and the properties of
  \<^verbatim>\<open>Process\<close> they give: the usage ledger only moves forward; only the processed operation's row is
  written; the journal stays decodable with the request and the spending limit it was created
  with; every dispatch is journaled first; a stop before dispatch prevents it; a finished
  operation has a resolved reservation.
\<close>

section \<open>Database facts\<close>

lemma fold_RequestStop_simps [simp]:
  "db_reservations (fold (RequestStop now) is d) = db_reservations d"
  "db_live (fold (RequestStop now) is d) = db_live d"
  by (induction "is" arbitrary: d) simp_all

text \<open>What a stop request may change of a row.\<close>

definition stopped_only :: "('s, 'v) PaidOperation \<Rightarrow> ('s, 'v) PaidOperation \<Rightarrow> bool" where
  "stopped_only r r' \<longleftrightarrow> r' = r\<lparr>op_StopRequested := op_StopRequested r',
     op_NextAttemptAt := op_NextAttemptAt r', op_UpdatedAt := op_UpdatedAt r'\<rparr> \<and>
     (op_StopRequested r \<longrightarrow> op_StopRequested r')"

text \<open>Rows of the journal while operation \<open>i\<close> is processed.\<close>

definition others_row :: "uuid \<Rightarrow> ('s, 'v) PaidOperation \<Rightarrow> ('s, 'v) PaidOperation \<Rightarrow> bool" where
  "others_row i r r' \<longleftrightarrow> op_row_le r r' \<and> (op_ID r \<noteq> i \<longrightarrow> stopped_only r r')"

definition others_kept :: "uuid \<Rightarrow> ('s, 'v) db \<Rightarrow> ('s, 'v) db \<Rightarrow> bool" where
  "others_kept i d d' \<longleftrightarrow> list_all2 (others_row i) (db_ops d) (db_ops d')"

lemma stopped_only_refl: "stopped_only r r"
  by (simp add: stopped_only_def)

lemma stopped_only_trans: "stopped_only a b \<Longrightarrow> stopped_only b c \<Longrightarrow> stopped_only a c"
  by (cases a; cases b; cases c) (simp add: stopped_only_def)

lemma stopped_only_stop: "stopped_only r (stop_row now r)"
  by (cases r) (simp add: stopped_only_def stop_row_def)

lemma stopped_only_fields:
  "stopped_only r r' \<Longrightarrow> op_ID r' = op_ID r \<and> op_Secrets r' = op_Secrets r \<and> op_PublicJSON r' = op_PublicJSON r \<and>
     op_FinishedAt r' = op_FinishedAt r \<and> op_ReservationID r' = op_ReservationID r \<and> op_State r' = op_State r \<and>
     op_Kind r' = op_Kind r \<and> op_LiveStreamID r' = op_LiveStreamID r"
  by (cases r; cases r') (simp add: stopped_only_def)

lemma others_row_refl: "others_row i r r"
  by (simp add: others_row_def op_row_le_refl stopped_only_refl)

lemma others_row_trans: "others_row i a b \<Longrightarrow> others_row i b c \<Longrightarrow> others_row i a c"
  unfolding others_row_def
  by (metis op_row_le_def op_row_le_trans stopped_only_trans)

lemma others_kept_refl: "others_kept i d d"
  by (simp add: others_kept_def list_all2_refl others_row_refl)

lemma others_kept_trans: "others_kept i a b \<Longrightarrow> others_kept i b c \<Longrightarrow> others_kept i a c"
  unfolding others_kept_def
  using list_all2_trans [of "others_row i" "others_row i" "others_row i"] others_row_trans by blast

lemma others_kept_update:
  "(\<And>r. p r \<Longrightarrow> others_row i r (f r)) \<Longrightarrow> list_all2 (others_row i) t (sql_update p f t)"
  by (induction t) (auto simp: others_row_refl)

lemma others_kept_stop: "others_kept i d (RequestStop now k d)"
proof -
  have "others_row i r (stop_row now r)" for r :: "('a, 'b) PaidOperation"
    using stopped_only_stop [of r now] by (simp add: others_row_def op_row_le_def) (simp add: stop_row_def)
  then show ?thesis by (simp add: others_kept_def RequestStop_def others_kept_update)
qed

lemma others_kept_stops: "others_kept i d (fold (RequestStop now) ks d)"
  by (induction ks arbitrary: d) (auto intro: others_kept_refl others_kept_stop others_kept_trans)

lemma others_kept_save: "op_ID r = i \<Longrightarrow> others_kept i d (OpSave now r d)"
  unfolding others_kept_def OpSave_def
  by (auto intro!: others_kept_update simp: others_row_def op_row_le_def save_row_def)

lemma others_kept_ops: "db_ops d' = db_ops d \<Longrightarrow> others_kept i d d'"
  by (simp add: others_kept_def list_all2_refl others_row_refl)

lemma others_kept_OpGet:
  assumes "others_kept i d d'" and "OpGet k d = Some r"
  shows "\<exists>r'. OpGet k d' = Some r' \<and> others_row i r r'"
  unfolding OpGet_def
  by (rule row_by_list_all2 [OF assms(1) [unfolded others_kept_def] _ assms(2) [unfolded OpGet_def]])
     (simp add: others_row_def op_row_le_def)

text \<open>Stop requests leave the ciphertext, the view and the finish time of a row alone.\<close>

lemma OpGet_stops:
  "OpGet k (fold (RequestStop now) is d) = None \<longleftrightarrow> OpGet k d = None"
  "OpGet k d = Some r \<Longrightarrow> \<exists>r'. OpGet k (fold (RequestStop now) is d) = Some r' \<and> stopped_only r r'"
proof -
  have "list_all2 stopped_only (db_ops d) (db_ops (fold (RequestStop now) is d))"
  proof (induction "is" arbitrary: d)
    case Nil
    then show ?case by (simp add: list_all2_refl stopped_only_refl)
  next
    case (Cons a as)
    have "list_all2 stopped_only (db_ops d) (db_ops (RequestStop now a d))"
      by (simp add: RequestStop_def sql_update_def list_all2_conv_all_nth stopped_only_refl stopped_only_stop)
    with Cons list_all2_trans [of stopped_only stopped_only stopped_only] stopped_only_trans
    show ?case by (fastforce simp del: db_simps)
  qed
  then have all: "list_all2 stopped_only (db_ops d) (db_ops (fold (RequestStop now) is d))" .
  have key: "stopped_only r r' \<Longrightarrow> op_ID r' = op_ID r" for r r' :: "('a, 'b) PaidOperation"
    by (cases r; cases r') (simp add: stopped_only_def)
  have "map op_ID (db_ops (fold (RequestStop now) is d)) = map op_ID (db_ops d)"
    using all by (induction rule: list_all2_induct) (simp_all add: key)
  then show "OpGet k (fold (RequestStop now) is d) = None \<longleftrightarrow> OpGet k d = None"
    by (metis OpGet_def row_by_None_iff set_map)
  show "OpGet k d = Some r \<Longrightarrow> \<exists>r'. OpGet k (fold (RequestStop now) is d) = Some r' \<and> stopped_only r r'"
    unfolding OpGet_def by (rule row_by_list_all2 [OF all key])
qed

section \<open>Ledger\<close>

definition ledger_step :: "estate \<Rightarrow> estate \<Rightarrow> bool" where
  "ledger_step x y \<longleftrightarrow> ledger_le (db_reservations (edb x)) (db_reservations (edb y))"

lemma ledger_op_le: "ledger_op f \<Longrightarrow> ledger_le t (f t)"
  by (induction rule: ledger_op.induct) auto

interpretation ledger: engine_free ledger_step E for E
  by unfold_locales
     (auto simp: ledger_step_def ledger_le_refl ledger_op_le intro: ledger_le_trans)

lemma arrivals_db [simp]:
  "db_reservations (edb (arrivals E x n)) = db_reservations (edb x)"
  "db_live (edb (arrivals E x n)) = db_live (edb x)"
  by (induction n) (simp_all add: arrivals_def)

lemma Process_ledger: "ledger_le (db_reservations (edb x)) (db_reservations (edb (snd (Process E i x))))"
proof (rule Process_cases)
  show "ledger_le (db_reservations (edb x)) (db_reservations (edb (arrivals E x n)))" for n
    by (simp add: ledger_le_refl)
  show "ledger_le (db_reservations (edb x)) (db_reservations (edb (snd (key_unavailable E e ((arrivals E x 3)\<lparr>eo := r\<rparr>)))))" for r e
    using stepsD [OF ledger.st_key_unavailable, where s = "(arrivals E x 3)\<lparr>eo := r\<rparr>"] by (simp add: ledger_step_def)
  show "ledger_le (db_reservations (edb x)) (db_reservations (edb (snd (run_operation E ((arrivals E x 3)\<lparr>eo := r, es := s, ev := v\<rparr>)))))" for r s v
    using stepsD [OF ledger.st_run, where s = "(arrivals E x 3)\<lparr>eo := r, es := s, ev := v\<rparr>"] by (simp add: ledger_step_def)
qed

section \<open>Only the processed row\<close>

definition row_step :: "uuid \<Rightarrow> estate \<Rightarrow> estate \<Rightarrow> bool" where
  "row_step i x y \<longleftrightarrow> (op_ID (eo x) = i \<longrightarrow> op_ID (eo y) = i \<and> others_kept i (edb x) (edb y))"

lemma o_frame_ID: "o_finish f \<Longrightarrow> op_ID (f r) = op_ID r" "o_frame f \<Longrightarrow> op_ID (f r) = op_ID r"
  by (simp_all add: o_finish_def o_frame_def op_row_le_def)

interpretation rows: engine_free "row_step i" E for i E
  by unfold_locales
     (auto simp: row_step_def o_frame_ID others_kept_refl others_kept_stops others_kept_ops others_kept_save
       intro: others_kept_trans)

lemma arrivals_others: "others_kept i (edb x) (edb (arrivals E x n))"
proof (induction n)
  case 0
  then show ?case by (simp add: arrivals_def others_kept_refl)
next
  case (Suc n)
  then show ?case
    by (simp add: arrivals_Suc(2) [symmetric]) (blast intro: others_kept_trans others_kept_stops)
qed

lemma OpGet_ID: "OpGet i d = Some r \<Longrightarrow> op_ID r = i"
  by (auto simp: OpGet_def dest: row_by_SomeD)

lemma Process_others: "others_kept i (edb x) (edb (snd (Process E i x)))"
proof (rule Process_cases)
  show "others_kept i (edb x) (edb (arrivals E x n))" for n
    by (rule arrivals_others)
next
  fix r e
  assume "OpGet i (edb (arrivals E x 3)) = Some r"
  then show "others_kept i (edb x) (edb (snd (key_unavailable E e ((arrivals E x 3)\<lparr>eo := r\<rparr>))))"
    using stepsD [OF rows.st_key_unavailable, where s = "(arrivals E x 3)\<lparr>eo := r\<rparr>"] arrivals_others [of i x E 3]
    by (auto simp: row_step_def OpGet_ID intro: others_kept_trans)
next
  fix r s v
  assume "OpGet i (edb (arrivals E x 3)) = Some r"
  then show "others_kept i (edb x) (edb (snd (run_operation E ((arrivals E x 3)\<lparr>eo := r, es := s, ev := v\<rparr>))))"
    using stepsD [OF rows.st_run, where s = "(arrivals E x 3)\<lparr>eo := r, es := s, ev := v\<rparr>"] arrivals_others [of i x E 3]
    by (auto simp: row_step_def OpGet_ID intro: others_kept_trans)
qed

section \<open>The journal stays decodable\<close>

definition sealed_ok :: "env \<Rightarrow> uuid \<Rightarrow> string \<times> string \<times> json \<times> string \<times> int \<times> int \<times> string \<Rightarrow> sealed \<Rightarrow> bool" where
  "sealed_ok E i rp c \<longleftrightarrow> (case BoxOpen (boxKey E) i c of
      None \<Rightarrow> False | Some s \<Rightarrow> request_part s = rp \<and> caps_ok s)"

definition journal_inv :: "env \<Rightarrow> uuid \<Rightarrow> string \<times> string \<times> json \<times> string \<times> int \<times> int \<times> string \<Rightarrow> estate \<Rightarrow> bool" where
  "journal_inv E i rp x \<longleftrightarrow> op_ID (eo x) = i \<and> request_part (es x) = rp \<and> caps_ok (es x) \<and>
     sealed_ok E i rp (op_Secrets (eo x)) \<and>
     (case OpGet i (edb x) of None \<Rightarrow> False | Some r \<Rightarrow> sealed_ok E i rp (op_Secrets r))"

definition journal_step :: "env \<Rightarrow> uuid \<Rightarrow> string \<times> string \<times> json \<times> string \<times> int \<times> int \<times> string \<Rightarrow>
    estate \<Rightarrow> estate \<Rightarrow> bool" where
  "journal_step E i rp x y \<longleftrightarrow> (journal_inv E i rp x \<longrightarrow> journal_inv E i rp y)"

lemma journal_inv_arrive: "journal_inv E i rp x \<Longrightarrow> journal_inv E i rp (arrive E t x)"
proof -
  assume inv: "journal_inv E i rp x"
  then obtain r where r: "OpGet i (edb x) = Some r" "sealed_ok E i rp (op_Secrets r)"
    by (auto simp: journal_inv_def split: option.splits)
  from OpGet_stops(2) [OF r(1), of "clock E t" "stops E t"] inv r(2) show ?thesis
    by (auto simp: journal_inv_def dest: stopped_only_fields)
qed

lemma journal_inv_save: "journal_inv E i rp x \<Longrightarrow> journal_inv E i rp (x\<lparr>edb := OpSave t (eo x) (edb x)\<rparr>)"
  by (auto simp: journal_inv_def OpGet_OpSave save_row_def split: option.splits)

lemma journal_inv_o: "o_finish f \<Longrightarrow> journal_inv E i rp x \<Longrightarrow> journal_inv E i rp (x\<lparr>eo := f (eo x)\<rparr>)"
  by (simp add: journal_inv_def o_frame_ID o_finish_def op_row_le_def)

lemma OpGet_ops: "OpGet i (d\<lparr>db_reservations := a\<rparr>) = OpGet i d" "OpGet i (d\<lparr>db_live := b\<rparr>) = OpGet i d"
  by (simp_all add: OpGet_def)

interpretation journal: engine_free "journal_step E i rp" E for E i rp
proof unfold_locales
  fix f x
  assume "o_frame f"
  then have "o_finish f" by (simp add: o_frame_def o_finish_def)
  then show "journal_step E i rp x (x\<lparr>eo := f (eo x)\<rparr>)"
    by (simp add: journal_step_def journal_inv_o)
qed (auto simp: journal_step_def journal_inv_arrive journal_inv_save journal_inv_o,
     auto simp: journal_inv_def OpGet_ops sealed_ok_def BoxSeal_def BoxOpen_def s_frame_def s_dispatch_frame_def)

section \<open>Row contents\<close>

definition row_content :: "operation \<Rightarrow> sealed \<times> operationView \<times> string \<times> int \<times> time option" where
  "row_content r = (op_Secrets r, op_PublicJSON r, op_State r, op_Attempts r, op_FinishedAt r)"

lemma stopped_only_content: "stopped_only r r' \<Longrightarrow> row_content r' = row_content r"
  by (cases r; cases r') (simp add: stopped_only_def row_content_def)

lemma arrivals_row:
  "OpGet i (edb x) = Some r \<Longrightarrow> \<exists>r'. OpGet i (edb (arrivals E x n)) = Some r' \<and> stopped_only r r'"
proof (induction n)
  case 0
  then show ?case by (simp add: arrivals_def stopped_only_refl)
next
  case (Suc n)
  then obtain r' where "OpGet i (edb (arrivals E x n)) = Some r'" "stopped_only r r'" by blast
  with OpGet_stops(2) show ?case
    by (simp add: arrivals_Suc(2) [symmetric]) (blast intro: stopped_only_trans)
qed

lemma key_unavailable_effect:
  assumes "OpGet (op_ID (eo x)) (edb x) = Some r" and "row_content (eo x) = row_content r"
  shows "\<exists>r'. OpGet (op_ID (eo x)) (edb (snd (key_unavailable E e x))) = Some r' \<and> row_content r' = row_content r"
    and "calls (snd (key_unavailable E e x)) = calls x"
    and "db_reservations (edb (snd (key_unavailable E e x))) = db_reservations (edb x)"
    and "db_live (edb (snd (key_unavailable E e x))) = db_live (edb x)"
proof -
  note defs = key_unavailable_def time_now_def set_o_def lock_save_def db_write_def interact_def db_apply_def eng_simps
  obtain r1 where r1: "OpGet (op_ID (eo x)) (fold (RequestStop (clock E (tick x))) (stops E (tick x)) (edb x)) = Some r1"
      "stopped_only r r1"
    using OpGet_stops(2) [OF assms(1)] by blast
  show "\<exists>r'. OpGet (op_ID (eo x)) (edb (snd (key_unavailable E e x))) = Some r' \<and> row_content r' = row_content r"
    using r1 stopped_only_content [OF r1(2)] assms(2)
    by (auto simp: defs OpGet_OpSave split: option.split db_fault.split) (simp_all add: row_content_def save_row_def)
  show "calls (snd (key_unavailable E e x)) = calls x"
    "db_reservations (edb (snd (key_unavailable E e x))) = db_reservations (edb x)"
    "db_live (edb (snd (key_unavailable E e x))) = db_live (edb x)"
    by (simp_all add: defs split: option.split db_fault.split)
qed
lemma decode_content: "row_content r' = row_content r \<Longrightarrow> op_ID r' = op_ID r \<Longrightarrow> decode E r' = decode E r"
  by (simp add: decode_def row_content_def split: option.split)

definition only_bookkeeping :: "uuid \<Rightarrow> operation \<Rightarrow> estate \<Rightarrow> estate \<Rightarrow> bool" where
  "only_bookkeeping i r x y \<longleftrightarrow> calls y = calls x \<and> db_reservations (edb y) = db_reservations (edb x) \<and>
     db_live (edb y) = db_live (edb x) \<and> (\<exists>r'. OpGet i (edb y) = Some r' \<and> row_content r' = row_content r)"

text \<open>C17: losing a key costs nothing. When the journal of an unfinished operation cannot be opened with
  the configured wrapping key, or was written under another caller key, an attempt on it makes no
  upstream call, leaves ledger and streams alone and keeps ciphertext, view, state and attempt
  count of the row for the day the key is restored.\<close>

theorem Process_unreadable_preserves:
  assumes "OpGet i (edb x) = Some r" and "op_FinishedAt r = None" and "decode E r = Inl e"
  shows "only_bookkeeping i r x (snd (Process E i x))"
proof (rule Process_cases)
  show "only_bookkeeping i r x (arrivals E x n)" for n
    using arrivals_row [OF assms(1), of E n] by (auto simp: only_bookkeeping_def dest: stopped_only_content)
next
  fix q e'
  assume q: "OpGet i (edb (arrivals E x 3)) = Some q"
  have "row_content q = row_content r"
    using arrivals_row [OF assms(1), of E 3] q by (auto dest: stopped_only_content)
  with q show "only_bookkeeping i r x (snd (key_unavailable E e' ((arrivals E x 3)\<lparr>eo := q\<rparr>)))"
    using key_unavailable_effect [of "(arrivals E x 3)\<lparr>eo := q\<rparr>" q E e'] by (simp add: OpGet_ID only_bookkeeping_def)
next
  fix q s v
  assume q: "OpGet i (edb (arrivals E x 3)) = Some q" "decode E q = Inr (s, v)"
  obtain r' where "OpGet i (edb (arrivals E x 3)) = Some r'" "stopped_only r r'"
    using arrivals_row [OF assms(1)] by blast
  with q have "decode E q = decode E r"
    by (intro decode_content) (auto dest: stopped_only_content stopped_only_fields)
  with q assms(3) have False by simp
  then show "only_bookkeeping i r x (snd (run_operation E ((arrivals E x 3)\<lparr>eo := q, es := s, ev := v\<rparr>)))" ..
qed

theorem Process_unreadable_preserves_witness:
  "decode (sample_env ''other'') sample_row = Inl (Msg ''operation secrets cannot be decrypted; restore original wrapping key'') \<and>
   only_bookkeeping ''op'' sample_row (sample_state sample_row) (snd (Process (sample_env ''other'') ''op'' (sample_state sample_row)))"
proof -
  have d: "decode (sample_env ''other'') sample_row = Inl (Msg ''operation secrets cannot be decrypted; restore original wrapping key'')"
    by (simp add: decode_def BoxOpen_def BoxSeal_def sample_env_def)
  then show ?thesis
    using Process_unreadable_preserves [of "''op''" "sample_state sample_row" sample_row "sample_env ''other''"] by simp
qed

text \<open>A finished operation is final. An attempt on it makes no upstream call, changes neither
  ledger nor streams, and keeps the row.\<close>

theorem Process_finished_noop:
  assumes "OpGet i (edb x) = Some r" and "op_FinishedAt r \<noteq> None"
  shows "only_bookkeeping i r x (snd (Process E i x))"
proof (rule Process_cases)
  show "only_bookkeeping i r x (arrivals E x n)" for n
    using arrivals_row [OF assms(1), of E n] by (auto simp: only_bookkeeping_def dest: stopped_only_content)
qed (use arrivals_row [OF assms(1), of E 3] assms(2) in \<open>auto dest: stopped_only_fields\<close>)

theorem Process_finished_noop_witness:
  "op_FinishedAt (sample_row\<lparr>op_FinishedAt := Some 5\<rparr>) \<noteq> None \<and>
   only_bookkeeping ''op'' (sample_row\<lparr>op_FinishedAt := Some 5\<rparr>) (sample_state (sample_row\<lparr>op_FinishedAt := Some 5\<rparr>))
     (snd (Process (sample_env ''wrap'') ''op'' (sample_state (sample_row\<lparr>op_FinishedAt := Some 5\<rparr>))))"
  using Process_finished_noop [of "''op''" "sample_state (sample_row\<lparr>op_FinishedAt := Some 5\<rparr>)" "sample_row\<lparr>op_FinishedAt := Some 5\<rparr>"]
  by simp

lemma Process_sealed_ok:
  assumes "OpGet i (edb x) = Some r" and "BoxOpen (boxKey E) i (op_Secrets r) = Some s" and "caps_ok s"
  shows "\<exists>r'. OpGet i (edb (snd (Process E i x))) = Some r' \<and> sealed_ok E i (request_part s) (op_Secrets r')"
proof -
  let ?ok = "sealed_ok E i (request_part s)"
  have ok: "?ok (op_Secrets r)" using assms by (simp add: sealed_ok_def)
  have "case OpGet i (edb (snd (Process E i x))) of None \<Rightarrow> False | Some r' \<Rightarrow> ?ok (op_Secrets r')"
  proof (rule Process_cases)
    show "case OpGet i (edb (arrivals E x n)) of None \<Rightarrow> False | Some r' \<Rightarrow> ?ok (op_Secrets r')" for n
      using arrivals_row [OF assms(1), of E n] ok by (auto dest: stopped_only_fields)
  next
    fix q e
    assume q: "OpGet i (edb (arrivals E x 3)) = Some q"
    then have "?ok (op_Secrets q)" using arrivals_row [OF assms(1), of E 3] ok by (auto dest: stopped_only_fields)
    with key_unavailable_effect(1) [of "(arrivals E x 3)\<lparr>eo := q\<rparr>" q E e] q
    show "case OpGet i (edb (snd (key_unavailable E e ((arrivals E x 3)\<lparr>eo := q\<rparr>)))) of
        None \<Rightarrow> False | Some r' \<Rightarrow> ?ok (op_Secrets r')"
      by (auto simp: OpGet_ID row_content_def)
  next
    fix q t v
    assume q: "OpGet i (edb (arrivals E x 3)) = Some q" and d: "decode E q = Inr (t, v)"
    then have "?ok (op_Secrets q)" using arrivals_row [OF assms(1), of E 3] ok by (auto dest: stopped_only_fields)
    with q d have "journal_inv E i (request_part s) ((arrivals E x 3)\<lparr>eo := q, es := t, ev := v\<rparr>)"
      by (auto simp: journal_inv_def OpGet_ID sealed_ok_def decode_def split: option.splits if_splits)
    with stepsD [OF journal.st_run, where s = "(arrivals E x 3)\<lparr>eo := q, es := t, ev := v\<rparr>"]
    show "case OpGet i (edb (snd (run_operation E ((arrivals E x 3)\<lparr>eo := q, es := t, ev := v\<rparr>)))) of
        None \<Rightarrow> False | Some r' \<Rightarrow> ?ok (op_Secrets r')"
      by (auto simp: journal_step_def journal_inv_def)
  qed
  then show ?thesis by (auto split: option.splits)
qed

text \<open>C8: the journal stays recoverable. If the row of an operation opens under the wrapping key and its
  authorized cap and the cap of a pending refill are within the operation's non-negative limit
  (\<open>caps_ok\<close>), then after an attempt, however it ended, the row exists and opens under the same key;
  capability, offering, parameters, caller key, estimate, limit and customer stream key are those
  of the request, and both caps are still within the limit.\<close>

theorem Process_journal_recoverable:
  assumes "OpGet i (edb x) = Some r" and "BoxOpen (boxKey E) i (op_Secrets r) = Some s" and "caps_ok s"
  shows "\<exists>r' s'. OpGet i (edb (snd (Process E i x))) = Some r' \<and> BoxOpen (boxKey E) i (op_Secrets r') = Some s' \<and>
    request_part s' = request_part s \<and> s_CurrentCap s' \<le> s_LimitUnits s \<and> s_RefillCap s' \<le> s_LimitUnits s"
  using Process_sealed_ok [OF assms] by (auto simp: sealed_ok_def caps_ok_def request_part_def split: option.splits)

theorem Process_journal_recoverable_witness:
  "caps_ok sample_secrets \<and> (\<exists>r' s'. OpGet ''op'' (edb (snd (Process (sample_env ''wrap'') ''op'' (sample_state sample_row)))) = Some r' \<and>
     BoxOpen ''wrap'' ''op'' (op_Secrets r') = Some s' \<and> request_part s' = request_part sample_secrets \<and> s_CurrentCap s' \<le> 3600 \<and>
     s_RefillCap s' \<le> 3600)"
proof -
  have "caps_ok sample_secrets" "s_LimitUnits sample_secrets = 3600" "boxKey (sample_env ''wrap'') = ''wrap''"
    by (simp_all add: caps_ok_def sample_secrets_def sample_env_def)
  then show ?thesis
    using Process_journal_recoverable [of "''op''" "sample_state sample_row" sample_row "sample_env ''wrap''" sample_secrets]
    by (simp add: box.open_seal)
qed

text \<open>C7: the usage ledger only moves forward. Across an attempt no reservation is added, removed or
  renamed, one that was committed or refunded keeps its state, its resolution time and its
  committed units, and a billed amount is never erased.\<close>

theorem Process_ledger_forward:
  "ledger_le (db_reservations (edb x)) (db_reservations (edb (snd (Process E i x))))"
  by (rule Process_ledger)

text \<open>Attempts are isolated. An attempt on one operation changes of every other operation's row
  nothing but what a concurrent stop request changes; of its own row it keeps the identity
  columns, and a raised stop flag stays raised.\<close>

theorem Process_isolated: "others_kept i (edb x) (edb (snd (Process E i x)))"
  by (rule Process_others)

end
