(* ===== verification/Engine_Dispatch.thy ===== *)
theory Engine_Dispatch
  imports Engine_Safety
begin

text \<open>
  Dispatching. A call that asks a broker to start work is only made after the intent to make it
  was durably journaled, with the very authorization and body of the call; and an operation
  that was stopped before its first dispatch is never dispatched.
\<close>

section \<open>What the durable row holds at a call\<close>

definition row_secrets :: "env \<Rightarrow> operation option \<Rightarrow> operationSecrets option" where
  "row_secrets E row = Option.bind row (\<lambda>r. BoxOpen (boxKey E) (op_ID r) (op_Secrets r))"

definition job_call_matches :: "CreateJobResponseV2 \<Rightarrow> string \<Rightarrow> BrokerAuth \<Rightarrow> bool" where
  "job_call_matches j url a \<longleftrightarrow> url = job_BrokerURL j \<and> ba_RequestID a = job_RequestID j \<and>
     ba_Authorization a = job_SpendAuthorization j \<and> ba_WorkID a = job_WorkID j"

definition session_call_matches :: "CreateSessionResponseV2 \<Rightarrow> string \<Rightarrow> BrokerAuth \<Rightarrow> bool" where
  "session_call_matches c url a \<longleftrightarrow> url = sess_BrokerURL c \<and> ba_RequestID a = sess_RequestID c \<and>
     ba_Authorization a = sess_SpendAuthorization c \<and> ba_WorkID a = sess_WorkID c"

fun journaled :: "env \<Rightarrow> upstream_call \<times> operation option \<Rightarrow> bool" where
  "journaled E (CallSubmitJob url a body, row) = (case row_secrets E row of
      None \<Rightarrow> False
    | Some s \<Rightarrow> s_DispatchAttempted s \<and> body = s_Body s \<and>
        (case s_Job s of None \<Rightarrow> False | Some j \<Rightarrow> job_call_matches j url a))"
| "journaled E (CallOpenSession url a body, row) = (case row_secrets E row of
      None \<Rightarrow> False
    | Some s \<Rightarrow> s_DispatchAttempted s \<and> body = s_Body s \<and>
        (case s_Session s of None \<Rightarrow> False | Some c \<Rightarrow> session_call_matches c url a))"
| "journaled E _ = True"

definition row_exists :: "estate \<Rightarrow> bool" where
  "row_exists x \<longleftrightarrow> OpGet (op_ID (eo x)) (edb x) \<noteq> None"

definition calls_step :: "env \<Rightarrow> estate \<Rightarrow> estate \<Rightarrow> bool" where
  "calls_step E x y \<longleftrightarrow> (row_exists x \<longrightarrow> op_ID (eo y) = op_ID (eo x) \<and> row_exists y \<and>
     (\<exists>new. calls y = new @ calls x \<and> list_all (journaled E) new))"

lemma calls_stepI:
  assumes "op_ID (eo y) = op_ID (eo x)" and "row_exists x \<Longrightarrow> row_exists y"
    and "calls y = new @ calls x" and "row_exists x \<Longrightarrow> list_all (journaled E) new"
  shows "calls_step E x y"
  using assms by (auto simp: calls_step_def)

lemma row_exists_OpSave: "OpGet k d \<noteq> None \<Longrightarrow> OpGet k (OpSave t r d) \<noteq> None"
  by (auto simp: OpGet_OpSave)

interpretation calls: engine_settle "calls_step E" E for E
proof unfold_locales
  show "calls_step E x x" for x
    by (rule calls_stepI [where new = "[]"]) simp_all
  show "calls_step E x z" if "calls_step E x y" "calls_step E y z" for x y z
    using that unfolding calls_step_def by (smt (verit) append.assoc list_all_append)
  show "\<not> dispatch_call k \<Longrightarrow> calls_step E x (x\<lparr>calls := (k, OpGet (op_ID (eo x)) (edb x)) # calls x\<rparr>)" for k x
    by (rule calls_stepI [where new = "[(k, OpGet (op_ID (eo x)) (edb x))]"]) (cases k; simp add: row_exists_def)+
qed (rule calls_stepI [where new = "[]"],
     auto simp: row_exists_def o_frame_ID OpGet_stops(1) OpGet_ops row_exists_OpSave)+


section \<open>Saved secrets\<close>

text \<open>The durable row opens to the working secrets.\<close>

definition saved :: "env \<Rightarrow> estate \<Rightarrow> bool" where
  "saved E x \<longleftrightarrow> row_secrets E (OpGet (op_ID (eo x)) (edb x)) = Some (es x)"

lemma row_secrets_arrive:
  "row_secrets E (OpGet k (fold (RequestStop now) ks d)) = row_secrets E (OpGet k d)"
  using OpGet_stops(1) [of k now ks d] OpGet_stops(2) [of k d _ now ks]
  by (cases "OpGet k d") (auto simp: row_secrets_def dest: stopped_only_fields)

lemma save_ok:
  assumes "save E x = (Inr u, y)"
  shows "\<exists>n t. eo y = (eo x)\<lparr>op_Secrets := BoxSeal (boxKey E) n (op_ID (eo x)) (es x), op_PublicJSON := ev x\<rparr> \<and>
    es y = es x \<and> ev y = ev x \<and> calls y = calls x \<and> edb y = OpSave t (eo y) (edb (arrive E (tick x) x))"
  using assms unfolding save_def seal_def lock_save_def db_write_def
  by (auto simp: eng_simps interact_def db_apply_def set_o_def split: option.splits db_fault.splits)

lemma saved_after_save: "after (\<lambda>x. row_exists x \<and> es x = s) (save E) (\<lambda>_ x. saved E x \<and> es x = s \<and> row_exists x)"
proof -
  have "saved E y \<and> es y = es x \<and> row_exists y" if y: "save E x = (Inr u, y)" and x: "row_exists x" for x y u
  proof -
    obtain n t where nt: "eo y = (eo x)\<lparr>op_Secrets := BoxSeal (boxKey E) n (op_ID (eo x)) (es x), op_PublicJSON := ev x\<rparr>"
        "es y = es x" "edb y = OpSave t (eo y) (edb (arrive E (tick x) x))"
      using save_ok [OF y] by blast
    obtain r where r: "OpGet (op_ID (eo x)) (edb (arrive E (tick x) x)) = Some r"
      using x OpGet_stops(2) [of "op_ID (eo x)" "edb x"] by (fastforce simp: row_exists_def)
    then have "OpGet (op_ID (eo x)) (edb y) = Some (save_row t (eo y) r)"
      by (simp add: nt(3) OpGet_OpSave nt(1) del: arrive_simps)
    with nt OpGet_ID [OF r] show ?thesis
      by (simp add: saved_def row_exists_def row_secrets_def save_row_def box.open_seal)
  qed
  then show ?thesis
    by (fastforce simp: triple_def split: prod.split sum.split)
qed

lemma dispatch_logged:
  assumes "\<And>x. P x \<Longrightarrow> saved E x \<Longrightarrow> journaled E (c, OpGet (op_ID (eo x)) (edb x))"
    and "\<And>x t. P x \<Longrightarrow> P (arrive E t x)"
  shows "steps_from (\<lambda>x. saved E x \<and> P x) (calls_step E) (upcall E c a)"
proof -
  have "calls_step E x (snd (upcall E c a x))" if "saved E x" "P x" for x
  proof -
    let ?y = "arrive E (tick x) x"
    have "saved E ?y" using that(1) by (simp add: saved_def row_secrets_arrive)
    then have "journaled E (c, OpGet (op_ID (eo ?y)) (edb ?y))" using assms that(2) by blast
    moreover have "calls (snd (upcall E c a x)) = [(c, OpGet (op_ID (eo ?y)) (edb ?y))] @ calls x"
      "eo (snd (upcall E c a x)) = eo x" "edb (snd (upcall E c a x)) = edb ?y"
      by (simp_all add: upcall_def interact_def log_call_def lift_result_def eng_simps split: sum.split)
    ultimately show ?thesis
      by (intro calls_stepI [where new = "[(c, OpGet (op_ID (eo ?y)) (edb ?y))]"])
         (simp_all add: row_exists_def OpGet_stops(1))
  qed
  then show ?thesis by (simp add: steps_from_def)
qed

lemma after_auth: "after P (auth E r a w) (\<lambda>b x. P x \<and> ba_RequestID b = r \<and> ba_Authorization b = a \<and> ba_WorkID b = w)"
  by (auto simp: triple_def auth_def eng_simps split: sum.split)

lemma after_set:
  "(\<And>x. P x \<Longrightarrow> Q (x\<lparr>es := f (es x)\<rparr>)) \<Longrightarrow> after P (set_s f) (\<lambda>_. Q)"
  "(\<And>x. P x \<Longrightarrow> Q (x\<lparr>eo := g (eo x)\<rparr>)) \<Longrightarrow> after P (set_o g) (\<lambda>_. Q)"
  "(\<And>x. P x \<Longrightarrow> Q (x\<lparr>ev := h (ev x)\<rparr>)) \<Longrightarrow> after P (set_v h) (\<lambda>_. Q)"
  by (simp_all add: triple_def set_s_def set_o_def set_v_def modify_def)

lemma any_set_s: "steps (calls_step E) (set_s f)"
  by (auto simp: steps_def set_s_def modify_def row_exists_def intro!: calls_stepI [where new = "[]"])

section \<open>The two dispatching functions\<close>

lemma calls_from: "steps_from row_exists (calls_step E) m \<Longrightarrow> steps (calls_step E) m"
  by (auto simp: steps_def steps_from_def calls_step_def)

abbreviation working :: "operationSecrets \<Rightarrow> estate \<Rightarrow> bool" where
  "working s \<equiv> \<lambda>t. row_exists t \<and> es t = s"

lemma then_s: "steps_from (working (f s)) (calls_step E) k \<Longrightarrow> steps_from (working s) (calls_step E) (thenE (set_s f) k)"
  by (rule calls.from_bind [OF calls.from_steps [OF any_set_s]]) (auto intro!: after_set simp: row_exists_def)

lemma then_o: "o_frame f \<Longrightarrow> steps_from (working s) (calls_step E) k \<Longrightarrow>
    steps_from (working s) (calls_step E) (thenE (set_o f) k)"
  by (rule calls.from_bind [OF calls.from_steps [OF calls.st_o]]) (auto intro!: after_set simp: row_exists_def o_frame_ID)

lemma then_v: "steps_from (working s) (calls_step E) k \<Longrightarrow> steps_from (working s) (calls_step E) (thenE (set_v f) k)"
  by (rule calls.from_bind [OF calls.from_steps [OF calls.st_v]]) (auto intro!: after_set simp: row_exists_def)

lemma then_save: "steps_from (\<lambda>x. saved E x \<and> es x = s) (calls_step E) k \<Longrightarrow>
    steps_from (working s) (calls_step E) (thenE (save E) k)"
  by (rule calls.from_bind [OF calls.from_steps [OF calls.st_save] saved_after_save])
     (auto elim: calls.from_pre)

lemma then_last: "steps_from (\<lambda>x. saved E x \<and> es x = s) (calls_step E) k \<Longrightarrow>
    steps_from (\<lambda>x. saved E x \<and> es x = s) (calls_step E) (thenE (modify (\<lambda>y. y\<lparr>lastSaved := n\<rparr>)) k)"
  by (rule calls.from_bind [OF calls.from_steps [OF calls.st_last]]) (auto simp: triple_def modify_def saved_def)

text \<open>After the dispatch call itself nothing has to be remembered.\<close>

lemma from_then: "steps_from P (calls_step E) m \<Longrightarrow> (\<And>y. steps (calls_step E) (k y)) \<Longrightarrow>
    steps_from P (calls_step E) (bindE m k)"
  by (erule calls.from_bind [where Q = "\<lambda>_ _. True"])
     (auto simp: triple_def calls.from_steps split: prod.split sum.split)

lemma from_attempt: "steps_from P R m \<Longrightarrow> steps_from P R (attempt m)"
  by (simp add: steps_from_def attempt_def split: prod.split) (metis snd_conv)

lemma submit_journaled:
  assumes "s_Job s = Some j" and "s_DispatchAttempted s" and "body = s_Body s"
    and "ba_RequestID a = job_RequestID j" "ba_Authorization a = job_SpendAuthorization j" "ba_WorkID a = job_WorkID j"
  shows "steps_from (\<lambda>x. saved E x \<and> es x = s) (calls_step E)
    (SubmitJobV2 C a u (upcall E (CallSubmitJob (job_BrokerURL j) a body) (brokerHTTP E)) (lookup_job E j) (abr_on_event E))"
proof -
  have post: "steps_from (\<lambda>x. saved E x \<and> es x = s) (calls_step E)
      (upcall E (CallSubmitJob (job_BrokerURL j) a body) (brokerHTTP E))"
    by (rule dispatch_logged) (auto simp: assms saved_def job_call_matches_def)
  show ?thesis
  proof (cases "auth_headers a ''paid-job/v1''")
    case Inl
    then show ?thesis by (simp add: SubmitJobV2_def calls.from_steps calls.steps_throw)
  next
    case (Inr h)
    then show ?thesis
      unfolding SubmitJobV2_def Let_def
      by simp (intro from_then [OF post] calls.st_basic calls.st_parts)
  qed
qed

lemma open_journaled:
  assumes "s_Session s = Some c" and "s_DispatchAttempted s" and "body = s_Body s"
    and "ba_RequestID a = sess_RequestID c" "ba_Authorization a = sess_SpendAuthorization c" "ba_WorkID a = sess_WorkID c"
  shows "steps_from (\<lambda>x. saved E x \<and> es x = s) (calls_step E)
    (BrokerOpenSessionV2 C a (upcall E (CallOpenSession (sess_BrokerURL c) a body) (brokerHTTP E)))"
proof -
  have post: "steps_from (\<lambda>x. saved E x \<and> es x = s) (calls_step E)
      (upcall E (CallOpenSession (sess_BrokerURL c) a body) (brokerHTTP E))"
    by (rule dispatch_logged) (auto simp: assms saved_def session_call_matches_def)
  show ?thesis
  proof (cases "auth_headers a ''paid-session/v1''")
    case Inl
    then show ?thesis by (simp add: BrokerOpenSessionV2_def calls.from_steps calls.steps_throw)
  next
    case (Inr h)
    then show ?thesis
      unfolding BrokerOpenSessionV2_def by simp (intro from_then [OF post] calls.st_basic)
  qed
qed

text \<open>Continuing with a value that was read off the working secrets.\<close>

lemma from_auth:
  assumes "\<And>a. ba_RequestID a = r \<Longrightarrow> ba_Authorization a = z \<Longrightarrow> ba_WorkID a = w \<Longrightarrow> steps_from P (calls_step E) (k a)"
  shows "steps_from P (calls_step E) (bindE (auth E r z w) k)"
  by (rule calls.from_bind [OF calls.from_steps [OF calls.st_auth] after_auth])
     (use assms in \<open>auto simp: steps_from_def\<close>)

lemma then_read: "(\<And>y. es y = s \<Longrightarrow> steps_from (\<lambda>x. saved E x \<and> es x = s) (calls_step E) (k y)) \<Longrightarrow>
    steps_from (\<lambda>x. saved E x \<and> es x = s) (calls_step E) (with_state k)"
  by (rule calls.from_state) (auto simp: steps_from_def)

lemma from_pointer:
  assumes "steps (calls_step E) m" and "after row_exists m (\<lambda>j x. row_exists x \<and> f (es x) = Some j)"
    and "\<And>j s. f s = Some j \<Longrightarrow> steps_from (working s) (calls_step E) (k j)"
  shows "steps_from row_exists (calls_step E) (bindE m k)"
  by (rule calls.from_bind [OF calls.from_steps [OF assms(1)] assms(2)])
     (use assms(3) in \<open>auto simp: steps_from_def\<close>)

lemma from_if: "(b \<Longrightarrow> steps_from P R m) \<Longrightarrow> (\<not> b \<Longrightarrow> steps_from P R n) \<Longrightarrow> steps_from P R (if b then m else n)"
  by simp

lemma working_read: "(\<And>y. es y = s \<Longrightarrow> steps_from (working s) (calls_step E) (k y)) \<Longrightarrow>
    steps_from (working s) (calls_step E) (with_state k)"
  by (rule calls.from_state) (auto simp: steps_from_def)

lemmas then_rules = working_read then_read from_if from_auth then_s then_o then_v then_save then_last from_attempt
  submit_journaled open_journaled

lemma calls_abr_dispatch: "steps (calls_step E) (abr_dispatch E)"
  unfolding abr_dispatch_def
proof (rule calls_from, rule from_pointer [where f = s_Job])
  show "after row_exists the_job (\<lambda>j x. row_exists x \<and> s_Job (es x) = Some j)"
    by (auto simp: triple_def the_job_def eng_simps split: option.split)
  show "steps (calls_step E) the_job" by (rule calls.st_pointers)
qed (rule then_rules from_then any_set_s calls.st_basic calls.from_steps | simp add: frame_defs)+

lemma calls_live_dispatch: "steps (calls_step E) (live_dispatch E)"
  unfolding live_dispatch_def
proof (rule calls_from, rule from_pointer [where f = s_Session])
  show "after row_exists the_session (\<lambda>j x. row_exists x \<and> s_Session (es x) = Some j)"
    by (auto simp: triple_def the_session_def eng_simps split: option.split)
  show "steps (calls_step E) the_session" by (rule calls.st_pointers)
qed (rule then_rules from_then any_set_s calls.st_open_failed calls.st_basic calls.from_steps | simp add: frame_defs)+

interpretation calls_run: engine_run "calls_step E" E for E
  by unfold_locales (rule calls_abr_dispatch calls_live_dispatch calls.st_adopt calls.st_settle)+

text \<open>C2: journal before dispatch. Whatever the upstreams answer and wherever statements fail, every
  job submission and session open that an attempt adds to the call log was made while the
  durable row already recorded the dispatch attempt together with the same broker address,
  spend authorization, work identity and body: after a crash at any point, a dispatch that may
  have happened is known to the next attempt.\<close>

theorem Process_dispatch_journaled:
  "\<exists>new. calls (snd (Process E i x)) = new @ calls x \<and> list_all (journaled E) new"
proof (rule Process_cases)
  show "\<exists>new. calls (arrivals E x n) = new @ calls x \<and> list_all (journaled E) new" for n
    by simp
next
  fix r e
  assume "OpGet i (edb (arrivals E x 3)) = Some r"
  then show "\<exists>new. calls (snd (key_unavailable E e ((arrivals E x 3)\<lparr>eo := r\<rparr>))) = new @ calls x \<and> list_all (journaled E) new"
    using stepsD [OF calls.st_key_unavailable, where s = "(arrivals E x 3)\<lparr>eo := r\<rparr>"]
    by (auto simp: calls_step_def row_exists_def OpGet_ID)
next
  fix r s v
  assume "OpGet i (edb (arrivals E x 3)) = Some r"
  then show "\<exists>new. calls (snd (run_operation E ((arrivals E x 3)\<lparr>eo := r, es := s, ev := v\<rparr>))) = new @ calls x \<and>
      list_all (journaled E) new"
    using stepsD [OF calls_run.st_run, where s = "(arrivals E x 3)\<lparr>eo := r, es := s, ev := v\<rparr>"]
    by (auto simp: calls_step_def row_exists_def OpGet_ID)
qed

section \<open>Stop before dispatch\<close>

definition stopped_early :: "estate \<Rightarrow> bool" where
  "stopped_early x \<longleftrightarrow> op_StopRequested (eo x) \<and> op_Kind (eo x) \<noteq> ''abr'' \<and> \<not> s_DispatchAttempted (es x)"

definition quiet_step :: "estate \<Rightarrow> estate \<Rightarrow> bool" where
  "quiet_step x y \<longleftrightarrow> (stopped_early x \<longrightarrow> stopped_early y \<and>
     (\<exists>new. calls y = new @ calls x \<and> list_all (\<lambda>(c, _). \<not> dispatch_call c) new))"

lemma quiet_stepI:
  assumes "stopped_early x \<Longrightarrow> stopped_early y" and "calls y = new @ calls x"
    and "list_all (\<lambda>(c, _). \<not> dispatch_call c) new"
  shows "quiet_step x y"
  using assms by (auto simp: quiet_step_def)

interpretation quiet: engine_settle quiet_step E for E
proof unfold_locales
  show "quiet_step x x" for x
    by (rule quiet_stepI [where new = "[]"]) simp_all
  show "quiet_step x z" if "quiet_step x y" "quiet_step y z" for x y z
    using that unfolding quiet_step_def by (smt (verit) append.assoc list_all_append)
  show "\<not> dispatch_call k \<Longrightarrow> quiet_step x (x\<lparr>calls := (k, OpGet (op_ID (eo x)) (edb x)) # calls x\<rparr>)" for k x
    by (rule quiet_stepI [where new = "[(k, OpGet (op_ID (eo x)) (edb x))]"]) (simp_all add: stopped_early_def)
qed (rule quiet_stepI [where new = "[]"],
     auto simp: stopped_early_def o_frame_def o_finish_def op_row_le_def s_frame_def)+

lemma quiet_after_from:
  assumes "steps_from stopped_early quiet_step m"
  shows "after stopped_early m (\<lambda>_. stopped_early)"
proof -
  have "stopped_early (snd (m x))" if "stopped_early x" for x
    using assms that by (simp add: steps_from_def quiet_step_def)
  then show ?thesis
    unfolding triple_def by (metis (no_types, lifting) old.sum.exhaust old.sum.simps(5,6) prod.case_eq_if)
qed

lemma quiet_after: "steps quiet_step m \<Longrightarrow> after stopped_early m (\<lambda>_. stopped_early)"
  by (intro quiet_after_from quiet.from_steps)

lemma observe_stop_fails: "\<exists>e. fst (observe_stop E f x) = Inl e"
  by (auto simp: observe_stop_def bindE_snd throw_def split: sum.split)

lemma stop_unopened_blocks: "after stopped_early (stopUnopenedLive E) (\<lambda>go _. \<not> go)"
proof -
  have throws: "after P (observe_stop E f :: bool eng) Q" for P Q f
  proof -
    have "(case observe_stop E f x of (Inl e, s') \<Rightarrow> True | (Inr y, s') \<Rightarrow> Q y s')" for x
      using observe_stop_fails [where ?'a = bool, of E f x] by (cases "observe_stop E f x") auto
    then show ?thesis by (simp add: triple_def)
  qed
  have last: "after stopped_early (if go then ret False else with_state k) (\<lambda>go _. \<not> go)"
    if "\<And>x. stopped_early x \<Longrightarrow> k x = observe_stop E f" for go k f
    using that throws [of "\<lambda>_. True" f "\<lambda>go _. \<not> go"]
    by (simp add: triple_def bindE_snd get_state_def ret_def)
  show ?thesis
    unfolding stopUnopenedLive_def
    apply (rule triple_bind [OF quiet_after [OF quiet.st_s]], simp add: frame_defs)
    apply (rule triple_bind [OF quiet_after [OF quiet.st_close]])
    apply (rule triple_bind [OF quiet_after [OF quiet.st_recover]])
    apply (rule last, simp add: stopped_early_def)
    done
qed

lemma quiet_open: "steps_from stopped_early quiet_step (live_open_session E)"
proof -
  have go: "steps_from stopped_early quiet_step
      (bindE (if op_StopRequested (eo y) then stopUnopenedLive E else ret True) (\<lambda>go. if go then live_dispatch E else ret False))"
    if "stopped_early y" for y
    using that
    by (simp add: stopped_early_def [of y])
       (rule quiet.from_bind [OF quiet.from_steps [OF quiet.st_stop_unopened] stop_unopened_blocks],
        auto simp: steps_from_def quiet.steps_ret ret_def quiet.R_refl)
  have body: "steps_from stopped_early quiet_step (with_state (\<lambda>y.
      bindE (if op_StopRequested (eo y) then stopUnopenedLive E else ret True) (\<lambda>go. if go then live_dispatch E else ret False)))"
    by (rule quiet.from_state) (use go in \<open>auto simp: steps_from_def\<close>)
  show ?thesis
    unfolding live_open_session_def
    apply (rule quiet.from_state)
    apply (rule from_if)
     apply (rule quiet.from_pre [where P = stopped_early])
      apply (rule quiet.from_bind [OF quiet.from_steps [OF quiet.st_reread] quiet_after [OF quiet.st_reread] body])
     apply simp
    apply (rule quiet.from_steps [OF quiet.steps_ret])
    done
qed

lemma quiet_seq:
  "steps_from stopped_early quiet_step m \<Longrightarrow> (\<And>y. steps_from stopped_early quiet_step (k y)) \<Longrightarrow>
    steps_from stopped_early quiet_step (bindE m k)"
  by (rule quiet.from_bind [OF _ quiet_after_from])

lemma quiet_read: "(\<And>y. stopped_early y \<Longrightarrow> steps_from stopped_early quiet_step (k y)) \<Longrightarrow>
    steps_from stopped_early quiet_step (with_state k)"
  by (simp add: steps_from_def bindE_snd get_state_def)

lemma quiet_run_live: "steps_from stopped_early quiet_step (runLive E)"
  unfolding runLive_def
  by (intro quiet_read from_if quiet_seq quiet_open quiet.from_steps quiet.R_cancel quiet.st_prepare quiet.st_authorize
      quiet.st_finish quiet.st_control quiet.steps_ret)

lemma quiet_run: "steps_from stopped_early quiet_step (run_operation E)"
proof -
  have drive: "steps_from stopped_early quiet_step (with_state (\<lambda>x. if op_Kind (eo x) = ''abr'' then runABR E else runLive E))"
    by (rule quiet_read) (simp add: stopped_early_def [of y for y] quiet_run_live)
  have tail: "steps quiet_step (case r of Inl e \<Rightarrow> thenE (record_failure E e) (thenE (save E) (throw e)) | Inr _ \<Rightarrow> save E)" for r
    by (intro quiet.st_failure quiet.st_basic)
  show ?thesis
    unfolding run_operation_def
    by (rule quiet_seq [OF quiet.from_steps [OF quiet.st_o]], simp add: frame_defs)
       (rule quiet_seq [OF from_attempt [OF drive] quiet.from_steps [OF tail]])
qed

text \<open>C9: a stop before the first dispatch prevents it. When a live operation's durable row carries the
  stop flag and its journal records no dispatch attempt, an attempt on it never asks a broker to
  start work, whatever LOC and the broker answer.\<close>

theorem Process_stop_prevents_dispatch:
  assumes "OpGet i (edb x) = Some r" and "op_Kind r = ''live''" and "op_StopRequested r"
    and "BoxOpen (boxKey E) i (op_Secrets r) = Some s" and "\<not> s_DispatchAttempted s"
  shows "\<exists>new. calls (snd (Process E i x)) = new @ calls x \<and> list_all (\<lambda>(c, _). \<not> dispatch_call c) new"
proof (rule Process_cases)
  show "\<exists>new. calls (arrivals E x n) = new @ calls x \<and> list_all (\<lambda>(c, _). \<not> dispatch_call c) new" for n
    by simp
next
  fix q e
  assume "OpGet i (edb (arrivals E x 3)) = Some q"
  then show "\<exists>new. calls (snd (key_unavailable E e ((arrivals E x 3)\<lparr>eo := q\<rparr>))) = new @ calls x \<and>
      list_all (\<lambda>(c, _). \<not> dispatch_call c) new"
    using key_unavailable_effect(2) [of "(arrivals E x 3)\<lparr>eo := q\<rparr>" q E e] by (simp add: OpGet_ID)
next
  fix q t v
  assume q: "OpGet i (edb (arrivals E x 3)) = Some q" and d: "decode E q = Inr (t, v)"
  obtain r' where "OpGet i (edb (arrivals E x 3)) = Some r'" "stopped_only r r'"
    using arrivals_row [OF assms(1)] by blast
  with q assms(2-4) have "op_StopRequested q \<and> op_Kind q = ''live'' \<and> op_Secrets q = op_Secrets r"
    using stopped_only_fields [of r q] by (auto simp: stopped_only_def)
  with d q assms(4,5) have "stopped_early ((arrivals E x 3)\<lparr>eo := q, es := t, ev := v\<rparr>)"
    by (auto simp: stopped_early_def decode_def OpGet_ID split: option.splits if_splits)
  with quiet_run [of E] show "\<exists>new. calls (snd (run_operation E ((arrivals E x 3)\<lparr>eo := q, es := t, ev := v\<rparr>))) = new @ calls x \<and>
      list_all (\<lambda>(c, _). \<not> dispatch_call c) new"
    by (fastforce simp: steps_from_def quiet_step_def)
qed

theorem Process_stop_prevents_dispatch_witness:
  "op_StopRequested (sample_row\<lparr>op_StopRequested := True\<rparr>) \<and> \<not> s_DispatchAttempted sample_secrets \<and>
   (\<exists>new. calls (snd (Process (sample_env ''wrap'') ''op'' (sample_state (sample_row\<lparr>op_StopRequested := True\<rparr>)))) = new @ [] \<and>
     list_all (\<lambda>(c, _). \<not> dispatch_call c) new)"
proof -
  let ?r = "sample_row\<lparr>op_StopRequested := True\<rparr>"
  have "\<not> s_DispatchAttempted sample_secrets" "boxKey (sample_env ''wrap'') = ''wrap''" "calls (sample_state ?r) = []"
    by (simp_all add: sample_secrets_def sample_env_def sample_state_def)
  then show ?thesis
    using Process_stop_prevents_dispatch [of "''op''" "sample_state ?r" ?r "sample_env ''wrap''" sample_secrets]
    by (simp add: box.open_seal)
qed

end
