(* ===== verification/Engine_Finish.thy ===== *)
theory Engine_Finish
  imports Engine_Dispatch
begin

text \<open>
  Finishing. The journal marks an operation finished only when its reservation has left the open
  state: every path that sets the finish time commits or refunds the reservation first, or
  clears the finish time again when that fails.
\<close>

section \<open>Invariant\<close>

definition resolved :: "uuid \<Rightarrow> reservations \<Rightarrow> bool" where
  "resolved rid t = (case GetByID rid t of None \<Rightarrow> True | Some u \<Rightarrow> ur_State u \<noteq> ReservationOpen)"

definition finished_ok :: "operation \<Rightarrow> database \<Rightarrow> bool" where
  "finished_ok r d \<longleftrightarrow> (op_FinishedAt r \<noteq> None \<longrightarrow> resolved (op_ReservationID r) (db_reservations d))"

text \<open>The durable row agrees with the working copy on its identity and obeys the invariant.\<close>

definition fin_db :: "uuid \<Rightarrow> estate \<Rightarrow> bool" where
  "fin_db i x \<longleftrightarrow> op_ID (eo x) = i \<and>
     (\<exists>r. OpGet i (edb x) = Some r \<and> op_ReservationID r = op_ReservationID (eo x) \<and> finished_ok r (edb x))"

definition fin_inv :: "uuid \<Rightarrow> estate \<Rightarrow> bool" where
  "fin_inv i x \<longleftrightarrow> fin_db i x \<and> finished_ok (eo x) (edb x)"

definition fin_step :: "uuid \<Rightarrow> estate \<Rightarrow> estate \<Rightarrow> bool" where
  "fin_step i x y \<longleftrightarrow> (fin_inv i x \<longrightarrow> fin_inv i y)"

lemma resolved_mono: "ledger_le t t' \<Longrightarrow> resolved rid t \<Longrightarrow> resolved rid t'"
proof -
  assume le: "ledger_le t t'" and r: "resolved rid t"
  have "map ur_ID t' = map ur_ID t"
    using le [unfolded ledger_le_def] by (induction rule: list_all2_induct) (simp_all add: ledger_row_le_def)
  then have none: "GetByID rid t = None \<longleftrightarrow> GetByID rid t' = None"
    unfolding GetByID_def row_by_None_iff by (metis set_map)
  show ?thesis
  proof (cases "GetByID rid t")
    case None
    with none show ?thesis by (simp add: resolved_def)
  next
    case (Some u)
    with r ledger_le_GetByID [OF le Some] show ?thesis by (auto simp: resolved_def ledger_row_le_def)
  qed
qed

lemma finished_ok_mono:
  "ledger_le (db_reservations d) (db_reservations d') \<Longrightarrow> finished_ok r d \<Longrightarrow> finished_ok r d'"
  using resolved_mono by (auto simp: finished_ok_def)

text \<open>Effects that do not touch the working copies and write no journal row.\<close>

definition rows_stopped :: "database \<Rightarrow> database \<Rightarrow> bool" where
  "rows_stopped d d' \<longleftrightarrow> (\<forall>k r. OpGet k d = Some r \<longrightarrow> (\<exists>r'. OpGet k d' = Some r' \<and> stopped_only r r'))"

lemma rows_stopped_trans:
  assumes "rows_stopped a b" and "rows_stopped b c"
  shows "rows_stopped a c"
  unfolding rows_stopped_def
proof (intro allI impI)
  fix k r
  assume "OpGet k a = Some r"
  with assms(1) obtain q where q: "OpGet k b = Some q" "stopped_only r q" by (auto simp: rows_stopped_def)
  with assms(2) obtain p where "OpGet k c = Some p" "stopped_only q p" by (auto simp: rows_stopped_def)
  with q(2) show "\<exists>r'. OpGet k c = Some r' \<and> stopped_only r r'" by (blast intro: stopped_only_trans)
qed

lemma rows_stopped_refl: "db_ops d' = db_ops d \<Longrightarrow> rows_stopped d d'"
  by (simp add: rows_stopped_def OpGet_def stopped_only_refl)

definition frozen_step :: "estate \<Rightarrow> estate \<Rightarrow> bool" where
  "frozen_step x y \<longleftrightarrow> eo y = eo x \<and> es y = es x \<and> ev y = ev x \<and>
     ledger_le (db_reservations (edb x)) (db_reservations (edb y)) \<and>
     rows_stopped (edb x) (edb y)"

interpretation frozen: step_contract frozen_step
proof
  show "frozen_step x x" for x
    by (simp add: frozen_step_def ledger_le_refl rows_stopped_refl)
  show "frozen_step x z" if "frozen_step x y" "frozen_step y z" for x y z
    using that unfolding frozen_step_def by (auto intro: ledger_le_trans rows_stopped_trans)
qed

lemma frozen_fin_db:
  assumes "frozen_step x y" and "fin_db i x"
  shows "fin_db i y"
proof -
  from assms(2) obtain r where r: "OpGet i (edb x) = Some r" "op_ReservationID r = op_ReservationID (eo x)"
      "finished_ok r (edb x)" "op_ID (eo x) = i"
    by (auto simp: fin_db_def split: option.splits)
  from assms(1) r(1) obtain r' where r': "OpGet i (edb y) = Some r'" "stopped_only r r'"
    by (auto simp: frozen_step_def rows_stopped_def)
  from assms(1) r(3) have "finished_ok r (edb y)"
    by (auto simp: frozen_step_def intro: finished_ok_mono)
  with r' r assms(1) stopped_only_fields [OF r'(2)] show ?thesis
    by (simp add: fin_db_def frozen_step_def finished_ok_def)
qed

lemma frozen_arrive: "frozen_step x (arrive E t x)"
  by (simp add: frozen_step_def ledger_le_refl rows_stopped_def OpGet_stops(2))

lemma frozen_interact: "(\<And>t. steps frozen_step (k t)) \<Longrightarrow> steps frozen_step (interact E k)"
  unfolding steps_def interact_def by (blast intro: frozen.R_trans frozen_arrive)

lemma frozen_db_apply:
  assumes "\<And>d. db_ops (f d) = db_ops d" and "\<And>d. ledger_le (db_reservations d) (db_reservations (f d))"
  shows "steps frozen_step (db_apply f)"
  by (simp add: steps_def db_apply_def modify_def frozen_step_def rows_stopped_refl assms)

lemma frozen_res_write: "(\<And>t. ledger_op (f t)) \<Longrightarrow> steps frozen_step (res_write E f)"
  unfolding res_write_def db_write_def
  by (intro frozen_interact)
     (auto split: option.split db_fault.split intro!: frozen_db_apply frozen.steps_bind frozen.steps_throw ledger_op_le)

lemma frozen_live_write: "steps frozen_step (live_write E f)"
  unfolding live_write_def db_write_def
  by (intro frozen_interact)
     (auto split: option.split db_fault.split intro!: frozen_db_apply frozen.steps_bind frozen.steps_throw ledger_le_refl)

lemma frozen_get: "steps frozen_step get_state"
  by (simp add: steps_def get_state_def frozen.R_refl)

lemma frozen_checked: "steps frozen_step (live_write_checked E f)"
  unfolding live_write_checked_def
  by (intro frozen_interact)
     (auto split: option.split db_fault.split
       intro!: frozen_get frozen_db_apply frozen.steps_bind frozen.steps_throw frozen.steps_ret ledger_le_refl)

lemma frozen_pointers: "steps frozen_step the_session" "steps frozen_step the_live_id"
  unfolding the_session_def the_live_id_def
  by (auto intro!: frozen.steps_bind frozen_get frozen.steps_option frozen.steps_ret frozen.steps_throw)

lemma frozen_project: "steps frozen_step (projectLive E)"
  unfolding projectLive_def
  by (intro frozen.steps_bind frozen_pointers frozen_get frozen_checked frozen.steps_if frozen_res_write
      ledger_op.intros frozen.steps_ret)

section \<open>A successful ledger statement resolves\<close>

lemma Commit_resolves: "resolved rid (Commit t rid i d)"
  by (auto simp: resolved_def GetByID_Commit commit_row_def split: option.split)

lemma Refund_resolves: "resolved rid (Refund t rid code msg d)"
  by (auto simp: resolved_def GetByID_Refund refund_row_def split: option.split)

lemma res_write_ok:
  assumes "res_write E f x = (Inr u, y)"
  shows "\<exists>t. db_reservations (edb y) = f t (db_reservations (edb x))"
  using assms unfolding res_write_def db_write_def interact_def
  by (auto simp: eng_simps db_apply_def split: option.splits db_fault.splits)

lemma frozen_triple:
  assumes "steps frozen_step m" and "\<And>x y. frozen_step x y \<Longrightarrow> P x \<Longrightarrow> P y"
  shows "triple P m (\<lambda>_. P) (\<lambda>_. P)"
  unfolding triple_same by (intro allI impI) (rule assms(2) [OF stepsD [OF assms(1)]])

lemma frozen_eo: "frozen_step x y \<Longrightarrow> eo y = eo x"
  by (simp add: frozen_step_def)

lemma frozen_resolved:
  "frozen_step x y \<Longrightarrow> resolved rid (db_reservations (edb x)) \<Longrightarrow> resolved rid (db_reservations (edb y))"
  using resolved_mono by (auto simp: frozen_step_def)

lemma frozen_fin_inv: "frozen_step x y \<Longrightarrow> fin_inv i x \<Longrightarrow> fin_inv i y"
  using frozen_fin_db [of x y i] frozen_eo [of x y] frozen_resolved [of x y]
  by (simp add: fin_inv_def finished_ok_def)

text \<open>A resolving statement: the invariant survives its failure, its success resolves.\<close>

lemma triple_resolve:
  assumes f: "\<And>t d. resolved rid (f t d)" "\<And>t. ledger_op (f t)" and P: "\<And>x y. frozen_step x y \<Longrightarrow> P x \<Longrightarrow> P y"
  shows "triple P (res_write E f) (\<lambda>_ x. P x \<and> resolved rid (db_reservations (edb x))) (\<lambda>_. P)"
proof -
  have st: "frozen_step x (snd (res_write E f x))" for x
    by (rule stepsD [OF frozen_res_write]) (rule f(2))
  have "case res_write E f x of (Inl e, y) \<Rightarrow> P y | (Inr u, y) \<Rightarrow> P y \<and> resolved rid (db_reservations (edb y))" if "P x" for x
  proof (cases "res_write E f x")
    case (Pair r y)
    with P st [of x] that have "P y" by auto
    with Pair res_write_ok [of E f x _ y] f(1) show ?thesis by (cases r) auto
  qed
  then show ?thesis by (simp add: triple_def)
qed

lemma fin_steps: "triple (fin_inv i) m (\<lambda>_. fin_inv i) (\<lambda>_. fin_inv i) \<longleftrightarrow> steps (fin_step i) m"
  by (simp add: triple_same steps_def fin_step_def)

section \<open>Primitive effects\<close>

lemma fin_inv_o: "o_frame f \<Longrightarrow> fin_inv i x \<Longrightarrow> fin_inv i (x\<lparr>eo := f (eo x)\<rparr>)"
  unfolding o_frame_def op_row_le_def fin_inv_def fin_db_def finished_ok_def
  by auto (metis option.distinct(1))

lemma fin_inv_save:
  assumes "fin_inv i x"
  shows "fin_inv i (x\<lparr>edb := OpSave t (eo x) (edb x)\<rparr>)"
  using assms by (auto simp: fin_inv_def fin_db_def finished_ok_def OpGet_OpSave save_row_def split: option.splits)

lemma fin_inv_local:
  "fin_inv i (x\<lparr>es := s\<rparr>) = fin_inv i x" "fin_inv i (x\<lparr>ev := v\<rparr>) = fin_inv i x" "fin_inv i (x\<lparr>calls := c\<rparr>) = fin_inv i x"
  "fin_inv i (x\<lparr>woken := w\<rparr>) = fin_inv i x" "fin_inv i (x\<lparr>closed := cl\<rparr>) = fin_inv i x" "fin_inv i (x\<lparr>lastSaved := ls\<rparr>) = fin_inv i x"
  by (simp_all add: fin_inv_def fin_db_def)

interpretation fin: engine_prims "fin_step i" E for i E
proof unfold_locales
  show "ledger_op h \<Longrightarrow> fin_step i x (x\<lparr>edb := (edb x)\<lparr>db_reservations := h (db_reservations (edb x))\<rparr>\<rparr>)" for h x
    unfolding fin_step_def
    by (rule impI, erule frozen_fin_inv [rotated])
       (simp add: frozen_step_def rows_stopped_refl ledger_op_le)
  show "fin_step i x (x\<lparr>edb := (edb x)\<lparr>db_live := l\<rparr>\<rparr>)" for l x
    unfolding fin_step_def
    by (rule impI, erule frozen_fin_inv [rotated])
       (simp add: frozen_step_def rows_stopped_refl ledger_le_refl)
  show "fin_step i x (x\<lparr>eo := (eo x)\<lparr>op_Secrets := c, op_PublicJSON := ev x\<rparr>\<rparr>)" for c x
    by (simp add: fin_step_def fin_inv_def fin_db_def finished_ok_def)
qed (auto simp: fin_step_def fin_inv_o fin_inv_save fin_inv_local frozen_fin_inv [OF frozen_arrive])

section \<open>Finishing functions\<close>

text \<open>The invariant together with the reservation the function is about to resolve.\<close>

definition fin_at :: "uuid \<Rightarrow> uuid \<Rightarrow> estate \<Rightarrow> bool" where
  "fin_at i rid x \<longleftrightarrow> fin_inv i x \<and> op_ReservationID (eo x) = rid"

definition fin_done :: "uuid \<Rightarrow> uuid \<Rightarrow> estate \<Rightarrow> bool" where
  "fin_done i rid x \<longleftrightarrow> fin_db i x \<and> op_ReservationID (eo x) = rid \<and> resolved rid (db_reservations (edb x))"

lemma fin_at_frozen: "frozen_step x y \<Longrightarrow> fin_at i rid x \<Longrightarrow> fin_at i rid y"
  by (simp add: fin_at_def frozen_fin_inv frozen_eo)

lemma fin_done_frozen: "frozen_step x y \<Longrightarrow> fin_done i rid x \<Longrightarrow> fin_done i rid y"
  by (simp add: fin_done_def frozen_fin_db frozen_eo frozen_resolved)

lemma fin_doneD: "fin_done i rid x \<Longrightarrow> fin_inv i x"
  by (simp add: fin_done_def fin_inv_def finished_ok_def)

lemma fin_done_o: "o_finish f \<Longrightarrow> fin_done i rid x \<Longrightarrow> fin_done i rid (x\<lparr>eo := f (eo x)\<rparr>)"
  by (auto simp: fin_done_def fin_db_def o_finish_def op_row_le_def)

lemma fin_at_set:
  "o_frame f \<Longrightarrow> triple (fin_at i rid) (set_o f) (\<lambda>_. fin_at i rid) (\<lambda>_. fin_inv i)"
  "triple (fin_at i rid) (set_v g) (\<lambda>_. fin_at i rid) (\<lambda>_. fin_inv i)"
  "triple (fin_at i rid) (time_now E) (\<lambda>_. fin_at i rid) (\<lambda>_. fin_inv i)"
  by (auto simp: triple_def set_o_def set_v_def time_now_def eng_simps fin_at_def fin_inv_local fin_inv_o
      o_frame_def op_row_le_def)

lemma fin_done_set:
  "o_finish f \<Longrightarrow> triple (fin_done i rid) (set_o f) (\<lambda>_. fin_done i rid) (\<lambda>_. fin_inv i)"
  "triple (fin_done i rid) (set_v g) (\<lambda>_. fin_done i rid) (\<lambda>_. fin_inv i)"
  "triple (fin_done i rid) (time_now E) (\<lambda>_. fin_done i rid) (\<lambda>_. fin_inv i)"
  using fin_done_o
  by (auto simp: triple_def set_o_def set_v_def time_now_def eng_simps) (auto simp: fin_done_def fin_db_def)

lemma fin_done_frozen_triple:
  "steps frozen_step m \<Longrightarrow> triple (fin_done i rid) m (\<lambda>_. fin_done i rid) (\<lambda>_. fin_inv i)"
  by (rule triple_post [OF frozen_triple [OF _ fin_done_frozen]]) (auto intro: fin_doneD)

lemma fin_at_resolve:
  assumes "\<And>t d. resolved rid (f t d)" and "\<And>t. ledger_op (f t)"
  shows "triple (fin_at i rid) (res_write E f) (\<lambda>_. fin_done i rid) (\<lambda>_. fin_inv i)"
  by (rule triple_post [OF triple_resolve [OF assms fin_at_frozen]])
     (auto simp: fin_at_def fin_done_def fin_inv_def)

lemma fin_entry:
  assumes "\<And>x. triple (fin_at i (op_ReservationID (eo x))) (k x) (\<lambda>_. fin_inv i) (\<lambda>_. fin_inv i)"
  shows "steps (fin_step i) (with_state k)"
proof -
  have "fin_inv i (snd (with_state k x))" if "fin_inv i x" for x
  proof -
    have "fin_at i (op_ReservationID (eo x)) x" using that by (simp add: fin_at_def)
    with assms [of x] have "case k x x of (Inl e, y) \<Rightarrow> fin_inv i y | (Inr u, y) \<Rightarrow> fin_inv i y"
      by (simp add: triple_def)
    then show ?thesis by (simp add: bindE_snd get_state_def split: prod.splits sum.splits)
  qed
  then show ?thesis by (simp add: steps_def fin_step_def)
qed

lemma fin_issuance: "steps (fin_step i) (issuanceFailure E e :: unit eng)"
  unfolding issuanceFailure_def
  apply (rule fin_entry)
  subgoal for x
    apply (rule triple_option)
     apply (rule triple_throw, simp add: fin_at_def)
    apply (rule triple_if)
     apply (rule triple_bind [OF fin_at_set(1)], simp add: frame_defs)
     apply (rule triple_bind [OF fin_at_set(2)])
     apply (rule triple_bind [OF fin_at_set(3)])
     apply (rule triple_bind [OF fin_at_resolve], rule Refund_resolves, rule op_refund)
     apply (rule triple_bind [OF fin_done_frozen_triple])
      apply (rule frozen.steps_option, rule frozen.steps_ret, rule frozen_live_write)
     apply (rule triple_bind [OF fin_done_set(1)], simp add: frame_defs)
     apply (rule triple_throw, erule fin_doneD)
    apply (rule triple_throw, simp add: fin_at_def)
    done
  done

lemma fin_cancel: "steps (fin_step i) (live_cancel E)"
  unfolding live_cancel_def
  apply (rule fin_entry)
  apply (rule triple_bind [OF fin_at_resolve], rule Refund_resolves, rule op_refund)
  apply (rule triple_bind [OF fin_done_frozen_triple [OF frozen_pointers(2)]])
  apply (rule triple_bind [OF fin_done_frozen_triple [OF frozen_live_write]])
  apply (rule triple_bind [OF fin_done_set(3)])
  apply (rule triple_bind [OF fin_done_set(1)], simp add: frame_defs)
  apply (rule triple_post [OF fin_done_set(2)], erule fin_doneD, assumption)
  done

text \<open>Between setting the finish time and the statement that justifies it: the durable row is
  still unfinished or justified, the working copy is not saved.\<close>

definition fin_mid :: "uuid \<Rightarrow> (operation \<Rightarrow> bool) \<Rightarrow> estate \<Rightarrow> bool" where
  "fin_mid i p x \<longleftrightarrow> fin_db i x \<and> p (eo x)"

lemma fin_mid_frozen: "frozen_step x y \<Longrightarrow> fin_mid i p x \<Longrightarrow> fin_mid i p y"
  by (simp add: fin_mid_def frozen_fin_db frozen_eo)

lemma fin_mid_triple: "steps frozen_step m \<Longrightarrow> triple (fin_mid i p) m (\<lambda>_. fin_mid i p) (\<lambda>_. fin_mid i p)"
  by (rule frozen_triple [OF _ fin_mid_frozen])

text \<open>A resolving statement on the reservation of the working copy \<open>r\<close>.\<close>

lemma fin_mid_resolve:
  assumes "\<And>t d. resolved (op_ReservationID r) (f t d)" and "\<And>t. ledger_op (f t)"
  shows "triple (\<lambda>x. fin_mid i p x \<and> eo x = r) (res_write E f) (\<lambda>_. fin_done i (op_ReservationID r)) (\<lambda>_. fin_mid i p)"
proof -
  have "triple (fin_mid i (\<lambda>q. p q \<and> q = r)) (res_write E f)
      (\<lambda>_ x. fin_mid i (\<lambda>q. p q \<and> q = r) x \<and> resolved (op_ReservationID r) (db_reservations (edb x)))
      (\<lambda>_. fin_mid i (\<lambda>q. p q \<and> q = r))"
    by (rule triple_resolve [OF assms fin_mid_frozen])
  then show ?thesis
    by (rule triple_pre [OF triple_post]) (auto simp: fin_mid_def fin_done_def)
qed

lemma fin_mid_state:
  assumes "\<And>x. p (eo x) \<Longrightarrow> triple (\<lambda>y. fin_mid i p y \<and> eo y = eo x) (k x) Q R"
  shows "triple (fin_mid i p) (with_state k) Q R"
  by (rule triple_state) (use assms in \<open>auto simp: triple_def fin_mid_def\<close>)

lemma fin_mid_frozen_at: "steps frozen_step m \<Longrightarrow>
    triple (\<lambda>x. fin_mid i p x \<and> eo x = r) m (\<lambda>_ x. fin_mid i p x \<and> eo x = r) (\<lambda>_. fin_mid i p)"
  by (rule triple_post [OF frozen_triple [of m "\<lambda>x. fin_mid i p x \<and> eo x = r"]])
     (auto simp: fin_mid_frozen frozen_eo)

lemma fin_project:
  "triple (fin_mid i (\<lambda>r. op_FinishedAt r \<noteq> None)) (projectLive E) (\<lambda>_. fin_inv i)
     (\<lambda>_. fin_mid i (\<lambda>r. op_FinishedAt r \<noteq> None))"
  unfolding projectLive_def
  apply (rule triple_bind [OF fin_mid_triple [OF frozen_pointers(1)]])
  apply (rule triple_bind [OF fin_mid_triple [OF frozen_pointers(2)]])
  apply (rule fin_mid_state)
  apply (rule triple_bind [OF fin_mid_frozen_at [OF frozen_checked]])
  apply simp
  apply (rule triple_post [OF fin_mid_resolve [OF Commit_resolves op_commit]])
   apply (erule fin_doneD, assumption)
  done

lemma fin_finalize: "steps (fin_step i) (finalizeLiveProjection E units closedAt)"
proof -
  let ?p = "\<lambda>r :: operation. op_FinishedAt r \<noteq> None"
  have set: "triple (fin_inv i) (set_o (\<lambda>o1. o1\<lparr>op_FinishedAt := Some closedAt\<rparr>)) (\<lambda>_. fin_mid i ?p) (\<lambda>_. fin_inv i)"
    by (simp add: triple_def set_o_def modify_def fin_inv_def fin_mid_def fin_db_def)
  have clear: "triple (fin_mid i ?p) (thenE (set_o (\<lambda>o1. o1\<lparr>op_FinishedAt := None, op_State := ''accounting_pending''\<rparr>)) (throw e))
      (\<lambda>_. fin_inv i) (\<lambda>_. fin_inv i)" for e
    by (simp add: triple_def set_o_def eng_simps fin_inv_def fin_mid_def fin_db_def finished_ok_def)
  have project: "triple (fin_mid i ?p) (attempt (projectLive E))
      (\<lambda>r x. case r of Inl e \<Rightarrow> fin_mid i ?p x | Inr _ \<Rightarrow> fin_inv i x) (\<lambda>_. fin_inv i)"
    by (rule triple_attempt) (use fin_project [of i E] in simp)
  have finish: "triple (\<lambda>x. case r of Inl e \<Rightarrow> fin_mid i ?p x | Inr _ \<Rightarrow> fin_inv i x)
      (case r of Inl e \<Rightarrow> thenE (set_o (\<lambda>o1. o1\<lparr>op_FinishedAt := None, op_State := ''accounting_pending''\<rparr>)) (throw e)
       | Inr _ \<Rightarrow> ret ()) (\<lambda>_. fin_inv i) (\<lambda>_. fin_inv i)" for r :: "err + unit"
    using clear by (cases r) (auto intro: triple_ret)
  have view: "triple (fin_inv i) (with_state (\<lambda>x. set_v (applyLiveTerminalView (es x) units))) (\<lambda>_. fin_inv i) (\<lambda>_. fin_inv i)"
    unfolding fin_steps by (intro fin.st_basic)
  show ?thesis
    unfolding finalizeLiveProjection_def fin_steps [symmetric]
    by (rule triple_bind [OF view triple_bind [OF set triple_bind [OF project finish]]])
qed

interpretation fin_drive: engine_dispatch "fin_step i" E for i E
  by unfold_locales
     (auto simp: fin_issuance fin_finalize fin_cancel fin_step_def fin_inv_local)

section \<open>ABR\<close>

text \<open>After a failed attempt: the finish time of the working copy is justified unless the failure
  bookkeeping is going to clear it.\<close>

definition fin_err :: "uuid \<Rightarrow> estate \<Rightarrow> bool" where
  "fin_err i x \<longleftrightarrow> fin_db i x \<and> (op_State (eo x) = ''issuance_refused'' \<longrightarrow> finished_ok (eo x) (edb x))"

abbreviation not_refused :: "operation \<Rightarrow> bool" where
  "not_refused r \<equiv> op_State r \<noteq> ''issuance_refused''"

lemma fin_errI: "fin_inv i x \<Longrightarrow> fin_err i x" "fin_mid i not_refused x \<Longrightarrow> fin_err i x"
  by (simp_all add: fin_err_def fin_inv_def fin_mid_def)

lemma fin_run_steps: "steps (fin_step i) m \<Longrightarrow> triple (fin_inv i) m (\<lambda>_. fin_inv i) (\<lambda>_. fin_err i)"
  unfolding fin_steps [symmetric] by (erule triple_post) (auto intro: fin_errI)

lemma fin_commit:
  "triple (\<lambda>x. fin_mid i not_refused x \<and> eo x = r) (res_write E (\<lambda>t. Commit t (op_ReservationID r) c))
     (\<lambda>_. fin_done i (op_ReservationID r)) (\<lambda>_. fin_err i)"
  by (rule triple_post [OF fin_mid_resolve [OF Commit_resolves op_commit]]) (auto intro: fin_errI)

lemma fin_webhook:
  "triple (fin_done i rid) (res_write E (\<lambda>t. RecordRunnerWebhook w u)) (\<lambda>_. fin_inv i) (\<lambda>_. fin_err i)"
  by (rule triple_post [OF fin_done_frozen_triple [OF frozen_res_write [OF op_webhook]]])
     (auto intro: fin_errI fin_doneD)

lemma fin_settle: "triple (fin_inv i) (abr_settle E) (\<lambda>_. fin_inv i) (\<lambda>_. fin_err i)"
proof -
  have set: "triple (fin_inv i) (set_o (\<lambda>o1. o1\<lparr>op_State := ''broker_settled'', op_FinishedAt := Some now\<rparr>))
      (\<lambda>_. fin_mid i not_refused) (\<lambda>_. fin_err i)" for now
    by (simp add: triple_def set_o_def modify_def fin_inv_def fin_mid_def fin_db_def)
  show ?thesis
    unfolding abr_settle_def
    apply (rule triple_bind [OF fin_run_steps [OF fin.st_pointers(1)]])
    apply (rule triple_bind [OF fin_run_steps [OF fin.st_pointers(2)]])
    apply (rule triple_bind [OF fin_run_steps [OF fin.st_settle_loc]])
    apply (rule triple_bind [OF fin_run_steps [OF fin.st_v]])
    apply (rule triple_bind [OF fin_run_steps [OF fin.st_time]])
    apply (rule triple_bind [OF set])
    apply (rule fin_mid_state)
    apply (rule triple_bind [OF fin_commit fin_webhook])
    done
qed

lemma fin_adopt:
  assumes "js_AccountingOutcome st \<noteq> ''issuance_refused''"
  shows "triple (fin_inv i) (abr_adopt_loc_final E j st) (\<lambda>_. fin_inv i) (\<lambda>_. fin_err i)"
proof -
  have set: "triple (fin_inv i) (set_o (\<lambda>o1. o1\<lparr>op_State := js_AccountingOutcome st, op_FinishedAt := js_ClosedAt st\<rparr>))
      (\<lambda>_. fin_mid i not_refused) (\<lambda>_. fin_err i)"
    using assms by (simp add: triple_def set_o_def modify_def fin_inv_def fin_mid_def fin_db_def)
  have view: "triple (fin_mid i not_refused) (set_v f) (\<lambda>_. fin_mid i not_refused) (\<lambda>_. fin_err i)" for f
    by (simp add: triple_def set_v_def modify_def fin_mid_def fin_db_def)
  have settled: "triple (\<lambda>x. fin_mid i not_refused x \<and> eo x = r) (res_write E (\<lambda>t. MarkSettled t rid b z))
      (\<lambda>_ x. fin_mid i not_refused x \<and> eo x = r) (\<lambda>_. fin_err i)" for r rid b z
    by (rule triple_post [OF fin_mid_frozen_at [OF frozen_res_write [OF op_settled]]]) (auto intro: fin_errI)
  show ?thesis
    unfolding abr_adopt_loc_final_eq
    apply (rule triple_bind [OF set])
    apply (rule triple_bind [OF view])
    apply (rule fin_mid_state)
    apply (rule triple_bind [OF settled])
    apply (rule triple_bind [OF fin_commit fin_webhook])
    done
qed

text \<open>What the engine relies on LOC for: the accounting outcome of a job is not the gateway's own
  marker of a refused issuance.\<close>

definition loc_outcomes_ok :: "env \<Rightarrow> bool" where
  "loc_outcomes_ok E \<longleftrightarrow> (\<forall>t st. locGetJob E t = Inr st \<longrightarrow> js_AccountingOutcome st \<noteq> ''issuance_refused'')"

lemma upcall_result: "fst (upcall E c f x) = f (tick x)"
  by (cases "f (tick x)") (simp_all add: upcall_def interact_def log_call_def lift_result_def eng_simps)

lemma fin_get_job:
  assumes "loc_outcomes_ok E"
  shows "triple (fin_inv i) (attempt (upcall E (CallGetJob jid) (locGetJob E)))
    (\<lambda>r x. fin_inv i x \<and> (case r of Inl _ \<Rightarrow> True | Inr st \<Rightarrow> js_AccountingOutcome st \<noteq> ''issuance_refused''))
    (\<lambda>_. fin_err i)"
proof -
  have "fin_inv i (snd (upcall E (CallGetJob jid) (locGetJob E) x))" if "fin_inv i x" for x
  proof -
    have "steps (fin_step i) (upcall E (CallGetJob jid) (locGetJob E))" by (rule fin.st_upcall) simp
    from stepsD [OF this, of x] that show ?thesis by (simp add: fin_step_def)
  qed
  then show ?thesis
    using assms upcall_result [of E "CallGetJob jid" "locGetJob E"]
    by (auto simp: triple_def attempt_def loc_outcomes_ok_def split: prod.splits sum.splits) (metis fst_conv snd_conv)+
qed

lemma fin_abr_recover:
  assumes "loc_outcomes_ok E"
  shows "triple (fin_inv i) (abr_recover E) (\<lambda>_. fin_inv i) (\<lambda>_. fin_err i)"
proof -
  have status: "triple (\<lambda>x. fin_inv i x \<and> (case sr of Inl _ \<Rightarrow> True | Inr st \<Rightarrow> js_AccountingOutcome st \<noteq> ''issuance_refused''))
      (case sr of Inl _ \<Rightarrow> ret False | Inr st \<Rightarrow> if job_status_final j st then thenE (abr_adopt_loc_final E j st) (ret True) else ret False)
      (\<lambda>_. fin_inv i) (\<lambda>_. fin_err i)" for sr j
  proof (cases sr)
    case (Inr st)
    have "triple (fin_inv i) (thenE (abr_adopt_loc_final E j st) (ret True)) (\<lambda>_. fin_inv i) (\<lambda>_. fin_err i)"
      if "js_AccountingOutcome st \<noteq> ''issuance_refused''"
      by (rule triple_bind [OF fin_adopt [OF that]]) (rule triple_ret)
    with Inr show ?thesis
      by (cases "js_AccountingOutcome st = ''issuance_refused''") (auto simp: triple_def ret_def)
  qed (simp add: triple_def ret_def)
  show ?thesis
    unfolding abr_recover_eq
    apply (rule triple_bind [OF fin_run_steps [OF fin.st_pointers(1)]])
    apply (rule triple_bind [OF fin_run_steps [OF fin.st_get]])
    apply (rule triple_if)
     apply (rule triple_bind [OF fin_run_steps [OF fin.steps_attempt [OF fin.st_lookup_job]]])
     apply (rule triple_sum)
      apply (rule triple_bind [OF fin_run_steps [OF fin.steps_when [OF fin.st_v]]])
      apply (rule triple_bind [OF fin_get_job [OF assms] status])
     apply (rule fin_run_steps, intro fin.st_basic, simp add: frame_defs)
    apply (rule fin_run_steps [OF fin.steps_ret])
    done
qed

lemma fin_run_abr:
  assumes "loc_outcomes_ok E"
  shows "triple (fin_inv i) (runABR E) (\<lambda>_. fin_inv i) (\<lambda>_. fin_err i)"
  unfolding runABR_def
  apply (rule triple_bind [OF fin_run_steps [OF fin_drive.st_abr_authorize]])
  apply (rule triple_bind [OF fin_run_steps [OF fin.st_link]])
  apply (rule triple_bind [OF fin_abr_recover [OF assms]])
  apply (rule triple_if, rule triple_ret, assumption)
  apply (rule triple_bind [OF fin_run_steps [OF fin_drive.st_reject_guard]])
  apply (rule triple_bind [OF fin_run_steps [OF fin_drive.st_abr_dispatch] fin_settle])
  done

lemma fin_run:
  assumes "loc_outcomes_ok E" and "fin_inv i x"
  shows "fin_inv i (snd (run_operation E x))"
proof -
  have start: "triple (fin_inv i) (set_o (\<lambda>o1. o1\<lparr>op_Attempts := wrap64 (op_Attempts o1 + 1), op_LastError := None\<rparr>))
      (\<lambda>_. fin_inv i) (\<lambda>_. fin_inv i)"
    unfolding fin_steps by (rule fin.st_o) (simp add: frame_defs)
  have drive: "triple (fin_inv i) (attempt (with_state (\<lambda>x. if op_Kind (eo x) = ''abr'' then runABR E else runLive E)))
      (\<lambda>r x. case r of Inl _ \<Rightarrow> fin_err i x | Inr _ \<Rightarrow> fin_inv i x) (\<lambda>_. fin_inv i)"
    by (rule triple_attempt, rule triple_bind [OF _ triple_if])
       (use fin_run_steps [OF fin.st_get] fin_run_abr [OF assms(1)] fin_run_steps [OF fin_drive.st_run_live] in auto)
  have failure: "triple (fin_err i) (record_failure E e) (\<lambda>_. fin_inv i) (\<lambda>_. fin_inv i)" for e
    by (auto simp: triple_def record_failure_def time_now_def set_o_def eng_simps fin_err_def fin_inv_def fin_db_def
        finished_ok_def)
  have save: "triple (fin_inv i) (save E) (\<lambda>_. fin_inv i) (\<lambda>_. fin_inv i)"
    unfolding fin_steps by (rule fin.st_save)
  have last: "triple (\<lambda>x. case r of Inl _ \<Rightarrow> fin_err i x | Inr _ \<Rightarrow> fin_inv i x)
      (case r of Inl e \<Rightarrow> thenE (record_failure E e) (thenE (save E) (throw e)) | Inr _ \<Rightarrow> save E)
      (\<lambda>_. fin_inv i) (\<lambda>_. fin_inv i)" for r :: "err + unit"
    using save by (cases r) (auto intro!: triple_bind [OF failure] triple_bind [OF save] triple_throw)
  have "triple (fin_inv i) (run_operation E) (\<lambda>_. fin_inv i) (\<lambda>_. fin_inv i)"
    unfolding run_operation_def by (rule triple_bind [OF start triple_bind [OF drive last]])
  with assms(2) show ?thesis by (simp add: triple_same)
qed

lemma Process_finish_kept:
  assumes "loc_outcomes_ok E" and "OpGet i (edb x) = Some r" and "finished_ok r (edb x)"
  shows "\<exists>r'. OpGet i (edb (snd (Process E i x))) = Some r' \<and> finished_ok r' (edb (snd (Process E i x)))"
proof (rule Process_cases)
  show "\<exists>r'. OpGet i (edb (arrivals E x n)) = Some r' \<and> finished_ok r' (edb (arrivals E x n))" for n
    using arrivals_row [OF assms(2), of E n] assms(3) by (auto simp: finished_ok_def dest: stopped_only_fields)
next
  fix q e
  assume q: "OpGet i (edb (arrivals E x 3)) = Some q" "op_FinishedAt q = None"
  have "fin_inv i ((arrivals E x 3)\<lparr>eo := q\<rparr>)"
    using q by (simp add: fin_inv_def fin_db_def finished_ok_def OpGet_ID)
  then have "fin_inv i (snd (key_unavailable E e ((arrivals E x 3)\<lparr>eo := q\<rparr>)))"
    using stepsD [OF fin.st_key_unavailable [of i E e], of "(arrivals E x 3)\<lparr>eo := q\<rparr>"] by (simp add: fin_step_def)
  then show "\<exists>r'. OpGet i (edb (snd (key_unavailable E e ((arrivals E x 3)\<lparr>eo := q\<rparr>)))) = Some r' \<and>
      finished_ok r' (edb (snd (key_unavailable E e ((arrivals E x 3)\<lparr>eo := q\<rparr>))))"
    by (auto simp: fin_inv_def fin_db_def)
next
  fix q s v
  assume q: "OpGet i (edb (arrivals E x 3)) = Some q" "op_FinishedAt q = None"
  have "fin_inv i ((arrivals E x 3)\<lparr>eo := q, es := s, ev := v\<rparr>)"
    using q by (simp add: fin_inv_def fin_db_def finished_ok_def OpGet_ID)
  from fin_run [OF assms(1) this]
  show "\<exists>r'. OpGet i (edb (snd (run_operation E ((arrivals E x 3)\<lparr>eo := q, es := s, ev := v\<rparr>)))) = Some r' \<and>
      finished_ok r' (edb (snd (run_operation E ((arrivals E x 3)\<lparr>eo := q, es := s, ev := v\<rparr>))))"
    by (auto simp: fin_inv_def fin_db_def)
qed

text \<open>C3: finished means resolved. If the reservation of every finished row is resolved before an
  attempt, it is so afterwards for the processed operation: the engine marks an operation
  finished in the journal only after its reservation was committed or refunded, whichever
  statement or upstream call fails on the way. It relies on LOC not answering with the gateway's
  own marker as an accounting outcome.\<close>

theorem Process_finished_resolved:
  assumes "loc_outcomes_ok E" and "OpGet i (edb x) = Some r" and "finished_ok r (edb x)"
  shows "\<exists>r'. OpGet i (edb (snd (Process E i x))) = Some r' \<and> finished_ok r' (edb (snd (Process E i x)))"
  by (rule Process_finish_kept [OF assms])

theorem Process_finished_resolved_witness:
  "loc_outcomes_ok (sample_env ''wrap'') \<and> finished_ok sample_row (sample_db sample_row) \<and>
   (\<exists>r'. OpGet ''op'' (edb (snd (Process (sample_env ''wrap'') ''op'' (sample_state sample_row)))) = Some r' \<and>
     finished_ok r' (edb (snd (Process (sample_env ''wrap'') ''op'' (sample_state sample_row)))))"
proof -
  have "loc_outcomes_ok (sample_env ''wrap'')" "finished_ok sample_row d" for d
    by (simp_all add: loc_outcomes_ok_def sample_env_def finished_ok_def)
  then show ?thesis
    using Process_finished_resolved [of "sample_env ''wrap''" "''op''" "sample_state sample_row" sample_row] by simp
qed

end
