(* ===== verification/Engine_Progress.thy ===== *)
theory Engine_Progress
  imports Engine_Finish
begin

text \<open>
  Progress of one attempt on an ABR operation while the database works: an attempt whose job is
  recorded, whose claim is reported and whose settlement LOC accepts completes the operation, and a
  first attempt that LOC definitively refuses ends it with a refund. Success is stated as a triple
  whose error postcondition is \<open>False\<close>.
\<close>

section \<open>Working state\<close>

text \<open>From tick \<open>T\<close> on the database answers, no wait is cancelled, sealing works and nobody else
  holds the lock of the operation. Stop requests still arrive.\<close>

definition calm :: "env \<Rightarrow> nat \<Rightarrow> uuid \<Rightarrow> bool" where
  "calm E T i \<longleftrightarrow> (\<forall>t \<ge> T. dbFault E t = None \<and> waitFault E t = None \<and> sealFault E t = None \<and>
     i \<notin> set (lockedByOthers E t))"

definition res_view :: "UsageReservation \<Rightarrow> ReservationState \<times> int option" where
  "res_view u = (ur_State u, ur_CommittedWorkUnits u)"

text \<open>The state of an attempt on operation \<open>i\<close>: its working copies, and what the database holds.\<close>

definition engaged :: "nat \<Rightarrow> uuid \<Rightarrow> uuid \<Rightarrow> (ReservationState \<times> int option) option \<Rightarrow> operationSecrets \<Rightarrow>
    operationView \<Rightarrow> operation \<Rightarrow> estate \<Rightarrow> bool" where
  "engaged T i rid n s v r x \<longleftrightarrow> T \<le> tick x \<and> op_ID r = i \<and> op_ReservationID r = rid \<and>
     eo x = r \<and> es x = s \<and> ev x = v \<and> map_option op_Kind (OpGet i (edb x)) = Some (op_Kind r) \<and>
     map_option res_view (GetByID rid (db_reservations (edb x))) = n"

definition res_keeps :: "(reservations \<Rightarrow> reservations) \<Rightarrow> uuid \<Rightarrow> bool" where
  "res_keeps f rid \<longleftrightarrow> (\<forall>t. map_option res_view (GetByID rid (f t)) = map_option res_view (GetByID rid t))"

lemma res_keeps_ops:
  "res_keeps (SetLOCJob w j wid fu ex) rid" "res_keeps (MarkSettled t k billed st) rid"
  "res_keeps (RecordRunnerWebhook w u) rid"
  by (auto simp: res_keeps_def GetByID_updates option.map_comp res_view_def loc_job_row_def settled_row_def
      runner_row_def intro!: option.map_cong)

lemma OpGet_reservations: "OpGet i (d\<lparr>db_reservations := t\<rparr>) = OpGet i d"
  by (simp add: OpGet_def)

lemma stops_kind: "map_option op_Kind (OpGet i (fold (RequestStop now) is d)) = map_option op_Kind (OpGet i d)"
  using OpGet_stops(1) [of i now "is" d] OpGet_stops(2) [of i d _ now "is"]
  by (cases "OpGet i d") (fastforce dest: stopped_only_fields)+

lemma engaged_arrive: "engaged T i rid n s v r x \<Longrightarrow> engaged T i rid n s v r (arrive E (tick x) x)"
  by (simp add: engaged_def stops_kind del: map_option_eq_Some)

lemma w_set_o:
  "op_ID (f r) = op_ID r \<Longrightarrow> op_ReservationID (f r) = op_ReservationID r \<Longrightarrow> op_Kind (f r) = op_Kind r \<Longrightarrow>
   succeeds (engaged T i rid n s v r) (set_o f) (\<lambda>_. engaged T i rid n s v (f r))"
  unfolding set_o_def by (rule triple_modify) (simp add: engaged_def)

lemma w_set_s: "succeeds (engaged T i rid n s v r) (set_s f) (\<lambda>_. engaged T i rid n (f s) v r)"
  unfolding set_s_def by (rule triple_modify) (simp add: engaged_def)

lemma w_set_v: "succeeds (engaged T i rid n s v r) (set_v f) (\<lambda>_. engaged T i rid n s (f v) r)"
  unfolding set_v_def by (rule triple_modify) (simp add: engaged_def)

lemma w_state: "(\<And>x. eo x = r \<Longrightarrow> es x = s \<Longrightarrow> ev x = v \<Longrightarrow> triple (engaged T i rid n s v r) (k x) Q R) \<Longrightarrow>
    triple (engaged T i rid n s v r) (with_state k) Q R"
  by (fastforce simp: triple_def bindE_def get_state_def engaged_def split: prod.splits sum.splits)

lemma w_time: "succeeds (engaged T i rid n s v r) (time_now E) (\<lambda>_. engaged T i rid n s v r)"
  by (simp add: triple_def time_now_def eng_simps)

lemma w_interact:
  "(\<And>t. T \<le> t \<Longrightarrow> triple (engaged T i rid n s v r) (k t) Q R) \<Longrightarrow>
   triple (engaged T i rid n s v r) (interact E k) Q R"
  unfolding triple_def interact_def using engaged_arrive [of T i rid n s v r]
  by (auto simp: engaged_def)

lemma w_upcall:
  assumes "\<And>t. T \<le> t \<Longrightarrow> (case a t of Inl e \<Rightarrow> R e | Inr y \<Rightarrow> Q y)"
  shows "triple (engaged T i rid n s v r) (upcall E c a) (\<lambda>y x. engaged T i rid n s v r x \<and> Q y)
    (\<lambda>e x. engaged T i rid n s v r x \<and> R e)"
  unfolding upcall_def
  by (rule w_interact)
     (auto simp: triple_def log_call_def lift_result_def eng_simps engaged_def
       dest!: assms split: sum.split)

lemma w_db_write:
  assumes "calm E T i" and "\<And>t d. map_option op_Kind (OpGet i (f t d)) = map_option op_Kind (OpGet i d)"
    and "\<And>t d. map_option res_view (GetByID rid (db_reservations d)) = n \<Longrightarrow>
       map_option res_view (GetByID rid (db_reservations (f t d))) = n'"
  shows "succeeds (engaged T i rid n s v r) (db_write E f) (\<lambda>_. engaged T i rid n' s v r)"
  unfolding db_write_def
  using assms
  by (intro w_interact) (auto simp: calm_def db_apply_def engaged_def intro!: triple_modify)

lemma w_res_write:
  assumes "calm E T i" and "\<And>t. res_keeps (f t) rid"
  shows "succeeds (engaged T i rid n s v r) (res_write E f) (\<lambda>_. engaged T i rid n s v r)"
  unfolding res_write_def
  using assms by (intro w_db_write) (simp_all add: OpGet_reservations res_keeps_def)

text \<open>Committing closes an open reservation with the units and leaves a closed one alone.\<close>

definition committed_view :: "int option \<Rightarrow> (ReservationState \<times> int option) option \<Rightarrow>
    (ReservationState \<times> int option) option" where
  "committed_view u = map_option (\<lambda>n. if fst n = ReservationOpen then (ReservationCommitted, u) else n)"

lemma GetByID_Commit_view: "map_option res_view (GetByID rid (Commit t rid (commit_input url u) tb)) =
    committed_view u (map_option res_view (GetByID rid tb))"
  by (cases "GetByID rid tb")
     (auto simp: GetByID_Commit res_view_def commit_row_def commit_input_def committed_view_def)

lemma w_commit:
  assumes "calm E T i"
  shows "succeeds (engaged T i rid n s v r) (res_write E (\<lambda>t. Commit t rid (commit_input url u)))
    (\<lambda>_. engaged T i rid (committed_view u n) s v r)"
  unfolding res_write_def
  using assms
  by (intro w_db_write) (simp_all add: OpGet_reservations GetByID_Commit_view del: option.map_disc_iff map_option_eq_Some)

section \<open>Saving\<close>

text \<open>The durable row after a save: the working row with the sealed secrets and the view.\<close>

definition saved_row :: "env \<Rightarrow> uuid \<Rightarrow> operationSecrets \<Rightarrow> operationView \<Rightarrow> operation \<Rightarrow> estate \<Rightarrow> bool" where
  "saved_row E i s v r x \<longleftrightarrow> (\<exists>q m. OpGet i (edb x) = Some q \<and> op_FinishedAt q = op_FinishedAt r \<and>
     op_State q = op_State r \<and> op_PublicJSON q = v \<and> op_Secrets q = BoxSeal (boxKey E) m i s)"

definition parked :: "env \<Rightarrow> nat \<Rightarrow> uuid \<Rightarrow> uuid \<Rightarrow> (ReservationState \<times> int option) option \<Rightarrow> operationSecrets \<Rightarrow>
    operationView \<Rightarrow> operation \<Rightarrow> estate \<Rightarrow> bool" where
  "parked E T i rid n s v r x \<longleftrightarrow> saved_row E i s v r x \<and>
     map_option res_view (GetByID rid (db_reservations (edb x))) = n \<and>
     (\<exists>r'. engaged T i rid n s v r' x \<and> op_State r' = op_State r \<and> op_FinishedAt r' = op_FinishedAt r \<and>
        op_Attempts r' = op_Attempts r \<and> op_Kind r' = op_Kind r \<and> op_LiveStreamID r' = op_LiveStreamID r)"

lemma w_seal:
  assumes "calm E T i"
  shows "succeeds (engaged T i rid n s v r) (seal E)
    (\<lambda>_ x. \<exists>m. engaged T i rid n s v (r\<lparr>op_Secrets := BoxSeal (boxKey E) m i s, op_PublicJSON := v\<rparr>) x)"
  using assms
  by (auto simp: triple_def seal_def calm_def engaged_def set_o_def eng_simps)

lemma w_lock_save:
  assumes "calm E T i"
  shows "succeeds (engaged T i rid n s v r) (lock_save E) (\<lambda>_ x. engaged T i rid n s v r x \<and>
    (\<exists>t q. OpGet i (edb x) = Some (save_row t r q)))"
proof -
  let ?Q = "\<lambda>_ x. engaged T i rid n s v r x \<and> (\<exists>t q. OpGet i (edb x) = Some (save_row t r q))"
  have "succeeds (engaged T i rid n s v r) (db_apply (OpSave t r)) ?Q" for t
    unfolding db_apply_def
  proof (rule triple_modify)
    fix x
    assume x: "engaged T i rid n s v r x"
    then obtain q where q: "OpGet i (edb x) = Some q" "op_Kind q = op_Kind r" "op_ID r = i" by (auto simp: engaged_def)
    then have "OpGet i (OpSave t r (edb x)) = Some (save_row t r q)" by (simp add: OpGet_OpSave)
    with x q show "?Q () (x\<lparr>edb := OpSave t r (edb x)\<rparr>)" by (auto simp: engaged_def save_row_def)
  qed
  then have "succeeds (engaged T i rid n s v r) (db_write E (\<lambda>t. OpSave t r)) ?Q"
    unfolding db_write_def using assms by (intro w_interact) (simp add: calm_def)
  then show ?thesis unfolding lock_save_def by (intro w_state) simp
qed

lemma w_save:
  assumes "calm E T i"
  shows "succeeds (engaged T i rid n s v r) (save E) (\<lambda>_. parked E T i rid n s v r)"
  unfolding save_def
proof (rule triple_bind [OF w_seal [OF assms]])
  fix u :: unit
  have "parked E T i rid n s v r x" if "engaged T i rid n s v (r\<lparr>op_Secrets := BoxSeal (boxKey E) m i s, op_PublicJSON := v\<rparr>) x"
      "OpGet i (edb x) = Some (save_row t (r\<lparr>op_Secrets := BoxSeal (boxKey E) m i s, op_PublicJSON := v\<rparr>) q)" for m t q x
  proof -
    have "saved_row E i s v r x" using that(2) unfolding saved_row_def by (intro exI conjI, assumption) (simp_all add: save_row_def)
    moreover have "map_option res_view (GetByID rid (db_reservations (edb x))) = n" using that(1) by (simp add: engaged_def)
    ultimately show ?thesis using that(1) unfolding parked_def by (intro conjI exI) (assumption | simp)+
  qed
  then have "succeeds (engaged T i rid n s v (r\<lparr>op_Secrets := BoxSeal (boxKey E) m i s, op_PublicJSON := v\<rparr>)) (lock_save E)
      (\<lambda>_. parked E T i rid n s v r)" for m
    by (intro triple_post [OF w_lock_save [OF assms]]) blast+
  then show "succeeds (\<lambda>x. \<exists>m. engaged T i rid n s v (r\<lparr>op_Secrets := BoxSeal (boxKey E) m i s, op_PublicJSON := v\<rparr>) x)
      (lock_save E) (\<lambda>_. parked E T i rid n s v r)"
    by (rule triple_ex)
qed

section \<open>Settlement\<close>

text \<open>LOC settles the claim: from tick \<open>T\<close> on every settle answer either matches it or says that
  it was settled before, and then the job status confirms exactly this claim.\<close>

definition settle_answer_ok :: "env \<Rightarrow> nat \<Rightarrow> CreateJobResponseV2 \<Rightarrow> TerminalClaim \<Rightarrow> err + SettleJobResponse \<Rightarrow> bool" where
  "settle_answer_ok E T j c a = (case a of Inr resp \<Rightarrow> settle_response_matches j c resp
     | Inl e \<Rightarrow> IsAlreadySettled e \<and>
         (\<forall>t \<ge> T. case locGetJob E t of Inr st \<Rightarrow> duplicate_settle_confirmed j c st | Inl _ \<Rightarrow> False))"

definition settles :: "env \<Rightarrow> nat \<Rightarrow> CreateJobResponseV2 \<Rightarrow> TerminalClaim \<Rightarrow> bool" where
  "settles E T j c \<longleftrightarrow> (\<forall>t \<ge> T. settle_answer_ok E T j c (locSettleJob E t)) \<and>
     tc_BrokerJobID c \<noteq> '''' \<and> tc_WorkUnit c \<noteq> '''' \<and> 0 \<le> tc_ActualUnits c"

lemma w_wait:
  "calm E T i \<Longrightarrow> succeeds (engaged T i rid n s v r) (wait_timer E d) (\<lambda>_. engaged T i rid n s v r)"
  unfolding wait_timer_def by (intro w_interact) (auto simp: calm_def intro: triple_ret)

lemma w_retry:
  assumes "calm E T i"
    and call: "triple (engaged T i rid n s v r) call (\<lambda>y x. engaged T i rid n s v r x \<and> Q y)
      (\<lambda>e x. engaged T i rid n s v r x \<and> F e)"
  shows "triple (engaged T i rid n s v r) (doJSONRetry call (wait_timer E) b k)
    (\<lambda>y x. engaged T i rid n s v r x \<and> Q y) (\<lambda>e x. engaged T i rid n s v r x \<and> F e)"
proof (induction k arbitrary: b)
  case 0
  show ?case by (simp add: call)
next
  case (Suc k)
  have "triple (\<lambda>x. case a of Inl e \<Rightarrow> engaged T i rid n s v r x \<and> F e | Inr y \<Rightarrow> engaged T i rid n s v r x \<and> Q y)
      (case a of Inr y \<Rightarrow> ret y | Inl e \<Rightarrow> if \<not> LocIsRetryable (Some e) then throw e
               else thenE (wait_timer E (if retryAfterOf e > 0 then retryAfterOf e else b))
                      (doJSONRetry call (wait_timer E) (wrap64 (b * 2)) k))
      (\<lambda>y x. engaged T i rid n s v r x \<and> Q y) (\<lambda>e x. engaged T i rid n s v r x \<and> F e)" for a
  proof (cases a)
    case (Inl e)
    show ?thesis
    proof (cases "LocIsRetryable (Some e)")
      case True
      have "triple (engaged T i rid n s v r) (thenE (wait_timer E d) (doJSONRetry call (wait_timer E) b' k))
        (\<lambda>y x. engaged T i rid n s v r x \<and> Q y) (\<lambda>e x. engaged T i rid n s v r x \<and> F e)" for d b'
        by (rule triple_bind [OF triple_weaken_error [OF w_wait [OF assms(1)]] Suc.IH])
      then show ?thesis unfolding Inl using True by (auto intro: triple_pre)
    next
      case False
      then show ?thesis using Inl by (auto intro: triple_throw)
    qed
  next
    case (Inr y)
    then show ?thesis by (auto intro: triple_ret)
  qed
  moreover have "triple (engaged T i rid n s v r) (attempt call) (\<lambda>a x. case a of Inl e \<Rightarrow> engaged T i rid n s v r x \<and> F e
      | Inr y \<Rightarrow> engaged T i rid n s v r x \<and> Q y) (\<lambda>e x. engaged T i rid n s v r x \<and> F e)"
    by (rule triple_attempt) (use call in simp)
  ultimately show ?case by (simp add: triple_bind)
qed

lemma w_mark_settled:
  assumes "calm E T i"
  shows "succeeds (engaged T i rid n s v r) (mark_settled E billed) (\<lambda>_. engaged T i rid n s v r)"
  unfolding mark_settled_def using assms by (intro w_state w_res_write res_keeps_ops)

lemma w_settle_loc:
  assumes calm: "calm E T i" and c: "settles E T j c"
  shows "succeeds (engaged T i rid n s v r) (abr_settle_loc E j c) (\<lambda>_. engaged T i rid n s v r)"
proof -
  let ?W = "engaged T i rid n s v r"
  let ?good = "\<lambda>a x. ?W x \<and> settle_answer_ok E T j c a"
  note marked = w_mark_settled [OF calm, of rid n s v r]
  have "triple ?W (upcall E k (locSettleJob E)) (\<lambda>y. ?good (Inr y)) (\<lambda>e. ?good (Inl e))" for k
    by (rule w_upcall) (use c in \<open>auto simp: settles_def split: sum.split\<close>)
  from w_retry [OF calm this]
  have settle: "triple ?W (SettleJobV2 (\<lambda>i. upcall E (CallSettleJob (job_JobID j) i) (locSettleJob E)) (wait_timer E)
      (settle_request c)) (\<lambda>y. ?good (Inr y)) (\<lambda>e. ?good (Inl e))"
    using c by (simp add: SettleJobV2_def settle_request_def settles_def)
  have confirm: "succeeds (?good (Inl e)) (bindE (attempt (upcall E k (locGetJob E))) (\<lambda>sr. case sr of
        Inl _ \<Rightarrow> throw e
      | Inr st \<Rightarrow> if duplicate_settle_confirmed j c st then mark_settled E (js_BilledValueWei st) else throw e))
      (\<lambda>_. ?W)" for e k
  proof (cases "settle_answer_ok E T j c (Inl e)")
    case True
    then have st: "case locGetJob E t of Inr st \<Rightarrow> duplicate_settle_confirmed j c st | Inl _ \<Rightarrow> False" if "T \<le> t" for t
      using that by (simp add: settle_answer_ok_def)
    have "succeeds ?W (attempt (upcall E k (locGetJob E)))
        (\<lambda>a x. ?W x \<and> (case a of Inr st \<Rightarrow> duplicate_settle_confirmed j c st | Inl _ \<Rightarrow> False))"
      by (rule triple_attempt, rule triple_post [OF w_upcall [where R = "\<lambda>_. False" and Q = "duplicate_settle_confirmed j c"]])
         (use st in \<open>force split: sum.splits\<close>)+
    then show ?thesis
    proof (rule triple_pre [OF triple_bind])
      show "succeeds (\<lambda>x. ?W x \<and> (case a of Inl _ \<Rightarrow> False | Inr st \<Rightarrow> duplicate_settle_confirmed j c st))
          (case a of Inl _ \<Rightarrow> throw e | Inr st \<Rightarrow> if duplicate_settle_confirmed j c st
            then mark_settled E (js_BilledValueWei st) else throw e) (\<lambda>_. ?W)" for a
        by (rule triple_pure) (cases a; simp add: marked)
    qed simp
  qed (simp add: triple_def)
  have "succeeds (?good a) (case a of
         Inl e \<Rightarrow>
           if \<not> IsAlreadySettled e then throw e
           else bindE (attempt (upcall E (CallGetJob (job_JobID j)) (locGetJob E))) (\<lambda>sr. case sr of
               Inl _ \<Rightarrow> throw e
             | Inr st \<Rightarrow> if duplicate_settle_confirmed j c st then mark_settled E (js_BilledValueWei st) else throw e)
       | Inr resp \<Rightarrow>
           if \<not> settle_response_matches j c resp
           then throw (Msg ''LOC settlement response does not match job claim'')
           else mark_settled E (sr_BilledValueWei resp)) (\<lambda>_. ?W)" for a
  proof (cases a)
    case (Inl e)
    show ?thesis unfolding Inl
    proof (rule triple_pure)
      assume "settle_answer_ok E T j c (Inl e)"
      then show "succeeds ?W (case Inl e of
         Inl e \<Rightarrow>
           if \<not> IsAlreadySettled e then throw e
           else bindE (attempt (upcall E (CallGetJob (job_JobID j)) (locGetJob E))) (\<lambda>sr. case sr of
               Inl _ \<Rightarrow> throw e
             | Inr st \<Rightarrow> if duplicate_settle_confirmed j c st then mark_settled E (js_BilledValueWei st) else throw e)
       | Inr resp \<Rightarrow>
           if \<not> settle_response_matches j c resp
           then throw (Msg ''LOC settlement response does not match job claim'')
           else mark_settled E (sr_BilledValueWei resp)) (\<lambda>_. ?W)"
        using confirm [of e "CallGetJob (job_JobID j)"] by (simp add: settle_answer_ok_def)
    qed
  next
    case (Inr resp)
    show ?thesis unfolding Inr by (rule triple_pure) (simp add: marked settle_answer_ok_def)
  qed
  then show ?thesis
    unfolding abr_settle_loc_eq
    by (intro triple_bind [OF triple_attempt]) (use settle in simp, simp)
qed

definition settled_at :: "time \<Rightarrow> operation \<Rightarrow> operation" where
  "settled_at now r = r\<lparr>op_State := ''broker_settled'', op_FinishedAt := Some now\<rparr>"

lemma w_settle:
  assumes calm: "calm E T i" and s: "s_Job s = Some j" "s_Claim s = Some c" and c: "settles E T j c"
  shows "succeeds (engaged T i rid n s v r) (abr_settle E)
    (\<lambda>_ x. \<exists>now. engaged T i rid (committed_view (Some (tc_ActualUnits c)) n) s (settled_view c v) (settled_at now r) x)"
proof -
  let ?n = "committed_view (Some (tc_ActualUnits c)) n"
  have job: "succeeds (engaged T i rid n s v r) the_job (\<lambda>y x. engaged T i rid n s v r x \<and> y = j)"
    unfolding the_job_def by (rule w_state) (simp add: s triple_ret)
  have claim: "succeeds (engaged T i rid n s v r) the_claim (\<lambda>y x. engaged T i rid n s v r x \<and> y = c)"
    unfolding the_claim_def by (rule w_state) (simp add: s triple_ret)
  have close: "succeeds (engaged T i rid n s (settled_view c v) r) (thenE (set_o (settled_at now)) (with_state (\<lambda>x.
     thenE (res_write E (\<lambda>t. Commit t (op_ReservationID (eo x)) (commit_input url (Some (tc_ActualUnits c)))))
     (res_write E (\<lambda>t. RecordRunnerWebhook (op_ID (eo x)) (u x))))))
     (\<lambda>_ x. \<exists>now. engaged T i rid ?n s (settled_view c v) (settled_at now r) x)" for now url u
  proof (rule triple_bind [OF w_set_o])
    show "succeeds (engaged T i rid n s (settled_view c v) (settled_at now r)) (with_state (\<lambda>x.
       thenE (res_write E (\<lambda>t. Commit t (op_ReservationID (eo x)) (commit_input url (Some (tc_ActualUnits c)))))
       (res_write E (\<lambda>t. RecordRunnerWebhook (op_ID (eo x)) (u x)))))
       (\<lambda>_ x. \<exists>now. engaged T i rid ?n s (settled_view c v) (settled_at now r) x)" (is "succeeds ?P _ ?Q")
    proof (rule triple_state, goal_cases)
      case (1 x)
      show ?case
      proof (cases "?P x")
        case True
        then have rid: "op_ReservationID (eo x) = rid" by (simp add: engaged_def)
        have "succeeds ?P (thenE (res_write E (\<lambda>t. Commit t rid (commit_input url (Some (tc_ActualUnits c)))))
            (res_write E (\<lambda>t. RecordRunnerWebhook (op_ID (eo x)) (u x)))) ?Q"
          by (rule triple_post [OF triple_bind [OF w_commit [OF calm] w_res_write [OF calm res_keeps_ops(3)]]]) auto
        then show ?thesis unfolding rid by (rule triple_pre) simp
      qed (auto simp: triple_def)
    qed
  qed (simp_all add: settled_at_def)
  show ?thesis
    unfolding abr_settle_def settled_at_def [symmetric]
    apply (rule triple_bind [OF job], rule triple_pure, simp, rule triple_bind [OF claim], rule triple_pure, simp)
    apply (rule triple_bind [OF w_settle_loc [OF calm c]], rule triple_bind [OF w_set_v], rule triple_bind [OF w_time])
    apply (rule close)
    done
qed

section \<open>Recovering the claim of a dispatched job\<close>

text \<open>From tick \<open>T\<close> on the broker's exchange reports the claim \<open>c\<close> for the job.\<close>

definition reports :: "env \<Rightarrow> nat \<Rightarrow> CreateJobResponseV2 \<Rightarrow> TerminalClaim \<Rightarrow> bool" where
  "reports E T j c \<longleftrightarrow> (\<forall>t \<ge> T. \<exists>h. brokerHTTP E t = Inr h \<and>
     LookupJobV2 (codecs E) h (job_RequestID j) '''' (job_WorkUnit j) (job_WorkID j) = Inr c)"

text \<open>The claim that the next attempt settles: the journaled one, else the reported one.\<close>

definition claim_known :: "env \<Rightarrow> nat \<Rightarrow> CreateJobResponseV2 \<Rightarrow> operationSecrets \<Rightarrow> TerminalClaim \<Rightarrow> bool" where
  "claim_known E T j s c \<longleftrightarrow> (case s_Claim s of Some c' \<Rightarrow> c' = c | None \<Rightarrow> s_DispatchAttempted s \<and> reports E T j c)"

definition with_claim :: "TerminalClaim \<Rightarrow> operationSecrets \<Rightarrow> operationSecrets" where
  "with_claim c s = s\<lparr>s_Claim := Some c\<rparr>"

lemma with_claim_simps [simp]: "s_Claim (with_claim c s) = Some c" "s_Job (with_claim c s) = s_Job s"
    "s_DispatchAttempted (with_claim c s) = s_DispatchAttempted s"
  and with_claim_id: "s_Claim s = Some c \<Longrightarrow> with_claim c s = s"
  by (simp_all add: with_claim_def)

lemma w_the_job: "s_Job s = Some j \<Longrightarrow>
    succeeds (engaged T i rid n s v r) the_job (\<lambda>y x. engaged T i rid n s v r x \<and> y = j)"
  unfolding the_job_def by (rule w_state) (simp add: triple_ret)

lemma w_bind_job:
  "s_Job s = Some j \<Longrightarrow> triple (engaged T i rid n s v r) (k j) Q R \<Longrightarrow>
   triple (engaged T i rid n s v r) (bindE the_job k) Q R"
  by (rule triple_bind [OF triple_weaken_error [OF w_the_job [of s j]]], assumption, rule triple_pure) simp

lemma w_link:
  assumes "calm E T i" and "s_Job s = Some j" and "job_WorkUnit j = ''video-frame-megapixel''"
  shows "succeeds (engaged T i rid n s v r) (abr_link E) (\<lambda>_. engaged T i rid n s v r)"
  unfolding abr_link_def
  by (rule w_bind_job [OF assms(2)]) (use assms in \<open>auto intro!: w_state w_res_write res_keeps_ops\<close>)

lemma w_lookup:
  assumes "reports E T j c"
  shows "succeeds (engaged T i rid n s v r) (lookup_job E j '''') (\<lambda>y x. engaged T i rid n s v r x \<and> y = c)"
proof -
  have "succeeds (engaged T i rid n s v r) (upcall E k (brokerHTTP E)) (\<lambda>h x. engaged T i rid n s v r x \<and>
      LookupJobV2 (codecs E) h (job_RequestID j) '''' (job_WorkUnit j) (job_WorkID j) = Inr c)" for k
    by (rule triple_post [OF w_upcall [where R = "\<lambda>_. False" and
          Q = "\<lambda>h. LookupJobV2 (codecs E) h (job_RequestID j) '''' (job_WorkUnit j) (job_WorkID j) = Inr c"]])
       (use assms in \<open>force simp: reports_def\<close>)+
  then show ?thesis
    unfolding lookup_job_def
    by (rule triple_bind) (rule triple_pure, simp add: lift_result_def triple_ret)
qed

lemma w_recover:
  assumes "s_Job s = Some j" and "claim_known E T j s c"
  shows "succeeds (engaged T i rid n s v r) (abr_recover E)
    (\<lambda>done x. engaged T i rid n (with_claim c s) v r x \<and> \<not> done)"
proof (cases "s_Claim s")
  case (Some c')
  with assms(2) have [simp]: "with_claim c s = s" by (simp add: claim_known_def with_claim_id)
  from Some show ?thesis
    unfolding abr_recover_eq
    by (intro w_bind_job [OF assms(1)] w_state) (simp add: triple_ret)
next
  case None
  with assms(2) have rep: "s_DispatchAttempted s" "reports E T j c" by (simp_all add: claim_known_def)
  have "succeeds (engaged T i rid n s v r) (attempt (lookup_job E j ''''))
      (\<lambda>a x. engaged T i rid n s v r x \<and> a = Inr c)"
    by (rule triple_attempt) (use w_lookup [OF rep(2)] in \<open>simp\<close>)
  moreover have "succeeds (engaged T i rid n s v r) (thenE (set_s (with_claim c)) (ret False))
      (\<lambda>done x. engaged T i rid n (with_claim c s) v r x \<and> \<not> done)"
    by (rule triple_bind [OF w_set_s]) (simp add: triple_ret)
  ultimately show ?thesis
    unfolding abr_recover_eq with_claim_def [symmetric]
    by (intro w_bind_job [OF assms(1)] w_state)
       (simp add: None rep, rule triple_bind, assumption, rule triple_pure, simp add: with_claim_def)
qed

lemma w_run_recorded:
  assumes calm: "calm E T i" and s: "s_Job s = Some j" and j: "job_WorkUnit j = ''video-frame-megapixel''"
    and c: "claim_known E T j s c" "settles E T j c"
  shows "succeeds (engaged T i rid n s v r) (runABR E) (\<lambda>_ x. \<exists>now. engaged T i rid
    (committed_view (Some (tc_ActualUnits c)) n) (with_claim c s) (settled_view c v) (settled_at now r) x)"
proof -
  let ?s = "with_claim c s"
  have auth: "succeeds (engaged T i rid n s v r) (abr_authorize E) (\<lambda>_. engaged T i rid n s v r)"
    unfolding abr_authorize_def by (intro w_state) (simp add: s triple_ret)
  have guard: "succeeds (engaged T i rid n ?s v r) abr_reject_guard (\<lambda>_. engaged T i rid n ?s v r)"
    unfolding abr_reject_guard_def by (intro w_state) (simp add: triple_ret)
  have disp: "succeeds (engaged T i rid n ?s v r) (abr_dispatch E) (\<lambda>_. engaged T i rid n ?s v r)"
    unfolding abr_dispatch_def by (rule w_bind_job [of _ j], simp add: s, rule w_state) (simp add: triple_ret)
  note tail = triple_bind [OF guard triple_bind [OF disp w_settle [OF calm _ _ c(2)]]]
  show ?thesis
    unfolding runABR_def
    by (intro triple_bind [OF auth] triple_bind [OF w_link [OF calm s j]] triple_bind [OF w_recover [OF s c(1)]] triple_pure)
       (simp add: tail s)
qed

lemma w_run_operation:
  assumes calm: "calm E T i" and kind: "op_Kind r = ''abr''"
    and run: "\<And>r'. op_Kind r' = ''abr'' \<Longrightarrow>
      succeeds (engaged T i rid n s v r') (runABR E) (\<lambda>_ x. \<exists>now. engaged T i rid n' s' v' (f now r') x)"
  shows "succeeds (engaged T i rid n s v r) (run_operation E)
    (\<lambda>_ x. \<exists>now. parked E T i rid n' s' v' (f now (r\<lparr>op_Attempts := wrap64 (op_Attempts r + 1), op_LastError := None\<rparr>)) x)"
proof -
  let ?r = "r\<lparr>op_Attempts := wrap64 (op_Attempts r + 1), op_LastError := None\<rparr>"
  have "succeeds (engaged T i rid n s v ?r) (with_state (\<lambda>x. if op_Kind (eo x) = ''abr'' then runABR E else runLive E))
      (\<lambda>_ x. \<exists>now. engaged T i rid n' s' v' (f now ?r) x)"
    by (rule w_state) (use run [of ?r] kind in simp)
  then have body: "succeeds (engaged T i rid n s v ?r) (attempt (with_state (\<lambda>x. if op_Kind (eo x) = ''abr'' then runABR E else runLive E)))
      (\<lambda>a x. (\<exists>now. engaged T i rid n' s' v' (f now ?r) x) \<and> a = Inr ())"
    by (intro triple_attempt) simp
  have save: "succeeds (\<lambda>x. \<exists>now. engaged T i rid n' s' v' (f now ?r) x) (save E) (\<lambda>_ x. \<exists>now. parked E T i rid n' s' v' (f now ?r) x)"
    by (intro triple_ex triple_post [OF w_save [OF calm]]) auto
  show ?thesis
    unfolding run_operation_def
    by (rule triple_bind [OF w_set_o], simp, simp, simp, rule triple_bind [OF body], rule triple_pure) (simp add: save)
qed

section \<open>An attempt that completes a recorded job\<close>

definition job_done :: "env \<Rightarrow> uuid \<Rightarrow> TerminalClaim \<Rightarrow> database \<Rightarrow> bool" where
  "job_done E i c d \<longleftrightarrow> (\<exists>r s v. OpGet i d = Some r \<and> op_FinishedAt r \<noteq> None \<and> op_State r = ''broker_settled'' \<and>
     decode E r = Inr (s, v) \<and> s_Claim s = Some c \<and> v_Phase v = ''finished'' \<and> v_ActualUnits v = Some (tc_ActualUnits c))"

lemma decode_stopped: "stopped_only r r' \<Longrightarrow> decode E r' = decode E r"
  by (auto dest!: stopped_only_fields simp: decode_def split: option.split)

lemma arrivals_OpGet:
  "OpGet i (edb x) = Some r \<Longrightarrow> \<exists>r'. OpGet i (edb (arrivals E x n)) = Some r' \<and> stopped_only r r'"
proof (induction n)
  case 0
  then show ?case by (simp add: arrivals_def stopped_only_refl)
next
  case (Suc n)
  then obtain r' where r': "OpGet i (edb (arrivals E x n)) = Some r'" "stopped_only r r'" by blast
  from OpGet_stops(2) [OF r'(1)] obtain r'' where "OpGet i (edb (arrivals E x (Suc n))) = Some r''" "stopped_only r' r''"
    by (auto simp: arrivals_def)
  with r'(2) show ?case by (blast intro: stopped_only_trans)
qed

lemma Process_enters:
  assumes calm: "calm E (tick x) i" and row: "OpGet i (edb x) = Some r" "op_FinishedAt r = None"
    and dec: "decode E r = Inr (s, v)"
  shows "\<exists>r'. stopped_only r r' \<and> OpGet i (edb (arrivals E x 3)) = Some r' \<and>
    Process E i x = run_operation E ((arrivals E x 3)\<lparr>eo := r', es := s, ev := v\<rparr>)"
proof -
  from arrivals_OpGet [OF row(1)] obtain r' where r': "OpGet i (edb (arrivals E x 3)) = Some r'" "stopped_only r r'" by blast
  have quiet: "dbFault E t = None" "waitFault E t = None" "i \<notin> set (lockedByOthers E t)" if "tick x \<le> t" for t
    using calm that by (auto simp: calm_def)
  have "acquire_slot E x = (Inr (), arrivals E x 1)"
    using quiet(2) [of "tick x"] by (simp add: acquire_slot_def wait_timer_def interact_def eng_simps arrivals_Suc)
  moreover have "lock_op E i (arrivals E x 1) = (Inr True, arrivals E x 2)"
    using quiet [of "tick x + 1"] arrivals_Suc(2) [of E x 1]
    by (simp add: lock_op_def interact_def eng_simps TryLock_def numeral_2_eq_2)
  moreover have "db_read E (OpGet i) (arrivals E x 2) = (Inr (Some r'), arrivals E x 3)"
    using quiet(1) [of "tick x + 2"] arrivals_Suc(2) [of E x 2] r'(1)
    by (simp add: db_read_def interact_def eng_simps numeral_3_eq_3)
  ultimately have "Process E i x = run_operation E ((arrivals E x 3)\<lparr>eo := r', es := s, ev := v\<rparr>)"
    using row(2) dec decode_stopped [OF r'(2), of E] stopped_only_fields [OF r'(2)]
    by (simp add: Process_def bindE_def load_operation_def modify_def)
  with r' show ?thesis by blast
qed

lemma decode_InrD: "decode E r = Inr (s, v) \<Longrightarrow>
    BoxOpen (boxKey E) (op_ID r) (op_Secrets r) = Some s \<and> s_CallerPublicKey s = signerPublicKey E \<and> v = op_PublicJSON r"
  by (auto simp: decode_def split: option.splits if_splits)

lemma settled_view_fields [simp]:
  "v_ActualUnits (settled_view c v) = Some (tc_ActualUnits c)" "v_Phase (settled_view c v) = ''finished''"
  by (simp_all add: settled_view_def Let_def)

lemma Process_completes:
  assumes calm: "calm E (tick x) i" and row: "OpGet i (edb x) = Some r" "op_FinishedAt r = None" "op_Kind r = ''abr''"
    and dec: "decode E r = Inr (s, v)"
    and job: "s_Job s = Some j" "job_WorkUnit j = ''video-frame-megapixel''"
    and claim: "claim_known E (tick x) j s c" "settles E (tick x) j c"
  shows "\<exists>y. Process E i x = (Inr (), y) \<and> job_done E i c (edb y) \<and>
    map_option res_view (GetByID (op_ReservationID r) (db_reservations (edb y))) =
      committed_view (Some (tc_ActualUnits c)) (map_option res_view (GetByID (op_ReservationID r) (db_reservations (edb x))))"
proof -
  let ?T = "tick x" and ?rid = "op_ReservationID r"
  let ?u = "map_option res_view (GetByID ?rid (db_reservations (edb x)))"
  from Process_enters [OF calm row(1,2) dec] obtain r' where r': "stopped_only r r'"
      "OpGet i (edb (arrivals E x 3)) = Some r'"
      "Process E i x = run_operation E ((arrivals E x 3)\<lparr>eo := r', es := s, ev := v\<rparr>)" by blast
  note f = stopped_only_fields [OF r'(1)]
  have start: "engaged ?T i ?rid ?u s v r' ((arrivals E x 3)\<lparr>eo := r', es := s, ev := v\<rparr>)"
    using r'(2) OpGet_ID [OF row(1)] f by (simp add: engaged_def)
  from succeedsD [OF w_run_operation [OF calm _ w_run_recorded [OF calm job claim]] start] f row(3) r'(3)
  obtain y now where y: "Process E i x = (Inr (), y)"
      "parked E ?T i ?rid (committed_view (Some (tc_ActualUnits c)) ?u) (with_claim c s) (settled_view c v)
        (settled_at now (r'\<lparr>op_Attempts := wrap64 (op_Attempts r' + 1), op_LastError := None\<rparr>)) y"
    by auto
  then obtain q m where q: "OpGet i (edb y) = Some q" "op_FinishedAt q = Some now" "op_State q = ''broker_settled''"
      "op_PublicJSON q = settled_view c v" "op_Secrets q = BoxSeal (boxKey E) m i (with_claim c s)"
    by (auto simp: parked_def saved_row_def settled_at_def)
  have "decode E q = Inr (with_claim c s, settled_view c v)"
    using q OpGet_ID [OF q(1)] decode_InrD [OF dec] by (simp add: decode_def box.open_seal with_claim_def)
  with q have "job_done E i c (edb y)" by (auto simp: job_done_def)
  with y show ?thesis by (auto simp: parked_def)
qed

section \<open>An attempt that LOC refuses\<close>

definition refunded_view :: "(ReservationState \<times> int option) option \<Rightarrow> (ReservationState \<times> int option) option" where
  "refunded_view = map_option (\<lambda>n. if fst n = ReservationOpen then (ReservationRefunded, snd n) else n)"

definition refused_at :: "time \<Rightarrow> operation \<Rightarrow> operation" where
  "refused_at now r = r\<lparr>op_State := ''issuance_refused'', op_FinishedAt := Some now\<rparr>"

definition refused_view :: "err \<Rightarrow> operationView \<Rightarrow> operationView" where
  "refused_view e v = v\<lparr>v_Status := ''failed'', v_FailureCode := safePaidError e\<rparr>"

lemma GetByID_Refund_view: "map_option res_view (GetByID rid (Refund t rid code msg tb)) =
    refunded_view (map_option res_view (GetByID rid tb))"
  by (cases "GetByID rid tb") (auto simp: GetByID_Refund res_view_def refund_row_def refunded_view_def)

lemma w_refund:
  assumes "calm E T i"
  shows "succeeds (engaged T i rid n s v r) (res_write E (\<lambda>t. Refund t rid code msg))
    (\<lambda>_. engaged T i rid (refunded_view n) s v r)"
  unfolding res_write_def
  using assms
  by (intro w_db_write) (simp_all add: OpGet_reservations GetByID_Refund_view del: option.map_disc_iff map_option_eq_Some)

lemma w_state_ids:
  assumes "\<And>x. eo x = r \<Longrightarrow> op_ReservationID r = rid \<Longrightarrow> triple (engaged T i rid n s v r) (k x) Q R"
  shows "triple (engaged T i rid n s v r) (with_state k) Q R"
proof (cases "op_ReservationID r = rid")
  case True
  then show ?thesis by (intro w_state assms)
next
  case False
  then show ?thesis by (simp add: triple_def engaged_def)
qed

lemma w_issuance_refused:
  assumes calm: "calm E T i" and e: "definitive_refusal e = Some code" and r: "op_Attempts r = 1" "op_LiveStreamID r = None"
  shows "triple (engaged T i rid n s v r) (issuanceFailure E e :: unit eng) (\<lambda>_ _. False)
    (\<lambda>e' x. (\<exists>now. engaged T i rid (refunded_view n) s (refused_view e v) (refused_at now r) x) \<and> e' = e)"
proof -
  let ?r = "r\<lparr>op_State := ''issuance_refused''\<rparr>" and ?v = "refused_view e v"
  let ?fin = "\<lambda>e' x. (\<exists>now. engaged T i rid (refunded_view n) s ?v (refused_at now r) x) \<and> e' = e"
  have last: "triple (engaged T i rid (refunded_view n) s ?v ?r) (thenE (set_o (\<lambda>o1. o1\<lparr>op_FinishedAt := Some now\<rparr>)) (throw e :: unit eng))
      (\<lambda>_ _. False) ?fin" for now
    by (rule triple_bind [OF triple_weaken_error [OF w_set_o]]) (auto simp: refused_at_def intro!: triple_throw)
  show ?thesis
    unfolding issuanceFailure_def
  proof (rule w_state_ids)
    fix x
    assume x: "eo x = r" "op_ReservationID r = rid"
    show "triple (engaged T i rid n s v r) (case definitive_refusal e of
       Some code \<Rightarrow>
         if op_Attempts (eo x) = 1 \<or> op_State (eo x) = ''issuance_refused'' then
           thenE (set_o (\<lambda>o1. o1\<lparr>op_State := ''issuance_refused''\<rparr>))
          (thenE (set_v (\<lambda>v. v\<lparr>v_Status := ''failed'', v_FailureCode := safePaidError e\<rparr>))
          (bindE (time_now E) (\<lambda>now.
           thenE (res_write E (\<lambda>t. Refund t (op_ReservationID (eo x)) code (safePaidError e)))
          (thenE (case op_LiveStreamID (eo x) of
                    None \<Rightarrow> ret ()
                  | Some lid \<Rightarrow> live_write E (\<lambda>t. Fail t lid (safePaidError e)))
          (thenE (set_o (\<lambda>o1. o1\<lparr>op_FinishedAt := Some now\<rparr>))
           (throw e :: unit eng))))))
         else throw e
     | None \<Rightarrow> throw e) (\<lambda>_ _. False) ?fin"
      by (simp add: e r x refused_view_def [symmetric],
          rule triple_bind [OF triple_weaken_error [OF w_set_o]], (simp; fail), (simp; fail), (simp; fail),
          rule triple_bind [OF triple_weaken_error [OF w_set_v]], rule triple_bind [OF triple_weaken_error [OF w_time]],
          rule triple_bind [OF triple_weaken_error [OF w_refund [OF calm]]],
          rule triple_bind [where M = "\<lambda>_. engaged T i rid (refunded_view n) s ?v ?r"], rule triple_ret, assumption, rule last)
  qed
qed

lemma triple_parked:
  assumes "\<And>q. op_Attempts q = op_Attempts r \<Longrightarrow> op_LiveStreamID q = op_LiveStreamID r \<Longrightarrow> triple (engaged T i rid n s v q) k Q R"
  shows "triple (parked E T i rid n s v r) k Q R"
  unfolding triple_def
proof (intro allI impI)
  fix x
  assume "parked E T i rid n s v r x"
  then obtain q where "op_Attempts q = op_Attempts r" "op_LiveStreamID q = op_LiveStreamID r" "engaged T i rid n s v q x"
    by (auto simp: parked_def)
  with assms [of q] show "case k x of (Inl e, y) \<Rightarrow> R e y | (Inr a, y) \<Rightarrow> Q a y" by (simp add: triple_def)
qed

text \<open>LOC refuses the job from tick \<open>T\<close> on with the status \<open>code\<close> of a definitive refusal.\<close>

definition refuses :: "env \<Rightarrow> nat \<Rightarrow> err \<Rightarrow> int \<Rightarrow> bool" where
  "refuses E T e code \<longleftrightarrow> (\<forall>t \<ge> T. locCreateJob E t = Inl e) \<and> definitive_refusal e = Some code"

definition refused_end :: "nat \<Rightarrow> uuid \<Rightarrow> uuid \<Rightarrow> (ReservationState \<times> int option) option \<Rightarrow> operationSecrets \<Rightarrow>
    operationView \<Rightarrow> err \<Rightarrow> estate \<Rightarrow> bool" where
  "refused_end T i rid n s v e x \<longleftrightarrow>
     (\<exists>r now. op_Attempts r = 1 \<and> engaged T i rid (refunded_view n) s (refused_view e v) (refused_at now r) x)"

lemma w_authorize_refused:
  assumes calm: "calm E T i" and i: "i \<noteq> ''''" and loc: "refuses E T e code" and s: "s_Job s = None"
    and r: "op_Attempts r = 1" "op_LiveStreamID r = None"
  shows "triple (engaged T i rid n s v r) (abr_authorize E) (\<lambda>_ _. False) (\<lambda>e' x. refused_end T i rid n s v e x \<and> e' = e)"
proof -
  let ?Q = "\<lambda>e' x. refused_end T i rid n s v e x \<and> e' = e"
  have ask: "triple (engaged T i rid n s v q) (with_state (\<lambda>x. bindE (attempt (CreateJobV2 (\<lambda>q. upcall E (CallCreateJob q) (locCreateJob E))
        (abr_create_request E x))) (\<lambda>a. case a of Inl e \<Rightarrow> issuanceFailure E e
          | Inr job \<Rightarrow> thenE (set_s (\<lambda>s. s\<lparr>s_Job := Some job\<rparr>))
             (thenE (set_o (\<lambda>o1. o1\<lparr>op_State := ''authorized''\<rparr>)) (save E))))) (\<lambda>_ _. False) ?Q"
    if q: "op_Attempts q = 1" "op_LiveStreamID q = None" for q
  proof (cases "op_ID q = i")
    case True
    have call: "triple (engaged T i rid n s v q) (upcall E c (locCreateJob E)) (\<lambda>_ _. False)
        (\<lambda>e' x. engaged T i rid n s v q x \<and> e' = e)" for c
      by (rule triple_post [OF w_upcall [where Q = "\<lambda>_. False" and R = "\<lambda>e'. e' = e"]])
         (use loc in \<open>auto simp: refuses_def\<close>)
    have "succeeds (engaged T i rid n s v q) (attempt (CreateJobV2 (\<lambda>q. upcall E (CallCreateJob q) (locCreateJob E)) (abr_create_request E x)))
        (\<lambda>a y. engaged T i rid n s v q y \<and> a = Inl e)" if "eo x = q" for x
      unfolding CreateJobV2_def issueV2_def using that True i
      by (intro triple_attempt triple_bind [where M = "\<lambda>_ _. False"])
         (simp_all add: abr_create_request_def call triple_def [where P = "\<lambda>_. False"])
    moreover have "triple (\<lambda>y. engaged T i rid n s v q y \<and> a = Inl e) (case a of Inl e \<Rightarrow> issuanceFailure E e
          | Inr job \<Rightarrow> thenE (set_s (\<lambda>s. s\<lparr>s_Job := Some job\<rparr>))
             (thenE (set_o (\<lambda>o1. o1\<lparr>op_State := ''authorized''\<rparr>)) (save E))) (\<lambda>_ _. False) ?Q" for a
    proof (rule triple_pure, simp)
      show "triple (engaged T i rid n s v q) (issuanceFailure E e :: unit eng) (\<lambda>_ _. False) ?Q"
        by (rule triple_post [OF w_issuance_refused [OF calm _ q]])
           (use loc q in \<open>auto simp: refuses_def refused_end_def\<close>)
    qed
    ultimately show ?thesis by (intro w_state triple_bind [OF triple_weaken_error])
  next
    case False
    then show ?thesis by (simp add: triple_def engaged_def)
  qed
  have "triple (parked E T i rid n s v (r\<lparr>op_State := ''authorizing''\<rparr>)) (with_state (\<lambda>x. bindE (attempt (CreateJobV2 (\<lambda>q. upcall E (CallCreateJob q) (locCreateJob E))
        (abr_create_request E x))) (\<lambda>a. case a of Inl e \<Rightarrow> issuanceFailure E e
          | Inr job \<Rightarrow> thenE (set_s (\<lambda>s. s\<lparr>s_Job := Some job\<rparr>))
             (thenE (set_o (\<lambda>o1. o1\<lparr>op_State := ''authorized''\<rparr>)) (save E))))) (\<lambda>_ _. False) ?Q"
    by (rule triple_parked, rule ask) (use r in simp_all)
  then show ?thesis
    unfolding abr_authorize_def
    by (intro w_state) (simp add: s, rule triple_bind [OF triple_weaken_error [OF w_set_o]], simp_all,
        rule triple_bind [OF triple_weaken_error [OF w_save [OF calm]]])
qed

definition refused_done :: "env \<Rightarrow> uuid \<Rightarrow> operationSecrets \<Rightarrow> operationView \<Rightarrow> database \<Rightarrow> bool" where
  "refused_done E i s v d \<longleftrightarrow> (\<exists>q. OpGet i d = Some q \<and> op_FinishedAt q \<noteq> None \<and> op_State q = ''issuance_refused'' \<and>
     decode E q = Inr (s, v))"

lemma triple_refused:
  assumes "\<And>q now. op_Attempts q = 1 \<Longrightarrow>
      triple (engaged T i rid (refunded_view n) s (refused_view e v) (refused_at now q)) k Q R"
  shows "triple (refused_end T i rid n s v e) k Q R"
  unfolding triple_def
proof (intro allI impI)
  fix x
  assume "refused_end T i rid n s v e x"
  then obtain q now where "op_Attempts q = 1" "engaged T i rid (refunded_view n) s (refused_view e v) (refused_at now q) x"
    by (auto simp: refused_end_def)
  with assms [of q now] show "case k x of (Inl e, y) \<Rightarrow> R e y | (Inr a, y) \<Rightarrow> Q a y" by (simp add: triple_def)
qed

lemma w_save_refused:
  assumes calm: "calm E T i" and key: "s_CallerPublicKey s = signerPublicKey E"
    and q: "op_FinishedAt q \<noteq> None" "op_State q = ''issuance_refused''"
  shows "succeeds (engaged T i rid n s v q) (save E)
    (\<lambda>_ x. refused_done E i s v (edb x) \<and> map_option res_view (GetByID rid (db_reservations (edb x))) = n)"
proof -
  have "refused_done E i s v (edb x)" if "saved_row E i s v q x" for x
  proof -
    from that obtain p m where p: "OpGet i (edb x) = Some p" "op_FinishedAt p = op_FinishedAt q" "op_State p = op_State q"
        "op_PublicJSON p = v" "op_Secrets p = BoxSeal (boxKey E) m i s"
      by (auto simp: saved_row_def)
    then have "decode E p = Inr (s, v)" using OpGet_ID [OF p(1)] key by (simp add: decode_def box.open_seal)
    with p q show ?thesis by (auto simp: refused_done_def)
  qed
  then show ?thesis by (intro triple_post [OF w_save [OF calm]]) (auto simp: parked_def)
qed

lemma bindE_assoc: "bindE (bindE m k) h = bindE m (\<lambda>y. bindE (k y) h)"
  by (rule ext) (simp add: bindE_def split: prod.split sum.split)

lemma w_record_refused:
  assumes calm: "calm E T i" and key: "s_CallerPublicKey s = signerPublicKey E"
  shows "succeeds (refused_end T i rid n s v e) (thenE (record_failure E e) (save E))
    (\<lambda>_ x. refused_done E i s (refused_view e v) (edb x) \<and>
       map_option res_view (GetByID rid (db_reservations (edb x))) = refunded_view n)"
proof (rule triple_refused)
  fix q now
  show "succeeds (engaged T i rid (refunded_view n) s (refused_view e v) (refused_at now q))
      (thenE (record_failure E e) (save E)) (\<lambda>_ x. refused_done E i s (refused_view e v) (edb x) \<and>
       map_option res_view (GetByID rid (db_reservations (edb x))) = refunded_view n)"
    unfolding record_failure_def bindE_assoc
    by (rule triple_bind [OF w_time], rule triple_bind [OF w_set_o])
       (simp_all add: refused_at_def w_save_refused [OF calm key])
qed

text \<open>C5: a definitive refusal ends the operation at once and costs nothing. When the database works and LOC
  refuses the first attempt on an ABR operation with a definitive status, the attempt returns LOC's
  error, and the operation is finished as refused: its view says failed with the bounded code of the
  error, its journal still opens, and its reservation, when it was open, is refunded.\<close>

theorem refused_job_ends:
  assumes "calm E (tick x) i" and "i \<noteq> ''''" and "OpGet i (edb x) = Some r" and "op_FinishedAt r = None" and "op_Kind r = ''abr''"
    and "op_Attempts r = 0" and "op_LiveStreamID r = None" and "decode E r = Inr (s, v)" and "s_Job s = None"
    and "refuses E (tick x) e code"
  shows "\<exists>y. Process E i x = (Inl e, y) \<and> refused_done E i s (refused_view e v) (edb y) \<and>
    map_option res_view (GetByID (op_ReservationID r) (db_reservations (edb y))) =
      refunded_view (map_option res_view (GetByID (op_ReservationID r) (db_reservations (edb x))))"
proof -
  let ?T = "tick x" and ?rid = "op_ReservationID r" and ?r = "\<lambda>r'. r'\<lparr>op_Attempts := wrap64 (op_Attempts r' + 1), op_LastError := None\<rparr>"
  let ?u = "map_option res_view (GetByID ?rid (db_reservations (edb x)))"
  let ?goal_state = "\<lambda>x. refused_done E i s (refused_view e v) (edb x) \<and>
       map_option res_view (GetByID ?rid (db_reservations (edb x))) = refunded_view ?u"
  from Process_enters [OF assms(1,3,4,8)] obtain r' where r': "stopped_only r r'"
      "OpGet i (edb (arrivals E x 3)) = Some r'"
      "Process E i x = run_operation E ((arrivals E x 3)\<lparr>eo := r', es := s, ev := v\<rparr>)" by blast
  have f: "op_Kind r' = ''abr''" "op_Attempts r' = 0" "op_LiveStreamID r' = None" "op_ReservationID r' = ?rid" "op_ID r' = i"
    using stopped_only_fields [OF r'(1)] r'(1) assms(5-7) OpGet_ID [OF assms(3)] by (cases r, cases r', simp_all add: stopped_only_def)+
  have wrap: "wrap64 1 = 1" by code_simp
  have key: "s_CallerPublicKey s = signerPublicKey E" using decode_InrD [OF assms(8)] by simp
  have start: "engaged ?T i ?rid ?u s v r' ((arrivals E x 3)\<lparr>eo := r', es := s, ev := v\<rparr>)"
    using r'(2) f by (simp add: engaged_def)
  let ?body = "with_state (\<lambda>x. if op_Kind (eo x) = ''abr'' then runABR E else runLive E)"
  have "triple (engaged ?T i ?rid ?u s v (?r r')) (runABR E) (\<lambda>_ _. False) (\<lambda>e' x. refused_end ?T i ?rid ?u s v e x \<and> e' = e)"
    unfolding runABR_def
    by (rule triple_bind [OF w_authorize_refused [OF assms(1,2,10,9)]]) (simp_all add: f wrap triple_def)
  then have "triple (engaged ?T i ?rid ?u s v (?r r')) ?body (\<lambda>_ _. False) (\<lambda>e' x. refused_end ?T i ?rid ?u s v e x \<and> e' = e)"
    by (intro w_state) (simp add: f)
  then have body: "succeeds (engaged ?T i ?rid ?u s v (?r r')) (attempt ?body) (\<lambda>a x. refused_end ?T i ?rid ?u s v e x \<and> a = Inl e)"
    by (intro triple_attempt) (auto elim: triple_post)
  have tail: "triple (refused_end ?T i ?rid ?u s v e) (thenE (record_failure E e) (thenE (save E) (throw e :: unit eng)))
      (\<lambda>_ _. False) (\<lambda>e' x. ?goal_state x \<and> e' = e)"
    unfolding bindE_assoc [symmetric]
    by (rule triple_bind [OF triple_weaken_error [OF w_record_refused [OF assms(1) key]]]) (simp add: triple_throw)
  have "triple (engaged ?T i ?rid ?u s v r') (run_operation E) (\<lambda>_ _. False) (\<lambda>e' x. ?goal_state x \<and> e' = e)"
    unfolding run_operation_def
    by (rule triple_bind [OF triple_weaken_error [OF w_set_o]], (simp; fail), (simp; fail), (simp; fail),
        rule triple_bind [OF triple_weaken_error [OF body]], rule triple_pure, simp add: tail [unfolded conj_assoc])
  with start show ?thesis
    unfolding r'(3)
    by (cases "run_operation E ((arrivals E x 3)\<lparr>eo := r', es := s, ev := v\<rparr>)"; cases "fst (run_operation E ((arrivals E x 3)\<lparr>eo := r', es := s, ev := v\<rparr>))")
       (force simp: triple_def)+
qed

definition abr_row :: operation where
  "abr_row = sample_row\<lparr>op_Kind := ''abr'', op_LiveStreamID := None\<rparr>"

definition no_funds :: APIError where
  "no_funds = \<lparr>ae_StatusCode = 402, ae_Code = ''insufficient_funds'', ae_Message = '''', ae_Details = [], ae_RetryAfter = 0\<rparr>"

theorem refused_job_ends_witness:
  "\<exists>y. Process ((sample_env ''wrap'')\<lparr>locCreateJob := \<lambda>_. Inl (LocErr no_funds)\<rparr>) ''op'' (sample_state abr_row) =
       (Inl (LocErr no_funds), y) \<and>
     map_option res_view (GetByID ''res'' (db_reservations (edb y))) = Some (ReservationRefunded, None)"
proof -
  let ?e = "LocErr no_funds" and ?x = "sample_state abr_row"
  let ?E = "(sample_env ''wrap'')\<lparr>locCreateJob := \<lambda>_. Inl ?e\<rparr>"
  have row: "op_ID abr_row = ''op''" "op_FinishedAt abr_row = None" "op_Kind abr_row = ''abr''" "op_Attempts abr_row = 0"
      "op_LiveStreamID abr_row = None" "op_ReservationID abr_row = ''res''" "OpGet ''op'' (edb ?x) = Some abr_row"
    by (simp_all add: abr_row_def) (simp_all add: sample_row_def)
  have dec: "decode ?E abr_row = Inr (sample_secrets, sample_view)"
    by (simp add: abr_row_def decode_def sample_env_def box.open_seal) (simp add: sample_secrets_def sample_row_def)
  have calm: "calm ?E (tick ?x) ''op''" by (simp add: calm_def sample_env_def)
  have loc: "refuses ?E (tick ?x) ?e 402" by (simp add: refuses_def definitive_refusal_def no_funds_def)
  have res: "map_option res_view (GetByID ''res'' (db_reservations (edb ?x))) = Some (ReservationOpen, None)"
    by (simp add: sample_state_def sample_db_def GetByID_def res_view_def) (simp add: fresh_reservation_def)
  have "s_Job sample_secrets = None" by (simp add: sample_secrets_def)
  from refused_job_ends [OF calm _ row(7,2-5) dec this loc] show ?thesis
    unfolding row(6) res by (auto simp: refunded_view_def)
qed

end
