(* ===== verification/Engine_Recorded.thy ===== *)
theory Engine_Recorded
  imports Engine_Progress
begin

text \<open>
  The path of an ABR job from admission to settlement over any number of attempts: a job that LOC
  granted is journaled before it is dispatched, every later attempt keeps it, and the first one that
  finds the world answering completes it (Engine\_Progress).
\<close>

section \<open>A recorded job is never forgotten\<close>

definition job_recorded :: "env \<Rightarrow> uuid \<Rightarrow> CreateJobResponseV2 \<Rightarrow> database \<Rightarrow> bool" where
  "job_recorded E i j d \<longleftrightarrow> (\<exists>r. OpGet i d = Some r \<and> op_Kind r = ''abr'' \<and> (op_FinishedAt r = None \<longrightarrow>
     (\<exists>s v. decode E r = Inr (s, v) \<and> s_Job s = Some j \<and> s_DispatchAttempted s)))"

text \<open>The reservation of the operation is there and has not been refunded.\<close>

definition held :: "uuid \<Rightarrow> reservations \<Rightarrow> bool" where
  "held rid t \<longleftrightarrow> (\<exists>u. GetByID rid t = Some u \<and> ur_State u \<noteq> ReservationRefunded)"

definition keeps_held :: "(reservations \<Rightarrow> reservations) \<Rightarrow> bool" where
  "keeps_held f \<longleftrightarrow> (\<forall>rid t. held rid t \<longrightarrow> held rid (f t))"

lemma held_case: "held rid t \<longleftrightarrow> (case GetByID rid t of None \<Rightarrow> False | Some u \<Rightarrow> ur_State u \<noteq> ReservationRefunded)"
  by (auto simp: held_def split: option.split)

lemma keeps_held_ops [simp]:
  "keeps_held (Commit t k c)" "keeps_held (MarkSettled t k billed st)" "keeps_held (SetLOCJob w l lw fu ex)"
  "keeps_held (RecordRunnerWebhook w u)"
  by (auto simp: keeps_held_def held_case GetByID_updates commit_row_def settled_row_def loc_job_row_def runner_row_def
      split: option.splits)

lemma held_view: "map_option res_view (GetByID rid t) = Some n \<Longrightarrow> fst n \<noteq> ReservationRefunded \<Longrightarrow> held rid t"
  by (auto simp: held_def res_view_def)

definition rec_inv :: "env \<Rightarrow> uuid \<Rightarrow> uuid \<Rightarrow> CreateJobResponseV2 \<Rightarrow> estate \<Rightarrow> bool" where
  "rec_inv E i rid j x \<longleftrightarrow> op_ID (eo x) = i \<and> op_Kind (eo x) = ''abr'' \<and> s_Job (es x) = Some j \<and>
     s_DispatchAttempted (es x) \<and> s_CallerPublicKey (es x) = signerPublicKey E \<and> job_recorded E i j (edb x) \<and>
     held rid (db_reservations (edb x))"

lemma job_recorded_stops: "job_recorded E i j d \<Longrightarrow> job_recorded E i j (fold (RequestStop now) is d)"
  using OpGet_stops(2) [of i d _ now "is"] decode_stopped [of _ _ E]
  by (fastforce simp: job_recorded_def dest: stopped_only_fields)

lemma job_recorded_reservations [simp]: "job_recorded E i j (d\<lparr>db_reservations := t\<rparr>) = job_recorded E i j d"
  by (simp add: job_recorded_def OpGet_def)

abbreviation keeps_job :: "env \<Rightarrow> uuid \<Rightarrow> uuid \<Rightarrow> CreateJobResponseV2 \<Rightarrow> 'a eng \<Rightarrow> bool" where
  "keeps_job E i rid j \<equiv> keeps (rec_inv E i rid j) (\<lambda>_. True)"

lemma kj_o: "(\<And>r. op_ID (f r) = op_ID r \<and> op_Kind (f r) = op_Kind r) \<Longrightarrow> keeps_job E i rid j (set_o f)"
  unfolding set_o_def by (rule keeps_modify) (simp add: rec_inv_def)

lemma kj_s: "(\<And>s. s_Job (f s) = s_Job s \<and> s_CallerPublicKey (f s) = s_CallerPublicKey s \<and>
    (s_DispatchAttempted s \<longrightarrow> s_DispatchAttempted (f s))) \<Longrightarrow> keeps_job E i rid j (set_s f)"
  unfolding set_s_def by (rule keeps_modify) (simp add: rec_inv_def)

lemma kj_v: "keeps_job E i rid j (set_v f)"
  unfolding set_v_def by (rule keeps_modify) (simp add: rec_inv_def)

lemma kj_last: "keeps_job E i rid j (modify (\<lambda>y. y\<lparr>lastSaved := n\<rparr>))"
  by (rule keeps_modify) (simp add: rec_inv_def)

lemma kj_arrive: "rec_inv E i rid j x \<Longrightarrow> rec_inv E i rid j (arrive E t x)"
  by (simp add: rec_inv_def job_recorded_stops)

lemma kj_interact: "(\<And>t. keeps_job E i rid j (k t)) \<Longrightarrow> keeps_job E i rid j (interact E k)"
  by (simp add: keeps_def triple_def interact_def kj_arrive)

lemma kj_lift: "keeps_job E i rid j (lift_result a)"
  by (cases a) (simp_all add: lift_result_def keeps_throw)

lemma kj_upcall: "keeps_job E i rid j (upcall E c a)"
  unfolding upcall_def log_call_def
  by (intro kj_interact keeps_bind kj_lift keeps_modify) (simp add: rec_inv_def)

lemma kj_time: "keeps_job E i rid j (time_now E)"
  unfolding time_now_def by (intro keeps_state) simp

lemma kj_wait: "keeps_job E i rid j (wait_timer E d)"
  unfolding wait_timer_def by (intro kj_interact) (simp add: keeps_throw split: option.split)

lemma kj_res_write:
  assumes "\<And>t. keeps_held (f t)"
  shows "keeps_job E i rid j (res_write E f)"
proof -
  have "keeps_job E i rid j (db_apply (\<lambda>d. d\<lparr>db_reservations := f t (db_reservations d)\<rparr>))" for t
    unfolding db_apply_def by (rule keeps_modify) (use assms in \<open>simp add: rec_inv_def keeps_held_def\<close>)
  then show ?thesis
    unfolding res_write_def db_write_def
    by (intro kj_interact) (auto intro!: keeps_bind keeps_throw split: option.split db_fault.split)
qed

lemma job_recorded_save:
  assumes "BoxOpen (boxKey E) i (op_Secrets r) = Some s" "s_CallerPublicKey s = signerPublicKey E"
    and "s_Job s = Some j" "s_DispatchAttempted s" "op_ID r = i" "job_recorded E i j d"
  shows "job_recorded E i j (OpSave t r d)"
proof -
  from assms(6) obtain q where q: "OpGet i d = Some q" "op_Kind q = ''abr''" by (auto simp: job_recorded_def)
  then have "OpGet i (OpSave t r d) = Some (save_row t r q)" using assms(5) by (simp add: OpGet_OpSave)
  moreover have "decode E (save_row t r q) = Inr (s, op_PublicJSON r)"
    using OpGet_ID [OF q(1)] assms by (simp add: decode_def save_row_def)
  ultimately show ?thesis using assms(3,4) q(2) by (auto simp: job_recorded_def save_row_def)
qed

lemma kj_save: "keeps_job E i rid j (save E)"
proof -
  let ?P = "\<lambda>x. rec_inv E i rid j x \<and> BoxOpen (boxKey E) i (op_Secrets (eo x)) = Some (es x)"
  have seal: "triple (rec_inv E i rid j) (seal E) (\<lambda>_. ?P) (\<lambda>_. rec_inv E i rid j)"
    by (auto simp: triple_def seal_def set_o_def eng_simps rec_inv_def box.open_seal split: option.split)
  have upd: "keeps ?P (\<lambda>_. True) (db_apply (OpSave t r))" if "op_ID r = i" "op_Kind r = ''abr''"
      "BoxOpen (boxKey E) i (op_Secrets r) = Some s" "s_CallerPublicKey s = signerPublicKey E"
      "s_Job s = Some j" "s_DispatchAttempted s" for t r s
    unfolding db_apply_def
    by (rule keeps_modify) (use that in \<open>auto simp: rec_inv_def intro: job_recorded_save\<close>)
  have inter: "(\<And>t. keeps ?P (\<lambda>_. True) (k t)) \<Longrightarrow> keeps ?P (\<lambda>_. True) (interact E k)" for k :: "nat \<Rightarrow> unit eng"
    by (simp add: keeps_def triple_def interact_def kj_arrive)
  have "keeps ?P (\<lambda>_. True) (lock_save E)"
    unfolding lock_save_def
  proof (rule keeps_state)
    fix x
    assume "?P x"
    then have "keeps ?P (\<lambda>_. True) (db_apply (OpSave t (eo x)))" for t
      by (intro upd [where s = "es x"]) (auto simp: rec_inv_def)
    then show "keeps ?P (\<lambda>_. True) (db_write E (\<lambda>t. OpSave t (eo x)))"
      unfolding db_write_def
      by (intro inter) (auto intro!: keeps_bind keeps_throw split: option.split db_fault.split)
  qed
  then have "triple ?P (lock_save E) (\<lambda>_. rec_inv E i rid j) (\<lambda>_. rec_inv E i rid j)"
    unfolding keeps_def by (rule triple_post) auto
  then show ?thesis unfolding save_def keeps_def by (intro triple_bind [OF triple_post [OF seal]]) auto
qed

lemma kj_retry: "keeps_job E i rid j call \<Longrightarrow> keeps_job E i rid j (doJSONRetry call (wait_timer E) b k)"
proof (induction k arbitrary: b)
  case (Suc k)
  note rec = Suc.IH [OF Suc.prems]
  show ?case
    unfolding doJSONRetry.simps
    by (intro keeps_attempt [OF Suc.prems] keeps_sum keeps_if keeps_throw TrueI keeps_bind kj_wait rec keeps_ret)
qed simp

lemmas kj_basic = kj_o kj_s kj_v kj_last kj_lift kj_upcall kj_time kj_wait kj_res_write kj_save kj_retry keeps_ret keeps_held_ops
  keeps_throw [where G = "\<lambda>_. True", OF TrueI]

lemma kj_parts:
  "keeps_job E i rid j the_job" "keeps_job E i rid j the_claim" "keeps_job E i rid j (auth E q a w)"
  "keeps_job E i rid j (mark_settled E billed)" "keeps_job E i rid j (lookup_job E k jid)" "keeps_job E i rid j abr_reject_guard"
  unfolding the_job_def the_claim_def auth_def mark_settled_def lookup_job_def abr_reject_guard_def
  by (intro keeps_rules kj_basic)+

lemma kj_on_event: "keeps_job E i rid j (abr_on_event E e)"
  unfolding abr_on_event_def Let_def by (intro keeps_rules kj_basic)

lemma kj_sse_dispatch: "(\<And>e. keeps_job E i rid j (cb e)) \<Longrightarrow> keeps_job E i rid j (sse_dispatch cb w data)"
  unfolding sse_dispatch_def by (intro keeps_rules kj_basic) auto

lemma kj_sse_loop: "(\<And>e. keeps_job E i rid j (cb e)) \<Longrightarrow> keeps_job E i rid j (readSSE_loop cb err ls w data)"
  by (induction cb err ls w data rule: readSSE_loop.induct)
     (auto simp: Let_def intro!: keeps_bind kj_sse_dispatch kj_basic split: option.split prod.split)

lemma kj_readSSE: "(\<And>e. keeps_job E i rid j (cb e)) \<Longrightarrow> keeps_job E i rid j (readSSE cb ls err)"
  by (rule readSSE_cases; rule kj_sse_loop)

lemma kj_submit:
  assumes "keeps_job E i rid j post" "\<And>jid. keeps_job E i rid j (lookup jid)" "\<And>e. keeps_job E i rid j (cb e)"
  shows "keeps_job E i rid j (SubmitJobV2 C a u post lookup cb)"
  unfolding SubmitJobV2_def Let_def
  by (intro keeps_rules kj_basic kj_readSSE assms)

lemma kj_dispatch: "keeps_job E i rid j (abr_dispatch E)"
  unfolding abr_dispatch_def
  by (intro keeps_rules kj_basic kj_parts kj_submit kj_on_event) simp_all

lemma kj_link: "keeps_job E i rid j (abr_link E)"
  unfolding abr_link_def by (intro keeps_rules kj_basic kj_parts)

lemma kj_authorize: "keeps_job E i rid j (abr_authorize E)"
  unfolding abr_authorize_def by (intro keeps_state) (simp add: rec_inv_def)

lemma kj_adopt: "keeps_job E i rid j (abr_adopt_loc_final E k st)"
  unfolding abr_adopt_loc_final_eq by (intro keeps_rules kj_basic) simp

lemma kj_recover: "keeps_job E i rid j (abr_recover E)"
  unfolding abr_recover_eq
  by (intro keeps_rules kj_basic kj_parts kj_adopt) simp

lemma kj_settle_loc: "keeps_job E i rid j (abr_settle_loc E k c)"
  unfolding abr_settle_loc_eq SettleJobV2_def
  by (intro keeps_rules kj_basic kj_parts)

lemma kj_settle: "keeps_job E i rid j (abr_settle E)"
  unfolding abr_settle_def by (intro keeps_rules kj_basic kj_parts kj_settle_loc) simp

lemma kj_run: "keeps_job E i rid j (runABR E)"
  unfolding runABR_def
  by (intro keeps_rules kj_basic kj_parts kj_authorize kj_link kj_recover kj_dispatch kj_settle)

lemma kj_run_operation: "keeps_job E i rid j (run_operation E)"
proof -
  have run: "keeps_job E i rid j (with_state (\<lambda>x. if op_Kind (eo x) = ''abr'' then runABR E else runLive E))"
    by (rule keeps_state) (simp add: rec_inv_def kj_run)
  show ?thesis
    unfolding run_operation_def record_failure_def
    by (intro keeps_attempt [OF run] keeps_rules kj_basic) simp_all
qed

lemma Process_keeps_job:
  assumes "job_recorded E i j (edb x)" and "held rid (db_reservations (edb x))"
  shows "job_recorded E i j (edb (snd (Process E i x))) \<and> held rid (db_reservations (edb (snd (Process E i x))))"
proof -
  have arr: "job_recorded E i j (edb (arrivals E x n)) \<and> held rid (db_reservations (edb (arrivals E x n)))" for n
    using assms by (induction n) (simp_all add: arrivals_def job_recorded_stops)
  show ?thesis
  proof (rule Process_cases, goal_cases)
    case (1 n)
    show ?case by (rule arr)
  next
    case (2 r e)
    with arr [of 3] show ?case by (auto simp: job_recorded_def)
  next
    case (3 r s v)
    with arr [of 3] have "rec_inv E i rid j ((arrivals E x 3)\<lparr>eo := r, es := s, ev := v\<rparr>)"
      using OpGet_ID [OF 3(1)] decode_InrD [OF 3(3)] by (auto simp: rec_inv_def job_recorded_def)
    from keepsD [OF kj_run_operation this] show ?case by (simp add: rec_inv_def)
  qed
qed

section \<open>A granted job is recorded before it is dispatched\<close>

text \<open>An ABR operation as admitted: nothing authorized or dispatched yet.\<close>

definition fresh_job :: "env \<Rightarrow> uuid \<Rightarrow> operation \<Rightarrow> operationSecrets \<Rightarrow> operationView \<Rightarrow> database \<Rightarrow> bool" where
  "fresh_job E i r s v d \<longleftrightarrow> OpGet i d = Some r \<and> i \<noteq> '''' \<and> op_FinishedAt r = None \<and> op_Kind r = ''abr'' \<and>
     decode E r = Inr (s, v) \<and> s_Job s = None \<and> s_Claim s = None \<and> \<not> s_DispatchAttempted s \<and>
     v_Status v \<noteq> ''admission_rejected'' \<and>
     (\<exists>u. GetByID (op_ReservationID r) (db_reservations d) = Some u \<and> ur_State u = ReservationOpen)"

text \<open>From tick \<open>T\<close> on LOC grants the job \<open>j\<close> with the ABR work unit, and the signer signs it.\<close>

definition grants :: "env \<Rightarrow> nat \<Rightarrow> CreateJobResponseV2 \<Rightarrow> bool" where
  "grants E T j \<longleftrightarrow> (\<forall>t \<ge> T. locCreateJob E t = Inr j) \<and> job_WorkUnit j = ''video-frame-megapixel'' \<and>
     (\<forall>q. cj_Transport q = ''stream'' \<longrightarrow> job_response_ok q j) \<and> (\<exists>p. signerProof E (job_SpendAuthorization j) = Inr p)"

definition with_job :: "CreateJobResponseV2 \<Rightarrow> operationSecrets \<Rightarrow> operationSecrets" where
  "with_job j s = s\<lparr>s_Job := Some j\<rparr>"

definition dispatched :: "operationSecrets \<Rightarrow> operationSecrets" where
  "dispatched s = s\<lparr>s_DispatchAttempted := True\<rparr>"

lemma with_job_simps [simp]: "s_Job (with_job j s) = Some j" "s_Claim (with_job j s) = s_Claim s"
    "s_DispatchAttempted (with_job j s) = s_DispatchAttempted s" "s_CallerPublicKey (with_job j s) = s_CallerPublicKey s"
    "s_Job (dispatched s) = s_Job s" "s_DispatchAttempted (dispatched s)"
    "s_CallerPublicKey (dispatched s) = s_CallerPublicKey s"
  by (simp_all add: with_job_def dispatched_def)

lemma parked_engaged: "parked E T i rid n s v r x \<Longrightarrow>
    \<exists>r'. engaged T i rid n s v r' x \<and> op_Kind r' = op_Kind r"
  by (auto simp: parked_def)

lemma parked_recorded:
  assumes "parked E T i rid (Some n) s v r x" and "op_Kind r = ''abr''"
    and "s_CallerPublicKey s = signerPublicKey E" and "s_Job s = Some j" and "s_DispatchAttempted s"
    and "fst n \<noteq> ReservationRefunded"
  shows "rec_inv E i rid j x"
proof -
  from assms(1) obtain q m r' where q: "OpGet i (edb x) = Some q" "op_Secrets q = BoxSeal (boxKey E) m i s"
      and r': "engaged T i rid (Some n) s v r' x" "op_Kind r' = op_Kind r"
    by (auto simp: parked_def saved_row_def)
  have "decode E q = Inr (s, op_PublicJSON q)"
    using q OpGet_ID [OF q(1)] assms(3) by (simp add: decode_def box.open_seal)
  with assms(2,4,5) q r' have "job_recorded E i j (edb x)" by (auto simp: job_recorded_def engaged_def)
  moreover have "held rid (db_reservations (edb x))"
    by (rule held_view [OF _ assms(6)]) (use r'(1) in \<open>unfold engaged_def, blast\<close>)
  ultimately show ?thesis using r' assms(2-5) by (auto simp: rec_inv_def engaged_def)
qed

definition some_engaged :: "nat \<Rightarrow> uuid \<Rightarrow> uuid \<Rightarrow> (ReservationState \<times> int option) option \<Rightarrow> operationSecrets \<Rightarrow>
    operationView \<Rightarrow> estate \<Rightarrow> bool" where
  "some_engaged T i rid n s v x \<longleftrightarrow> (\<exists>r. op_Kind r = ''abr'' \<and> op_FinishedAt r = None \<and> engaged T i rid n s v r x)"

lemma some_engagedI: "engaged T i rid n s v r x \<Longrightarrow> op_Kind r = ''abr'' \<Longrightarrow> op_FinishedAt r = None \<Longrightarrow>
    some_engaged T i rid n s v x"
  by (auto simp: some_engaged_def)

lemma triple_some: "(\<And>r. op_Kind r = ''abr'' \<Longrightarrow> op_FinishedAt r = None \<Longrightarrow> triple (engaged T i rid n s v r) m Q R) \<Longrightarrow>
    triple (some_engaged T i rid n s v) m Q R"
  unfolding triple_def [of "some_engaged T i rid n s v"] some_engaged_def
proof (intro allI impI, elim exE conjE)
  fix x r
  assume hyp: "\<And>r. op_Kind r = ''abr'' \<Longrightarrow> op_FinishedAt r = None \<Longrightarrow> triple (engaged T i rid n s v r) m Q R"
    and r: "op_Kind r = ''abr''" "op_FinishedAt r = None" and x: "engaged T i rid n s v r x"
  from hyp [OF r] x show "case m x of (Inl e, y) \<Rightarrow> R e y | (Inr a, y) \<Rightarrow> Q a y" by (simp add: triple_def)
qed

lemma w_save_some:
  assumes "calm E T i" and "op_Kind r = ''abr''" and "op_FinishedAt r = None"
  shows "succeeds (engaged T i rid n s v r) (save E) (\<lambda>_. some_engaged T i rid n s v)"
  by (rule triple_post [OF w_save [OF assms(1)]])
     (use assms(2,3) in \<open>auto simp: some_engaged_def parked_def\<close>)

lemma w_authorize:
  assumes calm: "calm E T i" and i: "i \<noteq> ''''" and loc: "grants E T j" and s: "s_Job s = None"
    and kind: "op_Kind r = ''abr''" "op_FinishedAt r = None"
  shows "succeeds (engaged T i rid n s v r) (abr_authorize E) (\<lambda>_. some_engaged T i rid n (with_job j s) v)"
proof -
  let ?post = "\<lambda>x. CreateJobV2 (\<lambda>q. upcall E (CallCreateJob q) (locCreateJob E)) (abr_create_request E x)"
  have ask: "succeeds (engaged T i rid n s v q) (attempt (?post x)) (\<lambda>a y. engaged T i rid n s v q y \<and> a = Inr j)"
    if "eo x = q" "op_ID q = i" for x q
  proof -
    have "succeeds (engaged T i rid n s v q) (upcall E c (locCreateJob E)) (\<lambda>a y. engaged T i rid n s v q y \<and> a = j)" for c
      by (rule triple_post [OF w_upcall [where R = "\<lambda>_. False" and Q = "\<lambda>a. a = j"]])
         (use loc in \<open>auto simp: grants_def\<close>)
    then have "succeeds (engaged T i rid n s v q) (?post x) (\<lambda>a y. engaged T i rid n s v q y \<and> a = j)"
      unfolding CreateJobV2_def issueV2_def using loc i that
      by (intro triple_bind [where M = "\<lambda>a y. engaged T i rid n s v q y \<and> a = j"])
         (auto simp: abr_create_request_def grants_def intro!: triple_pure triple_ret)
    then show ?thesis by (intro triple_attempt) simp
  qed
  have store: "succeeds (engaged T i rid n s v q) (thenE (set_s (\<lambda>s. s\<lparr>s_Job := Some j\<rparr>))
      (thenE (set_o (\<lambda>o1. o1\<lparr>op_State := ''authorized''\<rparr>)) (save E)))
      (\<lambda>_. some_engaged T i rid n (with_job j s) v)" if "op_Kind q = ''abr''" "op_FinishedAt q = None" for q
    unfolding with_job_def
    by (rule triple_bind [OF w_set_s], rule triple_bind [OF w_set_o]) (simp_all add: w_save_some [OF calm] that)
  have "succeeds (engaged T i rid n s v q) (with_state (\<lambda>x. bindE (attempt (?post x)) (\<lambda>a. case a of
            Inl e \<Rightarrow> issuanceFailure E e
          | Inr job \<Rightarrow> thenE (set_s (\<lambda>s. s\<lparr>s_Job := Some job\<rparr>))
             (thenE (set_o (\<lambda>o1. o1\<lparr>op_State := ''authorized''\<rparr>)) (save E)))))
      (\<lambda>_. some_engaged T i rid n (with_job j s) v)" if k: "op_Kind q = ''abr''" "op_FinishedAt q = None" for q
  proof (cases "op_ID q = i")
    case True
    show ?thesis
      by (rule w_state, rule triple_bind [OF ask], assumption, rule True, rule triple_pure) (simp add: store k)
  next
    case False
    then show ?thesis by (simp add: triple_def engaged_def)
  qed
  then have ask_some: "succeeds (some_engaged T i rid n s v) (with_state (\<lambda>x. bindE (attempt (?post x)) (\<lambda>a. case a of
            Inl e \<Rightarrow> issuanceFailure E e
          | Inr job \<Rightarrow> thenE (set_s (\<lambda>s. s\<lparr>s_Job := Some job\<rparr>))
             (thenE (set_o (\<lambda>o1. o1\<lparr>op_State := ''authorized''\<rparr>)) (save E)))))
      (\<lambda>_. some_engaged T i rid n (with_job j s) v)" by (rule triple_some)
  show ?thesis
    unfolding abr_authorize_def
    by (rule w_state, simp add: s, rule triple_bind [OF w_set_o], simp_all)
       (rule triple_bind [OF w_save_some [OF calm]], (simp add: kind; fail), (simp add: kind; fail), rule ask_some)
qed

lemma keeps_triple: "keeps_job E i rid j m \<Longrightarrow> triple (rec_inv E i rid j) m (\<lambda>_. rec_inv E i rid j) (\<lambda>_. rec_inv E i rid j)"
  unfolding keeps_def by (erule triple_post) auto

lemma w_save_recorded:
  assumes "calm E T i" and "op_Kind r = ''abr''" and "s_CallerPublicKey s = signerPublicKey E" and "s_Job s = Some j"
    and "s_DispatchAttempted s" and "fst n \<noteq> ReservationRefunded"
  shows "succeeds (engaged T i rid (Some n) s v r) (save E) (\<lambda>_. rec_inv E i rid j)"
  by (rule triple_post [OF w_save [OF assms(1)]]) (use assms in \<open>auto intro: parked_recorded\<close>)

lemma w_dispatch:
  assumes calm: "calm E T i" and loc: "grants E T j" and kind: "op_Kind r = ''abr''"
    and s: "s_Job s = Some j" "s_Claim s = None" "s_CallerPublicKey s = signerPublicKey E"
    and n: "fst n \<noteq> ReservationRefunded"
  shows "triple (engaged T i rid (Some n) s v r) (abr_dispatch E) (\<lambda>_. rec_inv E i rid j) (\<lambda>_. rec_inv E i rid j)"
proof -
  have auth: "succeeds (engaged T i rid (Some n) s v r) (auth E q (job_SpendAuthorization j) w) (\<lambda>_. engaged T i rid (Some n) s v r)" for q w
    unfolding auth_def using loc by (intro w_state) (auto simp: grants_def triple_ret)
  have rest: "keeps_job E i rid j (thenE (modify (\<lambda>y. y\<lparr>lastSaved := 0\<rparr>))
      (bindE (SubmitJobV2 C a u (upcall E c (brokerHTTP E)) (lookup_job E j) (abr_on_event E)) (\<lambda>claim.
       thenE (set_s (\<lambda>s. s\<lparr>s_Claim := Some claim\<rparr>))
      (thenE (set_o (\<lambda>o1. o1\<lparr>op_State := ''accounting_pending''\<rparr>)) (save E)))))" for C a u c
    by (intro keeps_rules kj_basic kj_parts kj_submit kj_on_event) simp_all
  have save: "succeeds (engaged T i rid (Some n) (dispatched s) v' (r\<lparr>op_State := st\<rparr>)) (save E) (\<lambda>_. rec_inv E i rid j)" for v' st
    using s kind n by (intro w_save_recorded [OF calm]) simp_all
  show ?thesis
    unfolding abr_dispatch_def
    by (rule w_bind_job [OF s(1)], rule w_state)
       (simp add: s, rule triple_bind [OF triple_weaken_error [OF auth]],
        rule triple_bind [OF triple_weaken_error [OF w_set_s]],
        rule triple_bind [OF triple_weaken_error [OF w_set_o]], (simp; fail), (simp; fail), (simp; fail),
        rule triple_bind [OF triple_weaken_error [OF w_set_v]],
        rule triple_bind [OF triple_weaken_error [OF save [unfolded dispatched_def]]],
        rule keeps_triple [OF rest])
qed

lemma w_run_fresh:
  assumes calm: "calm E T i" and i: "i \<noteq> ''''" and loc: "grants E T j" and kind: "op_Kind r = ''abr''" "op_FinishedAt r = None"
    and s: "s_Job s = None" "s_Claim s = None" "\<not> s_DispatchAttempted s" "s_CallerPublicKey s = signerPublicKey E"
    and v: "v_Status v \<noteq> ''admission_rejected''" and n: "fst n \<noteq> ReservationRefunded"
  shows "triple (engaged T i rid (Some n) s v r) (runABR E) (\<lambda>_. rec_inv E i rid j) (\<lambda>_. rec_inv E i rid j)"
proof -
  let ?s = "with_job j s"
  have link: "succeeds (engaged T i rid (Some n) ?s v q) (abr_link E) (\<lambda>_. engaged T i rid (Some n) ?s v q)" for q
    by (rule w_link [OF calm, of ?s j]) (use loc in \<open>simp_all add: grants_def\<close>)
  have rec: "succeeds (engaged T i rid (Some n) ?s v q) (abr_recover E) (\<lambda>done x. engaged T i rid (Some n) ?s v q x \<and> \<not> done)" for q
    unfolding abr_recover_eq by (rule w_bind_job [of _ j], simp, rule w_state) (simp add: s triple_ret)
  have guard: "succeeds (engaged T i rid (Some n) ?s v q) abr_reject_guard (\<lambda>_. engaged T i rid (Some n) ?s v q)" for q
    unfolding abr_reject_guard_def by (rule w_state) (simp add: s v triple_ret)
  have disp: "triple (engaged T i rid (Some n) ?s v q) (thenE (abr_dispatch E) (abr_settle E)) (\<lambda>_. rec_inv E i rid j) (\<lambda>_. rec_inv E i rid j)"
    if "op_Kind q = ''abr''" for q
    by (rule triple_bind [OF w_dispatch [OF calm loc that]]) (simp_all add: s n keeps_triple kj_settle)
  have "triple (engaged T i rid (Some n) ?s v q) (thenE (abr_link E) (bindE (abr_recover E) (\<lambda>done.
      if done then ret () else thenE abr_reject_guard (thenE (abr_dispatch E) (abr_settle E)))))
      (\<lambda>_. rec_inv E i rid j) (\<lambda>_. rec_inv E i rid j)" if "op_Kind q = ''abr''" for q
    by (rule triple_bind [OF triple_weaken_error [OF link]], rule triple_bind [OF triple_weaken_error [OF rec]], rule triple_pure)
       (simp add: triple_bind [OF triple_weaken_error [OF guard] disp [OF that]])
  then show ?thesis
    unfolding runABR_def
    by (intro triple_bind [OF triple_weaken_error [OF w_authorize [OF calm i loc s(1) kind]]] triple_some)
qed

lemma Process_records:
  assumes calm: "calm E (tick x) i" and row: "fresh_job E i r s v (edb x)" and loc: "grants E (tick x) j"
  shows "job_recorded E i j (edb (snd (Process E i x))) \<and>
    held (op_ReservationID r) (db_reservations (edb (snd (Process E i x))))"
proof -
  let ?T = "tick x" and ?rid = "op_ReservationID r"
  note row = row [unfolded fresh_job_def]
  then obtain w where w: "GetByID ?rid (db_reservations (edb x)) = Some w" "ur_State w = ReservationOpen" by blast
  let ?u = "Some (res_view w)"
  have "OpGet i (edb x) = Some r" "op_FinishedAt r = None" "decode E r = Inr (s, v)" using row by simp_all
  from Process_enters [OF calm this] obtain r' where r': "stopped_only r r'"
      "OpGet i (edb (arrivals E x 3)) = Some r'"
      "Process E i x = run_operation E ((arrivals E x 3)\<lparr>eo := r', es := s, ev := v\<rparr>)" by blast
  note f = stopped_only_fields [OF r'(1)]
  let ?r = "r'\<lparr>op_Attempts := wrap64 (op_Attempts r' + 1), op_LastError := None\<rparr>"
  let ?body = "with_state (\<lambda>x. if op_Kind (eo x) = ''abr'' then runABR E else runLive E)"
  have kind: "op_Kind r' = ''abr''" "op_FinishedAt r' = None" using f row by simp_all
  have start: "engaged ?T i ?rid ?u s v r' ((arrivals E x 3)\<lparr>eo := r', es := s, ev := v\<rparr>)"
    using r'(2) OpGet_ID [of i "edb x" r] row f w by (simp add: engaged_def)
  have "triple (engaged ?T i ?rid ?u s v ?r) ?body (\<lambda>_. rec_inv E i ?rid j) (\<lambda>_. rec_inv E i ?rid j)"
    by (rule w_state) (use w_run_fresh [OF calm _ loc, of ?r s v "res_view w"] row kind w decode_InrD [of E r s v] in \<open>simp add: res_view_def\<close>)
  then have body: "triple (engaged ?T i ?rid ?u s v ?r) (attempt ?body) (\<lambda>_. rec_inv E i ?rid j) (\<lambda>_. rec_inv E i ?rid j)"
    by (rule triple_attempt)
  have "keeps_job E i ?rid j (case a of
        Inl e \<Rightarrow> thenE (record_failure E e) (thenE (save E) (throw e)) | Inr u \<Rightarrow> save E)" for a :: "err + unit"
    unfolding record_failure_def by (intro keeps_rules kj_basic) simp_all
  then have "triple (engaged ?T i ?rid ?u s v r') (run_operation E) (\<lambda>_. rec_inv E i ?rid j) (\<lambda>_. rec_inv E i ?rid j)"
    unfolding run_operation_def
    by (rule_tac triple_bind [OF triple_weaken_error [OF w_set_o]], simp_all, rule_tac triple_bind [OF body])
       (simp add: keeps_triple)
  from triple_both [OF this start] have "rec_inv E i ?rid j (snd (Process E i x))" by (simp add: r'(3))
  then show ?thesis by (simp add: rec_inv_def)
qed

section \<open>Every granted job is settled in the end\<close>

text \<open>Attempts on one operation, each under its own environment: between two of them the gateway may
  be restarted and anything upstream may change, but not the wrapping key and the caller key.\<close>

fun attempts :: "env list \<Rightarrow> uuid \<Rightarrow> estate \<Rightarrow> estate" where
  "attempts [] i x = x"
| "attempts (E # Es) i x = attempts Es i (snd (Process E i x))"

definition same_keys :: "env \<Rightarrow> env \<Rightarrow> bool" where
  "same_keys E E' \<longleftrightarrow> boxKey E' = boxKey E \<and> signerPublicKey E' = signerPublicKey E"

lemma same_keys_decode: "same_keys E E' \<Longrightarrow> decode E' = decode E"
  by (auto simp: fun_eq_iff decode_def same_keys_def split: option.split)

lemma same_keys_recorded: "same_keys E E' \<Longrightarrow> job_recorded E' i j d = job_recorded E i j d"
  by (auto simp: job_recorded_def dest!: same_keys_decode)

lemma attempts_recorded:
  "job_recorded E i j (edb x) \<Longrightarrow> held rid (db_reservations (edb x)) \<Longrightarrow> list_all (same_keys E) Es \<Longrightarrow>
   job_recorded E i j (edb (attempts Es i x)) \<and> held rid (db_reservations (edb (attempts Es i x)))"
proof (induction Es arbitrary: x)
  case (Cons E' Es)
  then have same: "same_keys E E'" by simp
  from Cons.prems(1) have "job_recorded E' i j (edb x)" by (simp only: same_keys_recorded [OF same])
  from Process_keeps_job [OF this Cons.prems(2)] Cons show ?case by (simp add: same_keys_recorded [OF same])
qed simp

lemma attempts_others: "others_kept i (edb x) (edb (attempts Es i x))"
proof (induction Es arbitrary: x)
  case (Cons E Es)
  show ?case unfolding attempts.simps by (rule others_kept_trans [OF Process_others Cons])
qed (simp add: others_kept_refl)

lemma attempts_row:
  assumes "OpGet i (edb x) = Some r"
  shows "\<exists>q. OpGet i (edb (attempts Es i x)) = Some q \<and> op_ReservationID q = op_ReservationID r"
proof -
  obtain q where "OpGet i (edb (attempts Es i x)) = Some q" "others_row i r q"
    using others_kept_OpGet [OF attempts_others assms] by blast
  then show ?thesis by (intro exI [of _ q] conjI) (unfold others_row_def op_row_le_def, blast+)
qed

text \<open>What the world owes the gateway from tick \<open>T\<close> on: the claim of the job, unless it is journaled,
  is reported, and LOC settles it.\<close>

definition answers :: "env \<Rightarrow> nat \<Rightarrow> uuid \<Rightarrow> CreateJobResponseV2 \<Rightarrow> database \<Rightarrow> bool" where
  "answers E T i j d \<longleftrightarrow> (\<forall>q s v. OpGet i d = Some q \<and> op_FinishedAt q = None \<and> decode E q = Inr (s, v) \<longrightarrow>
     (\<exists>c. claim_known E T j s c \<and> settles E T j c))"

text \<open>C4: every job LOC granted is settled in the end and paid for. When the first attempt on an admitted ABR
  operation with an open reservation finds the database answering and LOC granting the job, then after
  any number of further attempts, in which the broker, LOC and the database may fail at any point and
  the gateway may be restarted with the same keys, the reservation has not been refunded, and the
  operation is finished, or the next attempt during which the database works, the broker reports the
  job's claim and LOC settles it returns without error and leaves the operation finished as settled with
  the claim's units in its view and its reservation committed: with these units if it was still open
  when this attempt started, and otherwise as the earlier attempt that committed it left it.\<close>

theorem granted_job_completes:
  assumes "fresh_job E\<^sub>0 i r s v (edb x)" and "calm E\<^sub>0 (tick x) i" and "grants E\<^sub>0 (tick x) j"
    and "list_all (same_keys E\<^sub>0) (E # Es)" and "y = attempts (E\<^sub>0 # Es) i x"
    and "calm E (tick y) i" and "answers E (tick y) i j (edb y)"
  shows "\<exists>q u. OpGet i (edb y) = Some q \<and> op_ReservationID q = op_ReservationID r \<and>
    GetByID (op_ReservationID r) (db_reservations (edb y)) = Some u \<and> ur_State u \<noteq> ReservationRefunded \<and>
    (op_FinishedAt q = None \<longrightarrow> (\<exists>z c u'. Process E i y = (Inr (), z) \<and> job_done E i c (edb z) \<and>
       GetByID (op_ReservationID r) (db_reservations (edb z)) = Some u' \<and> ur_State u' = ReservationCommitted \<and>
       ur_CommittedWorkUnits u' = (if ur_State u = ReservationOpen then Some (tc_ActualUnits c) else ur_CommittedWorkUnits u)))"
proof -
  let ?rid = "op_ReservationID r"
  have inv: "job_recorded E\<^sub>0 i j (edb y) \<and> held ?rid (db_reservations (edb y))"
    using attempts_recorded [OF conjunct1 conjunct2, OF Process_records Process_records, OF assms(2,1,3) assms(2,1,3)] assms(4,5)
    by simp
  then obtain q where q: "OpGet i (edb y) = Some q" "op_Kind q = ''abr''"
      and rec: "op_FinishedAt q = None \<Longrightarrow> \<exists>s v. decode E q = Inr (s, v) \<and> s_Job s = Some j \<and> s_DispatchAttempted s"
    using assms(4) by (auto simp: job_recorded_def dest!: same_keys_decode)
  have rid: "op_ReservationID q = ?rid"
    using attempts_row [of i x r "E\<^sub>0 # Es"] assms(1,5) q(1) by (simp add: fresh_job_def)
  from inv obtain u where u: "GetByID ?rid (db_reservations (edb y)) = Some u" "ur_State u \<noteq> ReservationRefunded"
    by (auto simp: held_def)
  have unit: "job_WorkUnit j = ''video-frame-megapixel''" using assms(3) by (simp add: grants_def)
  have "\<exists>z c u'. Process E i y = (Inr (), z) \<and> job_done E i c (edb z) \<and>
       GetByID ?rid (db_reservations (edb z)) = Some u' \<and> ur_State u' = ReservationCommitted \<and>
       ur_CommittedWorkUnits u' = (if ur_State u = ReservationOpen then Some (tc_ActualUnits c) else ur_CommittedWorkUnits u)"
    if active: "op_FinishedAt q = None"
  proof -
    from rec [OF active] obtain s v where sv: "decode E q = Inr (s, v)" "s_Job s = Some j" by blast
    with assms(7) q(1) active obtain c where c: "claim_known E (tick y) j s c" "settles E (tick y) j c"
      unfolding answers_def by blast
    from Process_completes [OF assms(6) q(1) active q(2) sv unit c] obtain z where
      z: "Process E i y = (Inr (), z)" "job_done E i c (edb z)"
        "map_option res_view (GetByID ?rid (db_reservations (edb z))) = committed_view (Some (tc_ActualUnits c)) (Some (res_view u))"
      by (auto simp: rid u(1))
    then obtain u' where "GetByID ?rid (db_reservations (edb z)) = Some u'"
        "res_view u' = (if ur_State u = ReservationOpen then (ReservationCommitted, Some (tc_ActualUnits c)) else res_view u)"
      by (auto simp: committed_view_def res_view_def)
    with z u(2) show ?thesis
      by (intro exI [of _ z] exI [of _ c] exI [of _ u']) (cases "ur_State u"; simp add: res_view_def)
  qed
  with q(1) rid u show ?thesis by (intro exI [of _ q] exI [of _ u] conjI impI)
qed

text \<open>
  The outage for the witness: the broker is unreachable during the first attempt, which therefore
  fails after the dispatch was journaled and leaves no claim.
\<close>

definition unreachable_broker :: "env \<Rightarrow> bool" where
  "unreachable_broker E \<longleftrightarrow> (\<forall>t. brokerHTTP E t = Inl (NetErr True))"

lemma w_dispatch_unreachable:
  assumes calm: "calm E T i" and loc: "grants E T j" and kind: "op_Kind r = ''abr''" "op_FinishedAt r = None" and down: "unreachable_broker E"
    and s: "s_Job s = Some j" "s_Claim s = None"
  shows "triple (engaged T i rid n s v r) (abr_dispatch E) (\<lambda>_ _. False)
    (\<lambda>_. some_engaged T i rid n (dispatched s) (v\<lparr>v_Status := ''processing''\<rparr>))"
proof -
  let ?K = "some_engaged T i rid n (dispatched s) (v\<lparr>v_Status := ''processing''\<rparr>)"
  have auth: "succeeds (engaged T i rid n s v r) (auth E q (job_SpendAuthorization j) w) (\<lambda>_. engaged T i rid n s v r)" for q w
    unfolding auth_def using loc by (intro w_state) (auto simp: grants_def triple_ret)
  have save: "succeeds (engaged T i rid n (dispatched s) (v\<lparr>v_Status := ''processing''\<rparr>) (r\<lparr>op_State := st\<rparr>)) (save E) (\<lambda>_. ?K)" for st
    using kind by (intro w_save_some [OF calm]) simp_all
  have call: "triple ?K (upcall E c (brokerHTTP E)) (\<lambda>_ _. False) (\<lambda>_. ?K)" for c
    by (rule triple_some, rule triple_post [OF w_upcall [where Q = "\<lambda>_. False" and R = "\<lambda>_. True"]])
       (use down in \<open>auto simp: unreachable_broker_def some_engaged_def\<close>)
  have submit: "triple ?K (SubmitJobV2 C a u (upcall E c (brokerHTTP E)) lk cb) (\<lambda>_ _. False) (\<lambda>_. ?K)" for C a u c lk cb
    unfolding SubmitJobV2_def
    by (rule triple_sum, rule triple_throw, assumption, rule triple_bind [OF call]) (simp add: triple_def)
  have last: "succeeds ?K (modify (\<lambda>y. y\<lparr>lastSaved := 0\<rparr>)) (\<lambda>_. ?K)"
    by (rule triple_modify) (auto simp: some_engaged_def engaged_def)
  show ?thesis
    unfolding abr_dispatch_def dispatched_def [symmetric]
    by (rule w_bind_job [OF s(1)], rule w_state)
       (simp add: s, rule triple_bind [OF triple_weaken_error [OF auth]],
        rule triple_bind [OF triple_weaken_error [OF w_set_s]],
        rule triple_bind [OF triple_weaken_error [OF w_set_o]], (simp; fail), (simp; fail), (simp; fail),
        rule triple_bind [OF triple_weaken_error [OF w_set_v]], rule triple_bind [OF triple_weaken_error [OF save]],
        rule triple_bind [OF triple_weaken_error [OF last]], rule triple_bind [OF submit], simp add: triple_def)
qed

lemma Process_outage:
  assumes calm: "calm E (tick x) i" and row: "fresh_job E i r s v (edb x)" and loc: "grants E (tick x) j"
    and down: "unreachable_broker E"
  shows "\<exists>q. OpGet i (edb (snd (Process E i x))) = Some q \<and> op_FinishedAt q = None \<and>
    decode E q = Inr (dispatched (with_job j s), v\<lparr>v_Status := ''processing''\<rparr>)"
proof -
  let ?T = "tick x" and ?rid = "op_ReservationID r" and ?s = "with_job j s" and ?v = "v\<lparr>v_Status := ''processing''\<rparr>"
  let ?u = "map_option res_view (GetByID ?rid (db_reservations (edb x)))"
  note row = row [unfolded fresh_job_def]
  have "OpGet i (edb x) = Some r" "op_FinishedAt r = None" "decode E r = Inr (s, v)" using row by simp_all
  from Process_enters [OF calm this] obtain r' where r': "stopped_only r r'"
      "OpGet i (edb (arrivals E x 3)) = Some r'"
      "Process E i x = run_operation E ((arrivals E x 3)\<lparr>eo := r', es := s, ev := v\<rparr>)" by blast
  note f = stopped_only_fields [OF r'(1)]
  let ?r = "r'\<lparr>op_Attempts := wrap64 (op_Attempts r' + 1), op_LastError := None\<rparr>"
  have kind: "op_Kind r' = ''abr''" "op_FinishedAt r' = None" using f row by simp_all
  have start: "engaged ?T i ?rid ?u s v r' ((arrivals E x 3)\<lparr>eo := r', es := s, ev := v\<rparr>)"
    using r'(2) OpGet_ID [of i "edb x" r] row f by (simp add: engaged_def)
  have link: "succeeds (engaged ?T i ?rid ?u ?s v q) (abr_link E) (\<lambda>_. engaged ?T i ?rid ?u ?s v q)" for q
    by (rule w_link [OF calm, of ?s j]) (use loc in \<open>simp_all add: grants_def\<close>)
  have rec: "succeeds (engaged ?T i ?rid ?u ?s v q) (abr_recover E) (\<lambda>done x. engaged ?T i ?rid ?u ?s v q x \<and> \<not> done)" for q
    unfolding abr_recover_eq by (rule w_bind_job [of _ j], simp, rule w_state) (use row in \<open>simp add: triple_ret\<close>)
  have guard: "succeeds (engaged ?T i ?rid ?u ?s v q) abr_reject_guard (\<lambda>_. engaged ?T i ?rid ?u ?s v q)" for q
    unfolding abr_reject_guard_def by (rule w_state) (use row in \<open>simp add: triple_ret\<close>)
  have disp: "triple (engaged ?T i ?rid ?u ?s v q) (thenE (abr_dispatch E) (abr_settle E)) (\<lambda>_ _. False)
      (\<lambda>_. some_engaged ?T i ?rid ?u (dispatched ?s) ?v)" if "op_Kind q = ''abr''" "op_FinishedAt q = None" for q
    by (rule triple_bind [OF w_dispatch_unreachable [OF calm loc that(1,2) down]]) (use row in \<open>simp_all add: triple_def\<close>)
  have tail: "triple (engaged ?T i ?rid ?u ?s v q) (thenE (abr_link E) (bindE (abr_recover E) (\<lambda>done.
      if done then ret () else thenE abr_reject_guard (thenE (abr_dispatch E) (abr_settle E)))))
      (\<lambda>_ _. False) (\<lambda>_. some_engaged ?T i ?rid ?u (dispatched ?s) ?v)" if "op_Kind q = ''abr''" "op_FinishedAt q = None" for q
    by (rule triple_bind [OF triple_weaken_error [OF link]], rule triple_bind [OF triple_weaken_error [OF rec]], rule triple_pure)
       (simp add: triple_bind [OF triple_weaken_error [OF guard] disp [OF that]])
  have "triple (engaged ?T i ?rid ?u s v ?r) (runABR E) (\<lambda>_ _. False) (\<lambda>_. some_engaged ?T i ?rid ?u (dispatched ?s) ?v)"
    unfolding runABR_def
    by (intro triple_bind [OF triple_weaken_error [OF w_authorize [OF calm _ loc]]] triple_some tail)
       (use row kind in simp_all)
  then have "triple (engaged ?T i ?rid ?u s v ?r) (with_state (\<lambda>x. if op_Kind (eo x) = ''abr'' then runABR E else runLive E))
      (\<lambda>_ _. False) (\<lambda>_. some_engaged ?T i ?rid ?u (dispatched ?s) ?v)" (is "triple _ ?body _ _")
    by (intro w_state) (simp add: kind)
  then have body: "succeeds (engaged ?T i ?rid ?u s v ?r) (attempt ?body)
      (\<lambda>a x. some_engaged ?T i ?rid ?u (dispatched ?s) ?v x \<and> (\<exists>e. a = Inl e))"
    by (intro triple_attempt) (auto elim: triple_post)
  let ?goal_state = "\<lambda>x. \<exists>q. OpGet i (edb x) = Some q \<and> op_FinishedAt q = None \<and> decode E q = Inr (dispatched ?s, ?v)"
  have key: "s_CallerPublicKey s = signerPublicKey E" using row decode_InrD [of E r s v] by simp
  have save: "succeeds (engaged ?T i ?rid ?u (dispatched ?s) ?v q) (save E) (\<lambda>_. ?goal_state)" if "op_FinishedAt q = None" for q
    by (rule triple_post [OF w_save [OF calm]])
       (use that key OpGet_ID in \<open>fastforce simp: parked_def saved_row_def decode_def box.open_seal\<close>)+
  have fail: "succeeds (some_engaged ?T i ?rid ?u (dispatched ?s) ?v) (record_failure E e)
      (\<lambda>_. some_engaged ?T i ?rid ?u (dispatched ?s) ?v)" for e
    unfolding record_failure_def
    by (intro triple_some triple_bind [OF w_time] triple_post [OF w_set_o]) (auto elim!: some_engagedI)
  have finish: "triple (\<lambda>x. some_engaged ?T i ?rid ?u (dispatched ?s) ?v x \<and> (\<exists>e. a = Inl e))
      (case a of Inl e \<Rightarrow> thenE (record_failure E e) (thenE (save E) (throw e)) | Inr _ \<Rightarrow> save E)
      (\<lambda>_. ?goal_state) (\<lambda>_. ?goal_state)" for a :: "err + unit"
  proof (rule triple_pure, elim exE, simp)
    show "triple (some_engaged ?T i ?rid ?u (dispatched ?s) ?v) (thenE (record_failure E e) (thenE (save E) (throw e)))
        (\<lambda>_. ?goal_state) (\<lambda>_. ?goal_state)" for e
      by (rule triple_bind [OF triple_weaken_error [OF fail]], rule triple_bind [OF triple_some [OF triple_weaken_error [OF save]]])
         (simp_all add: triple_throw)
  qed
  have "triple (engaged ?T i ?rid ?u s v r') (run_operation E) (\<lambda>_. ?goal_state) (\<lambda>_. ?goal_state)"
    unfolding run_operation_def
    by (rule triple_bind [OF triple_weaken_error [OF w_set_o]], simp, simp, simp,
        rule triple_bind [OF triple_weaken_error [OF body]], rule finish)
  from triple_both [OF this start] show ?thesis by (simp add: r'(3))
qed

section \<open>A concrete outage and recovery\<close>

definition abr_job :: CreateJobResponseV2 where
  "abr_job = \<lparr>job_JobID = ''loc-job'', job_RequestID = ''req'', job_WorkID = ''work'', job_BrokerURL = ''https://broker'',
     job_Protocol = ''paid-job/v1'', job_Transport = ''stream'', job_WorkUnit = ''video-frame-megapixel'', job_SpendAuthorization = ''spend'',
     job_AccountingMode = ''wholesale_account'', job_ExpectedValueWei = None, job_FundedValueWei = None\<rparr>"

definition abr_claim_json :: json where
  "abr_claim_json = JObj [(''payload'', JObj [(''job_id'', JStr ''job''), (''request_id'', JStr ''req''), (''work_id'', JStr ''work''),
      (''work_unit_name'', JStr ''video-frame-megapixel''), (''actual_units'', JStr ''42'')]),
     (''signature'', JObj [(''algorithm'', JStr ''secp256k1''), (''canonicalization'', JStr ''jcs''),
      (''value'', JStr (''0x'' @ replicate 130 (CHR ''0'')))])]"

definition abr_codec :: codec where
  "abr_codec = sample_codec\<lparr>b64_decode := Some, json_any := (\<lambda>s. Some (if s = ''claim'' then abr_claim_json
       else JObj [(''request_id'', JStr ''req''), (''outcome'', JStr ''SETTLED''), (''job_id'', JStr ''job''),
         (''unit'', JStr ''video-frame-megapixel''), (''work_units'', JStr ''42'')]))\<rparr>"

definition abr_claim :: TerminalClaim where
  "abr_claim = \<lparr>tc_BrokerJobID = ''job'', tc_SessionID = '''', tc_GatewaySessionID = '''',
     tc_RequestID = ''req'', tc_WorkID = ''work'', tc_WorkUnit = ''video-frame-megapixel'', tc_ActualUnits = 42,
     tc_Settlement = abr_claim_json, tc_State = '''', tc_Outcome = '''', tc_CloseReason = '''', tc_OutputState = '''',
     tc_FailureCode = ''''\<rparr>"

definition abr_outage :: env where
  "abr_outage = (sample_env ''wrap'')\<lparr>locCreateJob := \<lambda>_. Inr abr_job\<rparr>"

definition abr_recovery :: env where
  "abr_recovery = (sample_env ''wrap'')\<lparr>codecs := abr_codec, brokerHTTP := \<lambda>_. Inr sample_response,
     locSettleJob := \<lambda>_. Inr \<lparr>sr_JobID = ''loc-job'', sr_WorkID = ''work'', sr_ActualUnits = 42,
       sr_BilledValueWei = Some 7, sr_RefundWei = None, sr_Outcome = '''', sr_ClosedAt = 5\<rparr>\<rparr>"

lemma abr_reports: "reports abr_recovery T abr_job abr_claim"
proof -
  have hex: "hex_decode (replicate 130 (CHR ''0'')) = Some (replicate 65 0)" using hex_decode_zeros [of 65] by simp
  have sig: "signature_shape abr_codec (jfield abr_claim_json ''signature'') = None"
    by (simp add: signature_shape_def abr_claim_json_def jfield_def is_obj_def scalar_def Let_def TrimPrefix_def HasPrefix_def hex)
  have units: "ParseInt64 ''42'' = Some 42" "int_text 42 = ''42''" by code_simp+
  have codec: "is_obj abr_claim_json" "json_any abr_codec ''claim'' = Some abr_claim_json" "b64_decode abr_codec = Some"
    by (simp_all add: is_obj_def abr_claim_json_def abr_codec_def)
  have payload: "jfield abr_claim_json ''payload'' = JObj [(''job_id'', JStr ''job''), (''request_id'', JStr ''req''),
      (''work_id'', JStr ''work''), (''work_unit_name'', JStr ''video-frame-megapixel''), (''actual_units'', JStr ''42'')]"
    by (simp add: jfield_def abr_claim_json_def)
  have claim: "decodeClaim abr_codec ''claim'' = Inr abr_claim"
    by (simp add: decodeClaim_def decode_envelope_def codec sig payload claim_units_def payload_claim_def json_simps units
        Let_def abr_claim_def)
  have body: "jsonV2 (json_any abr_codec) sample_response = Inr ([(''Livepeer-Settlement'', ''claim'')],
      JObj [(''request_id'', JStr ''req''), (''outcome'', JStr ''SETTLED''), (''job_id'', JStr ''job''),
        (''unit'', JStr ''video-frame-megapixel''), (''work_units'', JStr ''42'')])"
    by (simp add: jsonV2_def sample_response_def status_ok_def abr_codec_def)
  have fields: "tc_BrokerJobID abr_claim = ''job''" "tc_RequestID abr_claim = ''req''" "tc_WorkID abr_claim = ''work''"
      "tc_WorkUnit abr_claim = ''video-frame-megapixel''" "tc_ActualUnits abr_claim = 42"
    by (simp_all add: abr_claim_def)
  have "LookupJobV2 abr_codec sample_response ''req'' '''' ''video-frame-megapixel'' ''work'' = Inr abr_claim"
    by (simp add: LookupJobV2_def body settled_exchange_def hget_def claim validateJobClaim_def validateClaimHeaders_def
        Let_def json_simps units fields)
  then show ?thesis by (simp add: reports_def abr_recovery_def abr_job_def)
qed

theorem granted_job_completes_witness:
  "\<exists>z c. Process abr_recovery ''op'' (snd (Process abr_outage ''op'' (sample_state abr_row))) = (Inr (), z) \<and>
     job_done abr_recovery ''op'' c (edb z)"
proof -
  let ?x = "sample_state abr_row" and ?y = "snd (Process abr_outage ''op'' (sample_state abr_row))"
  have calm: "calm abr_outage T ''op''" "calm abr_recovery T ''op''" for T
    by (simp_all add: calm_def abr_outage_def abr_recovery_def sample_env_def)
  have "\<exists>u. GetByID (op_ReservationID abr_row) (db_reservations (edb ?x)) = Some u \<and> ur_State u = ReservationOpen"
    by (simp add: abr_row_def sample_row_def sample_state_def sample_db_def GetByID_def fresh_reservation_def)
  then have fresh: "fresh_job abr_outage ''op'' abr_row sample_secrets sample_view (edb ?x)"
    by (simp add: fresh_job_def, simp add: abr_row_def decode_def abr_outage_def sample_env_def box.open_seal)
       (simp add: sample_secrets_def sample_view_def sample_row_def)
  have grant: "grants abr_outage T abr_job" for T
    by (simp add: grants_def abr_outage_def abr_job_def sample_env_def job_response_ok_def uuid_nil_def)
  have down: "unreachable_broker abr_outage"
    by (simp add: unreachable_broker_def abr_outage_def sample_env_def)
  have keys: "same_keys abr_outage abr_recovery" by (simp add: same_keys_def abr_outage_def abr_recovery_def sample_env_def)
  from Process_outage [OF calm(1) fresh grant down] obtain q where q: "OpGet ''op'' (edb ?y) = Some q" "op_FinishedAt q = None"
      "decode abr_outage q = Inr (dispatched (with_job abr_job sample_secrets), sample_view\<lparr>v_Status := ''processing''\<rparr>)"
    by blast
  have settle: "settles abr_recovery T abr_job abr_claim" for T
    by (simp add: settles_def settle_answer_ok_def settle_response_matches_def abr_recovery_def abr_job_def abr_claim_def IsZero_def)
  have none: "s_Claim (dispatched (with_job abr_job sample_secrets)) = None" by (simp add: dispatched_def sample_secrets_def)
  have ans: "answers abr_recovery (tick ?y) ''op'' abr_job (edb ?y)"
    using q none by (auto simp: answers_def same_keys_decode [OF keys] claim_known_def abr_reports settle
        intro!: exI [of _ abr_claim])
  have "list_all (same_keys abr_outage) [abr_recovery]" "?y = attempts [abr_outage] ''op'' ?x" by (simp_all add: keys)
  from granted_job_completes [OF fresh calm(1) grant this calm(2) ans] q(1,2) show ?thesis by (metis option.inject)
qed

end
