(* ===== verification/Engine_Types.thy ===== *)
theory Engine_Types
  imports Engine_Progress
begin

text \<open>
  Type soundness of the engine. The journal stores the upstream answers as optional pointers, and the
  code dereferences them where the life of the operation says they are there. The discipline is: a
  live operation has its stream, a session implies its preparation, and each phase leaves the pointers
  the later ones read. Under it no attempt dereferences a nil pointer, and every save keeps it: here
  the clients and the ABR phases, in Engine\_Typed the live phases and the whole attempt.
\<close>

section \<open>Errors that are not a nil dereference\<close>

definition no_nil :: "err \<Rightarrow> bool" where
  "no_nil e \<longleftrightarrow> e \<noteq> Msg ''nil pointer dereference''"

lemma no_nil_simps [simp]:
  "no_nil (LocErr a)" "no_nil (BrokerErr b)" "no_nil (ExchangePending s)" "no_nil AccountingPending" "no_nil DeadlineExceeded"
  "no_nil Canceled" "no_nil (NetErr t)" "no_nil (DbErr s)" "no_nil (HumaErr c s)"
  "no_nil (Msg m) \<longleftrightarrow> m \<noteq> ''nil pointer dereference''"
  by (simp_all add: no_nil_def)

definition ok_res :: "err + 'a \<Rightarrow> bool" where
  "ok_res r \<longleftrightarrow> (\<forall>e. r = Inl e \<longrightarrow> no_nil e)"

lemma ok_res_simps [simp]: "ok_res (Inr y)" "ok_res (Inl e) \<longleftrightarrow> no_nil e"
  by (simp_all add: ok_res_def)

fun fault_error :: "db_fault \<Rightarrow> err" where
  "fault_error (LostBefore e) = e"
| "fault_error (LostAfter e) = e"

text \<open>The environment reports errors of its own: no answer pretends to be a nil dereference.\<close>

definition env_ok :: "env \<Rightarrow> bool" where
  "env_ok E \<longleftrightarrow> (\<forall>a. ok_res (signerProof E a)) \<and>
     (\<forall>t e. sealFault E t = Some e \<longrightarrow> no_nil e) \<and> (\<forall>t f. dbFault E t = Some f \<longrightarrow> no_nil (fault_error f)) \<and>
     (\<forall>t e. waitFault E t = Some e \<longrightarrow> no_nil e) \<and>
     (\<forall>t. ok_res (locCreateJob E t) \<and> ok_res (locSettleJob E t) \<and> ok_res (locGetJob E t) \<and> ok_res (locPrepare E t) \<and>
        ok_res (locOpen E t) \<and> ok_res (locRefill E t) \<and> ok_res (locClose E t) \<and> ok_res (locGetSession E t) \<and>
        ok_res (brokerHTTP E t) \<and> ok_res (keyReply E t)) \<and>
     (\<forall>t h e. brokerHTTP E t = Inr h \<longrightarrow> hr_ReadErr h = Some e \<longrightarrow> no_nil e)"

section \<open>The broker client's own errors\<close>

lemma ok_jsonV2: "ok_res (jsonV2 dec h)"
  by (simp add: jsonV2_def brokerResponseError_def split: option.split)

lemma ok_auth_headers: "ok_res (auth_headers a p)" "ok_res (credentialHeader c)"
  by (simp_all add: auth_headers_def credentialHeader_def)

lemma ok_signature: "signature_shape C s = Some e \<Longrightarrow> no_nil e"
  by (auto simp: signature_shape_def Let_def split: if_splits option.splits)

lemma ok_validate: "validateJobClaim c q j u w = Some e \<Longrightarrow> no_nil e" "validateClaimHeaders c h = Some e \<Longrightarrow> no_nil e"
  by (simp_all add: validateJobClaim_def validateClaimHeaders_def del: find.simps split: if_splits option.splits prod.splits) auto

lemma ok_if: "(b \<Longrightarrow> ok_res x) \<Longrightarrow> (\<not> b \<Longrightarrow> ok_res y) \<Longrightarrow> ok_res (if b then x else y)"
  by simp

lemma ok_sum: "ok_res r \<Longrightarrow> (\<And>e. no_nil e \<Longrightarrow> ok_res (f e)) \<Longrightarrow> (\<And>y. ok_res (g y)) \<Longrightarrow>
    ok_res (case r of Inl e \<Rightarrow> f e | Inr y \<Rightarrow> g y)"
  by (cases r) simp_all

lemma ok_option: "(x = None \<Longrightarrow> ok_res f) \<Longrightarrow> (\<And>y. x = Some y \<Longrightarrow> ok_res (g y)) \<Longrightarrow>
    ok_res (case x of None \<Rightarrow> f | Some y \<Rightarrow> g y)"
  by (cases x) simp_all

lemma ok_prod: "(\<And>a b. ok_res (f a b)) \<Longrightarrow> ok_res (case p of (a, b) \<Rightarrow> f a b)"
  by (cases p) simp

lemmas ok_rules = ok_if ok_sum ok_option ok_prod

lemma ok_decodeClaim: "ok_res (decodeClaim C s)"
  unfolding decodeClaim_def decode_envelope_def claim_units_def Let_def
  by (intro ok_rules) (auto dest: ok_signature)

lemma ok_settled: "ok_res (settled_exchange C h b q j u w)"
  unfolding settled_exchange_def Let_def
  by (intro ok_rules ok_decodeClaim) (auto dest: ok_validate)

lemma ok_LookupJobV2: "ok_res (LookupJobV2 C h q j u w)"
  unfolding LookupJobV2_def Let_def by (intro ok_rules ok_jsonV2 ok_settled) simp_all

lemma ok_LookupSettlement: "ok_res (LookupSessionSettlementV2 C h sid w u)"
  unfolding LookupSessionSettlementV2_def by (intro ok_rules ok_jsonV2 ok_decodeClaim) simp_all

lemma ok_LookupOpen: "ok_res (LookupSessionOpenV2 C h q g)"
  unfolding LookupSessionOpenV2_def by (intro ok_rules ok_jsonV2) simp_all

lemma ok_session_reply: "ok_res (session_reply C sid h)"
  unfolding session_reply_def by (intro ok_rules ok_jsonV2) simp_all

lemma ok_convert: "convertBroker q = (b, Some e) \<Longrightarrow> no_nil e"
  by (auto simp: convertBroker_def Let_def split: if_splits)

lemma ok_runtime: "validateRuntimeURLs E b = Some e \<Longrightarrow> no_nil e"
  by (auto simp: validateRuntimeURLs_def split: if_splits option.splits)

section \<open>Typed journals\<close>

definition typed_secrets :: "operationSecrets \<Rightarrow> bool" where
  "typed_secrets s \<longleftrightarrow> (s_Session s \<noteq> None \<longrightarrow> s_Preparation s \<noteq> None)"

definition typed_op :: "operation \<Rightarrow> bool" where
  "typed_op r \<longleftrightarrow> op_Kind r = ''abr'' \<or> op_LiveStreamID r \<noteq> None"

definition typed_row :: "env \<Rightarrow> operation \<Rightarrow> bool" where
  "typed_row E r \<longleftrightarrow> typed_op r \<and> (\<forall>s v. decode E r = Inr (s, v) \<longrightarrow> typed_secrets s)"

text \<open>During an attempt on the operation and the stream \<open>i\<close>; \<open>X\<close> states which pointers of the working
  secrets are set.\<close>

definition typed_state :: "env \<Rightarrow> uuid \<times> uuid option \<Rightarrow> (operationSecrets \<Rightarrow> bool) \<Rightarrow> estate \<Rightarrow> bool" where
  "typed_state E i X x \<longleftrightarrow> op_ID (eo x) = fst i \<and> op_LiveStreamID (eo x) = snd i \<and> typed_op (eo x) \<and>
     typed_secrets (es x) \<and> X (es x) \<and> (\<exists>r. OpGet (fst i) (edb x) = Some r \<and> typed_row E r)"

abbreviation sound :: "env \<Rightarrow> uuid \<times> uuid option \<Rightarrow> (operationSecrets \<Rightarrow> bool) \<Rightarrow> 'a eng \<Rightarrow> bool" where
  "sound E i X \<equiv> keeps (typed_state E i X) no_nil"

text \<open>An effect after which, when it succeeds, more pointers are set.\<close>

definition gains :: "env \<Rightarrow> uuid \<times> uuid option \<Rightarrow> (operationSecrets \<Rightarrow> bool) \<Rightarrow> 'a eng \<Rightarrow> (operationSecrets \<Rightarrow> bool) \<Rightarrow> bool" where
  "gains E i X m Y \<longleftrightarrow> triple (typed_state E i X) m (\<lambda>_. typed_state E i Y) (\<lambda>e x. typed_state E i X x \<and> no_nil e)"

lemma sound_gains: "sound E i X m \<longleftrightarrow> gains E i X m X"
  by (simp add: keeps_def gains_def)

lemma typed_state_mono: "typed_state E i Y x \<Longrightarrow> (\<And>s. Y s \<Longrightarrow> X s) \<Longrightarrow> typed_state E i X x"
  by (auto simp: typed_state_def)

lemma gains_bind:
  assumes "gains E i X m Y" and "\<And>y. gains E i Y (k y) Z" and "\<And>s. Y s \<Longrightarrow> X s"
  shows "gains E i X (bindE m k) Z"
  unfolding gains_def
proof (rule triple_bind)
  show "triple (typed_state E i X) m (\<lambda>_. typed_state E i Y) (\<lambda>e x. typed_state E i X x \<and> no_nil e)"
    using assms(1) by (simp add: gains_def)
  show "triple (typed_state E i Y) (k y) (\<lambda>_. typed_state E i Z) (\<lambda>e x. typed_state E i X x \<and> no_nil e)" for y
    by (rule triple_post [OF assms(2) [of y, unfolded gains_def]]) (auto intro: typed_state_mono [OF _ assms(3)])
qed

lemma gains_weaken: "gains E i X m Y \<Longrightarrow> (\<And>s. Y s \<Longrightarrow> Z s) \<Longrightarrow> gains E i X m Z"
  unfolding gains_def by (erule triple_post) (auto intro: typed_state_mono)

lemma sound_bind_gains: "gains E i X m Y \<Longrightarrow> (\<And>y. sound E i Y (k y)) \<Longrightarrow> (\<And>s. Y s \<Longrightarrow> X s) \<Longrightarrow> sound E i X (bindE m k)"
  unfolding sound_gains using gains_weaken [of E i Y _ Y X] by (blast intro: gains_bind)

text \<open>Reading a pointer that is known to be set.\<close>

lemma sound_pointer:
  assumes "\<And>s. X s \<Longrightarrow> p s \<noteq> None"
  shows "sound E i X (with_state (\<lambda>x. case p (es x) of Some c \<Rightarrow> ret c | None \<Rightarrow> throw (Msg ''nil pointer dereference'')))"
  by (rule keeps_state) (use assms in \<open>force simp: typed_state_def split: option.split\<close>)

lemma ts_o: "(\<And>r. op_ID (f r) = op_ID r \<and> op_Kind (f r) = op_Kind r \<and> op_LiveStreamID (f r) = op_LiveStreamID r) \<Longrightarrow>
    sound E i X (set_o f)"
  unfolding set_o_def by (rule keeps_modify) (auto simp: typed_state_def typed_op_def)

lemma tg_s: "(\<And>s. X s \<Longrightarrow> typed_secrets s \<Longrightarrow> Y (f s) \<and> typed_secrets (f s)) \<Longrightarrow> gains E i X (set_s f) Y"
  unfolding set_s_def gains_def by (rule triple_modify) (simp add: typed_state_def)

lemma ts_s: "(\<And>s. X s \<Longrightarrow> typed_secrets s \<Longrightarrow> X (f s) \<and> typed_secrets (f s)) \<Longrightarrow> sound E i X (set_s f)"
  unfolding sound_gains by (rule tg_s)

lemma ts_v: "sound E i X (set_v f)"
  unfolding set_v_def by (rule keeps_modify) (simp add: typed_state_def)

lemma ts_local: "sound E i X (modify (\<lambda>y. y\<lparr>lastSaved := n\<rparr>))" "sound E i X Wake" "sound E i X (CloseRTMP E)"
  unfolding Wake_def CloseRTMP_def
  by (auto intro!: keeps_modify keeps_if simp: typed_state_def)

lemma decode_stops: "stopped_only r r' \<Longrightarrow> typed_row E r \<Longrightarrow> typed_row E r'"
  by (cases r; cases r') (auto simp: typed_row_def typed_op_def decode_def stopped_only_def split: option.splits)

lemma ts_arrive: "typed_state E i X x \<Longrightarrow> typed_state E i X (arrive E t x)"
  using OpGet_stops(2) [of "fst i" "edb x"] decode_stops by (fastforce simp: typed_state_def)

lemma ts_interact: "(\<And>t. sound E i X (k t)) \<Longrightarrow> sound E i X (interact E k)"
  by (simp add: keeps_def triple_def interact_def ts_arrive)

lemma ts_lift: "ok_res r \<Longrightarrow> sound E i X (lift_result r)"
  by (cases r) (simp_all add: lift_result_def keeps_throw)

lemma ts_upcall: "(\<And>t. ok_res (a t)) \<Longrightarrow> sound E i X (upcall E c a)"
  unfolding upcall_def log_call_def
  by (intro ts_interact keeps_bind ts_lift keeps_modify) (simp_all add: typed_state_def)

lemma ts_time: "sound E i X (time_now E)"
  unfolding time_now_def by (intro keeps_state) simp

lemma ts_wait: "env_ok E \<Longrightarrow> sound E i X (wait_timer E d)"
  unfolding wait_timer_def by (intro ts_interact) (auto simp: env_ok_def intro!: keeps_throw split: option.split)

lemma ts_fault:
  assumes "env_ok E" and "dbFault E t = Some f"
  shows "no_nil (fault_error f)"
  using assms by (auto simp: env_ok_def)

lemma ts_db_write:
  assumes "env_ok E" and "\<And>t. sound E i X (db_apply (f t))"
  shows "sound E i X (db_write E f)"
  unfolding db_write_def
  using assms ts_fault [OF assms(1)]
  by (intro ts_interact) (force intro!: keeps_bind keeps_throw split: option.split db_fault.split)

lemma ts_res_write: "env_ok E \<Longrightarrow> sound E i X (res_write E f)"
  unfolding res_write_def by (rule ts_db_write) (auto simp: db_apply_def typed_state_def OpGet_def intro!: keeps_modify)

lemma ts_live_write: "env_ok E \<Longrightarrow> sound E i X (live_write E f)"
  unfolding live_write_def by (rule ts_db_write) (auto simp: db_apply_def typed_state_def OpGet_def intro!: keeps_modify)

lemma ts_db_read: "env_ok E \<Longrightarrow> sound E i X (db_read E g)"
  unfolding db_read_def
  using ts_fault [of E]
  by (intro ts_interact) (force intro!: keeps_state keeps_throw split: option.split db_fault.split)

lemma typed_save:
  assumes "typed_row E r" and "op_ID r = i" and "OpGet i d = Some q" and "typed_row E q"
  shows "OpGet i (OpSave t r d) = Some (save_row t r q) \<and> typed_row E (save_row t r q)"
proof -
  have "op_ID q = i" using assms(3) by (auto simp: OpGet_def dest: row_by_SomeD)
  moreover have "typed_op (save_row t r q)" using assms(4) by (auto simp: typed_row_def typed_op_def save_row_def)
  moreover have "decode E (save_row t r q) = decode E r"
    using assms(2) calculation(1) by (auto simp: decode_def save_row_def split: option.split)
  ultimately show ?thesis using assms by (simp add: OpGet_OpSave typed_row_def)
qed

lemma lock_save_keeps:
  assumes ok: "env_ok E" and arr: "\<And>x t. P x \<Longrightarrow> P (arrive E t x)" and save: "\<And>x t. P x \<Longrightarrow> P (x\<lparr>edb := OpSave t (eo x) (edb x)\<rparr>)"
  shows "keeps P no_nil (lock_save E)"
proof -
  have "case db_write E (\<lambda>t. OpSave t (eo x)) x of (Inl e, y) \<Rightarrow> P y \<and> no_nil e | (Inr u, y) \<Rightarrow> P y" if "P x" for x
    using arr [OF that] save [OF arr [OF that], of "clock E (tick x)" "tick x"] ts_fault [OF ok, of "tick x"]
    by (auto simp: db_write_def interact_def db_apply_def eng_simps split: option.split db_fault.split)
  then show ?thesis
    unfolding lock_save_def by (simp add: keeps_def triple_def bindE_def get_state_def)
qed

lemma ts_lock_save:
  assumes "env_ok E"
  shows "keeps (\<lambda>x. typed_state E i X x \<and> typed_row E (eo x)) no_nil (lock_save E)"
proof (rule lock_save_keeps [OF assms])
  fix x t
  assume "typed_state E i X x \<and> typed_row E (eo x)"
  then show "typed_state E i X (x\<lparr>edb := OpSave t (eo x) (edb x)\<rparr>) \<and> typed_row E (eo (x\<lparr>edb := OpSave t (eo x) (edb x)\<rparr>))"
    using typed_save [of E "eo x" "fst i" "edb x"] by (fastforce simp: typed_state_def)
qed (simp add: ts_arrive)

lemma ts_save:
  assumes "env_ok E"
  shows "sound E i X (save E)"
proof -
  have "triple (typed_state E i X) (seal E) (\<lambda>_ x. typed_state E i X x \<and> typed_row E (eo x))
      (\<lambda>e x. typed_state E i X x \<and> no_nil e)"
    using assms
    by (auto simp: triple_def seal_def set_o_def eng_simps typed_state_def typed_row_def typed_op_def decode_def
        box.open_seal env_ok_def split: option.split)
  moreover have "triple (\<lambda>x. typed_state E i X x \<and> typed_row E (eo x)) (lock_save E) (\<lambda>_. typed_state E i X)
      (\<lambda>e x. typed_state E i X x \<and> no_nil e)"
    using ts_lock_save [OF assms, of i X] unfolding keeps_def by (rule triple_post) auto
  ultimately show ?thesis unfolding save_def keeps_def by (rule triple_bind)
qed

lemma ts_lock_current: "env_ok E \<Longrightarrow> sound E i X (lock_current E)"
proof -
  assume ok: "env_ok E"
  have "triple (typed_state E i X) (lock_get E) (\<lambda>r x. typed_state E i X x \<and> r \<noteq> None) (\<lambda>e x. typed_state E i X x \<and> no_nil e)"
    unfolding lock_get_def db_read_def interact_def
    using ts_arrive [of E i X] ts_fault [OF ok]
    by (force simp: triple_def eng_simps typed_state_def split: option.splits db_fault.splits)
  then show ?thesis
    unfolding lock_current_def keeps_def
    by (rule triple_bind) (auto intro!: triple_pure triple_ret simp: triple_def ret_def throw_def split: option.split)
qed

lemma ts_auth: "env_ok E \<Longrightarrow> sound E i X (auth E q a w)"
  unfolding auth_def by (intro keeps_state) (force simp: env_ok_def ok_res_def intro: keeps_throw split: sum.split)

lemma ts_retry:
  assumes "env_ok E" and "sound E i X call"
  shows "sound E i X (doJSONRetry call (wait_timer E) b k)"
proof (induction k arbitrary: b)
  case 0
  then show ?case using assms(2) by simp
next
  case (Suc k)
  show ?case
    unfolding doJSONRetry.simps
    by (intro keeps_attempt [OF assms(2)] keeps_sum keeps_if keeps_throw keeps_bind ts_wait [OF assms(1)] Suc.IH keeps_ret) auto
qed

section \<open>Clients\<close>

lemma env_oks:
  assumes "env_ok E"
  shows "ok_res (locCreateJob E t)" "ok_res (locSettleJob E t)" "ok_res (locGetJob E t)" "ok_res (locPrepare E t)"
    "ok_res (locOpen E t)" "ok_res (locRefill E t)" "ok_res (locClose E t)" "ok_res (locGetSession E t)"
    "ok_res (brokerHTTP E t)" "ok_res (keyReply E t)"
  using assms by (simp_all add: env_ok_def)

lemmas ts_ok = ts_wait ts_res_write ts_live_write ts_db_read ts_save ts_lock_current ts_auth
lemmas ts_plain = ts_o ts_v ts_local ts_time ts_lift keeps_ret

lemma keeps_pair: "(\<And>a b. p = (a, b) \<Longrightarrow> keeps K G (f a b)) \<Longrightarrow> keeps K G (case p of (a, b) \<Rightarrow> f a b)"
  by (cases p) simp

lemma ts_throw: "no_nil e \<Longrightarrow> sound E i X (throw e)"
  by (rule keeps_throw)

lemma ts_loc_clients:
  "(\<And>q. sound E i X (p1 q)) \<Longrightarrow> sound E i X (CreateJobV2 p1 q1)"
  "(\<And>q. sound E i X (p3 q)) \<Longrightarrow> sound E i X (PrepareSessionV2 p3 q3)"
  "(\<And>q. sound E i X (p4 q)) \<Longrightarrow> sound E i X (LocOpenSessionV2 p4 q4)"
  "(\<And>q. sound E i X (p5 q)) \<Longrightarrow> sound E i X (RefillSessionV2 p5 q5)"
  unfolding CreateJobV2_def PrepareSessionV2_def LocOpenSessionV2_def RefillSessionV2_def issueV2_def
  by (auto intro!: keeps_bind keeps_if keeps_throw)

lemma ts_accounting_clients:
  assumes "env_ok E"
  shows "(\<And>q. sound E i X (p2 q)) \<Longrightarrow> sound E i X (SettleJobV2 p2 (wait_timer E) q2)"
    "(\<And>q. sound E i X (p6 q)) \<Longrightarrow> sound E i X (CloseSessionV2 p6 (wait_timer E) q6)"
  unfolding SettleJobV2_def CloseSessionV2_def
  by (auto intro!: keeps_if keeps_throw ts_retry [OF assms])

lemma ok_resD: "ok_res r \<Longrightarrow> r = Inl e \<Longrightarrow> no_nil e"
  by simp

lemma ts_session_clients:
  "sound E i X m7 \<Longrightarrow> sound E i X (StatusSessionV2 C sid cred m7)"
  "sound E i X m8 \<Longrightarrow> sound E i X (TopUpSessionV2 C sid cred a m8)"
  "sound E i X m9 \<Longrightarrow> sound E i X (EndSessionV2 C sid cred m9)"
  "sound E i X m10 \<Longrightarrow> sound E i X (BrokerOpenSessionV2 C a m10)"
  unfolding StatusSessionV2_def TopUpSessionV2_def EndSessionV2_def BrokerOpenSessionV2_def
  by (intro keeps_sum keeps_bind keeps_if ts_lift ok_session_reply ts_throw keeps_pair;
      (assumption | simp | (erule ok_resD [rotated], rule ok_auth_headers ok_jsonV2)))+

lemma ts_sse_dispatch: "(\<And>e. sound E i X (cb e)) \<Longrightarrow> sound E i X (sse_dispatch cb w data)"
  unfolding sse_dispatch_def by (intro keeps_rules keeps_ret) auto

lemma ts_sse_loop: "(\<And>e. sound E i X (cb e)) \<Longrightarrow> (\<And>e. err = Some e \<Longrightarrow> no_nil e) \<Longrightarrow>
    sound E i X (readSSE_loop cb err ls w data)"
  by (induction cb err ls w data rule: readSSE_loop.induct)
     (auto simp: Let_def intro!: keeps_bind ts_sse_dispatch keeps_throw split: option.split prod.split)

lemma ts_readSSE: "(\<And>e. sound E i X (cb e)) \<Longrightarrow> (\<And>e. err = Some e \<Longrightarrow> no_nil e) \<Longrightarrow> sound E i X (readSSE cb body err)"
  by (rule readSSE_cases; rule ts_sse_loop) (auto simp: ErrTooLong_def)

text \<open>The submit call: its own errors are texts, its stream's error is the environment's.\<close>

lemma ts_submit:
  assumes ok: "env_ok E" and lk: "\<And>jid. sound E i X (lk jid)" and cb: "\<And>e. sound E i X (cb e)"
  shows "sound E i X (SubmitJobV2 C a u (upcall E c (brokerHTTP E)) lk cb)"
proof -
  have post: "triple (typed_state E i X) (upcall E c (brokerHTTP E))
      (\<lambda>h x. typed_state E i X x \<and> (\<forall>e. hr_ReadErr h = Some e \<longrightarrow> no_nil e)) (\<lambda>e x. typed_state E i X x \<and> no_nil e)"
    using ok ts_arrive [of E i X]
    by (auto simp: triple_def upcall_def interact_def log_call_def eng_simps lift_result_def env_ok_def ok_res_def typed_state_def
        split: sum.split)
  have rest: "sound E i X (if \<not> status_ok (hr_Status h) then throw (brokerResponseError h)
        else if \<not> HasPrefix (ToLower (hget (hr_Header h) ''Content-Type'')) ''text/event-stream''
        then throw (Msg ''broker: expected stream response'')
        else thenE (readSSE cb (hr_Body h) (hr_ReadErr h))
          (let merged = hr_Trailer h @ hr_Header h; jobID = hget (hr_Header h) ''Livepeer-Job-Id'' in
           if hget merged ''Livepeer-Settlement'' \<noteq> '''' then
             (case decodeClaim C (hget merged ''Livepeer-Settlement'') of
                Inl e \<Rightarrow> throw e
              | Inr c \<Rightarrow> (case validateJobClaim c (ba_RequestID a) jobID u (ba_WorkID a) of
                  Some e \<Rightarrow> throw e
                | None \<Rightarrow> (case validateClaimHeaders c merged of Some e \<Rightarrow> throw e | None \<Rightarrow> ret c)))
           else lk jobID))" if "\<forall>e. hr_ReadErr h = Some e \<longrightarrow> no_nil e" for h
    unfolding Let_def
    by (intro keeps_if keeps_bind keeps_sum keeps_option keeps_ret ts_throw lk ts_readSSE cb)
       (use that in \<open>auto simp: brokerResponseError_def dest: ok_validate ok_resD [OF ok_decodeClaim]\<close>)
  have "triple (\<lambda>x. typed_state E i X x \<and> A) m (\<lambda>_. typed_state E i X) (\<lambda>e x. typed_state E i X x \<and> no_nil e)"
    if "A \<Longrightarrow> sound E i X m" for A and m :: "TerminalClaim eng"
    using that by (intro triple_pure) (simp add: keeps_def)
  from this [OF rest] show ?thesis
    unfolding SubmitJobV2_def keeps_def
    by (intro triple_sum triple_throw triple_bind [OF post]) (auto dest: ok_resD [OF ok_auth_headers(1)])
qed

section \<open>ABR jobs\<close>

abbreviation has_job :: "operationSecrets \<Rightarrow> bool" where
  "has_job s \<equiv> s_Job s \<noteq> None"

abbreviation has_job_claim :: "operationSecrets \<Rightarrow> bool" where
  "has_job_claim s \<equiv> s_Job s \<noteq> None \<and> s_Claim s \<noteq> None"

lemma ts_the_job: "(\<And>s. X s \<Longrightarrow> has_job s) \<Longrightarrow> sound E i X the_job"
  unfolding the_job_def by (rule sound_pointer) simp

lemma ts_the_claim: "(\<And>s. X s \<Longrightarrow> s_Claim s \<noteq> None) \<Longrightarrow> sound E i X the_claim"
  unfolding the_claim_def by (rule sound_pointer) simp

lemma ts_issuance: "env_ok E \<Longrightarrow> no_nil e \<Longrightarrow> sound E i X (issuanceFailure E e)"
  unfolding issuanceFailure_def
  by (intro keeps_rules ts_plain ts_ok ts_throw) simp_all

lemma gains_state: "(\<And>x. typed_state E i X x \<Longrightarrow> gains E i X (k x) Y) \<Longrightarrow> gains E i X (with_state k) Y"
  by (auto simp: gains_def triple_def bindE_def get_state_def)

lemma gains_ret: "(\<And>s. X s \<Longrightarrow> Y s) \<Longrightarrow> gains E i X (ret y) Y"
  by (auto simp: gains_def intro!: triple_ret elim: typed_state_mono)

lemma gains_throw: "no_nil e \<Longrightarrow> gains E i X (throw e) Y"
  by (auto simp: gains_def intro!: triple_throw)

lemma gains_then: "sound E i X m \<Longrightarrow> (\<And>y. gains E i X (k y) Y) \<Longrightarrow> gains E i X (bindE m k) Y"
  unfolding sound_gains by (rule gains_bind)

lemma gains_attempt: "sound E i X m \<Longrightarrow> (\<And>a. ok_res a \<Longrightarrow> gains E i X (k a) Y) \<Longrightarrow> gains E i X (bindE (attempt m) k) Y"
  unfolding keeps_def gains_def
  by (rule triple_bind [where M = "\<lambda>a x. typed_state E i X x \<and> ok_res a"], rule triple_attempt)
     (auto simp: ok_res_def intro: triple_pure)

text \<open>An effect that cannot succeed gains anything.\<close>

definition fails :: "env \<Rightarrow> uuid \<times> uuid option \<Rightarrow> (operationSecrets \<Rightarrow> bool) \<Rightarrow> 'a eng \<Rightarrow> bool" where
  "fails E i X m \<longleftrightarrow> triple (typed_state E i X) m (\<lambda>_ _. False) (\<lambda>e x. typed_state E i X x \<and> no_nil e)"

lemma fails_gains: "fails E i X m \<Longrightarrow> gains E i X m Y"
  unfolding fails_def gains_def by (erule triple_post) auto

lemma fails_then: "sound E i X m \<Longrightarrow> (\<And>y. fails E i X (k y)) \<Longrightarrow> fails E i X (bindE m k)"
  unfolding fails_def keeps_def by (rule triple_bind)

lemma fails_throw: "no_nil e \<Longrightarrow> fails E i X (throw e)"
  by (simp add: fails_def triple_throw)

lemma fails_state: "(\<And>x. typed_state E i X x \<Longrightarrow> fails E i X (k x)) \<Longrightarrow> fails E i X (with_state k)"
  by (auto simp: fails_def triple_def bindE_def get_state_def)

lemma fails_issuance: "env_ok E \<Longrightarrow> no_nil e \<Longrightarrow> fails E i X (issuanceFailure E e)"
proof -
  assume ok: "env_ok E" and e: "no_nil e"
  have if_both: "fails E i X m \<Longrightarrow> fails E i X n \<Longrightarrow> fails E i X (if b then m else n)" for b and m n :: "'a eng" by simp
  show ?thesis
    unfolding issuanceFailure_def
    by (rule fails_state, cases "definitive_refusal e")
       (auto simp: e intro!: if_both fails_then fails_throw ts_plain ts_ok ok keeps_option)
qed

lemma gains_branch:
  assumes "\<And>x. b x \<Longrightarrow> gains E i X (m x) Y" and "\<And>x. \<not> b x \<Longrightarrow> typed_state E i X x \<Longrightarrow> Y (es x)"
  shows "gains E i X (with_state (\<lambda>x. if b x then m x else ret y)) Y"
proof -
  have "case (if b x then m x else ret y) x of (Inl e, z) \<Rightarrow> typed_state E i X z \<and> no_nil e | (Inr a, z) \<Rightarrow> typed_state E i Y z"
    if x: "typed_state E i X x" for x
  proof (cases "b x")
    case True
    with assms(1) [of x] x show ?thesis by (simp add: gains_def triple_def)
  next
    case False
    with assms(2) [of x] x show ?thesis by (simp add: ret_def) (simp add: typed_state_def)
  qed
  then show ?thesis by (simp add: gains_def triple_def bindE_def get_state_def)
qed

lemma tg_abr_authorize:
  assumes "env_ok E"
  shows "gains E i (\<lambda>_. True) (abr_authorize E) has_job"
proof -
  have "gains E i (\<lambda>_. True) (thenE (set_s (\<lambda>s. s\<lparr>s_Job := Some job\<rparr>))
             (thenE (set_o (\<lambda>o1. o1\<lparr>op_State := ''authorized''\<rparr>)) (save E))) has_job" for job
    by (rule gains_bind [where Y = has_job], rule tg_s)
       (auto simp: typed_secrets_def sound_gains [symmetric] intro!: keeps_bind ts_plain ts_ok assms)
  then have "gains E i (\<lambda>_. True) (case a of Inl e \<Rightarrow> issuanceFailure E e
       | Inr job \<Rightarrow> thenE (set_s (\<lambda>s. s\<lparr>s_Job := Some job\<rparr>))
             (thenE (set_o (\<lambda>o1. o1\<lparr>op_State := ''authorized''\<rparr>)) (save E))) has_job" if "ok_res a" for a
    using that by (cases a) (auto intro!: fails_gains fails_issuance assms)
  then have ask: "gains E i (\<lambda>_. True) (thenE (set_o (\<lambda>o1. o1\<lparr>op_State := ''authorizing''\<rparr>)) (thenE (save E) (with_state (\<lambda>x.
       bindE (attempt (CreateJobV2 (\<lambda>i. upcall E (CallCreateJob i) (locCreateJob E)) (abr_create_request E x)))
         (\<lambda>r. case r of Inl e \<Rightarrow> issuanceFailure E e
          | Inr job \<Rightarrow> thenE (set_s (\<lambda>s. s\<lparr>s_Job := Some job\<rparr>))
             (thenE (set_o (\<lambda>o1. o1\<lparr>op_State := ''authorized''\<rparr>)) (save E))))))) has_job"
    by (intro gains_then gains_state gains_attempt ts_plain ts_ok ts_loc_clients ts_upcall env_oks assms) simp_all
  show ?thesis
    unfolding abr_authorize_def
    by (rule gains_branch, rule ask) (simp add: typed_state_def)
qed

lemma ts_link: "env_ok E \<Longrightarrow> sound E i has_job (abr_link E)"
  unfolding abr_link_def by (intro keeps_rules ts_the_job ts_throw ts_ok) simp_all

lemma ts_lookup_job: "env_ok E \<Longrightarrow> sound E i X (lookup_job E j jid)"
  unfolding lookup_job_def by (intro keeps_bind ts_upcall ts_lift ok_LookupJobV2 env_oks)

lemma ts_mark_settled: "env_ok E \<Longrightarrow> sound E i X (mark_settled E b)"
  unfolding mark_settled_def by (intro keeps_state ts_ok)

lemma ts_adopt: "env_ok E \<Longrightarrow> sound E i X (abr_adopt_loc_final E j st)"
  unfolding abr_adopt_loc_final_eq by (intro keeps_rules ts_plain ts_ok) simp_all

lemma ts_abr_recover: "env_ok E \<Longrightarrow> sound E i has_job (abr_recover E)"
  unfolding abr_recover_eq
  by (intro keeps_rules ts_the_job ts_lookup_job ts_s ts_v keeps_ret ts_upcall env_oks ts_adopt)
     (simp_all add: typed_secrets_def)

lemma ts_on_event: "env_ok E \<Longrightarrow> sound E i X (abr_on_event E e)"
  unfolding abr_on_event_def abr_event_apply_def
  by (intro keeps_rules ts_plain ts_ok ts_throw) (auto split: if_splits)

lemma tg_abr_dispatch:
  assumes "env_ok E"
  shows "gains E i has_job (abr_dispatch E) has_job_claim"
proof -
  have store: "gains E i has_job (thenE (set_s (\<lambda>s. s\<lparr>s_Claim := Some claim\<rparr>))
      (thenE (set_o (\<lambda>o1. o1\<lparr>op_State := ''accounting_pending''\<rparr>)) (save E))) has_job_claim" for claim
    by (rule gains_bind [where Y = has_job_claim], rule tg_s)
       (auto simp: typed_secrets_def sound_gains [symmetric] intro!: keeps_bind ts_plain ts_ok assms)
  have read: "gains E i has_job (thenE (set_s (\<lambda>s. s\<lparr>s_DispatchAttempted := True\<rparr>))
      (thenE (set_o (\<lambda>o1. o1\<lparr>op_State := ''dispatching''\<rparr>))
      (thenE (set_v (\<lambda>v. v\<lparr>v_Status := ''processing''\<rparr>))
      (thenE (save E)
      (thenE (modify (\<lambda>y. y\<lparr>lastSaved := 0\<rparr>))
      (bindE (SubmitJobV2 C a u (upcall E c (brokerHTTP E)) (lookup_job E j) (abr_on_event E)) (\<lambda>claim.
       thenE (set_s (\<lambda>s. s\<lparr>s_Claim := Some claim\<rparr>))
      (thenE (set_o (\<lambda>o1. o1\<lparr>op_State := ''accounting_pending''\<rparr>)) (save E))))))))) has_job_claim" for C a u c j
    by (intro gains_then ts_plain ts_s ts_ok assms ts_submit ts_lookup_job ts_on_event store) (simp_all add: typed_secrets_def)
  show ?thesis
    unfolding abr_dispatch_def
    by (intro gains_then ts_the_job gains_branch ts_auth assms read) (simp_all add: typed_state_def)
qed

lemma ts_settle_loc: "env_ok E \<Longrightarrow> sound E i X (abr_settle_loc E j c)"
  unfolding abr_settle_loc_eq
  by (intro keeps_rules ts_accounting_clients ts_upcall env_oks ts_throw ts_mark_settled) simp_all

lemma ts_abr_settle: "env_ok E \<Longrightarrow> sound E i has_job_claim (abr_settle E)"
  unfolding abr_settle_def
  by (intro keeps_rules ts_the_job ts_the_claim ts_settle_loc ts_plain ts_ok) simp_all

lemma ts_runABR:
  assumes "env_ok E"
  shows "sound E i (\<lambda>_. True) (runABR E)"
proof -
  have "sound E i has_job abr_reject_guard"
    unfolding abr_reject_guard_def by (intro keeps_rules ts_throw keeps_ret) simp
  then have "sound E i has_job (if fin then ret () else thenE abr_reject_guard (thenE (abr_dispatch E) (abr_settle E)))" for fin
    by (intro keeps_if keeps_ret keeps_bind sound_bind_gains [OF tg_abr_dispatch] ts_abr_settle assms) simp_all
  then have "sound E i has_job (thenE (abr_link E) (bindE (abr_recover E) (\<lambda>fin.
      if fin then ret () else thenE abr_reject_guard (thenE (abr_dispatch E) (abr_settle E)))))"
    by (intro keeps_bind ts_link ts_abr_recover assms)
  then show ?thesis
    unfolding runABR_def by (intro sound_bind_gains [OF tg_abr_authorize] assms) simp_all
qed

end
