(* ===== verification/Engine_Typed.thy ===== *)
theory Engine_Typed
  imports Engine_Types
begin

text \<open>
  Type soundness of the live phases and of a whole attempt: which pointers each phase of \<^verbatim>\<open>runLive\<close>
  finds and leaves, and that \<^verbatim>\<open>Process\<close> keeps the row well typed without a nil dereference.
\<close>

section \<open>Live sessions\<close>

definition has_prep :: "operationSecrets \<Rightarrow> bool" where
  "has_prep s \<longleftrightarrow> s_Preparation s \<noteq> None"

definition has_session :: "operationSecrets \<Rightarrow> bool" where
  "has_session s \<longleftrightarrow> s_Preparation s \<noteq> None \<and> s_Session s \<noteq> None"

definition has_broker :: "operationSecrets \<Rightarrow> bool" where
  "has_broker s \<longleftrightarrow> s_Preparation s \<noteq> None \<and> s_Session s \<noteq> None \<and> s_Broker s \<noteq> None"

lemmas has_defs = has_prep_def has_session_def has_broker_def typed_secrets_def

text \<open>Once a session is there, the later phases run with or without a broker descriptor: \<open>X\<close> is
  \<open>has_session\<close> or \<open>has_broker\<close>.\<close>

definition opened :: "(operationSecrets \<Rightarrow> bool) \<Rightarrow> bool" where
  "opened X \<longleftrightarrow> X = has_session \<or> X = has_broker"

lemma opened_simps [simp]: "opened has_session" "opened has_broker"
  by (simp_all add: opened_def)

lemma openedD: "opened X \<Longrightarrow> X s \<Longrightarrow> s_Preparation s \<noteq> None \<and> s_Session s \<noteq> None"
  by (auto simp: opened_def has_defs)

lemma ts_pointers:
  "opened X \<Longrightarrow> sound E i X the_session" "opened X \<Longrightarrow> sound E i X the_prep"
  unfolding the_session_def the_prep_def by (rule sound_pointer, auto dest: openedD)+

lemma ts_the_broker: "sound E i has_broker the_broker"
  unfolding the_broker_def by (rule sound_pointer) (simp add: has_broker_def)

lemma ts_live_id: "sound E (i, Some l) X the_live_id"
  unfolding the_live_id_def by (rule keeps_state) (simp add: typed_state_def)

text \<open>Updates that keep the pointers of an opened session.\<close>

lemma ts_so:
  assumes "opened X" and "\<And>s. (s_Preparation (f s) = None \<longleftrightarrow> s_Preparation s = None) \<and> (s_Session (f s) = None \<longleftrightarrow> s_Session s = None) \<and>
      (s_Broker s \<noteq> None \<longrightarrow> s_Broker (f s) \<noteq> None)"
  shows "sound E i X (set_s f)"
  by (rule ts_s) (use assms in \<open>auto simp: opened_def has_defs\<close>)

lemma ts_checked: "env_ok E \<Longrightarrow> sound E i X (live_write_checked E f)"
  unfolding live_write_checked_def
  using ts_fault [of E]
  by (intro ts_interact)
     (force simp: db_apply_def typed_state_def OpGet_def intro!: keeps_state keeps_option keeps_bind keeps_throw keeps_modify
      split: option.split db_fault.split)

lemma ts_project: "env_ok E \<Longrightarrow> opened X \<Longrightarrow> sound E (i, Some l) X (projectLive E)"
  unfolding projectLive_def
  by (intro keeps_rules ts_pointers ts_live_id ts_checked ts_ok keeps_ret)

lemma ts_observe_end: "env_ok E \<Longrightarrow> opened X \<Longrightarrow> sound E (i, Some l) X (observeLiveEnd E)"
  unfolding observeLiveEnd_def by (intro keeps_rules ts_plain ts_project) simp_all

lemma ts_finalize: "env_ok E \<Longrightarrow> opened X \<Longrightarrow> sound E (i, Some l) X (finalizeLiveProjection E u c)"
  unfolding finalizeLiveProjection_def
  by (intro keeps_attempt [OF ts_project] keeps_rules ts_plain ts_throw) simp_all

lemma ts_recover_closed: "env_ok E \<Longrightarrow> opened X \<Longrightarrow> sound E (i, Some l) X (recoverClosedLive E)"
  unfolding recoverClosedLive_eq
  by (intro keeps_rules ts_pointers ts_upcall env_oks ts_throw ts_mark_settled ts_plain ts_so ts_finalize) auto

lemma ts_or_recovered: "env_ok E \<Longrightarrow> opened X \<Longrightarrow> sound E (i, Some l) X k \<Longrightarrow> sound E (i, Some l) X (or_recovered E k)"
  unfolding or_recovered_def by (intro keeps_rules ts_recover_closed keeps_ret)

lemma ts_finish: "env_ok E \<Longrightarrow> opened X \<Longrightarrow> sound E (i, Some l) X (finishLive E)"
  unfolding finishLive_def
  by (intro keeps_rules ts_observe_end ts_pointers ts_ok ts_plain ts_throw ts_accounting_clients ts_upcall env_oks
      ts_or_recovered ts_mark_settled ts_finalize) simp_all

lemma ts_lookup_claim: "env_ok E \<Longrightarrow> opened X \<Longrightarrow> sound E (i, Some l) X (lookupLiveClaim E)"
  unfolding lookupLiveClaim_def Let_def
  by (intro keeps_rules ts_pointers ts_upcall env_oks ts_lift ok_LookupSettlement ts_throw keeps_ret) simp_all

text \<open>A value of the code's \<^verbatim>\<open>error\<close> type that is thrown later.\<close>

definition sound_err :: "env \<Rightarrow> uuid \<times> uuid option \<Rightarrow> (operationSecrets \<Rightarrow> bool) \<Rightarrow> err option eng \<Rightarrow> bool" where
  "sound_err E i X m \<longleftrightarrow> triple (typed_state E i X) m
     (\<lambda>r x. typed_state E i X x \<and> (\<forall>e. r = Some e \<longrightarrow> no_nil e)) (\<lambda>e x. typed_state E i X x \<and> no_nil e)"

lemma se_bind: "sound E i X m \<Longrightarrow> (\<And>y. sound_err E i X (k y)) \<Longrightarrow> sound_err E i X (bindE m k)"
  unfolding keeps_def sound_err_def by (rule triple_bind)

lemma se_attempt: "sound E i X m \<Longrightarrow> (\<And>a. ok_res a \<Longrightarrow> sound_err E i X (k a)) \<Longrightarrow> sound_err E i X (bindE (attempt m) k)"
  unfolding keeps_def sound_err_def
  by (rule triple_bind [where M = "\<lambda>a x. typed_state E i X x \<and> ok_res a"], rule triple_attempt)
     (auto simp: ok_res_def intro: triple_pure)

lemma se_state: "(\<And>x. sound_err E i X (k x)) \<Longrightarrow> sound_err E i X (with_state k)"
  by (auto simp: sound_err_def triple_def bindE_def get_state_def)

lemma se_ret: "(\<And>e. r = Some e \<Longrightarrow> no_nil e) \<Longrightarrow> sound_err E i X (ret r)"
  by (auto simp: sound_err_def intro: triple_ret)

lemma se_use:
  assumes "sound_err E i X m" and "\<And>r. (\<And>e. r = Some e \<Longrightarrow> no_nil e) \<Longrightarrow> sound E i X (k r)"
  shows "sound E i X (bindE m k)"
  unfolding keeps_def
proof (rule triple_bind [OF assms(1) [unfolded sound_err_def]], rule triple_pure)
  show "triple (typed_state E i X) (k r) (\<lambda>_. typed_state E i X) (\<lambda>e x. typed_state E i X x \<and> no_nil e)"
    if "\<forall>e. r = Some e \<longrightarrow> no_nil e" for r
    using assms(2) [of r] that by (simp add: keeps_def)
qed

lemma ts_end_broker: "env_ok E \<Longrightarrow> opened X \<Longrightarrow> sound_err E i X (end_broker_session E)"
  unfolding end_broker_session_def
  by (intro se_bind ts_pointers se_state)
     (auto intro!: se_ret se_attempt ts_session_clients ts_upcall env_oks split: option.split sum.splits)

lemma ts_end: 
  assumes ok: "env_ok E" and X: "opened X"
  shows "sound E (i, Some l) X (endLive E)"
proof -
  have tail: "sound E (i, Some l) X (bindE (attempt (lookupLiveClaim E)) (\<lambda>r. case r of
            Inl e \<Rightarrow> or_recovered E (throw (case endErr of Some ee \<Rightarrow> ee | None \<Rightarrow> e))
          | Inr c \<Rightarrow>
              thenE (set_s (\<lambda>s. s\<lparr>s_Claim := Some c\<rparr>))
             (thenE (set_o (\<lambda>o1. o1\<lparr>op_State := ''accounting_pending''\<rparr>))
             (thenE (save E) (finishLive E)))))" if "\<And>e. endErr = Some e \<Longrightarrow> no_nil e" for endErr
    by (intro keeps_attempt [OF ts_lookup_claim] keeps_rules ok X ts_or_recovered ts_throw ts_so ts_plain ts_ok ts_finish)
       (use that in \<open>auto split: option.split\<close>)
  show ?thesis
    unfolding endLive_def
    by (intro se_use [OF ts_end_broker] tail keeps_rules ts_plain ts_ok ts_finish ok X) simp_all
qed

lemma ts_clear_refill: "s_Preparation (clearPendingLiveRefill s) = s_Preparation s" "s_Session (clearPendingLiveRefill s) = s_Session s"
    "s_Broker (clearPendingLiveRefill s) = s_Broker s"
  by (simp_all add: clearPendingLiveRefill_def)

text \<open>After a refill request that lets the function go on, the revision is stored.\<close>

definition with_refill :: "operationSecrets \<Rightarrow> bool" where
  "with_refill s \<longleftrightarrow> has_broker s \<and> s_Refill s \<noteq> None"

lemma ts_refill_request:
  assumes ok: "env_ok E"
  shows "triple (typed_state E (i, Some l) has_broker) (refill_request E)
    (\<lambda>go x. typed_state E (i, Some l) has_broker x \<and> (go \<longrightarrow> s_Refill (es x) \<noteq> None))
    (\<lambda>e x. typed_state E (i, Some l) has_broker x \<and> no_nil e)" (is "triple ?P _ ?Q ?R")
proof -
  have stop: "triple ?P m (\<lambda>_. ?P) ?R \<Longrightarrow> triple ?P (thenE m (ret False)) ?Q ?R" for m :: "unit eng"
    by (erule triple_bind) (simp add: triple_ret)
  have refused: "triple ?P (thenE (set_s f) (thenE (endLive E) (ret False))) ?Q ?R"
    if f: "\<And>s. (s_Preparation (f s) = None \<longleftrightarrow> s_Preparation s = None) \<and> (s_Session (f s) = None \<longleftrightarrow> s_Session s = None) \<and>
      (s_Broker s \<noteq> None \<longrightarrow> s_Broker (f s) \<noteq> None)" for f
    by (rule triple_bind [OF ts_so [of has_broker, OF _ f, unfolded keeps_def]], simp,
        rule stop, rule ts_end [OF ok, unfolded keeps_def]) simp
  have granted: "triple ?P (thenE (set_s (\<lambda>s. s\<lparr>s_Refill := Some rf\<rparr>)) (thenE (save E) (ret True))) ?Q ?R" for rf
  proof (rule triple_bind)
    show "triple ?P (set_s (\<lambda>s. s\<lparr>s_Refill := Some rf\<rparr>)) (\<lambda>_. typed_state E (i, Some l) with_refill) ?R"
      unfolding set_s_def by (rule triple_modify) (simp add: typed_state_def with_refill_def has_defs)
    have "sound E (i, Some l) with_refill (save E)" by (rule ts_save [OF ok])
    then have "triple (typed_state E (i, Some l) with_refill) (save E) (\<lambda>_. typed_state E (i, Some l) with_refill) ?R"
      unfolding keeps_def by (rule triple_post) (auto simp: typed_state_def with_refill_def)
    then show "triple (typed_state E (i, Some l) with_refill) (thenE (save E) (ret True)) ?Q ?R"
      by (rule triple_bind) (auto simp: typed_state_def with_refill_def intro!: triple_ret)
  qed
  have send: "sound E (i, Some l) has_broker (RefillSessionV2 (\<lambda>i. upcall E (c i) (locRefill E)) q)" for c q
    by (intro ts_loc_clients ts_upcall env_oks ok)
  have answer: "triple (\<lambda>x. ?P x \<and> ok_res r) (case r of
           Inl e \<Rightarrow>
             if IsInsufficientCredit e then
               thenE (set_s (\<lambda>s. (clearPendingLiveRefill s)\<lparr>s_EndReason := ''refill_refused''\<rparr>))
              (thenE (endLive E) (ret False))
             else thenE (or_recovered E (throw e)) (ret False)
         | Inr rf \<Rightarrow> thenE (set_s (\<lambda>s. s\<lparr>s_Refill := Some rf\<rparr>)) (thenE (save E) (ret True))) ?Q ?R" for r
  proof (rule triple_pure, cases r)
    fix e
    assume "ok_res r" and [simp]: "r = Inl e"
    then have "sound E (i, Some l) has_broker (or_recovered E (throw e))"
      by (intro ts_or_recovered ok ts_throw) simp_all
    from stop [OF this [unfolded keeps_def]] refused [of "\<lambda>s. (clearPendingLiveRefill s)\<lparr>s_EndReason := ''refill_refused''\<rparr>"]
    show "triple ?P (case r of
           Inl e \<Rightarrow>
             if IsInsufficientCredit e then
               thenE (set_s (\<lambda>s. (clearPendingLiveRefill s)\<lparr>s_EndReason := ''refill_refused''\<rparr>))
              (thenE (endLive E) (ret False))
             else thenE (or_recovered E (throw e)) (ret False)
         | Inr rf \<Rightarrow> thenE (set_s (\<lambda>s. s\<lparr>s_Refill := Some rf\<rparr>)) (thenE (save E) (ret True))) ?Q ?R"
      by (simp add: ts_clear_refill)
  qed (use granted in simp)
  have attempt: "triple ?P (attempt (RefillSessionV2 (\<lambda>i. upcall E (c i) (locRefill E)) q)) (\<lambda>a x. ?P x \<and> ok_res a) ?R" for c q
    by (rule triple_attempt) (use send [of c q] in \<open>simp add: keeps_def ok_res_def\<close>)
  have "triple ?P (bindE the_session (\<lambda>sess.
      bindE (attempt (RefillSessionV2 (\<lambda>i. upcall E (CallRefillSession (sess_SessionID sess) i) (locRefill E)) (q sess)))
        (\<lambda>r. case r of
           Inl e \<Rightarrow>
             if IsInsufficientCredit e then
               thenE (set_s (\<lambda>s. (clearPendingLiveRefill s)\<lparr>s_EndReason := ''refill_refused''\<rparr>))
              (thenE (endLive E) (ret False))
             else thenE (or_recovered E (throw e)) (ret False)
         | Inr rf \<Rightarrow> thenE (set_s (\<lambda>s. s\<lparr>s_Refill := Some rf\<rparr>)) (thenE (save E) (ret True))))) ?Q ?R" for q
    by (rule triple_bind [OF ts_pointers(1) [of has_broker, unfolded keeps_def]], simp, rule triple_bind [OF attempt answer])
  note ask = this
  show ?thesis
    unfolding refill_request_def
  proof (rule triple_state, rule triple_if)
    show "triple (\<lambda>t. ?P t \<and> t = x) (ret True) ?Q ?R" if "s_Refill (es x) \<noteq> None" for x
      by (rule triple_ret) (use that in auto)
  qed (rule triple_pre [OF ask], simp)
qed

lemma ts_refill_failed: "env_ok E \<Longrightarrow> no_nil e \<Longrightarrow> sound E (i, Some l) has_broker (refill_failed E e)"
  unfolding refill_failed_def
  by (intro keeps_attempt [OF ts_lookup_claim] keeps_rules ts_so ts_plain ts_ok ts_end ts_finish ts_or_recovered ts_throw) simp_all

lemma ts_the_refill: "sound E i with_refill the_refill"
  unfolding the_refill_def by (rule sound_pointer) (simp add: with_refill_def)

lemma ts_adopt_refill: "sound E i has_broker (set_s (adopt_refill rf))"
  by (rule ts_s) (simp add: has_defs adopt_refill_def ts_clear_refill)

lemma gains_of_sound: "sound E i X m \<Longrightarrow> (\<And>s. X s \<Longrightarrow> Y s) \<Longrightarrow> gains E i X m Y"
  unfolding sound_gains by (rule gains_weaken)

lemma ts_refill_deliver:
  assumes ok: "env_ok E"
  shows "triple (typed_state E (i, Some l) with_refill) (refill_deliver E) (\<lambda>_. typed_state E (i, Some l) has_broker)
    (\<lambda>e x. typed_state E (i, Some l) has_broker x \<and> no_nil e)"
proof -
  have rest: "sound E (i, Some l) has_broker (bindE (auth E (refill_RequestID rf) (refill_SpendAuthorization rf) (refill_WorkID rf)) (\<lambda>a.
     bindE the_session (\<lambda>sess. bindE the_broker (\<lambda>b. with_state (\<lambda>x.
     bindE (attempt (TopUpSessionV2 (codecs E) (b_SessionID b) (b_Credential b) a
        (upcall E (CallTopUpSession (sess_BrokerURL sess) (b_SessionID b) a (s_RefillBody (es x))) (brokerHTTP E))))
       (\<lambda>r. case r of
          Inl e \<Rightarrow> refill_failed E e
        | Inr resp \<Rightarrow>
            if bs_WorkID resp \<noteq> refill_WorkID rf then throw (Msg ''refill authorization identity mismatch'')
            else thenE (set_s (adopt_refill rf))
                (thenE (save E)
                (bindE the_live_id (\<lambda>lid. live_write E (\<lambda>t. IncrementLOCRefill lid))))))))))" for rf
    by (intro keeps_rules ts_ok ts_pointers ts_the_broker ts_session_clients ts_upcall env_oks ts_refill_failed ts_throw
        ts_adopt_refill ts_live_id ok) simp_all
  have "triple (typed_state E (i, Some l) with_refill) the_refill (\<lambda>_. typed_state E (i, Some l) has_broker)
      (\<lambda>e x. typed_state E (i, Some l) has_broker x \<and> no_nil e)"
    using ts_the_refill unfolding keeps_def by (rule triple_post) (auto simp: typed_state_def with_refill_def)
  then show ?thesis
    unfolding refill_deliver_def by (rule triple_bind) (use rest in \<open>simp add: keeps_def\<close>)
qed

lemma ts_refill: "env_ok E \<Longrightarrow> sound E (i, Some l) has_broker (refillLive E)"
  unfolding refillLive_def keeps_def
proof (rule triple_bind [OF ts_refill_request], assumption, rule triple_if)
  assume ok: "env_ok E"
  show "triple (\<lambda>x. typed_state E (i, Some l) has_broker x \<and> (go \<longrightarrow> s_Refill (es x) \<noteq> None)) (refill_deliver E)
      (\<lambda>_. typed_state E (i, Some l) has_broker) (\<lambda>e x. typed_state E (i, Some l) has_broker x \<and> no_nil e)" if go for go
    using that by (intro triple_pre [OF ts_refill_deliver [OF ok]]) (auto simp: typed_state_def with_refill_def)
qed (auto intro: triple_ret)

text \<open>Observing a stop always throws.\<close>

lemma ts_observe_stop: "env_ok E \<Longrightarrow> opened X \<Longrightarrow> sound E (i, Some l) X (observe_stop E f)"
  unfolding observe_stop_def by (intro keeps_rules ts_plain ts_observe_end ts_throw) simp_all

lemma ts_stop_outcome: "env_ok E \<Longrightarrow> opened X \<Longrightarrow> sound E (i, Some l) X (stop_outcome E out)"
  unfolding stop_outcome_def
  by (intro keeps_rules ts_observe_stop ts_lookup_claim ts_so ts_finish keeps_ret ts_throw) simp_all

lemma ts_stop_unopened: "env_ok E \<Longrightarrow> opened X \<Longrightarrow> sound E (i, Some l) X (stopUnopenedLive E)"
  unfolding stopUnopenedLive_def
  by (intro keeps_rules ts_so ts_plain ts_recover_closed ts_observe_stop ts_pointers ts_upcall env_oks ts_lift
      ok_LookupOpen ts_stop_outcome) simp_all

lemma ts_issue_runtime_key: "env_ok E \<Longrightarrow> sound E i X (issue_runtime_key E b g)"
  unfolding issue_runtime_key_def Let_def
  by (intro keeps_rules ts_throw ts_upcall env_oks) (auto dest: ok_resD [OF ok_auth_headers(2)])

lemma ts_key_request: "env_ok E \<Longrightarrow> opened X \<Longrightarrow> sound E i X (key_request_id E)"
  unfolding key_request_id_def by (intro keeps_rules ts_so ts_ok) simp_all

lemma ts_issue_round: "env_ok E \<Longrightarrow> opened X \<Longrightarrow> sound E i X (issue_round E b g)"
  unfolding issue_round_def Let_def
  by (intro keeps_rules ts_key_request ts_issue_runtime_key ts_throw ts_so ts_ok ts_plain) simp_all

lemma ts_grant_expired: "env_ok E \<Longrightarrow> opened X \<Longrightarrow> sound E i X (grant_expired E)"
  unfolding grant_expired_def
  by (intro keeps_rules ts_so ts_ok ts_plain ts_throw) simp_all

lemma ts_issue_key: "env_ok E \<Longrightarrow> opened X \<Longrightarrow> sound E i X (issueLiveStreamKey E)"
  unfolding issueLiveStreamKey_def Let_def
  by (intro keeps_rules ts_throw ts_plain ts_grant_expired ts_issue_round) (auto dest: ok_runtime)

section \<open>The drivers\<close>

lemma ts_cancel: "env_ok E \<Longrightarrow> sound E (i, Some l) X (live_cancel E)"
  unfolding live_cancel_def by (intro keeps_rules ts_ok ts_live_id ts_plain) simp_all

lemma tg_prepare:
  assumes ok: "env_ok E"
  shows "gains E i (\<lambda>_. True) (live_prepare E) has_prep"
proof -
  have store: "gains E i (\<lambda>_. True) (thenE (set_s (\<lambda>s. s\<lparr>s_Preparation := Some p, s_Body := f s\<rparr>))
      (thenE (set_o (\<lambda>o1. o1\<lparr>op_State := ''prepared''\<rparr>)) (save E))) has_prep" for p f
    by (rule gains_bind [where Y = has_prep], rule tg_s)
       (auto simp: has_defs sound_gains [symmetric] intro!: keeps_bind ts_plain ts_ok ok)
  have "gains E i (\<lambda>_. True) (case a of Inl e \<Rightarrow> issuanceFailure E e
       | Inr p \<Rightarrow> thenE (set_s (\<lambda>s. s\<lparr>s_Preparation := Some p, s_Body := f p s\<rparr>))
             (thenE (set_o (\<lambda>o1. o1\<lparr>op_State := ''prepared''\<rparr>)) (save E))) has_prep" if "ok_res a" for a f
    using that by (cases a) (auto intro!: fails_gains fails_issuance ok store)
  then show ?thesis
    unfolding live_prepare_def
    by (intro gains_branch gains_attempt ts_loc_clients ts_upcall env_oks ok) (auto simp: typed_state_def has_prep_def)
qed

lemma ts_the_prep: "sound E i has_prep the_prep"
  unfolding the_prep_def by (rule sound_pointer) (simp add: has_prep_def)

lemma tg_authorize:
  assumes ok: "env_ok E"
  shows "gains E i has_prep (live_authorize E) has_session"
proof -
  have store: "gains E i has_prep (thenE (set_s (\<lambda>s. s\<lparr>s_Session := Some c\<rparr>))
      (thenE (set_o (\<lambda>o1. o1\<lparr>op_State := ''authorized''\<rparr>)) (save E))) has_session" for c
    by (rule gains_bind [where Y = has_session], rule tg_s)
       (auto simp: has_defs sound_gains [symmetric] intro!: keeps_bind ts_plain ts_ok ok)
  have "gains E i has_prep (case a of Inl e \<Rightarrow> issuanceFailure E e
       | Inr c \<Rightarrow> thenE (set_s (\<lambda>s. s\<lparr>s_Session := Some c\<rparr>))
             (thenE (set_o (\<lambda>o1. o1\<lparr>op_State := ''authorized''\<rparr>)) (save E))) has_session" if "ok_res a" for a
    using that by (cases a) (auto intro!: fails_gains fails_issuance ok store)
  then show ?thesis
    unfolding live_authorize_def
    by (intro gains_branch gains_then ts_the_prep gains_attempt ts_loc_clients ts_upcall env_oks ok)
       (auto simp: typed_state_def has_defs)
qed

lemma ts_reread: "env_ok E \<Longrightarrow> sound E i X (reread_stop E)"
  unfolding reread_stop_def by (intro keeps_rules ts_ok ts_plain) simp_all

lemma ts_open_failed: "env_ok E \<Longrightarrow> no_nil e \<Longrightarrow> sound E (i, Some l) has_session (open_failed E e)"
proof -
  assume ok: "env_ok E" and e: "no_nil e"
  have look: "sound E (i, Some l) has_session (bindE (upcall E c (brokerHTTP E)) (\<lambda>r.
      lift_result (LookupSessionSettlementV2 (codecs E) r g w u)))" for c g w u
    by (intro keeps_bind ts_upcall ts_lift ok_LookupSettlement env_oks ok)
  show ?thesis
    unfolding open_failed_def
    by (intro keeps_attempt [OF look] keeps_rules ts_pointers ts_so ts_ok ts_finish ts_or_recovered ts_throw ok e) simp_all
qed

text \<open>\<open>True\<close> is returned only with a descriptor.\<close>

definition opens :: "env \<Rightarrow> uuid \<times> uuid option \<Rightarrow> (operationSecrets \<Rightarrow> bool) \<Rightarrow> bool eng \<Rightarrow> bool" where
  "opens E i X m \<longleftrightarrow> triple (typed_state E i X) m
     (\<lambda>go x. typed_state E i has_session x \<and> (go \<longrightarrow> s_Broker (es x) \<noteq> None)) (\<lambda>e x. typed_state E i has_session x \<and> no_nil e)"

lemma opened_session: "opened X \<Longrightarrow> typed_state E i X x \<Longrightarrow> typed_state E i has_session x"
  by (auto simp: opened_def has_defs typed_state_def)

lemma opens_gains: "gains E i X m Y \<Longrightarrow> opened X \<Longrightarrow> (\<And>y. opens E i Y (k y)) \<Longrightarrow> opens E i X (bindE m k)"
  unfolding gains_def opens_def
  by (rule triple_bind [where M = "\<lambda>_. typed_state E i Y"], erule triple_post) (auto intro: opened_session)

lemma opens_then: "sound E i X m \<Longrightarrow> opened X \<Longrightarrow> (\<And>y. opens E i X (k y)) \<Longrightarrow> opens E i X (bindE m k)"
  unfolding sound_gains by (rule opens_gains)

lemma opens_attempt: "sound E i has_session m \<Longrightarrow> (\<And>a. ok_res a \<Longrightarrow> opens E i has_session (k a)) \<Longrightarrow>
    opens E i has_session (bindE (attempt m) k)"
  unfolding keeps_def opens_def
  by (rule triple_bind [where M = "\<lambda>a x. typed_state E i has_session x \<and> ok_res a"], rule triple_attempt)
     (auto simp: ok_res_def intro: triple_pure)

lemma opens_state: "(\<And>x. opens E i X (k x)) \<Longrightarrow> opens E i X (with_state k)"
  by (auto simp: opens_def triple_def bindE_def get_state_def)

lemma opens_ret: "opened X \<Longrightarrow> (go \<Longrightarrow> X = has_broker) \<Longrightarrow> opens E i X (ret go)"
  by (auto simp: opens_def intro!: triple_ret intro: opened_session) (auto simp: typed_state_def has_defs)

lemma opens_throw: "opened X \<Longrightarrow> no_nil e \<Longrightarrow> opens E i X (throw e)"
  by (auto simp: opens_def intro!: triple_throw intro: opened_session)

lemma opens_if: "(b \<Longrightarrow> opens E i X m) \<Longrightarrow> (\<not> b \<Longrightarrow> opens E i X n) \<Longrightarrow> opens E i X (if b then m else n)"
  by simp

lemma ts_dispatch:
  assumes ok: "env_ok E"
  shows "opens E (i, Some l) has_session (live_dispatch E)"
proof -
  have found: "opens E (i, Some l) has_session (thenE (set_s (\<lambda>s. s\<lparr>s_Broker := Some b\<rparr>))
            (case berr of
               Some e \<Rightarrow> throw e
             | None \<Rightarrow>
                 if b_Credential b = '''' \<or> b_Schema b \<noteq> ''rtmp-hls/v1'' then throw (Msg ''invalid live descriptor'')
                 else thenE (set_o (\<lambda>o1. o1\<lparr>op_State := ''provisioning''\<rparr>))
                     (thenE (save E) (ret True))))" if "convertBroker resp = (b, berr)" for resp b berr
  proof (rule opens_gains [where Y = has_broker])
    show "gains E (i, Some l) has_session (set_s (\<lambda>s. s\<lparr>s_Broker := Some b\<rparr>)) has_broker"
      by (rule tg_s) (simp add: has_defs)
    show "opens E (i, Some l) has_broker (case berr of
               Some e \<Rightarrow> throw e
             | None \<Rightarrow>
                 if b_Credential b = '''' \<or> b_Schema b \<noteq> ''rtmp-hls/v1'' then throw (Msg ''invalid live descriptor'')
                 else thenE (set_o (\<lambda>o1. o1\<lparr>op_State := ''provisioning''\<rparr>))
                     (thenE (save E) (ret True)))"
      using that
      by (cases berr) (auto intro!: opens_throw opens_then opens_ret ts_plain ts_ok ok dest: ok_convert)
  qed simp
  have answer: "opens E (i, Some l) has_session (case a of
          Inl e \<Rightarrow> thenE (open_failed E e) (ret False)
        | Inr resp \<Rightarrow> (case convertBroker resp of (b, berr) \<Rightarrow>
            thenE (set_s (\<lambda>s. s\<lparr>s_Broker := Some b\<rparr>))
            (case berr of
               Some e \<Rightarrow> throw e
             | None \<Rightarrow>
                 if b_Credential b = '''' \<or> b_Schema b \<noteq> ''rtmp-hls/v1'' then throw (Msg ''invalid live descriptor'')
                 else thenE (set_o (\<lambda>o1. o1\<lparr>op_State := ''provisioning''\<rparr>))
                     (thenE (save E) (ret True)))))" if "ok_res a" for a
  proof (cases a)
    case (Inl e)
    with that have "opens E (i, Some l) has_session (thenE (open_failed E e) (ret False))"
      by (intro opens_then ts_open_failed opens_ret ok) simp_all
    with Inl show ?thesis by simp
  next
    case (Inr resp)
    obtain b berr where "convertBroker resp = (b, berr)" by (cases "convertBroker resp")
    with found [OF this] Inr show ?thesis by simp
  qed
  show ?thesis
    unfolding live_dispatch_def
    by (intro opens_then ts_pointers ts_ok ts_so ts_plain opens_state opens_attempt ts_session_clients ts_upcall env_oks answer ok)
       simp_all
qed

lemma opens_branch:
  assumes "opens E i has_session m"
  shows "opens E i has_session (with_state (\<lambda>x. if s_Broker (es x) = None then m else ret True))"
  unfolding opens_def
proof (rule triple_state, rule triple_if)
  fix x :: estate
  assume "s_Broker (es x) \<noteq> None"
  then show "triple (\<lambda>t. typed_state E i has_session t \<and> t = x) (ret True)
      (\<lambda>go x. typed_state E i has_session x \<and> (go \<longrightarrow> s_Broker (es x) \<noteq> None)) (\<lambda>e x. typed_state E i has_session x \<and> no_nil e)"
    by (intro triple_ret) auto
qed (rule triple_pre [OF assms [unfolded opens_def]], simp)

lemma ts_open_session:
  assumes ok: "env_ok E"
  shows "opens E (i, Some l) has_session (live_open_session E)"
proof -
  have "opens E (i, Some l) has_session (if go then live_dispatch E else ret False)" for go
    by (intro opens_if ts_dispatch opens_ret ok) simp_all
  then have ask: "opens E (i, Some l) has_session (thenE (reread_stop E)
     (with_state (\<lambda>y.
      bindE (if op_StopRequested (eo y) then stopUnopenedLive E else ret True) (\<lambda>go.
      if go then live_dispatch E else ret False))))"
    by (intro opens_then ts_reread opens_state keeps_if ts_stop_unopened keeps_ret ok) simp_all
  then show ?thesis unfolding live_open_session_def by (rule opens_branch)
qed

lemma ts_stop_check: "env_ok E \<Longrightarrow> sound E i has_broker (live_stop_check E)"
  unfolding live_stop_check_def by (intro keeps_rules ts_reread ts_so ts_plain) simp_all

lemma ts_pending: "env_ok E \<Longrightarrow> sound E (i, Some l) has_broker (live_pending_refill E)"
  unfolding live_pending_refill_def by (intro keeps_rules ts_refill keeps_ret)

lemma ts_publish: "env_ok E \<Longrightarrow> sound E i has_broker (live_publish E)"
  unfolding live_publish_def by (intro keeps_rules ts_issue_key ts_the_broker ts_plain ts_ok) simp_all

lemma ts_reconcile: "env_ok E \<Longrightarrow> sound E (i, Some l) has_broker (live_reconcile E sess st)"
  unfolding live_reconcile_def
  by (intro keeps_rules ts_so ts_ok ts_refill ts_plain ts_project) (simp_all add: begin_refill_def)

lemma ts_observe: "env_ok E \<Longrightarrow> sound E (i, Some l) has_broker (live_observe E sess st)"
  unfolding live_observe_def
  by (intro keeps_rules ts_throw ts_plain ts_so ts_observe_end ts_end ts_reconcile) simp_all

lemma ts_monitor: "env_ok E \<Longrightarrow> sound E (i, Some l) has_broker (live_monitor E)"
  unfolding live_monitor_def
  by (intro keeps_rules ts_project ts_pointers ts_the_broker ts_session_clients ts_upcall env_oks ts_or_recovered ts_throw
      keeps_pair ts_observe) (auto dest: ok_convert)

lemma ts_control: "env_ok E \<Longrightarrow> sound E (i, Some l) has_broker (live_control E)"
  unfolding live_control_def
  by (intro keeps_rules ts_stop_check ts_pending keeps_ret ts_end ts_publish ts_monitor) simp_all

lemma ts_runLive:
  assumes ok: "env_ok E"
  shows "sound E (i, Some l) (\<lambda>_. True) (runLive E)"
proof -
  let ?I = "(i, Some l)"
  have control: "sound E ?I has_session (bindE (live_open_session E) (\<lambda>go. if go then live_control E else ret ()))"
    unfolding keeps_def
  proof (rule triple_bind [OF ts_open_session [OF ok, unfolded opens_def]], rule triple_if)
    have "triple (typed_state E ?I has_broker) (live_control E) (\<lambda>_. typed_state E ?I has_session)
        (\<lambda>e x. typed_state E ?I has_session x \<and> no_nil e)"
      using ts_control [OF ok] unfolding keeps_def by (rule triple_post) (auto intro: opened_session [of has_broker])
    then show "triple (\<lambda>x. typed_state E ?I has_session x \<and> (go \<longrightarrow> s_Broker (es x) \<noteq> None)) (live_control E)
        (\<lambda>_. typed_state E ?I has_session) (\<lambda>e x. typed_state E ?I has_session x \<and> no_nil e)" if go for go
      using that by (elim triple_pre) (simp add: typed_state_def has_defs)
  qed (auto intro: triple_ret)
  have body: "sound E ?I has_session (with_state (\<lambda>y. if s_Claim (es y) \<noteq> None then finishLive E
           else bindE (live_open_session E) (\<lambda>go. if go then live_control E else ret ())))"
    by (intro keeps_state keeps_if ts_finish control ok) simp
  have "sound E ?I has_prep (thenE (live_authorize E) (with_state (\<lambda>y. if s_Claim (es y) \<noteq> None then finishLive E
           else bindE (live_open_session E) (\<lambda>go. if go then live_control E else ret ()))))"
    by (rule sound_bind_gains [OF tg_authorize [OF ok] body]) (simp add: has_defs)
  from sound_bind_gains [OF tg_prepare [OF ok] this] show ?thesis
    unfolding runLive_def by (intro keeps_state keeps_if ts_cancel ok) simp_all
qed

lemma ts_record_failure: "sound E i X (record_failure E e)"
  unfolding record_failure_def by (intro keeps_rules ts_plain) simp_all

lemma ts_run_operation:
  assumes ok: "env_ok E" and x: "typed_state E (i, op_LiveStreamID (eo x)) (\<lambda>_. True) x"
  shows "(\<exists>r. OpGet i (edb (snd (run_operation E x))) = Some r \<and> typed_row E r) \<and>
    (\<forall>e. fst (run_operation E x) = Inl e \<longrightarrow> no_nil e)"
proof -
  let ?I = "(i, op_LiveStreamID (eo x))"
  have run: "sound E ?I (\<lambda>_. True) (with_state (\<lambda>y. if op_Kind (eo y) = ''abr'' then runABR E else runLive E))"
  proof (rule keeps_state, rule keeps_if)
    fix y
    assume "typed_state E ?I (\<lambda>_. True) y" and "op_Kind (eo y) \<noteq> ''abr''"
    then have "op_LiveStreamID (eo x) \<noteq> None"
      by (cases "op_LiveStreamID (eo x)") (auto simp: typed_state_def typed_op_def)
    then show "sound E ?I (\<lambda>_. True) (runLive E)" by (auto simp: ts_runLive [OF ok])
  qed (rule ts_runABR [OF ok])
  have "sound E ?I (\<lambda>_. True) (run_operation E)"
    unfolding run_operation_def
    by (intro keeps_attempt [OF run] keeps_rules ts_plain ts_record_failure ts_ok ts_throw ok) simp_all
  from keepsD [OF this x] show ?thesis by (auto simp: typed_state_def)
qed

section \<open>An attempt\<close>

definition row_ok :: "env \<Rightarrow> uuid \<Rightarrow> estate \<Rightarrow> bool" where
  "row_ok E i x \<longleftrightarrow> (\<forall>r. OpGet i (edb x) = Some r \<longrightarrow> typed_row E r)"

lemma row_ok_arrive: "row_ok E i x \<Longrightarrow> row_ok E i (arrive E t x)"
proof -
  assume ok: "row_ok E i x"
  show ?thesis
  proof (cases "OpGet i (edb x)")
    case None
    with OpGet_stops(1) [of i "clock E t" "stops E t" "edb x"] show ?thesis by (simp add: row_ok_def)
  next
    case (Some r)
    with ok OpGet_stops(2) [OF Some, of "clock E t" "stops E t"] show ?thesis
      by (auto simp: row_ok_def dest: decode_stops)
  qed
qed

lemma rk_interact: "(\<And>t. keeps (row_ok E i) no_nil (k t)) \<Longrightarrow> keeps (row_ok E i) no_nil (interact E k)"
  by (simp add: keeps_def triple_def interact_def row_ok_arrive)

lemma rk_entry:
  assumes ok: "env_ok E"
  shows "keeps (row_ok E i) no_nil (acquire_slot E)" "keeps (row_ok E i) no_nil (lock_op E i)"
proof -
  show "keeps (row_ok E i) no_nil (acquire_slot E)"
    unfolding acquire_slot_def wait_timer_def
    using ok by (intro rk_interact) (auto simp: env_ok_def intro!: keeps_throw split: option.split)
  show "keeps (row_ok E i) no_nil (lock_op E i)"
    unfolding lock_op_def
    by (intro rk_interact) (auto intro!: keeps_throw dest: ts_fault [OF ok] split: option.split db_fault.split)
qed

lemma rk_read:
  assumes ok: "env_ok E"
  shows "triple (row_ok E i) (db_read E (OpGet i)) (\<lambda>r x. row_ok E i x \<and> r = OpGet i (edb x)) (\<lambda>e x. row_ok E i x \<and> no_nil e)"
  unfolding triple_def
proof (intro allI impI)
  fix x
  assume "row_ok E i x"
  then have "row_ok E i (arrive E (tick x) x)" by (rule row_ok_arrive)
  then show "case db_read E (OpGet i) x of (Inl e, y) \<Rightarrow> row_ok E i y \<and> no_nil e
      | (Inr r, y) \<Rightarrow> row_ok E i y \<and> r = OpGet i (edb y)"
    using ts_fault [OF ok, of "tick x"]
    by (auto simp: db_read_def interact_def eng_simps split: option.split db_fault.split)
qed

text \<open>The row whose journal cannot be opened is written back with its secrets as they are.\<close>

definition unread :: "env \<Rightarrow> uuid \<Rightarrow> estate \<Rightarrow> bool" where
  "unread E i x \<longleftrightarrow> op_ID (eo x) = i \<and> typed_row E (eo x) \<and> (\<exists>q. OpGet i (edb x) = Some q) \<and> row_ok E i x"

lemma rk_unavailable:
  assumes ok: "env_ok E" and e: "no_nil e"
  shows "keeps (unread E i) no_nil (key_unavailable E e)"
proof -
  have arr: "unread E i (arrive E t x)" if "unread E i x" for t x
    using that row_ok_arrive [of E i x t] OpGet_stops(1) [of i "clock E t" "stops E t" "edb x"]
    by (auto simp: unread_def)
  have sav: "unread E i (x\<lparr>edb := OpSave t (eo x) (edb x)\<rparr>)" if "unread E i x" for t x
  proof -
    from that obtain q where "OpGet i (edb x) = Some q" "typed_row E q" by (auto simp: unread_def row_ok_def)
    with that typed_save [of E "eo x" i "edb x" q t] show ?thesis by (simp add: unread_def row_ok_def)
  qed
  have note_it: "keeps (unread E i) no_nil (set_o (\<lambda>o1. o1\<lparr>op_LastError := m, op_NextAttemptAt := t\<rparr>))" for m t
    unfolding set_o_def
    by (rule keeps_modify) (auto simp: unread_def typed_row_def typed_op_def decode_def row_ok_def split: option.splits)
  show ?thesis
    unfolding key_unavailable_def time_now_def
    by (intro keeps_bind keeps_state keeps_ret note_it lock_save_keeps ok arr sav keeps_throw e)
qed

lemma decode_no_nil: "decode E r = Inl e \<Longrightarrow> no_nil e"
  by (auto simp: decode_def split: option.splits if_splits)

lemma Process_typed: "env_ok E \<Longrightarrow> keeps (row_ok E i) no_nil (Process E i)"
proof -
  assume ok: "env_ok E"
  let ?Q = "\<lambda>_. row_ok E i" and ?R = "\<lambda>e x. row_ok E i x \<and> no_nil e"
  have row: "triple (\<lambda>x. row_ok E i x \<and> r = OpGet i (edb x)) (case r of
         None \<Rightarrow> ret ()
       | Some o1 \<Rightarrow>
           if op_FinishedAt o1 \<noteq> None then ret ()
           else (case decode E o1 of
               Inl e \<Rightarrow> thenE (set_o (\<lambda>_. o1)) (key_unavailable E e)
             | Inr (s, v) \<Rightarrow> thenE (load_operation o1 s v) (run_operation E))) ?Q ?R" for r
    unfolding triple_def
  proof (intro allI impI)
    fix x
    assume x: "row_ok E i x \<and> r = OpGet i (edb x)"
    show "case (case r of
         None \<Rightarrow> ret ()
       | Some o1 \<Rightarrow>
           if op_FinishedAt o1 \<noteq> None then ret ()
           else (case decode E o1 of
               Inl e \<Rightarrow> thenE (set_o (\<lambda>_. o1)) (key_unavailable E e)
             | Inr (s, v) \<Rightarrow> thenE (load_operation o1 s v) (run_operation E))) x of
       (Inl e, y) \<Rightarrow> row_ok E i y \<and> no_nil e | (Inr u, y) \<Rightarrow> row_ok E i y"
    proof (cases r)
      case None
      with x show ?thesis by (simp add: ret_def)
    next
      case (Some o1)
      have o1: "op_ID o1 = i" "typed_row E o1" using x Some OpGet_ID [of i "edb x" o1] by (simp_all add: row_ok_def)
      show ?thesis
      proof (cases "op_FinishedAt o1")
        case None
        show ?thesis
        proof (cases "decode E o1")
          case (Inl e)
          have "OpGet i (edb x) = Some o1" using x \<open>r = Some o1\<close> by simp
          then have "unread E i (x\<lparr>eo := o1\<rparr>)" using x o1 by (simp add: unread_def row_ok_def)
          with keepsD [OF rk_unavailable [OF ok decode_no_nil [OF Inl]] this] show ?thesis
            using \<open>r = Some o1\<close> None Inl
            by (cases "key_unavailable E e (x\<lparr>eo := o1\<rparr>)"; cases "fst (key_unavailable E e (x\<lparr>eo := o1\<rparr>))")
               (simp_all add: set_o_def bindE_def modify_def unread_def)
        next
          case (Inr sv)
          obtain s v where sv: "sv = (s, v)" by (cases sv)
          let ?y = "x\<lparr>eo := o1, es := s, ev := v\<rparr>"
          have "OpGet i (edb ?y) = Some o1" "typed_secrets s" "typed_op o1"
            using x \<open>r = Some o1\<close> o1 Inr sv by (auto simp: typed_row_def)
          then have "typed_state E (i, op_LiveStreamID (eo ?y)) (\<lambda>_. True) ?y" using o1 by (simp add: typed_state_def)
          from ts_run_operation [OF ok this] show ?thesis
            using \<open>r = Some o1\<close> None Inr sv
            by (cases "run_operation E ?y"; cases "fst (run_operation E ?y)")
               (auto simp: load_operation_def bindE_def modify_def row_ok_def)
        qed
      next
        case (Some t)
        moreover have "row_ok E i x" using x by simp
        ultimately show ?thesis unfolding \<open>r = Some o1\<close> by (simp add: ret_def)
      qed
    qed
  qed
  have "triple (row_ok E i) (bindE (db_read E (OpGet i)) (\<lambda>r. case r of
         None \<Rightarrow> ret ()
       | Some o1 \<Rightarrow>
           if op_FinishedAt o1 \<noteq> None then ret ()
           else (case decode E o1 of
               Inl e \<Rightarrow> thenE (set_o (\<lambda>_. o1)) (key_unavailable E e)
             | Inr (s, v) \<Rightarrow> thenE (load_operation o1 s v) (run_operation E)))) ?Q ?R"
    by (rule triple_bind [OF rk_read [OF ok] row])
  then have "keeps (row_ok E i) no_nil (bindE (db_read E (OpGet i)) (\<lambda>r. case r of
         None \<Rightarrow> ret ()
       | Some o1 \<Rightarrow>
           if op_FinishedAt o1 \<noteq> None then ret ()
           else (case decode E o1 of
               Inl e \<Rightarrow> thenE (set_o (\<lambda>_. o1)) (key_unavailable E e)
             | Inr (s, v) \<Rightarrow> thenE (load_operation o1 s v) (run_operation E))))"
    by (simp add: keeps_def)
  then show ?thesis
    unfolding Process_def by (intro keeps_bind [OF rk_entry(1) [OF ok]] keeps_bind [OF rk_entry(2) [OF ok]] keeps_if keeps_ret)
qed

text \<open>C6: no attempt dereferences a nil pointer, neither one of the journal (the job, session, preparation,
  broker session, claim, refill and live stream of an operation) nor one of the optional fields of
  LOC's job and session status (\<open>deref\<close>). When the row of an operation is well typed, a live operation
  naming its stream and a journaled session coming with its preparation, then an attempt on it, whatever
  the upstreams answer, whichever statement is lost and whatever stop requests arrive, never fails with
  a nil dereference, and the row it leaves is well typed again. The environment's own errors are taken
  not to be that error.\<close>

theorem Process_type_safe:
  assumes "env_ok E" and "\<And>r. OpGet i (edb x) = Some r \<Longrightarrow> typed_row E r"
  shows "fst (Process E i x) \<noteq> Inl (Msg ''nil pointer dereference'') \<and>
    (\<forall>r. OpGet i (edb (snd (Process E i x))) = Some r \<longrightarrow> typed_row E r)"
  using keepsD [OF Process_typed [OF assms(1)], of i x] assms(2) by (auto simp: row_ok_def no_nil_def)

theorem Process_type_safe_witness:
  "fst (Process (sample_env ''wrap'') ''op'' (sample_state sample_row)) \<noteq> Inl (Msg ''nil pointer dereference'')"
proof -
  have "env_ok (sample_env ''wrap'')" by (simp add: env_ok_def sample_env_def)
  moreover have "typed_row (sample_env ''wrap'') r" if "OpGet ''op'' (edb (sample_state sample_row)) = Some r" for r
  proof -
    from that have "r = sample_row" by simp
    then show ?thesis
      by (auto simp: typed_row_def typed_op_def decode_def sample_env_def box.open_seal split: if_splits)
         (simp_all add: sample_row_def sample_secrets_def typed_secrets_def)
  qed
  ultimately show ?thesis using Process_type_safe [of "sample_env ''wrap''" "''op''" "sample_state sample_row"] by blast
qed

end
