(* ===== verification/Accounts.thy ===== *)
theory Accounts
  imports Reservation_Repo
begin

text \<open>
  The account tables: \<^verbatim>\<open>repo/waitlist.go\<close>, \<^verbatim>\<open>repo/apikeys.go\<close>, \<^verbatim>\<open>repo/sessions.go\<close> and the
  query by id of \<^verbatim>\<open>server/middleware.go\<close>, with the constraints of migration 0001 (unique email,
  unique pending verification token, primary keys, foreign keys). A statement that violates a
  constraint returns \<^const>\<open>None\<close> and changes nothing. Rows are never deleted.
\<close>

record accounts =
  ac_waitlist :: "Waitlist list"
  ac_keys :: "APIKey list"
  ac_sessions :: "UserSession list"

section \<open>Waitlist\<close>

text \<open>\<^verbatim>\<open>char_length\<close> counts the code points of UTF-8 text: the bytes that do not continue one.\<close>

definition char_length :: "string \<Rightarrow> nat" where
  "char_length s = length (filter (\<lambda>c. let n = (of_char c :: nat) in n < 128 \<or> 192 \<le> n) s)"

definition fresh_waitlist :: "uuid \<Rightarrow> time \<Rightarrow> string \<Rightarrow> string \<Rightarrow> string \<Rightarrow> string \<Rightarrow> time \<Rightarrow> Waitlist" where
  "fresh_waitlist i now name email ipHash tokenHash expires =
     \<lparr>wl_ID = i, wl_Name = name, wl_Email = ToLower email, wl_IPHash = nullif_empty ipHash,
      wl_EmailVerifiedAt = None, wl_VerificationTokenHash = Some tokenHash,
      wl_VerificationTokenExpiresAt = Some expires, wl_Status = WaitlistPending,
      wl_ApprovedAt = None, wl_ApprovedBy = None, wl_CreatedAt = now\<rparr>"

definition token_taken :: "string \<Rightarrow> Waitlist list \<Rightarrow> bool" where
  "token_taken h t \<longleftrightarrow> list_ex (\<lambda>r. wl_VerificationTokenHash r = Some h) t"

text \<open>\<^verbatim>\<open>ON CONFLICT (email) DO NOTHING\<close>: an existing email is no error and inserts nothing; every
  other violated constraint is one.\<close>

definition WaitlistInsert :: "uuid \<Rightarrow> time \<Rightarrow> string \<Rightarrow> string \<Rightarrow> string \<Rightarrow> string \<Rightarrow> time \<Rightarrow> Waitlist list \<Rightarrow>
    (Waitlist option \<times> Waitlist list) option" where
  "WaitlistInsert i now name email ipHash tokenHash expires t =
     (let r = fresh_waitlist i now name email ipHash tokenHash expires in
      if char_length name < 1 \<or> 200 < char_length name then None
      else if ToLower email \<in> set (map wl_Email t) then Some (None, t)
      else if i \<in> set (map wl_ID t) \<or> token_taken tokenHash t then None
      else Some (Some r, t @ [r]))"

definition consume_row :: "time \<Rightarrow> Waitlist \<Rightarrow> Waitlist" where
  "consume_row now r = r\<lparr>wl_EmailVerifiedAt := coalesce (wl_EmailVerifiedAt r) (Some now),
     wl_VerificationTokenHash := None, wl_VerificationTokenExpiresAt := None\<rparr>"

definition token_valid :: "string \<Rightarrow> time \<Rightarrow> Waitlist \<Rightarrow> bool" where
  "token_valid h now r \<longleftrightarrow> wl_VerificationTokenHash r = Some h \<and>
     (case wl_VerificationTokenExpiresAt r of None \<Rightarrow> True | Some e \<Rightarrow> now < e)"

definition ConsumeVerificationToken :: "time \<Rightarrow> string \<Rightarrow> Waitlist list \<Rightarrow> Waitlist option \<times> Waitlist list" where
  "ConsumeVerificationToken now h t =
     (map_option (consume_row now) (find (token_valid h now) t),
      sql_update (token_valid h now) (consume_row now) t)"

text \<open>No row is an error here (\<^verbatim>\<open>ErrNoRows\<close>), \<^const>\<open>None\<close> like every other.\<close>

definition WaitlistGetByID :: "uuid \<Rightarrow> Waitlist list \<Rightarrow> Waitlist option" where
  "WaitlistGetByID i t = row_by wl_ID i t"

text \<open>The empty status and \<^verbatim>\<open>all\<close> select every row.\<close>

definition ListByStatus :: "WaitlistStatus option \<Rightarrow> nat \<Rightarrow> Waitlist list \<Rightarrow> Waitlist list" where
  "ListByStatus st lmt t = take lmt (order_desc wl_CreatedAt
     (case st of None \<Rightarrow> t | Some s \<Rightarrow> filter (\<lambda>r. wl_Status r = s) t))"

definition decide_row :: "time \<Rightarrow> WaitlistStatus \<Rightarrow> string \<Rightarrow> Waitlist \<Rightarrow> Waitlist" where
  "decide_row now st approver r =
     r\<lparr>wl_Status := st, wl_ApprovedAt := Some now, wl_ApprovedBy := Some approver\<rparr>"

definition pending_row :: "uuid \<Rightarrow> Waitlist \<Rightarrow> bool" where
  "pending_row i r \<longleftrightarrow> wl_ID r = i \<and> wl_Status r = WaitlistPending"

definition MarkApproved :: "time \<Rightarrow> uuid \<Rightarrow> string \<Rightarrow> Waitlist list \<Rightarrow> Waitlist list option" where
  "MarkApproved now i approver t =
     (if rows_affected (pending_row i) t = 0 then None
      else Some (sql_update (pending_row i) (decide_row now WaitlistApproved approver) t))"

definition MarkRejected :: "time \<Rightarrow> uuid \<Rightarrow> string \<Rightarrow> Waitlist list \<Rightarrow> Waitlist list" where
  "MarkRejected now i approver t = sql_update (pending_row i) (decide_row now WaitlistRejected approver) t"

definition reset_row :: "string \<Rightarrow> time \<Rightarrow> Waitlist \<Rightarrow> Waitlist" where
  "reset_row h expires r = r\<lparr>wl_VerificationTokenHash := Some h, wl_VerificationTokenExpiresAt := Some expires\<rparr>"

definition ResetVerificationToken :: "uuid \<Rightarrow> string \<Rightarrow> time \<Rightarrow> Waitlist list \<Rightarrow> Waitlist list option" where
  "ResetVerificationToken i h expires t =
     (if list_ex (\<lambda>r. wl_ID r \<noteq> i \<and> wl_VerificationTokenHash r = Some h) t \<and> i \<in> set (map wl_ID t) then None
      else Some (sql_update (\<lambda>r. wl_ID r = i) (reset_row h expires) t))"

section \<open>API keys\<close>

definition fresh_key :: "uuid \<Rightarrow> time \<Rightarrow> uuid \<Rightarrow> string \<Rightarrow> string \<Rightarrow> string \<Rightarrow> APIKey" where
  "fresh_key i now wid label pre hash =
     \<lparr>ak_ID = i, ak_WaitlistID = wid, ak_Label = nullif_empty label, ak_KeyPrefix = pre, ak_KeyHash = hash,
      ak_CreatedAt = now, ak_LastUsedAt = None, ak_RevokedAt = None\<rparr>"

definition KeyInsert :: "uuid \<Rightarrow> time \<Rightarrow> uuid \<Rightarrow> string \<Rightarrow> string \<Rightarrow> string \<Rightarrow> accounts \<Rightarrow>
    (APIKey \<times> accounts) option" where
  "KeyInsert i now wid label pre hash a =
     (let r = fresh_key i now wid label pre hash in
      if i \<in> set (map ak_ID (ac_keys a)) \<or> wid \<notin> set (map wl_ID (ac_waitlist a)) then None
      else Some (r, a\<lparr>ac_keys := ac_keys a @ [r]\<rparr>))"

definition KeyGetByHash :: "string \<Rightarrow> APIKey list \<Rightarrow> APIKey option" where
  "KeyGetByHash h t = find (\<lambda>k. ak_KeyHash k = h \<and> ak_RevokedAt k = None) t"

definition ListByWaitlist :: "uuid \<Rightarrow> APIKey list \<Rightarrow> APIKey list" where
  "ListByWaitlist wid t = order_desc ak_CreatedAt (filter (\<lambda>k. ak_WaitlistID k = wid) t)"

definition revoke_row :: "time \<Rightarrow> APIKey \<Rightarrow> APIKey" where
  "revoke_row now k = k\<lparr>ak_RevokedAt := Some now\<rparr>"

definition KeyRevoke :: "time \<Rightarrow> uuid \<Rightarrow> uuid \<Rightarrow> APIKey list \<Rightarrow> APIKey list" where
  "KeyRevoke now i wid t =
     sql_update (\<lambda>k. ak_ID k = i \<and> ak_WaitlistID k = wid \<and> ak_RevokedAt k = None) (revoke_row now) t"

definition touch_row :: "time \<Rightarrow> APIKey \<Rightarrow> APIKey" where
  "touch_row now k = k\<lparr>ak_LastUsedAt := Some now\<rparr>"

definition TouchLastUsed :: "time \<Rightarrow> uuid \<Rightarrow> APIKey list \<Rightarrow> APIKey list" where
  "TouchLastUsed now i t = sql_update (\<lambda>k. ak_ID k = i) (touch_row now) t"

definition getAPIKeyByID :: "uuid \<Rightarrow> APIKey list \<Rightarrow> APIKey option" where
  "getAPIKeyByID i t = find (\<lambda>k. ak_ID k = i \<and> ak_RevokedAt k = None) t"

section \<open>Portal sessions\<close>

definition fresh_session :: "uuid \<Rightarrow> time \<Rightarrow> uuid \<Rightarrow> string \<Rightarrow> time \<Rightarrow> UserSession" where
  "fresh_session i now kid h expires = \<lparr>us_ID = i, us_APIKeyID = kid, us_SessionHash = h,
     us_ExpiresAt = expires, us_RevokedAt = None, us_CreatedAt = now\<rparr>"

definition SessionInsert :: "uuid \<Rightarrow> time \<Rightarrow> uuid \<Rightarrow> string \<Rightarrow> time \<Rightarrow> accounts \<Rightarrow> (UserSession \<times> accounts) option" where
  "SessionInsert i now kid h expires a =
     (let r = fresh_session i now kid h expires in
      if i \<in> set (map us_ID (ac_sessions a)) \<or> kid \<notin> set (map ak_ID (ac_keys a)) then None
      else Some (r, a\<lparr>ac_sessions := ac_sessions a @ [r]\<rparr>))"

definition SessionGetByHash :: "time \<Rightarrow> string \<Rightarrow> UserSession list \<Rightarrow> UserSession option" where
  "SessionGetByHash now h t = find (\<lambda>s. us_SessionHash s = h \<and> us_RevokedAt s = None \<and> now < us_ExpiresAt s) t"

definition end_session_row :: "time \<Rightarrow> UserSession \<Rightarrow> UserSession" where
  "end_session_row now s = s\<lparr>us_RevokedAt := Some now\<rparr>"

definition SessionRevoke :: "time \<Rightarrow> string \<Rightarrow> UserSession list \<Rightarrow> UserSession list" where
  "SessionRevoke now h t = sql_update (\<lambda>s. us_SessionHash s = h) (end_session_row now) t"

section \<open>Commits\<close>

text \<open>The changes requests make to the account tables, one per request kind: the vocabulary in which
  a request sees the others. \<open>CMint\<close> is the portal's key insert, whose request has shown a session,
  hence an existing key of the same account.\<close>

definition add_key :: "APIKey \<Rightarrow> accounts \<Rightarrow> accounts option" where
  "add_key k a = (if ak_ID k \<in> set (map ak_ID (ac_keys a)) then None else Some (a\<lparr>ac_keys := ac_keys a @ [k]\<rparr>))"

text \<open>The approval transaction: the account's status and its first key, together or not at all.\<close>

definition approve_tx :: "time \<Rightarrow> uuid \<Rightarrow> string \<Rightarrow> APIKey \<Rightarrow> accounts \<Rightarrow> accounts option" where
  "approve_tx began i approver k a = Option.bind (MarkApproved began i approver (ac_waitlist a)) (\<lambda>t.
     if ak_WaitlistID k = i then add_key k (a\<lparr>ac_waitlist := t\<rparr>) else None)"

definition owns_key :: "uuid \<Rightarrow> accounts \<Rightarrow> bool" where
  "owns_key wid a \<longleftrightarrow> list_ex (\<lambda>k. ak_WaitlistID k = wid) (ac_keys a)"

datatype commit =
    CSignup uuid time string string string string time
  | CConsume time string
  | CReject time uuid string
  | CReset uuid string time
  | CApprove time uuid string APIKey
  | CMint APIKey
  | CRevokeKey time uuid uuid
  | CTouch time uuid
  | CLogin uuid time uuid string time
  | CEndSession time string

definition or_same :: "accounts option \<Rightarrow> accounts \<Rightarrow> accounts" where
  "or_same b a = (case b of None \<Rightarrow> a | Some x \<Rightarrow> x)"

fun publish :: "commit \<Rightarrow> accounts \<Rightarrow> accounts" where
  "publish (CSignup i now name email ip h e) a = or_same
     (map_option (\<lambda>(r, t). a\<lparr>ac_waitlist := t\<rparr>) (WaitlistInsert i now name email ip h e (ac_waitlist a))) a"
| "publish (CConsume now h) a = a\<lparr>ac_waitlist := snd (ConsumeVerificationToken now h (ac_waitlist a))\<rparr>"
| "publish (CReject now i who) a = a\<lparr>ac_waitlist := MarkRejected now i who (ac_waitlist a)\<rparr>"
| "publish (CReset i h e) a = or_same
     (map_option (\<lambda>t. a\<lparr>ac_waitlist := t\<rparr>) (ResetVerificationToken i h e (ac_waitlist a))) a"
| "publish (CApprove began i who k) a = or_same (approve_tx began i who k a) a"
| "publish (CMint k) a = or_same (if owns_key (ak_WaitlistID k) a then add_key k a else None) a"
| "publish (CRevokeKey now i wid) a = a\<lparr>ac_keys := KeyRevoke now i wid (ac_keys a)\<rparr>"
| "publish (CTouch now i) a = a\<lparr>ac_keys := TouchLastUsed now i (ac_keys a)\<rparr>"
| "publish (CLogin i now kid h e) a = or_same (map_option snd (SessionInsert i now kid h e a)) a"
| "publish (CEndSession now h) a = a\<lparr>ac_sessions := SessionRevoke now h (ac_sessions a)\<rparr>"

definition commits :: "commit list \<Rightarrow> accounts \<Rightarrow> accounts" where
  "commits cs a = fold publish cs a"

section \<open>Usage by key\<close>

text \<open>The administrators' roll-up joins every reservation with its key and the key's account; a key
  without reservations has no row. Group order before sorting is the order of the key table.\<close>

record UsageSummaryByAPIKey =
  uk_APIKeyID :: uuid
  uk_WaitlistID :: uuid
  uk_Email :: string
  uk_KeyPrefix :: string
  uk_Summary :: UsageSummary

definition key_rollup :: "Waitlist list \<Rightarrow> reservations \<Rightarrow> APIKey \<Rightarrow> UsageSummaryByAPIKey option" where
  "key_rollup w t k = (case row_by wl_ID (ak_WaitlistID k) w of
      None \<Rightarrow> None
    | Some x \<Rightarrow> (case filter (\<lambda>r. ur_APIKeyID r = ak_ID k) t of
        [] \<Rightarrow> None
      | g \<Rightarrow> Some \<lparr>uk_APIKeyID = ak_ID k, uk_WaitlistID = wl_ID x, uk_Email = wl_Email x,
                   uk_KeyPrefix = ak_KeyPrefix k, uk_Summary = summary_of g\<rparr>))"

definition SummaryByAPIKey :: "int \<Rightarrow> accounts \<Rightarrow> reservations \<Rightarrow> UsageSummaryByAPIKey list" where
  "SummaryByAPIKey lmt a t = take (default_limit lmt 200)
     (order_desc (\<lambda>s. case sum_LastUsedAt (uk_Summary s) of Some x \<Rightarrow> x | None \<Rightarrow> 0)
        (List.map_filter (key_rollup (ac_waitlist a) t) (ac_keys a)))"

end
