(* ===== verification/ABR_Presets.thy ===== *)
theory ABR_Presets
  imports Gateway_Prelude Complex_Main "HOL-Library.AList"
begin

text \<open>
  \<^verbatim>\<open>internal/abr/presets.go\<close> with the embedded \<^verbatim>\<open>presets.yaml\<close> (rendition names and video sizes),
  and the sizing of an ABR authorization (\<^verbatim>\<open>estimateABRUnits\<close>, \<^verbatim>\<open>abrAuthorizationLimit\<close> of
  \<^verbatim>\<open>paid_handlers.go\<close>). The estimate is computed in \<^verbatim>\<open>float64\<close>: every operation is followed by
  rounding to 53 bits, ties to even. No intermediate value is near the exponent limits.
\<close>

section \<open>Presets\<close>

record Rendition =
  rn_Name :: string
  rn_Video :: "(int \<times> int) option"

record Preset =
  pr_Name :: string
  pr_Renditions :: "Rendition list"

definition video :: "string \<Rightarrow> int \<Rightarrow> int \<Rightarrow> Rendition" where
  "video n w h = \<lparr>rn_Name = n, rn_Video = Some (w, h)\<rparr>"

definition presets_yaml :: "Preset list" where
  "presets_yaml = [
     \<lparr>pr_Name = ''abr-standard'', pr_Renditions =
        [video ''1080p'' 1920 1080, video ''720p'' 1280 720, video ''480p'' 854 480, video ''360p'' 640 360]\<rparr>,
     \<lparr>pr_Name = ''abr-premium'', pr_Renditions =
        [video ''2160p'' 3840 2160, video ''1080p'' 1920 1080, video ''720p'' 1280 720, video ''480p'' 854 480,
         video ''360p'' 640 360, \<lparr>rn_Name = ''audio-only'', rn_Video = None\<rparr>]\<rparr>,
     \<lparr>pr_Name = ''abr-mobile'', pr_Renditions =
        [video ''720p'' 1280 720, video ''480p'' 854 480, video ''360p'' 640 360]\<rparr>,
     \<lparr>pr_Name = ''abr-hevc'', pr_Renditions =
        [video ''2160p-hevc'' 3840 2160, video ''1080p-hevc'' 1920 1080, video ''720p'' 1280 720, video ''480p'' 854 480]\<rparr>,
     \<lparr>pr_Name = ''abr-av1'', pr_Renditions =
        [video ''2160p-av1'' 3840 2160, video ''1080p-av1'' 1920 1080, video ''720p-av1'' 1280 720, video ''480p'' 854 480]\<rparr>]"

text \<open>\<^verbatim>\<open>loaded\<close>: a map filled in file order, later entries replacing earlier ones.\<close>

definition loaded_presets :: "(string \<times> Preset) list" where
  "loaded_presets = fold (\<lambda>p m. AList.update (pr_Name p) p m) presets_yaml []"

definition GetPreset :: "string \<Rightarrow> Preset option" where
  "GetPreset name = map_of loaded_presets name"

definition RenditionNames :: "Preset \<Rightarrow> string list" where
  "RenditionNames p = map rn_Name (pr_Renditions p)"

section \<open>Float64\<close>

definition round_half_even :: "rat \<Rightarrow> int" where
  "round_half_even x = (let f = \<lfloor>x\<rfloor>; r = x - of_int f in
     if r < 1 / 2 then f else if r > 1 / 2 then f + 1 else if even f then f else f + 1)"

fun ilog2 :: "int \<Rightarrow> int" where
  "ilog2 n = (if n \<le> 1 then 0 else 1 + ilog2 (n div 2))"

declare ilog2.simps [simp del]

text \<open>The exponent \<open>e\<close> with \<open>2 ^ e \<le> x < 2 ^ (e + 1)\<close> of a positive rational.\<close>

definition bin_exp :: "rat \<Rightarrow> int" where
  "bin_exp x = (case quotient_of x of (p, q) \<Rightarrow>
     let k = ilog2 p - ilog2 q in if 2 powi k \<le> x then k else k - 1)"

definition fl64 :: "rat \<Rightarrow> rat" where
  "fl64 x = (if x = 0 then 0 else let e = bin_exp \<bar>x\<bar> - 52 in
     sgn x * of_int (round_half_even (\<bar>x\<bar> / 2 powi e)) * 2 powi e)"

section \<open>Sizing\<close>

definition pixels :: "Preset \<Rightarrow> rat" where
  "pixels p = fold (\<lambda>r acc. case rn_Video r of
      None \<Rightarrow> acc
    | Some (w, h) \<Rightarrow> fl64 (acc + fl64 (fl64 (of_int w) * fl64 (of_int h)))) (pr_Renditions p) 0"

definition estimateABRUnits :: "Preset \<Rightarrow> int \<Rightarrow> int" where
  "estimateABRUnits p seconds =
     (let secs = (if seconds \<le> 0 then 60 else seconds);
          units = \<lceil>fl64 (fl64 (fl64 (fl64 (of_int secs) * 60) * pixels p) / 1000000)\<rceil>
      in if units \<ge> 2 ^ 63 then 2 ^ 63 - 1 else max 1 units)"

definition abrAuthorizationLimit :: "int \<Rightarrow> int \<Rightarrow> int \<Rightarrow> string + int" where
  "abrAuthorizationLimit estimated requested ceil =
     (if estimated > ceil then Inl ''estimated video-frame-megapixel exceeds ABR_MAX_TOTAL_UNITS''
      else if requested < 0 \<or> requested > ceil \<or> (requested > 0 \<and> requested < estimated)
      then Inl ''max_total_units must cover the estimate and not exceed ABR_MAX_TOTAL_UNITS''
      else if requested > 0 then Inr requested
      else let q = estimated sdiv 4; headroom = (if estimated smod 4 \<noteq> 0 then wrap64 (q + 1) else q)
           in Inr (wrap64 (estimated + min headroom (wrap64 (ceil - estimated)))))"

section \<open>Properties\<close>

text \<open>The estimate is a positive 64-bit number for every preset and every duration, also where the
  exact size would not fit.\<close>

theorem estimateABRUnits_bounds: "1 \<le> estimateABRUnits p seconds \<and> estimateABRUnits p seconds < 2 ^ 63"
  by (simp add: estimateABRUnits_def Let_def)

lemma sdiv4: "0 \<le> n \<Longrightarrow> n sdiv (4 :: int) = n div 4"
  by (cases "n = 0") (simp_all add: signed_divide_int_def)

lemma smod4: "0 \<le> n \<Longrightarrow> n smod (4 :: int) = n mod 4"
  by (cases "n = 0") (simp_all add: signed_modulo_int_def)

lemma ceil_quarter: "(n + 3) div 4 = (if n mod 4 = 0 then n div 4 else n div 4 + 1)" for n :: int
  by presburger

lemma abr_limit_bounds:
  assumes "0 < estimated" and "estimated < 2 ^ 63" and "ceil < 2 ^ 63"
    and "abrAuthorizationLimit estimated requested ceil = Inr lmt"
  shows "estimated \<le> lmt \<and> lmt \<le> ceil \<and>
    (requested = 0 \<longrightarrow> lmt = min ceil (estimated + (estimated + 3) div 4)) \<and> (requested > 0 \<longrightarrow> lmt = requested)"
proof -
  have hi: "estimated \<le> ceil" "0 \<le> requested" "requested \<le> ceil"
    using assms(4) by (auto simp: abrAuthorizationLimit_def split: if_splits)
  show ?thesis
  proof (cases "requested > 0")
    case True
    then show ?thesis using assms by (auto simp: abrAuthorizationLimit_def split: if_splits)
  next
    case False
    then have req: "requested = 0" using hi by simp
    let ?h = "(estimated + 3) div 4"
    have "(if estimated smod 4 \<noteq> 0 then wrap64 (estimated sdiv 4 + 1) else estimated sdiv 4) = ?h"
      using ceil_quarter [of estimated] assms(1,2) by (simp add: sdiv4 smod4 int64_range_def)
    moreover have "wrap64 (ceil - estimated) = ceil - estimated"
      using hi assms(1-3) by (simp add: int64_range_def)
    moreover have "wrap64 (estimated + min ?h (ceil - estimated)) = estimated + min ?h (ceil - estimated)"
      using hi assms(1-3) by (simp add: int64_range_def min_def)
    ultimately have "lmt = estimated + min ?h (ceil - estimated)"
      using assms(4) hi req by (simp add: abrAuthorizationLimit_def Let_def)
    with hi req assms(1) show ?thesis by (auto simp: min_def)
  qed
qed

lemma abr_limit_nonneg:
  assumes "abrAuthorizationLimit (estimateABRUnits p secs) req ceil = Inr lmt" and "ceil < 2 ^ 63"
  shows "0 \<le> lmt"
proof -
  have "1 \<le> estimateABRUnits p secs" "estimateABRUnits p secs < 2 ^ 63" by (simp_all add: estimateABRUnits_def Let_def)
  with abr_limit_bounds [OF _ _ assms(2,1)] show ?thesis by simp
qed

text \<open>C11: the authorization of a new job covers its estimate, stays within the operator's ceiling and is
  computed without overflow for all 64-bit inputs; without an explicit request it is the
  estimate plus a quarter, rounded up, capped by the ceiling.\<close>

theorem abrAuthorizationLimit_bounds:
  assumes "0 < estimated" and "estimated < 2 ^ 63" and "ceil < 2 ^ 63"
    and "abrAuthorizationLimit estimated requested ceil = Inr lmt"
  shows "estimated \<le> lmt \<and> lmt \<le> ceil \<and>
    (requested = 0 \<longrightarrow> lmt = min ceil (estimated + (estimated + 3) div 4)) \<and> (requested > 0 \<longrightarrow> lmt = requested)"
  using assms by (rule abr_limit_bounds)

theorem abrAuthorizationLimit_bounds_witness:
  "abrAuthorizationLimit 101 0 100000 = Inr 127 \<and> (101 :: int) \<le> 127 \<and> (127 :: int) \<le> 100000"
proof -
  have "abrAuthorizationLimit 101 0 100000 = Inr 127"
    by (simp add: abrAuthorizationLimit_def signed_divide_int_def signed_modulo_int_def wrap64_def)
  with abrAuthorizationLimit_bounds [of 101 100000 0 127] show ?thesis by simp
qed

end
