(* ===== verification/Access_Control.thy ===== *)
theory Access_Control
  imports Accounts Paid_Model ABR_Presets
begin

text \<open>
  Who may call what: \<^verbatim>\<open>server/middleware.go\<close> and the prefix dispatch \<^verbatim>\<open>pathAwareAuth\<close> of
  \<^verbatim>\<open>server/server.go\<close>, with the account statements of \<^verbatim>\<open>Accounts\<close> behind them.

  A request runs as a sequence of statements on the account tables. Before each one other requests
  may have committed (\<open>wOthers\<close>), and each may fail, before or after it took effect
  (\<open>wFault\<close>); \<open>wb_tick\<close> counts the statements and indexes the environment. \<open>wClock\<close> is the
  database's clock, \<open>wNow\<close> the gateway's. Hashing and random tokens are parameters.
\<close>

section \<open>Configuration\<close>

record WebConfig = Config +
  BaseURL :: string
  PublicSiteURL :: string
  AllowedOrigins :: "string list"
  AdminToken :: string
  APIKeyHashPepper :: string
  IPHashPepper :: string
  MetricsToken :: string
  SessionTTLHours :: int
  ResendAPIKey :: string
  S3AccessKeyID :: string
  S3SecretAccessKey :: string
  V1RateLimitPerMinute :: int
  V1RateLimitBurst :: int

definition SessionTTL :: "WebConfig \<Rightarrow> int" where
  "SessionTTL c = wrap64 (SessionTTLHours c * (3600 * second))"

text \<open>The dash of the messages, in UTF-8.\<close>

abbreviation dash :: string where
  "dash \<equiv> [CHR 0x20, CHR 0xE2, CHR 0x80, CHR 0x94, CHR 0x20]"

definition Warnings :: "WebConfig \<Rightarrow> string list" where
  "Warnings c =
     (if AdminToken c = '''' then [''ADMIN_TOKEN unset'' @ dash @ ''/api/admin/* will return 503 admin_disabled''] else []) @
     (if APIKeyHashPepper c = '''' then [''API_KEY_HASH_PEPPER unset'' @ dash @ ''API keys hash without pepper (dev only)''] else []) @
     (if IPHashPepper c = ''''
      then [''IP_HASH_PEPPER unset'' @ dash @ ''IP / token / session / stream-key hashes are unpeppered (dev only)''] else []) @
     (if ResendAPIKey c = ''''
      then [''RESEND_API_KEY unset'' @ dash @ ''verification + key delivery emails will log to stdout instead of send''] else []) @
     (if S3AccessKeyID c = '''' \<or> S3SecretAccessKey c = ''''
      then [''S3 credentials unset'' @ dash @ ''/api/v1/abr/upload-url will return 503''] else []) @
     (if LOCAPIKey c = ''''
      then [''LOC_API_KEY unset'' @ dash @ ''/api/v1/abr and /api/v1/live will return 503 loc_unavailable''] else [])"

definition AllowAllOrigins :: "WebConfig \<Rightarrow> bool" where
  "AllowAllOrigins c \<longleftrightarrow> list_ex (\<lambda>o'. TrimSpace o' = ''*'') (AllowedOrigins c)"

section \<open>Rate limit\<close>

record bucket =
  b_tokens :: rat
  b_updated :: time

record RateLimit =
  perMinute :: int
  burst :: int
  buckets :: "uuid \<Rightarrow> bucket option"

definition NewRateLimit :: "int \<Rightarrow> int \<Rightarrow> RateLimit" where
  "NewRateLimit pm b = \<lparr>perMinute = pm, burst = b, buckets = (\<lambda>_. None)\<rparr>"

text \<open>\<^verbatim>\<open>Duration.Seconds\<close>: whole seconds and the remainder are converted separately.\<close>

definition Seconds :: "int \<Rightarrow> rat" where
  "Seconds d = fl64 (fl64 (of_int (d sdiv second)) + fl64 (of_int (d smod second) / of_int second))"

text \<open>\<^verbatim>\<open>int(x)\<close> truncates; a value outside the range becomes the least integer, as on amd64.\<close>

definition int_of_float :: "rat \<Rightarrow> int" where
  "int_of_float x = (let n = (if x < 0 then \<lceil>x\<rceil> else \<lfloor>x\<rfloor>) in if int64_range n then n else - (2 ^ 63))"

definition rate_per_second :: "RateLimit \<Rightarrow> rat" where
  "rate_per_second rl = fl64 (fl64 (of_int (perMinute rl)) / 60)"

definition refilled :: "RateLimit \<Rightarrow> time \<Rightarrow> bucket \<Rightarrow> rat" where
  "refilled rl now b =
     (let t = fl64 (b_tokens b + fl64 (Seconds (now - b_updated b) * rate_per_second rl))
      in if t > fl64 (of_int (burst rl)) then fl64 (of_int (burst rl)) else t)"

definition Allow :: "uuid \<Rightarrow> time \<Rightarrow> RateLimit \<Rightarrow> (bool \<times> int) \<times> RateLimit" where
  "Allow i now rl =
     (let b = (case buckets rl i of None \<Rightarrow> \<lparr>b_tokens = fl64 (of_int (burst rl)), b_updated = now\<rparr> | Some b \<Rightarrow> b);
          t = refilled rl now b;
          put = (\<lambda>t'. rl\<lparr>buckets := (buckets rl)(i \<mapsto> \<lparr>b_tokens = t', b_updated = now\<rparr>)\<rparr>)
      in if t \<ge> 1 then ((True, 0), put (fl64 (t - 1)))
         else let retry = int_of_float (fl64 (fl64 (1 - t) / rate_per_second rl))
              in ((False, if retry < 1 then 1 else retry), put t))"

section \<open>Requests and effects\<close>

record request =
  rq_Method :: string
  rq_Path :: string
  rq_Origin :: string
  rq_Authorization :: string
  rq_AdminToken :: string
  rq_RequestID :: string
  rq_SessionCookie :: "string option"

text \<open>What the middleware attaches to the request context.\<close>

record reqctx =
  cx_APIKey :: "APIKey option"
  cx_Waitlist :: "Waitlist option"
  cx_Session :: "UserSession option"

definition no_ctx :: reqctx where
  "no_ctx = \<lparr>cx_APIKey = None, cx_Waitlist = None, cx_Session = None\<rparr>"

text \<open>\<open>Denied status code clear\<close> is an error response, \<open>clear\<close> when it also deletes the session
  cookie; \<open>Limited n\<close> is 429 with \<^verbatim>\<open>Retry-After: n\<close>.\<close>

datatype weberr = SqlErr | Denied nat string bool | Limited int

record mail =
  m_To :: string
  m_Subject :: string
  m_Text :: string

datatype stmt_fault = FailBefore | FailAfter

record wenv =
  wCfg :: WebConfig
  HashWithPepper :: "string \<Rightarrow> string \<Rightarrow> string"
  wClock :: "nat \<Rightarrow> time"
  wNow :: "nat \<Rightarrow> time"
  wGen :: "nat \<Rightarrow> uuid"
  wRandom :: "nat \<Rightarrow> string option"
  wOthers :: "nat \<Rightarrow> commit list"
  wFault :: "nat \<Rightarrow> stmt_fault option"

record webstate =
  wb_tick :: nat
  wb_acc :: accounts
  wb_limit :: RateLimit
  wb_mail :: "mail list"
  wb_signups :: nat

type_synonym 'a web = "(webstate, weberr, 'a) eff"

definition others_commit :: "wenv \<Rightarrow> webstate \<Rightarrow> webstate" where
  "others_commit E x = x\<lparr>wb_tick := Suc (wb_tick x), wb_acc := commits (wOthers E (wb_tick x)) (wb_acc x)\<rparr>"

definition stmt_apply :: "wenv \<Rightarrow> nat \<Rightarrow> (time \<Rightarrow> uuid \<Rightarrow> accounts \<Rightarrow> ('a \<times> accounts) option) \<Rightarrow> 'a web" where
  "stmt_apply E t f = (\<lambda>x. case wFault E t of
      Some FailBefore \<Rightarrow> (Inl SqlErr, x)
    | fault \<Rightarrow> (case f (wClock E t) (wGen E t) (wb_acc x) of
        None \<Rightarrow> (Inl SqlErr, x)
      | Some (r, a) \<Rightarrow> (if fault = None then Inr r else Inl SqlErr, x\<lparr>wb_acc := a\<rparr>)))"

definition stmt :: "wenv \<Rightarrow> (time \<Rightarrow> uuid \<Rightarrow> accounts \<Rightarrow> ('a \<times> accounts) option) \<Rightarrow> 'a web" where
  "stmt E f = (\<lambda>x. stmt_apply E (wb_tick x) f (others_commit E x))"

definition query :: "wenv \<Rightarrow> (time \<Rightarrow> accounts \<Rightarrow> 'a) \<Rightarrow> 'a web" where
  "query E g = stmt E (\<lambda>now i a. Some (g now a, a))"

text \<open>\<^verbatim>\<open>COMMIT\<close> publishes what the statements of the transaction did; the rows they locked have not
  changed since the last of them. \<open>f\<close> is undefined when a constraint fails after all.\<close>

definition commit_tx :: "wenv \<Rightarrow> (accounts \<Rightarrow> accounts option) \<Rightarrow> unit web" where
  "commit_tx E f = (\<lambda>x. stmt_apply E (wb_tick x) (\<lambda>now i a. map_option (Pair ()) (f a)) (x\<lparr>wb_tick := Suc (wb_tick x)\<rparr>))"

text \<open>\<^verbatim>\<open>if err != nil { return <response> }\<close>.\<close>

definition or_deny :: "'a web \<Rightarrow> weberr \<Rightarrow> 'a web" where
  "or_deny m e = bindE (attempt m) (\<lambda>r. case r of Inl _ \<Rightarrow> throw e | Inr x \<Rightarrow> ret x)"

text \<open>\<^verbatim>\<open>if err != nil || row == nil { return <response> }\<close>.\<close>

definition or_missing :: "'a option web \<Rightarrow> weberr \<Rightarrow> 'a web" where
  "or_missing m e = bindE (or_deny m e) (\<lambda>r. case r of None \<Rightarrow> throw e | Some x \<Rightarrow> ret x)"

section \<open>Middleware\<close>

definition ExtractBearer :: "request \<Rightarrow> string" where
  "ExtractBearer r = (let v = rq_Authorization r in
     if length v > 7 \<and> EqualFold (take 7 v) ''Bearer '' then drop 7 v else '''')"

definition writeAuthError :: weberr where
  "writeAuthError = Denied 401 ''invalid_api_key'' False"

definition RequireAPIKey :: "wenv \<Rightarrow> request \<Rightarrow> reqctx web" where
  "RequireAPIKey E r =
     (let key = ExtractBearer r in
      if key = '''' then throw writeAuthError
      else let hash = HashWithPepper E key (APIKeyHashPepper (wCfg E)) in
        bindE (or_missing (query E (\<lambda>_ a. KeyGetByHash hash (ac_keys a))) writeAuthError) (\<lambda>k.
        bindE (or_missing (query E (\<lambda>_ a. WaitlistGetByID (ak_WaitlistID k) (ac_waitlist a)))
                 (Denied 403 ''key_not_approved'' False)) (\<lambda>w.
        if wl_Status w \<noteq> WaitlistApproved then throw (Denied 403 ''key_not_approved'' False)
        else bindE (attempt (stmt E (\<lambda>now i a. Some ((), a\<lparr>ac_keys := TouchLastUsed now (ak_ID k) (ac_keys a)\<rparr>)))) (\<lambda>_.
          ret \<lparr>cx_APIKey = Some k, cx_Waitlist = Some w, cx_Session = None\<rparr>))))"

definition RequirePortalSession :: "wenv \<Rightarrow> request \<Rightarrow> reqctx web" where
  "RequirePortalSession E r = (case rq_SessionCookie r of
      None \<Rightarrow> throw (Denied 401 ''not_authenticated'' False)
    | Some c \<Rightarrow>
        if c = '''' then throw (Denied 401 ''not_authenticated'' False)
        else let hash = HashWithPepper E c (IPHashPepper (wCfg E)); no = Denied 401 ''not_authenticated'' True in
          bindE (or_missing (query E (\<lambda>now a. SessionGetByHash now hash (ac_sessions a))) no) (\<lambda>s.
          bindE (or_missing (query E (\<lambda>_ a. getAPIKeyByID (us_APIKeyID s) (ac_keys a))) no) (\<lambda>k.
          bindE (or_missing (query E (\<lambda>_ a. WaitlistGetByID (ak_WaitlistID k) (ac_waitlist a))) no) (\<lambda>w.
          ret \<lparr>cx_APIKey = Some k, cx_Waitlist = Some w, cx_Session = Some s\<rparr>))))"

definition ConstantTimeEqual :: "string \<Rightarrow> string \<Rightarrow> bool" where
  "ConstantTimeEqual a b \<longleftrightarrow> a = b"

definition RequireAdmin :: "wenv \<Rightarrow> request \<Rightarrow> reqctx web" where
  "RequireAdmin E r =
     (if AdminToken (wCfg E) = '''' then throw (Denied 503 ''admin_disabled'' False)
      else if \<not> ConstantTimeEqual (rq_AdminToken r) (AdminToken (wCfg E))
      then throw (Denied 401 ''invalid_admin_token'' False)
      else ret no_ctx)"

definition EnforceRateLimit :: "wenv \<Rightarrow> reqctx \<Rightarrow> reqctx web" where
  "EnforceRateLimit E cx = (case cx_APIKey cx of
      None \<Rightarrow> ret cx
    | Some k \<Rightarrow> with_state (\<lambda>x.
        case Allow (ak_ID k) (wNow E (wb_tick x)) (wb_limit x) of ((ok, retry), rl) \<Rightarrow>
          thenE (modify (\<lambda>y. y\<lparr>wb_limit := rl\<rparr>)) (if ok then ret cx else throw (Limited retry))))"

text \<open>\<^verbatim>\<open>pathAwareAuth\<close>: what runs before the handler, by prefix of the path.\<close>

definition pathAwareAuth :: "wenv \<Rightarrow> request \<Rightarrow> reqctx web" where
  "pathAwareAuth E r = (let p = rq_Path r in
     if HasPrefix p ''/api/v1/'' then bindE (RequireAPIKey E r) (EnforceRateLimit E)
     else if p = ''/api/portal/login'' \<or> p = ''/api/portal/logout'' then ret no_ctx
     else if HasPrefix p ''/api/portal/'' then RequirePortalSession E r
     else if HasPrefix p ''/api/admin/'' then RequireAdmin E r
     else ret no_ctx)"

text \<open>The metrics endpoint's own bearer check.\<close>

definition metrics_allowed :: "WebConfig \<Rightarrow> request \<Rightarrow> bool" where
  "metrics_allowed c r \<longleftrightarrow>
     MetricsToken c = '''' \<or> ConstantTimeEqual (TrimPrefix (rq_Authorization r) ''Bearer '') (MetricsToken c)"

text \<open>Response headers of the CORS middleware and whether the request ends there (preflight).\<close>

definition CORS :: "string list \<Rightarrow> request \<Rightarrow> (string \<times> string) list \<times> bool" where
  "CORS allowed r =
     (let origins = map TrimSpace allowed; allowAll = list_ex (\<lambda>o'. o' = ''*'') origins; origin = rq_Origin r;
          grant = (if origin \<noteq> '''' \<and> (allowAll \<or> origin \<in> set origins)
            then [(''Access-Control-Allow-Origin'', origin), (''Access-Control-Allow-Credentials'', ''true''),
                  (''Vary'', ''Origin'')] else [])
      in if rq_Method r = ''OPTIONS''
         then (grant @ [(''Access-Control-Allow-Methods'', ''GET, POST, PUT, DELETE, OPTIONS''),
            (''Access-Control-Allow-Headers'',
             ''Authorization, Content-Type, X-Admin-Token, Idempotency-Key, Livepeer-Request-Id'')], True)
         else (grant, False))"

text \<open>\<^verbatim>\<open>fresh\<close> is the hex text of eight random bytes.\<close>

definition RequestID :: "string \<Rightarrow> request \<Rightarrow> string" where
  "RequestID fresh r = (if rq_RequestID r = '''' then fresh else rq_RequestID r)"

record Cookie =
  ck_Value :: string
  ck_Secure :: bool
  ck_MaxAge :: int

definition SetSessionCookie :: "WebConfig \<Rightarrow> string \<Rightarrow> Cookie" where
  "SetSessionCookie c v = \<lparr>ck_Value = v, ck_Secure = HasPrefix (BaseURL c) ''https://'',
     ck_MaxAge = int_of_float (Seconds (SessionTTL c))\<rparr>"

definition clearSessionCookie :: "WebConfig \<Rightarrow> Cookie" where
  "clearSessionCookie c = \<lparr>ck_Value = '''', ck_Secure = HasPrefix (BaseURL c) ''https://'', ck_MaxAge = -1\<rparr>"

end
