(* ===== verification/Account_Routes.thy ===== *)
theory Account_Routes
  imports Access_Control
begin

text \<open>
  The routes that change accounts: sign-up and verification (\<^verbatim>\<open>handlers_public.go\<close>), login, logout
  and keys of the portal (\<^verbatim>\<open>handlers_portal.go\<close>), approval, rejection and resend of the
  administrators (\<^verbatim>\<open>handlers_admin.go\<close>), each behind the gate of its path. Mail that cannot be sent
  is only logged, so a mail is modelled by the attempt.
\<close>

section \<open>Tokens, keys and mail\<close>

abbreviation nl :: char where "nl \<equiv> CHR 0x0A"

definition RandomToken :: "wenv \<Rightarrow> string web" where
  "RandomToken E = with_state (\<lambda>x. case wRandom E (wb_tick x) of None \<Rightarrow> throw SqlErr | Some t \<Rightarrow> ret t)"

text \<open>The visible key, its prefix and its hash.\<close>

definition NewAPIKey :: "wenv \<Rightarrow> string \<Rightarrow> (string \<times> string \<times> string) web" where
  "NewAPIKey E pepper = bindE (RandomToken E) (\<lambda>tok.
     let key = ''sk-'' @ tok in ret (key, if length key \<ge> 12 then take 12 key else key, HashWithPepper E key pepper))"

definition deliverVerificationEmail :: "wenv \<Rightarrow> string \<Rightarrow> string \<Rightarrow> string \<Rightarrow> unit web" where
  "deliverVerificationEmail E to name token =
     (let link = PublicSiteURL (wCfg E) @ ''/verify.html?token='' @ token in
      modify (\<lambda>x. x\<lparr>wb_mail := wb_mail x @ [\<lparr>m_To = to, m_Subject = ''Verify your Livepeer Video Gateway signup'',
        m_Text = ''Hi '' @ name @ '','' @ [nl, nl] @ ''Click to verify: '' @ link @ [nl]\<rparr>]\<rparr>))"

definition deliverAPIKeyEmail :: "wenv \<Rightarrow> string \<Rightarrow> string \<Rightarrow> string \<Rightarrow> unit web" where
  "deliverAPIKeyEmail E to name plainKey =
     modify (\<lambda>x. x\<lparr>wb_mail := wb_mail x @ [\<lparr>m_To = to, m_Subject = ''Your Livepeer Video Gateway API key'',
        m_Text = ''Hi '' @ name @ '','' @ [nl, nl] @ ''Your API key (store it now): '' @ plainKey @ [nl, nl] @
          ''Auth: Bearer header against '' @ BaseURL (wCfg E) @ ''/v1/*.'' @ [nl]\<rparr>]\<rparr>)"

definition ipHashFromCtx :: "wenv \<Rightarrow> string" where
  "ipHashFromCtx E = HashWithPepper E ''dev-ip'' (IPHashPepper (wCfg E))"

section \<open>Public routes\<close>

definition ISE :: "string \<Rightarrow> weberr" where
  "ISE msg = Denied 500 msg False"

abbreviation day :: int where "day \<equiv> 24 * 3600 * second"

definition waitlist_signup :: "wenv \<Rightarrow> string \<Rightarrow> string \<Rightarrow> unit web" where
  "waitlist_signup E name email =
     bindE (or_deny (RandomToken E) (ISE ''token mint failed'')) (\<lambda>token.
     let hash = HashWithPepper E token (IPHashPepper (wCfg E)) in
     with_state (\<lambda>x. let expires = wNow E (wb_tick x) + day in
     bindE (or_deny (stmt E (\<lambda>now i a. map_option (\<lambda>(r, t). (r, a\<lparr>ac_waitlist := t\<rparr>))
              (WaitlistInsert i now name email (ipHashFromCtx E) hash expires (ac_waitlist a))))
            (ISE ''waitlist insert failed'')) (\<lambda>created.
     whenE (created \<noteq> None)
       (thenE (modify (\<lambda>y. y\<lparr>wb_signups := Suc (wb_signups y)\<rparr>)) (deliverVerificationEmail E email name token)))))"

definition waitlist_verify :: "wenv \<Rightarrow> string \<Rightarrow> unit web" where
  "waitlist_verify E token =
     (let hash = HashWithPepper E token (IPHashPepper (wCfg E)) in
      bindE (or_deny (stmt E (\<lambda>now i a. case ConsumeVerificationToken now hash (ac_waitlist a) of
               (r, t) \<Rightarrow> Some (r, a\<lparr>ac_waitlist := t\<rparr>))) (ISE ''verify failed'')) (\<lambda>w.
      if w = None then throw (Denied 400 ''verification_token_invalid_or_expired'' False) else ret ()))"

section \<open>Portal routes\<close>

definition portal_login :: "wenv \<Rightarrow> string \<Rightarrow> Cookie web" where
  "portal_login E apiKey =
     (let hash = HashWithPepper E apiKey (APIKeyHashPepper (wCfg E)) in
      bindE (or_missing (query E (\<lambda>_ a. KeyGetByHash hash (ac_keys a))) (Denied 401 ''invalid_api_key'' False)) (\<lambda>k.
      bindE (or_missing (query E (\<lambda>_ a. WaitlistGetByID (ak_WaitlistID k) (ac_waitlist a)))
               (Denied 403 ''key_not_approved'' False)) (\<lambda>w.
      if wl_Status w \<noteq> WaitlistApproved then throw (Denied 403 ''key_not_approved'' False)
      else bindE (or_deny (RandomToken E) (ISE ''session mint failed'')) (\<lambda>token.
        let sess = HashWithPepper E token (IPHashPepper (wCfg E)) in
        with_state (\<lambda>x. let expires = wNow E (wb_tick x) + SessionTTL (wCfg E) in
        bindE (or_deny (stmt E (\<lambda>now i a. SessionInsert i now (ak_ID k) sess expires a))
                 (ISE ''session insert failed'')) (\<lambda>_.
        ret (SetSessionCookie (wCfg E) token)))))))"

definition portal_logout :: "wenv \<Rightarrow> reqctx \<Rightarrow> Cookie web" where
  "portal_logout E cx = bindE (case cx_Session cx of
       None \<Rightarrow> ret ()
     | Some s \<Rightarrow> bindE (attempt (stmt E (\<lambda>now i a.
         Some ((), a\<lparr>ac_sessions := SessionRevoke now (us_SessionHash s) (ac_sessions a)\<rparr>)))) (\<lambda>_. ret ()))
     (\<lambda>_. ret (clearSessionCookie (wCfg E)))"

record AccountOut =
  ao_Email :: string
  ao_Name :: string
  ao_WaitlistID :: uuid
  ao_APIKeyPrefix :: string

definition portal_account :: "reqctx \<Rightarrow> AccountOut web" where
  "portal_account cx = (case (cx_Waitlist cx, cx_APIKey cx) of
      (Some w, Some k) \<Rightarrow> ret \<lparr>ao_Email = wl_Email w, ao_Name = wl_Name w, ao_WaitlistID = wl_ID w,
                              ao_APIKeyPrefix = ak_KeyPrefix k\<rparr>
    | _ \<Rightarrow> throw (Denied 401 ''not_authenticated'' False))"

record APIKeyView =
  kv_ID :: uuid
  kv_Label :: string
  kv_KeyPrefix :: string
  kv_CreatedAt :: time
  kv_LastUsedAt :: "time option"
  kv_RevokedAt :: "time option"

definition derefString :: "string option \<Rightarrow> string" where
  "derefString s = (case s of None \<Rightarrow> '''' | Some t \<Rightarrow> t)"

definition key_view :: "APIKey \<Rightarrow> APIKeyView" where
  "key_view k = \<lparr>kv_ID = ak_ID k, kv_Label = derefString (ak_Label k), kv_KeyPrefix = ak_KeyPrefix k,
     kv_CreatedAt = ak_CreatedAt k, kv_LastUsedAt = ak_LastUsedAt k, kv_RevokedAt = ak_RevokedAt k\<rparr>"

definition the_waitlist :: "reqctx \<Rightarrow> Waitlist web" where
  "the_waitlist cx = (case cx_Waitlist cx of
      None \<Rightarrow> throw (Denied 401 ''not_authenticated'' False) | Some w \<Rightarrow> ret w)"

definition portal_list_keys :: "wenv \<Rightarrow> reqctx \<Rightarrow> APIKeyView list web" where
  "portal_list_keys E cx = bindE (the_waitlist cx) (\<lambda>w.
     bindE (or_deny (query E (\<lambda>_ a. ListByWaitlist (wl_ID w) (ac_keys a))) (ISE ''list keys failed'')) (\<lambda>ks.
     ret (map key_view ks)))"

text \<open>\<^verbatim>\<open>BEGIN\<close> fixes \<^verbatim>\<open>now()\<close> for the transaction.\<close>

definition begin_tx :: "wenv \<Rightarrow> time web" where
  "begin_tx E = query E (\<lambda>now _. now)"

text \<open>The \<^verbatim>\<open>INSERT\<close> of a key inside a transaction: the row exists for others only after the commit.\<close>

definition insert_key_tx :: "wenv \<Rightarrow> time \<Rightarrow> uuid \<Rightarrow> string \<Rightarrow> string \<Rightarrow> string \<Rightarrow> APIKey web" where
  "insert_key_tx E began wid label pre hash =
     stmt E (\<lambda>_ i a. map_option (\<lambda>(r, _). (r, a)) (KeyInsert i began wid label pre hash a))"

definition portal_mint_key :: "wenv \<Rightarrow> reqctx \<Rightarrow> string \<Rightarrow> (string \<times> APIKeyView) web" where
  "portal_mint_key E cx label = bindE (the_waitlist cx) (\<lambda>w.
     bindE (or_deny (NewAPIKey E (APIKeyHashPepper (wCfg E))) (ISE ''key mint failed'')) (\<lambda>(key, pre, hash).
     bindE (or_deny (begin_tx E) (ISE ''tx begin'')) (\<lambda>began.
     bindE (or_deny (insert_key_tx E began (wl_ID w) label pre hash) (ISE ''api key insert'')) (\<lambda>k.
     bindE (or_deny (commit_tx E (add_key k)) (ISE ''tx commit'')) (\<lambda>_.
     ret (key, \<lparr>kv_ID = ak_ID k, kv_Label = label, kv_KeyPrefix = ak_KeyPrefix k, kv_CreatedAt = ak_CreatedAt k,
               kv_LastUsedAt = None, kv_RevokedAt = None\<rparr>))))))"

definition portal_revoke_key :: "wenv \<Rightarrow> reqctx \<Rightarrow> uuid \<Rightarrow> unit web" where
  "portal_revoke_key E cx i = bindE (the_waitlist cx) (\<lambda>w.
     or_deny (stmt E (\<lambda>now _ a. Some ((), a\<lparr>ac_keys := KeyRevoke now i (wl_ID w) (ac_keys a)\<rparr>))) (ISE ''revoke failed''))"

section \<open>Administrator routes\<close>

record ApproveOut =
  apo_KeyPrefix :: string
  apo_PlainKey :: string

text \<open>The transaction's second statement updates the row, and locks it until the commit; its effect
  becomes visible with the key's.\<close>

definition mark_approved_tx :: "wenv \<Rightarrow> time \<Rightarrow> uuid \<Rightarrow> string \<Rightarrow> unit web" where
  "mark_approved_tx E began i approver =
     stmt E (\<lambda>_ _ a. map_option (\<lambda>_. ((), a)) (MarkApproved began i approver (ac_waitlist a)))"

definition admin_approve :: "wenv \<Rightarrow> uuid \<Rightarrow> ApproveOut web" where
  "admin_approve E i =
     bindE (or_missing (query E (\<lambda>_ a. WaitlistGetByID i (ac_waitlist a))) (Denied 404 ''waitlist row not found'' False)) (\<lambda>w.
     if wl_Status w \<noteq> WaitlistPending then throw (Denied 409 ''waitlist_not_pending'' False)
     else bindE (or_deny (NewAPIKey E (APIKeyHashPepper (wCfg E))) (ISE ''key mint failed'')) (\<lambda>(key, pre, hash).
       bindE (or_deny (begin_tx E) (ISE ''tx begin'')) (\<lambda>began.
       bindE (or_deny (insert_key_tx E began (wl_ID w) '''' pre hash) (ISE ''api key insert'')) (\<lambda>k.
       bindE (or_deny (mark_approved_tx E began (wl_ID w) ''admin'') (ISE ''waitlist update'')) (\<lambda>_.
       bindE (or_deny (commit_tx E (approve_tx began (wl_ID w) ''admin'' k)) (ISE ''tx commit'')) (\<lambda>_.
       thenE (deliverAPIKeyEmail E (wl_Email w) (wl_Name w) key)
       (ret \<lparr>apo_KeyPrefix = pre, apo_PlainKey = key\<rparr>)))))))"

definition admin_reject :: "wenv \<Rightarrow> uuid \<Rightarrow> unit web" where
  "admin_reject E i =
     or_deny (stmt E (\<lambda>now _ a. Some ((), a\<lparr>ac_waitlist := MarkRejected now i ''admin'' (ac_waitlist a)\<rparr>)))
       (ISE ''waitlist reject'')"

definition admin_resend :: "wenv \<Rightarrow> uuid \<Rightarrow> unit web" where
  "admin_resend E i =
     bindE (or_missing (query E (\<lambda>_ a. WaitlistGetByID i (ac_waitlist a))) (Denied 404 ''waitlist row not found'' False)) (\<lambda>w.
     bindE (or_deny (RandomToken E) (ISE ''token mint'')) (\<lambda>token.
     let hash = HashWithPepper E token (IPHashPepper (wCfg E)) in
     with_state (\<lambda>x. let expires = wNow E (wb_tick x) + day in
     bindE (or_deny (stmt E (\<lambda>_ _ a. map_option (\<lambda>t. ((), a\<lparr>ac_waitlist := t\<rparr>))
              (ResetVerificationToken (wl_ID w) hash expires (ac_waitlist a)))) (ISE ''token reset'')) (\<lambda>_.
     deliverVerificationEmail E (wl_Email w) (wl_Name w) token))))"

section \<open>Serving a request\<close>

datatype route =
    Signup string string
  | Verify string
  | Login string
  | Logout
  | Account
  | ListKeys
  | MintKey string
  | RevokeKey uuid
  | Approve uuid
  | Reject uuid
  | Resend uuid

fun route_path :: "route \<Rightarrow> string" where
  "route_path (Signup _ _) = ''/api/public/waitlist''"
| "route_path (Verify _) = ''/api/public/verify''"
| "route_path (Login _) = ''/api/portal/login''"
| "route_path Logout = ''/api/portal/logout''"
| "route_path Account = ''/api/portal/account''"
| "route_path ListKeys = ''/api/portal/api-keys''"
| "route_path (MintKey _) = ''/api/portal/api-keys''"
| "route_path (RevokeKey i) = ''/api/portal/api-keys/'' @ i"
| "route_path (Approve i) = ''/api/admin/waitlist/'' @ i @ ''/approve''"
| "route_path (Reject i) = ''/api/admin/waitlist/'' @ i @ ''/reject''"
| "route_path (Resend i) = ''/api/admin/waitlist/'' @ i @ ''/resend-verification''"

datatype reply =
    ReplyOK
  | ReplyCookie Cookie
  | ReplyAccount AccountOut
  | ReplyKeys "APIKeyView list"
  | ReplyMinted string APIKeyView
  | ReplyApproved ApproveOut

fun handle :: "wenv \<Rightarrow> reqctx \<Rightarrow> route \<Rightarrow> reply web" where
  "handle E cx (Signup name email) = thenE (waitlist_signup E name email) (ret ReplyOK)"
| "handle E cx (Verify token) = thenE (waitlist_verify E token) (ret ReplyOK)"
| "handle E cx (Login key) = bindE (portal_login E key) (\<lambda>c. ret (ReplyCookie c))"
| "handle E cx Logout = bindE (portal_logout E cx) (\<lambda>c. ret (ReplyCookie c))"
| "handle E cx Account = bindE (portal_account cx) (\<lambda>a. ret (ReplyAccount a))"
| "handle E cx ListKeys = bindE (portal_list_keys E cx) (\<lambda>ks. ret (ReplyKeys ks))"
| "handle E cx (MintKey label) = bindE (portal_mint_key E cx label) (\<lambda>(key, v). ret (ReplyMinted key v))"
| "handle E cx (RevokeKey i) = thenE (portal_revoke_key E cx i) (ret ReplyOK)"
| "handle E cx (Approve i) = bindE (admin_approve E i) (\<lambda>o'. ret (ReplyApproved o'))"
| "handle E cx (Reject i) = thenE (admin_reject E i) (ret ReplyOK)"
| "handle E cx (Resend i) = thenE (admin_resend E i) (ret ReplyOK)"

text \<open>A request to a route of the table above, behind the gate of its path.\<close>

definition serve :: "wenv \<Rightarrow> request \<Rightarrow> route \<Rightarrow> reply web" where
  "serve E r rt = bindE (pathAwareAuth E (r\<lparr>rq_Path := route_path rt\<rparr>)) (\<lambda>cx. handle E cx rt)"

end
