(* ===== verification/Account_Facts.thy ===== *)
theory Account_Facts
  imports Account_Routes
begin

text \<open>
  What the account tables satisfy under any interleaving of requests: the invariant, the order in
  which rows may change, and the abstract life cycle of an account that every commit refines. The
  requests themselves are shown to change accounts only by such commits.
\<close>

section \<open>Invariant, order and life cycle\<close>

definition phases :: "Waitlist list \<Rightarrow> (uuid \<times> WaitlistStatus) list" where
  "phases t = map (\<lambda>w. (wl_ID w, wl_Status w)) t"

definition token_unique :: "Waitlist list \<Rightarrow> bool" where
  "token_unique t \<longleftrightarrow> (\<forall>v \<in> set t. \<forall>w \<in> set t. wl_VerificationTokenHash v \<noteq> None \<longrightarrow>
     wl_VerificationTokenHash v = wl_VerificationTokenHash w \<longrightarrow> wl_ID v = wl_ID w)"

text \<open>Keys belong to approved accounts, sessions to keys; ids, emails and pending tokens are unique.\<close>

definition acct_inv :: "accounts \<Rightarrow> bool" where
  "acct_inv a \<longleftrightarrow> distinct (map fst (phases (ac_waitlist a))) \<and> distinct (map wl_Email (ac_waitlist a)) \<and>
     token_unique (ac_waitlist a) \<and> distinct (map ak_ID (ac_keys a)) \<and> distinct (map us_ID (ac_sessions a)) \<and>
     (\<forall>i \<in> set (map ak_WaitlistID (ac_keys a)). (i, WaitlistApproved) \<in> set (phases (ac_waitlist a))) \<and>
     (\<forall>i \<in> set (map us_APIKeyID (ac_sessions a)). i \<in> set (map ak_ID (ac_keys a)))"

definition covers :: "('r \<Rightarrow> 'r \<Rightarrow> bool) \<Rightarrow> 'r list \<Rightarrow> 'r list \<Rightarrow> bool" where
  "covers R t u \<longleftrightarrow> (\<forall>r \<in> set t. \<exists>s \<in> set u. R r s)"

text \<open>A decision is final, a revocation is final, identities and hashes never change.\<close>

definition wl_le :: "Waitlist \<Rightarrow> Waitlist \<Rightarrow> bool" where
  "wl_le v w \<longleftrightarrow> wl_ID w = wl_ID v \<and> wl_Email w = wl_Email v \<and>
     (wl_Status v \<noteq> WaitlistPending \<longrightarrow> wl_Status w = wl_Status v)"

definition ak_le :: "APIKey \<Rightarrow> APIKey \<Rightarrow> bool" where
  "ak_le k l \<longleftrightarrow> ak_ID l = ak_ID k \<and> ak_WaitlistID l = ak_WaitlistID k \<and> ak_KeyHash l = ak_KeyHash k \<and>
     (ak_RevokedAt k \<noteq> None \<longrightarrow> ak_RevokedAt l \<noteq> None)"

definition us_le :: "UserSession \<Rightarrow> UserSession \<Rightarrow> bool" where
  "us_le s t \<longleftrightarrow> us_ID t = us_ID s \<and> us_APIKeyID t = us_APIKeyID s \<and> us_SessionHash t = us_SessionHash s \<and>
     us_ExpiresAt t = us_ExpiresAt s \<and> (us_RevokedAt s \<noteq> None \<longrightarrow> us_RevokedAt t \<noteq> None)"

definition acct_le :: "accounts \<Rightarrow> accounts \<Rightarrow> bool" where
  "acct_le a b \<longleftrightarrow> covers wl_le (ac_waitlist a) (ac_waitlist b) \<and> covers ak_le (ac_keys a) (ac_keys b) \<and>
     covers us_le (ac_sessions a) (ac_sessions b)"

text \<open>The abstract account: its decision and how many keys it was ever given.\<close>

type_synonym life = "uuid \<rightharpoonup> WaitlistStatus \<times> nat"

inductive life_step :: "life \<Rightarrow> life \<Rightarrow> bool" where
  sign_up: "L i = None \<Longrightarrow> life_step L (L(i \<mapsto> (WaitlistPending, 0)))"
| approve: "L i = Some (WaitlistPending, 0) \<Longrightarrow> life_step L (L(i \<mapsto> (WaitlistApproved, 1)))"
| reject: "L i = Some (WaitlistPending, 0) \<Longrightarrow> life_step L (L(i \<mapsto> (WaitlistRejected, 0)))"
| mint: "L i = Some (WaitlistApproved, Suc n) \<Longrightarrow> life_step L (L(i \<mapsto> (WaitlistApproved, Suc (Suc n))))"

inductive_cases life_stepE: "life_step L L'"

definition life_of :: "accounts \<Rightarrow> life" where
  "life_of a = (\<lambda>i. map_option (\<lambda>s. (s, count_list (map ak_WaitlistID (ac_keys a)) i))
     (map_of (phases (ac_waitlist a)) i))"

section \<open>Rows\<close>

lemma covers_trans: "covers R t u \<Longrightarrow> covers R u v \<Longrightarrow> (\<And>x y z. R x y \<Longrightarrow> R y z \<Longrightarrow> R x z) \<Longrightarrow> covers R t v"
  unfolding covers_def by meson

lemma covers_append: "covers R t u \<Longrightarrow> covers R t (u @ v)"
  by (auto simp: covers_def)

lemma covers_update: "(\<And>r. R r r) \<Longrightarrow> (\<And>r. p r \<Longrightarrow> R r (f r)) \<Longrightarrow> covers R t (sql_update p f t)"
  unfolding covers_def set_sql_update
proof
  fix r
  assume "r \<in> set t" and "\<And>r. R r r" and "\<And>r. p r \<Longrightarrow> R r (f r)"
  then show "\<exists>s \<in> (\<lambda>r. if p r then f r else r) ` set t. R r s"
    by (intro bexI [of _ "if p r then f r else r"]) simp_all
qed

lemma covers_refl: "(\<And>r. R r r) \<Longrightarrow> covers R t t"
  by (auto simp: covers_def)

lemma row_le_refl [simp]: "wl_le w w" "ak_le k k" "us_le s s"
  by (simp_all add: wl_le_def ak_le_def us_le_def)

lemma acct_le_refl: "acct_le a a"
  by (simp add: acct_le_def covers_refl)

lemma acct_le_trans: "acct_le a b \<Longrightarrow> acct_le b c \<Longrightarrow> acct_le a c"
  unfolding acct_le_def
  by (intro conjI; elim conjE; erule (1) covers_trans) (auto simp: wl_le_def ak_le_def us_le_def)

lemma map_sql_update: "(\<And>r. p r \<Longrightarrow> g (f r) = g r) \<Longrightarrow> map g (sql_update p f t) = map g t"
  by (induction t) auto

lemmas account_row_defs = consume_row_def decide_row_def reset_row_def revoke_row_def touch_row_def end_session_row_def

lemma phases_decide:
  "phases (sql_update (pending_row i) (decide_row now st who) t) =
   map (\<lambda>(j, s). if j = i \<and> s = WaitlistPending then (j, st) else (j, s)) (phases t)"
  by (induction t) (auto simp: phases_def decide_row_def pending_row_def)

lemma map_of_decide:
  "map_of (map (\<lambda>(j, s). if j = i \<and> s = p then (j, st) else (j, s)) ph) j =
   (if j = i then map_option (\<lambda>s. if s = p then st else s) (map_of ph j) else map_of ph j)"
proof (induction ph)
  case (Cons x ph)
  then show ?case by (cases x; cases "j = i"; cases "j = fst x") simp_all
qed simp

lemma fst_decide: "map fst (map (\<lambda>(j, s). if j = i \<and> s = p then (j, st) else (j, s)) ph) = map fst ph"
  by (induction ph) auto

lemma fst_phases [simp]: "map fst (phases t) = map wl_ID t"
  by (simp add: phases_def)

lemma key_projections [simp]:
  "map ak_ID (KeyRevoke now i wid t) = map ak_ID t" "map ak_WaitlistID (KeyRevoke now i wid t) = map ak_WaitlistID t"
  "map ak_ID (TouchLastUsed now i t) = map ak_ID t" "map ak_WaitlistID (TouchLastUsed now i t) = map ak_WaitlistID t"
  unfolding KeyRevoke_def TouchLastUsed_def by (rule map_sql_update, simp add: account_row_defs)+

lemma session_projections [simp]:
  "map us_ID (SessionRevoke now h t) = map us_ID t" "map us_APIKeyID (SessionRevoke now h t) = map us_APIKeyID t"
  unfolding SessionRevoke_def by (rule map_sql_update, simp add: account_row_defs)+

lemma waitlist_projections [simp]:
  "phases (snd (ConsumeVerificationToken now h t)) = phases t"
  "map wl_Email (snd (ConsumeVerificationToken now h t)) = map wl_Email t"
  "map wl_Email (MarkRejected now i who t) = map wl_Email t"
  unfolding ConsumeVerificationToken_def MarkRejected_def phases_def snd_conv
  by (rule map_sql_update, simp add: account_row_defs)+

lemma reset_projections:
  assumes "ResetVerificationToken i h e t = Some u"
  shows "phases u = phases t" and "map wl_Email u = map wl_Email t"
proof -
  have u: "u = sql_update (\<lambda>r. wl_ID r = i) (reset_row h e) t"
    using assms by (auto simp: ResetVerificationToken_def split: if_splits)
  show "phases u = phases t" and "map wl_Email u = map wl_Email t"
    unfolding u phases_def by (rule map_sql_update, simp add: account_row_defs)+
qed

lemma MarkApproved_SomeD:
  assumes "MarkApproved now i who t = Some u"
  shows "phases u = map (\<lambda>(j, s). if j = i \<and> s = WaitlistPending then (j, WaitlistApproved) else (j, s)) (phases t)"
    and "map wl_Email u = map wl_Email t" and "(i, WaitlistPending) \<in> set (phases t)"
proof -
  have u: "u = sql_update (pending_row i) (decide_row now WaitlistApproved who) t" and r: "rows_affected (pending_row i) t \<noteq> 0"
    using assms by (auto simp: MarkApproved_def split: if_splits)
  show "phases u = map (\<lambda>(j, s). if j = i \<and> s = WaitlistPending then (j, WaitlistApproved) else (j, s)) (phases t)"
    by (simp add: u phases_decide)
  show "map wl_Email u = map wl_Email t" unfolding u by (rule map_sql_update) (simp add: account_row_defs)
  show "(i, WaitlistPending) \<in> set (phases t)"
    using r by (force simp: rows_affected_def pending_row_def phases_def filter_empty_conv)
qed

section \<open>Every commit keeps the invariant and the order\<close>

lemma find_SomeD: "find p t = Some r \<Longrightarrow> r \<in> set t \<and> p r"
  by (induction t) (auto split: if_splits)

lemma token_unique_sub:
  assumes "token_unique t"
    and "\<forall>w' \<in> set u. wl_VerificationTokenHash w' \<noteq> None \<longrightarrow>
      (\<exists>w \<in> set t. wl_ID w = wl_ID w' \<and> wl_VerificationTokenHash w = wl_VerificationTokenHash w')"
  shows "token_unique u"
  using assms unfolding token_unique_def by metis

lemma token_unique_consume: "token_unique t \<Longrightarrow> token_unique (snd (ConsumeVerificationToken now h t))"
  by (erule token_unique_sub) (auto simp: ConsumeVerificationToken_def set_sql_update consume_row_def)

lemma token_unique_decide: "token_unique t \<Longrightarrow> token_unique (sql_update p (decide_row now st who) t)"
  by (erule token_unique_sub) (auto simp: set_sql_update decide_row_def)

lemma token_unique_reset:
  assumes "token_unique t" and "ResetVerificationToken i h e t = Some u"
  shows "token_unique u"
proof (cases "i \<in> set (map wl_ID t)")
  case True
  then have other: "\<forall>r \<in> set t. wl_VerificationTokenHash r = Some h \<longrightarrow> wl_ID r = i"
    and u: "u = sql_update (\<lambda>r. wl_ID r = i) (reset_row h e) t"
    using assms(2) by (auto simp: ResetVerificationToken_def list_ex_iff split: if_splits)
  show ?thesis
    unfolding token_unique_def u set_sql_update
  proof (intro ballI impI)
    fix v w
    assume "v \<in> (\<lambda>r. if wl_ID r = i then reset_row h e r else r) ` set t" and "w \<in> (\<lambda>r. if wl_ID r = i then reset_row h e r else r) ` set t"
      and tok: "wl_VerificationTokenHash v \<noteq> None" "wl_VerificationTokenHash v = wl_VerificationTokenHash w"
    then obtain x y where x: "x \<in> set t" "v = (if wl_ID x = i then reset_row h e x else x)"
      and y: "y \<in> set t" "w = (if wl_ID y = i then reset_row h e y else y)" by blast
    have "wl_ID x = wl_ID y"
    proof (cases "wl_ID x = i"; cases "wl_ID y = i")
      assume "wl_ID x = i" and "wl_ID y \<noteq> i"
      then show ?thesis using x(2) y tok(2) other by (simp add: reset_row_def)
    next
      assume "wl_ID x \<noteq> i" and "wl_ID y = i"
      then show ?thesis using x y(2) tok(2) other by (simp add: reset_row_def)
    next
      assume "wl_ID x \<noteq> i" and "wl_ID y \<noteq> i"
      with x y tok have "wl_VerificationTokenHash x \<noteq> None" and "wl_VerificationTokenHash x = wl_VerificationTokenHash y"
        by simp_all
      with x(1) y(1) assms(1) show ?thesis unfolding token_unique_def by blast
    qed simp
    then show "wl_ID v = wl_ID w" using x y by (simp add: reset_row_def)
  qed
next
  case False
  then have "u = sql_update (\<lambda>r. wl_ID r = i) (reset_row h e) t" and "\<forall>r \<in> set t. wl_ID r \<noteq> i"
    using assms(2) by (auto simp: ResetVerificationToken_def)
  then show ?thesis
    using assms(1) by (elim token_unique_sub) (auto simp: set_sql_update)
qed

lemma token_unique_append:
  "token_unique t \<Longrightarrow> \<not> token_taken h t \<Longrightarrow> wl_VerificationTokenHash r = Some h \<Longrightarrow> token_unique (t @ [r])"
proof -
  assume t: "token_unique t" and h: "\<not> token_taken h t" and r: "wl_VerificationTokenHash r = Some h"
  have n: "wl_VerificationTokenHash v \<noteq> wl_VerificationTokenHash r" if "v \<in> set t" for v
    using h r that by (auto simp: token_taken_def list_ex_iff)
  show "token_unique (t @ [r])"
    unfolding token_unique_def
  proof (intro ballI impI)
    fix v w
    assume "v \<in> set (t @ [r])" and "w \<in> set (t @ [r])" and "wl_VerificationTokenHash v \<noteq> None"
      and "wl_VerificationTokenHash v = wl_VerificationTokenHash w"
    moreover from this n [of v] n [of w] have "(v \<in> set t \<and> w \<in> set t) \<or> v = w" by auto
    ultimately show "wl_ID v = wl_ID w"
      using t unfolding token_unique_def by blast
  qed
qed

lemma WaitlistInsert_SomeD:
  "WaitlistInsert i now name email ip h e t = Some (r, u) \<Longrightarrow> u = t \<or>
     (u = t @ [fresh_waitlist i now name email ip h e] \<and> ToLower email \<notin> set (map wl_Email t) \<and>
      i \<notin> set (map wl_ID t) \<and> \<not> token_taken h t)"
  unfolding WaitlistInsert_def Let_def by (simp split: if_splits)

lemma inv_signup:
  assumes "acct_inv a" and "WaitlistInsert i now name email ip h e (ac_waitlist a) = Some (r, t)"
  shows "acct_inv (a\<lparr>ac_waitlist := t\<rparr>)"
proof -
  have "acct_inv (a\<lparr>ac_waitlist := ac_waitlist a @ [fresh_waitlist i now name email ip h e]\<rparr>)"
    if "ToLower email \<notin> set (map wl_Email (ac_waitlist a))" "i \<notin> set (map wl_ID (ac_waitlist a))"
      "\<not> token_taken h (ac_waitlist a)"
  proof -
    have "token_unique (ac_waitlist a @ [fresh_waitlist i now name email ip h e])"
      using assms(1) that(3) by (intro token_unique_append [of _ h]) (simp_all add: acct_inv_def fresh_waitlist_def)
    then show ?thesis
      using assms(1) that(1,2) by (simp add: acct_inv_def phases_def fresh_waitlist_def)
  qed
  with assms(1) WaitlistInsert_SomeD [OF assms(2)] show ?thesis by auto
qed

lemma inv_same_phases:
  "acct_inv a \<Longrightarrow> phases t = phases (ac_waitlist a) \<Longrightarrow> map wl_Email t = map wl_Email (ac_waitlist a) \<Longrightarrow>
   token_unique t \<Longrightarrow> acct_inv (a\<lparr>ac_waitlist := t\<rparr>)"
  by (simp add: acct_inv_def)

lemma inv_decide:
  assumes "acct_inv a" and "phases t = map (\<lambda>(j, s). if j = i \<and> s = WaitlistPending then (j, st) else (j, s)) (phases (ac_waitlist a))"
    and "map wl_Email t = map wl_Email (ac_waitlist a)" and "token_unique t"
  shows "acct_inv (a\<lparr>ac_waitlist := t\<rparr>)"
proof -
  have "(j, WaitlistApproved) \<in> set (phases t)" if "(j, WaitlistApproved) \<in> set (phases (ac_waitlist a))" for j
    using that unfolding assms(2) by force
  moreover have "map fst (phases t) = map fst (phases (ac_waitlist a))"
    unfolding assms(2) by (rule fst_decide)
  ultimately show ?thesis using assms(1,3,4) by (simp add: acct_inv_def)
qed

lemma inv_add_key:
  "acct_inv a \<Longrightarrow> add_key k a = Some b \<Longrightarrow> (ak_WaitlistID k, WaitlistApproved) \<in> set (phases (ac_waitlist a)) \<Longrightarrow> acct_inv b"
  by (auto simp: acct_inv_def add_key_def split: if_splits)

lemma approve_tx_SomeD:
  assumes "approve_tx began i who k a = Some b"
  obtains t where "MarkApproved began i who (ac_waitlist a) = Some t" and "ak_WaitlistID k = i"
    and "add_key k (a\<lparr>ac_waitlist := t\<rparr>) = Some b"
  using assms unfolding approve_tx_def by (auto simp: bind_eq_Some_conv split: if_splits)

lemma inv_approve:
  assumes "acct_inv a" and "approve_tx began i who k a = Some b"
  shows "acct_inv b"
proof -
  obtain t where t: "MarkApproved began i who (ac_waitlist a) = Some t" "ak_WaitlistID k = i"
      "add_key k (a\<lparr>ac_waitlist := t\<rparr>) = Some b"
    using assms(2) by (rule approve_tx_SomeD)
  have "token_unique t"
    using assms(1) t(1) token_unique_decide
    by (auto simp: acct_inv_def MarkApproved_def split: if_splits)
  then have "acct_inv (a\<lparr>ac_waitlist := t\<rparr>)"
    using assms(1) MarkApproved_SomeD [OF t(1)] by (intro inv_decide [where i = i and st = WaitlistApproved]) simp_all
  moreover have "(i, WaitlistApproved) \<in> set (phases t)"
    using MarkApproved_SomeD [OF t(1)] by force
  ultimately show ?thesis using t(2,3) inv_add_key [of "a\<lparr>ac_waitlist := t\<rparr>" k b] by simp
qed

lemma inv_sessions:
  "acct_inv a \<Longrightarrow> SessionInsert i now kid h e a = Some (r, b) \<Longrightarrow> acct_inv b"
  by (auto simp: acct_inv_def SessionInsert_def Let_def fresh_session_def split: if_splits)

lemma inv_key_update:
  "acct_inv a \<Longrightarrow> map ak_ID t = map ak_ID (ac_keys a) \<Longrightarrow> map ak_WaitlistID t = map ak_WaitlistID (ac_keys a) \<Longrightarrow>
   acct_inv (a\<lparr>ac_keys := t\<rparr>)"
  unfolding acct_inv_def by simp

lemma inv_session_update:
  "acct_inv a \<Longrightarrow> map us_ID t = map us_ID (ac_sessions a) \<Longrightarrow> map us_APIKeyID t = map us_APIKeyID (ac_sessions a) \<Longrightarrow>
   acct_inv (a\<lparr>ac_sessions := t\<rparr>)"
  unfolding acct_inv_def by simp

lemma or_same_cases: "(\<And>b. x = Some b \<Longrightarrow> P b) \<Longrightarrow> P a \<Longrightarrow> P (or_same x a)"
  by (cases x) (simp_all add: or_same_def)

lemma owns_key_iff: "owns_key i a \<longleftrightarrow> i \<in> set (map ak_WaitlistID (ac_keys a))"
  unfolding owns_key_def list_ex_iff set_map image_iff by blast

lemma owned_approved: "acct_inv a \<Longrightarrow> owns_key i a \<Longrightarrow> (i, WaitlistApproved) \<in> set (phases (ac_waitlist a))"
  by (auto simp: acct_inv_def owns_key_def list_ex_iff)

lemma publish_inv:
  assumes "acct_inv a"
  shows "acct_inv (publish c a)"
proof (cases c)
  case (CSignup i now name email ip h e)
  then show ?thesis
    using assms inv_signup [OF assms] by (simp add: or_same_def split: option.splits)
next
  case (CConsume now h)
  have "token_unique (snd (ConsumeVerificationToken now h (ac_waitlist a)))"
    using assms by (simp add: acct_inv_def token_unique_consume)
  then show ?thesis using assms CConsume by (simp add: inv_same_phases)
next
  case (CReject now i who)
  have "token_unique (MarkRejected now i who (ac_waitlist a))"
    using assms by (simp add: acct_inv_def MarkRejected_def token_unique_decide)
  then have "acct_inv (a\<lparr>ac_waitlist := MarkRejected now i who (ac_waitlist a)\<rparr>)"
    using assms by (intro inv_decide [where i = i and st = WaitlistRejected]) (simp_all, simp add: MarkRejected_def phases_decide)
  then show ?thesis by (simp add: CReject)
next
  case (CReset i h e)
  have "acct_inv (a\<lparr>ac_waitlist := t\<rparr>)" if "ResetVerificationToken i h e (ac_waitlist a) = Some t" for t
    using assms reset_projections [OF that] token_unique_reset [OF _ that]
    by (intro inv_same_phases) (simp_all add: acct_inv_def)
  then show ?thesis using assms by (simp add: CReset or_same_def split: option.splits)
next
  case (CApprove began i who k)
  then show ?thesis using assms inv_approve [OF assms] by (simp add: or_same_def split: option.splits)
next
  case (CMint k)
  then show ?thesis
    using assms inv_add_key [OF assms] owned_approved [OF assms] by (simp add: or_same_def split: option.splits)
next
  case (CRevokeKey now i wid)
  then show ?thesis using assms by (simp add: inv_key_update)
next
  case (CTouch now i)
  then show ?thesis using assms by (simp add: inv_key_update)
next
  case (CLogin i now kid h e)
  then show ?thesis
    using assms inv_sessions [OF assms, of i now kid h e] by (auto simp: or_same_def split: option.splits)
next
  case (CEndSession now h)
  then show ?thesis using assms by (simp add: inv_session_update)
qed

lemma commits_inv: "acct_inv a \<Longrightarrow> acct_inv (commits cs a)"
  by (induction cs arbitrary: a) (simp_all add: commits_def publish_inv)

lemma publish_le: "acct_le a (publish c a)"
proof (cases c)
  case (CSignup i now name email ip h e)
  then show ?thesis
    by (auto simp: acct_le_def or_same_def covers_refl covers_append split: option.splits dest!: WaitlistInsert_SomeD)
next
  case (CReset i h e)
  then show ?thesis
    by (auto simp: acct_le_def or_same_def covers_refl ResetVerificationToken_def reset_row_def wl_le_def
        intro!: covers_update split: option.splits if_splits)
next
  case (CApprove began i who k)
  have "covers wl_le (ac_waitlist a) t" if "MarkApproved began i who (ac_waitlist a) = Some t" for t
    using that by (auto simp: MarkApproved_def decide_row_def pending_row_def wl_le_def intro!: covers_update split: if_splits)
  then have "acct_le a b" if "approve_tx began i who k a = Some b" for b
    using that by (elim approve_tx_SomeD) (auto simp: acct_le_def add_key_def covers_refl covers_append split: if_splits)
  then show ?thesis by (simp add: CApprove or_same_def acct_le_refl split: option.splits)
next
  case (CMint k)
  then show ?thesis
    by (auto simp: acct_le_def or_same_def add_key_def covers_refl covers_append split: option.splits if_splits)
next
  case (CLogin i now kid h e)
  then show ?thesis
    by (auto simp: acct_le_def or_same_def SessionInsert_def Let_def covers_refl covers_append split: option.splits if_splits)
qed (auto simp: acct_le_def covers_refl ConsumeVerificationToken_def MarkRejected_def KeyRevoke_def TouchLastUsed_def
    SessionRevoke_def account_row_defs pending_row_def wl_le_def ak_le_def us_le_def intro!: covers_update)

lemma commits_le: "acct_le a (commits cs a)"
proof (induction cs arbitrary: a)
  case (Cons c cs)
  then show ?case using acct_le_trans [OF publish_le [of a c]] by (simp add: commits_def)
qed (simp add: commits_def acct_le_refl)

lemma commits_append: "commits (cs @ ds) a = commits ds (commits cs a)"
  by (simp add: commits_def)

section \<open>Every commit is a step of the life cycle\<close>

lemma count_list_zero: "i \<notin> set xs \<Longrightarrow> count_list xs i = 0"
  by (induction xs) auto

lemma life_of_same:
  "phases t = phases (ac_waitlist a) \<Longrightarrow> life_of (a\<lparr>ac_waitlist := t\<rparr>) = life_of a"
  by (simp add: life_of_def)

lemma life_of_add_key:
  assumes "life_of a i = Some (s, n)" and "ak_WaitlistID k = i"
  shows "life_of (a\<lparr>ac_keys := ac_keys a @ [k]\<rparr>) = (life_of a)(i \<mapsto> (s, Suc n))"
  using assms by (auto simp: life_of_def fun_eq_iff)

lemma keys_of_pending:
  assumes "acct_inv a" and "map_of (phases (ac_waitlist a)) i = Some s" and "s \<noteq> WaitlistApproved"
  shows "count_list (map ak_WaitlistID (ac_keys a)) i = 0"
proof -
  have "i \<notin> set (map ak_WaitlistID (ac_keys a))"
  proof
    assume "i \<in> set (map ak_WaitlistID (ac_keys a))"
    then have "(i, WaitlistApproved) \<in> set (phases (ac_waitlist a))"
      using assms(1) by (simp only: acct_inv_def)
    then show False using assms by (simp add: acct_inv_def)
  qed
  then show ?thesis by (rule count_list_zero)
qed

lemma life_of_decide:
  assumes "acct_inv a" and "map_of (phases (ac_waitlist a)) i = Some WaitlistPending"
    and "phases t = map (\<lambda>(j, s). if j = i \<and> s = WaitlistPending then (j, st) else (j, s)) (phases (ac_waitlist a))"
  shows "life_of (a\<lparr>ac_waitlist := t\<rparr>) = (life_of a)(i \<mapsto> (st, 0)) \<and> life_of a i = Some (WaitlistPending, 0)"
  using keys_of_pending [OF assms(1,2)] assms(2)
  by (auto simp: life_of_def assms(3) map_of_decide fun_eq_iff)

lemma decide_other:
  assumes "map_of ph i \<noteq> Some WaitlistPending" and "distinct (map fst ph)"
  shows "map (\<lambda>(j, s). if j = i \<and> s = WaitlistPending then (j, st) else (j, s)) ph = ph"
  using assms by (intro map_idI) auto

abbreviation at_most_one :: "life \<Rightarrow> life \<Rightarrow> bool" where
  "at_most_one L L' \<equiv> L = L' \<or> life_step L L'"

lemma life_reject:
  assumes "acct_inv a"
  shows "at_most_one (life_of a) (life_of (a\<lparr>ac_waitlist := MarkRejected now i who (ac_waitlist a)\<rparr>))"
proof (cases "map_of (phases (ac_waitlist a)) i = Some WaitlistPending")
  case True
  then show ?thesis
    using life_of_decide [OF assms True, of "MarkRejected now i who (ac_waitlist a)" WaitlistRejected]
    by (simp add: MarkRejected_def phases_decide life_step.reject)
next
  case False
  have "phases (MarkRejected now i who (ac_waitlist a)) = phases (ac_waitlist a)"
    unfolding MarkRejected_def phases_decide using decide_other [OF False] assms by (simp add: acct_inv_def)
  then show ?thesis by (simp add: life_of_same)
qed

lemma life_approve:
  assumes "acct_inv a" and "approve_tx began i who k a = Some b"
  shows "life_step (life_of a) (life_of b)"
proof -
  obtain t where t: "MarkApproved began i who (ac_waitlist a) = Some t" "ak_WaitlistID k = i"
      "add_key k (a\<lparr>ac_waitlist := t\<rparr>) = Some b"
    using assms(2) by (rule approve_tx_SomeD)
  have "map_of (phases (ac_waitlist a)) i = Some WaitlistPending"
    using MarkApproved_SomeD(3) [OF t(1)] assms(1) by (simp add: acct_inv_def)
  from life_of_decide [OF assms(1) this MarkApproved_SomeD(1) [OF t(1)]]
  have l: "life_of (a\<lparr>ac_waitlist := t\<rparr>) = (life_of a)(i \<mapsto> (WaitlistApproved, 0))" "life_of a i = Some (WaitlistPending, 0)"
    by simp_all
  have b: "b = (a\<lparr>ac_waitlist := t\<rparr>)\<lparr>ac_keys := ac_keys (a\<lparr>ac_waitlist := t\<rparr>) @ [k]\<rparr>"
    using t(3) by (simp add: add_key_def split: if_splits)
  have "life_of b = (life_of (a\<lparr>ac_waitlist := t\<rparr>))(i \<mapsto> (WaitlistApproved, Suc 0))"
    unfolding b by (rule life_of_add_key) (simp_all add: l t(2))
  then have "life_of b = (life_of a)(i \<mapsto> (WaitlistApproved, 1))" by (simp add: l)
  with life_step.approve [of "life_of a" i] l(2) show ?thesis by simp
qed

lemma life_mint:
  assumes "acct_inv a" and "owns_key (ak_WaitlistID k) a" and "add_key k a = Some b"
  shows "life_step (life_of a) (life_of b)"
proof -
  let ?i = "ak_WaitlistID k" and ?ids = "map ak_WaitlistID (ac_keys a)"
  have "map_of (phases (ac_waitlist a)) ?i = Some WaitlistApproved"
    using owned_approved [OF assms(1,2)] assms(1) by (simp add: acct_inv_def)
  moreover have "?i \<in> set ?ids" using assms(2) by (simp only: owns_key_iff)
  then obtain n where "count_list ?ids ?i = Suc n"
    using count_list_0_iff [of ?ids ?i] not0_implies_Suc by blast
  ultimately have l: "life_of a ?i = Some (WaitlistApproved, Suc n)" by (simp add: life_of_def)
  have "b = a\<lparr>ac_keys := ac_keys a @ [k]\<rparr>" using assms(3) by (simp add: add_key_def split: if_splits)
  then have "life_of b = (life_of a)(?i \<mapsto> (WaitlistApproved, Suc (Suc n)))"
    using life_of_add_key [OF l refl] by simp
  with l show ?thesis by (simp add: life_step.mint)
qed

lemma publish_life:
  assumes "acct_inv a"
  shows "at_most_one (life_of a) (life_of (publish c a))"
proof (cases c)
  case (CSignup i now name email ip h e)
  have "at_most_one (life_of a) (life_of (a\<lparr>ac_waitlist := t\<rparr>))"
    if "WaitlistInsert i now name email ip h e (ac_waitlist a) = Some (r, t)" for r t
    using WaitlistInsert_SomeD [OF that]
  proof
    assume n: "t = ac_waitlist a @ [fresh_waitlist i now name email ip h e] \<and> ToLower email \<notin> set (map wl_Email (ac_waitlist a)) \<and>
      i \<notin> set (map wl_ID (ac_waitlist a)) \<and> \<not> token_taken h (ac_waitlist a)"
    then have none: "map_of (phases (ac_waitlist a)) i = None"
      by (simp add: map_of_eq_None_iff flip: fst_phases)
    have "i \<notin> set (map ak_WaitlistID (ac_keys a))"
    proof
      assume "i \<in> set (map ak_WaitlistID (ac_keys a))"
      then have "(i, WaitlistApproved) \<in> set (phases (ac_waitlist a))" using assms by (simp only: acct_inv_def)
      with none show False by (metis map_of_eq_None_iff fst_conv image_eqI)
    qed
    then have "count_list (map ak_WaitlistID (ac_keys a)) i = 0" by (rule count_list_zero)
    then have "life_of (a\<lparr>ac_waitlist := t\<rparr>) = (life_of a)(i \<mapsto> (WaitlistPending, 0)) \<and> life_of a i = None"
      using n none by (auto simp: life_of_def phases_def fresh_waitlist_def map_add_def fun_eq_iff split: option.splits)
    then show ?thesis by (simp add: life_step.sign_up)
  qed simp
  then show ?thesis by (simp add: CSignup or_same_def split: option.splits prod.splits)
next
  case (CReset i h e)
  then show ?thesis
    using reset_projections(1) by (auto simp: or_same_def life_of_same split: option.splits)
next
  case (CApprove began i who k)
  then show ?thesis using life_approve [OF assms] by (simp add: or_same_def split: option.splits)
next
  case (CMint k)
  then show ?thesis using life_mint [OF assms] by (simp add: or_same_def split: option.splits)
next
  case (CLogin i now kid h e)
  then show ?thesis
    by (auto simp: or_same_def SessionInsert_def Let_def life_of_def split: option.splits if_splits)
qed (use assms in \<open>simp_all add: life_reject life_of_same\<close>, simp_all add: life_of_def)

lemma commits_life:
  assumes "acct_inv a"
  shows "life_step\<^sup>*\<^sup>* (life_of a) (life_of (commits cs a))"
  using assms
proof (induction cs arbitrary: a)
  case (Cons c cs)
  then show ?case
    using publish_life [OF Cons.prems, of c] Cons.IH [OF publish_inv [OF Cons.prems, of c]]
    by (auto simp: commits_def intro: converse_rtranclp_into_rtranclp)
qed (simp add: commits_def)

end
