(* ===== verification/Web_Sample.thy ===== *)
theory Web_Sample
  imports Access_Control Paid_Sample
begin

text \<open>A concrete configuration of the web server, at which the properties of the routes are exercised.\<close>

definition sample_webcfg :: WebConfig where
  "sample_webcfg = Config.extend sample_config (WebConfig.fields ''https://gw'' ''https://site'' [''*''] ''adm''
     ''kp'' ''ip'' '''' 24 '''' '''' '''' 60 30)"

end
