(* ===== verification/Account_Safety.thy ===== *)
theory Account_Safety
  imports Account_Facts Web_Sample
begin

text \<open>
  Requests against the account tables. Every request changes them only by commits of the vocabulary
  of \<^verbatim>\<open>Accounts\<close>, so what holds under any commits holds under any interleaving of requests; the
  properties of the account routes and of their gates follow.
\<close>

section \<open>Requests change accounts by commits\<close>

definition via_commits :: "webstate \<Rightarrow> webstate \<Rightarrow> bool" where
  "via_commits x y \<longleftrightarrow> (\<exists>cs. wb_acc y = commits cs (wb_acc x))"

lemma via_commits_same: "wb_acc y = wb_acc x \<Longrightarrow> via_commits x y"
  unfolding via_commits_def by (intro exI [of _ "[]"]) (simp add: commits_def)

interpretation acct: step_contract via_commits
proof
  show "via_commits s s" for s by (rule via_commits_same) simp
  show "via_commits s u" if "via_commits s t" "via_commits t u" for s t u
    using that unfolding via_commits_def by (metis commits_append)
qed

definition stable :: "(accounts \<Rightarrow> bool) \<Rightarrow> bool" where
  "stable p \<longleftrightarrow> (\<forall>a cs. p a \<longrightarrow> p (commits cs a))"

lemma stableD: "stable p \<Longrightarrow> p a \<Longrightarrow> p (commits cs a)"
  by (simp add: stable_def)

lemma commits_one: "commits [c] a = publish c a"
  by (simp add: commits_def)

lemma stmt_apply_acc:
  assumes "\<And>r b. f (wClock E t) (wGen E t) (wb_acc x) = Some (r, b) \<Longrightarrow> \<exists>cs. b = commits cs (wb_acc x)"
  shows "via_commits x (snd (stmt_apply E t f x))"
proof (cases "f (wClock E t) (wGen E t) (wb_acc x)")
  case None
  then show ?thesis
    by (auto simp: stmt_apply_def acct.R_refl split: option.splits stmt_fault.splits)
next
  case (Some y)
  obtain r b where y: "y = (r, b)" by (cases y)
  obtain cs where "b = commits cs (wb_acc x)" using assms Some y by blast
  then have "via_commits x (x\<lparr>wb_acc := b\<rparr>)" by (auto simp: via_commits_def)
  then show ?thesis
    using Some y by (auto simp: stmt_apply_def acct.R_refl split: option.splits stmt_fault.splits)
qed

lemma via_stmt:
  assumes "\<And>now i a r b. f now i a = Some (r, b) \<Longrightarrow> \<exists>cs. b = commits cs a"
  shows "steps via_commits (stmt E f)"
  unfolding steps_def stmt_def
proof
  fix x
  have "via_commits x (others_commit E x)" by (auto simp: via_commits_def others_commit_def)
  moreover have "via_commits (others_commit E x) (snd (stmt_apply E (wb_tick x) f (others_commit E x)))"
    by (rule stmt_apply_acc) (rule assms)
  ultimately show "via_commits x (snd (stmt_apply E (wb_tick x) f (others_commit E x)))"
    by (rule acct.R_trans)
qed

lemma via_query: "steps via_commits (query E g)"
  unfolding query_def by (rule via_stmt) (auto simp: commits_def intro: exI [of _ "[]"])

lemma via_commit_tx:
  assumes "\<And>x b. P x \<Longrightarrow> f (wb_acc x) = Some b \<Longrightarrow> \<exists>cs. b = commits cs (wb_acc x)"
  shows "steps_from P via_commits (commit_tx E f)"
  unfolding steps_from_def commit_tx_def
proof (intro allI impI)
  fix x
  assume "P x"
  then have "via_commits (x\<lparr>wb_tick := Suc (wb_tick x)\<rparr>) (snd (stmt_apply E (wb_tick x) (\<lambda>now i a. map_option (Pair ()) (f a)) (x\<lparr>wb_tick := Suc (wb_tick x)\<rparr>)))"
    using assms by (intro stmt_apply_acc) auto
  then show "via_commits x (snd (stmt_apply E (wb_tick x) (\<lambda>now i a. map_option (Pair ()) (f a)) (x\<lparr>wb_tick := Suc (wb_tick x)\<rparr>)))"
    by (simp add: via_commits_def)
qed

lemma via_deny: "steps via_commits m \<Longrightarrow> steps via_commits (or_deny m e)"
  unfolding or_deny_def by (intro acct.steps_rules)

lemma via_missing: "steps via_commits m \<Longrightarrow> steps via_commits (or_missing m e)"
  unfolding or_missing_def by (intro acct.steps_rules via_deny)

lemma via_modify: "(\<And>x. wb_acc (f x) = wb_acc x) \<Longrightarrow> steps via_commits (modify f)"
  by (simp add: steps_def modify_def via_commits_same)

lemma via_random: "steps via_commits (RandomToken E)"
  unfolding RandomToken_def by (intro acct.steps_rules)

lemma via_get: "steps via_commits get_state"
  by (simp add: steps_def get_state_def acct.R_refl)

lemma via_new_key: "steps via_commits (NewAPIKey E p)"
  unfolding NewAPIKey_def Let_def by (intro acct.steps_rules via_random)

lemma via_mail: "steps via_commits (deliverVerificationEmail E to n t)" "steps via_commits (deliverAPIKeyEmail E to n k)"
  unfolding deliverVerificationEmail_def deliverAPIKeyEmail_def Let_def by (rule via_modify, simp)+

lemma via_prod: "(\<And>a b. x = (a, b) \<Longrightarrow> steps via_commits (f a b)) \<Longrightarrow> steps via_commits (case x of (a, b) \<Rightarrow> f a b)"
  by (cases x) simp

lemmas via_rules = acct.steps_rules via_get via_query via_deny via_missing via_random via_new_key via_mail via_prod

lemma via_gate: "steps via_commits (pathAwareAuth E r)"
proof -
  have "steps via_commits (RequireAPIKey E r)"
    unfolding RequireAPIKey_def Let_def
    by (intro via_rules via_stmt)
       (auto simp: commits_one dest!: sym [of "_\<lparr>ac_keys := _\<rparr>"] intro!: exI [of _ "[CTouch _ _]"])
  moreover have "steps via_commits (EnforceRateLimit E cx)" for cx
    unfolding EnforceRateLimit_def by (intro via_rules via_modify) simp_all
  moreover have "steps via_commits (RequirePortalSession E r)"
    unfolding RequirePortalSession_def Let_def by (intro via_rules)
  moreover have "steps via_commits (RequireAdmin E r)"
    unfolding RequireAdmin_def by (intro via_rules)
  ultimately show ?thesis
    unfolding pathAwareAuth_def Let_def by (intro via_rules)
qed

lemma commit_exists: "b = publish c a \<Longrightarrow> \<exists>cs. b = commits cs a"
  by (metis commits_one)

lemma via_signup: "steps via_commits (waitlist_signup E name email)"
  unfolding waitlist_signup_def Let_def
proof (intro via_rules via_stmt via_modify)
  show "\<exists>cs. b = commits cs a"
    if "map_option (\<lambda>(r, t). (r, a\<lparr>ac_waitlist := t\<rparr>)) (WaitlistInsert i now name email ip h e (ac_waitlist a)) = Some (r, b)"
    for now i a r b ip h e
    using that by (intro commit_exists [of _ "CSignup i now name email ip h e"]) (auto simp: or_same_def)
qed simp_all

lemma via_verify: "steps via_commits (waitlist_verify E token)"
  unfolding waitlist_verify_def Let_def
proof (intro via_rules via_stmt)
  show "\<exists>cs. b = commits cs a"
    if "(case ConsumeVerificationToken now h (ac_waitlist a) of (r, t) \<Rightarrow> Some (r, a\<lparr>ac_waitlist := t\<rparr>)) = Some (r, b)"
    for now a r b h
    using that by (intro commit_exists [of _ "CConsume now h"]) (auto split: prod.splits)
qed

lemma via_login: "steps via_commits (portal_login E key)"
  unfolding portal_login_def Let_def
proof (intro via_rules via_stmt)
  show "\<exists>cs. b = commits cs a" if "SessionInsert i now kid h e a = Some (r, b)" for now i a r b kid h e
    using that by (intro commit_exists [of _ "CLogin i now kid h e"]) (simp add: or_same_def)
qed

lemma via_logout: "steps via_commits (portal_logout E cx)"
  unfolding portal_logout_def
proof (intro via_rules via_stmt)
  show "\<exists>cs. b = commits cs a" if "Some ((), a\<lparr>ac_sessions := SessionRevoke now h (ac_sessions a)\<rparr>) = Some (r, b)"
    for now a r b h
    using that by (intro commit_exists [of _ "CEndSession now h"]) simp
qed

lemma via_the_waitlist: "steps via_commits (the_waitlist cx)"
  unfolding the_waitlist_def by (intro via_rules)

lemma via_revoke: "steps via_commits (portal_revoke_key E cx i)"
  unfolding portal_revoke_key_def
proof (intro via_rules via_stmt via_the_waitlist)
  show "\<exists>cs. b = commits cs a" if "Some ((), a\<lparr>ac_keys := KeyRevoke now i wid (ac_keys a)\<rparr>) = Some (r, b)"
    for now a r b wid
    using that by (intro commit_exists [of _ "CRevokeKey now i wid"]) simp
qed

lemma via_reject: "steps via_commits (admin_reject E i)"
  unfolding admin_reject_def
proof (intro via_rules via_stmt)
  show "\<exists>cs. b = commits cs a" if "Some ((), a\<lparr>ac_waitlist := MarkRejected now i who (ac_waitlist a)\<rparr>) = Some (r, b)"
    for now a r b who
    using that by (intro commit_exists [of _ "CReject now i who"]) simp
qed

lemma via_resend: "steps via_commits (admin_resend E i)"
  unfolding admin_resend_def Let_def
proof (intro via_rules via_stmt)
  show "\<exists>cs. b = commits cs a"
    if "map_option (\<lambda>t. ((), a\<lparr>ac_waitlist := t\<rparr>)) (ResetVerificationToken j h e (ac_waitlist a)) = Some (r, b)"
    for a r b j h e
    using that by (intro commit_exists [of _ "CReset j h e"]) (auto simp: or_same_def)
qed

text \<open>The statements of a transaction publish nothing before its commit.\<close>

lemma via_insert_key_tx: "steps via_commits (insert_key_tx E began wid label pre hash)"
  unfolding insert_key_tx_def by (intro via_stmt) (auto simp: commits_def intro: exI [of _ "[]"])

lemma via_mark_approved_tx: "steps via_commits (mark_approved_tx E began i who)"
  unfolding mark_approved_tx_def by (intro via_stmt) (auto simp: commits_def intro: exI [of _ "[]"])

lemma via_approve: "steps via_commits (admin_approve E i)"
proof -
  have commit: "steps via_commits (commit_tx E (approve_tx began j who k))" for began j who k
  proof -
    have "steps_from (\<lambda>_. True) via_commits (commit_tx E (approve_tx began j who k))"
      by (rule via_commit_tx) (auto simp: or_same_def intro: commit_exists [of _ "CApprove began j who k"])
    then show ?thesis by (simp add: steps_from_def steps_def)
  qed
  show ?thesis
    unfolding admin_approve_def begin_tx_def
    by (intro via_rules commit via_insert_key_tx via_mark_approved_tx)
qed

section \<open>What a gate has seen\<close>

lemma stable_owns: "stable (owns_key i)"
proof -
  have "owns_key i b" if "acct_le a b" "owns_key i a" for a b
    using that by (auto simp: acct_le_def covers_def ak_le_def owns_key_def list_ex_iff)
  with commits_le show ?thesis unfolding stable_def by blast
qed

lemma triple_query:
  assumes "stable p" and "\<And>now a. p a \<Longrightarrow> Q (g now a) a"
  shows "triple (\<lambda>x. p (wb_acc x)) (query E g) (\<lambda>r x. p (wb_acc x) \<and> Q r (wb_acc x)) (\<lambda>_ _. True)"
  using assms
  by (auto simp: triple_def query_def stmt_def stmt_apply_def others_commit_def stableD
      split: option.splits stmt_fault.splits)

lemma after_deny: "after P m Q \<Longrightarrow> after P (or_deny m e) Q"
  unfolding or_deny_def
  by (rule triple_bind [OF triple_attempt, where M = "\<lambda>r x. case r of Inl _ \<Rightarrow> True | Inr v \<Rightarrow> Q v x"])
    (auto simp: triple_def ret_def throw_def split: prod.splits sum.splits)

lemma after_missing: "after P m (\<lambda>r x. \<forall>v. r = Some v \<longrightarrow> Q v x) \<Longrightarrow> after P (or_missing m e) Q"
  unfolding or_missing_def
  by (rule triple_bind [OF after_deny]) (auto simp: triple_def ret_def throw_def split: option.splits)

lemma after_stable:
  assumes "steps via_commits m" and "stable p"
  shows "after (\<lambda>x. p (wb_acc x)) m (\<lambda>_ x. p (wb_acc x))"
  using assms unfolding triple_def steps_def via_commits_def stable_def
  by (auto split: prod.splits sum.splits) (metis snd_conv)+

lemma from_seq:
  assumes "steps via_commits m" and "stable p" and "\<And>v. steps_from (\<lambda>x. p (wb_acc x)) via_commits (k v)"
  shows "steps_from (\<lambda>x. p (wb_acc x)) via_commits (bindE m k)"
  by (rule acct.from_bind [OF acct.from_steps [OF assms(1)] after_stable [OF assms(1,2)] assms(3)])

lemma after_insert_key_tx:
  assumes "stable p"
  shows "after (\<lambda>x. p (wb_acc x)) (insert_key_tx E began wid label pre hash) (\<lambda>k x. p (wb_acc x) \<and> ak_WaitlistID k = wid)"
  using assms
  by (auto simp: triple_def insert_key_tx_def stmt_def stmt_apply_def others_commit_def stableD KeyInsert_def fresh_key_def Let_def
      split: option.splits stmt_fault.splits if_splits)

definition gate_seen :: "reqctx \<Rightarrow> accounts \<Rightarrow> bool" where
  "gate_seen cx a \<longleftrightarrow> (\<forall>w. cx_Waitlist cx = Some w \<longrightarrow> owns_key (wl_ID w) a)"

lemma via_mint: "steps_from (\<lambda>x. gate_seen cx (wb_acc x)) via_commits (portal_mint_key E cx label)"
proof (cases "cx_Waitlist cx")
  case None
  then show ?thesis
    by (simp add: portal_mint_key_def the_waitlist_def bindE_def throw_def steps_from_def acct.R_refl)
next
  case (Some w)
  let ?p = "owns_key (wl_ID w)"
  have commit: "steps_from (\<lambda>x. ?p (wb_acc x) \<and> ak_WaitlistID k = wl_ID w) via_commits (or_deny (commit_tx E (add_key k)) e)" for k e
  proof -
    have "steps_from (\<lambda>x. ?p (wb_acc x) \<and> ak_WaitlistID k = wl_ID w) via_commits (commit_tx E (add_key k))"
      by (rule via_commit_tx) (auto simp: or_same_def intro: commit_exists [of _ "CMint k"])
    then show ?thesis
      by (auto simp: steps_from_def or_deny_def attempt_def bindE_def throw_def ret_def split: prod.splits sum.splits)
  qed
  have tail: "steps_from (\<lambda>x. ?p (wb_acc x) \<and> ak_WaitlistID k = wl_ID w) via_commits
      (bindE (or_deny (commit_tx E (add_key k)) e) (\<lambda>_. ret r))" for k e r
    by (rule acct.from_bind [OF commit, where Q = "\<lambda>_ _. True"]) (auto simp: triple_def steps_from_def ret_def acct.R_refl split: prod.splits sum.splits)
  have insert: "steps_from (\<lambda>x. ?p (wb_acc x)) via_commits
      (bindE (or_deny (insert_key_tx E began (wl_ID w) label pre hash) e1) (\<lambda>k. bindE (or_deny (commit_tx E (add_key k)) e2) (\<lambda>_. ret (r k))))"
    for began pre hash e1 e2 and r :: "APIKey \<Rightarrow> string \<times> APIKeyView"
    by (rule acct.from_bind [OF acct.from_steps after_deny [OF after_insert_key_tx] tail])
      (rule via_deny via_insert_key_tx stable_owns)+
  have "steps_from (\<lambda>x. ?p (wb_acc x)) via_commits
     (bindE (or_deny (NewAPIKey E (APIKeyHashPepper (wCfg E))) (ISE ''key mint failed'')) (\<lambda>(key, pre, hash).
      bindE (or_deny (begin_tx E) (ISE ''tx begin'')) (\<lambda>began.
      bindE (or_deny (insert_key_tx E began (wl_ID w) label pre hash) (ISE ''api key insert'')) (\<lambda>k.
      bindE (or_deny (commit_tx E (add_key k)) (ISE ''tx commit'')) (\<lambda>_.
      ret (key, \<lparr>kv_ID = ak_ID k, kv_Label = label, kv_KeyPrefix = ak_KeyPrefix k, kv_CreatedAt = ak_CreatedAt k,
                kv_LastUsedAt = None, kv_RevokedAt = None\<rparr>))))))"
    unfolding begin_tx_def split_def
    by (rule from_seq [OF via_deny [OF via_new_key] stable_owns], rule from_seq [OF via_deny [OF via_query] stable_owns], rule insert)
  then show ?thesis
    using Some by (simp add: portal_mint_key_def the_waitlist_def bindE_def ret_def gate_seen_def cong: option.case_cong)
qed

lemma via_handle: "steps_from (\<lambda>x. gate_seen cx (wb_acc x)) via_commits (handle E cx rt)"
proof (cases rt)
  case (MintKey label)
  show ?thesis
    unfolding MintKey handle.simps
    by (rule acct.from_bind [OF via_mint, where Q = "\<lambda>_ _. True"])
      (auto simp: triple_def steps_from_def ret_def acct.R_refl split: prod.splits sum.splits)
next
  case Account
  show ?thesis
    unfolding Account handle.simps portal_account_def by (intro acct.from_steps via_rules)
next
  case ListKeys
  show ?thesis
    unfolding ListKeys handle.simps portal_list_keys_def by (intro acct.from_steps via_rules via_the_waitlist)
qed (simp_all only: handle.simps, (intro acct.from_steps via_rules via_signup via_verify via_login via_logout via_revoke via_reject
    via_resend via_approve)+)

section \<open>Serving requests\<close>

lemma stable_True: "stable (\<lambda>_. True)"
  by (simp add: stable_def)

text \<open>What a row look-up establishes: a fact that held before, and what the row read shows.\<close>

lemma after_found:
  assumes "stable p" and "\<And>now a v. p a \<Longrightarrow> g now a = Some v \<Longrightarrow> Q v a"
  shows "after (\<lambda>x. p (wb_acc x)) (or_missing (query E g) e) (\<lambda>v x. p (wb_acc x) \<and> Q v (wb_acc x))"
proof (rule after_missing)
  have "triple (\<lambda>x. p (wb_acc x)) (query E g) (\<lambda>r x. p (wb_acc x) \<and> (\<forall>v. r = Some v \<longrightarrow> Q v (wb_acc x))) (\<lambda>_ _. True)"
    by (rule triple_query [OF assms(1), where Q = "\<lambda>r a. \<forall>v. r = Some v \<longrightarrow> Q v a"]) (simp add: assms(2))
  then show "after (\<lambda>x. p (wb_acc x)) (query E g) (\<lambda>r x. \<forall>v. r = Some v \<longrightarrow> p (wb_acc x) \<and> Q v (wb_acc x))"
    by (rule triple_post) auto
qed

lemma after_pure: "(F \<Longrightarrow> after P m Q) \<Longrightarrow> after (\<lambda>x. P x \<and> F) m Q"
  by (cases F) (simp_all add: triple_def)

lemma after_key_query:
  assumes "\<And>now a k. g now a = Some k \<Longrightarrow> k \<in> set (ac_keys a)"
  shows "after (\<lambda>_. True) (or_missing (query E g) e) (\<lambda>k x. owns_key (ak_WaitlistID k) (wb_acc x))"
  using assms by (intro triple_post [OF after_found [OF stable_True, where Q = "\<lambda>k a. owns_key (ak_WaitlistID k) a"]])
    (auto simp: owns_key_iff)

lemma after_waitlist_query:
  "after (\<lambda>x. owns_key i (wb_acc x)) (or_missing (query E (\<lambda>_ a. WaitlistGetByID i (ac_waitlist a))) e)
     (\<lambda>w x. owns_key i (wb_acc x) \<and> wl_ID w = i)"
  by (rule after_found [OF stable_owns]) (auto simp: WaitlistGetByID_def dest: row_by_SomeD)

lemma after_any: "after P m (\<lambda>_ _. True)"
  by (simp add: triple_def split: prod.splits sum.splits)

lemma after_ret: "(\<And>x. P x \<Longrightarrow> Q v x) \<Longrightarrow> after P (ret v) Q"
  by (rule triple_ret)

lemma after_throw: "after P (throw e) Q"
  by (simp add: triple_def throw_def)

lemma after_portal: "after (\<lambda>_. True) (RequirePortalSession E r) (\<lambda>cx x. gate_seen cx (wb_acc x))"
proof -
  have "after (\<lambda>_. True) (bindE (or_missing (query E (\<lambda>_ a. getAPIKeyByID i (ac_keys a))) no) (\<lambda>k.
      bindE (or_missing (query E (\<lambda>_ a. WaitlistGetByID (ak_WaitlistID k) (ac_waitlist a))) no) (\<lambda>w.
      ret \<lparr>cx_APIKey = Some k, cx_Waitlist = Some w, cx_Session = Some s\<rparr>))) (\<lambda>cx x. gate_seen cx (wb_acc x))" for i no s
    by (rule triple_bind [OF after_key_query], simp add: getAPIKeyByID_def, blast dest: find_SomeD,
        rule triple_bind [OF after_waitlist_query], rule after_ret, simp add: gate_seen_def)
  then show ?thesis
    unfolding RequirePortalSession_def Let_def
    by (intro triple_option triple_if after_throw) (rule triple_bind [OF after_any], assumption)
qed

lemma via_touch: "steps via_commits (stmt E (\<lambda>now i a. Some ((), a\<lparr>ac_keys := TouchLastUsed now j (ac_keys a)\<rparr>)))"
  by (rule via_stmt) (auto intro: commit_exists [of _ "CTouch _ j"])

lemma after_api: "after (\<lambda>_. True) (RequireAPIKey E r) (\<lambda>cx x. gate_seen cx (wb_acc x))"
proof -
  have touch: "after (\<lambda>x. owns_key i (wb_acc x) \<and> wl_ID w = i)
      (bindE (attempt (stmt E (\<lambda>now j a. Some ((), a\<lparr>ac_keys := TouchLastUsed now (ak_ID k) (ac_keys a)\<rparr>))))
        (\<lambda>_. ret \<lparr>cx_APIKey = Some k, cx_Waitlist = Some w, cx_Session = None\<rparr>)) (\<lambda>cx x. gate_seen cx (wb_acc x))" for i w k
  proof (cases "wl_ID w = i")
    case True
    then show ?thesis
      by (simp, intro triple_bind [OF after_stable [OF acct.steps_attempt [OF via_touch] stable_owns]] after_ret)
        (simp add: gate_seen_def)
  qed (simp add: triple_def)
  show ?thesis
    unfolding RequireAPIKey_def Let_def
    by (intro triple_if after_throw, rule triple_bind [OF after_key_query], simp add: KeyGetByHash_def, blast dest: find_SomeD,
        rule triple_bind [OF after_waitlist_query], intro triple_if after_throw touch)
qed

lemma after_gate: "after (\<lambda>_. True) (pathAwareAuth E r) (\<lambda>cx x. gate_seen cx (wb_acc x))"
proof -
  have rate: "after (\<lambda>x. gate_seen cx (wb_acc x)) (EnforceRateLimit E cx) (\<lambda>cx x. gate_seen cx (wb_acc x))" for cx
    by (auto simp: triple_def EnforceRateLimit_def bindE_def get_state_def modify_def ret_def throw_def
        split: option.splits prod.splits)
  have "after (\<lambda>_. True) (RequireAdmin E r) (\<lambda>cx x. gate_seen cx (wb_acc x))"
    by (auto simp: triple_def RequireAdmin_def throw_def ret_def gate_seen_def no_ctx_def)
  with rate after_portal after_api show ?thesis
    unfolding pathAwareAuth_def Let_def
    by (intro triple_if triple_bind [OF after_api] after_ret) (simp_all add: gate_seen_def no_ctx_def)
qed

lemma via_serve: "steps via_commits (serve E r rt)"
proof -
  have "steps_from (\<lambda>_. True) via_commits (serve E r rt)"
    unfolding serve_def
    by (rule acct.from_bind [OF acct.from_steps [OF via_gate] after_gate via_handle])
  then show ?thesis by (simp add: steps_from_def steps_def)
qed

text \<open>The states of a gateway that started on empty tables and served requests, each in its own
  environment of other requests and failures.\<close>

definition no_accounts :: accounts where
  "no_accounts = \<lparr>ac_waitlist = [], ac_keys = [], ac_sessions = []\<rparr>"

inductive web_reachable :: "webstate \<Rightarrow> bool" where
  start: "wb_acc x = no_accounts \<Longrightarrow> web_reachable x"
| request: "web_reachable x \<Longrightarrow> web_reachable (snd (serve E r rt x))"

lemma reachable_acct_inv: "web_reachable x \<Longrightarrow> acct_inv (wb_acc x)"
proof (induction rule: web_reachable.induct)
  case (start x)
  then show ?case by (simp add: no_accounts_def acct_inv_def phases_def token_unique_def)
next
  case (request x E r rt)
  then show ?case using stepsD [OF via_serve, of x E r rt] by (auto simp: via_commits_def commits_inv)
qed


section \<open>Properties\<close>

text \<open>C20: the account tables stay consistent under any interleaving of requests. From empty tables, after
  any sequence of sign-ups, verifications, logins, key and session changes and administrator decisions,
  with other requests committing between any two statements and statements failing before or after
  they took effect: ids, emails and pending verification tokens are unique, every API key belongs to an
  approved account, and every session to an existing key.\<close>

theorem accounts_consistent:
  assumes "web_reachable x"
  shows "acct_inv (wb_acc x)"
  using assms by (rule reachable_acct_inv)


lemma stable_inv: "stable acct_inv"
  by (simp add: stable_def commits_inv)

lemma stable_conj: "stable p \<Longrightarrow> stable q \<Longrightarrow> stable (\<lambda>a. p a \<and> q a)"
  by (simp add: stable_def)

lemma owner_approved:
  assumes "acct_inv a \<and> owns_key i a" and "WaitlistGetByID i (ac_waitlist a) = Some w"
  shows "wl_ID w = i \<and> wl_Status w = WaitlistApproved"
proof -
  have "(i, WaitlistApproved) \<in> set (phases (ac_waitlist a))"
    using assms(1) owned_approved by blast
  moreover have d: "distinct (map wl_ID (ac_waitlist a))"
    using assms(1) by (simp add: acct_inv_def)
  ultimately obtain v where v: "v \<in> set (ac_waitlist a)" "wl_ID v = i" "wl_Status v = WaitlistApproved"
    by (auto simp: phases_def)
  with row_by_distinct [OF d v(1)] assms(2) show ?thesis by (simp add: WaitlistGetByID_def)
qed

text \<open>A portal session is always an approved customer's. When the session gate admits a request in a
  reachable state, the context holds an unrevoked session under the hash of the presented cookie, an
  unrevoked key of that session and the account of that key, and the account is approved, although the
  gate itself never looks at the account's status.\<close>

theorem portal_session_approved:
  assumes "web_reachable x" and "RequirePortalSession E r x = (Inr cx, y)"
  shows "\<exists>c s k w. cx = \<lparr>cx_APIKey = Some k, cx_Waitlist = Some w, cx_Session = Some s\<rparr> \<and>
    rq_SessionCookie r = Some c \<and> us_SessionHash s = HashWithPepper E c (IPHashPepper (wCfg E)) \<and>
    us_RevokedAt s = None \<and> us_APIKeyID s = ak_ID k \<and> ak_RevokedAt k = None \<and>
    ak_WaitlistID k = wl_ID w \<and> wl_Status w = WaitlistApproved" (is "?good cx")
proof -
  let ?inv = "\<lambda>x. acct_inv (wb_acc x)"
  have key: "after ?inv (bindE (or_missing (query E (\<lambda>_ a. getAPIKeyByID (us_APIKeyID s) (ac_keys a))) no) (\<lambda>k.
      bindE (or_missing (query E (\<lambda>_ a. WaitlistGetByID (ak_WaitlistID k) (ac_waitlist a))) no) (\<lambda>w.
      ret \<lparr>cx_APIKey = Some k, cx_Waitlist = Some w, cx_Session = Some s\<rparr>))) (\<lambda>cx x. ?good cx)"
    if "rq_SessionCookie r = Some c" "us_SessionHash s = HashWithPepper E c (IPHashPepper (wCfg E)) \<and> us_RevokedAt s = None" for c s no
  proof (rule triple_bind [OF after_found [OF stable_inv, where Q = "\<lambda>k a. owns_key (ak_WaitlistID k) a \<and>
        us_APIKeyID s = ak_ID k \<and> ak_RevokedAt k = None"]])
    show "owns_key (ak_WaitlistID k) a \<and> us_APIKeyID s = ak_ID k \<and> ak_RevokedAt k = None"
      if "getAPIKeyByID (us_APIKeyID s) (ac_keys a) = Some k" for a k
      using find_SomeD [OF that [unfolded getAPIKeyByID_def]] by (auto simp: owns_key_iff)
    fix k
    show "after (\<lambda>x. ?inv x \<and> owns_key (ak_WaitlistID k) (wb_acc x) \<and> us_APIKeyID s = ak_ID k \<and> ak_RevokedAt k = None)
      (bindE (or_missing (query E (\<lambda>_ a. WaitlistGetByID (ak_WaitlistID k) (ac_waitlist a))) no) (\<lambda>w.
      ret \<lparr>cx_APIKey = Some k, cx_Waitlist = Some w, cx_Session = Some s\<rparr>)) (\<lambda>cx x. ?good cx)"
      unfolding conj_assoc [symmetric]
      by (intro after_pure, rule triple_bind [OF after_found [OF stable_conj [OF stable_inv stable_owns],
            where Q = "\<lambda>w a. wl_ID w = ak_WaitlistID k \<and> wl_Status w = WaitlistApproved"]], erule (1) owner_approved,
          rule after_ret) (use that in auto)
  qed
  have "after ?inv (RequirePortalSession E r) (\<lambda>cx x. ?good cx)"
    unfolding RequirePortalSession_def Let_def
  proof (intro triple_option triple_if after_throw)
    fix c
    assume c: "rq_SessionCookie r = Some c"
    show "after ?inv (bindE (or_missing (query E (\<lambda>now a. SessionGetByHash now (HashWithPepper E c (IPHashPepper (wCfg E))) (ac_sessions a)))
        (Denied 401 ''not_authenticated'' True)) (\<lambda>s.
      bindE (or_missing (query E (\<lambda>_ a. getAPIKeyByID (us_APIKeyID s) (ac_keys a))) (Denied 401 ''not_authenticated'' True)) (\<lambda>k.
      bindE (or_missing (query E (\<lambda>_ a. WaitlistGetByID (ak_WaitlistID k) (ac_waitlist a))) (Denied 401 ''not_authenticated'' True)) (\<lambda>w.
      ret \<lparr>cx_APIKey = Some k, cx_Waitlist = Some w, cx_Session = Some s\<rparr>)))) (\<lambda>cx x. ?good cx)"
      by (rule triple_bind [OF after_found [OF stable_inv, where Q = "\<lambda>s _. us_SessionHash s = HashWithPepper E c (IPHashPepper (wCfg E)) \<and> us_RevokedAt s = None"]],
          auto simp: SessionGetByHash_def dest!: find_SomeD) [] (intro after_pure key [OF c])
  qed
  from tripleD_ok [OF this _ assms(2)] reachable_acct_inv [OF assms(1)] show ?thesis by simp
qed

text \<open>The customer API is open only to unrevoked keys of approved accounts. A request under
  \<^verbatim>\<open>/api/v1/\<close> that passes authentication and rate limit presented a bearer token whose hash an
  unrevoked key carries, and that key's account was approved when it was read.\<close>

theorem v1_requires_approved_key:
  assumes "HasPrefix (rq_Path r) ''/api/v1/''" and "pathAwareAuth E r x = (Inr cx, y)"
  shows "\<exists>k w. cx = \<lparr>cx_APIKey = Some k, cx_Waitlist = Some w, cx_Session = None\<rparr> \<and> ExtractBearer r \<noteq> '''' \<and>
    ak_KeyHash k = HashWithPepper E (ExtractBearer r) (APIKeyHashPepper (wCfg E)) \<and> ak_RevokedAt k = None \<and>
    wl_ID w = ak_WaitlistID k \<and> wl_Status w = WaitlistApproved" (is "?good cx")
proof -
  have "after (\<lambda>_. True) (RequireAPIKey E r) (\<lambda>cx x. ?good cx)"
    unfolding RequireAPIKey_def Let_def
  proof (intro triple_if after_throw)
    assume b: "ExtractBearer r \<noteq> ''''"
    let ?hash = "HashWithPepper E (ExtractBearer r) (APIKeyHashPepper (wCfg E))"
    have rest: "after (\<lambda>_. True) (bindE (or_missing (query E (\<lambda>_ a. WaitlistGetByID (ak_WaitlistID k) (ac_waitlist a))) (Denied 403 ''key_not_approved'' False)) (\<lambda>w.
        if wl_Status w \<noteq> WaitlistApproved then throw (Denied 403 ''key_not_approved'' False)
        else bindE (attempt (stmt E (\<lambda>now i a. Some ((), a\<lparr>ac_keys := TouchLastUsed now (ak_ID k) (ac_keys a)\<rparr>)))) (\<lambda>_.
          ret \<lparr>cx_APIKey = Some k, cx_Waitlist = Some w, cx_Session = None\<rparr>))) (\<lambda>cx x. ?good cx)"
      if "ak_KeyHash k = ?hash \<and> ak_RevokedAt k = None" for k
      by (rule triple_bind [OF after_found [OF stable_True, where Q = "\<lambda>w _. wl_ID w = ak_WaitlistID k"]],
          simp add: WaitlistGetByID_def, blast dest: row_by_SomeD)
         (intro after_pure triple_if after_throw triple_bind [OF after_any] after_ret, use that b in auto)
    show "after (\<lambda>_. True) (bindE (or_missing (query E (\<lambda>_ a. KeyGetByHash ?hash (ac_keys a))) writeAuthError) (\<lambda>k.
        bindE (or_missing (query E (\<lambda>_ a. WaitlistGetByID (ak_WaitlistID k) (ac_waitlist a))) (Denied 403 ''key_not_approved'' False)) (\<lambda>w.
        if wl_Status w \<noteq> WaitlistApproved then throw (Denied 403 ''key_not_approved'' False)
        else bindE (attempt (stmt E (\<lambda>now i a. Some ((), a\<lparr>ac_keys := TouchLastUsed now (ak_ID k) (ac_keys a)\<rparr>)))) (\<lambda>_.
          ret \<lparr>cx_APIKey = Some k, cx_Waitlist = Some w, cx_Session = None\<rparr>)))) (\<lambda>cx x. ?good cx)"
      by (rule triple_bind [OF after_found [OF stable_True, where Q = "\<lambda>k _. ak_KeyHash k = ?hash \<and> ak_RevokedAt k = None"]],
          simp add: KeyGetByHash_def, blast dest: find_SomeD) (rule after_pure, rule rest)
  qed
  moreover have "after (\<lambda>_. ?good cx) (EnforceRateLimit E cx) (\<lambda>cx x. ?good cx)" for cx
    by (auto simp: triple_def EnforceRateLimit_def bindE_def get_state_def modify_def ret_def throw_def
        split: option.splits prod.splits)
  ultimately have "after (\<lambda>_. True) (bindE (RequireAPIKey E r) (EnforceRateLimit E)) (\<lambda>cx x. ?good cx)"
    by (rule triple_bind)
  then have "after (\<lambda>_. True) (pathAwareAuth E r) (\<lambda>cx x. ?good cx)"
    using assms(1) unfolding pathAwareAuth_def Let_def by simp
  from tripleD_ok [OF this _ assms(2)] show ?thesis by simp
qed

definition revoked_key :: "uuid \<Rightarrow> accounts \<Rightarrow> bool" where
  "revoked_key i a \<longleftrightarrow> (\<exists>k \<in> set (ac_keys a). ak_ID k = i \<and> ak_RevokedAt k \<noteq> None)"

lemma stable_revoked: "stable (revoked_key i)"
proof -
  have "revoked_key i b" if le: "acct_le a b" and r: "revoked_key i a" for a b
  proof -
    obtain k where k: "k \<in> set (ac_keys a)" "ak_ID k = i" "ak_RevokedAt k \<noteq> None" using r by (auto simp: revoked_key_def)
    then obtain l where "l \<in> set (ac_keys b)" "ak_le k l" using le by (auto simp: acct_le_def covers_def)
    with k show ?thesis by (auto simp: revoked_key_def ak_le_def)
  qed
  with commits_le show ?thesis unfolding stable_def by blast
qed

lemma revoked_not_found:
  assumes "acct_inv a \<and> revoked_key i a" and "find (\<lambda>k. p k \<and> ak_RevokedAt k = None) (ac_keys a) = Some k"
  shows "ak_ID k \<noteq> i"
proof
  assume "ak_ID k = i"
  obtain l where l: "l \<in> set (ac_keys a)" "ak_ID l = i" "ak_RevokedAt l \<noteq> None" using assms(1) by (auto simp: revoked_key_def)
  have d: "distinct (map ak_ID (ac_keys a))" using assms(1) by (simp add: acct_inv_def)
  have "k \<in> set (ac_keys a)" and "ak_RevokedAt k = None" using find_SomeD [OF assms(2)] by simp_all
  with row_by_distinct [OF d, of k] row_by_distinct [OF d l(1)] l \<open>ak_ID k = i\<close> show False by simp
qed

text \<open>A revoked key stays locked out. Once a key is revoked, no request in a reachable state passes
  any gate with that key, whether by bearer token or through a portal session opened earlier with it,
  and it is still revoked after every further request.\<close>

theorem revoked_key_locked_out:
  assumes "web_reachable x" and "revoked_key i (wb_acc x)"
  shows "revoked_key i (wb_acc (snd (serve E r rt x))) \<and>
    (\<forall>cx y k. pathAwareAuth E r x = (Inr cx, y) \<longrightarrow> cx_APIKey cx = Some k \<longrightarrow> ak_ID k \<noteq> i)"
proof
  obtain cs where "wb_acc (snd (serve E r rt x)) = commits cs (wb_acc x)"
    using stepsD [OF via_serve, of x E r rt] unfolding via_commits_def by blast
  then show "revoked_key i (wb_acc (snd (serve E r rt x)))" using stableD [OF stable_revoked assms(2)] by simp
  let ?p = "\<lambda>a. acct_inv a \<and> revoked_key i a" and ?post = "\<lambda>cx. \<forall>k. cx_APIKey cx = Some k \<longrightarrow> ak_ID k \<noteq> i"
  note p = stable_conj [OF stable_inv stable_revoked [of i]]
  note rest = after_pure triple_bind [OF after_any] triple_if triple_option after_throw after_ret
  have api: "after (\<lambda>x. ?p (wb_acc x)) (RequireAPIKey E r) (\<lambda>cx x. ?post cx)"
    unfolding RequireAPIKey_def Let_def
    by (intro triple_if after_throw, rule triple_bind [OF after_found [OF p, where Q = "\<lambda>k _. ak_ID k \<noteq> i"]],
        simp only: KeyGetByHash_def, erule (1) revoked_not_found) (intro rest, simp)
  have key: "after (\<lambda>x. ?p (wb_acc x)) (bindE (or_missing (query E (\<lambda>_ a. getAPIKeyByID j (ac_keys a))) no) f) (\<lambda>cx x. ?post cx)"
    if "\<And>k. ak_ID k \<noteq> i \<Longrightarrow> after (\<lambda>x. ?p (wb_acc x)) (f k) (\<lambda>cx x. ?post cx)" for j no f
    by (rule triple_bind [OF after_found [OF p, where Q = "\<lambda>k _. ak_ID k \<noteq> i"]],
        simp only: getAPIKeyByID_def, erule (1) revoked_not_found) (rule after_pure, erule that)
  have portal: "after (\<lambda>x. ?p (wb_acc x)) (RequirePortalSession E r) (\<lambda>cx x. ?post cx)"
    unfolding RequirePortalSession_def Let_def
    by (intro triple_option triple_if after_throw, rule triple_bind [OF after_found [OF p, where Q = "\<lambda>_ _. True"]], simp)
       (rule after_pure, rule key, intro rest, simp)
  have rate: "after (\<lambda>_. ?post cx) (EnforceRateLimit E cx) (\<lambda>cx x. ?post cx)" for cx
    by (auto simp: triple_def EnforceRateLimit_def bindE_def get_state_def modify_def ret_def throw_def
        split: option.splits prod.splits)
  have admin: "after P (RequireAdmin E r) (\<lambda>cx x. ?post cx)" for P
    by (auto simp: triple_def RequireAdmin_def throw_def ret_def no_ctx_def)
  have "after (\<lambda>x. ?p (wb_acc x)) (pathAwareAuth E r) (\<lambda>cx x. ?post cx)"
    unfolding pathAwareAuth_def Let_def
    by (intro triple_if triple_bind [OF api] after_ret portal rate admin) (simp_all add: no_ctx_def)
  from tripleD_ok [OF this] show "\<forall>cx y k. pathAwareAuth E r x = (Inr cx, y) \<longrightarrow> cx_APIKey cx = Some k \<longrightarrow> ak_ID k \<noteq> i"
    using assms reachable_acct_inv by blast
qed

section \<open>A concrete run\<close>

definition sample_wenv :: "string \<Rightarrow> wenv" where
  "sample_wenv tag = \<lparr>wCfg = sample_webcfg, HashWithPepper = (\<lambda>v p. p @ v), wClock = (\<lambda>t. 1000 + int t),
     wNow = (\<lambda>t. 1000 + int t), wGen = (\<lambda>_. tag), wRandom = (\<lambda>_. Some tag), wOthers = (\<lambda>_. []), wFault = (\<lambda>_. None)\<rparr>"

definition sample_request :: request where
  "sample_request = \<lparr>rq_Method = ''POST'', rq_Path = '''', rq_Origin = '''', rq_Authorization = '''', rq_AdminToken = ''adm'',
     rq_RequestID = '''', rq_SessionCookie = Some ''s''\<rparr>"

definition sample_web :: webstate where
  "sample_web = \<lparr>wb_tick = 0, wb_acc = no_accounts, wb_limit = NewRateLimit 60 30, wb_mail = [], wb_signups = 0\<rparr>"

definition signed_up :: webstate where
  "signed_up = snd (serve (sample_wenv ''w'') sample_request (Signup ''Ada'' ''ada@x'') sample_web)"

definition approved_web :: webstate where
  "approved_web = snd (serve (sample_wenv ''k'') sample_request (Approve ''w'') signed_up)"

definition logged_in :: webstate where
  "logged_in = snd (serve (sample_wenv ''s'') sample_request (Login ''sk-k'') approved_web)"

definition revoked_web :: webstate where
  "revoked_web = snd (serve (sample_wenv ''r'') sample_request (RevokeKey ''k'') logged_in)"

lemma web_reachable_sample [simp]:
  "web_reachable signed_up" "web_reachable approved_web" "web_reachable logged_in" "web_reachable revoked_web"
proof -
  show "web_reachable signed_up"
    unfolding signed_up_def by (rule request, rule start) (simp add: sample_web_def)
  then show "web_reachable approved_web" unfolding approved_web_def by (rule request)
  then show "web_reachable logged_in" unfolding logged_in_def by (rule request)
  then show "web_reachable revoked_web" unfolding revoked_web_def by (rule request)
qed

lemmas web_effects = eng_simps or_deny_def or_missing_def stmt_def stmt_apply_def query_def others_commit_def commit_tx_def
  commits_def whenE_def

lemmas web_sample = sample_webcfg_def WebConfig.defs Config.defs sample_wenv_def sample_request_def

lemma signed_up_accounts:
  "wb_acc signed_up = \<lparr>ac_waitlist = [fresh_waitlist ''w'' 1000 ''Ada'' ''ada@x'' ''ipdev-ip'' ''ipw'' (1000 + day)],
     ac_keys = [], ac_sessions = []\<rparr>" "wb_tick signed_up = 1"
  by (simp_all add: signed_up_def serve_def pathAwareAuth_def HasPrefix_def waitlist_signup_def web_effects sample_web_def
      web_sample Let_def RandomToken_def no_accounts_def WaitlistInsert_def ipHashFromCtx_def char_length_def token_taken_def
      deliverVerificationEmail_def)

abbreviation sample_key :: APIKey where
  "sample_key \<equiv> fresh_key ''k'' 1002 ''w'' '''' ''sk-k'' ''kpsk-k''"

lemma approved_accounts:
  "wb_acc approved_web = \<lparr>ac_waitlist = [decide_row 1002 WaitlistApproved ''admin''
     (fresh_waitlist ''w'' 1000 ''Ada'' ''ada@x'' ''ipdev-ip'' ''ipw'' (1000 + day))],
     ac_keys = [sample_key], ac_sessions = []\<rparr>" "wb_tick approved_web = 6"
  by (simp_all add: approved_web_def serve_def pathAwareAuth_def HasPrefix_def RequireAdmin_def ConstantTimeEqual_def admin_approve_def
      web_effects signed_up_accounts web_sample Let_def RandomToken_def NewAPIKey_def WaitlistGetByID_def
      fresh_waitlist_def begin_tx_def insert_key_tx_def KeyInsert_def mark_approved_tx_def MarkApproved_def pending_row_def rows_affected_def
      approve_tx_def add_key_def deliverAPIKeyEmail_def fresh_key_def decide_row_def no_ctx_def)

lemma logged_in_accounts:
  "ac_keys (wb_acc logged_in) = [sample_key]" "ac_waitlist (wb_acc logged_in) = ac_waitlist (wb_acc approved_web)"
  "ac_sessions (wb_acc logged_in) = [fresh_session ''s'' 1008 ''k'' ''ips'' (1008 + SessionTTL sample_webcfg)]"
  "wb_tick logged_in = 9"
  by (simp_all add: logged_in_def serve_def pathAwareAuth_def HasPrefix_def portal_login_def web_effects approved_accounts
      sample_wenv_def Let_def RandomToken_def KeyGetByHash_def WaitlistGetByID_def SessionInsert_def
      fresh_key_def decide_row_def fresh_waitlist_def fresh_session_def, simp_all add: web_sample)

lemma revoked_accounts: "ac_keys (wb_acc revoked_web) = [revoke_row 1012 sample_key]"
proof -
  have ttl: "SessionTTL sample_webcfg = 86400000000000"
    by (simp add: SessionTTL_def wrap64_def web_sample)
  show ?thesis
    by (simp add: revoked_web_def serve_def pathAwareAuth_def HasPrefix_def RequirePortalSession_def portal_revoke_key_def
        the_waitlist_def web_effects logged_in_accounts approved_accounts sample_wenv_def sample_request_def Let_def ttl
        SessionGetByHash_def getAPIKeyByID_def WaitlistGetByID_def KeyRevoke_def fresh_session_def fresh_key_def
        decide_row_def fresh_waitlist_def revoke_row_def, simp add: web_sample)
qed

section \<open>Approval, error by error\<close>

text \<open>In a quiet environment no other request commits, and a failed statement had no effect.\<close>

definition quiet :: "wenv \<Rightarrow> bool" where
  "quiet E \<longleftrightarrow> (\<forall>t. wOthers E t = []) \<and> (\<forall>t. wFault E t \<noteq> Some FailAfter)"

abbreviation unchanged :: "accounts \<Rightarrow> mail list \<Rightarrow> webstate \<Rightarrow> bool" where
  "unchanged a m x \<equiv> wb_acc x = a \<and> wb_mail x = m"

abbreviation kept :: "accounts \<Rightarrow> mail list \<Rightarrow> 'a web \<Rightarrow> ('a \<Rightarrow> bool) \<Rightarrow> bool" where
  "kept a m f F \<equiv> triple (unchanged a m) f (\<lambda>v x. unchanged a m x \<and> F v) (\<lambda>_. unchanged a m)"

lemma triple_deny: "triple P f Q (\<lambda>_. R) \<Longrightarrow> triple P (or_deny f e) Q (\<lambda>_. R)"
  unfolding or_deny_def
proof (rule triple_bind [OF triple_attempt, where M = "\<lambda>r x. case r of Inl _ \<Rightarrow> R x | Inr v \<Rightarrow> Q v x"])
  show "triple (\<lambda>x. case r of Inl _ \<Rightarrow> R x | Inr v \<Rightarrow> Q v x) (case r of Inl _ \<Rightarrow> throw e | Inr v \<Rightarrow> ret v) Q (\<lambda>_. R)" for r
    by (cases r) (simp_all add: triple_ret triple_throw)
qed simp

lemma kept_stmt:
  assumes q: "quiet E" and f: "\<And>now i r b. f now i a = Some (r, b) \<Longrightarrow> b = a \<and> F r"
  shows "kept a m (stmt E f) F"
  unfolding triple_def
proof (intro allI impI)
  fix x
  assume x: "unchanged a m x"
  have same: "wb_acc (others_commit E x) = a" "wb_mail (others_commit E x) = m"
    using q x by (simp_all add: quiet_def others_commit_def commits_def)
  show "case stmt E f x of (Inr v, y) \<Rightarrow> unchanged a m y \<and> F v | (Inl e, y) \<Rightarrow> unchanged a m y"
  proof (cases "f (wClock E (wb_tick x)) (wGen E (wb_tick x)) a")
    case None
    then show ?thesis using same by (simp add: stmt_def stmt_apply_def split: option.splits stmt_fault.splits)
  next
    case (Some p)
    then obtain r b where "f (wClock E (wb_tick x)) (wGen E (wb_tick x)) a = Some (r, b)" by (cases p) simp
    with f [OF this] show ?thesis using same by (simp add: stmt_def stmt_apply_def split: option.splits stmt_fault.splits)
  qed
qed

lemma kept_query: "quiet E \<Longrightarrow> (\<And>now. F (g now a)) \<Longrightarrow> kept a m (query E g) F"
  unfolding query_def by (rule kept_stmt) auto

lemma kept_deny: "kept a m f F \<Longrightarrow> kept a m (or_deny f e) F"
  by (rule triple_deny)

lemma kept_seq:
  assumes f: "kept a m f F" and k: "\<And>v. F v \<Longrightarrow> triple (unchanged a m) (k v) Q (\<lambda>_. unchanged a m)"
  shows "triple (unchanged a m) (bindE f k) Q (\<lambda>_. unchanged a m)"
proof (rule triple_bind [OF f])
  show "triple (\<lambda>x. unchanged a m x \<and> F v) (k v) Q (\<lambda>_. unchanged a m)" for v
    using k [of v] by (cases "F v") (simp_all add: triple_def)
qed

lemma kept_missing: "kept a m f (\<lambda>r. \<forall>v. r = Some v \<longrightarrow> F v) \<Longrightarrow> kept a m (or_missing f e) F"
  unfolding or_missing_def
  by (erule kept_seq [OF kept_deny]) (intro triple_option triple_ret triple_throw; simp)

lemma kept_new_key:
  "kept a m (NewAPIKey E p) (\<lambda>(key, pre, hash). hash = HashWithPepper E key p \<and> pre = take 12 key)"
  unfolding NewAPIKey_def Let_def
proof (rule kept_seq [where F = "\<lambda>_. True"])
  show "kept a m (RandomToken E) (\<lambda>_. True)"
    unfolding RandomToken_def by (intro triple_state triple_option triple_ret triple_throw) simp_all
qed (intro triple_ret, simp)

text \<open>An approval happens completely or not at all. With no other request interfering, every error
  answer of the approval route (unknown or decided account, random source, begin, insert, update or
  commit failing) leaves the accounts and the outgoing mail exactly as they were; a success has
  approved the account and added one key, carrying the hash of the key that is returned and
  mailed, in one transaction.\<close>

theorem admin_approve_atomic:
  assumes "quiet E"
  shows "case admin_approve E i x of
      (Inl e, y) \<Rightarrow> wb_acc y = wb_acc x \<and> wb_mail y = wb_mail x
    | (Inr out, y) \<Rightarrow> \<exists>began k. approve_tx began i ''admin'' k (wb_acc x) = Some (wb_acc y) \<and>
        ak_KeyHash k = HashWithPepper E (apo_PlainKey out) (APIKeyHashPepper (wCfg E)) \<and>
        ak_KeyPrefix k = apo_KeyPrefix out \<and> apo_KeyPrefix out = take 12 (apo_PlainKey out) \<and>
        length (wb_mail y) = Suc (length (wb_mail x))"
proof -
  let ?a = "wb_acc x" and ?m = "wb_mail x"
  let ?done = "\<lambda>out y. \<exists>began k. approve_tx began i ''admin'' k ?a = Some (wb_acc y) \<and>
        ak_KeyHash k = HashWithPepper E (apo_PlainKey out) (APIKeyHashPepper (wCfg E)) \<and>
        ak_KeyPrefix k = apo_KeyPrefix out \<and> apo_KeyPrefix out = take 12 (apo_PlainKey out) \<and>
        length (wb_mail y) = Suc (length ?m)"
  have finish: "triple (unchanged ?a ?m)
      (bindE (or_deny (commit_tx E (approve_tx began i ''admin'' k)) (ISE ''tx commit'')) (\<lambda>_.
         thenE (deliverAPIKeyEmail E to name key) (ret \<lparr>apo_KeyPrefix = pre, apo_PlainKey = key\<rparr>))) ?done (\<lambda>_. unchanged ?a ?m)"
    if "ak_KeyHash k = HashWithPepper E key (APIKeyHashPepper (wCfg E)) \<and> ak_KeyPrefix k = pre" "pre = take 12 key" for began k to name key pre
    using assms that unfolding quiet_def
    by (auto simp: triple_def commit_tx_def stmt_apply_def or_deny_def deliverAPIKeyEmail_def eng_simps
        split: option.splits stmt_fault.splits)
  have "triple (unchanged ?a ?m) (admin_approve E i) ?done (\<lambda>_. unchanged ?a ?m)"
    unfolding admin_approve_def begin_tx_def
  proof (rule kept_seq [where F = "\<lambda>w. wl_ID w = i"], rule kept_missing, rule kept_query [OF assms])
    show "\<forall>w. WaitlistGetByID i (ac_waitlist ?a) = Some w \<longrightarrow> wl_ID w = i"
      by (auto simp: WaitlistGetByID_def dest: row_by_SomeD)
    fix w
    assume w: "wl_ID w = i"
    have "triple (unchanged ?a ?m) (bindE (or_deny (NewAPIKey E (APIKeyHashPepper (wCfg E))) (ISE ''key mint failed'')) (\<lambda>(key, pre, hash).
       bindE (or_deny (query E (\<lambda>now _. now)) (ISE ''tx begin'')) (\<lambda>began.
       bindE (or_deny (insert_key_tx E began (wl_ID w) '''' pre hash) (ISE ''api key insert'')) (\<lambda>k.
       bindE (or_deny (mark_approved_tx E began (wl_ID w) ''admin'') (ISE ''waitlist update'')) (\<lambda>_.
       bindE (or_deny (commit_tx E (approve_tx began (wl_ID w) ''admin'' k)) (ISE ''tx commit'')) (\<lambda>_.
       thenE (deliverAPIKeyEmail E (wl_Email w) (wl_Name w) key)
       (ret \<lparr>apo_KeyPrefix = pre, apo_PlainKey = key\<rparr>))))))) ?done (\<lambda>_. unchanged ?a ?m)"
    proof (rule kept_seq [OF kept_deny [OF kept_new_key]], clarify)
      fix key
      have insert: "kept ?a ?m (insert_key_tx E began (wl_ID w) '''' (take 12 key) (HashWithPepper E key (APIKeyHashPepper (wCfg E))))
          (\<lambda>k. ak_KeyHash k = HashWithPepper E key (APIKeyHashPepper (wCfg E)) \<and> ak_KeyPrefix k = take 12 key)" for began
        unfolding insert_key_tx_def
        by (rule kept_stmt [OF assms]) (auto simp: KeyInsert_def fresh_key_def Let_def split: if_splits)
      have mark: "kept ?a ?m (mark_approved_tx E began (wl_ID w) ''admin'') (\<lambda>_. True)" for began
        unfolding mark_approved_tx_def by (rule kept_stmt [OF assms]) auto
      have began: "kept ?a ?m (query E (\<lambda>now _. now)) (\<lambda>_. True)"
        by (rule kept_query [OF assms]) simp
      show "triple (unchanged ?a ?m) (bindE (or_deny (query E (\<lambda>now _. now)) (ISE ''tx begin'')) (\<lambda>began.
       bindE (or_deny (insert_key_tx E began (wl_ID w) '''' (take 12 key) (HashWithPepper E key (APIKeyHashPepper (wCfg E)))) (ISE ''api key insert'')) (\<lambda>k.
       bindE (or_deny (mark_approved_tx E began (wl_ID w) ''admin'') (ISE ''waitlist update'')) (\<lambda>_.
       bindE (or_deny (commit_tx E (approve_tx began (wl_ID w) ''admin'' k)) (ISE ''tx commit'')) (\<lambda>_.
       thenE (deliverAPIKeyEmail E (wl_Email w) (wl_Name w) key)
       (ret \<lparr>apo_KeyPrefix = take 12 key, apo_PlainKey = key\<rparr>)))))) ?done (\<lambda>_. unchanged ?a ?m)"
        unfolding w
        by (intro kept_seq [OF kept_deny [OF began]] kept_seq [OF kept_deny [OF insert [unfolded w]]]
            kept_seq [OF kept_deny [OF mark [unfolded w]]] finish) simp_all
    qed
    then show "triple (unchanged ?a ?m) (if wl_Status w \<noteq> WaitlistPending then throw (Denied 409 ''waitlist_not_pending'' False)
      else bindE (or_deny (NewAPIKey E (APIKeyHashPepper (wCfg E))) (ISE ''key mint failed'')) (\<lambda>(key, pre, hash).
       bindE (or_deny (query E (\<lambda>now _. now)) (ISE ''tx begin'')) (\<lambda>began.
       bindE (or_deny (insert_key_tx E began (wl_ID w) [] pre hash) (ISE ''api key insert'')) (\<lambda>k.
       bindE (or_deny (mark_approved_tx E began (wl_ID w) ''admin'') (ISE ''waitlist update'')) (\<lambda>_.
       bindE (or_deny (commit_tx E (approve_tx began (wl_ID w) ''admin'' k)) (ISE ''tx commit'')) (\<lambda>_.
       thenE (deliverAPIKeyEmail E (wl_Email w) (wl_Name w) key)
       (ret \<lparr>apo_KeyPrefix = pre, apo_PlainKey = key\<rparr>))))))) ?done (\<lambda>_. unchanged ?a ?m)"
      by (intro triple_if triple_throw) simp_all
  qed
  then show ?thesis by (auto simp: triple_def split: prod.splits sum.splits)
qed

section \<open>Logout\<close>

text \<open>The logout path passes no gate, so its handler never finds a session in the context: the cookie is
  deleted in the browser, and the session row stays valid until it expires.\<close>

theorem logout_revokes_nothing:
  "serve E r Logout x = (Inr (ReplyCookie (clearSessionCookie (wCfg E))), x)"
  by (simp add: serve_def pathAwareAuth_def HasPrefix_def portal_logout_def no_ctx_def eng_simps)

section \<open>The properties on the concrete run\<close>

theorem accounts_consistent_witness:
  "acct_inv (wb_acc logged_in) \<and> map ak_ID (ac_keys (wb_acc logged_in)) = [''k''] \<and>
   map us_ID (ac_sessions (wb_acc logged_in)) = [''s'']"
  using accounts_consistent [of logged_in] by (simp add: logged_in_accounts fresh_key_def fresh_session_def)


lemma sample_ttl: "SessionTTL sample_webcfg = 86400000000000"
  by (simp add: SessionTTL_def wrap64_def web_sample)

lemma sample_gate:
  "fst (RequirePortalSession (sample_wenv ''r'') sample_request logged_in) =
     Inr \<lparr>cx_APIKey = Some sample_key, cx_Waitlist = Some (hd (ac_waitlist (wb_acc approved_web))),
          cx_Session = Some (fresh_session ''s'' 1008 ''k'' ''ips'' (1008 + 86400000000000))\<rparr>"
  by (simp add: RequirePortalSession_def web_effects logged_in_accounts approved_accounts sample_wenv_def sample_request_def
      Let_def sample_ttl SessionGetByHash_def getAPIKeyByID_def WaitlistGetByID_def fresh_session_def fresh_key_def
      decide_row_def fresh_waitlist_def, simp add: web_sample)

theorem portal_session_approved_witness:
  "case RequirePortalSession (sample_wenv ''r'') sample_request logged_in of
     (Inr cx, _) \<Rightarrow> (\<exists>w. cx_Waitlist cx = Some w \<and> wl_Status w = WaitlistApproved) | _ \<Rightarrow> False"
proof -
  obtain cx y where g: "RequirePortalSession (sample_wenv ''r'') sample_request logged_in = (Inr cx, y)"
    using sample_gate by (cases "RequirePortalSession (sample_wenv ''r'') sample_request logged_in") auto
  from portal_session_approved [OF _ g] show ?thesis by (auto simp: g)
qed

theorem v1_requires_approved_key_witness:
  "case pathAwareAuth (sample_wenv ''r'') (sample_request\<lparr>rq_Path := ''/api/v1/abr'', rq_Authorization := ''Bearer sk-k''\<rparr>) approved_web of
     (Inr cx, _) \<Rightarrow> (\<exists>k. cx_APIKey cx = Some k \<and> ak_KeyHash k = ''kpsk-k'') | (Inl e, _) \<Rightarrow> \<exists>n. e = Limited n"
proof -
  let ?r = "sample_request\<lparr>rq_Path := ''/api/v1/abr'', rq_Authorization := ''Bearer sk-k''\<rparr>"
  let ?g = "pathAwareAuth (sample_wenv ''r'') ?r approved_web"
  have p: "HasPrefix (rq_Path ?r) ''/api/v1/''" by (simp add: HasPrefix_def)
  have b: "ExtractBearer ?r = ''sk-k''" by (simp add: ExtractBearer_def EqualFold_def to_lower_char_def)
  have h: "HashWithPepper (sample_wenv ''r'') ''sk-k'' (APIKeyHashPepper (wCfg (sample_wenv ''r''))) = ''kpsk-k''"
    by (simp add: web_sample)
  have ok: "\<exists>cx. fst (RequireAPIKey (sample_wenv ''r'') ?r approved_web) = Inr cx"
  proof -
    have "APIKeyHashPepper sample_webcfg = ''kp''" by (simp add: web_sample)
    with b show ?thesis
      by (simp add: RequireAPIKey_def Let_def web_effects approved_accounts sample_wenv_def KeyGetByHash_def WaitlistGetByID_def
        fresh_key_def decide_row_def fresh_waitlist_def)
  qed
  show ?thesis
  proof (cases ?g)
    case (Pair res y)
    show ?thesis
    proof (cases res)
      case (Inr cx)
      then show ?thesis using v1_requires_approved_key [OF p, of "sample_wenv ''r''" approved_web cx y] Pair b h by auto
    next
      case (Inl e)
      from ok Pair Inl p show ?thesis
        by (auto simp: pathAwareAuth_def bindE_def EnforceRateLimit_def get_state_def modify_def ret_def throw_def
            split: prod.splits sum.splits option.splits if_splits)
    qed
  qed
qed

theorem revoked_key_locked_out_witness:
  "revoked_key ''k'' (wb_acc (snd (serve (sample_wenv ''z'') sample_request (Login ''sk-k'') revoked_web)))"
proof -
  have "revoked_key ''k'' (wb_acc revoked_web)"
    by (simp add: revoked_key_def revoked_accounts revoke_row_def fresh_key_def)
  then show ?thesis using revoked_key_locked_out [of revoked_web "''k''"] by simp
qed

theorem admin_approve_atomic_witness:
  "wb_acc (snd (admin_approve (sample_wenv ''k'') ''nobody'' signed_up)) = wb_acc signed_up"
proof -
  have q: "quiet (sample_wenv ''k'')" by (simp add: quiet_def sample_wenv_def)
  have "fst (admin_approve (sample_wenv ''k'') ''nobody'' signed_up) = Inl (Denied 404 ''waitlist row not found'' False)"
    by (simp add: admin_approve_def web_effects signed_up_accounts sample_wenv_def WaitlistGetByID_def fresh_waitlist_def)
  with admin_approve_atomic [OF q, of signed_up "''nobody''"] show ?thesis
    by (cases "admin_approve (sample_wenv ''k'') ''nobody'' signed_up") simp
qed

end
