(* ===== verification/Rate_Facts.thy ===== *)
theory Rate_Facts
  imports Access_Control
begin

text \<open>
  The per-key rate limit of \<^verbatim>\<open>server/middleware.go\<close>: with its tokens kept as float64, no burst
  exceeds the configured one, refusals always ask for a delay, and the keys' buckets do not affect
  each other.
\<close>

section \<open>Rounding\<close>

lemma ilog2_bounds: "0 < n \<Longrightarrow> 0 \<le> ilog2 n \<and> 2 ^ nat (ilog2 n) \<le> n \<and> n < 2 ^ (nat (ilog2 n) + 1)"
proof (induction n rule: ilog2.induct)
  case (1 n)
  show ?case
  proof (cases "n \<le> 1")
    case True
    then show ?thesis using 1(2) by (simp add: ilog2.simps)
  next
    case False
    then have ih: "0 \<le> ilog2 (n div 2)" "2 ^ nat (ilog2 (n div 2)) \<le> n div 2" "n div 2 < 2 ^ (nat (ilog2 (n div 2)) + 1)"
      using 1 by auto
    have "ilog2 n = 1 + ilog2 (n div 2)" using False by (subst ilog2.simps) simp
    with ih show ?thesis by (simp add: nat_add_distrib) linarith
  qed
qed

lemma bin_exp_le:
  assumes "0 < x"
  shows "2 powi bin_exp x \<le> x"
proof -
  obtain p q where q: "quotient_of x = (p, q)" by (cases "quotient_of x")
  have x: "x = of_int p / of_int q" and q0: "0 < q" using quotient_of_div [OF q] quotient_of_denom_pos [OF q] by auto
  have p0: "0 < p" using assms x q0 by (simp add: zero_less_divide_iff)
  let ?a = "nat (ilog2 p)" and ?b = "nat (ilog2 q)"
  note P = ilog2_bounds [OF p0] and Q = ilog2_bounds [OF q0]
  have "(2 :: rat) powi (ilog2 p - ilog2 q - 1) = 2 powi (int ?a) / 2 powi (int (?b + 1))"
    using P Q by (simp flip: power_int_diff) (simp add: algebra_simps)
  also have "\<dots> = of_int (2 ^ ?a) / of_int (2 ^ (?b + 1))" by (simp add: power_int_def nat_add_distrib)
  also have "\<dots> \<le> of_int p / of_int q"
  proof (rule frac_le)
    show "of_int (2 ^ ?a) \<le> (of_int p :: rat)" using P by (simp only: of_int_le_iff)
    show "of_int q \<le> (of_int (2 ^ (?b + 1)) :: rat)" using Q by (simp only: of_int_le_iff less_imp_le)
  qed (use p0 q0 in simp_all)
  finally have "2 powi (ilog2 p - ilog2 q - 1) \<le> x" by (simp add: x)
  then show ?thesis by (simp add: bin_exp_def q Let_def)
qed

lemma round_le: "y \<le> of_int m \<Longrightarrow> round_half_even y \<le> m"
  unfolding round_half_even_def Let_def by (auto split: if_splits; linarith)

lemma round_nonneg: "0 \<le> y \<Longrightarrow> 0 \<le> round_half_even y"
  unfolding round_half_even_def Let_def by (auto split: if_splits)

lemma fl64_zero [simp]: "fl64 0 = 0"
  by (simp add: fl64_def)

text \<open>Rounding never passes an integer that float64 represents.\<close>

lemma fl64_le:
  assumes "x \<le> of_int n" and "0 \<le> n" and "n < 2 ^ 53"
  shows "fl64 x \<le> of_int n"
proof (cases "0 < x")
  case False
  have "sgn x * of_int (round_half_even (\<bar>x\<bar> / 2 powi e)) * 2 powi e \<le> 0" for e
  proof -
    have "0 \<le> round_half_even (\<bar>x\<bar> / 2 powi e)" by (rule round_nonneg) simp
    then have "0 \<le> of_int (round_half_even (\<bar>x\<bar> / 2 powi e)) * (2 :: rat) powi e" by simp
    with False show ?thesis by (simp add: sgn_if)
  qed
  then have "fl64 x \<le> 0" by (simp add: fl64_def Let_def)
  with assms(2) show ?thesis by (meson of_int_0_le_iff order_trans)
next
  case True
  define e where "e = bin_exp x - 52"
  have "e \<le> 0"
  proof (rule ccontr)
    assume "\<not> e \<le> 0"
    then have "(2 :: rat) powi 53 \<le> 2 powi bin_exp x" by (intro power_int_increasing) (simp_all add: e_def)
    with bin_exp_le [OF True] assms(1) have "(2 :: rat) powi 53 \<le> of_int n" by linarith
    then have "(of_int (2 ^ 53) :: rat) \<le> of_int n" by (simp add: power_int_def)
    with assms(3) show False by (simp only: of_int_le_iff)
  qed
  define k where "k = nat (- e)"
  have p: "(2 :: rat) powi e = 1 / 2 ^ k"
    using \<open>e \<le> 0\<close> by (simp add: k_def power_int_def divide_simps)
  have "\<bar>x\<bar> / 2 powi e \<le> of_int (n * 2 ^ k)"
    using assms(1) True by (simp add: p)
  then have "round_half_even (\<bar>x\<bar> / 2 powi e) \<le> n * 2 ^ k" by (rule round_le)
  then have "of_int (round_half_even (\<bar>x\<bar> / 2 powi e)) \<le> (of_int (n * 2 ^ k) :: rat)" by (simp only: of_int_le_iff)
  then have "of_int (round_half_even (\<bar>x\<bar> / 2 powi e)) * (1 / 2 ^ k) \<le> (of_int n :: rat)"
    by (simp add: divide_simps)
  then show ?thesis
    using True by (simp add: fl64_def Let_def p flip: e_def)
qed

section \<open>Bursts\<close>

text \<open>How many of \<open>n\<close> requests of a key at one instant are admitted.\<close>

fun admitted :: "uuid \<Rightarrow> time \<Rightarrow> nat \<Rightarrow> RateLimit \<Rightarrow> nat" where
  "admitted i now 0 rl = 0"
| "admitted i now (Suc n) rl = (case Allow i now rl of ((ok, _), rl') \<Rightarrow>
     (if ok then 1 else 0) + admitted i now n rl')"

lemma Seconds_zero [simp]: "Seconds 0 = 0"
  by (simp add: Seconds_def)

lemma Allow_burst [simp]: "burst (snd (Allow i now rl)) = burst rl"
  by (simp add: Allow_def Let_def split: option.splits)

text \<open>A bucket with at most \<open>m\<close> tokens at this instant.\<close>

definition at_most :: "uuid \<Rightarrow> time \<Rightarrow> int \<Rightarrow> RateLimit \<Rightarrow> bool" where
  "at_most i now m rl \<longleftrightarrow> (\<exists>b. buckets rl i = Some b \<and> b_updated b = now \<and> b_tokens b \<le> of_int m)"

lemma Allow_tokens:
  assumes "refilled rl now (case buckets rl i of None \<Rightarrow> \<lparr>b_tokens = fl64 (of_int (burst rl)), b_updated = now\<rparr> | Some b \<Rightarrow> b) \<le> of_int m"
    and "0 \<le> m" and "m < 2 ^ 53"
  shows "if fst (fst (Allow i now rl)) then 1 \<le> m \<and> at_most i now (m - 1) (snd (Allow i now rl))
    else at_most i now m (snd (Allow i now rl))"
proof -
  define t where "t = refilled rl now (case buckets rl i of None \<Rightarrow> \<lparr>b_tokens = fl64 (of_int (burst rl)), b_updated = now\<rparr> | Some b \<Rightarrow> b)"
  have t: "t \<le> of_int m" using assms(1) by (simp add: t_def)
  show ?thesis
  proof (cases "t \<ge> 1")
    case True
    then have "(1 :: rat) \<le> of_int m" using t by linarith
    then have m: "1 \<le> m" by simp
    have "fl64 (t - 1) \<le> of_int (m - 1)" using t m assms(3) by (intro fl64_le) simp_all
    with True m show ?thesis by (simp add: Allow_def Let_def at_most_def flip: t_def)
  next
    case False
    with t show ?thesis by (simp add: Allow_def Let_def at_most_def flip: t_def)
  qed
qed

lemma refilled_same_instant:
  assumes "b_updated b = now" and "b_tokens b \<le> of_int m" and "0 \<le> m" and "m < 2 ^ 53"
  shows "refilled rl now b \<le> of_int m"
proof -
  have "fl64 (b_tokens b) \<le> of_int m" using assms(2-4) by (rule fl64_le)
  then show ?thesis using assms(1) by (simp add: refilled_def Let_def)
qed

lemma admitted_at_most:
  "at_most i now m rl \<Longrightarrow> 0 \<le> m \<Longrightarrow> m < 2 ^ 53 \<Longrightarrow> int (admitted i now n rl) \<le> m"
proof (induction n arbitrary: m rl)
  case (Suc n)
  have "refilled rl now (case buckets rl i of None \<Rightarrow> \<lparr>b_tokens = fl64 (of_int (burst rl)), b_updated = now\<rparr> | Some b \<Rightarrow> b) \<le> of_int m"
    using Suc.prems by (auto simp: at_most_def intro: refilled_same_instant)
  from Allow_tokens [OF this Suc.prems(2,3)]
  show ?case
    using Suc.IH [of m "snd (Allow i now rl)"] Suc.IH [of "m - 1" "snd (Allow i now rl)"] Suc.prems
    by (cases "Allow i now rl") (auto split: if_splits)
qed simp

text \<open>C22: a burst never exceeds its limit. Whatever the bucket of a key held, however long it was idle and
  whatever the configured rate, of any number of requests at one instant at most \<^verbatim>\<open>burst\<close> are
  admitted, float64 rounding included, and a refused request is told to wait at least one second.\<close>

theorem Allow_burst_bound:
  assumes "0 \<le> burst rl" and "burst rl < 2 ^ 53"
  shows "int (admitted i now n rl) \<le> burst rl \<and>
    (\<forall>retry rl'. Allow i now rl = ((False, retry), rl') \<longrightarrow> 1 \<le> retry)"
proof
  have le: "refilled rl now b \<le> of_int (burst rl)" for b
    using fl64_le [OF order_refl assms] by (simp add: refilled_def Let_def)
  show "int (admitted i now n rl) \<le> burst rl"
  proof (cases n)
    case (Suc k)
    from Allow_tokens [OF le assms, of i] show ?thesis
      using admitted_at_most [of i now "burst rl" "snd (Allow i now rl)" k]
        admitted_at_most [of i now "burst rl - 1" "snd (Allow i now rl)" k] assms Suc
      by (cases "Allow i now rl") (auto split: if_splits)
  qed (use assms in simp)
  show "\<forall>retry rl'. Allow i now rl = ((False, retry), rl') \<longrightarrow> 1 \<le> retry"
    by (auto simp: Allow_def Let_def split: if_splits)
qed

theorem Allow_burst_bound_witness:
  "int (admitted ''key'' 5 3 (NewRateLimit 60 2)) \<le> 2"
  using Allow_burst_bound [of "NewRateLimit 60 2" "''key''" 5 3] by (simp add: NewRateLimit_def)

section \<open>Keys are independent\<close>

text \<open>The answers of one limiter to a sequence of requests, tagged with the key.\<close>

fun answers :: "RateLimit \<Rightarrow> (uuid \<times> time) list \<Rightarrow> (uuid \<times> bool \<times> int) list" where
  "answers rl [] = []"
| "answers rl ((i, now) # cs) = (case Allow i now rl of (a, rl') \<Rightarrow> (i, a) # answers rl' cs)"

definition same_for :: "uuid \<Rightarrow> RateLimit \<Rightarrow> RateLimit \<Rightarrow> bool" where
  "same_for i rl rm \<longleftrightarrow> perMinute rl = perMinute rm \<and> burst rl = burst rm \<and> buckets rl i = buckets rm i"

lemma Allow_same: "same_for i rl rm \<Longrightarrow> fst (Allow i now rl) = fst (Allow i now rm) \<and>
    same_for i (snd (Allow i now rl)) (snd (Allow i now rm))"
proof -
  assume s: "same_for i rl rm"
  then have p: "perMinute rl = perMinute rm" and b: "burst rl = burst rm" by (simp_all add: same_for_def)
  have r: "refilled rl = refilled rm" "rate_per_second rl = rate_per_second rm"
    unfolding refilled_def rate_per_second_def p b by simp_all
  from s show ?thesis
    unfolding Allow_def r by (cases "buckets rm i") (simp_all add: same_for_def Let_def)
qed

lemma Allow_other: "i \<noteq> j \<Longrightarrow> same_for i rl rm \<Longrightarrow> same_for i (snd (Allow j now rl)) rm"
  by (simp add: same_for_def Allow_def Let_def)

lemma answers_same:
  "same_for i rl rm \<Longrightarrow> filter (\<lambda>a. fst a = i) (answers rl cs) = answers rm (filter (\<lambda>c. fst c = i) cs)"
proof (induction cs arbitrary: rl rm)
  case (Cons c cs)
  obtain j now where c: "c = (j, now)" by (cases c)
  show ?case
  proof (cases "j = i")
    case True
    then show ?thesis
      using Cons.IH [of "snd (Allow i now rl)" "snd (Allow i now rm)"] Allow_same [OF Cons.prems, of now] c
      by (cases "Allow i now rl"; cases "Allow i now rm") simp
  next
    case False
    then show ?thesis
      using Cons.IH [of "snd (Allow j now rl)" rm] Allow_other [OF _ Cons.prems, of j now] c
      by (cases "Allow j now rl") simp
  qed
qed simp

text \<open>One shared limiter treats every key as if it had a limiter of its own. In any interleaving of
  requests of all keys, the admissions and retry delays a key sees are those of a limiter that only ever
  saw this key's requests.\<close>

theorem answers_isolated:
  "filter (\<lambda>a. fst a = i) (answers (NewRateLimit pm b) cs) = answers (NewRateLimit pm b) (filter (\<lambda>c. fst c = i) cs)"
  by (rule answers_same) (simp add: same_for_def)

end
