(* ===== verification/Worker_Loop.thy ===== *)
theory Worker_Loop
  imports Operation_Repo "HOL-Library.Multiset"
begin

text \<open>
  \<^verbatim>\<open>PaidEngine.Run\<close> (\<^verbatim>\<open>server/paid_engine.go\<close>): the scanner that queues due operations and the
  workers that process them. There is a lane per kind, with its own bounded channel and two
  workers; \<open>busy\<close> is the scanner's map of the operations that are queued or being processed.

  The scanner and the workers interleave freely; a step is one of their critical sections or
  channel operations. What a worker does with an operation is \<^verbatim>\<open>Process\<close>, modelled elsewhere; here
  it only takes time. A channel is its buffer: a hand-over to a waiting worker is a send followed by
  a take.
\<close>

datatype lane = AbrLane | LiveLane

fun lane_kind :: "lane \<Rightarrow> string" where
  "lane_kind AbrLane = ''abr''"
| "lane_kind LiveLane = ''live''"

fun queue_cap :: "lane \<Rightarrow> nat" where
  "queue_cap AbrLane = 2"
| "queue_cap LiveLane = 16"

definition workers_per_lane :: nat where
  "workers_per_lane = 2"

definition scan_limit :: nat where
  "scan_limit = 32"

text \<open>\<open>lp_offer\<close> is the operation the scanner has marked busy and is about to send; \<open>lp_closed\<close> holds
  once \<^verbatim>\<open>Run\<close> has left its loop and closed the channels.\<close>

record loop =
  lp_busy :: "uuid set"
  lp_queue :: "lane \<Rightarrow> uuid list"
  lp_working :: "lane \<Rightarrow> uuid list"
  lp_offer :: "(lane \<times> uuid) option"
  lp_closed :: bool

definition loop_start :: loop where
  "loop_start = \<lparr>lp_busy = {}, lp_queue = (\<lambda>_. []), lp_working = (\<lambda>_. []), lp_offer = None, lp_closed = False\<rparr>"

section \<open>Steps\<close>

text \<open>The scanner's critical section: an operation that is already busy is skipped.\<close>

definition mark :: "lane \<Rightarrow> uuid \<Rightarrow> loop \<Rightarrow> loop" where
  "mark k i s = (if i \<in> lp_busy s then s else s\<lparr>lp_busy := insert i (lp_busy s), lp_offer := Some (k, i)\<rparr>)"

text \<open>The non-blocking send: with no room in the channel the mark is taken back.\<close>

definition send :: "loop \<Rightarrow> loop" where
  "send s = (case lp_offer s of
      None \<Rightarrow> s
    | Some (k, i) \<Rightarrow>
        if length (lp_queue s k) < queue_cap k
        then s\<lparr>lp_queue := (lp_queue s)(k := lp_queue s k @ [i]), lp_offer := None\<rparr>
        else s\<lparr>lp_busy := lp_busy s - {i}, lp_offer := None\<rparr>)"

text \<open>One scan of a lane by the scanner alone.\<close>

fun offer_all :: "lane \<Rightarrow> uuid list \<Rightarrow> loop \<Rightarrow> loop" where
  "offer_all k [] s = s"
| "offer_all k (i # ids) s = offer_all k ids (send (mark k i s))"

definition scan :: "time \<Rightarrow> lane \<Rightarrow> ('s, 'v) db \<Rightarrow> loop \<Rightarrow> loop" where
  "scan now k d s = offer_all k (Pending now (lane_kind k) scan_limit d) s"

text \<open>A worker of the lane receives the next operation, and later is done with it.\<close>

definition take_next :: "lane \<Rightarrow> loop \<Rightarrow> loop option" where
  "take_next k s = (case lp_queue s k of
      [] \<Rightarrow> None
    | i # q \<Rightarrow> if length (lp_working s k) < workers_per_lane
        then Some (s\<lparr>lp_queue := (lp_queue s)(k := q), lp_working := (lp_working s)(k := lp_working s k @ [i])\<rparr>)
        else None)"

definition finish :: "lane \<Rightarrow> uuid \<Rightarrow> loop \<Rightarrow> loop option" where
  "finish k i s = (if i \<in> set (lp_working s k)
     then Some (s\<lparr>lp_working := (lp_working s)(k := remove1 i (lp_working s k)), lp_busy := lp_busy s - {i}\<rparr>)
     else None)"

inductive worker_step :: "loop \<Rightarrow> loop \<Rightarrow> bool" where
  take: "take_next k s = Some s' \<Longrightarrow> worker_step s s'"
| finish: "finish k i s = Some s' \<Longrightarrow> worker_step s s'"

inductive loop_step :: "loop \<Rightarrow> loop \<Rightarrow> bool" where
  mark: "\<not> lp_closed s \<Longrightarrow> lp_offer s = None \<Longrightarrow> loop_step s (mark k i s)"
| send: "\<not> lp_closed s \<Longrightarrow> lp_offer s \<noteq> None \<Longrightarrow> loop_step s (send s)"
| close: "\<not> lp_closed s \<Longrightarrow> lp_offer s = None \<Longrightarrow> loop_step s (s\<lparr>lp_closed := True\<rparr>)"
| work: "worker_step s s' \<Longrightarrow> loop_step s s'"

inductive_cases worker_stepE: "worker_step s s'"
inductive_cases loop_stepE: "loop_step s s'"

inductive loop_reachable :: "loop \<Rightarrow> bool" where
  start: "loop_reachable loop_start"
| step: "loop_reachable s \<Longrightarrow> loop_step s s' \<Longrightarrow> loop_reachable s'"

section \<open>Invariant\<close>

text \<open>Every operation in the loop's hands, wherever it is.\<close>

definition in_hands :: "loop \<Rightarrow> uuid multiset" where
  "in_hands s = mset (lp_queue s AbrLane) + mset (lp_queue s LiveLane) + mset (lp_working s AbrLane) +
     mset (lp_working s LiveLane) + (case lp_offer s of None \<Rightarrow> {#} | Some (k, i) \<Rightarrow> {#i#})"

text \<open>The busy map has exactly these operations, each in one place once.\<close>

definition hands_inv :: "loop \<Rightarrow> bool" where
  "hands_inv s \<longleftrightarrow> finite (lp_busy s) \<and> in_hands s = mset_set (lp_busy s)"

definition room_inv :: "loop \<Rightarrow> bool" where
  "room_inv s \<longleftrightarrow> (\<forall>k. length (lp_queue s k) \<le> queue_cap k \<and> length (lp_working s k) \<le> workers_per_lane) \<and>
     (lp_closed s \<longrightarrow> lp_offer s = None)"

lemma hands_remove: "finite B \<Longrightarrow> add_mset i M = mset_set B \<Longrightarrow> M = mset_set (B - {i})"
  by (metis add_mset_remove_trivial elem_mset_set insert_DiffM mset_set.remove union_single_eq_member)

lemma hands_mark: "hands_inv s \<Longrightarrow> lp_offer s = None \<Longrightarrow> hands_inv (mark k i s)"
  by (simp add: hands_inv_def mark_def in_hands_def)

lemma hands_send: "hands_inv s \<Longrightarrow> hands_inv (send s)"
proof (cases "lp_offer s")
  case (Some ki)
  obtain k i where ki: "ki = (k, i)" by (cases ki)
  assume inv: "hands_inv s"
  show ?thesis
  proof (cases "length (lp_queue s k) < queue_cap k")
    case True
    then show ?thesis
      using inv Some ki by (cases k) (simp_all add: hands_inv_def send_def in_hands_def ac_simps)
  next
    case False
    then show ?thesis
      using inv Some ki hands_remove [of "lp_busy s" i] by (simp add: hands_inv_def send_def in_hands_def)
  qed
qed (simp add: send_def)

lemma hands_take:
  assumes "hands_inv s" and "take_next k s = Some s'"
  shows "hands_inv s'"
proof -
  obtain i q where q: "lp_queue s k = i # q"
      and s': "s' = s\<lparr>lp_queue := (lp_queue s)(k := q), lp_working := (lp_working s)(k := lp_working s k @ [i])\<rparr>"
    using assms(2) by (auto simp: take_next_def split: list.splits if_splits)
  show ?thesis using assms(1) q unfolding s' by (cases k) (simp_all add: hands_inv_def in_hands_def ac_simps)
qed

lemma hands_finish:
  assumes "hands_inv s" and "finish k i s = Some s'"
  shows "hands_inv s'"
proof -
  have i: "i \<in> set (lp_working s k)"
    and s': "s' = s\<lparr>lp_working := (lp_working s)(k := remove1 i (lp_working s k)), lp_busy := lp_busy s - {i}\<rparr>"
    using assms(2) by (auto simp: finish_def split: if_splits)
  have "add_mset i (in_hands s') = in_hands s"
    using i unfolding s' by (cases k) (simp_all add: in_hands_def insert_DiffM flip: set_mset_mset)
  then show ?thesis using assms(1) hands_remove [of "lp_busy s" i "in_hands s'"] by (simp add: hands_inv_def s')
qed

lemma hands_step: "hands_inv s \<Longrightarrow> loop_step s s' \<Longrightarrow> hands_inv s'"
proof (erule loop_stepE)
  show "hands_inv s \<Longrightarrow> s' = s\<lparr>lp_closed := True\<rparr> \<Longrightarrow> hands_inv s'" by (simp add: hands_inv_def in_hands_def)
qed (auto elim!: worker_stepE intro: hands_mark hands_send hands_take hands_finish)

lemma room_step:
  assumes "room_inv s" and "loop_step s s'"
  shows "room_inv s'"
  using assms(2)
proof cases
  case (work)
  then show ?thesis
  proof cases
    case (take k)
    then obtain i q where q: "lp_queue s k = i # q" "length (lp_working s k) < workers_per_lane"
      and s': "s' = s\<lparr>lp_queue := (lp_queue s)(k := q), lp_working := (lp_working s)(k := lp_working s k @ [i])\<rparr>"
      by (auto simp: take_next_def split: list.splits if_splits)
    have "length q \<le> queue_cap k" using assms(1) q(1) unfolding room_inv_def by (metis Suc_leD length_Cons)
    then show ?thesis using assms(1) q(2) by (auto simp: room_inv_def s')
  next
    case (finish k i)
    have "length (lp_working s k) - Suc 0 \<le> workers_per_lane"
      using assms(1) unfolding room_inv_def by (metis diff_le_self le_trans)
    then show ?thesis
      using finish assms(1) by (auto simp: room_inv_def finish_def length_remove1 split: if_splits)
  qed
qed (use assms(1) in \<open>auto simp: room_inv_def mark_def send_def split: option.splits prod.splits\<close>)

lemma distinct_if_sub:
  assumes "mset xs \<subseteq># mset_set B"
  shows "distinct xs"
  unfolding distinct_count_atmost_1
proof
  fix a
  have "count (mset xs) a \<le> count (mset_set B) a" using assms by (rule mset_subset_eq_count)
  also have "\<dots> \<le> 1" by (cases "finite B \<and> a \<in> B") auto
  finally have "count (mset xs) a \<le> 1" .
  moreover have "0 < count (mset xs) a" if "a \<in> set xs" using that by (simp flip: set_mset_mset)
  ultimately show "count (mset xs) a = (if a \<in> set xs then 1 else 0)"
    by (cases "a \<in> set xs") (simp_all add: le_antisym Suc_leI count_mset_0_iff)
qed

lemma reachable_loop_inv: "loop_reachable s \<Longrightarrow> hands_inv s \<and> room_inv s"
proof (induction rule: loop_reachable.induct)
  case start
  then show ?case by (simp add: hands_inv_def room_inv_def loop_start_def in_hands_def)
next
  case (step s s')
  then show ?case using hands_step room_step by blast
qed

section \<open>Properties\<close>

text \<open>C23: no operation is handled twice at the same time. However the scanner and the workers interleave,
  the operations waiting in either queue or being processed by any of the four workers are pairwise
  different, together with the one just being offered they are exactly those marked busy, no
  channel holds more than its capacity and no lane has more than two workers at work.\<close>

theorem workers_exclusive:
  assumes "loop_reachable s"
  shows "distinct (lp_working s AbrLane @ lp_working s LiveLane @ lp_queue s AbrLane @ lp_queue s LiveLane) \<and>
    set_mset (in_hands s) = lp_busy s \<and>
    (\<forall>k. length (lp_queue s k) \<le> queue_cap k \<and> length (lp_working s k) \<le> workers_per_lane)"
proof -
  have inv: "finite (lp_busy s)" "in_hands s = mset_set (lp_busy s)" "room_inv s"
    using reachable_loop_inv [OF assms] by (simp_all add: hands_inv_def)
  have "mset (lp_working s AbrLane @ lp_working s LiveLane @ lp_queue s AbrLane @ lp_queue s LiveLane) \<subseteq># mset_set (lp_busy s)"
    unfolding inv(2) [symmetric] in_hands_def by (simp add: ac_simps)
  then have "distinct (lp_working s AbrLane @ lp_working s LiveLane @ lp_queue s AbrLane @ lp_queue s LiveLane)"
    by (rule distinct_if_sub)
  with inv show ?thesis by (simp add: room_inv_def)
qed

text \<open>A run of three steps: one operation marked, queued and taken by a worker.\<close>

definition one_at_work :: loop where
  "one_at_work = \<lparr>lp_busy = {''op''}, lp_queue = (\<lambda>_. []), lp_working = (\<lambda>_. [])(AbrLane := [''op'']),
     lp_offer = None, lp_closed = False\<rparr>"

lemma one_at_work_reachable: "loop_reachable one_at_work"
proof -
  let ?m = "mark AbrLane ''op'' loop_start"
  have "loop_reachable ?m" by (intro loop_reachable.step [OF loop_reachable.start] loop_step.mark) (simp_all add: loop_start_def)
  then have s: "loop_reachable (send ?m)"
    by (rule loop_reachable.step) (intro loop_step.send, simp_all add: mark_def loop_start_def)
  have "take_next AbrLane (send ?m) = Some one_at_work"
    by (simp add: take_next_def send_def mark_def loop_start_def one_at_work_def workers_per_lane_def fun_eq_iff)
  then show ?thesis using s by (blast intro: loop_reachable.step loop_step.work worker_step.take)
qed

theorem workers_exclusive_witness:
  "set_mset (in_hands one_at_work) = {''op''} \<and> length (lp_working one_at_work AbrLane) \<le> workers_per_lane"
  using workers_exclusive [OF one_at_work_reachable] by (simp add: one_at_work_def workers_per_lane_def)

text \<open>What one lane's scan accepts: the first operations not in hand, up to the free places.\<close>

definition accepted :: "lane \<Rightarrow> uuid list \<Rightarrow> loop \<Rightarrow> uuid list" where
  "accepted k ids s = take (queue_cap k - length (lp_queue s k)) (filter (\<lambda>i. i \<notin> lp_busy s) ids)"

lemma offer_all_spec:
  assumes "distinct ids" and "lp_offer s = None" and "\<And>k. length (lp_queue s k) \<le> queue_cap k"
  shows "offer_all k ids s = s\<lparr>lp_queue := (lp_queue s)(k := lp_queue s k @ accepted k ids s),
    lp_busy := lp_busy s \<union> set (accepted k ids s)\<rparr>"
  using assms
proof (induction ids arbitrary: s)
  case (Cons i ids)
  let ?room = "queue_cap k - length (lp_queue s k)"
  show ?case
  proof (cases "i \<in> lp_busy s \<or> ?room = 0")
    case True
    then have "send (mark k i s) = s" using Cons.prems(2) by (auto simp: mark_def send_def)
    moreover have "accepted k (i # ids) s = accepted k ids s" using True by (auto simp: accepted_def)
    ultimately show ?thesis using Cons.IH [OF _ Cons.prems(2,3)] Cons.prems(1) by simp
  next
    case False
    let ?s = "s\<lparr>lp_queue := (lp_queue s)(k := lp_queue s k @ [i]), lp_busy := insert i (lp_busy s)\<rparr>"
    have s: "send (mark k i s) = ?s" using False Cons.prems(2) by (simp add: mark_def send_def)
    have "filter (\<lambda>j. j \<notin> lp_busy ?s) ids = filter (\<lambda>j. j \<notin> lp_busy s) ids"
      using Cons.prems(1) by (intro filter_cong) auto
    then have new: "accepted k (i # ids) s = i # accepted k ids ?s"
      using False by (simp add: accepted_def take_Cons')
    have "length (lp_queue ?s k') \<le> queue_cap k'" for k' using False Cons.prems(3) [of k'] by (cases "k' = k") auto
    moreover have "distinct ids" "lp_offer ?s = None" using Cons.prems(1,2) by simp_all
    ultimately have ih: "offer_all k ids ?s =
        ?s\<lparr>lp_queue := (lp_queue ?s)(k := lp_queue ?s k @ accepted k ids ?s), lp_busy := lp_busy ?s \<union> set (accepted k ids ?s)\<rparr>"
      by (intro Cons.IH)
    show ?thesis unfolding offer_all.simps s ih by (simp add: new fun_eq_iff)
  qed
qed (simp add: accepted_def)

text \<open>A scan queues the most urgent due operations that fit. With the scanner at rest and the rows'
  ids unique, a scan of a lane appends to its queue exactly the first operations of the pending list
  (stop requests first, then the longest due) that are not yet in hand, as many as the channel has
  room for, marks exactly these busy, and leaves the other lane and all workers as they are: a full
  ABR lane never delays a live operation.\<close>

theorem scan_queues_due:
  assumes "loop_reachable s" and "lp_offer s = None" and "distinct (map op_ID (db_ops d))"
  shows "\<exists>new. new = take (queue_cap k - length (lp_queue s k))
       (filter (\<lambda>i. i \<notin> lp_busy s) (Pending now (lane_kind k) scan_limit d)) \<and>
    lp_queue (scan now k d s) = (lp_queue s)(k := lp_queue s k @ new) \<and>
    lp_busy (scan now k d s) = lp_busy s \<union> set new \<and>
    lp_working (scan now k d s) = lp_working s"
proof -
  have room: "length (lp_queue s k) \<le> queue_cap k" for k
    using reachable_loop_inv [OF assms(1)] by (simp add: room_inv_def)
  have "distinct (map op_ID (sort_key f (sort_key g (filter p (db_ops d)))))" for f :: "_ \<Rightarrow> bool" and g :: "_ \<Rightarrow> int" and p
    using assms(3) by (simp add: distinct_map inj_on_def)
  then have "distinct (Pending now (lane_kind k) scan_limit d)"
    by (simp only: Pending_def take_map [symmetric] distinct_take)
  from offer_all_spec [OF this assms(2) room] show ?thesis by (simp add: scan_def accepted_def)
qed

definition two_due :: "(unit, unit) db" where
  "two_due = \<lparr>db_reservations = [], db_live = [], db_ops =
     (let r = \<lparr>op_ID = ''op'', op_APIKeyID = ''key'', op_ReservationID = ''res'', op_LiveStreamID = None, op_Kind = ''abr'',
         op_RequestKey = ''req'', op_RequestHash = ''hash'', op_State = ''queued'', op_Secrets = (), op_PublicJSON = (),
         op_LastError = None, op_Attempts = 0, op_NextAttemptAt = 0, op_StopRequested = False, op_CreatedAt = 0,
         op_UpdatedAt = 0, op_FinishedAt = None\<rparr>
      in [r, r\<lparr>op_ID := ''new'', op_RequestKey := ''req2''\<rparr>])\<rparr>"

lemma two_due_pending: "Pending 5 ''abr'' 32 two_due = [''op'', ''new'']"
  by (simp add: two_due_def Pending_def Let_def)

theorem scan_queues_due_witness:
  "lp_queue (scan 5 AbrLane two_due one_at_work) AbrLane = [''new'']"
proof -
  have d: "distinct (map op_ID (db_ops two_due))" by (simp add: two_due_def Let_def)
  have off: "lp_offer one_at_work = None" by (simp add: one_at_work_def)
  from scan_queues_due [OF one_at_work_reachable off d, of AbrLane 5] show ?thesis
    by (auto simp: two_due_pending scan_limit_def one_at_work_def)
qed

section \<open>Shutdown\<close>

definition left_to_do :: "loop \<Rightarrow> nat" where
  "left_to_do s = 2 * (length (lp_queue s AbrLane) + length (lp_queue s LiveLane)) +
     length (lp_working s AbrLane) + length (lp_working s LiveLane)"

lemma worker_step_decreases: "worker_step s s' \<Longrightarrow> left_to_do s' < left_to_do s"
proof (erule worker_stepE)
  fix k
  assume "take_next k s = Some s'"
  then show ?thesis
    by (cases k) (auto simp: take_next_def left_to_do_def split: list.splits if_splits)
next
  fix k i
  assume "finish k i s = Some s'"
  then have "i \<in> set (lp_working s k)" and "s' = s\<lparr>lp_working := (lp_working s)(k := remove1 i (lp_working s k)), lp_busy := lp_busy s - {i}\<rparr>"
    by (auto simp: finish_def split: if_splits)
  moreover from this(1) have "0 < length (lp_working s k)" by auto
  ultimately show ?thesis by (cases k) (auto simp: left_to_do_def length_remove1)
qed

lemma closed_step: "loop_step s s' \<Longrightarrow> lp_closed s \<Longrightarrow> worker_step s s' \<and> lp_closed s'"
  by (auto elim!: loop_stepE worker_stepE simp: take_next_def finish_def intro: worker_step.intros split: list.splits if_splits)

lemma stuck_empty:
  assumes "\<nexists>s'. worker_step s s'"
  shows "left_to_do s = 0"
proof -
  have w: "lp_working s k = []" for k
  proof (rule ccontr)
    assume "lp_working s k \<noteq> []"
    then have "hd (lp_working s k) \<in> set (lp_working s k)" by simp
    then have "\<exists>s'. finish k (hd (lp_working s k)) s = Some s'" by (simp add: finish_def)
    with assms show False by (auto intro: worker_step.finish)
  qed
  have "lp_queue s k = []" for k
  proof (cases "lp_queue s k")
    case (Cons i q)
    then have "\<exists>s'. take_next k s = Some s'" by (simp add: take_next_def w workers_per_lane_def)
    with assms show ?thesis by (auto intro: worker_step.take)
  qed simp
  with w show ?thesis by (simp add: left_to_do_def)
qed

text \<open>With nothing left to do after the close, nothing is in the loop's hands.\<close>

lemma drained_empty:
  assumes "loop_reachable s" and "lp_closed s" and "left_to_do s = 0"
  shows "lp_busy s = {} \<and> (\<forall>k. lp_queue s k = [] \<and> lp_working s k = [])"
proof -
  have e: "lp_queue s k = [] \<and> lp_working s k = []" for k using assms(3) by (cases k) (simp_all add: left_to_do_def)
  have "hands_inv s" "room_inv s" using reachable_loop_inv [OF assms(1)] by blast+
  with e assms(2) have "mset_set (lp_busy s) = {#}" "finite (lp_busy s)" by (simp_all add: hands_inv_def room_inv_def in_hands_def)
  with e show ?thesis by (simp add: mset_set_empty_iff)
qed

text \<open>C24: shutdown terminates with everything handed back. From any reachable state in which \<^verbatim>\<open>Run\<close> has closed
  the channels, every run makes at most forty further steps, and where none is possible any more
  both queues are empty, no worker is busy and no operation is marked.\<close>

theorem shutdown_drains:
  assumes "loop_reachable s" and "lp_closed s" and "(loop_step ^^ n) s s'"
  shows "n \<le> 40 \<and> ((\<nexists>t. loop_step s' t) \<longrightarrow>
    lp_busy s' = {} \<and> (\<forall>k. lp_queue s' k = [] \<and> lp_working s' k = []))"
proof -
  have run: "loop_reachable s' \<and> lp_closed s' \<and> left_to_do s' + n \<le> left_to_do s"
    using assms(3)
  proof (induction n arbitrary: s')
    case (Suc n)
    then obtain t where t: "(loop_step ^^ n) s t" "loop_step t s'" by auto
    with Suc.IH have "loop_reachable t" "lp_closed t" "left_to_do t + n \<le> left_to_do s" by blast+
    with t(2) closed_step [OF t(2)] worker_step_decreases [of t s'] show ?case
      by (auto intro: loop_reachable.step)
  qed (use assms in simp)
  have "left_to_do s \<le> 40"
  proof -
    have "room_inv s" using reachable_loop_inv [OF assms(1)] by blast
    then have "length (lp_queue s AbrLane) \<le> 2" "length (lp_queue s LiveLane) \<le> 16" "length (lp_working s AbrLane) \<le> 2" "length (lp_working s LiveLane) \<le> 2"
      unfolding room_inv_def workers_per_lane_def by (metis queue_cap.simps)+
    then show ?thesis by (simp add: left_to_do_def)
  qed
  moreover have "lp_busy s' = {} \<and> (\<forall>k. lp_queue s' k = [] \<and> lp_working s' k = [])" if stuck: "\<nexists>t. loop_step s' t"
  proof -
    have "left_to_do s' = 0" using stuck by (intro stuck_empty) (blast intro: loop_step.work)
    then show ?thesis using drained_empty run by blast
  qed
  moreover have "n \<le> 40" using run \<open>left_to_do s \<le> 40\<close> by linarith
  ultimately show ?thesis by blast
qed

theorem shutdown_drains_witness:
  "\<exists>s'. (loop_step ^^ 1) (one_at_work\<lparr>lp_closed := True\<rparr>) s' \<and> lp_busy s' = {}"
proof -
  let ?s = "one_at_work\<lparr>lp_closed := True\<rparr>"
  let ?t = "?s\<lparr>lp_working := (lp_working ?s)(AbrLane := []), lp_busy := {}\<rparr>"
  have "loop_step one_at_work ?s" by (rule loop_step.close) (simp_all add: one_at_work_def)
  then have r: "loop_reachable ?s" by (rule loop_reachable.step [OF one_at_work_reachable])
  have "finish AbrLane ''op'' ?s = Some ?t" by (simp add: finish_def one_at_work_def)
  then have "loop_step ?s ?t" by (intro loop_step.work worker_step.finish)
  then have t: "(loop_step ^^ 1) ?s ?t" unfolding relpowp_1 .
  have "\<nexists>u. loop_step ?t u"
  proof
    assume "\<exists>u. loop_step ?t u"
    then obtain u where "loop_step ?t u" ..
    moreover have "lp_closed ?t" by simp
    ultimately have "worker_step ?t u" using closed_step by blast
    moreover have "left_to_do ?t = 0" by (simp add: left_to_do_def one_at_work_def)
    ultimately show False using worker_step_decreases [of ?t u] by simp
  qed
  with shutdown_drains [OF r _ t] t show ?thesis by auto
qed

end
