(* ===== verification/RTMP.thy ===== *)
theory RTMP
  imports Paid_Engine
begin

text \<open>
  The RTMP ingest (\<^verbatim>\<open>gateway/internal/rtmp\<close>): a customer's encoder connects, publishes with its
  stream key, and its frames are forwarded to the runner over one outgoing connection.
  \<^verbatim>\<open>auth.go\<close> looks the key up, \<^verbatim>\<open>handler.go\<close> holds a connection's state, \<^verbatim>\<open>relay.go\<close> the outgoing
  connection and \<^verbatim>\<open>server.go\<close> the registry the stop route uses.

  The RTMP library is the environment: the outcome of each of its calls is a field of \<open>renv\<close>,
  by the time of the event. Connections and relays are the objects of the program; a pointer is an
  index into the list of all that were made.
\<close>

section \<open>Stream keys\<close>

record AuthResult =
  a_LiveStreamID :: string
  a_APIKeyID :: string
  a_PrivateIngestURL :: string
  a_BrokerSessionID :: string

text \<open>\<open>resolver\<close> says whether the field \<^verbatim>\<open>Resolver\<close> is set.\<close>

definition AuthenticateStreamKey :: "env \<Rightarrow> bool \<Rightarrow> nat \<Rightarrow> string \<Rightarrow> AuthResult option eng" where
  "AuthenticateStreamKey E resolver patience peppered =
     bindE (db_read E (\<lambda>d. FindActiveByStreamKeyHash peppered (db_live d))) (\<lambda>row. case row of
       None \<Rightarrow> ret None
     | Some r \<Rightarrow> if \<not> resolver then ret None else
         bindE (UpstreamURL E patience (ls_ID r)) (\<lambda>url.
         if url = '''' then ret None
         else ret (Some \<lparr>a_LiveStreamID = ls_ID r, a_APIKeyID = ls_APIKeyID r, a_PrivateIngestURL = url,
           a_BrokerSessionID = (case ls_BrokerSessionID r of None \<Rightarrow> '''' | Some b \<Rightarrow> b)\<rparr>)))"

section \<open>Upstream addresses\<close>

text \<open>\<^verbatim>\<open>(*URL).Port\<close>: the digits after the host's last colon, if there are only digits.\<close>

definition u_Port :: "URL \<Rightarrow> string" where
  "u_Port u = (let r = rev (u_Host u); p = takeWhile (\<lambda>c. digit_val c \<noteq> None) r in
     case dropWhile (\<lambda>c. digit_val c \<noteq> None) r of c # _ \<Rightarrow> if c = CHR '':'' then rev p else '''' | [] \<Rightarrow> '''')"

definition parseRTMPURL :: "URL option \<Rightarrow> string + (string \<times> string \<times> string)" where
  "parseRTMPURL p = (case p of
      None \<Rightarrow> Inl ''invalid upstream RTMP URL''
    | Some u \<Rightarrow>
        if (u_Scheme u \<noteq> ''rtmp'' \<and> u_Scheme u \<noteq> ''rtmps'') \<or> u_Hostname u = '''' \<or> u_HasUser u \<or> u_Fragment u \<noteq> ''''
        then Inl ''invalid upstream RTMP URL''
        else let port = (if u_Port u = '''' then (if u_Scheme u = ''rtmps'' then ''443'' else ''1935'') else u_Port u);
                 path = TrimPrefix (u_Path u) ''/'';
                 (app, streamKey) = Cut1 path (CHR ''/'') in
          if CHR ''/'' \<notin> set path \<or> app = '''' \<or> streamKey = '''' then Inl ''upstream RTMP URL requires app and stream key''
          else Inr (JoinHostPort (u_Hostname u) port, app,
            if u_RawQuery u \<noteq> '''' then streamKey @ ''?'' @ u_RawQuery u else streamKey))"

section \<open>State\<close>

text \<open>\<open>rl_Conn\<close>: the outgoing connection is set. \<open>rl_Sent\<close>: what was written to it, by chunk stream.\<close>

record Relay =
  rl_Host :: string
  rl_App :: string
  rl_StreamKey :: string
  rl_Conn :: bool
  rl_Closed :: bool
  rl_Sent :: "(nat \<times> nat \<times> string) list"

text \<open>\<open>ch_tcp\<close>: the customer's socket has not been closed by the gateway.\<close>

record connHandler =
  ch_authed :: bool
  ch_auth :: "AuthResult option"
  ch_streamKeyHint :: string
  ch_publishStartedAt :: time
  ch_relay :: "nat option"
  ch_closed :: bool
  ch_tcp :: bool

text \<open>\<open>sv_upstreams\<close> counts the outgoing connections that are open.\<close>

record rtmp_server =
  sv_handlers :: "connHandler list"
  sv_relays :: "Relay list"
  sv_activeRelays :: "(string \<times> nat) list"
  sv_activePublishes :: int
  sv_totalAccepted :: int
  sv_totalRejected :: int
  sv_upstreams :: int

text \<open>\<open>rAuth\<close> is the \<^verbatim>\<open>Authenticator\<close>; the other outcomes are the library's: the dial, the three commands
  that open a publish, and a write.\<close>

record renv =
  rPepper :: string
  rHashWithPepper :: "string \<Rightarrow> string \<Rightarrow> string"
  rAuth :: "nat \<Rightarrow> string \<Rightarrow> err + AuthResult option"
  rParse :: "string \<Rightarrow> URL option"
  rCtxDone :: "nat \<Rightarrow> bool"
  rDial :: "nat \<Rightarrow> bool"
  rConnect :: "nat \<Rightarrow> bool"
  rCreateStream :: "nat \<Rightarrow> bool"
  rPublish :: "nat \<Rightarrow> bool"
  rWrite :: "nat \<Rightarrow> bool"
  rClock :: "nat \<Rightarrow> time"

definition server_start :: rtmp_server where
  "server_start = \<lparr>sv_handlers = [], sv_relays = [], sv_activeRelays = [], sv_activePublishes = 0,
     sv_totalAccepted = 0, sv_totalRejected = 0, sv_upstreams = 0\<rparr>"

definition on_handler :: "nat \<Rightarrow> (connHandler \<Rightarrow> connHandler) \<Rightarrow> rtmp_server \<Rightarrow> rtmp_server" where
  "on_handler i f s = s\<lparr>sv_handlers := (sv_handlers s)[i := f (sv_handlers s ! i)]\<rparr>"

definition on_relay :: "nat \<Rightarrow> (Relay \<Rightarrow> Relay) \<Rightarrow> rtmp_server \<Rightarrow> rtmp_server" where
  "on_relay a f s = s\<lparr>sv_relays := (sv_relays s)[a := f (sv_relays s ! a)]\<rparr>"

section \<open>Relay\<close>

text \<open>The connection is closed again when one of the opening commands fails.\<close>

definition DialAndPublish :: "renv \<Rightarrow> nat \<Rightarrow> string \<Rightarrow> rtmp_server \<Rightarrow> (string + nat) \<times> rtmp_server" where
  "DialAndPublish E t upstream s = (case parseRTMPURL (rParse E upstream) of
      Inl e \<Rightarrow> (Inl e, s)
    | Inr (host, app, streamKey) \<Rightarrow>
        if rCtxDone E t then (Inl ''context done'', s)
        else if \<not> rDial E t then (Inl ''rtmp dial'', s)
        else let open' = s\<lparr>sv_upstreams := sv_upstreams s + 1\<rparr>;
                 closed = open'\<lparr>sv_upstreams := sv_upstreams open' - 1\<rparr> in
          if \<not> rConnect E t then (Inl ''rtmp connect'', closed)
          else if \<not> rCreateStream E t then (Inl ''rtmp createStream'', closed)
          else if \<not> rPublish E t then (Inl ''rtmp upstream publish rejected'', closed)
          else (Inr (length (sv_relays s)), open'\<lparr>sv_relays := sv_relays s @
            [\<lparr>rl_Host = host, rl_App = app, rl_StreamKey = streamKey, rl_Conn = True, rl_Closed = False, rl_Sent = []\<rparr>]\<rparr>))"

text \<open>\<open>payload\<close> is what reading the customer's frame gives.\<close>

definition write_frame :: "nat \<Rightarrow> renv \<Rightarrow> nat \<Rightarrow> nat \<Rightarrow> nat \<Rightarrow> string + string \<Rightarrow> rtmp_server \<Rightarrow> (string + unit) \<times> rtmp_server" where
  "write_frame chunk E t a timestamp payload s = (let r = sv_relays s ! a in
     if rl_Closed r \<or> \<not> rl_Conn r then (Inl ''relay closed'', s)
     else case payload of
         Inl e \<Rightarrow> (Inl e, s)
       | Inr buf \<Rightarrow> if \<not> rWrite E t then (Inl ''write'', s)
           else (Inr (), on_relay a (\<lambda>r. r\<lparr>rl_Sent := rl_Sent r @ [(chunk, timestamp, buf)]\<rparr>) s))"

definition WriteAudio :: "renv \<Rightarrow> nat \<Rightarrow> nat \<Rightarrow> nat \<Rightarrow> string + string \<Rightarrow> rtmp_server \<Rightarrow> (string + unit) \<times> rtmp_server" where
  "WriteAudio = write_frame 6"

definition WriteVideo :: "renv \<Rightarrow> nat \<Rightarrow> nat \<Rightarrow> nat \<Rightarrow> string + string \<Rightarrow> rtmp_server \<Rightarrow> (string + unit) \<times> rtmp_server" where
  "WriteVideo = write_frame 7"

definition RelayClose :: "nat \<Rightarrow> rtmp_server \<Rightarrow> rtmp_server" where
  "RelayClose a s = (let r = sv_relays s ! a in
     if rl_Closed r then s
     else let closed = on_relay a (\<lambda>r. r\<lparr>rl_Closed := True\<rparr>) s in
       if rl_Conn r then on_relay a (\<lambda>r. r\<lparr>rl_Conn := False\<rparr>) (closed\<lparr>sv_upstreams := sv_upstreams s - 1\<rparr>) else closed)"

section \<open>Registry\<close>

definition unregister :: "string \<Rightarrow> rtmp_server \<Rightarrow> rtmp_server" where
  "unregister lid s = s\<lparr>sv_activeRelays := filter (\<lambda>(k, _). k \<noteq> lid) (sv_activeRelays s)\<rparr>"

definition registerRelay :: "string \<Rightarrow> nat \<Rightarrow> rtmp_server \<Rightarrow> rtmp_server" where
  "registerRelay lid i s = (if lid = '''' then s
     else (unregister lid s)\<lparr>sv_activeRelays := (lid, i) # sv_activeRelays (unregister lid s)\<rparr>)"

definition deregisterRelay :: "string \<Rightarrow> nat \<Rightarrow> rtmp_server \<Rightarrow> rtmp_server" where
  "deregisterRelay lid i s = (if lid = '''' then s
     else if map_of (sv_activeRelays s) lid = Some i then unregister lid s else s)"

section \<open>Connections\<close>

definition lastFour :: "string \<Rightarrow> string" where
  "lastFour k = (if length k \<le> 4 then k else drop (length k - 4) k)"

definition newConnHandler :: connHandler where
  "newConnHandler = \<lparr>ch_authed = False, ch_auth = None, ch_streamKeyHint = '''', ch_publishStartedAt = 0,
     ch_relay = None, ch_closed = False, ch_tcp = True\<rparr>"

definition accept_conn :: "rtmp_server \<Rightarrow> rtmp_server" where
  "accept_conn s = s\<lparr>sv_totalAccepted := sv_totalAccepted s + 1, sv_handlers := sv_handlers s @ [newConnHandler]\<rparr>"

definition OnConnect :: "string \<Rightarrow> string + unit" where
  "OnConnect app = (if app \<noteq> ''live'' then Inl ''invalid RTMP application'' else Inr ())"

definition reject :: "string \<Rightarrow> rtmp_server \<Rightarrow> (string + unit) \<times> rtmp_server" where
  "reject e s = (Inl e, s\<lparr>sv_totalRejected := sv_totalRejected s + 1\<rparr>)"

definition unauth :: "nat \<Rightarrow> rtmp_server \<Rightarrow> rtmp_server" where
  "unauth i s = on_handler i (\<lambda>h. h\<lparr>ch_authed := False\<rparr>) (s\<lparr>sv_activePublishes := sv_activePublishes s - 1\<rparr>)"

definition open_relay :: "renv \<Rightarrow> nat \<Rightarrow> nat \<Rightarrow> AuthResult \<Rightarrow> rtmp_server \<Rightarrow> (string + unit) \<times> rtmp_server" where
  "open_relay E t i r s = (if a_PrivateIngestURL r = '''' then (Inl ''session not ready'', unauth i s)
     else case DialAndPublish E t (a_PrivateIngestURL r) s of
         (Inl _, s) \<Rightarrow> (Inl ''upstream open failed'', unauth i s)
       | (Inr a, s) \<Rightarrow> (Inr (), registerRelay (a_LiveStreamID r) i (on_handler i (\<lambda>h. h\<lparr>ch_relay := Some a\<rparr>) s)))"

definition OnPublish :: "renv \<Rightarrow> nat \<Rightarrow> nat \<Rightarrow> string \<Rightarrow> rtmp_server \<Rightarrow> (string + unit) \<times> rtmp_server" where
  "OnPublish E t i name s = (let rawKey = TrimSpace name in
     if rawKey = '''' then reject ''missing stream key'' s
     else let s = on_handler i (\<lambda>h. h\<lparr>ch_streamKeyHint := lastFour rawKey\<rparr>) s in
       case rAuth E t (rHashWithPepper E rawKey (rPepper E)) of
         Inl _ \<Rightarrow> reject ''auth error'' s
       | Inr None \<Rightarrow> reject ''unknown stream key'' s
       | Inr (Some r) \<Rightarrow> open_relay E t i r
           (on_handler i (\<lambda>h. h\<lparr>ch_authed := True, ch_auth := Some r, ch_publishStartedAt := rClock E t\<rparr>)
             (s\<lparr>sv_activePublishes := sv_activePublishes s + 1\<rparr>)))"

text \<open>A frame of a connection without a relay is read and dropped.\<close>

definition OnAudio :: "renv \<Rightarrow> nat \<Rightarrow> nat \<Rightarrow> nat \<Rightarrow> string + string \<Rightarrow> rtmp_server \<Rightarrow> (string + unit) \<times> rtmp_server" where
  "OnAudio E t i timestamp payload s = (case ch_relay (sv_handlers s ! i) of
      None \<Rightarrow> (Inr (), s) | Some a \<Rightarrow> WriteAudio E t a timestamp payload s)"

definition OnVideo :: "renv \<Rightarrow> nat \<Rightarrow> nat \<Rightarrow> nat \<Rightarrow> string + string \<Rightarrow> rtmp_server \<Rightarrow> (string + unit) \<times> rtmp_server" where
  "OnVideo E t i timestamp payload s = (case ch_relay (sv_handlers s ! i) of
      None \<Rightarrow> (Inr (), s) | Some a \<Rightarrow> WriteVideo E t a timestamp payload s)"

definition teardown :: "nat \<Rightarrow> rtmp_server \<Rightarrow> rtmp_server" where
  "teardown i s = (let h = sv_handlers s ! i in
     if ch_closed h then s
     else let s1 = on_handler i (\<lambda>h. h\<lparr>ch_closed := True\<rparr>) s;
              s2 = (case ch_relay h of None \<Rightarrow> s1 | Some a \<Rightarrow> on_handler i (\<lambda>h. h\<lparr>ch_relay := None\<rparr>) (RelayClose a s1));
              s3 = (case ch_auth h of None \<Rightarrow> s2 | Some r \<Rightarrow> deregisterRelay (a_LiveStreamID r) i s2) in
       if ch_authed h then s3\<lparr>sv_activePublishes := sv_activePublishes s3 - 1\<rparr> else s3)"

definition OnClose :: "nat \<Rightarrow> rtmp_server \<Rightarrow> rtmp_server" where
  "OnClose = teardown"

definition shutdown :: "nat \<Rightarrow> rtmp_server \<Rightarrow> rtmp_server" where
  "shutdown i s = on_handler i (\<lambda>h. h\<lparr>ch_tcp := False\<rparr>) (teardown i s)"

definition CloseSession :: "string \<Rightarrow> rtmp_server \<Rightarrow> bool \<times> rtmp_server" where
  "CloseSession lid s = (case map_of (sv_activeRelays s) lid of
      None \<Rightarrow> (False, s)
    | Some i \<Rightarrow> (True, shutdown i (unregister lid s)))"

text \<open>What \<^verbatim>\<open>Run\<close> does when its context ends: every registered session is closed.\<close>

definition close_all :: "rtmp_server \<Rightarrow> rtmp_server" where
  "close_all s = fold (\<lambda>(lid, _) s. snd (CloseSession lid s)) (sv_activeRelays s) s"

end
