(* ===== verification/Catalog.thy ===== *)
theory Catalog
  imports Repo_Types "HOL-Library.Char_ord" "HOL-Library.List_Lexorder" "HOL-Library.Product_Lexorder"
begin

text \<open>
  The capability catalog: the table of \<^verbatim>\<open>repo/capabilities.go\<close> and the refresh cycle of
  \<^verbatim>\<open>registry/refresh.go\<close> that replaces its snapshot from LOC's discovery feed. JSON columns are
  their texts. Text is ordered by bytes.
\<close>

section \<open>Rows\<close>

record Capability =
  cap_Protocol :: string
  cap_WorkUnit :: string
  cap_UnitsPerPrice :: "int option"
  cap_WorkUnitEstimatorJSON :: "string option"
  cap_JobJSON :: "string option"
  cap_SessionJSON :: "string option"
  cap_CapabilityID :: string
  cap_Capability :: string
  cap_Offering :: string
  cap_InteractionMode :: "string option"
  cap_Name :: "string option"
  cap_Description :: "string option"
  cap_Provider :: "string option"
  cap_Category :: "string option"
  cap_EthAddress :: "string option"
  cap_PricePerWorkUnitWei :: "wei option"
  cap_BrokerURL :: "string option"
  cap_ExtraJSON :: "string option"
  cap_ConstraintsJSON :: "string option"
  cap_Active :: bool
  cap_SnapshotAt :: time

record UpsertCapability =
  uc_Protocol :: string
  uc_WorkUnit :: string
  uc_UnitsPerPrice :: "int option"
  uc_WorkUnitEstimatorJSON :: "string option"
  uc_JobJSON :: "string option"
  uc_SessionJSON :: "string option"
  uc_CapabilityID :: string
  uc_Capability :: string
  uc_Offering :: string
  uc_InteractionMode :: string
  uc_Name :: string
  uc_Description :: string
  uc_Provider :: string
  uc_Category :: string
  uc_EthAddress :: string
  uc_PricePerWorkUnitWei :: "wei option"
  uc_BrokerURL :: string
  uc_ExtraJSON :: "string option"
  uc_ConstraintsJSON :: "string option"

type_synonym capabilities = "Capability list"

text \<open>The row the upsert writes, whether it inserts or updates.\<close>

definition upsert_row :: "time \<Rightarrow> UpsertCapability \<Rightarrow> Capability" where
  "upsert_row now c = \<lparr>cap_Protocol = uc_Protocol c, cap_WorkUnit = uc_WorkUnit c,
     cap_UnitsPerPrice = uc_UnitsPerPrice c, cap_WorkUnitEstimatorJSON = uc_WorkUnitEstimatorJSON c,
     cap_JobJSON = uc_JobJSON c, cap_SessionJSON = uc_SessionJSON c, cap_CapabilityID = uc_CapabilityID c,
     cap_Capability = uc_Capability c, cap_Offering = uc_Offering c,
     cap_InteractionMode = nullif_empty (uc_InteractionMode c), cap_Name = nullif_empty (uc_Name c),
     cap_Description = nullif_empty (uc_Description c), cap_Provider = nullif_empty (uc_Provider c),
     cap_Category = nullif_empty (uc_Category c), cap_EthAddress = nullif_empty (uc_EthAddress c),
     cap_PricePerWorkUnitWei = uc_PricePerWorkUnitWei c, cap_BrokerURL = nullif_empty (uc_BrokerURL c),
     cap_ExtraJSON = uc_ExtraJSON c, cap_ConstraintsJSON = uc_ConstraintsJSON c,
     cap_Active = True, cap_SnapshotAt = now\<rparr>"

text \<open>Column types and constraints: \<^verbatim>\<open>numeric(78,0)\<close> price, positive \<^verbatim>\<open>numeric(20,0)\<close> denominator.\<close>

definition upsert_admissible :: "UpsertCapability \<Rightarrow> bool" where
  "upsert_admissible c \<longleftrightarrow>
     (case uc_PricePerWorkUnitWei c of None \<Rightarrow> True | Some p \<Rightarrow> \<bar>p\<bar> < 10 ^ 78) \<and>
     (case uc_UnitsPerPrice c of None \<Rightarrow> True | Some n \<Rightarrow> 0 < n \<and> n < 10 ^ 20)"

section \<open>Repository\<close>

definition upsert :: "time \<Rightarrow> UpsertCapability \<Rightarrow> capabilities \<Rightarrow> capabilities" where
  "upsert now c t = (if uc_CapabilityID c \<in> set (map cap_CapabilityID t)
     then sql_update (\<lambda>r. cap_CapabilityID r = uc_CapabilityID c) (\<lambda>_. upsert_row now c) t
     else t @ [upsert_row now c])"

definition deactivate_row :: "Capability \<Rightarrow> Capability" where
  "deactivate_row r = r\<lparr>cap_Active := False\<rparr>"

text \<open>One transaction: \<^const>\<open>None\<close> when a row violates a constraint and everything rolls back.\<close>

definition ReplaceSnapshot :: "time \<Rightarrow> UpsertCapability list \<Rightarrow> capabilities \<Rightarrow> capabilities option" where
  "ReplaceSnapshot now rows t =
     (if list_all upsert_admissible rows then Some (fold (upsert now) rows (sql_update cap_Active deactivate_row t))
      else None)"

definition ListActive :: "capabilities \<Rightarrow> Capability list" where
  "ListActive t = sort_key (\<lambda>r. (cap_Capability r, cap_Offering r)) (filter cap_Active t)"

text \<open>\<^verbatim>\<open>to_timestamp(0)\<close>, 1970, counted from the zero time.\<close>

definition unix_epoch :: time where
  "unix_epoch = 62135596800 * second"

definition LastSnapshot :: "capabilities \<Rightarrow> time" where
  "LastSnapshot t = (if t = [] then unix_epoch else Max (set (map cap_SnapshotAt t)))"

record RefreshMeta =
  rm_LastRefreshAt :: time
  rm_LastOutcome :: string
  rm_LastError :: "string option"
  rm_RowsMatched :: nat
  rm_CapabilityFilter :: "string list"

definition RecordRefresh :: "time \<Rightarrow> string \<Rightarrow> string \<Rightarrow> nat \<Rightarrow> string list \<Rightarrow> RefreshMeta" where
  "RecordRefresh now outcome errMsg n flt = \<lparr>rm_LastRefreshAt = now, rm_LastOutcome = outcome,
     rm_LastError = nullif_empty errMsg, rm_RowsMatched = n, rm_CapabilityFilter = flt\<rparr>"

section \<open>Refresh\<close>

record Offering =
  off_ID :: string
  off_Protocol :: string
  off_UnitsPerPrice :: "int option"
  off_WorkUnitEstimator :: "string option"
  off_Job :: "string option"
  off_Session :: "string option"
  off_Extra :: "string option"
  off_PricePerWorkUnitWei :: "wei option"
  off_WorkUnit :: string

record LocCapability =
  lc_Name :: string
  lc_WorkUnit :: string
  lc_Offerings :: "Offering list"
  lc_WorkUnitEstimator :: "string option"

definition matchesFilter :: "string \<Rightarrow> string list \<Rightarrow> bool" where
  "matchesFilter capab flt = (if flt = [] then True else list_ex (\<lambda>c. c = capab) flt)"

definition offering_row :: "LocCapability \<Rightarrow> Offering \<Rightarrow> UpsertCapability" where
  "offering_row c f = \<lparr>uc_Protocol = off_Protocol f, uc_WorkUnit = off_WorkUnit f,
     uc_UnitsPerPrice = off_UnitsPerPrice f, uc_WorkUnitEstimatorJSON = off_WorkUnitEstimator f,
     uc_JobJSON = off_Job f, uc_SessionJSON = off_Session f, uc_CapabilityID = lc_Name c @ '':'' @ off_ID f,
     uc_Capability = lc_Name c, uc_Offering = off_ID f, uc_InteractionMode = '''', uc_Name = lc_Name c,
     uc_Description = '''', uc_Provider = '''', uc_Category = ''transcode'', uc_EthAddress = '''',
     uc_PricePerWorkUnitWei = off_PricePerWorkUnitWei f, uc_BrokerURL = '''', uc_ExtraJSON = off_Extra f,
     uc_ConstraintsJSON = None\<rparr>"

fun buildRows :: "LocCapability list \<Rightarrow> string list \<Rightarrow> UpsertCapability list" where
  "buildRows [] flt = []"
| "buildRows (c # cs) flt = (if \<not> matchesFilter (lc_Name c) flt then buildRows cs flt
     else map (offering_row c) (lc_Offerings c) @ buildRows cs flt)"

record catalog =
  ct_rows :: capabilities
  ct_meta :: RefreshMeta

text \<open>\<^verbatim>\<open>Refresher.Once\<close>: \<open>feed\<close> is LOC's answer, an error being its text.\<close>

definition Once :: "time \<Rightarrow> string + LocCapability list \<Rightarrow> string list \<Rightarrow> catalog \<Rightarrow> (string + unit) \<times> catalog" where
  "Once now feed flt ct = (case feed of
      Inl e \<Rightarrow> (Inl (''loc list capabilities: '' @ e), ct\<lparr>ct_meta := RecordRefresh now ''error'' e 0 flt\<rparr>)
    | Inr caps \<Rightarrow>
        let rows = buildRows caps flt in
        (case ReplaceSnapshot now rows (ct_rows ct) of
           None \<Rightarrow> (Inl ''upsert snapshot: violates check constraint'',
                    ct\<lparr>ct_meta := RecordRefresh now ''error'' ''violates check constraint'' (length rows) flt\<rparr>)
         | Some t \<Rightarrow> (Inr (), ct\<lparr>ct_rows := t, ct_meta := RecordRefresh now ''ok'' '''' (length rows) flt\<rparr>)))"

section \<open>Facts\<close>

interpretation deactivate_id: keyed_update cap_CapabilityID deactivate_row
  by unfold_locales (simp add: deactivate_row_def)

definition catalog_keys :: "capabilities \<Rightarrow> bool" where
  "catalog_keys t \<longleftrightarrow> distinct (map cap_CapabilityID t)"

lemma upsert_keys: "catalog_keys t \<Longrightarrow> catalog_keys (upsert now c t)"
proof -
  assume k: "catalog_keys t"
  have "map cap_CapabilityID (sql_update (\<lambda>r. cap_CapabilityID r = uc_CapabilityID c) (\<lambda>_. upsert_row now c) t)
      = map cap_CapabilityID t"
    by (induction t) (auto simp: upsert_row_def)
  with k show ?thesis by (auto simp: catalog_keys_def upsert_def) (auto simp: upsert_row_def)
qed

lemma upsert_lookup:
  "row_by cap_CapabilityID k (upsert now c t) =
     (if k = uc_CapabilityID c then Some (upsert_row now c) else row_by cap_CapabilityID k t)"
proof -
  have upd: "row_by cap_CapabilityID k (sql_update (\<lambda>r. cap_CapabilityID r = uc_CapabilityID c) (\<lambda>_. upsert_row now c) t) =
      (if k = uc_CapabilityID c then (if k \<in> cap_CapabilityID ` set t then Some (upsert_row now c) else None)
       else row_by cap_CapabilityID k t)"
    by (induction t) (auto simp: upsert_row_def)
  have ins: "row_by cap_CapabilityID k (t @ [upsert_row now c]) =
      (if k = uc_CapabilityID c then Some (upsert_row now c) else row_by cap_CapabilityID k t)"
    if "uc_CapabilityID c \<notin> cap_CapabilityID ` set t"
    using that by (induction t) (auto simp: upsert_row_def)
  show ?thesis using upd ins by (auto simp: upsert_def)
qed

definition last_upsert :: "string \<Rightarrow> UpsertCapability list \<Rightarrow> UpsertCapability option" where
  "last_upsert k rows = find (\<lambda>c. uc_CapabilityID c = k) (rev rows)"

lemma last_upsert_append: "last_upsert k (rows @ [c]) = (if uc_CapabilityID c = k then Some c else last_upsert k rows)"
  by (simp add: last_upsert_def)

lemma fold_upsert_lookup:
  "row_by cap_CapabilityID k (fold (upsert now) rows t) =
     (case last_upsert k rows of Some c \<Rightarrow> Some (upsert_row now c) | None \<Rightarrow> row_by cap_CapabilityID k t)"
  by (induction rows rule: rev_induct) (auto simp: last_upsert_append upsert_lookup last_upsert_def)

lemma fold_upsert_keys: "catalog_keys t \<Longrightarrow> catalog_keys (fold (upsert now) rows t)"
  by (induction rows arbitrary: t) (auto simp: upsert_keys)

lemma ReplaceSnapshot_lookup:
  assumes "ReplaceSnapshot now rows t = Some t'"
  shows "row_by cap_CapabilityID k t' = (case last_upsert k rows of Some c \<Rightarrow> Some (upsert_row now c)
     | None \<Rightarrow> map_option deactivate_row (row_by cap_CapabilityID k t))"
proof -
  have deact: "(if cap_Active r then deactivate_row r else r) = deactivate_row r" for r
    by (cases r) (simp add: deactivate_row_def)
  from assms show ?thesis
    by (auto simp: ReplaceSnapshot_def fold_upsert_lookup deactivate_id.row_after deact split: if_splits option.split)
qed

section \<open>Properties\<close>

text \<open>C15: a refresh makes exactly the advertised offerings available. After a snapshot that was
  accepted, on a table whose ids are unique, an id is active if and only if the snapshot has it,
  with the content of the snapshot's last row for it; every other row that was there is still there,
  inactive and otherwise unchanged, and ids stay unique.\<close>

theorem ReplaceSnapshot_exact:
  assumes "catalog_keys t" and "ReplaceSnapshot now rows t = Some t'"
  shows "catalog_keys t' \<and> (\<forall>r. r \<in> set t' \<and> cap_Active r \<longleftrightarrow>
    (\<exists>c. last_upsert (cap_CapabilityID r) rows = Some c \<and> r = upsert_row now c)) \<and>
    (\<forall>r \<in> set t. last_upsert (cap_CapabilityID r) rows = None \<longrightarrow> r\<lparr>cap_Active := False\<rparr> \<in> set t')"
proof -
  have keys: "catalog_keys t'"
    using assms fold_upsert_keys [of "sql_update cap_Active deactivate_row t"]
    by (auto simp: ReplaceSnapshot_def catalog_keys_def deactivate_id.keys_kept split: if_splits)
  have "r \<in> set t' \<longleftrightarrow> row_by cap_CapabilityID (cap_CapabilityID r) t' = Some r" for r
    using keys row_by_distinct [of cap_CapabilityID t' r] by (auto simp: catalog_keys_def dest: row_by_SomeD)
  with keys have exact: "catalog_keys t' \<and> (\<forall>r. r \<in> set t' \<and> cap_Active r \<longleftrightarrow>
    (\<exists>c. last_upsert (cap_CapabilityID r) rows = Some c \<and> r = upsert_row now c))"
    by (auto simp: ReplaceSnapshot_lookup [OF assms(2)] split: option.splits)
       (auto simp: deactivate_row_def upsert_row_def)
  have "r\<lparr>cap_Active := False\<rparr> \<in> set t'" if "r \<in> set t" "last_upsert (cap_CapabilityID r) rows = None" for r
  proof -
    have "row_by cap_CapabilityID (cap_CapabilityID r) t = Some r"
      using assms(1) that(1) by (simp add: catalog_keys_def row_by_distinct)
    then have "row_by cap_CapabilityID (cap_CapabilityID r) t' = Some (r\<lparr>cap_Active := False\<rparr>)"
      by (simp add: ReplaceSnapshot_lookup [OF assms(2)] that(2) deactivate_row_def)
    then show ?thesis by (auto dest: row_by_SomeD)
  qed
  with exact show ?thesis by blast
qed

definition sample_upsert :: UpsertCapability where
  "sample_upsert = offering_row \<lparr>lc_Name = ''video:live'', lc_WorkUnit = '''', lc_Offerings = [], lc_WorkUnitEstimator = None\<rparr>
     \<lparr>off_ID = ''relay'', off_Protocol = ''paid-session/v1'', off_UnitsPerPrice = Some 1, off_WorkUnitEstimator = None,
      off_Job = None, off_Session = None, off_Extra = None, off_PricePerWorkUnitWei = Some 7, off_WorkUnit = ''output_seconds''\<rparr>"

theorem ReplaceSnapshot_exact_witness:
  "ReplaceSnapshot 9 [sample_upsert] [] = Some [upsert_row 9 sample_upsert] \<and> catalog_keys [upsert_row 9 sample_upsert] \<and>
   cap_Active (upsert_row 9 sample_upsert)"
proof -
  have "ReplaceSnapshot 9 [sample_upsert] [] = Some [upsert_row 9 sample_upsert]"
    by (simp add: ReplaceSnapshot_def upsert_def upsert_admissible_def sample_upsert_def offering_row_def)
  with ReplaceSnapshot_exact [of "[]" 9 "[sample_upsert]" "[upsert_row 9 sample_upsert]"] show ?thesis
    by (simp add: catalog_keys_def upsert_row_def)
qed

text \<open>A failed refresh never touches the catalog. Whether LOC could not be asked or one row was
  inadmissible, the rows stay as they were and the failure is recorded as an error.\<close>

theorem Once_failure_keeps_catalog:
  assumes "Once now feed flt ct = (Inl e, ct')"
  shows "ct_rows ct' = ct_rows ct \<and> rm_LastOutcome (ct_meta ct') = ''error''"
  using assms by (auto simp: Once_def RecordRefresh_def Let_def split: sum.splits option.splits)

theorem Once_failure_keeps_catalog_witness:
  "ct_rows (snd (Once 9 (Inl ''timeout'') [] \<lparr>ct_rows = [upsert_row 3 sample_upsert], ct_meta = RecordRefresh 3 ''ok'' '''' 1 []\<rparr>)) =
    [upsert_row 3 sample_upsert]"
proof -
  let ?ct = "\<lparr>ct_rows = [upsert_row 3 sample_upsert], ct_meta = RecordRefresh 3 ''ok'' '''' 1 []\<rparr>"
  have "Once 9 (Inl ''timeout'') [] ?ct = (Inl (''loc list capabilities: '' @ ''timeout''), snd (Once 9 (Inl ''timeout'') [] ?ct))"
    by (simp add: Once_def)
  from Once_failure_keeps_catalog [OF this] show ?thesis by simp
qed

end
