(* ===== verification/Object_Store.thy ===== *)
theory Object_Store
  imports Upstream
begin

text \<open>
  \<^verbatim>\<open>internal/s3/client.go\<close> and the key arithmetic of the handlers that use it: object keys and
  their public URLs, the presigned upload, the path cleaning that builds upload keys. The AWS
  SDK is a parameter: signing a PUT and the token service. The calls that reach the store are in
  Object\_Access.
\<close>

section \<open>Client\<close>

record S3Client =
  sc_bucket :: string
  sc_region :: string
  sc_internalEndpoint :: string
  sc_publicEndpoint :: string
  sc_presignTTL :: int

text \<open>\<^verbatim>\<open>New\<close>: no credentials give no client and no error.\<close>

definition NewS3 :: "string \<Rightarrow> string \<Rightarrow> string \<Rightarrow> string \<Rightarrow> string \<Rightarrow> string \<Rightarrow> int \<Rightarrow> err + S3Client option" where
  "NewS3 region endpoint publicEndpoint bucket accessKey secret ttlSecs =
     (if accessKey = '''' \<or> secret = '''' then Inr None
      else if endpoint = '''' then Inl (Msg ''s3: endpoint required'')
      else if bucket = '''' then Inl (Msg ''s3: bucket required'')
      else let pub = (if publicEndpoint = '''' then endpoint else publicEndpoint);
               ttl = wrap64 (ttlSecs * second)
           in Inr (Some \<lparr>sc_bucket = bucket, sc_region = region, sc_internalEndpoint = endpoint,
                sc_publicEndpoint = TrimRight1 pub (CHR ''/''), sc_presignTTL = (if ttl \<le> 0 then 3600 * second else ttl)\<rparr>))"

definition PublicObjectURL :: "S3Client \<Rightarrow> string \<Rightarrow> string" where
  "PublicObjectURL c key = sc_publicEndpoint c @ ''/'' @ sc_bucket c @ ''/'' @ key"

definition PublicHLSMasterURL :: "S3Client \<Rightarrow> string \<Rightarrow> string" where
  "PublicHLSMasterURL c keyPrefix =
     sc_publicEndpoint c @ ''/'' @ sc_bucket c @ ''/'' @ TrimRight1 keyPrefix (CHR ''/'') @ ''/master.m3u8''"

definition KeyFromURL :: "S3Client \<Rightarrow> string \<Rightarrow> string" where
  "KeyFromURL c url = (let pre = sc_publicEndpoint c @ ''/'' @ sc_bucket c @ ''/'' in
     if \<not> HasPrefix url pre then '''' else TrimPrefix url pre)"

record PresignedPut =
  pp_UploadURL :: string
  pp_ObjectURL :: string
  pp_ExpiresAt :: time

text \<open>\<open>sign\<close> is the SDK's presigner for bucket, key, content type and lifetime.\<close>

definition PresignPut :: "(string \<Rightarrow> string \<Rightarrow> string \<Rightarrow> int \<Rightarrow> err + string) \<Rightarrow> time \<Rightarrow> S3Client \<Rightarrow> string \<Rightarrow> string \<Rightarrow> err + PresignedPut" where
  "PresignPut sign now c key contentType = (case sign (sc_bucket c) key contentType (sc_presignTTL c) of
      Inl e \<Rightarrow> Inl e
    | Inr url \<Rightarrow> Inr \<lparr>pp_UploadURL = url, pp_ObjectURL = PublicObjectURL c key, pp_ExpiresAt = now + sc_presignTTL c\<rparr>)"

definition session_name_char :: "char \<Rightarrow> bool" where
  "session_name_char c \<longleftrightarrow> (let n = (of_char c :: nat) in
     (97 \<le> n \<and> n \<le> 122) \<or> (65 \<le> n \<and> n \<le> 90) \<or> (48 \<le> n \<and> n \<le> 57) \<or>
     c \<in> {CHR ''+'', CHR ''='', CHR '','', CHR ''.'', CHR ''@'', CHR ''-'', CHR ''_''})"

definition safeSessionName :: "string \<Rightarrow> string" where
  "safeSessionName s = (let out = map (\<lambda>c. if session_name_char c then c else CHR ''-'') (take 64 s) in
     if length out < 2 then out @ ''--'' else out)"

text \<open>
  \<^verbatim>\<open>MintLiveSessionCredentials\<close>: the keys of one live session. \<open>assume_role\<close> is the token service for
  session name, seconds and policy; each field of its answer may be absent. A nil client is \<open>None\<close>.
\<close>

record RoleCredentials =
  cred_AccessKeyId :: "string option"
  cred_SecretAccessKey :: "string option"
  cred_SessionToken :: "string option"
  cred_Expiration :: "time option"

record LiveSessionCredentials =
  lsc_Endpoint :: string
  lsc_Region :: string
  lsc_Bucket :: string
  lsc_KeyPrefix :: string
  lsc_AccessKeyID :: string
  lsc_SecretAccessKey :: string
  lsc_SessionToken :: string
  lsc_ExpiresAt :: time

definition clamp_ttl :: "int \<Rightarrow> int" where
  "clamp_ttl ttl = (let t = (if ttl < 15 * (60 * second) then 15 * (60 * second) else ttl) in
     if t > 7 * 24 * (3600 * second) then 7 * 24 * (3600 * second) else t)"

definition inline_policy :: "string \<Rightarrow> string \<Rightarrow> string" where
  "inline_policy bucket keyPrefix =
     (let nl = [CHR 0x0A]; q = [CHR 0x22] in
      ''{'' @ nl @
      ''  '' @ q @ ''Version'' @ q @ '': '' @ q @ ''2012-10-17'' @ q @ '','' @ nl @
      ''  '' @ q @ ''Statement'' @ q @ '': ['' @ nl @
      ''    {'' @ nl @
      ''      '' @ q @ ''Effect'' @ q @ '': '' @ q @ ''Allow'' @ q @ '','' @ nl @
      ''      '' @ q @ ''Action'' @ q @ '': ['' @ q @ ''s3:PutObject'' @ q @ '', '' @ q @ ''s3:DeleteObject'' @ q @ '', '' @
        q @ ''s3:AbortMultipartUpload'' @ q @ ''],'' @ nl @
      ''      '' @ q @ ''Resource'' @ q @ '': ['' @ q @ ''arn:aws:s3:::'' @ bucket @ ''/'' @ keyPrefix @ ''/*'' @ q @ '']'' @ nl @
      ''    }'' @ nl @
      ''  ]'' @ nl @
      ''}'')"

definition MintLiveSessionCredentials :: "(string \<Rightarrow> int \<Rightarrow> string \<Rightarrow> err + RoleCredentials option) \<Rightarrow> time \<Rightarrow> S3Client option \<Rightarrow> string \<Rightarrow> int \<Rightarrow>
    err + LiveSessionCredentials" where
  "MintLiveSessionCredentials assume_role now s3 keyPrefix ttl = (case s3 of
      None \<Rightarrow> Inl (Msg ''s3 not configured'')
    | Some c \<Rightarrow>
        if keyPrefix = '''' then Inl (Msg ''s3: keyPrefix required'')
        else let t = clamp_ttl ttl; pre = TrimRight1 keyPrefix (CHR ''/'') in
          (case assume_role (safeSessionName (''gw-live-'' @ pre)) (t div second) (inline_policy (sc_bucket c) pre) of
             Inl e \<Rightarrow> Inl e
           | Inr None \<Rightarrow> Inl (Msg ''s3: STS AssumeRole returned incomplete credentials'')
           | Inr (Some r) \<Rightarrow> (case (cred_AccessKeyId r, cred_SecretAccessKey r, cred_SessionToken r) of
               (Some k, Some x, Some token) \<Rightarrow> Inr \<lparr>
                 lsc_Endpoint = (if sc_publicEndpoint c = '''' then sc_internalEndpoint c else sc_publicEndpoint c),
                 lsc_Region = sc_region c, lsc_Bucket = sc_bucket c, lsc_KeyPrefix = pre, lsc_AccessKeyID = k,
                 lsc_SecretAccessKey = x, lsc_SessionToken = token,
                 lsc_ExpiresAt = (case cred_Expiration r of None \<Rightarrow> now + t | Some e \<Rightarrow> e)\<rparr>
             | _ \<Rightarrow> Inl (Msg ''s3: STS AssumeRole returned incomplete credentials''))))"

text \<open>The token service's limits: 2 to 64 characters of its alphabet, 900 to 604800 seconds.\<close>

lemma safeSessionName_valid:
  "2 \<le> length (safeSessionName s) \<and> length (safeSessionName s) \<le> 64 \<and> list_all session_name_char (safeSessionName s)"
  by (auto simp: safeSessionName_def Let_def list_all_iff session_name_char_def)

lemma clamp_ttl_bounds: "900 \<le> clamp_ttl ttl div second \<and> clamp_ttl ttl div second \<le> 604800"
  by (auto simp: clamp_ttl_def Let_def)

section \<open>Paths\<close>

text \<open>The segments of a slash-separated path; \<^verbatim>\<open>path.Clean\<close> drops empty and dot segments and lets
  a double dot remove its predecessor.\<close>

fun split_slash :: "string \<Rightarrow> string list" where
  "split_slash [] = [[]]"
| "split_slash (c # cs) = (if c = CHR ''/'' then [] # split_slash cs
     else (case split_slash cs of s # ss \<Rightarrow> (c # s) # ss | [] \<Rightarrow> [[c]]))"

definition clean_step :: "bool \<Rightarrow> string \<Rightarrow> string list \<Rightarrow> string list" where
  "clean_step rooted seg acc =
     (if seg = '''' \<or> seg = ''.'' then acc
      else if seg = ''..'' then
        (if acc \<noteq> [] \<and> last acc \<noteq> ''..'' then butlast acc else if rooted then acc else acc @ [''..''])
      else acc @ [seg])"

definition path_Clean :: "string \<Rightarrow> string" where
  "path_Clean p = (if p = '''' then ''.''
     else let rooted = (hd p = CHR ''/'');
              segs = fold (clean_step rooted) (split_slash p) [];
              body = Join1 segs (CHR ''/'')
          in if rooted then CHR ''/'' # body else if segs = [] then ''.'' else body)"

definition path_Join :: "string list \<Rightarrow> string" where
  "path_Join ps = (let qs = filter (\<lambda>p. p \<noteq> '''') ps in if qs = [] then '''' else path_Clean (Join1 qs (CHR ''/'')))"

text \<open>\<^verbatim>\<open>strings.ReplaceAll(s, "..", "")\<close>.\<close>

fun drop_dotdot :: "string \<Rightarrow> string" where
  "drop_dotdot (a # b # cs) = (if a = CHR ''.'' \<and> b = CHR ''.'' then drop_dotdot cs else a # drop_dotdot (b # cs))"
| "drop_dotdot cs = cs"

text \<open>The object key of an upload, \<^verbatim>\<open>/v1/abr/upload-url\<close>.\<close>

definition upload_key :: "uuid \<Rightarrow> uuid \<Rightarrow> string \<Rightarrow> string" where
  "upload_key akID fresh filename = path_Clean (''abr/'' @ akID @ ''/'' @ fresh @ ''/'' @ drop_dotdot filename)"

section \<open>Facts\<close>

lemma split_slash_nonempty [simp]: "split_slash s \<noteq> []"
  by (induction s) (auto split: list.splits)

lemma split_slash_append: "CHR ''/'' \<notin> set a \<Longrightarrow> split_slash (a @ CHR ''/'' # b) = a # split_slash b"
  by (induction a) (auto split: list.splits)

lemma split_slash_no_slash: "s \<in> set (split_slash p) \<Longrightarrow> CHR ''/'' \<notin> set s"
  by (induction p arbitrary: s) (auto split: if_splits list.splits)

text \<open>A segment of a string is an infix of it.\<close>

lemma split_slash_sublist: "s \<in> set (split_slash p) \<Longrightarrow> sublist s p"
proof (induction p arbitrary: s)
  case (Cons c cs)
  obtain t ts where t: "split_slash cs = t # ts" by (cases "split_slash cs") auto
  show ?case
  proof (cases "c = CHR ''/''")
    case True
    with Cons show ?thesis by (auto simp: sublist_Cons_right)
  next
    case False
    have "prefix t cs" using t
    proof (induction cs arbitrary: t ts)
      case (Cons d ds)
      then show ?case by (auto split: if_splits list.splits)
    qed simp
    with False t Cons show ?thesis by (auto simp: sublist_Cons_right)
  qed
qed simp

lemma drop_dotdot_Cons: "b \<noteq> CHR ''.'' \<Longrightarrow> drop_dotdot (b # cs) = b # drop_dotdot cs"
  by (cases cs) auto

lemma drop_dotdot_no_dotdot: "\<not> sublist ''..'' (drop_dotdot s)"
proof (induction s rule: drop_dotdot.induct)
  case (1 a b cs)
  show ?case
  proof (cases "a = CHR ''.'' \<and> b = CHR ''.''")
    case True
    with 1 show ?thesis by simp
  next
    case False
    then have "\<not> prefix ''..'' (a # drop_dotdot (b # cs))"
      by (cases "b = CHR ''.''") (auto simp: drop_dotdot_Cons)
    with False 1 show ?thesis by (simp add: sublist_Cons_right)
  qed
qed (auto simp: sublist_Cons_right)

lemma fold_clean_no_dotdot:
  "''..'' \<notin> set segs \<Longrightarrow> fold (clean_step rooted) segs acc = acc @ filter (\<lambda>s. s \<noteq> '''' \<and> s \<noteq> ''.'') segs"
  by (induction segs arbitrary: acc) (auto simp: clean_step_def)

lemma Join1_Cons: "xs \<noteq> [] \<Longrightarrow> Join1 (x # xs) c = x @ c # Join1 xs c"
  by (cases xs) simp_all

section \<open>Properties\<close>

text \<open>Canonical UUID text has neither slashes nor dots and is not empty.\<close>

definition plain_segment :: "string \<Rightarrow> bool" where
  "plain_segment s \<longleftrightarrow> s \<noteq> '''' \<and> CHR ''/'' \<notin> set s \<and> CHR ''.'' \<notin> set s"

lemma plain_segmentD: "plain_segment s \<Longrightarrow> s \<noteq> '''' \<and> s \<noteq> ''.'' \<and> s \<noteq> ''..'' \<and> CHR ''/'' \<notin> set s"
  by (auto simp: plain_segment_def)

text \<open>C12: uploads stay in the tenant's namespace. Whatever file name a client sends, dots, slashes and
  parent segments included, the object key handed out lies below \<^verbatim>\<open>abr/<api key>/<fresh id>\<close>, so
  no client can obtain an upload address inside another tenant's prefix.\<close>

theorem upload_key_in_namespace:
  assumes "plain_segment akID" and "plain_segment fresh"
  shows "prefix (''abr/'' @ akID @ ''/'' @ fresh) (upload_key akID fresh filename)"
proof -
  let ?f = "drop_dotdot filename"
  let ?rest = "filter (\<lambda>s. s \<noteq> '''' \<and> s \<noteq> ''.'') (split_slash ?f)"
  note a = plain_segmentD [OF assms(1)] and u = plain_segmentD [OF assms(2)]
  have segs: "split_slash (''abr/'' @ akID @ ''/'' @ fresh @ ''/'' @ ?f) = ''abr'' # akID # fresh # split_slash ?f"
    using split_slash_append [of akID "fresh @ ''/'' @ ?f"] split_slash_append [of fresh ?f] a u by simp
  have "''..'' \<notin> set (split_slash ?f)"
    using split_slash_sublist [of "''..''" ?f] drop_dotdot_no_dotdot by blast
  with a u have "''..'' \<notin> set (''abr'' # akID # fresh # split_slash ?f)" by auto
  from fold_clean_no_dotdot [OF this, of False "[]"] a u
  have "fold (clean_step False) (''abr'' # akID # fresh # split_slash ?f) [] = ''abr'' # akID # fresh # ?rest"
    by simp
  then have "upload_key akID fresh filename = Join1 (''abr'' # akID # fresh # ?rest) (CHR ''/'')"
    unfolding upload_key_def path_Clean_def segs by (simp add: Let_def)
  also have "\<dots> = ''abr'' @ CHR ''/'' # akID @ CHR ''/'' # Join1 (fresh # ?rest) (CHR ''/'')"
    by (simp add: Join1_Cons)
  finally show ?thesis
    by (cases "?rest = []") (simp_all add: Join1_Cons)
qed

theorem upload_key_in_namespace_witness:
  "plain_segment ''11-22'' \<and> plain_segment ''33-44'' \<and>
   prefix ''abr/11-22/33-44'' (upload_key ''11-22'' ''33-44'' ''../../99-88/./movie.mp4'')"
  using upload_key_in_namespace [of "''11-22''" "''33-44''" "''../../99-88/./movie.mp4''"]
  by (simp add: plain_segment_def)

text \<open>Public URLs and keys are inverse. The key read from the public URL of an object is that
  object's key, and a URL from which a non-empty key is read is the public URL of that key.\<close>

theorem KeyFromURL_roundtrip:
  "KeyFromURL c (PublicObjectURL c key) = key \<and>
   (KeyFromURL c url \<noteq> '''' \<longrightarrow> PublicObjectURL c (KeyFromURL c url) = url)"
proof -
  let ?pre = "sc_publicEndpoint c @ ''/'' @ sc_bucket c @ ''/''"
  have url: "PublicObjectURL c k = ?pre @ k" for k
    by (simp add: PublicObjectURL_def)
  have "prefix ?pre (?pre @ key)" by (rule prefixI) simp
  then have "KeyFromURL c (?pre @ key) = key"
    unfolding KeyFromURL_def Let_def HasPrefix_def by (simp only: TrimPrefix_append not_True_eq_False if_False)
  moreover have "?pre @ TrimPrefix url ?pre = url" if "prefix ?pre url"
    using that by (auto simp: TrimPrefix_def prefix_def)
  ultimately show ?thesis
    unfolding url by (auto simp: KeyFromURL_def HasPrefix_def Let_def)
qed

definition sample_s3 :: S3Client where
  "sample_s3 = \<lparr>sc_bucket = ''media'', sc_region = ''r1'', sc_internalEndpoint = ''http://minio:9000'',
     sc_publicEndpoint = ''https://cdn'', sc_presignTTL = 3600 * second\<rparr>"

theorem KeyFromURL_roundtrip_witness:
  "KeyFromURL sample_s3 ''https://cdn/media/abr/k/v.mp4'' = ''abr/k/v.mp4'' \<and>
   PublicObjectURL sample_s3 (KeyFromURL sample_s3 ''https://cdn/media/abr/k/v.mp4'') = ''https://cdn/media/abr/k/v.mp4''"
proof -
  have "KeyFromURL sample_s3 ''https://cdn/media/abr/k/v.mp4'' = ''abr/k/v.mp4''"
    by (simp add: KeyFromURL_def sample_s3_def HasPrefix_def TrimPrefix_def)
  with KeyFromURL_roundtrip [of sample_s3 "''''" "''https://cdn/media/abr/k/v.mp4''"] show ?thesis by simp
qed

end
