(* ===== verification/Paid_Handlers.thy ===== *)
theory Paid_Handlers
  imports Paid_Sample Catalog Object_Store ABR_Presets
begin

text \<open>
  \<^verbatim>\<open>internal/server/paid_handlers.go\<close> and the \<^verbatim>\<open>/v1\<close> routes of \<^verbatim>\<open>handlers_v1.go\<close>: admission of a
  customer operation (validation, idempotency, offering check, sizing, durable intent), its
  views and its stop request. The handlers run on the same state as the engine; what they read
  besides (catalog table, object store, randomness) is a second environment record.
\<close>

section \<open>Requests and environment\<close>

record ABRIn =
  ai_IdempotencyKey :: string
  ai_InputURL :: string
  ai_Preset :: string
  ai_HasLadder :: bool
  ai_EstimatedSecs :: int
  ai_MaxTotalUnits :: int

record LiveIn =
  li_IdempotencyKey :: string
  li_Name :: string
  li_OutputProfile :: string
  li_HasLadder :: bool

record henv =
  hS3 :: "S3Client option"
  hSign :: "nat \<Rightarrow> string \<Rightarrow> string \<Rightarrow> string \<Rightarrow> int \<Rightarrow> err + string"
  hCaps :: "nat \<Rightarrow> err + capabilities"
  hJobTransports :: "string option \<Rightarrow> string list option"
  hSessionSchema :: "string option \<Rightarrow> string option"
  hABRBody :: "ABRIn \<Rightarrow> string"
  hLiveBody :: "LiveIn \<Rightarrow> string"
  hUUID :: "nat \<Rightarrow> nat \<Rightarrow> uuid"
  hToken :: "nat \<Rightarrow> err + string"
  hPepperHash :: "string \<Rightarrow> string"

section \<open>Idempotency\<close>

definition existing :: "env \<Rightarrow> uuid \<Rightarrow> string \<Rightarrow> string \<Rightarrow> string \<Rightarrow> operation option eng" where
  "existing E key kind request hash = bindE (db_read E (FindRequest key kind request)) (\<lambda>r. case r of
      None \<Rightarrow> ret None
    | Some o1 \<Rightarrow> if op_RequestHash o1 \<noteq> hash then throw (HumaErr 409 ''idempotency_key_reuse'') else ret (Some o1))"

definition requestKey :: "henv \<Rightarrow> string \<Rightarrow> string eng" where
  "requestKey H s = with_state (\<lambda>x. ret (if s = '''' then hUUID H (tick x) 0 else s))"

section \<open>Offering check\<close>

definition offering_ok :: "henv \<Rightarrow> string \<Rightarrow> string \<Rightarrow> Capability \<Rightarrow> err option" where
  "offering_ok H protocol unit c =
     (if cap_Protocol c \<noteq> protocol \<or> cap_WorkUnit c \<noteq> unit then Some (HumaErr 503 ''offering_contract_mismatch'')
      else if protocol = ''paid-job/v1'' then
        (case hJobTransports H (cap_JobJSON c) of
           None \<Rightarrow> Some (HumaErr 503 ''offering_transport_missing'')
         | Some ts \<Rightarrow> if list_ex (\<lambda>t. t = ''stream'') ts then None else Some (HumaErr 503 ''offering_stream_unsupported''))
      else (case hSessionSchema H (cap_SessionJSON c) of
           None \<Rightarrow> Some (HumaErr 503 ''offering_descriptor_unsupported'')
         | Some sch \<Rightarrow> if sch \<noteq> ''rtmp-hls/v1'' then Some (HumaErr 503 ''offering_descriptor_unsupported'') else None))"

definition checkOffering_rows :: "henv \<Rightarrow> string \<Rightarrow> string \<Rightarrow> string \<Rightarrow> string \<Rightarrow> Capability list \<Rightarrow> err option" where
  "checkOffering_rows H capab offering protocol unit rows =
     (case find (\<lambda>c. \<not> (cap_Capability c \<noteq> capab \<or> cap_Offering c \<noteq> offering)) rows of
        None \<Rightarrow> Some (HumaErr 503 ''no_capable_offering'')
      | Some c \<Rightarrow> offering_ok H protocol unit c)"

definition checkOffering :: "env \<Rightarrow> henv \<Rightarrow> string \<Rightarrow> string \<Rightarrow> string \<Rightarrow> string \<Rightarrow> unit eng" where
  "checkOffering E H capab offering protocol unit = interact E (\<lambda>t. case hCaps H t of
      Inl _ \<Rightarrow> throw (HumaErr 503 ''catalog_unavailable'')
    | Inr tbl \<Rightarrow> (case checkOffering_rows H capab offering protocol unit (ListActive tbl) of
        None \<Rightarrow> ret ()
      | Some e \<Rightarrow> throw e))"

section \<open>Views\<close>

definition abrStatusMessage :: "string \<Rightarrow> string \<Rightarrow> string" where
  "abrStatusMessage status code =
     (if status = ''admission_rejected'' then ''Payment admission rejected; settlement pending. Encoding has not started.''
      else if status = ''failed'' \<and> code = ''not_admitted''
      then ''Payment admission rejected. Settlement is complete; no encoding work was admitted.''
      else '''')"

record ABRJob =
  aj_AccountingState :: string
  aj_WorkUnit :: string
  aj_ActualUnits :: "int option"
  aj_ID :: uuid
  aj_Status :: string
  aj_Phase :: string
  aj_OverallProgress :: rat
  aj_Error :: string
  aj_ErrorCode :: string
  aj_MasterPlaylistURL :: string
  aj_Renditions :: "ABRRendition list"
  aj_CreatedAt :: time

definition abr_job_view :: "operation \<Rightarrow> ABRJob" where
  "abr_job_view o1 = (let v = op_PublicJSON o1; shown = (v_Status v = ''succeeded'') in
     \<lparr>aj_AccountingState = op_State o1, aj_WorkUnit = v_WorkUnit v, aj_ActualUnits = v_ActualUnits v,
      aj_ID = op_ID o1, aj_Status = v_Status v, aj_Phase = v_Phase v, aj_OverallProgress = v_Progress v,
      aj_Error = abrStatusMessage (v_Status v) (v_FailureCode v), aj_ErrorCode = v_FailureCode v,
      aj_MasterPlaylistURL = (if shown then v_MasterURL v else ''''),
      aj_Renditions = (if shown then v_Renditions v else []), aj_CreatedAt = op_CreatedAt o1\<rparr>)"

definition not_mine :: "uuid \<Rightarrow> string \<Rightarrow> operation option \<Rightarrow> bool" where
  "not_mine key kind r = (case r of None \<Rightarrow> True | Some o1 \<Rightarrow> op_APIKeyID o1 \<noteq> key \<or> op_Kind o1 \<noteq> kind)"

definition read_operation :: "env \<Rightarrow> uuid \<Rightarrow> operation option eng" where
  "read_operation E i = bindE (attempt (db_read E (OpGet i))) (\<lambda>r. case r of
      Inl _ \<Rightarrow> throw (HumaErr 500 ''operation_read_failed'')
    | Inr o1 \<Rightarrow> ret o1)"

definition ViewABR :: "env \<Rightarrow> uuid \<Rightarrow> uuid \<Rightarrow> ABRJob eng" where
  "ViewABR E i key = bindE (read_operation E i) (\<lambda>r.
     if not_mine key ''abr'' r then throw (HumaErr 404 ''not_found'')
     else case r of Some o1 \<Rightarrow> ret (abr_job_view o1) | None \<Rightarrow> throw (HumaErr 404 ''not_found''))"

text \<open>The arguments are the columns of the operation the message depends on.\<close>

definition startup_message :: "bool \<Rightarrow> string \<Rightarrow> time option \<Rightarrow> string option \<Rightarrow> string \<Rightarrow> string" where
  "startup_message stopRequested state finishedAt lastError status =
     (if status = ''ending'' \<and> stopRequested \<and> state = ''dispatching'' then
        ''Stop requested. Startup retries are paused while we confirm whether the provider created a session. Cancellation will finish when its outcome is confirmed.''
      else if status \<noteq> ''provisioning'' \<or> finishedAt \<noteq> None \<or> stopRequested then ''''
      else case lastError of
        None \<Rightarrow> ''''
      | Some code \<Rightarrow>
          if code = '''' then ''''
          else if (code = ''broker_http_401'' \<or> code = ''broker_http_403'') \<and> state = ''dispatching'' then
            ''Stream startup is blocked: the streaming provider rejected payment authorization. We are retrying automatically. If this continues, contact support with the stream ID.''
          else if code = ''loc_http_401'' \<or> code = ''loc_http_403'' then
            ''Stream startup is blocked by the authorization service. We are retrying automatically. If this continues, contact support with the stream ID.''
          else ''Stream startup is delayed by an upstream service. We are retrying automatically. If this continues, contact support with the stream ID.'')"

definition liveStartupMessage :: "operation \<Rightarrow> string \<Rightarrow> string" where
  "liveStartupMessage o1 status =
     startup_message (op_StopRequested o1) (op_State o1) (op_FinishedAt o1) (op_LastError o1) status"

record LiveSessionView =
  lv_StatusMessage :: string
  lv_SettlementPending :: bool
  lv_AccountingState :: string
  lv_OutputState :: string
  lv_ActualUnits :: int
  lv_LastFailureCode :: string
  lv_ID :: uuid
  lv_Status :: string
  lv_RTMPURL :: string
  lv_StreamKey :: string
  lv_HLSURL :: string
  lv_CloseReason :: string
  lv_CreatedAt :: time
  lv_EndedAt :: "time option"

definition live_session_view :: "env \<Rightarrow> bool \<Rightarrow> operation \<Rightarrow> operationSecrets \<Rightarrow> operationView \<Rightarrow> LiveSessionView" where
  "live_session_view E includeKey o1 s v =
     (let status = (if op_StopRequested o1 \<and> op_FinishedAt o1 = None \<and> v_MediaEndedAt v = None then ''ending'' else v_Status v) in
      \<lparr>lv_StatusMessage = liveStartupMessage o1 status,
       lv_SettlementPending = (v_MediaEndedAt v \<noteq> None \<and> op_FinishedAt o1 = None),
       lv_AccountingState = op_State o1, lv_OutputState = v_OutputState v,
       lv_ActualUnits = (case v_ActualUnits v of None \<Rightarrow> 0 | Some u \<Rightarrow> u), lv_LastFailureCode = v_FailureCode v,
       lv_ID = op_ID o1, lv_Status = status, lv_RTMPURL = publicRTMPURL E,
       lv_StreamKey = (if includeKey \<and> op_FinishedAt o1 = None \<and> \<not> op_StopRequested o1 \<and> v_MediaEndedAt v = None \<and>
                          \<not> s_RefillRefused s then s_CustomerKey s else ''''),
       lv_HLSURL = v_MasterURL v, lv_CloseReason = v_CloseReason v, lv_CreatedAt = op_CreatedAt o1,
       lv_EndedAt = (if v_MediaEndedAt v \<noteq> None then v_MediaEndedAt v else op_FinishedAt o1)\<rparr>)"

definition ViewLive :: "env \<Rightarrow> uuid \<Rightarrow> uuid \<Rightarrow> bool \<Rightarrow> LiveSessionView eng" where
  "ViewLive E i key includeKey = bindE (read_operation E i) (\<lambda>r.
     if not_mine key ''live'' r then throw (HumaErr 404 ''not_found'')
     else case r of
       None \<Rightarrow> throw (HumaErr 404 ''not_found'')
     | Some o1 \<Rightarrow> (case decode E o1 of
         Inl _ \<Rightarrow> throw (HumaErr 500 ''operation_recovery_key_unavailable'')
       | Inr (s, v) \<Rightarrow> ret (live_session_view E includeKey o1 s v)))"

definition StopLive :: "env \<Rightarrow> uuid \<Rightarrow> uuid \<Rightarrow> unit eng" where
  "StopLive E i key = bindE (db_read E (OpGet i)) (\<lambda>r.
     if not_mine key ''live'' r then throw (HumaErr 404 ''not_found'')
     else thenE (db_write E (\<lambda>t. RequestStop t i))
         (thenE (if hasRTMPProbe E then modify (\<lambda>x. x\<lparr>closed := i # closed x\<rparr>) else ret ())
          Wake))"

section \<open>Output addresses of an ABR job\<close>

fun mint_renditions :: "(string \<Rightarrow> string \<Rightarrow> err + PresignedPut) \<Rightarrow> string \<Rightarrow> Rendition list \<Rightarrow>
    (string \<times> string \<times> string) list \<Rightarrow> err + (string \<times> string \<times> string) list" where
  "mint_renditions presign pre [] m = Inr m"
| "mint_renditions presign pre (r # rs) m =
     (case presign (path_Join [pre, rn_Name r, ''playlist.m3u8'']) ''application/vnd.apple.mpegurl'' of
        Inl e \<Rightarrow> Inl e
      | Inr pp \<Rightarrow> (case presign (path_Join [pre, rn_Name r, ''stream.mp4'']) ''video/mp4'' of
          Inl e \<Rightarrow> Inl e
        | Inr sp \<Rightarrow> mint_renditions presign pre rs (AList.update (rn_Name r) (pp_UploadURL pp, pp_UploadURL sp) m)))"

text \<open>Upload address of the manifest, upload addresses per rendition, playback address.\<close>

definition mintABROutputs :: "(string \<Rightarrow> string \<Rightarrow> err + PresignedPut) \<Rightarrow> S3Client \<Rightarrow> string \<Rightarrow> string \<Rightarrow> Preset \<Rightarrow>
    err + string \<times> (string \<times> string \<times> string) list \<times> string" where
  "mintABROutputs presign c apiKeyID workID p =
     (let pre = path_Join [''abr-out'', apiKeyID, workID]; manifestKey = path_Join [pre, ''master.m3u8''] in
      case presign manifestKey ''application/vnd.apple.mpegurl'' of
        Inl e \<Rightarrow> Inl e
      | Inr mp \<Rightarrow> (case mint_renditions presign pre (pr_Renditions p) [] of
          Inl e \<Rightarrow> Inl e
        | Inr m \<Rightarrow> Inr (pp_UploadURL mp, m, PublicObjectURL c manifestKey)))"

definition artifact :: "string \<Rightarrow> string \<Rightarrow> json" where
  "artifact uri up = JObj [(''artifact_uri'', JStr uri), (''upload_url'', JStr up)]"

definition rendition_prefix :: "uuid \<Rightarrow> uuid \<Rightarrow> Rendition \<Rightarrow> string" where
  "rendition_prefix akID i r = ''abr-out/'' @ akID @ ''/'' @ i @ ''/'' @ rn_Name r"

definition rendition_json :: "S3Client \<Rightarrow> uuid \<Rightarrow> uuid \<Rightarrow> (string \<times> string \<times> string) list \<Rightarrow> Rendition \<Rightarrow> json" where
  "rendition_json c akID i m r =
     (let refs = (case map_of m (rn_Name r) of Some x \<Rightarrow> x | None \<Rightarrow> ('''', ''''));
          pre = rendition_prefix akID i r
      in JObj [(''playlist'', artifact (PublicObjectURL c (pre @ ''/playlist.m3u8'')) (fst refs)),
               (''stream'', artifact (PublicObjectURL c (pre @ ''/stream.mp4'')) (snd refs))])"

text \<open>The workload document; map keys are emitted in order.\<close>

definition abr_body :: "S3Client \<Rightarrow> uuid \<Rightarrow> uuid \<Rightarrow> string \<Rightarrow> string \<Rightarrow> Preset \<Rightarrow> string \<times> (string \<times> string \<times> string) list \<times> string \<Rightarrow> json" where
  "abr_body c akID i inputURL presetName p out = (case out of (manifest, m, master) \<Rightarrow>
     JObj [(''input'', JObj [(''download_url'', JStr inputURL)]),
           (''ladder'', JObj [(''preset'', JStr presetName)]),
           (''output'', JObj [(''manifest'', artifact master manifest),
              (''renditions'', JObj (sort_key fst (fold (\<lambda>r a. AList.update (rn_Name r) (rendition_json c akID i m r) a)
                 (pr_Renditions p) [])))]),
           (''schema'', JStr ''video-transcode-abr/v2''), (''workload_id'', JStr i)])"

definition abr_listed :: "S3Client \<Rightarrow> uuid \<Rightarrow> uuid \<Rightarrow> Preset \<Rightarrow> ABRRendition list" where
  "abr_listed c akID i p = map (\<lambda>r. \<lparr>rd_Name = rn_Name r,
     rd_PlaylistURL = PublicObjectURL c (rendition_prefix akID i r @ ''/playlist.m3u8''), rd_Bandwidth = 0\<rparr>) (pr_Renditions p)"

section \<open>Admission\<close>

definition empty_secrets :: operationSecrets where
  "empty_secrets = \<lparr>s_RefillRefused = False, s_Capability = '''', s_Offering = '''', s_Body = '''', s_Params = JNull,
     s_CallerPublicKey = '''', s_EstimatedUnits = 0, s_LimitUnits = 0, s_CurrentCap = 0, s_CustomerKey = '''',
     s_UpstreamURL = '''', s_UpstreamKeyExpiresAt = 0, s_KeyIssueRequestID = '''', s_Job = None, s_Preparation = None,
     s_Session = None, s_Broker = None, s_Claim = None, s_DispatchAttempted = False, s_RefillID = '''',
     s_RefillBody = '''', s_RefillCap = 0, s_Refill = None, s_EndReason = ''''\<rparr>"

definition empty_view :: operationView where
  "empty_view = \<lparr>v_MediaEndedAt = None, v_Status = '''', v_Phase = '''', v_Progress = 0, v_Preset = '''', v_MasterURL = '''',
     v_Renditions = [], v_WorkUnit = '''', v_ActualUnits = None, v_OutputState = '''', v_FailureCode = '''',
     v_CloseReason = '''', v_TerminalOutcome = ''''\<rparr>"

text \<open>A fresh row as the handler builds it, before sealing.\<close>

definition new_operation :: "uuid \<Rightarrow> uuid \<Rightarrow> uuid \<Rightarrow> uuid option \<Rightarrow> string \<Rightarrow> string \<Rightarrow> string \<Rightarrow> operation" where
  "new_operation i akID rid lid kind key hash = \<lparr>op_ID = i, op_APIKeyID = akID, op_ReservationID = rid,
     op_LiveStreamID = lid, op_Kind = kind, op_RequestKey = key, op_RequestHash = hash, op_State = ''queued'',
     op_Secrets = Opaque '''', op_PublicJSON = empty_view, op_LastError = None, op_Attempts = 0,
     op_NextAttemptAt = 0, op_StopRequested = False, op_CreatedAt = 0, op_UpdatedAt = 0, op_FinishedAt = None\<rparr>"

text \<open>A transaction that may violate a constraint; its commit can also be lost on the way back.\<close>

definition db_transact :: "env \<Rightarrow> (time \<Rightarrow> database \<Rightarrow> database option) \<Rightarrow> unit eng" where
  "db_transact E f = interact E (\<lambda>t. case dbFault E t of
      Some (LostBefore e) \<Rightarrow> throw e
    | flt \<Rightarrow> with_state (\<lambda>x. case f (clock E t) (edb x) of
        None \<Rightarrow> throw (DbErr ''violates unique constraint'')
      | Some d \<Rightarrow> thenE (db_apply (\<lambda>_. d)) (case flt of Some (LostAfter e) \<Rightarrow> throw e | _ \<Rightarrow> ret ())))"

text \<open>Sealing and inserting the intent, then \<open>created\<close>; when the insert fails, the operation that took
  the idempotency key, if any, is \<open>replayed\<close>.\<close>

definition admit :: "env \<Rightarrow> operation \<Rightarrow> operationSecrets \<Rightarrow> operationView \<Rightarrow> string \<Rightarrow> string \<Rightarrow> string \<Rightarrow> int \<Rightarrow>
    (operation \<Rightarrow> 'a eng) \<Rightarrow> 'a eng \<Rightarrow> 'a eng" where
  "admit E o1 s v name streamHash streamHint estimated replayed created =
     thenE (load_operation o1 s v)
    (thenE (seal E)
    (with_state (\<lambda>x.
     bindE (attempt (db_transact E (\<lambda>t. CreateIntent t (eo x) (s_Capability s) (s_Offering s) name streamHash streamHint estimated)))
       (\<lambda>r. case r of
          Inr _ \<Rightarrow> created
        | Inl _ \<Rightarrow> bindE (existing E (op_APIKeyID o1) (op_Kind o1) (op_RequestKey o1) (op_RequestHash o1)) (\<lambda>prior.
            case prior of
              Some p \<Rightarrow> replayed p
            | None \<Rightarrow> throw (HumaErr 500 ''operation_create_failed''))))))"

definition input_url_ok :: "env \<Rightarrow> string \<Rightarrow> bool" where
  "input_url_ok E raw = (case urlParse E raw of
      None \<Rightarrow> False
    | Some u \<Rightarrow> (u_Scheme u = ''https'' \<or> u_Scheme u = ''http'') \<and> u_Host u \<noteq> '''')"

definition abr_secrets :: "env \<Rightarrow> string \<Rightarrow> int \<Rightarrow> int \<Rightarrow> operationSecrets" where
  "abr_secrets E body estimated lmt = empty_secrets\<lparr>s_Capability := ABRCapability (cfg E), s_Offering := ABROffering (cfg E),
     s_Body := body, s_CallerPublicKey := signerPublicKey E, s_EstimatedUnits := estimated, s_LimitUnits := lmt\<rparr>"

definition abr_view :: "string \<Rightarrow> string \<Rightarrow> ABRRendition list \<Rightarrow> operationView" where
  "abr_view presetName master listed = empty_view\<lparr>v_Status := ''queued'', v_Preset := presetName, v_MasterURL := master,
     v_Renditions := listed, v_WorkUnit := ''video-frame-megapixel''\<rparr>"

text \<open>From the offering check on: sizing, output addresses, journal.\<close>

definition abr_create :: "env \<Rightarrow> henv \<Rightarrow> uuid \<Rightarrow> ABRIn \<Rightarrow> S3Client \<Rightarrow> string \<Rightarrow> Preset \<Rightarrow> string \<Rightarrow> string \<Rightarrow> ABRJob eng" where
  "abr_create E H akID i c presetName p key hash =
     thenE (checkOffering E H (ABRCapability (cfg E)) (ABROffering (cfg E)) ''paid-job/v1'' ''video-frame-megapixel'')
     (let estimated = estimateABRUnits p (ai_EstimatedSecs i) in
      case abrAuthorizationLimit estimated (ai_MaxTotalUnits i) (ABRMaxTotalUnits (cfg E)) of
        Inl msg \<Rightarrow> throw (HumaErr 400 msg)
      | Inr lmt \<Rightarrow> with_state (\<lambda>x.
          let oid = hUUID H (tick x) 1; rid = hUUID H (tick x) 2;
              presign = PresignPut (hSign H (tick x)) (clock E (tick x)) c
          in case mintABROutputs presign c akID oid p of
               Inl _ \<Rightarrow> throw (HumaErr 502 ''output_presign_failed'')
             | Inr out \<Rightarrow>
                 admit E (new_operation oid akID rid None ''abr'' key hash)
                   (abr_secrets E (marshal E (abr_body c akID oid (ai_InputURL i) presetName p out)) estimated lmt)
                   (abr_view presetName (snd (snd out)) (abr_listed c akID oid p)) '''' '''' '''' estimated
                   (\<lambda>prior. ViewABR E (op_ID prior) akID)
                   (thenE Wake (ViewABR E oid akID))))"

definition SubmitABR :: "env \<Rightarrow> henv \<Rightarrow> uuid \<Rightarrow> ABRIn \<Rightarrow> ABRJob eng" where
  "SubmitABR E H akID i = (case hS3 H of
      None \<Rightarrow> throw (HumaErr 503 ''s3_unavailable'')
    | Some c \<Rightarrow>
        if ai_HasLadder i then throw (HumaErr 400 ''Modules v2 ABR accepts a named preset; inline ladders are unsupported'')
        else if \<not> input_url_ok E (ai_InputURL i) then throw (HumaErr 400 ''input_url must be an HTTP(S) URL'')
        else let presetName = (if ai_Preset i = '''' then ''abr-standard'' else ai_Preset i) in
          (case GetPreset presetName of
             None \<Rightarrow> throw (HumaErr 400 ''unknown preset'')
           | Some p \<Rightarrow>
               bindE (requestKey H (ai_IdempotencyKey i)) (\<lambda>key.
               let hash = requestDigest E (hABRBody H i) in
               bindE (existing E akID ''abr'' key hash) (\<lambda>prior. case prior of
                   Some o1 \<Rightarrow> ViewABR E (op_ID o1) akID
                 | None \<Rightarrow> abr_create E H akID i c presetName p key hash))))"

definition live_params :: "env \<Rightarrow> string \<Rightarrow> json" where
  "live_params E profile = JObj [(''metering_rendition'', JStr (LiveMeteringRendition (cfg E))),
     (''output_profile'', JStr profile), (''publisher_mode'', JStr ''gateway-relay''),
     (''schema'', JStr ''rtmp-hls-session/v1''), (''storage'', JObj [(''kind'', JStr ''runner-local'')])]"

definition live_initial_cap :: "Config \<Rightarrow> int" where
  "live_initial_cap c = min (LiveMaxTotalUnits c) (max 120 (wrap64 (LiveTopupFundSecs c * 2)))"

definition live_secrets :: "env \<Rightarrow> string \<Rightarrow> string \<Rightarrow> operationSecrets" where
  "live_secrets E profile customerKey = empty_secrets\<lparr>s_Capability := LiveCapability (cfg E),
     s_Offering := LiveGatewayIngestOffering (cfg E), s_Params := live_params E profile,
     s_CallerPublicKey := signerPublicKey E, s_LimitUnits := LiveMaxTotalUnits (cfg E),
     s_CurrentCap := live_initial_cap (cfg E), s_CustomerKey := customerKey\<rparr>"

definition live_view :: operationView where
  "live_view = empty_view\<lparr>v_Status := ''provisioning'', v_WorkUnit := ''output_seconds'', v_OutputState := ''waiting''\<rparr>"

definition paymentRequiredError :: "err \<Rightarrow> err" where
  "paymentRequiredError e = HumaErr 402 (snd (CreditError e))"

text \<open>The synchronous first attempt; only a credit refusal is reported to the caller.\<close>

definition live_first_attempt :: "env \<Rightarrow> uuid \<Rightarrow> uuid \<Rightarrow> LiveSessionView eng" where
  "live_first_attempt E oid akID = bindE (attempt (Process E oid)) (\<lambda>r.
     let go = thenE Wake (ViewLive E oid akID True) in
     case r of
       Inl e \<Rightarrow> if IsInsufficientCredit e then throw (paymentRequiredError e) else go
     | Inr _ \<Rightarrow> go)"

definition live_create :: "env \<Rightarrow> henv \<Rightarrow> uuid \<Rightarrow> LiveIn \<Rightarrow> string \<Rightarrow> string \<Rightarrow> LiveSessionView eng" where
  "live_create E H akID i key hash =
     thenE (checkOffering E H (LiveCapability (cfg E)) (LiveGatewayIngestOffering (cfg E)) ''paid-session/v1'' ''output_seconds'')
     (with_state (\<lambda>x.
      let oid = hUUID H (tick x) 1; rid = hUUID H (tick x) 2 in
      bindE (lift_result (hToken H (tick x))) (\<lambda>customerKey.
      let profile = (if li_OutputProfile i = '''' then LiveOutputProfile (cfg E) else li_OutputProfile i) in
      admit E (new_operation oid akID rid (Some oid) ''live'' key hash) (live_secrets E profile customerKey) live_view
        (li_Name i) (hPepperHash H customerKey) (drop (length customerKey - 4) customerKey) (live_initial_cap (cfg E))
        (\<lambda>prior. ViewLive E (op_ID prior) akID True)
        (live_first_attempt E oid akID))))"

definition SubmitLive :: "env \<Rightarrow> henv \<Rightarrow> uuid \<Rightarrow> LiveIn \<Rightarrow> LiveSessionView eng" where
  "SubmitLive E H akID i =
     (if LiveRTMPPort (cfg E) \<le> 0 then throw (HumaErr 503 ''live_ingest_disabled'')
      else if publicRTMPURL E = '''' then throw (HumaErr 503 ''LIVE_EXTERNAL_RTMP_URL or GATEWAY_PUBLIC_URL is required'')
      else if li_HasLadder i then throw (HumaErr 400 ''Modules v2 live accepts output_profile; inline ladders are unsupported'')
      else bindE (requestKey H (li_IdempotencyKey i)) (\<lambda>key.
        let hash = requestDigest E (hLiveBody H i) in
        bindE (existing E akID ''live'' key hash) (\<lambda>prior. case prior of
            Some o1 \<Rightarrow> ViewLive E (op_ID o1) akID True
          | None \<Rightarrow> live_create E H akID i key hash)))"

end
