(* ===== verification/Gateway_System.thy ===== *)
theory Gateway_System
  imports Engine_Finish Paid_Handlers
begin

text \<open>
  The gateway as a transition system on its database: submissions, stop requests, worker attempts
  and relay look-ups, in any order, against any upstream behaviour. The invariant of every
  reachable database: each operation has its reservation, a finished operation's reservation is
  resolved, and each journal row opens under the wrapping key to secrets whose authorized cap is
  within the operation's limit.
\<close>

section \<open>Invariant\<close>

definition row_inv :: "string \<Rightarrow> database \<Rightarrow> uuid \<Rightarrow> operation \<Rightarrow> bool" where
  "row_inv key d i r \<longleftrightarrow> GetByID (op_ReservationID r) (db_reservations d) \<noteq> None \<and> finished_ok r d \<and>
     (\<exists>s. BoxOpen key i (op_Secrets r) = Some s \<and> caps_ok s)"

definition sys_inv :: "string \<Rightarrow> database \<Rightarrow> bool" where
  "sys_inv key d \<longleftrightarrow> (\<forall>i r. OpGet i d = Some r \<longrightarrow> row_inv key d i r)"

lemma GetByID_mono: "ledger_le t t' \<Longrightarrow> GetByID rid t \<noteq> None \<Longrightarrow> GetByID rid t' \<noteq> None"
  using ledger_le_GetByID by fastforce

lemma row_inv_mono:
  assumes "row_inv key d i r" and "ledger_le (db_reservations d) (db_reservations d')" and "stopped_only r r'"
  shows "row_inv key d' i r'"
  using assms(1) GetByID_mono [OF assms(2)] resolved_mono [OF assms(2)] stopped_only_fields [OF assms(3)]
  by (simp add: row_inv_def finished_ok_def)

lemma list_all2_row_back:
  assumes "list_all2 R t t'" and "\<And>r r'. R r r' \<Longrightarrow> key r' = key r" and "row_by key k t' = Some r'"
  shows "\<exists>r. row_by key k t = Some r \<and> R r r'"
  using assms(1,3)
proof (induction rule: list_all2_induct)
  case (Cons x xs y ys)
  then show ?case using assms(2) [of x y] by (cases "key x = k") auto
qed simp

lemma others_kept_back:
  assumes "others_kept i d d'" and "OpGet k d' = Some r'"
  shows "\<exists>r. OpGet k d = Some r \<and> others_row i r r'"
  unfolding OpGet_def
  by (rule list_all2_row_back [OF assms(1) [unfolded others_kept_def] _ assms(2) [unfolded OpGet_def]])
     (simp add: others_row_def op_row_le_def)

text \<open>What an effect that only works on operation \<open>i\<close> has to show.\<close>

lemma sys_inv_local:
  assumes "sys_inv key d" and "others_kept i d d'" and "ledger_le (db_reservations d) (db_reservations d')"
    and "\<And>r r'. OpGet i d = Some r \<Longrightarrow> row_inv key d i r \<Longrightarrow> OpGet i d' = Some r' \<Longrightarrow>
      finished_ok r' d' \<and> (\<exists>s. BoxOpen key i (op_Secrets r') = Some s \<and> caps_ok s)"
  shows "sys_inv key d'"
  unfolding sys_inv_def
proof (intro allI impI)
  fix k r'
  assume r': "OpGet k d' = Some r'"
  then obtain r where r: "OpGet k d = Some r" "others_row i r r'"
    using others_kept_back [OF assms(2)] by blast
  with assms(1) have inv: "row_inv key d k r" by (simp add: sys_inv_def)
  show "row_inv key d' k r'"
  proof (cases "k = i")
    case True
    have "GetByID (op_ReservationID r') (db_reservations d') \<noteq> None"
      using inv r(2) GetByID_mono [OF assms(3)] by (auto simp: row_inv_def others_row_def op_row_le_def)
    with assms(4) r r' inv True show ?thesis by (simp add: row_inv_def)
  next
    case False
    with r have "stopped_only r r'" using OpGet_ID [OF r(1)] by (simp add: others_row_def)
    with inv assms(3) show ?thesis by (blast intro: row_inv_mono)
  qed
qed

lemma sys_Process:
  assumes "loc_outcomes_ok E" and "sys_inv (boxKey E) (edb x)"
  shows "sys_inv (boxKey E) (edb (snd (Process E i x)))"
proof (rule sys_inv_local [OF assms(2) Process_others Process_ledger])
  fix r r'
  assume r: "OpGet i (edb x) = Some r" "row_inv (boxKey E) (edb x) i r"
    and r': "OpGet i (edb (snd (Process E i x))) = Some r'"
  from r(2) obtain s where s: "BoxOpen (boxKey E) i (op_Secrets r) = Some s" "caps_ok s" and f: "finished_ok r (edb x)"
    by (auto simp: row_inv_def)
  show "finished_ok r' (edb (snd (Process E i x))) \<and> (\<exists>s. BoxOpen (boxKey E) i (op_Secrets r') = Some s \<and> caps_ok s)"
    using Process_finish_kept [OF assms(1) r(1) f] Process_sealed_ok [OF r(1) s] r'
    by (auto simp: sealed_ok_def split: option.splits)
qed

section \<open>Handlers\<close>

definition sys_step :: "string \<Rightarrow> estate \<Rightarrow> estate \<Rightarrow> bool" where
  "sys_step key x y \<longleftrightarrow> (sys_inv key (edb x) \<longrightarrow> sys_inv key (edb y))"

interpretation sys: step_contract "sys_step key" for key
  by unfold_locales (auto simp: sys_step_def)

lemma sys_stops: "sys_inv key d \<Longrightarrow> sys_inv key (fold (RequestStop now) ks d)"
  unfolding sys_inv_def
proof (intro allI impI)
  fix k r'
  assume inv: "\<forall>i r. OpGet i d = Some r \<longrightarrow> row_inv key d i r"
    and r': "OpGet k (fold (RequestStop now) ks d) = Some r'"
  obtain r where r: "OpGet k d = Some r" using r' OpGet_stops(1) [of k now ks d] by (cases "OpGet k d") auto
  have "stopped_only r r'" using OpGet_stops(2) [OF r, of now ks] r' by auto
  moreover have "row_inv key d k r" using inv r by blast
  ultimately show "row_inv key (fold (RequestStop now) ks d) k r'"
    using row_inv_mono [of key d k r "fold (RequestStop now) ks d" r'] by (simp add: ledger_le_refl)
qed

lemma sys_interact: "(\<And>t. steps (sys_step key) (k t)) \<Longrightarrow> steps (sys_step key) (interact E k)"
  unfolding steps_def interact_def sys_step_def by (simp add: sys_stops)

lemma sys_db_read: "steps (sys_step key) (db_read E g)"
  unfolding steps_def sys_step_def by (simp add: db_read_arrives sys_stops)

lemma sys_local:
  "(\<And>x. edb (f x) = edb x) \<Longrightarrow> steps (sys_step key) (modify f)"
  "steps (sys_step key) get_state"
  by (simp_all add: steps_def sys_step_def modify_def get_state_def)

lemma sys_quiet:
  "steps (sys_step key) Wake" "steps (sys_step key) (load_operation o1 s v)" "steps (sys_step key) (time_now E)"
  "steps (sys_step key) (wait_timer E d)" "steps (sys_step key) (lock_op E i)" "steps (sys_step key) (lift_result r)"
  "steps (sys_step key) (seal E)"
  by (simp_all add: steps_def sys_step_def Wake_def load_operation_def time_now_def wait_timer_arrives lock_op_arrives
      lift_result_def seal_def set_o_def eng_simps sys_stops split: option.split sum.split)

lemma sys_request_stop: "steps (sys_step key) (db_write E (\<lambda>t. RequestStop t i))"
proof -
  have "steps (sys_step key) (db_apply (RequestStop t i))" for t
    using sys_stops [of key _ t "[i]"] by (simp add: steps_def sys_step_def db_apply_def modify_def)
  then show ?thesis
    unfolding db_write_def
    by (intro sys_interact) (auto split: option.split db_fault.split intro: sys.steps_bind sys.steps_throw)
qed

lemma CreateIntent_effect:
  assumes "CreateIntent now r capab offering name h1 h2 est d = Some d'"
  shows "db_ops d' = db_ops d @ [op_inserted now r]"
    and "db_reservations d' = db_reservations d @
      [fresh_reservation (op_ReservationID r) (op_APIKeyID r) (op_ID r) capab offering (Some est) None now]"
  using assms by (auto simp: CreateIntent_def op_insert_def reservation_insert_def split: Option.bind_splits if_splits)

lemma sys_create:
  assumes inv: "sys_inv key d" and c: "CreateIntent now r capab offering name h1 h2 est d = Some d'"
    and s: "op_Secrets r = BoxSeal key n (op_ID r) s" "caps_ok s"
  shows "sys_inv key d'"
  unfolding sys_inv_def
proof (intro allI impI)
  fix k q
  assume q: "OpGet k d' = Some q"
  note eff = CreateIntent_effect [OF c]
  have new_id: "ur_ID (fresh_reservation (op_ReservationID r) (op_APIKeyID r) (op_ID r) capab offering (Some est) None now) =
      op_ReservationID r"
    by (simp add: fresh_reservation_def)
  have res: "GetByID rid (db_reservations d') = (case GetByID rid (db_reservations d) of Some u \<Rightarrow> Some u
      | None \<Rightarrow> if op_ReservationID r = rid then Some (fresh_reservation (op_ReservationID r) (op_APIKeyID r) (op_ID r)
          capab offering (Some est) None now) else None)" for rid
    using new_id by (simp add: GetByID_def eff(2) row_by_append_new)
  show "row_inv key d' k q"
  proof (cases "OpGet k d")
    case None
    with q have "q = op_inserted now r" "op_ID r = k"
      by (auto simp: OpGet_def eff(1) row_by_append_new op_inserted_def split: if_splits)
    then show ?thesis
      using s by (auto simp: row_inv_def res finished_ok_def op_inserted_def box.open_seal split: option.split)
  next
    case (Some p)
    with q have "q = p" by (simp add: OpGet_def eff(1) row_by_append_new)
    moreover have "row_inv key d k p" using inv Some by (simp add: sys_inv_def)
    ultimately show ?thesis
      by (auto simp: row_inv_def finished_ok_def resolved_def res split: option.splits)
  qed
qed

lemma caps_ok_new:
  "0 \<le> LiveMaxTotalUnits (cfg E) \<Longrightarrow> caps_ok (live_secrets E profile k)"
  "0 \<le> lmt \<Longrightarrow> caps_ok (abr_secrets E body est lmt)"
  by (simp_all add: caps_ok_def live_secrets_def abr_secrets_def empty_secrets_def live_initial_cap_def)

subsection \<open>Holding a row\<close>

text \<open>An effect that keeps all four engine contracts, started on the durable row and its decrypted
  secrets, keeps the invariant.\<close>

lemma sys_hold:
  assumes m: "steps ledger_step m" "steps (row_step i) m" "steps (fin_step i) m"
      "\<And>rp. steps (journal_step E i rp) m"
    and row: "OpGet i (edb x) = Some r" "decode E r = Inr (s, v)" and inv: "sys_inv (boxKey E) (edb x)"
  shows "sys_inv (boxKey E) (edb (snd (m (x\<lparr>eo := r, es := s, ev := v\<rparr>))))"
proof -
  let ?x = "x\<lparr>eo := r, es := s, ev := v\<rparr>"
  have id: "op_ID r = i" using row(1) by (rule OpGet_ID)
  have r: "row_inv (boxKey E) (edb x) i r" using inv row(1) by (simp add: sys_inv_def)
  have open_s: "BoxOpen (boxKey E) i (op_Secrets r) = Some s"
    using row(2) id by (auto simp: decode_def split: option.splits if_splits)
  with r have caps: "caps_ok s" and fin: "finished_ok r (edb x)" by (auto simp: row_inv_def)
  have "journal_inv E i (request_part s) ?x"
    using row(1) id open_s caps by (simp add: journal_inv_def sealed_ok_def)
  then have j: "journal_inv E i (request_part s) (snd (m ?x))"
    using stepsD [OF m(4) [of "request_part s"], of ?x] by (simp add: journal_step_def)
  have "fin_inv i ?x" using row(1) id fin by (simp add: fin_inv_def fin_db_def)
  then have f: "fin_inv i (snd (m ?x))" using stepsD [OF m(3), of ?x] by (simp add: fin_step_def)
  have le: "ledger_le (db_reservations (edb ?x)) (db_reservations (edb (snd (m ?x))))"
    using stepsD [OF m(1), of ?x] by (simp add: ledger_step_def)
  have kept: "others_kept i (edb ?x) (edb (snd (m ?x)))"
    using stepsD [OF m(2), of ?x] id by (simp add: row_step_def)
  show ?thesis
  proof (rule sys_inv_local [OF _ kept le])
    show "sys_inv (boxKey E) (edb ?x)" using inv by simp
    fix q q'
    assume "OpGet i (edb (snd (m ?x))) = Some q'"
    with j f show "finished_ok q' (edb (snd (m ?x))) \<and> (\<exists>s. BoxOpen (boxKey E) i (op_Secrets q') = Some s \<and> caps_ok s)"
      by (auto simp: journal_inv_def sealed_ok_def fin_inv_def fin_db_def split: option.splits)
  qed
qed

context engine_prims
begin

lemma st_serve: "steps R (upstream_serve E s)"
  unfolding upstream_serve_def by (intro st_issue_key st_basic)

end

lemma sys_locked: "steps (sys_step (boxKey E)) (upstream_locked E i)"
  unfolding steps_def
proof
  fix x
  let ?y = "arrive E (tick x) x"
  let ?m = "upstream_serve E"
  have inv: "sys_inv (boxKey E) (edb ?y)" if "sys_inv (boxKey E) (edb x)" using that by (simp add: sys_stops)
  have serve: "sys_inv (boxKey E) (edb (snd (?m s (?y\<lparr>eo := r, es := s, ev := v\<rparr>))))"
    if "OpGet i (edb ?y) = Some r" "decode E r = Inr (s, v)" "sys_inv (boxKey E) (edb ?y)" for r s v
    by (rule sys_hold [OF ledger.st_serve rows.st_serve fin.st_serve journal.st_serve that])
  show "sys_step (boxKey E) x (snd (upstream_locked E i x))"
    using inv serve db_read_result [of E "OpGet i" x] db_read_arrives [of E "OpGet i" x]
    by (auto simp: sys_step_def upstream_locked_def bindE_snd ret_def lift_result_def throw_def load_operation_def
        modify_def simp del: arrive_simps split: sum.split option.split)
qed

lemma sys_relay: "steps (sys_step (boxKey E)) (UpstreamURL E patience lid)"
proof -
  have "steps (sys_step (boxKey E)) (lock_poll E i n)" for i n
    by (induction n) (auto intro!: sys.steps_bind sys.steps_throw sys.steps_if sys.steps_ret sys_quiet)
  moreover have "steps (sys_step (boxKey E)) (acquire_slot E)"
    unfolding acquire_slot_def by (rule sys_quiet)
  ultimately show ?thesis
    unfolding UpstreamURL_def
    by (auto intro!: sys.steps_bind sys.steps_if sys.steps_ret sys_quiet sys_db_read sys_locked split: option.split)
qed

subsection \<open>Customer requests\<close>

lemma sys_views:
  "steps (sys_step key) (ViewABR E i akID)" "steps (sys_step key) (ViewLive E i akID ik)"
  "steps (sys_step key) (existing E akID kind req hash)"
  unfolding ViewABR_def ViewLive_def read_operation_def existing_def
  by (auto intro!: sys.steps_bind sys.steps_attempt sys.steps_if sys.steps_ret sys.steps_throw sys_db_read
      split: option.split sum.split)

lemma sys_stop: "steps (sys_step key) (StopLive E i akID)"
  unfolding StopLive_def
  by (auto intro!: sys.steps_bind sys.steps_if sys.steps_ret sys.steps_throw sys_db_read sys_quiet sys_request_stop sys_local)

lemma sys_transact:
  assumes "op_Secrets r = BoxSeal key n (op_ID r) s" and "caps_ok s"
  shows "steps (sys_step key) (db_transact E (\<lambda>t. CreateIntent t r capab offering name h1 h2 est))"
  unfolding db_transact_def
proof (rule sys_interact)
  fix t
  have "steps (sys_step key) (with_state (\<lambda>x. case CreateIntent (clock E t) r capab offering name h1 h2 est (edb x) of
        None \<Rightarrow> throw (DbErr ''violates unique constraint'')
      | Some d \<Rightarrow> thenE (db_apply (\<lambda>_. d)) (case flt of Some (LostAfter e) \<Rightarrow> throw e | _ \<Rightarrow> ret ())))" for flt
    using sys_create [OF _ _ assms]
    by (auto simp: steps_def sys_step_def eng_simps db_apply_def split: option.split db_fault.split)
  then show "steps (sys_step key) (case dbFault E t of Some (LostBefore e) \<Rightarrow> throw e
      | flt \<Rightarrow> with_state (\<lambda>x. case CreateIntent (clock E t) r capab offering name h1 h2 est (edb x) of
          None \<Rightarrow> throw (DbErr ''violates unique constraint'')
        | Some d \<Rightarrow> thenE (db_apply (\<lambda>_. d)) (case flt of Some (LostAfter e) \<Rightarrow> throw e | _ \<Rightarrow> ret ())))"
    by (cases "dbFault E t"; cases "the (dbFault E t)") (auto intro: sys.steps_throw)
qed

lemma sys_admit:
  assumes "caps_ok s" and "steps (sys_step (boxKey E)) created" and "\<And>p. steps (sys_step (boxKey E)) (replayed p)"
  shows "steps (sys_step (boxKey E)) (admit E o1 s v name h1 h2 est replayed created)"
proof -
  define rest where "rest x = bindE (attempt (db_transact E (\<lambda>t. CreateIntent t (eo x) (s_Capability s) (s_Offering s) name h1 h2 est)))
       (\<lambda>r. case r of
          Inr _ \<Rightarrow> created
        | Inl _ \<Rightarrow> bindE (existing E (op_APIKeyID o1) (op_Kind o1) (op_RequestKey o1) (op_RequestHash o1)) (\<lambda>prior.
            case prior of Some p \<Rightarrow> replayed p | None \<Rightarrow> throw (HumaErr 500 ''operation_create_failed'')))" for x :: estate
  have rest: "steps (sys_step (boxKey E)) (rest y)" if "op_Secrets (eo y) = BoxSeal (boxKey E) n (op_ID (eo y)) s" for y n
    unfolding rest_def using that assms
    by (auto intro!: sys.steps_bind sys.steps_attempt sys_transact sys_views sys.steps_throw split: option.split sum.split)
  have eq: "admit E o1 s v name h1 h2 est replayed created =
      thenE (load_operation o1 s v) (thenE (seal E) (with_state rest))"
    unfolding admit_def rest_def by (rule refl)
  show ?thesis
    unfolding eq steps_def
    using stepsD [OF rest]
    by (auto simp: sys_step_def load_operation_def seal_def set_o_def eng_simps split: option.split)
qed

definition config_ok :: "env \<Rightarrow> bool" where
  "config_ok E \<longleftrightarrow> Load (urlParse E) (cfg E) = Inr (cfg E) \<and> ABRMaxTotalUnits (cfg E) < 2 ^ 63"

lemma config_okD: "config_ok E \<Longrightarrow> 0 \<le> LiveMaxTotalUnits (cfg E)"
  by (auto simp: config_ok_def Load_def split: if_splits)

lemma sys_check_offering: "steps (sys_step key) (checkOffering E H c f p u)"
  unfolding checkOffering_def
  by (intro sys_interact) (auto intro: sys.steps_throw sys.steps_ret split: sum.split option.split)

lemma sys_submit_abr:
  assumes "config_ok E"
  shows "steps (sys_step (boxKey E)) (SubmitABR E H akID i)"
proof -
  have lim: "0 \<le> lmt" if "abrAuthorizationLimit (estimateABRUnits p secs) req (ABRMaxTotalUnits (cfg E)) = Inr lmt" for lmt p secs req
    using that abr_limit_nonneg assms by (auto simp: config_ok_def)
  have "steps (sys_step (boxKey E)) (abr_create E H akID i c n p k h)" for c n p k h
    unfolding abr_create_def Let_def
    using lim
    by (auto intro!: sys.steps_bind sys_check_offering sys.steps_throw sys_local sys_admit sys_views caps_ok_new sys_quiet split: sum.split)
  then show ?thesis
    unfolding SubmitABR_def requestKey_def Let_def
    by (auto intro!: sys.steps_bind sys.steps_throw sys.steps_ret sys.steps_if sys_local sys_views split: option.split)
qed

lemma sys_attempt:
  assumes "loc_outcomes_ok E"
  shows "steps (sys_step (boxKey E)) (Process E i)"
  using sys_Process [OF assms] by (simp add: steps_def sys_step_def)

lemma sys_submit_live:
  assumes "config_ok E" and "loc_outcomes_ok E"
  shows "steps (sys_step (boxKey E)) (SubmitLive E H akID i)"
proof -
  have "steps (sys_step (boxKey E)) (live_first_attempt E oid akID)" for oid
    unfolding live_first_attempt_def Let_def
    by (auto intro!: sys.steps_bind sys.steps_attempt sys_attempt assms(2) sys.steps_throw sys_views sys_quiet split: sum.split)
  then have "steps (sys_step (boxKey E)) (live_create E H akID i k h)" for k h
    unfolding live_create_def Let_def
    by (auto intro!: sys.steps_bind sys_check_offering sys_local sys_quiet sys_admit caps_ok_new config_okD assms(1) sys_views)
  then show ?thesis
    unfolding SubmitLive_def requestKey_def Let_def
    by (auto intro!: sys.steps_bind sys.steps_throw sys.steps_ret sys_local sys_views split: option.split)
qed

section \<open>Reachable databases\<close>

text \<open>One request or worker attempt of a gateway whose journal is sealed under \<open>key\<close>. Each step runs
  in its own environment: upstream answers, faults and interleaved stop requests are arbitrary.\<close>

inductive gw_step :: "string \<Rightarrow> database \<Rightarrow> database \<Rightarrow> bool" for key where
  submit_abr: "boxKey E = key \<Longrightarrow> config_ok E \<Longrightarrow> gw_step key (edb x) (edb (snd (SubmitABR E H akID a x)))"
| submit_live: "boxKey E = key \<Longrightarrow> config_ok E \<Longrightarrow> loc_outcomes_ok E \<Longrightarrow>
    gw_step key (edb x) (edb (snd (SubmitLive E H akID l x)))"
| stop: "gw_step key (edb x) (edb (snd (StopLive E i akID x)))"
| process: "boxKey E = key \<Longrightarrow> loc_outcomes_ok E \<Longrightarrow> gw_step key (edb x) (edb (snd (Process E i x)))"
| relay: "boxKey E = key \<Longrightarrow> gw_step key (edb x) (edb (snd (UpstreamURL E patience lid x)))"

inductive reachable :: "string \<Rightarrow> database \<Rightarrow> bool" for key where
  empty: "db_ops d = [] \<Longrightarrow> reachable key d"
| step: "reachable key d \<Longrightarrow> gw_step key d d' \<Longrightarrow> reachable key d'"

inductive_cases gw_stepE: "gw_step key d d'"

lemma gw_step_inv: "gw_step key d d' \<Longrightarrow> sys_inv key d \<Longrightarrow> sys_inv key d'"
proof (induction rule: gw_step.induct)
  case (submit_abr E x H akID a)
  then show ?case using stepsD [OF sys_submit_abr [of E H akID a], of x] by (simp add: sys_step_def)
next
  case (submit_live E x H akID l)
  then show ?case using stepsD [OF sys_submit_live [of E H akID l], of x] by (simp add: sys_step_def)
next
  case (stop x E i akID)
  then show ?case using stepsD [OF sys_stop [of key E i akID], of x] by (simp add: sys_step_def)
next
  case (process E x i)
  then show ?case using sys_Process [of E x i] by simp
next
  case (relay E x patience lid)
  then show ?case using stepsD [OF sys_relay [of E patience lid], of x] by (simp add: sys_step_def)
qed

lemma reachable_inv: "reachable key d \<Longrightarrow> sys_inv key d"
proof (induction rule: reachable.induct)
  case (empty d)
  then show ?case by (simp add: sys_inv_def OpGet_def)
next
  case (step d d')
  then show ?case by (blast intro: gw_step_inv)
qed

text \<open>A start: an empty journal, one live offering, and a worker that holds the new operation.\<close>

definition sample_url :: URL where
  "sample_url = \<lparr>u_Scheme = ''rtmp'', u_Host = ''edge'', u_Hostname = ''edge'', u_HasUser = False, u_RawQuery = '''',
     u_Fragment = '''', u_Path = ''/live''\<rparr>"

definition busy_env :: env where
  "busy_env = (sample_env ''wrap'')\<lparr>urlParse := (\<lambda>_. Some sample_url), lockedByOthers := (\<lambda>_. [''op''])\<rparr>"

definition sample_offering :: UpsertCapability where
  "sample_offering = \<lparr>uc_Protocol = ''paid-session/v1'', uc_WorkUnit = ''output_seconds'', uc_UnitsPerPrice = None,
     uc_WorkUnitEstimatorJSON = None, uc_JobJSON = None, uc_SessionJSON = Some ''rtmp-hls/v1'',
     uc_CapabilityID = ''video:live/relay'', uc_Capability = ''video:live'', uc_Offering = ''relay'', uc_InteractionMode = '''',
     uc_Name = '''', uc_Description = '''', uc_Provider = '''', uc_Category = '''', uc_EthAddress = '''',
     uc_PricePerWorkUnitWei = None, uc_BrokerURL = '''', uc_ExtraJSON = None, uc_ConstraintsJSON = None\<rparr>"

definition sample_henv :: henv where
  "sample_henv = \<lparr>hS3 = None, hSign = (\<lambda>_ _ _ _ _. Inl (Msg ''unsigned'')), hCaps = (\<lambda>_. Inr [upsert_row 0 sample_offering]),
     hJobTransports = (\<lambda>_. None), hSessionSchema = id, hABRBody = ai_InputURL, hLiveBody = li_Name,
     hUUID = (\<lambda>_ n. if n = 1 then ''op'' else ''res''), hToken = (\<lambda>_. Inr ''stream-key''), hPepperHash = (\<lambda>s. s)\<rparr>"

definition sample_live_in :: LiveIn where
  "sample_live_in = \<lparr>li_IdempotencyKey = ''req'', li_Name = ''stream'', li_OutputProfile = '''', li_HasLadder = False\<rparr>"

definition start_state :: estate where
  "start_state = (sample_state sample_row)\<lparr>edb := \<lparr>db_reservations = [], db_live = [], db_ops = []\<rparr>\<rparr>"

text \<open>C1: the gateway's safety invariant. In every database reachable from one without operations, by
  any sequence of submissions, stop requests, worker attempts and relay look-ups of gateways whose
  configuration passed the start-up checks (\<open>config_ok\<close>), whichever statement fails and whatever the
  upstreams answer, except that LOC never reports a job's accounting outcome as the text the
  gateway itself uses for a refused issuance (\<open>loc_outcomes_ok\<close>: the code stores LOC's outcome in
  the state column, where that text marks a refused operation): an operation's reservation exists, and has left
  the open state if the operation is finished; and its journal row opens under the wrapping key to
  secrets whose current and pending authorization are within the operation's spending limit.\<close>

theorem reachable_safe:
  assumes "reachable key d" and "OpGet i d = Some r"
  shows "(\<exists>u. GetByID (op_ReservationID r) (db_reservations d) = Some u \<and>
       (op_FinishedAt r \<noteq> None \<longrightarrow> ur_State u \<noteq> ReservationOpen)) \<and>
     (\<exists>s. BoxOpen key i (op_Secrets r) = Some s \<and> s_CurrentCap s \<le> s_LimitUnits s \<and> s_RefillCap s \<le> s_LimitUnits s)"
proof -
  have r: "row_inv key d i r" using reachable_inv [OF assms(1)] assms(2) by (simp add: sys_inv_def)
  then obtain u s where "GetByID (op_ReservationID r) (db_reservations d) = Some u" "BoxOpen key i (op_Secrets r) = Some s" "caps_ok s"
    by (auto simp: row_inv_def)
  with r show ?thesis by (simp add: row_inv_def finished_ok_def resolved_def caps_ok_def)
qed

theorem reachable_safe_witness:
  "\<exists>d r. reachable ''wrap'' d \<and> OpGet ''op'' d = Some r \<and>
     (\<exists>u. GetByID (op_ReservationID r) (db_reservations d) = Some u \<and>
       (op_FinishedAt r \<noteq> None \<longrightarrow> ur_State u \<noteq> ReservationOpen))"
proof -
  let ?d = "edb (snd (SubmitLive busy_env sample_henv ''key'' sample_live_in start_state))"
  have "reachable ''wrap'' (edb start_state)" by (rule reachable.empty) (simp add: start_state_def)
  moreover have "gw_step ''wrap'' (edb start_state) ?d"
    by (rule gw_step.submit_live)
       (simp_all add: config_ok_def loc_outcomes_ok_def busy_env_def sample_defs Load_def rtmp_server_url_ok_def sample_url_def)
  ultimately have "reachable ''wrap'' ?d" by (rule reachable.step)
  moreover have "OpGet ''op'' ?d \<noteq> None" by code_simp
  then obtain r where "OpGet ''op'' ?d = Some r" by auto
  ultimately show ?thesis using reachable_safe [of "''wrap''" ?d "''op''" r] by blast
qed

end
