(* ===== verification/Handler_Facts.thy ===== *)
theory Handler_Facts
  imports Gateway_System
begin

text \<open>
  Properties of the customer-facing routes: isolation of tenants, what a view discloses, replay of
  a request under its idempotency key, relay admission, and the first authorization of a live stream.
\<close>

section \<open>Read-only requests\<close>

text \<open>Nothing but the stop requests of other callers happened.\<close>

definition only_stops :: "estate \<Rightarrow> estate \<Rightarrow> bool" where
  "only_stops x y \<longleftrightarrow> calls y = calls x \<and> db_reservations (edb y) = db_reservations (edb x) \<and>
     db_live (edb y) = db_live (edb x) \<and> list_all2 stopped_only (db_ops (edb x)) (db_ops (edb y))"

interpretation stops: step_contract only_stops
proof
  show "only_stops x x" for x
    by (simp add: only_stops_def list_all2_refl stopped_only_refl)
  show "only_stops x z" if "only_stops x y" "only_stops y z" for x y z
    using that list_all2_trans [of stopped_only stopped_only stopped_only] stopped_only_trans
    by (fastforce simp: only_stops_def)
qed

lemma list_all2_stop: "list_all2 stopped_only t (db_ops (RequestStop now k d))" if "t = db_ops d"
  using that by (simp add: RequestStop_def sql_update_def list_all2_conv_all_nth stopped_only_refl stopped_only_stop)

lemma list_all2_stops: "list_all2 stopped_only (db_ops d) (db_ops (fold (RequestStop now) ks d))"
proof (induction ks arbitrary: d)
  case Nil
  then show ?case by (simp add: list_all2_refl stopped_only_refl)
next
  case (Cons k ks)
  show ?case
    using list_all2_trans [of stopped_only stopped_only stopped_only, OF _ list_all2_stop [OF refl, of d now k] Cons.IH]
      stopped_only_trans by (auto simp del: db_simps)
qed

lemma only_stops_arrive: "only_stops x (arrive E t x)"
  by (simp add: only_stops_def list_all2_stops)

lemma stops_read: "steps only_stops (db_read E g)"
  by (simp add: steps_def db_read_arrives only_stops_arrive)

lemma stops_views:
  "steps only_stops (ViewABR E i akID)" "steps only_stops (ViewLive E i akID ik)"
  "steps only_stops (existing E akID kind req hash)"
  unfolding ViewABR_def ViewLive_def read_operation_def existing_def
  by (auto intro!: stops.steps_bind stops.steps_attempt stops.steps_if stops.steps_ret stops.steps_throw stops_read
      split: option.split sum.split)

lemma only_stops_find:
  assumes "only_stops x y" and "\<And>r r' :: operation. stopped_only r r' \<Longrightarrow> p r' = p r" and "find p (db_ops (edb x)) = Some r"
  shows "\<exists>r'. find p (db_ops (edb y)) = Some r' \<and> stopped_only r r'"
proof -
  have "list_all2 stopped_only (db_ops (edb x)) (db_ops (edb y))" using assms(1) by (simp add: only_stops_def)
  then show ?thesis using assms(3)
    by (induction rule: list_all2_induct) (auto simp: assms(2) split: if_splits)
qed

lemma stopped_only_identity:
  "stopped_only r r' \<Longrightarrow> op_APIKeyID r' = op_APIKeyID r \<and> op_RequestKey r' = op_RequestKey r \<and> op_RequestHash r' = op_RequestHash r \<and>
     op_Kind r' = op_Kind r"
  by (cases r; cases r') (simp add: stopped_only_def)

lemma read_state: "db_read E g x = (Inr r, y) \<Longrightarrow> y = arrive E (tick x) x \<and> r = g (edb y)"
  using db_read_arrives [of E g x] db_read_result [of E g x r] by simp

section \<open>Tenant isolation\<close>

lemma not_mine_arrive:
  assumes "not_mine akID kind (OpGet i (edb x))"
  shows "not_mine akID kind (OpGet i (edb (arrive E t x)))"
  using assms OpGet_stops(1) [of i "clock E t" "stops E t" "edb x"] OpGet_stops(2) [of i "edb x" _ "clock E t" "stops E t"]
  by (cases "OpGet i (edb x)") (auto simp: not_mine_def split: option.split dest!: stopped_only_identity)

text \<open>The error of a read is the one the statement met.\<close>

lemma db_read_error: "fst (db_read E g x) = Inl e \<Longrightarrow> dbFault E (tick x) \<in> {Some (LostBefore e), Some (LostAfter e)}"
  by (auto simp: db_read_def interact_def eng_simps split: option.splits db_fault.splits)

lemma not_mine_read:
  "not_mine akID k (OpGet i (edb x)) \<Longrightarrow> fst (db_read E (OpGet i) x) = Inr r \<Longrightarrow> not_mine akID k r"
  using not_mine_arrive [of akID k i x E "tick x"] db_read_result [of E "OpGet i" x] by auto

text \<open>C16: tenants and kinds are isolated. For an operation that does not exist, belongs to another API key or
  is no ABR job, viewing it as ABR job answers not found or a read error; for one that does not exist,
  belongs to another key or is no live session, viewing it as live session answers the same, and
  stopping it answers not found or the error of the read. So nothing of it is disclosed, and nothing
  changes: no upstream call, no ledger or stream write, and no row beyond the owners' own interleaved
  stop requests. In particular a caller's own operation of the other kind is hidden.\<close>

theorem foreign_operations_hidden:
  "(not_mine akID ''abr'' (OpGet i (edb x)) \<longrightarrow>
      fst (ViewABR E i akID x) \<in> {Inl (HumaErr 404 ''not_found''), Inl (HumaErr 500 ''operation_read_failed'')} \<and>
      only_stops x (snd (ViewABR E i akID x))) \<and>
   (not_mine akID ''live'' (OpGet i (edb x)) \<longrightarrow>
      fst (ViewLive E i akID ik x) \<in> {Inl (HumaErr 404 ''not_found''), Inl (HumaErr 500 ''operation_read_failed'')} \<and>
      only_stops x (snd (ViewLive E i akID ik x)) \<and>
      (\<exists>e. fst (StopLive E i akID x) = Inl e \<and>
         (e = HumaErr 404 ''not_found'' \<or> dbFault E (tick x) \<in> {Some (LostBefore e), Some (LostAfter e)})) \<and>
      only_stops x (snd (StopLive E i akID x)))"
proof (intro conjI impI)
  have only: "only_stops x (snd (db_read E (OpGet i) x))" by (simp add: db_read_arrives only_stops_arrive)
  show "fst (ViewABR E i akID x) \<in> {Inl (HumaErr 404 ''not_found''), Inl (HumaErr 500 ''operation_read_failed'')}"
    if "not_mine akID ''abr'' (OpGet i (edb x))"
    using not_mine_read [OF that, of E]
    by (auto simp: ViewABR_def read_operation_def attempt_def bindE_snd throw_def ret_def split: sum.split prod.split)
  assume live: "not_mine akID ''live'' (OpGet i (edb x))"
  show "fst (ViewLive E i akID ik x) \<in> {Inl (HumaErr 404 ''not_found''), Inl (HumaErr 500 ''operation_read_failed'')}"
    using not_mine_read [OF live, of E]
    by (auto simp: ViewLive_def read_operation_def attempt_def bindE_snd throw_def ret_def split: sum.split prod.split)
  show "\<exists>e. fst (StopLive E i akID x) = Inl e \<and>
         (e = HumaErr 404 ''not_found'' \<or> dbFault E (tick x) \<in> {Some (LostBefore e), Some (LostAfter e)})"
    using not_mine_read [OF live, of E] db_read_error [of E "OpGet i" x]
    by (cases "fst (db_read E (OpGet i) x)") (auto simp: StopLive_def bindE_snd throw_def)
  show "only_stops x (snd (StopLive E i akID x))"
    using not_mine_read [OF live, of E] only by (auto simp: StopLive_def bindE_snd throw_def split: sum.split)
qed (use stepsD [OF stops_views(1)] stepsD [OF stops_views(2)] in blast)+

text \<open>An intruder, and the owner who takes the live session for an ABR job.\<close>

theorem foreign_operations_hidden_witness:
  "(\<exists>e. fst (StopLive (sample_env ''wrap'') ''op'' ''intruder'' (sample_state sample_row)) = Inl e) \<and>
   only_stops (sample_state sample_row) (snd (StopLive (sample_env ''wrap'') ''op'' ''intruder'' (sample_state sample_row))) \<and>
   fst (ViewABR (sample_env ''wrap'') ''op'' ''key'' (sample_state sample_row)) \<in>
     {Inl (HumaErr 404 ''not_found''), Inl (HumaErr 500 ''operation_read_failed'')}"
proof -
  have "op_APIKeyID sample_row = ''key''" by (simp add: sample_row_def)
  then have "not_mine ''intruder'' ''live'' (OpGet ''op'' (edb (sample_state sample_row)))"
      "not_mine ''key'' ''abr'' (OpGet ''op'' (edb (sample_state sample_row)))"
    by (simp_all add: not_mine_def)
  then show ?thesis
    using foreign_operations_hidden [of "''intruder''" "''op''" "sample_state sample_row" "sample_env ''wrap''"]
      foreign_operations_hidden [of "''key''" "''op''" "sample_state sample_row" "sample_env ''wrap''"] by blast
qed

section \<open>What a live view discloses\<close>

text \<open>The stream key is shown only where it can be used. A live view contains a stream key only when
  the creating route asks for it, the operation is the caller's, not finished and not stopped, its
  media have not ended and no refill was refused; and the key is the one sealed in its journal.\<close>

theorem ViewLive_key_guarded:
  assumes "ViewLive E i akID includeKey x = (Inr w, y)" and "lv_StreamKey w \<noteq> ''''"
  shows "includeKey \<and> (\<exists>r s. OpGet i (edb y) = Some r \<and> op_APIKeyID r = akID \<and> op_FinishedAt r = None \<and> \<not> op_StopRequested r \<and>
    v_MediaEndedAt (op_PublicJSON r) = None \<and> BoxOpen (boxKey E) i (op_Secrets r) = Some s \<and> \<not> s_RefillRefused s \<and>
    lv_StreamKey w = s_CustomerKey s)"
proof -
  obtain o1 s v where o1: "db_read E (OpGet i) x = (Inr (Some o1), y)" and mine: "\<not> not_mine akID ''live'' (Some o1)"
      and dec: "decode E o1 = Inr (s, v)" and w: "w = live_session_view E includeKey o1 s v"
    using assms(1)
    by (auto simp: ViewLive_def read_operation_def attempt_def bindE_def throw_def ret_def
        split: prod.splits sum.splits option.splits if_splits)
  have row: "OpGet i (edb y) = Some o1" using read_state [OF o1] by auto
  have "v = op_PublicJSON o1" "BoxOpen (boxKey E) i (op_Secrets o1) = Some s"
    using dec OpGet_ID [OF row] by (auto simp: decode_def split: option.splits if_splits)
  with assms(2) w row mine show ?thesis
    by (auto simp: live_session_view_def Let_def not_mine_def split: if_splits)
qed

theorem ViewLive_key_guarded_witness:
  "\<exists>w y. ViewLive (sample_env ''wrap'') ''op'' ''key'' True (sample_state sample_row) = (Inr w, y) \<and>
     lv_StreamKey w = ''customer-key''"
proof -
  let ?r = "ViewLive (sample_env ''wrap'') ''op'' ''key'' True (sample_state sample_row)"
  have dec: "decode (sample_env ''wrap'') sample_row = Inr (sample_secrets, sample_view)"
    by (simp add: decode_def BoxOpen_def BoxSeal_def) (simp add: sample_defs)
  obtain w y where w: "?r = (Inr w, y)" "lv_StreamKey w \<noteq> ''''"
  proof -
    have arr: "arrive (sample_env ''wrap'') t (sample_state sample_row) = (sample_state sample_row)\<lparr>tick := Suc t\<rparr>" for t
      by (simp add: arrive_def sample_env_def)
    have flt: "dbFault (sample_env ''wrap'') t = None" "stops (sample_env ''wrap'') t = []" for t by (simp_all add: sample_env_def)
    have mine: "\<not> not_mine ''key'' ''live'' (Some sample_row)" by (simp add: not_mine_def sample_row_def)
    have "?r = (Inr (live_session_view (sample_env ''wrap'') True sample_row sample_secrets sample_view),
        (sample_state sample_row)\<lparr>tick := Suc (tick (sample_state sample_row))\<rparr>)"
      by (simp add: ViewLive_def read_operation_def db_read_def interact_def eng_simps flt arr mine dec)
    moreover have "lv_StreamKey (live_session_view (sample_env ''wrap'') True sample_row sample_secrets sample_view) \<noteq> ''''"
      by (simp add: live_session_view_def Let_def) (simp add: sample_defs)
    ultimately show thesis using that by blast
  qed
  from ViewLive_key_guarded [OF w] obtain q s where q: "OpGet ''op'' (edb y) = Some q"
      "BoxOpen (boxKey (sample_env ''wrap'')) ''op'' (op_Secrets q) = Some s" "lv_StreamKey w = s_CustomerKey s" by blast
  have "y = arrive (sample_env ''wrap'') (tick (sample_state sample_row)) (sample_state sample_row)"
    using w(1) by (auto simp: ViewLive_def read_operation_def attempt_def bindE_def throw_def ret_def
        split: prod.splits sum.splits option.splits if_splits dest: read_state)
  with q have "q = sample_row" by (simp add: sample_env_def)
  with q(2) have "s = sample_secrets" by (simp add: BoxOpen_def BoxSeal_def sample_env_def)
  with q(3) w(1) show ?thesis by (auto simp: sample_secrets_def)
qed

section \<open>Replay under an idempotency key\<close>

lemma find_request_stops:
  "only_stops x y \<Longrightarrow> FindRequest k kind req (edb x) = Some r \<Longrightarrow> \<exists>r'. FindRequest k kind req (edb y) = Some r' \<and> stopped_only r r'"
  unfolding FindRequest_def by (rule only_stops_find) (auto dest: stopped_only_identity)

lemma existing_found:
  assumes "FindRequest k kind req (edb x) = Some r"
  shows "\<exists>o1. (fst (existing E k kind req h x) = Inr (Some o1) \<and> op_RequestHash r = h \<and> op_ID o1 = op_ID r) \<or>
    isl (fst (existing E k kind req h x))"
proof -
  obtain r' where r': "FindRequest k kind req (edb (arrive E (tick x) x)) = Some r'" "stopped_only r r'"
    using find_request_stops [OF only_stops_arrive assms] by blast
  have "fst (db_read E (FindRequest k kind req) x) = Inr q \<Longrightarrow> q = Some r'" for q
    using db_read_result [of E "FindRequest k kind req" x q] r'(1) by (simp del: arrive_simps)
  then show ?thesis
    using stopped_only_identity [OF r'(2)] stopped_only_fields [OF r'(2)]
    by (cases "fst (db_read E (FindRequest k kind req) x)") (auto simp: existing_def bindE_snd throw_def ret_def)
qed

text \<open>A repeated submission creates nothing. When the caller's API key already has an operation under
  the idempotency key, submitting again, with whatever request and against whatever answers, adds
  no operation, reservation or stream and makes no upstream call; and if the request differs from
  the first one it is refused.\<close>

theorem resubmission_creates_nothing:
  assumes "ai_IdempotencyKey i = key" and "key \<noteq> ''''" and "FindRequest akID ''abr'' key (edb x) = Some r"
  shows "only_stops x (snd (SubmitABR E H akID i x)) \<and>
    (requestDigest E (hABRBody H i) \<noteq> op_RequestHash r \<longrightarrow> isl (fst (SubmitABR E H akID i x)))"
proof -
  let ?h = "requestDigest E (hABRBody H i)"
  let ?e = "existing E akID ''abr'' key ?h"
  have only: "only_stops x (snd (?e x))" by (rule stepsD [OF stops_views(3)])
  have view: "only_stops x (snd (ViewABR E j akID (snd (?e x))))" for j
    using stops.R_trans [OF only stepsD [OF stops_views(1)]] by blast
  obtain o1 where e: "(fst (?e x) = Inr (Some o1) \<and> op_RequestHash r = ?h \<and> op_ID o1 = op_ID r) \<or> isl (fst (?e x))"
    using existing_found [OF assms(3)] by blast
  have key: "requestKey H (ai_IdempotencyKey i) x = (Inr key, x)"
    using assms(1,2) by (simp add: requestKey_def eng_simps)
  show ?thesis
    using e only view
    by (auto simp: SubmitABR_def Let_def bindE_snd key throw_def stops.R_refl isl_def split: option.split sum.splits)
qed

theorem resubmission_creates_nothing_witness:
  "only_stops (sample_state (sample_row\<lparr>op_Kind := ''abr''\<rparr>)) (snd (SubmitABR (sample_env ''wrap'') sample_henv ''key''
     \<lparr>ai_IdempotencyKey = ''req'', ai_InputURL = ''https://other'', ai_Preset = '''', ai_HasLadder = False, ai_EstimatedSecs = 1,
      ai_MaxTotalUnits = 0\<rparr> (sample_state (sample_row\<lparr>op_Kind := ''abr''\<rparr>))))"
proof -
  have "FindRequest ''key'' ''abr'' ''req'' (edb (sample_state (sample_row\<lparr>op_Kind := ''abr''\<rparr>))) = Some (sample_row\<lparr>op_Kind := ''abr''\<rparr>)"
    by (simp add: FindRequest_def sample_state_def sample_db_def) (simp add: sample_row_def)
  from resubmission_creates_nothing [OF _ _ this] show ?thesis by simp
qed

section \<open>Relay admission\<close>

lemma acquire_no_url: "triple (\<lambda>_. True) m (\<lambda>url _. url = ('''' :: string)) (\<lambda>_ _. True) \<Longrightarrow> m x = (Inr url, y) \<Longrightarrow> url = ''''"
  by (drule tripleD_ok) auto

lemma stopped_no_target:
  assumes "GetLive lid (edb x) = Some r" and "\<not> relayable r"
  shows "fst (UpstreamURL E patience lid x) = Inr '''' \<or> isl (fst (UpstreamURL E patience lid x))"
proof -
  have key: "(op_LiveStreamID q' = Some lid) = (op_LiveStreamID q = Some lid)" if "stopped_only q q'" for q q' :: operation
    using stopped_only_fields [OF that] by simp
  obtain r' where r': "GetLive lid (edb (arrive E (tick x) x)) = Some r'" "stopped_only r r'"
    using only_stops_find [OF only_stops_arrive, of "\<lambda>q. op_LiveStreamID q = Some lid" x r E "tick x"] key assms(1)
    unfolding GetLive_def row_by_def by blast
  have "\<not> relayable r'"
    using assms(2) stopped_only_fields [OF r'(2)] r'(2) by (auto simp: relayable_def stopped_only_def)
  with r'(1) show ?thesis
    using db_read_result [of E "GetLive lid" x]
    by (auto simp: UpstreamURL_def bindE_snd ret_def simp del: arrive_simps split: sum.split option.split)
qed

text \<open>A stopped or finished stream is never relayed. If the operation of a stream carries a stop
  request, is finished or has left the active state when a publisher connects, the relay look-up
  yields no target, whatever the upstreams answer and however long it waits.\<close>

theorem UpstreamURL_stopped:
  assumes "GetLive lid (edb x) = Some r" and "\<not> relayable r"
  shows "fst (UpstreamURL E patience lid x) = Inr '''' \<or> isl (fst (UpstreamURL E patience lid x))"
  using assms by (rule stopped_no_target)

theorem UpstreamURL_stopped_witness:
  "fst (UpstreamURL (sample_env ''wrap'') 5 ''op'' (sample_state (sample_row\<lparr>op_StopRequested := True\<rparr>))) = Inr '''' \<or>
   isl (fst (UpstreamURL (sample_env ''wrap'') 5 ''op'' (sample_state (sample_row\<lparr>op_StopRequested := True\<rparr>))))"
proof -
  have "GetLive ''op'' (edb (sample_state (sample_row\<lparr>op_StopRequested := True\<rparr>))) = Some (sample_row\<lparr>op_StopRequested := True\<rparr>)"
    by (simp add: GetLive_def sample_state_def sample_db_def) (simp add: sample_row_def)
  then show ?thesis by (rule UpstreamURL_stopped) (simp add: relayable_def)
qed

section \<open>The first authorization of a live stream\<close>

text \<open>A started gateway admits live streams with a positive, bounded authorization. For every
  configuration that passes the start-up checks, whatever the funding increment, the authorization a
  live stream is created with is positive and within the configured lifetime ceiling.\<close>

theorem live_initial_cap_bounds:
  assumes "Load parse c = Inr c'"
  shows "c' = c \<and> 0 < live_initial_cap c \<and> live_initial_cap c \<le> LiveMaxTotalUnits c"
  using assms by (auto simp: Load_def live_initial_cap_def split: if_split_asm)

theorem live_initial_cap_bounds_witness:
  "0 < live_initial_cap sample_config \<and> live_initial_cap sample_config \<le> 3600"
proof -
  have "Load (\<lambda>_. Some sample_url) sample_config = Inr sample_config"
    by (simp add: Load_def rtmp_server_url_ok_def sample_config_def sample_url_def)
  from live_initial_cap_bounds [OF this] show ?thesis by (simp add: sample_config_def)
qed

end
