(* ===== verification/RTMP_Facts.thy ===== *)
theory RTMP_Facts
  imports RTMP Handler_Facts "HOL-Library.Multiset"
begin

text \<open>
  The RTMP server's correctness: what a publish that fails leaves behind, how many publishes are
  counted and outgoing connections open in every reachable state, what the stop route reaches, and
  that a stopped stream's key opens nothing.
\<close>

section \<open>Publishing\<close>

lemma DialAndPublish_failed: "DialAndPublish E t upstream s = (Inl e, s') \<Longrightarrow> s' = s"
  by (auto simp: DialAndPublish_def Let_def split: sum.splits if_splits)

lemma DialAndPublish_done:
  "DialAndPublish E t upstream s = (Inr a, s') \<Longrightarrow> a = length (sv_relays s) \<and>
     (\<exists>rl. \<not> rl_Closed rl \<and> rl_Conn rl \<and> s' = s\<lparr>sv_upstreams := sv_upstreams s + 1, sv_relays := sv_relays s @ [rl]\<rparr>)"
  by (force simp: DialAndPublish_def Let_def split: sum.splits if_splits)

lemma handler_simps [simp]:
  "sv_relays (on_handler i f s) = sv_relays s" "sv_activeRelays (on_handler i f s) = sv_activeRelays s"
  "sv_activePublishes (on_handler i f s) = sv_activePublishes s" "sv_upstreams (on_handler i f s) = sv_upstreams s"
  "sv_handlers (on_handler i f s) = (sv_handlers s)[i := f (sv_handlers s ! i)]"
  "sv_handlers (on_relay a g s) = sv_handlers s" "sv_activeRelays (on_relay a g s) = sv_activeRelays s"
  "sv_activePublishes (on_relay a g s) = sv_activePublishes s" "sv_upstreams (on_relay a g s) = sv_upstreams s"
  "sv_relays (on_relay a g s) = (sv_relays s)[a := g (sv_relays s ! a)]"
  by (simp_all add: on_handler_def on_relay_def)

lemma registry_simps [simp]:
  "sv_handlers (unregister lid s) = sv_handlers s" "sv_relays (unregister lid s) = sv_relays s"
  "sv_activePublishes (unregister lid s) = sv_activePublishes s" "sv_upstreams (unregister lid s) = sv_upstreams s"
  "sv_handlers (registerRelay lid i s) = sv_handlers s" "sv_relays (registerRelay lid i s) = sv_relays s"
  "sv_activePublishes (registerRelay lid i s) = sv_activePublishes s" "sv_upstreams (registerRelay lid i s) = sv_upstreams s"
  "sv_handlers (deregisterRelay lid i s) = sv_handlers s" "sv_relays (deregisterRelay lid i s) = sv_relays s"
  "sv_activePublishes (deregisterRelay lid i s) = sv_activePublishes s" "sv_upstreams (deregisterRelay lid i s) = sv_upstreams s"
  by (simp_all add: unregister_def registerRelay_def deregisterRelay_def)

text \<open>A failed publish changes the connection's own authentication fields and the counter of rejections.\<close>

definition left_nothing :: "nat \<Rightarrow> rtmp_server \<Rightarrow> rtmp_server \<Rightarrow> bool" where
  "left_nothing i s s' \<longleftrightarrow> (\<exists>h. sv_handlers s' = (sv_handlers s)[i := h] \<and> ch_relay h = ch_relay (sv_handlers s ! i) \<and>
      ch_closed h = ch_closed (sv_handlers s ! i) \<and> ch_tcp h = ch_tcp (sv_handlers s ! i) \<and>
      (ch_authed h \<longrightarrow> ch_authed (sv_handlers s ! i) \<and> ch_auth h = ch_auth (sv_handlers s ! i))) \<and>
    sv_relays s' = sv_relays s \<and> sv_activeRelays s' = sv_activeRelays s \<and>
    sv_activePublishes s' = sv_activePublishes s \<and> sv_upstreams s' = sv_upstreams s"

lemma reject_leaves_nothing: "left_nothing i s (snd (reject e s))"
  unfolding left_nothing_def by (simp add: reject_def) (metis list_update_id)

lemma left_nothing_hint: "left_nothing i (on_handler i (\<lambda>h. h\<lparr>ch_streamKeyHint := k\<rparr>) s) s' \<Longrightarrow> i < length (sv_handlers s) \<Longrightarrow> left_nothing i s s'"
  by (simp add: left_nothing_def)

lemma open_relay_failed:
  assumes "open_relay E t i r s1 = (Inl e, s')" and "i < length (sv_handlers s)"
    and s1: "s1 = on_handler i (\<lambda>h. h\<lparr>ch_authed := True, ch_auth := Some r, ch_publishStartedAt := c\<rparr>) (s\<lparr>sv_activePublishes := sv_activePublishes s + 1\<rparr>)"
  shows "left_nothing i s s'"
proof -
  have "s' = unauth i s1"
    using assms(1) by (auto simp: open_relay_def dest: DialAndPublish_failed split: if_splits prod.splits sum.splits)
  then show ?thesis
    using assms(2) unfolding left_nothing_def unauth_def s1
    by (intro conjI exI [of _ "(sv_handlers s ! i)\<lparr>ch_authed := True, ch_auth := Some r, ch_publishStartedAt := c, ch_authed := False\<rparr>"]) simp_all
qed

lemma OnPublish_failed:
  assumes "OnPublish E t i name s = (Inl e, s')" and i: "i < length (sv_handlers s)"
  shows "left_nothing i s s'"
proof (cases "TrimSpace name = ''''")
  case True
  then show ?thesis using assms(1) reject_leaves_nothing [of i s "''missing stream key''"] by (simp add: OnPublish_def)
next
  case False
  define s0 where "s0 = on_handler i (\<lambda>h. h\<lparr>ch_streamKeyHint := lastFour (TrimSpace name)\<rparr>) s"
  note publish = assms(1) [unfolded OnPublish_def Let_def if_not_P [OF False] s0_def [symmetric]]
  have "left_nothing i s0 s'"
  proof (cases "rAuth E t (rHashWithPepper E (TrimSpace name) (rPepper E))")
    case (Inl x)
    then show ?thesis using publish reject_leaves_nothing [of i s0 "''auth error''"] by simp
  next
    case (Inr x)
    show ?thesis
    proof (cases x)
      case None
      then show ?thesis using publish Inr reject_leaves_nothing [of i s0 "''unknown stream key''"] by simp
    next
      case (Some r)
      then show ?thesis
        using publish Inr i by (intro open_relay_failed [OF _ _ refl]) (simp_all add: s0_def)
    qed
  qed
  then show ?thesis unfolding s0_def by (rule left_nothing_hint) (rule i)
qed

lemma OnPublish_done:
  assumes "OnPublish E t i name s = (Inr (), s')" and "i < length (sv_handlers s)"
  shows "\<exists>r rl. rAuth E t (rHashWithPepper E (TrimSpace name) (rPepper E)) = Inr (Some r) \<and>
     \<not> rl_Closed rl \<and> rl_Conn rl \<and> sv_relays s' = sv_relays s @ [rl] \<and> sv_upstreams s' = sv_upstreams s + 1 \<and>
     sv_activePublishes s' = sv_activePublishes s + 1 \<and>
     (\<exists>h. sv_handlers s' = (sv_handlers s)[i := h] \<and> ch_authed h \<and> ch_auth h = Some r \<and>
        ch_relay h = Some (length (sv_relays s)) \<and> ch_closed h = ch_closed (sv_handlers s ! i) \<and> ch_tcp h = ch_tcp (sv_handlers s ! i)) \<and>
     sv_activeRelays s' = sv_activeRelays (registerRelay (a_LiveStreamID r) i s)"
proof -
  obtain r where r: "rAuth E t (rHashWithPepper E (TrimSpace name) (rPepper E)) = Inr (Some r)"
    and o1: "open_relay E t i r (on_handler i (\<lambda>h. h\<lparr>ch_authed := True, ch_auth := Some r, ch_publishStartedAt := rClock E t\<rparr>)
             ((on_handler i (\<lambda>h. h\<lparr>ch_streamKeyHint := lastFour (TrimSpace name)\<rparr>) s)\<lparr>sv_activePublishes := sv_activePublishes s + 1\<rparr>)) = (Inr (), s')"
    using assms(1) by (auto simp: OnPublish_def Let_def reject_def split: if_splits sum.splits option.splits)
  define s0 where "s0 = on_handler i (\<lambda>h. h\<lparr>ch_authed := True, ch_auth := Some r, ch_publishStartedAt := rClock E t\<rparr>)
             ((on_handler i (\<lambda>h. h\<lparr>ch_streamKeyHint := lastFour (TrimSpace name)\<rparr>) s)\<lparr>sv_activePublishes := sv_activePublishes s + 1\<rparr>)"
  have s0: "sv_relays s0 = sv_relays s" "sv_upstreams s0 = sv_upstreams s" "sv_activePublishes s0 = sv_activePublishes s + 1"
    "sv_activeRelays s0 = sv_activeRelays s" "sv_handlers s0 = (sv_handlers s)[i := (sv_handlers s ! i)\<lparr>ch_streamKeyHint := lastFour (TrimSpace name),
       ch_authed := True, ch_auth := Some r, ch_publishStartedAt := rClock E t\<rparr>]"
    using assms(2) by (simp_all add: s0_def)
  obtain a s1 where d: "DialAndPublish E t (a_PrivateIngestURL r) s0 = (Inr a, s1)"
    and s': "s' = registerRelay (a_LiveStreamID r) i (on_handler i (\<lambda>h. h\<lparr>ch_relay := Some a\<rparr>) s1)"
    using o1 unfolding s0_def [symmetric] by (auto simp: open_relay_def split: if_splits prod.splits sum.splits)
  from DialAndPublish_done [OF d] obtain rl where rl: "\<not> rl_Closed rl" "rl_Conn rl" "a = length (sv_relays s0)"
    and s1: "s1 = s0\<lparr>sv_upstreams := sv_upstreams s0 + 1, sv_relays := sv_relays s0 @ [rl]\<rparr>"
    by blast
  show ?thesis
    using r rl assms(2) unfolding s' s1
    by (intro exI [of _ r] exI [of _ rl]) (auto simp: registerRelay_def unregister_def s0)
qed

section \<open>Steps\<close>

text \<open>The connections' callbacks and the stop route in any order. A callback holds its connection's
  mutex, so it is one step; a frame whose relay was read earlier is written later, so \<open>frame\<close> writes
  to any relay; the stop route takes the registration out first and shuts the connection down
  afterwards. With \<open>once\<close>, a connection publishes only while it has no accepted publish and the
  library has not reported its end.\<close>

definition unpublished :: "connHandler \<Rightarrow> bool" where
  "unpublished h \<longleftrightarrow> \<not> ch_authed h \<and> \<not> ch_closed h"

inductive rtmp_step :: "bool \<Rightarrow> renv \<Rightarrow> rtmp_server \<Rightarrow> rtmp_server \<Rightarrow> bool" for once E where
  accept_conn: "rtmp_step once E s (accept_conn s)"
| publish: "i < length (sv_handlers s) \<Longrightarrow> once \<longrightarrow> unpublished (sv_handlers s ! i) \<Longrightarrow>
    rtmp_step once E s (snd (OnPublish E t i name s))"
| frame: "rtmp_step once E s (snd (write_frame c E t a timestamp payload s))"
| disconnect: "i < length (sv_handlers s) \<Longrightarrow> rtmp_step once E s (OnClose i s)"
| take_out: "rtmp_step once E s (unregister lid s)"
| shut: "i < length (sv_handlers s) \<Longrightarrow> rtmp_step once E s (shutdown i s)"

inductive rtmp_reachable :: "renv \<Rightarrow> rtmp_server \<Rightarrow> bool" for E where
  start: "rtmp_reachable E server_start"
| step: "rtmp_reachable E s \<Longrightarrow> rtmp_step True E s s' \<Longrightarrow> rtmp_reachable E s'"

lemma OnAudio_step: "i < length (sv_handlers s) \<Longrightarrow> s' = snd (OnAudio E t i timestamp payload s) \<Longrightarrow> s' = s \<or> rtmp_step once E s s'"
  by (auto simp: OnAudio_def WriteAudio_def split: option.splits intro: rtmp_step.frame)

lemma OnVideo_step: "i < length (sv_handlers s) \<Longrightarrow> s' = snd (OnVideo E t i timestamp payload s) \<Longrightarrow> s' = s \<or> rtmp_step once E s s'"
  by (auto simp: OnVideo_def WriteVideo_def split: option.splits intro: rtmp_step.frame)

section \<open>Invariant\<close>

definition publishing :: "connHandler \<Rightarrow> bool" where
  "publishing h \<longleftrightarrow> ch_authed h \<and> \<not> ch_closed h"

definition held_relays :: "rtmp_server \<Rightarrow> nat list" where
  "held_relays s = List.map_filter ch_relay (sv_handlers s)"

definition open_relays :: "rtmp_server \<Rightarrow> nat set" where
  "open_relays s = {a. a < length (sv_relays s) \<and> \<not> rl_Closed (sv_relays s ! a)}"

definition wired :: "connHandler list \<Rightarrow> bool" where
  "wired hs \<longleftrightarrow> (\<forall>h \<in> set hs. (ch_relay h \<noteq> None) = publishing h)"

definition registered :: "connHandler list \<Rightarrow> (string \<times> nat) list \<Rightarrow> bool" where
  "registered hs reg \<longleftrightarrow> distinct (map fst reg) \<and>
     (\<forall>lid i. (lid, i) \<in> set reg \<longrightarrow> lid \<noteq> '''' \<and> i < length hs \<and> publishing (hs ! i) \<and>
     map_option a_LiveStreamID (ch_auth (hs ! i)) = Some lid)"

definition rtmp_inv :: "rtmp_server \<Rightarrow> bool" where
  "rtmp_inv s \<longleftrightarrow> sv_activePublishes s = int (length (held_relays s)) \<and> sv_upstreams s = int (length (held_relays s)) \<and>
     mset (held_relays s) = mset_set (open_relays s) \<and> wired (sv_handlers s) \<and>
     (\<forall>r \<in> set (sv_relays s). rl_Conn r = (\<not> rl_Closed r)) \<and> registered (sv_handlers s) (sv_activeRelays s)"

lemma finite_open_relays [simp]: "finite (open_relays s)"
  by (simp add: open_relays_def)

lemma held_update:
  "i < length hs \<Longrightarrow> mset (List.map_filter f (hs[i := h])) + (case f (hs ! i) of None \<Rightarrow> {#} | Some a \<Rightarrow> {#a#}) =
     mset (List.map_filter f hs) + (case f h of None \<Rightarrow> {#} | Some a \<Rightarrow> {#a#})"
proof (induction hs arbitrary: i)
  case (Cons x hs)
  then show ?case
    by (cases i) (auto simp: List.map_filter_simps split: option.splits)
qed simp

lemma held_same: "i < length hs \<Longrightarrow> f h = f (hs ! i) \<Longrightarrow> List.map_filter f (hs[i := h]) = List.map_filter f hs"
proof (induction hs arbitrary: i)
  case (Cons x hs)
  then show ?case by (cases i) (auto simp: List.map_filter_simps split: option.splits)
qed simp

lemma update_beyond: "\<not> i < length xs \<Longrightarrow> xs[i := y] = xs"
  by (simp add: list_update_beyond)

lemma nth_update_same: "f y = f (xs ! i) \<Longrightarrow> f (xs[i := y] ! j) = f (xs ! j)"
  by (cases "i < length xs"; cases "i = j") (simp_all add: update_beyond)

lemma held_append: "List.map_filter f (xs @ ys) = List.map_filter f xs @ List.map_filter f ys"
  by (induction xs) (simp_all add: List.map_filter_simps split: option.split)

lemma wired_update: "wired hs \<Longrightarrow> (ch_relay h \<noteq> None) = publishing h \<Longrightarrow> wired (hs[i := h])"
  unfolding wired_def using set_update_subset_insert [of hs i h] by blast

lemma registered_update: "registered hs reg \<Longrightarrow> (\<And>lid. (lid, i) \<notin> set reg) \<Longrightarrow> registered (hs[i := h]) reg"
  unfolding registered_def by (metis length_list_update nth_list_update_neq)

lemma unregistered: "registered hs reg \<Longrightarrow> \<not> publishing (hs ! i) \<Longrightarrow> (lid, i) \<notin> set reg"
  unfolding registered_def by blast

lemma wired_relay: "wired hs \<Longrightarrow> i < length hs \<Longrightarrow> (ch_relay (hs ! i) \<noteq> None) = publishing (hs ! i)"
  unfolding wired_def by simp

lemma unpublished_not: "unpublished h \<Longrightarrow> \<not> publishing h"
  by (simp add: unpublished_def publishing_def)

lemma inv_left_nothing:
  assumes "rtmp_inv s" and "left_nothing i s s'" and "i < length (sv_handlers s)" and "unpublished (sv_handlers s ! i)"
  shows "rtmp_inv s'"
proof -
  have inv: "wired (sv_handlers s)" "registered (sv_handlers s) (sv_activeRelays s)" using assms(1) by (simp_all add: rtmp_inv_def)
  note off = unpublished_not [OF assms(4)]
  obtain h where h: "sv_handlers s' = (sv_handlers s)[i := h]" "ch_relay h = ch_relay (sv_handlers s ! i)"
      "\<not> publishing h" and same: "sv_relays s' = sv_relays s" "sv_activeRelays s' = sv_activeRelays s"
      "sv_activePublishes s' = sv_activePublishes s" "sv_upstreams s' = sv_upstreams s"
    using assms(2,4) unfolding left_nothing_def unpublished_def publishing_def by metis
  have held: "held_relays s' = held_relays s"
    unfolding held_relays_def h(1) using h(2) assms(3) by (intro held_same) simp_all
  have op: "open_relays s' = open_relays s" by (simp add: open_relays_def same)
  have w: "wired (sv_handlers s')"
    unfolding h(1) using wired_update [OF inv(1), of h i] wired_relay [OF inv(1) assms(3)] off h(2,3) by simp
  have r: "registered (sv_handlers s') (sv_activeRelays s')"
    unfolding h(1) same by (intro registered_update [OF inv(2)] unregistered [OF inv(2) off])
  show ?thesis using assms(1) w r unfolding rtmp_inv_def held op same by simp
qed

lemma registered_filter: "registered hs reg \<Longrightarrow> registered hs (filter p reg)"
  unfolding registered_def by (simp add: distinct_map_filter) blast

lemma inv_published:
  assumes "rtmp_inv s" and "OnPublish E t i name s = (Inr (), s')" and i: "i < length (sv_handlers s)"
    and "unpublished (sv_handlers s ! i)"
  shows "rtmp_inv s'"
proof -
  have inv: "wired (sv_handlers s)" "registered (sv_handlers s) (sv_activeRelays s)" using assms(1) by (simp_all add: rtmp_inv_def)
  note off = unpublished_not [OF assms(4)]
  obtain r rl h where rl: "\<not> rl_Closed rl" "rl_Conn rl" "sv_relays s' = sv_relays s @ [rl]"
    and cnt: "sv_upstreams s' = sv_upstreams s + 1" "sv_activePublishes s' = sv_activePublishes s + 1"
    and h: "sv_handlers s' = (sv_handlers s)[i := h]" "ch_authed h" "ch_auth h = Some r" "ch_relay h = Some (length (sv_relays s))"
       "ch_closed h = ch_closed (sv_handlers s ! i)"
    and reg: "sv_activeRelays s' = sv_activeRelays (registerRelay (a_LiveStreamID r) i s)"
    using OnPublish_done [OF assms(2) i] by blast
  have on: "publishing h" using h assms(4) by (simp add: publishing_def unpublished_def)
  have "ch_relay (sv_handlers s ! i) = None" using wired_relay [OF inv(1) i] off by simp
  then have held: "mset (held_relays s') = add_mset (length (sv_relays s)) (mset (held_relays s))"
    using held_update [OF i, of ch_relay h] by (simp add: held_relays_def h(1,4))
  have op: "open_relays s' = insert (length (sv_relays s)) (open_relays s)"
    using rl by (auto simp: open_relays_def nth_append less_Suc_eq)
  have new: "length (sv_relays s) \<notin> open_relays s" by (simp add: open_relays_def)
  have w: "wired (sv_handlers s')" unfolding h(1) using on h(4) by (intro wired_update inv) simp
  have "registered (sv_handlers s') (sv_activeRelays s)"
    unfolding h(1) by (intro registered_update [OF inv(2)] unregistered [OF inv(2) off])
  then have "registered (sv_handlers s') (sv_activeRelays s')"
    using i on h(3) registered_filter [of "sv_handlers s'" "sv_activeRelays s" "\<lambda>(k, _). k \<noteq> a_LiveStreamID r"]
    unfolding reg registerRelay_def unregister_def by (auto simp: registered_def h(1))
  moreover have "length (held_relays s') = Suc (length (held_relays s))"
    using arg_cong [OF held, of size] by simp
  moreover have "mset (held_relays s') = mset_set (open_relays s')"
    unfolding held op using new assms(1) by (simp add: rtmp_inv_def)
  ultimately show ?thesis using assms(1) w rl unfolding rtmp_inv_def cnt by auto
qed

lemma inv_frame:
  assumes "rtmp_inv s"
  shows "rtmp_inv (snd (write_frame c E t a timestamp payload s))"
proof (cases "snd (write_frame c E t a timestamp payload s) = s")
  case False
  then obtain buf where s': "snd (write_frame c E t a timestamp payload s) = on_relay a (\<lambda>r. r\<lparr>rl_Sent := rl_Sent r @ [(c, timestamp, buf)]\<rparr>) s"
    by (auto simp: write_frame_def Let_def split: sum.splits if_splits)
  let ?r = "(sv_relays s ! a)\<lparr>rl_Sent := rl_Sent (sv_relays s ! a) @ [(c, timestamp, buf)]\<rparr>"
  have "open_relays (on_relay a (\<lambda>r. r\<lparr>rl_Sent := rl_Sent r @ [(c, timestamp, buf)]\<rparr>) s) = open_relays s"
    using nth_update_same [of rl_Closed ?r "sv_relays s" a] by (simp add: open_relays_def)
  moreover have "\<forall>r \<in> set ((sv_relays s)[a := ?r]). rl_Conn r = (\<not> rl_Closed r)"
  proof (cases "a < length (sv_relays s)")
    case True
    then have "rl_Conn ?r = (\<not> rl_Closed ?r)" using assms by (simp add: rtmp_inv_def)
    then show ?thesis using assms set_update_subset_insert [of "sv_relays s" a ?r] unfolding rtmp_inv_def by blast
  qed (use assms in \<open>simp add: rtmp_inv_def update_beyond\<close>)
  ultimately show ?thesis using assms unfolding s' by (simp add: rtmp_inv_def held_relays_def)
qed (use assms in simp)

lemma inv_unregister: "rtmp_inv s \<Longrightarrow> rtmp_inv (unregister lid s)"
  by (simp add: rtmp_inv_def held_relays_def open_relays_def registered_filter unregister_def)

lemma inv_accept: "rtmp_inv s \<Longrightarrow> rtmp_inv (accept_conn s)"
proof -
  assume inv: "rtmp_inv s"
  have "registered (sv_handlers s @ [newConnHandler]) (sv_activeRelays s)"
    using inv unfolding rtmp_inv_def registered_def by (auto simp: nth_append intro: less_SucI)
  moreover have "wired (sv_handlers s @ [newConnHandler])"
    using inv by (auto simp: rtmp_inv_def wired_def newConnHandler_def publishing_def)
  moreover have "held_relays (accept_conn s) = held_relays s"
    by (simp add: held_relays_def accept_conn_def held_append newConnHandler_def List.map_filter_simps)
  ultimately show ?thesis using inv by (simp add: rtmp_inv_def open_relays_def) (simp add: accept_conn_def)
qed

text \<open>Ending a connection that is not publishing, and one that is.\<close>

lemma deregistered:
  assumes "registered hs reg" and "i < length hs" and "hs ! i = h" and "sv_activeRelays s = reg"
  shows "registered (hs[i := h'])
      (sv_activeRelays (case ch_auth h of None \<Rightarrow> s | Some r \<Rightarrow> deregisterRelay (a_LiveStreamID r) i s))"
proof -
  let ?reg = "sv_activeRelays (case ch_auth h of None \<Rightarrow> s | Some r \<Rightarrow> deregisterRelay (a_LiveStreamID r) i s)"
  have "(lid, i) \<notin> set ?reg" for lid
  proof
    assume in': "(lid, i) \<in> set ?reg"
    moreover have "set ?reg \<subseteq> set reg"
      using assms(4) by (auto simp: deregisterRelay_def unregister_def split: option.splits)
    ultimately have "(lid, i) \<in> set reg" by blast
    then have r: "map_option a_LiveStreamID (ch_auth h) = Some lid" "lid \<noteq> ''''" "map_of reg lid = Some i"
      using assms(1) unfolding registered_def assms(3) [symmetric] by (blast, blast, metis map_of_is_SomeI)
    then show False using in' assms(4) by (auto simp: deregisterRelay_def unregister_def)
  qed
  moreover have "registered hs ?reg"
    using assms(1,4) by (auto simp: deregisterRelay_def unregister_def registered_filter split: option.splits)
  ultimately show ?thesis by (intro registered_update)
qed

lemma teardown_other:
  assumes "i < length (sv_handlers s)" and "\<not> ch_closed (sv_handlers s ! i)" and "ch_relay (sv_handlers s ! i) = None"
    and "\<not> ch_authed (sv_handlers s ! i)"
  shows "sv_handlers (teardown i s) = (sv_handlers s)[i := (sv_handlers s ! i)\<lparr>ch_closed := True\<rparr>]"
    and "sv_relays (teardown i s) = sv_relays s" and "sv_upstreams (teardown i s) = sv_upstreams s"
    and "sv_activePublishes (teardown i s) = sv_activePublishes s"
  using assms by (simp_all add: teardown_def Let_def split: option.splits)

lemma teardown_registry:
  assumes "\<not> ch_closed (sv_handlers s ! i)"
  shows "\<exists>s1. sv_activeRelays s1 = sv_activeRelays s \<and> sv_activeRelays (teardown i s) =
    sv_activeRelays (case ch_auth (sv_handlers s ! i) of None \<Rightarrow> s1 | Some r \<Rightarrow> deregisterRelay (a_LiveStreamID r) i s1)"
  using assms
  by (intro exI [of _ "case ch_relay (sv_handlers s ! i) of None \<Rightarrow> on_handler i (\<lambda>h. h\<lparr>ch_closed := True\<rparr>) s
       | Some a \<Rightarrow> on_handler i (\<lambda>h. h\<lparr>ch_relay := None\<rparr>) (RelayClose a (on_handler i (\<lambda>h. h\<lparr>ch_closed := True\<rparr>) s))"])
    (auto simp: teardown_def RelayClose_def Let_def split: option.splits)

lemma teardown_publishing:
  assumes "i < length (sv_handlers s)" and "\<not> ch_closed (sv_handlers s ! i)" and "ch_relay (sv_handlers s ! i) = Some a"
    and "ch_authed (sv_handlers s ! i)" and "\<not> rl_Closed (sv_relays s ! a)" and "rl_Conn (sv_relays s ! a)" and "a < length (sv_relays s)"
  shows "sv_handlers (teardown i s) = (sv_handlers s)[i := (sv_handlers s ! i)\<lparr>ch_closed := True, ch_relay := None\<rparr>]"
    and "sv_relays (teardown i s) = (sv_relays s)[a := (sv_relays s ! a)\<lparr>rl_Closed := True, rl_Conn := False\<rparr>]"
    and "sv_upstreams (teardown i s) = sv_upstreams s - 1"
    and "sv_activePublishes (teardown i s) = sv_activePublishes s - 1"
  using assms by (simp_all add: teardown_def RelayClose_def Let_def split: option.splits)

lemma inv_teardown:
  assumes inv: "rtmp_inv s" and i: "i < length (sv_handlers s)"
  shows "rtmp_inv (teardown i s)"
proof (cases "ch_closed (sv_handlers s ! i)")
  case True
  then show ?thesis using inv by (simp add: teardown_def)
next
  case open': False
  have w: "wired (sv_handlers s)" and r: "registered (sv_handlers s) (sv_activeRelays s)" using inv by (simp_all add: rtmp_inv_def)
  obtain s1 where s1: "sv_activeRelays s1 = sv_activeRelays s" "sv_activeRelays (teardown i s) =
    sv_activeRelays (case ch_auth (sv_handlers s ! i) of None \<Rightarrow> s1 | Some r \<Rightarrow> deregisterRelay (a_LiveStreamID r) i s1)"
    using teardown_registry [of s i] open' by blast
  have reg: "registered ((sv_handlers s)[i := h']) (sv_activeRelays (teardown i s))" for h'
    unfolding s1(2) using deregistered [OF r i refl s1(1)] .
  show ?thesis
  proof (cases "ch_relay (sv_handlers s ! i)")
    case None
    then have off: "\<not> ch_authed (sv_handlers s ! i)" using wired_relay [OF w i] open' by (simp add: publishing_def)
    note eff = teardown_other [OF i open' None off]
    let ?h = "(sv_handlers s ! i)\<lparr>ch_closed := True\<rparr>"
    have "held_relays (teardown i s) = held_relays s" unfolding held_relays_def eff by (intro held_same i) simp
    moreover have "open_relays (teardown i s) = open_relays s" by (simp add: open_relays_def eff)
    moreover have "wired ((sv_handlers s)[i := ?h])" using None by (intro wired_update w) (simp add: publishing_def)
    ultimately show ?thesis using inv reg [of ?h] by (simp add: rtmp_inv_def eff)
  next
    case (Some a)
    then have on: "ch_authed (sv_handlers s ! i)" using wired_relay [OF w i] by (simp add: publishing_def)
    let ?h = "(sv_handlers s ! i)\<lparr>ch_closed := True, ch_relay := None\<rparr>"
    have m: "add_mset a (mset (List.map_filter ch_relay ((sv_handlers s)[i := ?h]))) = mset (held_relays s)"
      using held_update [OF i, of ch_relay ?h] Some by (simp add: held_relays_def)
    then have "a \<in># mset_set (open_relays s)" using inv by (metis rtmp_inv_def union_single_eq_member)
    then have a: "a < length (sv_relays s)" "\<not> rl_Closed (sv_relays s ! a)" "a \<in> open_relays s" by (simp_all add: open_relays_def)
    then have conn: "rl_Conn (sv_relays s ! a)" using inv by (simp add: rtmp_inv_def)
    note eff = teardown_publishing [OF i open' Some on a(2) conn a(1)]
    have held: "add_mset a (mset (held_relays (teardown i s))) = mset (held_relays s)" using m by (simp add: held_relays_def eff)
    have op: "open_relays (teardown i s) = open_relays s - {a}"
      using a(1) by (auto simp: open_relays_def eff nth_list_update split: if_splits)
    have "mset (held_relays (teardown i s)) = mset_set (open_relays s - {a})"
      using held inv a(3) by (simp add: rtmp_inv_def mset_set.remove)
    moreover have "length (held_relays s) = Suc (length (held_relays (teardown i s)))" using arg_cong [OF held, of size] by simp
    moreover have "wired ((sv_handlers s)[i := ?h])" by (intro wired_update w) (simp add: publishing_def)
    moreover have "\<forall>r \<in> set ((sv_relays s)[a := (sv_relays s ! a)\<lparr>rl_Closed := True, rl_Conn := False\<rparr>]). rl_Conn r = (\<not> rl_Closed r)"
      using inv set_update_subset_insert [of "sv_relays s" a "(sv_relays s ! a)\<lparr>rl_Closed := True, rl_Conn := False\<rparr>"]
      unfolding rtmp_inv_def by auto
    ultimately show ?thesis using inv reg [of ?h] unfolding rtmp_inv_def op by (simp add: eff)
  qed
qed

lemma inv_shutdown: "rtmp_inv s \<Longrightarrow> i < length (sv_handlers s) \<Longrightarrow> rtmp_inv (shutdown i s)"
proof -
  assume "rtmp_inv s" and "i < length (sv_handlers s)"
  then have inv: "rtmp_inv (teardown i s)" by (rule inv_teardown)
  let ?s = "teardown i s" and ?h = "(sv_handlers (teardown i s) ! i)\<lparr>ch_tcp := False\<rparr>"
  have same: "(publishing ?h) = publishing (sv_handlers ?s ! i)" by (simp add: publishing_def)
  show "rtmp_inv (shutdown i s)"
  proof (cases "i < length (sv_handlers ?s)")
    case True
    have "held_relays (shutdown i s) = held_relays ?s" unfolding held_relays_def shutdown_def handler_simps by (intro held_same True) simp
    moreover have "open_relays (shutdown i s) = open_relays ?s" by (simp add: open_relays_def shutdown_def)
    moreover have "wired ((sv_handlers ?s)[i := ?h])"
      using inv wired_relay [OF _ True] same by (intro wired_update) (simp_all add: rtmp_inv_def)
    moreover have "registered ((sv_handlers ?s)[i := ?h]) (sv_activeRelays ?s)"
      using inv nth_update_same [of publishing ?h "sv_handlers ?s" i] nth_update_same [of ch_auth ?h "sv_handlers ?s" i] same
      by (simp add: rtmp_inv_def registered_def)
    ultimately show ?thesis using inv by (simp add: rtmp_inv_def shutdown_def)
  next
    case False
    then show ?thesis using inv by (simp add: shutdown_def on_handler_def update_beyond)
  qed
qed

lemma inv_step: "rtmp_step True E s s' \<Longrightarrow> rtmp_inv s \<Longrightarrow> rtmp_inv s'"
proof (induction rule: rtmp_step.induct)
  case (publish i s t name)
  show ?case
  proof (cases "OnPublish E t i name s")
    case (Pair res s')
    then show ?thesis
      using publish inv_left_nothing [OF _ OnPublish_failed [of E t i name s]] inv_published [of s E t i name s']
      by (cases res) auto
  qed
qed (simp_all add: inv_accept inv_frame inv_teardown inv_unregister inv_shutdown OnClose_def)

lemma inv_reachable: "rtmp_reachable E s \<Longrightarrow> rtmp_inv s"
proof (induction rule: rtmp_reachable.induct)
  case start
  then show ?case
    by (simp add: rtmp_inv_def server_start_def held_relays_def open_relays_def wired_def registered_def List.map_filter_simps)
qed (rule inv_step)

lemma held_publishing: "wired hs \<Longrightarrow> length (List.map_filter ch_relay hs) = length (filter publishing hs)"
  by (induction hs) (auto simp: List.map_filter_simps wired_def split: option.splits)

section \<open>Properties\<close>

text \<open>C25: the RTMP server's books balance. As long as no connection publishes again after an accepted
  publish, then in every state the callbacks and the stop route can reach, in any order and with any
  outcome of the upstream calls, the number of active publishes reported is the number of connections
  publishing, exactly one outgoing connection is open for each of them, every registered stream leads
  to such a connection with an open relay for that stream, and when all connections have ended no
  outgoing connection is left.\<close>

theorem publishes_balanced:
  assumes "rtmp_reachable E s"
  shows "sv_activePublishes s = int (length (filter publishing (sv_handlers s))) \<and>
    sv_upstreams s = sv_activePublishes s \<and>
    (\<forall>lid i. map_of (sv_activeRelays s) lid = Some i \<longrightarrow> publishing (sv_handlers s ! i) \<and>
       map_option a_LiveStreamID (ch_auth (sv_handlers s ! i)) = Some lid \<and>
       (\<exists>a. ch_relay (sv_handlers s ! i) = Some a \<and> a \<in> open_relays s)) \<and>
    ((\<forall>h \<in> set (sv_handlers s). ch_closed h) \<longrightarrow> sv_activePublishes s = 0 \<and> open_relays s = {})"
proof -
  have inv: "rtmp_inv s" by (rule inv_reachable [OF assms])
  then have w: "wired (sv_handlers s)" and r: "registered (sv_handlers s) (sv_activeRelays s)"
    and m: "mset (held_relays s) = mset_set (open_relays s)" by (simp_all add: rtmp_inv_def)
  have cnt: "sv_activePublishes s = int (length (filter publishing (sv_handlers s)))" "sv_upstreams s = sv_activePublishes s"
    using inv held_publishing [OF w] by (simp_all add: rtmp_inv_def held_relays_def)
  have reg: "publishing (sv_handlers s ! i) \<and> map_option a_LiveStreamID (ch_auth (sv_handlers s ! i)) = Some lid \<and>
       (\<exists>a. ch_relay (sv_handlers s ! i) = Some a \<and> a \<in> open_relays s)" if "map_of (sv_activeRelays s) lid = Some i" for lid i
  proof -
    have i: "i < length (sv_handlers s)" "publishing (sv_handlers s ! i)" "map_option a_LiveStreamID (ch_auth (sv_handlers s ! i)) = Some lid"
      using r map_of_SomeD [OF that] unfolding registered_def by blast+
    then obtain a where a: "ch_relay (sv_handlers s ! i) = Some a" using wired_relay [OF w i(1)] by auto
    then have "a \<in> set (held_relays s)"
      using nth_mem [OF i(1)] unfolding held_relays_def List.map_filter_def by force
    then have "a \<in> open_relays s" using m by (metis elem_mset_set finite_open_relays set_mset_mset)
    with a i show ?thesis by blast
  qed
  have ended: "sv_activePublishes s = 0 \<and> open_relays s = {}" if "\<forall>h \<in> set (sv_handlers s). ch_closed h"
  proof -
    have z: "filter publishing (sv_handlers s) = []" using that by (simp add: filter_empty_conv publishing_def)
    then have "held_relays s = []" using held_publishing [OF w] by (simp add: held_relays_def)
    with m z cnt show ?thesis by (simp add: mset_set_empty_iff)
  qed
  show ?thesis using cnt reg ended by blast
qed

text \<open>A rejected publish leaves nothing behind. Whichever check or upstream call fails, the connection
  stays unauthenticated and without a relay, no outgoing connection stays open, nothing is registered
  and the count of active publishes is what it was.\<close>

theorem failed_publish_leaves_nothing:
  assumes "OnPublish E t i name s = (Inl e, s')" and "i < length (sv_handlers s)" and "unpublished (sv_handlers s ! i)"
  shows "\<not> ch_authed (sv_handlers s' ! i) \<and> ch_relay (sv_handlers s' ! i) = ch_relay (sv_handlers s ! i) \<and>
    (\<forall>j. j \<noteq> i \<longrightarrow> sv_handlers s' ! j = sv_handlers s ! j) \<and> sv_relays s' = sv_relays s \<and>
    sv_upstreams s' = sv_upstreams s \<and> sv_activeRelays s' = sv_activeRelays s \<and> sv_activePublishes s' = sv_activePublishes s"
  using OnPublish_failed [OF assms(1,2)] assms(2,3) unfolding left_nothing_def unpublished_def by fastforce

section \<open>The stop route\<close>

definition silenced :: "nat \<Rightarrow> nat \<Rightarrow> (nat \<times> nat \<times> string) list \<Rightarrow> rtmp_server \<Rightarrow> bool" where
  "silenced i a sent s \<longleftrightarrow> i < length (sv_handlers s) \<and> \<not> ch_tcp (sv_handlers s ! i) \<and>
     a < length (sv_relays s) \<and> rl_Closed (sv_relays s ! a) \<and> rl_Sent (sv_relays s ! a) = sent"

lemma silenced_teardown: "silenced i a sent s \<Longrightarrow> silenced i a sent (teardown j s)"
proof -
  assume q: "silenced i a sent s"
  have close: "silenced i a sent s \<Longrightarrow> silenced i a sent (RelayClose b s)" for b s
    by (cases "a = b") (simp_all add: silenced_def RelayClose_def Let_def)
  have upd: "silenced i a sent s \<Longrightarrow> (\<And>h. ch_tcp (f h) = ch_tcp h) \<Longrightarrow> silenced i a sent (on_handler j f s)" for f s
    using nth_update_same [of ch_tcp "f (sv_handlers s ! j)" "sv_handlers s" j i] by (simp add: silenced_def)
  have dereg: "silenced i a sent s \<Longrightarrow> silenced i a sent (deregisterRelay lid j s)" for lid s
    by (simp add: silenced_def)
  have cnt: "silenced i a sent s \<Longrightarrow> silenced i a sent (s\<lparr>sv_activePublishes := n\<rparr>)" for n s
    by (simp add: silenced_def)
  show ?thesis
    unfolding teardown_def Let_def using q
    by (auto intro!: close upd dereg cnt split: option.split)
qed

lemma silenced_step: "rtmp_step once E s s' \<Longrightarrow> silenced i a sent s \<Longrightarrow> silenced i a sent s'"
proof (induction rule: rtmp_step.induct)
  case (publish j s t name)
  show ?case
  proof (cases "OnPublish E t j name s")
    case (Pair res s')
    show ?thesis
    proof (cases res)
      case (Inl e)
      then have "left_nothing j s s'" using OnPublish_failed publish.hyps(1) Pair by blast
      then obtain h where "sv_handlers s' = (sv_handlers s)[j := h]" "ch_tcp h = ch_tcp (sv_handlers s ! j)" "sv_relays s' = sv_relays s"
        unfolding left_nothing_def by blast
      then show ?thesis
        using publish.prems nth_update_same [of ch_tcp h "sv_handlers s" j i] by (simp add: Pair silenced_def)
    next
      case (Inr u)
      then obtain h rl where "sv_handlers s' = (sv_handlers s)[j := h]" "ch_tcp h = ch_tcp (sv_handlers s ! j)" "sv_relays s' = sv_relays s @ [rl]"
        using OnPublish_done [of E t j name s s'] publish.hyps(1) Pair by auto
      then show ?thesis
        using publish.prems nth_update_same [of ch_tcp h "sv_handlers s" j i] by (simp add: Pair silenced_def nth_append)
    qed
  qed
next
  case (shut j s)
  have "silenced i a sent (teardown j s)" by (rule silenced_teardown [OF shut.prems])
  then show ?case by (cases "i = j") (simp_all add: shutdown_def silenced_def)
next
  case (disconnect j s)
  then show ?case by (simp add: OnClose_def silenced_teardown)
next
  case (frame s c t b timestamp payload)
  then show ?case
    by (cases "a = b") (auto simp: silenced_def write_frame_def Let_def split: sum.split)
qed (auto simp: silenced_def accept_conn_def nth_append)

lemma silenced_steps: "(rtmp_step once E)\<^sup>*\<^sup>* s s' \<Longrightarrow> silenced i a sent s \<Longrightarrow> silenced i a sent s'"
  by (induction rule: rtranclp_induct) (blast intro: silenced_step)+

text \<open>C26: stopping a stream silences its publisher for good. When a stream is registered, \<^verbatim>\<open>CloseSession\<close>
  finds it, closes the publisher's socket and its relay and takes the registration out; from then on,
  whatever callbacks run, also frames already on their way and further publishes on the same
  connection, nothing more is written to that relay.\<close>

theorem CloseSession_silences:
  assumes "rtmp_reachable E s" and "map_of (sv_activeRelays s) lid = Some i"
  shows "\<exists>a s'. CloseSession lid s = (True, s') \<and> ch_relay (sv_handlers s ! i) = Some a \<and>
    map_of (sv_activeRelays s') lid = None \<and>
    (\<forall>s''. (rtmp_step False E)\<^sup>*\<^sup>* s' s'' \<longrightarrow> \<not> ch_tcp (sv_handlers s'' ! i) \<and> rl_Closed (sv_relays s'' ! a) \<and>
       rl_Sent (sv_relays s'' ! a) = rl_Sent (sv_relays s ! a))"
proof -
  have inv: "rtmp_inv s" by (rule inv_reachable [OF assms(1)])
  then have i: "i < length (sv_handlers s)" "publishing (sv_handlers s ! i)"
    using map_of_SomeD [OF assms(2)] unfolding rtmp_inv_def registered_def by blast+
  have w: "wired (sv_handlers s)" using inv by (simp add: rtmp_inv_def)
  obtain a where a: "ch_relay (sv_handlers s ! i) = Some a" using wired_relay [OF w i(1)] i(2) by auto
  then have "a \<in> set (held_relays s)"
    using nth_mem [OF i(1)] unfolding held_relays_def List.map_filter_def by force
  moreover have "mset (held_relays s) = mset_set (open_relays s)" using inv by (simp add: rtmp_inv_def)
  ultimately have "a \<in> open_relays s" by (metis elem_mset_set finite_open_relays set_mset_mset)
  then have a': "a < length (sv_relays s)" "\<not> rl_Closed (sv_relays s ! a)" by (simp_all add: open_relays_def)
  then have conn: "rl_Conn (sv_relays s ! a)" using inv by (simp add: rtmp_inv_def)
  let ?u = "unregister lid s"
  have eff: "sv_handlers (teardown i ?u) = (sv_handlers s)[i := (sv_handlers s ! i)\<lparr>ch_closed := True, ch_relay := None\<rparr>]"
     "sv_relays (teardown i ?u) = (sv_relays s)[a := (sv_relays s ! a)\<lparr>rl_Closed := True, rl_Conn := False\<rparr>]"
    using teardown_publishing(1,2) [of i ?u a] i a a' conn by (simp_all add: publishing_def)
  have "silenced i a (rl_Sent (sv_relays s ! a)) (shutdown i ?u)"
    using i(1) a'(1) by (simp add: silenced_def shutdown_def eff)
  then have later: "silenced i a (rl_Sent (sv_relays s ! a)) s''" if "(rtmp_step False E)\<^sup>*\<^sup>* (shutdown i ?u) s''" for s''
    by (rule silenced_steps [OF that])
  have "lid \<notin> fst ` set (sv_activeRelays ?u)" by (auto simp: unregister_def)
  moreover have "set (sv_activeRelays (shutdown i ?u)) \<subseteq> set (sv_activeRelays ?u)"
    using i(2) by (auto simp: shutdown_def teardown_def Let_def publishing_def deregisterRelay_def RelayClose_def unregister_def
        split: option.splits)
  ultimately have "map_of (sv_activeRelays (shutdown i ?u)) lid = None" by (force simp: map_of_eq_None_iff)
  then show ?thesis using assms(2) a later by (auto simp: CloseSession_def silenced_def)
qed

section \<open>At a concrete server\<close>

definition sample_upstream :: URL where
  "sample_upstream = \<lparr>u_Scheme = ''rtmp'', u_Host = ''runner:1936'', u_Hostname = ''runner'', u_HasUser = False,
     u_RawQuery = ''token=t'', u_Fragment = '''', u_Path = ''/app/key''\<rparr>"

text \<open>One stream key is known; the upstream accepts when \<open>up\<close> says so.\<close>

definition sample_renv :: "bool \<Rightarrow> renv" where
  "sample_renv up = \<lparr>rPepper = ''pepper'', rHashWithPepper = (\<lambda>k p. k @ p), rAuth = (\<lambda>_ h. if h = ''kpepper''
       then Inr (Some \<lparr>a_LiveStreamID = ''live'', a_APIKeyID = ''key'', a_PrivateIngestURL = ''rtmp://runner'', a_BrokerSessionID = ''''\<rparr>)
       else Inr None),
     rParse = (\<lambda>_. Some sample_upstream), rCtxDone = (\<lambda>_. False), rDial = (\<lambda>_. True), rConnect = (\<lambda>_. up),
     rCreateStream = (\<lambda>_. True), rPublish = (\<lambda>_. True), rWrite = (\<lambda>_. True), rClock = int\<rparr>"

lemma TrimSpace_k [simp]: "TrimSpace ''k'' = ''k''"
  by code_simp

lemma parse_sample: "parseRTMPURL (Some sample_upstream) = Inr (''runner:1936'', ''app'', ''key?token=t'')"
  by code_simp

definition published :: rtmp_server where
  "published = snd (OnPublish (sample_renv True) 1 0 ''k'' (accept_conn server_start))"

lemma published_eq: "published = \<lparr>sv_handlers = [\<lparr>ch_authed = True, ch_auth =
       Some \<lparr>a_LiveStreamID = ''live'', a_APIKeyID = ''key'', a_PrivateIngestURL = ''rtmp://runner'', a_BrokerSessionID = ''''\<rparr>,
       ch_streamKeyHint = ''k'', ch_publishStartedAt = 1, ch_relay = Some 0, ch_closed = False, ch_tcp = True\<rparr>],
     sv_relays = [\<lparr>rl_Host = ''runner:1936'', rl_App = ''app'', rl_StreamKey = ''key?token=t'', rl_Conn = True, rl_Closed = False, rl_Sent = []\<rparr>],
     sv_activeRelays = [(''live'', 0)], sv_activePublishes = 1, sv_totalAccepted = 1, sv_totalRejected = 0, sv_upstreams = 1\<rparr>"
  by (simp add: published_def OnPublish_def sample_renv_def accept_conn_def server_start_def newConnHandler_def Let_def on_handler_def
      open_relay_def DialAndPublish_def parse_sample registerRelay_def unregister_def lastFour_def)

lemma published_reachable: "rtmp_reachable (sample_renv True) published"
proof -
  have r: "rtmp_reachable (sample_renv True) (accept_conn server_start)"
    by (intro rtmp_reachable.step [OF rtmp_reachable.start] rtmp_step.accept_conn)
  show ?thesis unfolding published_def
    by (rule rtmp_reachable.step [OF r], rule rtmp_step.publish)
      (simp_all add: accept_conn_def server_start_def newConnHandler_def unpublished_def)
qed

theorem publishes_balanced_witness:
  "sv_activePublishes published = 1 \<and> sv_upstreams published = 1 \<and> (\<exists>a. ch_relay (sv_handlers published ! 0) = Some a \<and> a \<in> open_relays published)"
proof -
  have "map_of (sv_activeRelays published) ''live'' = Some 0" by (simp add: published_eq)
  with publishes_balanced [OF published_reachable]
  have "sv_activePublishes published = int (length (filter publishing (sv_handlers published)))"
    "sv_upstreams published = sv_activePublishes published"
    "\<exists>a. ch_relay (sv_handlers published ! 0) = Some a \<and> a \<in> open_relays published" by blast+
  then show ?thesis by (simp add: published_eq publishing_def)
qed

theorem CloseSession_silences_witness:
  "\<exists>s'. CloseSession ''live'' published = (True, s') \<and> map_of (sv_activeRelays s') ''live'' = None \<and> \<not> ch_tcp (sv_handlers s' ! 0)"
  using CloseSession_silences [OF published_reachable, of "''live''" 0] by (auto simp: published_eq)

theorem failed_publish_leaves_nothing_witness:
  "sv_upstreams (snd (OnPublish (sample_renv False) 1 0 ''k'' (accept_conn server_start))) = 0 \<and>
   \<not> ch_authed (sv_handlers (snd (OnPublish (sample_renv False) 1 0 ''k'' (accept_conn server_start))) ! 0)"
proof -
  have f: "fst (OnPublish (sample_renv False) 1 0 ''k'' (accept_conn server_start)) = Inl ''upstream open failed''"
    by (simp add: OnPublish_def sample_renv_def accept_conn_def server_start_def newConnHandler_def Let_def on_handler_def
      open_relay_def DialAndPublish_def parse_sample)
  then obtain s' where s': "OnPublish (sample_renv False) 1 0 ''k'' (accept_conn server_start) = (Inl ''upstream open failed'', s')"
    by (metis prod.collapse)
  show ?thesis
    unfolding s' using failed_publish_leaves_nothing [OF s']
    by (simp add: accept_conn_def server_start_def newConnHandler_def unpublished_def)
qed

text \<open>A connection that publishes twice and then ends leaves one active publish in the count and one outgoing
  connection open: the second publish overwrites the handle of the first relay, and the teardown
  counts one publish only.\<close>

theorem second_publish_leaks:
  "let s = OnClose 0 (snd (OnPublish (sample_renv True) 2 0 ''k'' published))
   in sv_activePublishes s = 1 \<and> sv_upstreams s = 1 \<and> sv_activeRelays s = [] \<and> ch_closed (sv_handlers s ! 0)"
  by (simp add: published_eq OnPublish_def sample_renv_def Let_def on_handler_def open_relay_def DialAndPublish_def parse_sample
      registerRelay_def unregister_def OnClose_def teardown_def RelayClose_def on_relay_def deregisterRelay_def)

text \<open>Of two connections that publish the same stream, only the second is registered: the stop route ends
  the second, and the first keeps its open relay and can no longer be reached.\<close>

theorem stop_misses_first_publisher:
  "let s = snd (OnPublish (sample_renv True) 2 1 ''k'' (accept_conn published)); (found, s') = CloseSession ''live'' s
   in found \<and> publishing (sv_handlers s' ! 0) \<and> \<not> rl_Closed (sv_relays s' ! 0) \<and> CloseSession ''live'' s' = (False, s')"
  by (simp add: published_eq OnPublish_def sample_renv_def Let_def on_handler_def open_relay_def DialAndPublish_def parse_sample
      registerRelay_def unregister_def CloseSession_def shutdown_def teardown_def RelayClose_def on_relay_def deregisterRelay_def
      accept_conn_def newConnHandler_def publishing_def)

section \<open>Stopped streams\<close>

text \<open>The key of a stopped stream opens nothing. If every live stream an encoder's key still matches
  belongs to an operation that carries a stop request, is finished or is not active, then the publish is
  rejected, whatever the database, the brokers and the RTMP upstream answer meanwhile: no outgoing
  connection, no registration, no active publish.\<close>

theorem stopped_key_refused:
  assumes "\<forall>row. FindActiveByStreamKeyHash (rHashWithPepper R (TrimSpace name) (rPepper R)) (db_live (edb x)) = Some row \<longrightarrow>
      (\<exists>r. GetLive (ls_ID row) (edb x) = Some r \<and> \<not> relayable r)"
    and "rAuth R t = (\<lambda>hash. fst (AuthenticateStreamKey E resolver patience hash x))"
    and "i < length (sv_handlers s)" and "unpublished (sv_handlers s ! i)"
  shows "isl (fst (OnPublish R t i name s)) \<and> sv_relays (snd (OnPublish R t i name s)) = sv_relays s \<and>
    sv_upstreams (snd (OnPublish R t i name s)) = sv_upstreams s \<and>
    sv_activeRelays (snd (OnPublish R t i name s)) = sv_activeRelays s \<and>
    sv_activePublishes (snd (OnPublish R t i name s)) = sv_activePublishes s"
proof -
  let ?hash = "rHashWithPepper R (TrimSpace name) (rPepper R)"
  obtain res y where rd: "db_read E (\<lambda>d. FindActiveByStreamKeyHash ?hash (db_live d)) x = (res, y)" by fastforce
  have none: "fst (AuthenticateStreamKey E resolver patience ?hash x) \<noteq> Inr (Some r)" for r
  proof
    assume auth: "fst (AuthenticateStreamKey E resolver patience ?hash x) = Inr (Some r)"
    then obtain row where res: "res = Inr (Some row)"
      using rd by (auto simp: AuthenticateStreamKey_def bindE_snd ret_def split: sum.splits option.splits)
    have y: "y = arrive E (tick x) x" "FindActiveByStreamKeyHash ?hash (db_live (edb y)) = Some row"
      using read_state [OF rd [unfolded res]] by simp_all
    have stops': "only_stops x y" using y(1) only_stops_arrive by simp
    then have "FindActiveByStreamKeyHash ?hash (db_live (edb x)) = Some row" using y(2) by (simp add: only_stops_def)
    then obtain o1 where o1: "GetLive (ls_ID row) (edb x) = Some o1" "\<not> relayable o1" using assms(1) by blast
    have key: "(op_LiveStreamID q' = Some k) = (op_LiveStreamID q = Some k)" if "stopped_only q q'" for q q' :: operation and k
      using stopped_only_fields [OF that] by simp
    obtain o2 where o2: "GetLive (ls_ID row) (edb y) = Some o2" "stopped_only o1 o2"
      using only_stops_find [OF stops', of "\<lambda>q. op_LiveStreamID q = Some (ls_ID row)" o1] key o1(1)
      unfolding GetLive_def row_by_def by blast
    have "\<not> relayable o2"
      using o1(2) stopped_only_fields [OF o2(2)] o2(2) by (auto simp: relayable_def stopped_only_def)
    from stopped_no_target [OF o2(1) this, of E patience] auth rd res show False
      by (auto simp: AuthenticateStreamKey_def bindE_snd ret_def split: sum.splits option.splits if_splits)
  qed
  have "fst (OnPublish R t i name s) \<noteq> Inr ()"
  proof
    assume "fst (OnPublish R t i name s) = Inr ()"
    then have "OnPublish R t i name s = (Inr (), snd (OnPublish R t i name s))" by (metis prod.collapse)
    from OnPublish_done [OF this assms(3)] none show False by (auto simp: assms(2))
  qed
  then obtain e where "fst (OnPublish R t i name s) = Inl e"
    by (cases "fst (OnPublish R t i name s)") simp_all
  then have "OnPublish R t i name s = (Inl e, snd (OnPublish R t i name s))" by (simp add: prod_eq_iff)
  from OnPublish_failed [OF this assms(3)] \<open>fst _ = Inl e\<close> show ?thesis by (simp add: left_nothing_def)
qed

theorem stopped_key_refused_witness:
  "isl (fst (OnPublish ((sample_renv True)\<lparr>rAuth := \<lambda>_ hash. fst (AuthenticateStreamKey (sample_env ''wrap'') True 5 hash
       (sample_state (sample_row\<lparr>op_StopRequested := True\<rparr>)))\<rparr>) 1 0 ''k'' (accept_conn server_start)))"
proof -
  let ?x = "sample_state (sample_row\<lparr>op_StopRequested := True\<rparr>)"
  let ?R = "(sample_renv True)\<lparr>rAuth := \<lambda>_ hash. fst (AuthenticateStreamKey (sample_env ''wrap'') True 5 hash ?x)\<rparr>"
  have nr: "\<not> relayable (sample_row\<lparr>op_StopRequested := True\<rparr>)" by (simp add: relayable_def)
  have op: "GetLive ''op'' (edb ?x) = Some (sample_row\<lparr>op_StopRequested := True\<rparr>)"
    by (simp add: GetLive_def sample_state_def sample_db_def) (simp add: sample_row_def)
  have id: "ls_ID row = ''op''" if "FindActiveByStreamKeyHash h (db_live (edb ?x)) = Some row" for h row
    using that by (auto simp: FindActiveByStreamKeyHash_def sample_state_def sample_db_def fresh_live_def order_desc_def split: if_splits list.splits)
  have "\<forall>row. FindActiveByStreamKeyHash (rHashWithPepper ?R (TrimSpace ''k'') (rPepper ?R)) (db_live (edb ?x)) = Some row \<longrightarrow>
      (\<exists>r. GetLive (ls_ID row) (edb ?x) = Some r \<and> \<not> relayable r)"
    by (intro allI impI) (simp only: id, intro exI conjI, rule op, rule nr)
  from stopped_key_refused [OF this, of 1 "sample_env ''wrap''" True 5 0 "accept_conn server_start"] show ?thesis
    by (simp add: accept_conn_def server_start_def newConnHandler_def unpublished_def)
qed

end
