(* ===== verification/RTMP_Listener.thy ===== *)
theory RTMP_Listener
  imports RTMP_Facts
begin

text \<open>
  \<^verbatim>\<open>New\<close>, \<^verbatim>\<open>Run\<close> and \<^verbatim>\<open>Listening\<close> of \<^verbatim>\<open>rtmp/server.go\<close>: how the listener starts, serves and ends. \<^verbatim>\<open>Run\<close>, the
  goroutine it starts for the shutdown and the connections are threads; a step is one of their
  actions, in any order. When the protocol library's \<^verbatim>\<open>Serve\<close> returns, and with what, is open.
\<close>

section \<open>State\<close>

datatype run_phase = Disabled | Binding | Serving | Draining | Returned "string option"

text \<open>The shutdown goroutine: not started, waiting for the context, \<^verbatim>\<open>closing\<close> set, finished.\<close>

datatype closer = NotStarted | Waiting | Closing | Finished

record listener =
  ln_addr :: string
  ln_listening :: bool
  ln_closing :: bool
  ln_cancelled :: bool
  ln_phase :: run_phase
  ln_closer :: closer
  ln_server :: rtmp_server

definition NewListener :: "string \<Rightarrow> int \<Rightarrow> string" where
  "NewListener host port = (if port > 0 then JoinHostPort host (int_text port) else '''')"

definition run_start :: "string \<Rightarrow> listener" where
  "run_start addr = \<lparr>ln_addr = addr, ln_listening = False, ln_closing = False, ln_cancelled = False,
     ln_phase = (if addr = '''' then Disabled else Binding), ln_closer = NotStarted, ln_server = server_start\<rparr>"

definition Listening :: "listener \<Rightarrow> bool" where
  "Listening l \<longleftrightarrow> ln_listening l \<and> \<not> ln_closing l"

definition ActivePublishes :: "listener \<Rightarrow> int" where
  "ActivePublishes l = sv_activePublishes (ln_server l)"

section \<open>Steps\<close>

text \<open>The wait group counts the shutdown goroutine alone. \<open>serve_end\<close>: \<^verbatim>\<open>Serve\<close> returned nothing or that the
  server is closed; \<open>serve_failed\<close>: any other error. The deferred store runs with every return.\<close>

inductive run_step :: "renv \<Rightarrow> listener \<Rightarrow> listener \<Rightarrow> bool" for E where
  cancel: "run_step E l (l\<lparr>ln_cancelled := True\<rparr>)"
| disabled: "ln_phase l = Disabled \<Longrightarrow> ln_cancelled l \<Longrightarrow> run_step E l (l\<lparr>ln_phase := Returned None\<rparr>)"
| bind_failed: "ln_phase l = Binding \<Longrightarrow> run_step E l (l\<lparr>ln_phase := Returned (Some e)\<rparr>)"
| bound: "ln_phase l = Binding \<Longrightarrow> run_step E l (l\<lparr>ln_listening := True, ln_phase := Serving, ln_closer := Waiting\<rparr>)"
| closing: "ln_closer l = Waiting \<Longrightarrow> ln_cancelled l \<Longrightarrow> run_step E l (l\<lparr>ln_closing := True, ln_closer := Closing\<rparr>)"
| closed: "ln_closer l = Closing \<Longrightarrow> run_step E l (l\<lparr>ln_server := close_all (ln_server l), ln_closer := Finished\<rparr>)"
| serve_failed: "ln_phase l = Serving \<Longrightarrow> run_step E l (l\<lparr>ln_listening := False, ln_phase := Returned (Some e)\<rparr>)"
| serve_end: "ln_phase l = Serving \<Longrightarrow> run_step E l (l\<lparr>ln_phase := Draining\<rparr>)"
| drained: "ln_phase l = Draining \<Longrightarrow> ln_closer l = Finished \<Longrightarrow>
    run_step E l (l\<lparr>ln_listening := False, ln_phase := Returned None\<rparr>)"
| drain_timeout: "ln_phase l = Draining \<Longrightarrow> run_step E l (l\<lparr>ln_listening := False, ln_phase := Returned None\<rparr>)"
| connection: "ln_closer l \<noteq> NotStarted \<Longrightarrow> rtmp_step False E (ln_server l) s \<Longrightarrow> run_step E l (l\<lparr>ln_server := s\<rparr>)"

inductive_cases run_stepE: "run_step E l l'"

section \<open>Facts\<close>

definition run_inv :: "listener \<Rightarrow> bool" where
  "run_inv l \<longleftrightarrow> (ln_listening l \<longleftrightarrow> ln_phase l \<in> {Serving, Draining}) \<and>
     (ln_closing l \<longleftrightarrow> ln_closer l \<in> {Closing, Finished}) \<and> (ln_closing l \<longrightarrow> ln_cancelled l) \<and>
     (ln_phase l \<in> {Disabled, Binding} \<longrightarrow> ln_closer l = NotStarted) \<and> (ln_phase l \<in> {Serving, Draining} \<longrightarrow> ln_closer l \<noteq> NotStarted)"

lemma run_step_inv: "run_step E l l' \<Longrightarrow> run_inv l \<Longrightarrow> run_inv l'"
  by (induction rule: run_step.induct) (auto simp: run_inv_def)

lemma run_inv_reachable: "(run_step E)\<^sup>*\<^sup>* (run_start addr) l \<Longrightarrow> run_inv l"
proof (induction rule: rtranclp_induct)
  case base
  show ?case by (simp add: run_inv_def run_start_def)
next
  case (step l l')
  from step.IH show ?case by (rule run_step_inv [OF step.hyps(2)])
qed

text \<open>The health probe is right about the listener: \<^verbatim>\<open>Listening\<close> exactly while \<^verbatim>\<open>Run\<close> has bound its
  socket, has not returned, and no shutdown has begun.\<close>

theorem Listening_accurate:
  assumes "(run_step E)\<^sup>*\<^sup>* (run_start addr) l"
  shows "Listening l \<longleftrightarrow> ln_phase l \<in> {Serving, Draining} \<and> ln_closer l = Waiting"
  using run_inv_reachable [OF assms] unfolding run_inv_def Listening_def by (cases "ln_closer l") auto

lemma disabled_never_listens:
  assumes "(run_step E)\<^sup>*\<^sup>* (run_start '''') l"
  shows "ln_phase l \<in> {Disabled, Returned None} \<and> ln_server l = server_start \<and> ln_closer l = NotStarted"
  using assms by (induction rule: rtranclp_induct) (auto simp: run_start_def elim!: run_stepE)

text \<open>\<^verbatim>\<open>Run\<close> returns while a publish is active: a connection that authenticates after the shutdown closed the
  registered relays is neither closed nor waited for.\<close>

theorem returns_with_publish:
  "\<exists>E l. (run_step E)\<^sup>*\<^sup>* (run_start ''0.0.0.0:1935'') l \<and> ln_phase l = Returned None \<and> ActivePublishes l = 1"
proof -
  let ?E = "sample_renv True"
  define a b where "a = (run_start ''0.0.0.0:1935'')\<lparr>ln_listening := True, ln_phase := Serving, ln_closer := Waiting\<rparr>"
    and "b = a\<lparr>ln_server := accept_conn server_start\<rparr>"
  define c d where "c = b\<lparr>ln_cancelled := True\<rparr>" and "d = c\<lparr>ln_closing := True, ln_closer := Closing\<rparr>"
  define e f where "e = d\<lparr>ln_server := close_all (ln_server d), ln_closer := Finished\<rparr>" and "f = e\<lparr>ln_server := published\<rparr>"
  define g h where "g = f\<lparr>ln_phase := Draining\<rparr>" and "h = g\<lparr>ln_listening := False, ln_phase := Returned None\<rparr>"
  have server: "ln_server e = accept_conn server_start"
    by (simp add: e_def d_def c_def b_def close_all_def) (simp add: accept_conn_def server_start_def)
  have pub: "rtmp_step False ?E (accept_conn server_start) published"
    unfolding published_def by (rule rtmp_step.publish) (simp_all add: accept_conn_def server_start_def)
  have "run_step ?E (run_start ''0.0.0.0:1935'') a" unfolding a_def by (rule run_step.bound) (simp add: run_start_def)
  moreover have "run_step ?E a b"
    unfolding b_def by (rule run_step.connection) (simp_all add: a_def run_start_def rtmp_step.accept_conn)
  moreover have "run_step ?E b c" unfolding c_def by (rule run_step.cancel)
  moreover have "run_step ?E c d" unfolding d_def by (rule run_step.closing) (simp_all add: c_def b_def a_def)
  moreover have "run_step ?E d e" unfolding e_def by (rule run_step.closed) (simp add: d_def)
  moreover have "run_step ?E e f" unfolding f_def by (rule run_step.connection) (simp_all add: server pub, simp add: e_def)
  moreover have "run_step ?E f g" unfolding g_def by (rule run_step.serve_end) (simp add: f_def e_def d_def c_def b_def a_def)
  moreover have "run_step ?E g h" unfolding h_def by (rule run_step.drained) (simp_all add: g_def f_def e_def)
  ultimately have "(run_step ?E)\<^sup>*\<^sup>* (run_start ''0.0.0.0:1935'') h"
    by (meson converse_rtranclp_into_rtranclp rtranclp.rtrancl_refl)
  moreover have "ln_phase h = Returned None" "ActivePublishes h = 1"
    by (simp_all add: h_def g_def f_def ActivePublishes_def published_eq)
  ultimately show ?thesis by blast
qed

end
