(* ===== verification/Views.thy ===== *)
theory Views
  imports Account_Routes Paid_Handlers
begin

text \<open>
  The routes that only read: the portal's usage, stream and job lists (\<^verbatim>\<open>handlers_portal.go\<close>), the
  administrators' lists and registry views (\<^verbatim>\<open>handlers_admin.go\<close>), the catalog, upload and paid
  routes of \<^verbatim>\<open>handlers_v1.go\<close> in front of the paid handlers, and \<^verbatim>\<open>handlers_health.go\<close>.

  A listing makes a fixed number of queries. The tables may change between two of them, and each
  may fail: \<open>vSnap E n\<close> is the database as the n-th query of the request finds it, \<open>None\<close> when the
  query fails.
\<close>

section \<open>What a request reads\<close>

record world =
  vw_acc :: accounts
  vw_db :: database
  vw_caps :: capabilities
  vw_meta :: "RefreshMeta option"

record venv =
  vCfg :: WebConfig
  vNow :: time
  vSnap :: "nat \<Rightarrow> world option"

text \<open>\<^verbatim>\<open>if err != nil { return huma.Error500InternalServerError(msg) }\<close>.\<close>

definition read_or :: "venv \<Rightarrow> nat \<Rightarrow> (world \<Rightarrow> 'a) \<Rightarrow> string \<Rightarrow> ('a \<Rightarrow> weberr + 'b) \<Rightarrow> weberr + 'b" where
  "read_or E n g msg k = (case vSnap E n of None \<Rightarrow> Inl (ISE msg) | Some w \<Rightarrow> k (g w))"

definition with_key :: "reqctx \<Rightarrow> string \<Rightarrow> (APIKey \<Rightarrow> weberr + 'b) \<Rightarrow> weberr + 'b" where
  "with_key cx msg k = (case cx_APIKey cx of None \<Rightarrow> Inl (Denied 401 msg False) | Some ak \<Rightarrow> k ak)"

definition derefInt :: "int option \<Rightarrow> int" where
  "derefInt p = (case p of None \<Rightarrow> 0 | Some x \<Rightarrow> x)"

fun reservation_state_text :: "ReservationState \<Rightarrow> string" where
  "reservation_state_text ReservationOpen = ''open''"
| "reservation_state_text ReservationCommitted = ''committed''"
| "reservation_state_text ReservationRefunded = ''refunded''"

fun waitlist_status_text :: "WaitlistStatus \<Rightarrow> string" where
  "waitlist_status_text WaitlistPending = ''pending''"
| "waitlist_status_text WaitlistApproved = ''approved''"
| "waitlist_status_text WaitlistRejected = ''rejected''"

definition bigStr :: "int option \<Rightarrow> string" where
  "bigStr b = (case b of None \<Rightarrow> '''' | Some x \<Rightarrow> int_text x)"

text \<open>\<^verbatim>\<open>bigToString\<close> of a \<^verbatim>\<open>*big.Int\<close>: a null pointer in an interface is not the null interface, and
  prints as \<^verbatim>\<open>Int.String\<close> prints it.\<close>

definition bigToString :: "int option \<Rightarrow> string" where
  "bigToString b = (case b of None \<Rightarrow> ''<nil>'' | Some x \<Rightarrow> int_text x)"

section \<open>Portal\<close>

record UsageItem =
  ui_ID :: uuid
  ui_WorkID :: uuid
  ui_Capability :: string
  ui_Offering :: string
  ui_State :: string
  ui_LatencyMs :: int
  ui_StatusCode :: int
  ui_CreatedAt :: time

definition usage_item :: "UsageReservation \<Rightarrow> UsageItem" where
  "usage_item r = \<lparr>ui_ID = ur_ID r, ui_WorkID = ur_WorkID r, ui_Capability = ur_Capability r, ui_Offering = ur_Offering r,
     ui_State = reservation_state_text (ur_State r), ui_LatencyMs = derefInt (ur_LatencyMs r),
     ui_StatusCode = derefInt (ur_StatusCode r), ui_CreatedAt = ur_CreatedAt r\<rparr>"

text \<open>Days are 24 hours, as in UTC.\<close>

definition portal_usage :: "venv \<Rightarrow> reqctx \<Rightarrow> nat \<Rightarrow> weberr + UsageItem list" where
  "portal_usage E cx lmt = with_key cx ''not_authenticated'' (\<lambda>ak.
     read_or E 0 (\<lambda>w. ListByAPIKey (ak_ID ak) (vNow E - 30 * day) lmt (db_reservations (vw_db w))) ''usage list'' (\<lambda>recs.
     Inr (map usage_item recs)))"

record PortalLiveStreamView =
  pl_StatusMessage :: string
  pl_AccountingState :: string
  pl_SettlementPending :: bool
  pl_OutputState :: string
  pl_CloseReason :: string
  pl_ID :: uuid
  pl_Name :: string
  pl_Status :: string
  pl_PlaybackURL :: string
  pl_ErrorText :: string
  pl_CreatedAt :: time
  pl_StartedAt :: "time option"
  pl_EndedAt :: "time option"

text \<open>The columns the listing does not select are null.\<close>

definition listed_startup_message :: "operationView PublicView \<Rightarrow> string \<Rightarrow> string" where
  "listed_startup_message p status =
     startup_message (pv_StopRequested p) (pv_State p) (pv_FinishedAt p) None status"

definition portal_live_item :: "LiveStream \<Rightarrow> operationView PublicView option \<Rightarrow> PortalLiveStreamView" where
  "portal_live_item r p =
     (let ended = map_option pv_PublicJSON p;
          mediaEnded = (case ended of None \<Rightarrow> None | Some v \<Rightarrow> v_MediaEndedAt v);
          status1 = (case ended of None \<Rightarrow> live_status_text (ls_Status r)
                     | Some v \<Rightarrow> if v_Status v \<noteq> '''' then v_Status v else live_status_text (ls_Status r));
          status = (case p of None \<Rightarrow> status1
                    | Some q \<Rightarrow> if pv_StopRequested q \<and> pv_FinishedAt q = None \<and> mediaEnded = None then ''ending'' else status1) in
      \<lparr>pl_StatusMessage = (case p of None \<Rightarrow> '''' | Some q \<Rightarrow> listed_startup_message q status),
       pl_AccountingState = (case p of None \<Rightarrow> '''' | Some q \<Rightarrow> pv_State q),
       pl_SettlementPending = (case p of None \<Rightarrow> False | Some q \<Rightarrow> mediaEnded \<noteq> None \<and> pv_FinishedAt q = None),
       pl_OutputState = (case ended of None \<Rightarrow> '''' | Some v \<Rightarrow> v_OutputState v),
       pl_CloseReason = (case ended of None \<Rightarrow> '''' | Some v \<Rightarrow> v_CloseReason v),
       pl_ID = ls_ID r, pl_Name = derefString (ls_Name r), pl_Status = status,
       pl_PlaybackURL = derefString (ls_PlaybackURL r), pl_ErrorText = derefString (ls_ErrorText r),
       pl_CreatedAt = ls_CreatedAt r, pl_StartedAt = ls_StartedAt r,
       pl_EndedAt = (if mediaEnded \<noteq> None then mediaEnded else ls_EndedAt r)\<rparr>)"

definition portal_live_streams :: "venv \<Rightarrow> reqctx \<Rightarrow> nat \<Rightarrow> weberr + PortalLiveStreamView list" where
  "portal_live_streams E cx lmt = with_key cx ''not_authenticated'' (\<lambda>ak.
     read_or E 0 (\<lambda>w. LiveListByAPIKey (ak_ID ak) lmt (db_live (vw_db w))) ''live list'' (\<lambda>recs.
     read_or E 1 (\<lambda>w. PublicViews (map ls_ID recs) (vw_db w)) ''live operation list'' (\<lambda>ops.
     Inr (map (\<lambda>r. portal_live_item r (ops (ls_ID r))) recs))))"

record PortalABRJobView =
  pj_WorkID :: uuid
  pj_RunnerJobID :: string
  pj_State :: string
  pj_BrokerURL :: string
  pj_LatencyMs :: int
  pj_ErrorText :: string
  pj_CreatedAt :: time
  pj_ResolvedAt :: "time option"

definition portal_abr_item :: "UsageReservation \<Rightarrow> PortalABRJobView" where
  "portal_abr_item r = \<lparr>pj_WorkID = ur_WorkID r, pj_RunnerJobID = derefString (ur_RunnerJobID r),
     pj_State = reservation_state_text (ur_State r), pj_BrokerURL = derefString (ur_BrokerURL r),
     pj_LatencyMs = derefInt (ur_LatencyMs r), pj_ErrorText = derefString (ur_ErrorText r),
     pj_CreatedAt = ur_CreatedAt r, pj_ResolvedAt = ur_ResolvedAt r\<rparr>"

definition portal_abr_jobs :: "venv \<Rightarrow> reqctx \<Rightarrow> nat \<Rightarrow> weberr + PortalABRJobView list" where
  "portal_abr_jobs E cx lmt = with_key cx ''not_authenticated'' (\<lambda>ak.
     read_or E 0 (\<lambda>w. ListByAPIKey (ak_ID ak) (vNow E - 90 * day) lmt (db_reservations (vw_db w))) ''abr list'' (\<lambda>recs.
     Inr (map portal_abr_item (filter (\<lambda>r. ur_Capability r = ABRCapability (vCfg E)) recs))))"

section \<open>Administrators: accounts\<close>

record WaitlistView =
  wv_ID :: uuid
  wv_Name :: string
  wv_Email :: string
  wv_EmailVerifiedAt :: "time option"
  wv_Status :: string
  wv_ApprovedAt :: "time option"
  wv_ApprovedBy :: string
  wv_CreatedAt :: time

definition waitlist_view :: "Waitlist \<Rightarrow> WaitlistView" where
  "waitlist_view r = \<lparr>wv_ID = wl_ID r, wv_Name = wl_Name r, wv_Email = wl_Email r, wv_EmailVerifiedAt = wl_EmailVerifiedAt r,
     wv_Status = waitlist_status_text (wl_Status r), wv_ApprovedAt = wl_ApprovedAt r,
     wv_ApprovedBy = derefString (wl_ApprovedBy r), wv_CreatedAt = wl_CreatedAt r\<rparr>"

definition admin_list_waitlist :: "venv \<Rightarrow> WaitlistStatus option \<Rightarrow> nat \<Rightarrow> weberr + WaitlistView list" where
  "admin_list_waitlist E st lmt =
     read_or E 0 (\<lambda>w. ListByStatus st lmt (ac_waitlist (vw_acc w))) ''waitlist list failed'' (\<lambda>rows.
     Inr (map waitlist_view rows))"

record AdminUserSummary =
  as_ID :: uuid
  as_Name :: string
  as_Email :: string
  as_ApprovedAt :: "time option"
  as_CreatedAt :: time

definition user_summary :: "Waitlist \<Rightarrow> AdminUserSummary" where
  "user_summary r = \<lparr>as_ID = wl_ID r, as_Name = wl_Name r, as_Email = wl_Email r, as_ApprovedAt = wl_ApprovedAt r,
     as_CreatedAt = wl_CreatedAt r\<rparr>"

definition admin_list_users :: "venv \<Rightarrow> nat \<Rightarrow> weberr + AdminUserSummary list" where
  "admin_list_users E lmt =
     read_or E 0 (\<lambda>w. ListByStatus (Some WaitlistApproved) lmt (ac_waitlist (vw_acc w))) ''users list failed'' (\<lambda>rows.
     Inr (map user_summary rows))"

record AdminUserDetailOut =
  au_ID :: uuid
  au_Email :: string
  au_Name :: string
  au_Status :: string
  au_EmailVerifiedAt :: "time option"
  au_ApprovedAt :: "time option"
  au_CreatedAt :: time
  au_APIKeys :: "APIKeyView list"
  au_Usage :: UsageSummary

definition admin_get_user :: "venv \<Rightarrow> uuid \<Rightarrow> weberr + AdminUserDetailOut" where
  "admin_get_user E i = (case vSnap E 0 of
      None \<Rightarrow> Inl (Denied 404 ''user not found'' False)
    | Some w0 \<Rightarrow> (case WaitlistGetByID i (ac_waitlist (vw_acc w0)) of
        None \<Rightarrow> Inl (Denied 404 ''user not found'' False)
      | Some r \<Rightarrow>
          read_or E 1 (\<lambda>w. ListByWaitlist (wl_ID r) (ac_keys (vw_acc w))) ''api keys list'' (\<lambda>ks.
          read_or E 2 (\<lambda>w. SummaryByWaitlist (ac_keys (vw_acc w)) (wl_ID r) (db_reservations (vw_db w))) ''usage summary'' (\<lambda>s.
          Inr \<lparr>au_ID = wl_ID r, au_Email = wl_Email r, au_Name = wl_Name r, au_Status = waitlist_status_text (wl_Status r),
               au_EmailVerifiedAt = wl_EmailVerifiedAt r, au_ApprovedAt = wl_ApprovedAt r, au_CreatedAt = wl_CreatedAt r,
               au_APIKeys = map key_view ks, au_Usage = s\<rparr>))))"

section \<open>Administrators: usage\<close>

text \<open>The rows are the repository's, field by field.\<close>

definition admin_usage :: "venv \<Rightarrow> int \<Rightarrow> weberr + UsageSummaryByAPIKey list" where
  "admin_usage E lmt =
     read_or E 0 (\<lambda>w. SummaryByAPIKey lmt (vw_acc w) (db_reservations (vw_db w))) ''usage summary'' Inr"

definition since_hours :: "venv \<Rightarrow> int \<Rightarrow> time" where
  "since_hours E h = vNow E - h * (3600 * second)"

definition admin_usage_by_capability :: "venv \<Rightarrow> int \<Rightarrow> weberr + int \<times> CapabilityRollup list" where
  "admin_usage_by_capability E h =
     read_or E 0 (\<lambda>w. SummaryByCapability (since_hours E h) (db_reservations (vw_db w))) ''by-capability summary'' (\<lambda>rows.
     Inr (h, rows))"

record AdminLiveStreamView =
  al_ID :: uuid
  al_APIKeyID :: uuid
  al_Name :: string
  al_Status :: string
  al_Capability :: string
  al_Offering :: string
  al_BrokerURL :: string
  al_EthAddress :: string
  al_IngestURL :: string
  al_PlaybackURL :: string
  al_ErrorText :: string
  al_CreatedAt :: time
  al_StartedAt :: "time option"
  al_LastHeartbeatAt :: "time option"
  al_EndedAt :: "time option"
  al_RunnerStatus :: "string option"

definition admin_live_item :: "LiveStream \<Rightarrow> AdminLiveStreamView" where
  "admin_live_item r = \<lparr>al_ID = ls_ID r, al_APIKeyID = ls_APIKeyID r, al_Name = derefString (ls_Name r),
     al_Status = live_status_text (ls_Status r), al_Capability = ls_Capability r, al_Offering = ls_Offering r,
     al_BrokerURL = derefString (ls_BrokerURL r), al_EthAddress = derefString (ls_EthAddress r),
     al_IngestURL = derefString (ls_IngestURL r), al_PlaybackURL = derefString (ls_PlaybackURL r),
     al_ErrorText = derefString (ls_ErrorText r), al_CreatedAt = ls_CreatedAt r, al_StartedAt = ls_StartedAt r,
     al_LastHeartbeatAt = ls_LastHeartbeatAt r, al_EndedAt = ls_EndedAt r,
     al_RunnerStatus = (case ls_RunnerStatusJSON r of None \<Rightarrow> None | Some j \<Rightarrow> nullif_empty j)\<rparr>"

definition admin_live_streams :: "venv \<Rightarrow> bool \<Rightarrow> int \<Rightarrow> weberr + AdminLiveStreamView list" where
  "admin_live_streams E activeOnly lmt =
     read_or E 0 (\<lambda>w. LiveListAll activeOnly lmt (db_live (vw_db w))) ''live list failed'' (\<lambda>rows.
     Inr (map admin_live_item rows))"

record AdminABRJobView =
  av_Status :: string
  av_AccountingState :: string
  av_ErrorCode :: string
  av_WorkID :: uuid
  av_APIKeyID :: uuid
  av_RunnerJobID :: string
  av_State :: string
  av_BrokerURL :: string
  av_LatencyMs :: int
  av_StatusCode :: int
  av_ErrorText :: string
  av_CreatedAt :: time
  av_ResolvedAt :: "time option"

definition admin_abr_item :: "UsageReservation \<Rightarrow> operationView PublicView option \<Rightarrow> AdminABRJobView" where
  "admin_abr_item r p = (let v = map_option pv_PublicJSON p in
     \<lparr>av_Status = (case v of None \<Rightarrow> '''' | Some x \<Rightarrow> v_Status x),
      av_AccountingState = (case p of None \<Rightarrow> '''' | Some q \<Rightarrow> pv_State q),
      av_ErrorCode = (case v of None \<Rightarrow> '''' | Some x \<Rightarrow> v_FailureCode x),
      av_WorkID = ur_WorkID r, av_APIKeyID = ur_APIKeyID r, av_RunnerJobID = derefString (ur_RunnerJobID r),
      av_State = reservation_state_text (ur_State r), av_BrokerURL = derefString (ur_BrokerURL r),
      av_LatencyMs = derefInt (ur_LatencyMs r), av_StatusCode = derefInt (ur_StatusCode r),
      av_ErrorText = (case v of None \<Rightarrow> derefString (ur_ErrorText r) | Some x \<Rightarrow> abrStatusMessage (v_Status x) (v_FailureCode x)),
      av_CreatedAt = ur_CreatedAt r, av_ResolvedAt = ur_ResolvedAt r\<rparr>)"

definition admin_abr_jobs :: "venv \<Rightarrow> int \<Rightarrow> int \<Rightarrow> weberr + AdminABRJobView list" where
  "admin_abr_jobs E h lmt =
     read_or E 0 (\<lambda>w. ListByCapability (ABRCapability (vCfg E)) (since_hours E h) lmt (db_reservations (vw_db w))) ''abr jobs list'' (\<lambda>rows.
     read_or E 1 (\<lambda>w. PublicViews (map ur_WorkID rows) (vw_db w)) ''abr operation list'' (\<lambda>ops.
     Inr (map (\<lambda>r. admin_abr_item r (ops (ur_WorkID r))) rows)))"

section \<open>Registry and catalog\<close>

text \<open>A refresh row that cannot be read leaves the zero values.\<close>

definition meta_or_zero :: "venv \<Rightarrow> nat \<Rightarrow> RefreshMeta" where
  "meta_or_zero E n = (case vSnap E n of
      Some w \<Rightarrow> (case vw_meta w of Some m \<Rightarrow> m
        | None \<Rightarrow> \<lparr>rm_LastRefreshAt = 0, rm_LastOutcome = '''', rm_LastError = None, rm_RowsMatched = 0, rm_CapabilityFilter = []\<rparr>)
    | None \<Rightarrow> \<lparr>rm_LastRefreshAt = 0, rm_LastOutcome = '''', rm_LastError = None, rm_RowsMatched = 0, rm_CapabilityFilter = []\<rparr>)"

record CapabilityView =
  cv_Protocol :: string
  cv_WorkUnit :: string
  cv_UnitsPerPrice :: string
  cv_WorkUnitEstimator :: "string option"
  cv_Job :: "string option"
  cv_Session :: "string option"
  cv_Extra :: "string option"
  cv_ID :: string
  cv_Capability :: string
  cv_Offering :: string
  cv_InteractionMode :: string
  cv_Name :: string
  cv_BrokerURL :: string
  cv_EthAddress :: string
  cv_PriceWei :: string
  cv_Active :: bool

definition capability_view :: "Capability \<Rightarrow> CapabilityView" where
  "capability_view c = \<lparr>cv_Protocol = cap_Protocol c, cv_WorkUnit = cap_WorkUnit c, cv_UnitsPerPrice = bigStr (cap_UnitsPerPrice c),
     cv_WorkUnitEstimator = cap_WorkUnitEstimatorJSON c, cv_Job = cap_JobJSON c, cv_Session = cap_SessionJSON c,
     cv_Extra = cap_ExtraJSON c, cv_ID = cap_CapabilityID c, cv_Capability = cap_Capability c, cv_Offering = cap_Offering c,
     cv_InteractionMode = derefString (cap_InteractionMode c), cv_Name = derefString (cap_Name c),
     cv_BrokerURL = derefString (cap_BrokerURL c), cv_EthAddress = derefString (cap_EthAddress c),
     cv_PriceWei = bigToString (cap_PricePerWorkUnitWei c), cv_Active = cap_Active c\<rparr>"

definition admin_capabilities :: "venv \<Rightarrow> weberr + (RefreshMeta \<times> time \<times> CapabilityView list)" where
  "admin_capabilities E =
     read_or E 0 (\<lambda>w. ListActive (vw_caps w)) ''capabilities list'' (\<lambda>rows.
     Inr (meta_or_zero E 1, (case vSnap E 2 of None \<Rightarrow> 0 | Some w \<Rightarrow> LastSnapshot (vw_caps w)), map capability_view rows))"

text \<open>The counts come in the order of a Go map, which is unspecified.\<close>

definition by_capability :: "Capability list \<Rightarrow> (string \<times> nat) list" where
  "by_capability rows = map (\<lambda>c. (c, count_where (\<lambda>r. cap_Capability r = c) rows)) (remdups (map cap_Capability rows))"

definition admin_registry_summary :: "venv \<Rightarrow> RefreshMeta \<times> nat \<times> (string \<times> nat) list" where
  "admin_registry_summary E =
     (let rows = (case vSnap E 1 of None \<Rightarrow> [] | Some w \<Rightarrow> ListActive (vw_caps w))
      in (meta_or_zero E 0, length rows, by_capability rows))"

record Orchestrator =
  oc_EthAddress :: string
  oc_WorkerURL :: string
  oc_Capabilities :: "LocCapability list"

record AdminRegistryCandidate =
  rc_WorkerURL :: string
  rc_EthAddress :: string
  rc_Capability :: string
  rc_Offering :: string
  rc_PriceWei :: string
  rc_WorkUnit :: string
  rc_UnitsPerPrice :: string
  rc_Protocol :: string
  rc_WorkUnitEstimator :: "string option"
  rc_Job :: "string option"
  rc_Session :: "string option"
  rc_Extra :: "string option"

definition candidate :: "Orchestrator \<Rightarrow> LocCapability \<Rightarrow> Offering \<Rightarrow> AdminRegistryCandidate" where
  "candidate o1 c f = \<lparr>rc_WorkerURL = oc_WorkerURL o1, rc_EthAddress = oc_EthAddress o1, rc_Capability = lc_Name c,
     rc_Offering = off_ID f, rc_PriceWei = bigStr (off_PricePerWorkUnitWei f), rc_WorkUnit = off_WorkUnit f,
     rc_UnitsPerPrice = bigStr (off_UnitsPerPrice f), rc_Protocol = off_Protocol f, rc_WorkUnitEstimator = off_WorkUnitEstimator f,
     rc_Job = off_Job f, rc_Session = off_Session f, rc_Extra = off_Extra f\<rparr>"

text \<open>\<open>orchestrators\<close> is LOC's answer for a capability; \<^verbatim>\<open>None\<close> when there is no client.\<close>

definition admin_registry_candidates :: "venv \<Rightarrow> (string \<Rightarrow> err + Orchestrator list) option \<Rightarrow> string \<Rightarrow> string \<Rightarrow>
    weberr + (string \<times> string \<times> AdminRegistryCandidate list)" where
  "admin_registry_candidates E orchestrators capability offering = (case orchestrators of
      None \<Rightarrow> Inl (Denied 503 ''loc_unavailable'' False)
    | Some list \<Rightarrow>
        let capab = (if capability = '''' then ABRCapability (vCfg E) else capability) in
        (case list capab of
           Inl _ \<Rightarrow> Inl (Denied 502 ''loc list orchestrators failed'' False)
         | Inr orchs \<Rightarrow> Inr (capab, offering,
             concat (map (\<lambda>o1. concat (map (\<lambda>c.
               if lc_Name c \<noteq> capab then []
               else map (candidate o1 c) (filter (\<lambda>f. offering = '''' \<or> off_ID f = offering) (lc_Offerings c)))
               (oc_Capabilities o1))) orchs))))"

record CapabilityListed =
  cl_Protocol :: string
  cl_WorkUnit :: string
  cl_UnitsPerPrice :: string
  cl_WorkUnitEstimator :: "string option"
  cl_Job :: "string option"
  cl_Session :: "string option"
  cl_ID :: string
  cl_Capability :: string
  cl_Offering :: string
  cl_InteractionMode :: string
  cl_Name :: string
  cl_Category :: string
  cl_PriceWei :: string
  cl_Extra :: "string option"
  cl_Constraints :: "string option"

definition capability_listed :: "Capability \<Rightarrow> CapabilityListed" where
  "capability_listed c = \<lparr>cl_Protocol = cap_Protocol c, cl_WorkUnit = cap_WorkUnit c, cl_UnitsPerPrice = bigStr (cap_UnitsPerPrice c),
     cl_WorkUnitEstimator = cap_WorkUnitEstimatorJSON c, cl_Job = cap_JobJSON c, cl_Session = cap_SessionJSON c,
     cl_ID = cap_CapabilityID c, cl_Capability = cap_Capability c, cl_Offering = cap_Offering c,
     cl_InteractionMode = derefString (cap_InteractionMode c), cl_Name = derefString (cap_Name c),
     cl_Category = derefString (cap_Category c), cl_PriceWei = bigStr (cap_PricePerWorkUnitWei c),
     cl_Extra = cap_ExtraJSON c, cl_Constraints = cap_ConstraintsJSON c\<rparr>"

definition v1_capabilities :: "venv \<Rightarrow> weberr + (time \<times> CapabilityListed list)" where
  "v1_capabilities E =
     read_or E 0 (\<lambda>w. ListActive (vw_caps w)) ''capabilities list'' (\<lambda>rows.
     Inr ((case vSnap E 1 of None \<Rightarrow> 0 | Some w \<Rightarrow> LastSnapshot (vw_caps w)), map capability_listed rows))"

section \<open>Paid routes\<close>

text \<open>What the routes check before the paid handlers run; \<open>paid\<close>: the engine is configured.\<close>

definition v1_upload_url :: "S3Client option \<Rightarrow> (string \<Rightarrow> string \<Rightarrow> string \<Rightarrow> int \<Rightarrow> err + string) \<Rightarrow> time \<Rightarrow> reqctx \<Rightarrow> uuid \<Rightarrow>
    string \<Rightarrow> string \<Rightarrow> weberr + PresignedPut" where
  "v1_upload_url s3 sign now cx fresh filename contentType = (case s3 of
      None \<Rightarrow> Inl (Denied 503 ''s3_unavailable'' False)
    | Some c \<Rightarrow> with_key cx ''invalid_api_key'' (\<lambda>ak.
        case PresignPut sign now c (upload_key (ak_ID ak) fresh filename) contentType of
          Inl _ \<Rightarrow> Inl (ISE ''presign failed'')
        | Inr p \<Rightarrow> Inr p))"

definition keyed_route :: "reqctx \<Rightarrow> string \<Rightarrow> (APIKey \<Rightarrow> 'a eng) \<Rightarrow> 'a eng" where
  "keyed_route cx msg k = (case cx_APIKey cx of None \<Rightarrow> throw (HumaErr 401 msg) | Some ak \<Rightarrow> k ak)"

definition paid_route :: "bool \<Rightarrow> string \<Rightarrow> 'a eng \<Rightarrow> 'a eng" where
  "paid_route paid msg m = (if \<not> paid then throw (HumaErr 503 msg) else m)"

definition v1_abr_submit :: "env \<Rightarrow> henv \<Rightarrow> bool \<Rightarrow> reqctx \<Rightarrow> ABRIn \<Rightarrow> ABRJob eng" where
  "v1_abr_submit E H paid cx i = paid_route paid ''loc_unavailable''
     (keyed_route cx ''invalid_api_key'' (\<lambda>ak. SubmitABR E H (ak_ID ak) i))"

definition v1_abr_get :: "env \<Rightarrow> bool \<Rightarrow> reqctx \<Rightarrow> uuid \<Rightarrow> ABRJob eng" where
  "v1_abr_get E paid cx i = keyed_route cx ''invalid_api_key'' (\<lambda>ak.
     paid_route paid ''loc_unavailable'' (ViewABR E i (ak_ID ak)))"

definition v1_live_create :: "env \<Rightarrow> henv \<Rightarrow> bool \<Rightarrow> reqctx \<Rightarrow> LiveIn \<Rightarrow> LiveSessionView eng" where
  "v1_live_create E H paid cx i = keyed_route cx ''invalid_api_key'' (\<lambda>ak.
     paid_route paid ''loc_unavailable'' (SubmitLive E H (ak_ID ak) i))"

definition v1_live_get :: "env \<Rightarrow> bool \<Rightarrow> reqctx \<Rightarrow> uuid \<Rightarrow> LiveSessionView eng" where
  "v1_live_get E paid cx i = keyed_route cx ''invalid_api_key'' (\<lambda>ak.
     paid_route paid ''loc_unavailable'' (ViewLive E i (ak_ID ak) False))"

definition v1_live_delete :: "env \<Rightarrow> bool \<Rightarrow> reqctx \<Rightarrow> uuid \<Rightarrow> unit eng" where
  "v1_live_delete E paid cx i = keyed_route cx ''invalid_api_key'' (\<lambda>ak.
     paid_route paid ''loc_unavailable'' (StopLive E i (ak_ID ak)))"

definition portal_live_stop :: "env \<Rightarrow> bool \<Rightarrow> reqctx \<Rightarrow> uuid \<Rightarrow> unit eng" where
  "portal_live_stop E paid cx i = keyed_route cx ''not_authenticated'' (\<lambda>ak.
     paid_route paid ''loc_unavailable'' (StopLive E i (ak_ID ak)))"

text \<open>The answer carries \<^verbatim>\<open>Cache-Control: no-store\<close>.\<close>

definition portal_live_get :: "env \<Rightarrow> bool \<Rightarrow> reqctx \<Rightarrow> uuid \<Rightarrow> (string \<times> LiveSessionView) eng" where
  "portal_live_get E paid cx i = keyed_route cx ''not_authenticated'' (\<lambda>ak.
     paid_route paid ''live_unavailable'' (bindE (ViewLive E i (ak_ID ak) True) (\<lambda>v. ret (''no-store'', v))))"

section \<open>Health\<close>

record HealthCheck =
  hc_Status :: string
  hc_LatencyMs :: int
  hc_Error :: string

text \<open>A probe: skipped, or with the text of its error, and its duration.\<close>

definition probed :: "string option option \<times> int \<Rightarrow> HealthCheck" where
  "probed p = (case fst p of
      None \<Rightarrow> \<lparr>hc_Status = ''skipped'', hc_LatencyMs = snd p, hc_Error = ''''\<rparr>
    | Some None \<Rightarrow> \<lparr>hc_Status = ''ok'', hc_LatencyMs = snd p, hc_Error = ''''\<rparr>
    | Some (Some e) \<Rightarrow> \<lparr>hc_Status = ''error'', hc_LatencyMs = snd p, hc_Error = e\<rparr>)"

definition rtmp_state :: "bool option \<Rightarrow> HealthCheck" where
  "rtmp_state listening = (case listening of
      None \<Rightarrow> \<lparr>hc_Status = ''skipped'', hc_LatencyMs = 0, hc_Error = ''''\<rparr>
    | Some ok \<Rightarrow> if ok then \<lparr>hc_Status = ''ok'', hc_LatencyMs = 0, hc_Error = ''''\<rparr>
        else \<lparr>hc_Status = ''error'', hc_LatencyMs = 0, hc_Error = ''listener closed''\<rparr>)"

text \<open>With the database down the answer is an error; the status is computed all the same.\<close>

definition health :: "string option \<times> int \<Rightarrow> string option option \<times> int \<Rightarrow> string option option \<times> int \<Rightarrow> bool option \<Rightarrow>
    weberr + (string \<times> (string \<times> HealthCheck) list)" where
  "health db s3 loc listening =
     (let d = probed (Some (fst db), snd db); s = probed s3; l = probed loc in
      if hc_Status d = ''error'' then Inl (Denied 503 ''db_down'' False)
      else Inr (if hc_Status s = ''error'' \<or> hc_Status l = ''error'' then ''degraded'' else ''ok'',
        [(''db'', d), (''s3'', s), (''loc'', l), (''rtmp'', rtmp_state listening)]))"

end
