(* ===== verification/Views_Facts.thy ===== *)
theory Views_Facts
  imports Views Web_Sample
begin

text \<open>
  What the listings disclose: nothing of other customers, and no secret of anybody.
\<close>

section \<open>Rows of one customer\<close>

text \<open>The streams of an API key that any query of the request can see.\<close>

definition own_streams :: "uuid \<Rightarrow> venv \<Rightarrow> uuid set" where
  "own_streams k E = {ls_ID r |r w n. vSnap E n = Some w \<and> r \<in> set (db_live (vw_db w)) \<and> ls_APIKeyID r = k}"

text \<open>Two runs of a request whose tables agree on the key's own reservations, streams and the
  operations of these streams; everything else is arbitrary.\<close>

definition same_own :: "uuid \<Rightarrow> uuid set \<Rightarrow> world \<Rightarrow> world \<Rightarrow> bool" where
  "same_own k ids w w' \<longleftrightarrow>
     filter (\<lambda>r. ur_APIKeyID r = k) (db_reservations (vw_db w')) = filter (\<lambda>r. ur_APIKeyID r = k) (db_reservations (vw_db w)) \<and>
     filter (\<lambda>r. ls_APIKeyID r = k) (db_live (vw_db w')) = filter (\<lambda>r. ls_APIKeyID r = k) (db_live (vw_db w)) \<and>
     (\<forall>i \<in> ids. map_option public_view (OpGet i (vw_db w')) = map_option public_view (OpGet i (vw_db w)))"

definition agree_on_key :: "uuid \<Rightarrow> venv \<Rightarrow> venv \<Rightarrow> bool" where
  "agree_on_key k E E' \<longleftrightarrow> vCfg E' = vCfg E \<and> vNow E' = vNow E \<and>
     (\<forall>n. rel_option (same_own k (own_streams k E)) (vSnap E n) (vSnap E' n))"

lemma agree_cases:
  assumes "agree_on_key k E E'"
  obtains "vSnap E n = None" "vSnap E' n = None"
  | w w' where "vSnap E n = Some w" "vSnap E' n = Some w'" "same_own k (own_streams k E) w w'"
proof -
  have "rel_option (same_own k (own_streams k E)) (vSnap E n) (vSnap E' n)" using assms by (simp add: agree_on_key_def)
  then show thesis using that by (cases rule: option.rel_cases) metis+
qed

lemma ListByAPIKey_own: "ListByAPIKey k since lmt t = ListByAPIKey k since lmt (filter (\<lambda>r. ur_APIKeyID r = k) t)"
  by (simp add: ListByAPIKey_def conj_commute)

lemma agree_usage:
  assumes "agree_on_key k E E'"
  shows "read_or E' n (\<lambda>w. ListByAPIKey k since lmt (db_reservations (vw_db w))) msg c =
    read_or E n (\<lambda>w. ListByAPIKey k since lmt (db_reservations (vw_db w))) msg c"
  using assms
proof (cases rule: agree_cases [where n = n])
  case (2 w w')
  then show ?thesis
    using ListByAPIKey_own [of k since lmt "db_reservations (vw_db w)"] ListByAPIKey_own [of k since lmt "db_reservations (vw_db w')"]
    by (simp add: read_or_def same_own_def)
qed (simp add: read_or_def)

lemma agree_live:
  assumes "agree_on_key k E E'" and ak: "cx_APIKey cx = Some ak" "ak_ID ak = k"
  shows "portal_live_streams E' cx lmt = portal_live_streams E cx lmt"
  using assms(1)
proof (cases rule: agree_cases [where n = 0])
  case 1
  then show ?thesis using ak by (simp add: portal_live_streams_def with_key_def read_or_def)
next
  case (2 w w')
  define recs where "recs = LiveListByAPIKey k lmt (db_live (vw_db w))"
  have recs': "LiveListByAPIKey k lmt (db_live (vw_db w')) = recs" using 2(3) by (simp add: recs_def LiveListByAPIKey_def same_own_def)
  have own: "ls_ID r \<in> own_streams k E" if "r \<in> set recs" for r
  proof -
    have "set recs \<subseteq> set (filter (\<lambda>r. ls_APIKeyID r = k) (db_live (vw_db w)))"
      by (auto simp: recs_def LiveListByAPIKey_def order_desc_def dest!: in_set_takeD)
    then show ?thesis using that 2(1) unfolding own_streams_def by auto
  qed
  have "read_or E' 1 (\<lambda>w. PublicViews (map ls_ID recs) (vw_db w)) msg c = read_or E 1 (\<lambda>w. PublicViews (map ls_ID recs) (vw_db w)) msg c" for msg c
    using assms(1)
  proof (cases rule: agree_cases [where n = 1])
    case (2 u u')
    have "PublicViews (map ls_ID recs) (vw_db u') = PublicViews (map ls_ID recs) (vw_db u)"
      using own 2(3) by (auto simp: PublicViews_def fun_eq_iff same_own_def)
    with 2 show ?thesis by (simp add: read_or_def)
  qed (simp add: read_or_def)
  with 2 ak recs' show ?thesis
    by (simp add: portal_live_streams_def with_key_def read_or_def [of _ 0] recs_def [symmetric])
qed

text \<open>C27: a customer's listings show nothing of others. The portal's usage, stream and job lists of a
  session are the same in any two runs whose tables agree on the rows of the session's own API key,
  whatever the other customers' reservations, streams and operations are, also when the tables change
  between the queries of a request or a query fails.\<close>

theorem portal_lists_private:
  assumes "cx_APIKey cx = Some ak" and "agree_on_key (ak_ID ak) E E'"
  shows "portal_usage E' cx lmt = portal_usage E cx lmt \<and> portal_abr_jobs E' cx lmt = portal_abr_jobs E cx lmt \<and>
    portal_live_streams E' cx lmt = portal_live_streams E cx lmt"
proof -
  have c: "vCfg E' = vCfg E" "vNow E' = vNow E" using assms(2) by (simp_all add: agree_on_key_def)
  have "portal_usage E' cx lmt = portal_usage E cx lmt"
    using assms(1) agree_usage [OF assms(2)] by (simp add: portal_usage_def with_key_def c)
  moreover have "portal_abr_jobs E' cx lmt = portal_abr_jobs E cx lmt"
    using assms(1) agree_usage [OF assms(2)] by (simp add: portal_abr_jobs_def with_key_def c)
  ultimately show ?thesis using agree_live [OF assms(2) assms(1) refl] by blast
qed

section \<open>Secrets\<close>

text \<open>The database with every secret blanked: hashes of keys, tokens, sessions, stream keys and
  addresses, private ingest addresses, webhook secrets, and the operations' encrypted material and
  request identity.\<close>

definition scrub_key :: "APIKey \<Rightarrow> APIKey" where
  "scrub_key k = k\<lparr>ak_KeyHash := ''''\<rparr>"

definition scrub_waitlist :: "Waitlist \<Rightarrow> Waitlist" where
  "scrub_waitlist r = r\<lparr>wl_IPHash := None, wl_VerificationTokenHash := None, wl_VerificationTokenExpiresAt := None\<rparr>"

definition scrub_live :: "LiveStream \<Rightarrow> LiveStream" where
  "scrub_live r = r\<lparr>ls_StreamKeyHash := None, ls_StreamKeyHint := None, ls_PrivateIngestURL := None, ls_S3OutputPrefix := None\<rparr>"

definition scrub_reservation :: "UsageReservation \<Rightarrow> UsageReservation" where
  "scrub_reservation r = r\<lparr>ur_WebhookSecret := None\<rparr>"

definition scrub_op :: "sealed \<Rightarrow> operation \<Rightarrow> operation" where
  "scrub_op s r = r\<lparr>op_Secrets := s, op_RequestKey := '''', op_RequestHash := ''''\<rparr>"

definition scrub :: "sealed \<Rightarrow> world \<Rightarrow> world" where
  "scrub s w = w\<lparr>
     vw_acc := \<lparr>ac_waitlist = map scrub_waitlist (ac_waitlist (vw_acc w)), ac_keys = map scrub_key (ac_keys (vw_acc w)), ac_sessions = []\<rparr>,
     vw_db := \<lparr>db_reservations = map scrub_reservation (db_reservations (vw_db w)), db_live = map scrub_live (db_live (vw_db w)),
               db_ops = map (scrub_op s) (db_ops (vw_db w))\<rparr>\<rparr>"

definition scrubbed :: "sealed \<Rightarrow> venv \<Rightarrow> venv" where
  "scrubbed s E = E\<lparr>vSnap := \<lambda>n. map_option (scrub s) (vSnap E n)\<rparr>"

lemma order_desc_map: "(\<And>x. k (f x) = k' x) \<Longrightarrow> order_desc k (map f t) = map f (order_desc k' t)"
proof -
  assume k: "\<And>x. k (f x) = k' x"
  have "sort_key g (map f t) = map f (sort_key (\<lambda>x. g (f x)) t)" for g :: "_ \<Rightarrow> int"
  proof (induction t)
    case (Cons a t)
    have "insort_key g (f a) (map f u) = map f (insort_key (\<lambda>x. g (f x)) a u)" for u
      by (induction u) simp_all
    with Cons show ?case by simp
  qed simp
  then show ?thesis by (simp add: order_desc_def k)
qed

lemma filter_scrub: "(\<And>x. p (f x) = p x) \<Longrightarrow> filter p (map f t) = map f (filter p t)"
  by (simp add: filter_map comp_def)

lemma row_by_map: "(\<And>x. k (f x) = k x) \<Longrightarrow> row_by k i (map f t) = map_option f (row_by k i t)"
  unfolding row_by_def by (induction t) simp_all

lemma scrub_live_simps [simp]:
  "ls_ID (scrub_live l) = ls_ID l" "ls_APIKeyID (scrub_live l) = ls_APIKeyID l" "ls_CreatedAt (scrub_live l) = ls_CreatedAt l"
  "ls_Status (scrub_live l) = ls_Status l" "ls_Name (scrub_live l) = ls_Name l" "ls_PlaybackURL (scrub_live l) = ls_PlaybackURL l"
  "ls_ErrorText (scrub_live l) = ls_ErrorText l" "ls_StartedAt (scrub_live l) = ls_StartedAt l" "ls_EndedAt (scrub_live l) = ls_EndedAt l"
  by (simp_all add: scrub_live_def)

lemma scrub_row_simps [simp]:
  "ak_ID (scrub_key k) = ak_ID k" "ak_WaitlistID (scrub_key k) = ak_WaitlistID k" "ak_CreatedAt (scrub_key k) = ak_CreatedAt k"
  "ak_KeyPrefix (scrub_key k) = ak_KeyPrefix k" "key_view (scrub_key k) = key_view k"
  "wl_ID (scrub_waitlist r) = wl_ID r" "wl_Status (scrub_waitlist r) = wl_Status r" "wl_CreatedAt (scrub_waitlist r) = wl_CreatedAt r"
  "wl_Email (scrub_waitlist r) = wl_Email r" "wl_Name (scrub_waitlist r) = wl_Name r"
  "wl_EmailVerifiedAt (scrub_waitlist r) = wl_EmailVerifiedAt r" "wl_ApprovedAt (scrub_waitlist r) = wl_ApprovedAt r"
  "waitlist_view (scrub_waitlist r) = waitlist_view r" "user_summary (scrub_waitlist r) = user_summary r"
  "live_open (scrub_live l) = live_open l" "admin_live_item (scrub_live l) = admin_live_item l"
  "ur_APIKeyID (scrub_reservation u) = ur_APIKeyID u" "ur_CreatedAt (scrub_reservation u) = ur_CreatedAt u"
  "ur_Capability (scrub_reservation u) = ur_Capability u" "ur_State (scrub_reservation u) = ur_State u" "ur_WorkID (scrub_reservation u) = ur_WorkID u"
  "ur_RunnerStatus (scrub_reservation u) = ur_RunnerStatus u"
  "usage_item (scrub_reservation u) = usage_item u" "portal_abr_item (scrub_reservation u) = portal_abr_item u"
  "op_ID (scrub_op s q) = op_ID q" "public_view (scrub_op s q) = public_view q"
  by (simp_all add: scrub_key_def scrub_waitlist_def scrub_reservation_def scrub_op_def key_view_def waitlist_view_def
      user_summary_def live_open_def usage_item_def portal_abr_item_def public_view_def)
    (simp add: admin_live_item_def scrub_live_def)

lemma scrub_item_simps [simp]:
  "portal_live_item (scrub_live l) p = portal_live_item l p" "admin_abr_item (scrub_reservation u) p = admin_abr_item u p"
  unfolding portal_live_item_def scrub_live_simps by (rule refl)
    (simp add: admin_abr_item_def scrub_reservation_def Let_def split: option.split)

lemma scrub_world_simps [simp]:
  "ac_waitlist (vw_acc (scrub s w)) = map scrub_waitlist (ac_waitlist (vw_acc w))"
  "ac_keys (vw_acc (scrub s w)) = map scrub_key (ac_keys (vw_acc w))"
  "db_reservations (vw_db (scrub s w)) = map scrub_reservation (db_reservations (vw_db w))"
  "db_live (vw_db (scrub s w)) = map scrub_live (db_live (vw_db w))"
  "db_ops (vw_db (scrub s w)) = map (scrub_op s) (db_ops (vw_db w))"
  "vw_caps (scrub s w) = vw_caps w" "vw_meta (scrub s w) = vw_meta w"
  by (simp_all add: scrub_def)

lemma scrubbed_simps [simp]:
  "vCfg (scrubbed s E) = vCfg E" "vNow (scrubbed s E) = vNow E" "vSnap (scrubbed s E) n = map_option (scrub s) (vSnap E n)"
  by (simp_all add: scrubbed_def)

lemma PublicViews_scrub: "PublicViews ids (vw_db (scrub s w)) = PublicViews ids (vw_db w)"
  by (auto simp: PublicViews_def fun_eq_iff OpGet_def row_by_map option.map_comp comp_def)

lemma ListByAPIKey_scrub: "ListByAPIKey k since lmt (map scrub_reservation t) = map scrub_reservation (ListByAPIKey k since lmt t)"
  by (simp add: ListByAPIKey_def filter_scrub order_desc_map [of ur_CreatedAt scrub_reservation ur_CreatedAt] take_map)

lemma live_lists_scrub:
  "LiveListByAPIKey k lmt (map scrub_live t) = map scrub_live (LiveListByAPIKey k lmt t)"
  "LiveListAll activeOnly n (map scrub_live t) = map scrub_live (LiveListAll activeOnly n t)"
  by (simp_all add: LiveListByAPIKey_def LiveListAll_def filter_scrub order_desc_map [of ls_CreatedAt scrub_live ls_CreatedAt] take_map)

lemma account_lists_scrub:
  "ListByStatus st lmt (map scrub_waitlist t) = map scrub_waitlist (ListByStatus st lmt t)"
  "ListByWaitlist i (map scrub_key ks) = map scrub_key (ListByWaitlist i ks)"
  "WaitlistGetByID i (map scrub_waitlist t) = map_option scrub_waitlist (WaitlistGetByID i t)"
  by (simp_all add: ListByStatus_def ListByWaitlist_def WaitlistGetByID_def filter_scrub row_by_map take_map
      order_desc_map [of wl_CreatedAt scrub_waitlist wl_CreatedAt] order_desc_map [of ak_CreatedAt scrub_key ak_CreatedAt] split: option.split)

lemma count_where_map: "(\<And>x. p (f x) = p x) \<Longrightarrow> count_where p (map f t) = count_where p t"
  by (simp add: count_where_def filter_scrub)

lemma summary_scrub: "summary_of (map scrub_reservation t) = summary_of t"
  by (simp add: summary_of_def count_where_map max_created_def comp_def)

lemma summaries_scrub:
  "SummaryByWaitlist (map scrub_key ks) i (map scrub_reservation t) = SummaryByWaitlist ks i t"
  "SummaryByCapability since (map scrub_reservation t) = SummaryByCapability since t"
  "key_rollup (map scrub_waitlist w) (map scrub_reservation t) (scrub_key k) = key_rollup w t k"
  by (simp_all add: SummaryByWaitlist_def SummaryByCapability_def key_rollup_def filter_scrub summary_scrub row_by_map
      capability_rollup_def count_where_map comp_def Let_def summary_scrub [of "_ # _", simplified] split: option.split list.split)

lemma ListByCapability_scrub: "ListByCapability c since n (map scrub_reservation t) = map scrub_reservation (ListByCapability c since n t)"
  by (simp add: ListByCapability_def filter_scrub order_desc_map [of ur_CreatedAt scrub_reservation ur_CreatedAt] take_map)

lemma SummaryByAPIKey_scrub:
  "SummaryByAPIKey n \<lparr>ac_waitlist = map scrub_waitlist (ac_waitlist a), ac_keys = map scrub_key (ac_keys a), ac_sessions = []\<rparr>
     (map scrub_reservation t) = SummaryByAPIKey n a t"
proof -
  have "List.map_filter (key_rollup (map scrub_waitlist w) (map scrub_reservation t)) (map scrub_key ks) =
      List.map_filter (key_rollup w t) ks" for w ks
    by (induction ks) (simp_all add: List.map_filter_simps summaries_scrub split: option.split)
  then show ?thesis by (simp add: SummaryByAPIKey_def)
qed

lemma read_or_scrub: "read_or (scrubbed s E) n g msg k = (case vSnap E n of None \<Rightarrow> Inl (ISE msg) | Some w \<Rightarrow> k (g (scrub s w)))"
  by (simp add: read_or_def split: option.split)

lemma read_or_ext: "(\<And>w. vSnap E n = Some w \<Longrightarrow> k (g (scrub s w)) = k' (g' w)) \<Longrightarrow>
    read_or (scrubbed s E) n g msg k = read_or E n g' msg k'"
  by (simp add: read_or_scrub read_or_def split: option.split)

text \<open>The portal's list of API keys runs on the account tables, other requests committing before its
  query: its answer is a function of the scrubbed keys the query sees.\<close>

lemma key_views_scrub: "map key_view (ListByWaitlist i ks) = map key_view (ListByWaitlist i (map scrub_key ks))"
  by (simp add: account_lists_scrub comp_def)

lemma portal_list_keys_answer:
  "fst (portal_list_keys W cx y) = (case cx_Waitlist cx of
      None \<Rightarrow> Inl (Denied 401 ''not_authenticated'' False)
    | Some w \<Rightarrow> if wFault W (wb_tick y) = None
        then Inr (map key_view (ListByWaitlist (wl_ID w) (map scrub_key (ac_keys (wb_acc (others_commit W y))))))
        else Inl (ISE ''list keys failed''))"
  by (auto simp: portal_list_keys_def the_waitlist_def or_deny_def query_def stmt_def stmt_apply_def eng_simps
      key_views_scrub [symmetric] split: option.split stmt_fault.split)

text \<open>C28: no listing discloses a secret. The portal's lists of usage, jobs, live streams and API keys and the
  administrators' lists of sign-ups, users, one user's keys, usage, usage by capability, live streams,
  jobs and capabilities, and the public list of capabilities, are the same when all hashes of keys, tokens, sessions, stream keys and addresses, the private ingest
  addresses, the webhook secrets and the operations' encrypted material and request identity are blanked in
  every state of the database the request sees: what they return does not depend on any of them. For the
  list of API keys, two states of the account tables whose keys differ at most in their hashes when the
  query runs give the same answer.\<close>

theorem listings_hide_secrets:
  "portal_usage (scrubbed s E) cx lmt = portal_usage E cx lmt \<and>
   portal_abr_jobs (scrubbed s E) cx lmt = portal_abr_jobs E cx lmt \<and>
   portal_live_streams (scrubbed s E) cx lmt = portal_live_streams E cx lmt \<and>
   admin_list_waitlist (scrubbed s E) st lmt = admin_list_waitlist E st lmt \<and>
   admin_list_users (scrubbed s E) lmt = admin_list_users E lmt \<and>
   admin_get_user (scrubbed s E) i = admin_get_user E i \<and>
   admin_usage (scrubbed s E) n = admin_usage E n \<and>
   admin_usage_by_capability (scrubbed s E) h = admin_usage_by_capability E h \<and>
   admin_live_streams (scrubbed s E) activeOnly n = admin_live_streams E activeOnly n \<and>
   admin_abr_jobs (scrubbed s E) h n = admin_abr_jobs E h n \<and>
   admin_capabilities (scrubbed s E) = admin_capabilities E \<and>
   v1_capabilities (scrubbed s E) = v1_capabilities E \<and>
   (map scrub_key (ac_keys (wb_acc (others_commit W y'))) = map scrub_key (ac_keys (wb_acc (others_commit W y))) \<and>
      wb_tick y' = wb_tick y \<longrightarrow> fst (portal_list_keys W cx y') = fst (portal_list_keys W cx y))"
proof (intro conjI)
  show "map scrub_key (ac_keys (wb_acc (others_commit W y'))) = map scrub_key (ac_keys (wb_acc (others_commit W y))) \<and>
      wb_tick y' = wb_tick y \<longrightarrow> fst (portal_list_keys W cx y') = fst (portal_list_keys W cx y)"
    by (intro impI, elim conjE) (simp only: portal_list_keys_answer)
  show "portal_usage (scrubbed s E) cx lmt = portal_usage E cx lmt"
    by (auto simp: portal_usage_def with_key_def ListByAPIKey_scrub intro!: read_or_ext split: option.split)
  show "portal_abr_jobs (scrubbed s E) cx lmt = portal_abr_jobs E cx lmt"
    by (auto simp: portal_abr_jobs_def with_key_def ListByAPIKey_scrub filter_scrub intro!: read_or_ext split: option.split)
  show "portal_live_streams (scrubbed s E) cx lmt = portal_live_streams E cx lmt"
    by (auto simp: portal_live_streams_def with_key_def live_lists_scrub comp_def PublicViews_scrub intro!: read_or_ext split: option.split)
  show "admin_list_waitlist (scrubbed s E) st lmt = admin_list_waitlist E st lmt"
    by (auto simp: admin_list_waitlist_def account_lists_scrub intro!: read_or_ext)
  show "admin_list_users (scrubbed s E) lmt = admin_list_users E lmt"
    by (auto simp: admin_list_users_def account_lists_scrub intro!: read_or_ext)
  show "admin_get_user (scrubbed s E) i = admin_get_user E i"
    by (auto simp: admin_get_user_def account_lists_scrub summaries_scrub comp_def intro!: read_or_ext split: option.split)
  show "admin_usage (scrubbed s E) n = admin_usage E n"
    unfolding admin_usage_def by (rule read_or_ext) (simp add: scrub_def SummaryByAPIKey_scrub)
  show "admin_usage_by_capability (scrubbed s E) h = admin_usage_by_capability E h"
    by (auto simp: admin_usage_by_capability_def since_hours_def summaries_scrub intro!: read_or_ext)
  show "admin_live_streams (scrubbed s E) activeOnly n = admin_live_streams E activeOnly n"
    by (auto simp: admin_live_streams_def live_lists_scrub intro!: read_or_ext)
  show "admin_abr_jobs (scrubbed s E) h n = admin_abr_jobs E h n"
    by (auto simp: admin_abr_jobs_def since_hours_def ListByCapability_scrub comp_def PublicViews_scrub intro!: read_or_ext)
  show "admin_capabilities (scrubbed s E) = admin_capabilities E"
    by (auto simp: admin_capabilities_def meta_or_zero_def intro!: read_or_ext split: option.split)
  show "v1_capabilities (scrubbed s E) = v1_capabilities E"
    by (auto simp: v1_capabilities_def intro!: read_or_ext split: option.split)
qed

section \<open>At a concrete database\<close>

text \<open>One job of the customer and a later live session.\<close>

definition two_reservations :: reservations where
  "two_reservations = [fresh_reservation ''r1'' ''key'' ''job'' ''video:abr'' ''default'' (Some 600) None 10,
     fresh_reservation ''r2'' ''key'' ''stream'' ''video:live'' ''relay'' (Some 600) None 20]"

definition view_world :: "reservations \<Rightarrow> world" where
  "view_world t = \<lparr>vw_acc = \<lparr>ac_waitlist = [], ac_keys = [], ac_sessions = []\<rparr>,
     vw_db = \<lparr>db_reservations = t, db_live = [], db_ops = []\<rparr>, vw_caps = [], vw_meta = None\<rparr>"

text \<open>The portal's job list takes the newest reservations of any kind and then drops those that are not
  jobs: a later live session hides the customer's only job.\<close>

theorem abr_list_crowded_out:
  assumes "ABRCapability (vCfg E) = ''video:abr''" and "vSnap E 0 = Some (view_world two_reservations)" and "vNow E = 100"
    and "cx_APIKey cx = Some ak" and "ak_ID ak = ''key''"
  shows "portal_abr_jobs E cx 1 = Inr [] \<and> portal_abr_jobs E cx 2 \<noteq> Inr []"
  using assms
  by (simp add: portal_abr_jobs_def with_key_def read_or_def view_world_def two_reservations_def ListByAPIKey_def order_desc_def fresh_reservation_def)

definition sample_venv :: "reservations \<Rightarrow> venv" where
  "sample_venv t = \<lparr>vCfg = sample_webcfg, vNow = 100, vSnap = \<lambda>_. Some (view_world t)\<rparr>"

definition sample_session :: reqctx where
  "sample_session = \<lparr>cx_APIKey = Some (fresh_key ''key'' 0 ''w'' '''' ''sk-'' ''hash''), cx_Waitlist = None, cx_Session = None\<rparr>"

definition key_wenv :: wenv where
  "key_wenv = \<lparr>wCfg = sample_webcfg, HashWithPepper = (\<lambda>v p. p @ v), wClock = int, wNow = int, wGen = (\<lambda>_. ''id''),
     wRandom = (\<lambda>_. None), wOthers = (\<lambda>_. []), wFault = (\<lambda>_. None)\<rparr>"

definition key_state :: "string \<Rightarrow> webstate" where
  "key_state hash = \<lparr>wb_tick = 0, wb_acc = \<lparr>ac_waitlist = [], ac_keys = [fresh_key ''key'' 0 ''w'' '''' ''sk-'' hash], ac_sessions = []\<rparr>,
     wb_limit = NewRateLimit 60 30, wb_mail = [], wb_signups = 0\<rparr>"

definition keys_session :: reqctx where
  "keys_session = \<lparr>cx_APIKey = None, cx_Waitlist = Some (fresh_waitlist ''w'' 0 ''Ada'' ''ada@x'' '''' ''token'' 9), cx_Session = None\<rparr>"

theorem listings_hide_secrets_witness:
  "fst (portal_list_keys key_wenv keys_session (key_state ''hash'')) = fst (portal_list_keys key_wenv keys_session (key_state ''other''))"
proof -
  have "map scrub_key (ac_keys (wb_acc (others_commit key_wenv (key_state ''hash'')))) =
      map scrub_key (ac_keys (wb_acc (others_commit key_wenv (key_state ''other'')))) \<and>
      wb_tick (key_state ''hash'') = wb_tick (key_state ''other'')"
    by (simp add: others_commit_def key_wenv_def key_state_def scrub_key_def fresh_key_def commits_def)
  then show ?thesis using listings_hide_secrets by blast
qed

theorem portal_lists_private_witness:
  "portal_usage (sample_venv (two_reservations @ [fresh_reservation ''r3'' ''other'' ''job3'' ''video:abr'' ''default'' (Some 9) None 30]))
     sample_session 100 = portal_usage (sample_venv two_reservations) sample_session 100"
proof -
  let ?k = "fresh_key ''key'' 0 ''w'' '''' ''sk-'' ''hash''"
  let ?t = "two_reservations @ [fresh_reservation ''r3'' ''other'' ''job3'' ''video:abr'' ''default'' (Some 9) None 30]"
  have "cx_APIKey sample_session = Some ?k" by (simp add: sample_session_def)
  moreover have "agree_on_key (ak_ID ?k) (sample_venv two_reservations) (sample_venv ?t)"
    by (simp add: agree_on_key_def sample_venv_def same_own_def view_world_def fresh_key_def fresh_reservation_def OpGet_def)
  ultimately show ?thesis using portal_lists_private by blast
qed

end
