(* ===== verification/Diagnostics.thy ===== *)
theory Diagnostics
  imports Paid_Facts
begin

text \<open>
  \<^verbatim>\<open>server/paid_diagnostics.go\<close>: what the engine writes to its log about a failed attempt. Upstream
  messages may carry addresses, inputs and credentials, so only listed words and numbers pass.
\<close>

datatype logv = LS string | LI int | LB bool

type_synonym fields = "(string \<times> logv) list"

section \<open>The authorization limit in a refusal\<close>

definition is_digit :: "char \<Rightarrow> bool" where
  "is_digit c \<longleftrightarrow> digit_val c \<noteq> None"

text \<open>The word characters of \<^verbatim>\<open>\b\<close>.\<close>

definition is_word :: "char \<Rightarrow> bool" where
  "is_word c \<longleftrightarrow> (let n = (of_char c :: nat) in
     (48 \<le> n \<and> n \<le> 57) \<or> (65 \<le> n \<and> n \<le> 90) \<or> (97 \<le> n \<and> n \<le> 122) \<or> n = 95)"

text \<open>A run of one to 78 digits, which ends where a character other than a digit follows.\<close>

definition digit_group :: "string \<Rightarrow> (string \<times> string) option" where
  "digit_group s = (let d = takeWhile is_digit s in
     if 1 \<le> length d \<and> length d \<le> 78 then Some (d, dropWhile is_digit s) else None)"

text \<open>The expression \<^verbatim>\<open>authorizationLimit\<close> at the beginning of a text, after the word boundary, and
  its leftmost match in a text; \<open>after_word\<close>: the character before is a word character.\<close>

definition limit_middle :: string where
  "limit_middle = '' wei exceeds max-authorization-wei ''"

definition limit_at :: "string \<Rightarrow> (string \<times> string) option" where
  "limit_at s = (if \<not> HasPrefix s ''max_debit '' then None else
     case digit_group (TrimPrefix s ''max_debit '') of
       None \<Rightarrow> None
     | Some (d1, r1) \<Rightarrow>
         if \<not> HasPrefix r1 limit_middle then None
         else case digit_group (TrimPrefix r1 limit_middle) of
           None \<Rightarrow> None
         | Some (d2, r2) \<Rightarrow> if r2 \<noteq> [] \<and> is_word (hd r2) then None else Some (d1, d2))"

fun find_limit :: "bool \<Rightarrow> string \<Rightarrow> (string \<times> string) option" where
  "find_limit after_word [] = None"
| "find_limit after_word (c # s) = (case (if after_word then None else limit_at (c # s)) of
      Some m \<Rightarrow> Some m
    | None \<Rightarrow> find_limit (is_word c) s)"

section \<open>Fields of an error\<close>

definition loc_log_codes :: "string list" where
  "loc_log_codes = [''AUTHORIZATION_REFUSED'', ''INSUFFICIENT_CREDIT'', ''SPEND_CAP_EXCEEDED'', ''DAEMON_UNAVAILABLE'',
     ''WHOLESALE_FUNDING_UNVERIFIED'', ''NO_ROUTE_AVAILABLE'', ''IDEMPOTENCY_IN_PROGRESS'', ''VALIDATION_ERROR'']"

definition detail_reason :: "APIError \<Rightarrow> string" where
  "detail_reason a = (case map_of (ae_Details a) ''reason'' of Some (JStr s) \<Rightarrow> s | _ \<Rightarrow> '''')"

definition loc_fields :: "APIError \<Rightarrow> fields" where
  "loc_fields a =
     (let code = map to_upper_char (ae_Code a) in
      [(''upstream'', LS ''loc''), (''http_status'', LI (ae_StatusCode a))] @
      (if code \<in> set loc_log_codes then [(''loc_code'', LS code)] else []) @
      (if EqualFold (ae_Code a) ''AUTHORIZATION_REFUSED'' then
         (case find_limit False (detail_reason a) of
            None \<Rightarrow> []
          | Some (d1, d2) \<Rightarrow> [(''reason_code'', LS ''authorization_limit_exceeded''), (''requested_max_debit_wei'', LS d1),
              (''payer_max_authorization_wei'', LS d2)])
       else []))"

definition broker_endpoint :: "string \<Rightarrow> string" where
  "broker_endpoint p =
     (if p = ''/v1/job'' then ''job_submit''
      else if HasPrefix p ''/v1/exchange/'' then ''job_exchange''
      else if p = ''/v1/session'' then ''session_open''
      else if HasPrefix p ''/v1/session/'' \<and> HasSuffix p ''/end'' then ''session_end''
      else if HasPrefix p ''/v1/session/'' \<and> HasSuffix p ''/topup'' then ''session_topup''
      else if HasPrefix p ''/v1/session/'' then ''session_status''
      else if HasPrefix p ''/v1/settlement/'' then ''session_settlement''
      else ''unknown'')"

definition paidErrorFields :: "(string \<Rightarrow> URL option) \<Rightarrow> err \<Rightarrow> fields" where
  "paidErrorFields parse e = (''code'', LS (safePaidError e)) # (case e of
      LocErr a \<Rightarrow> loc_fields a
    | BrokerErr b \<Rightarrow> [(''upstream'', LS ''broker''), (''http_status'', LI (be_StatusCode b))] @
        (case parse (be_URL b) of None \<Rightarrow> [] | Some u \<Rightarrow> [(''broker_endpoint'', LS (broker_endpoint (u_Path u)))])
    | ExchangePending outcome \<Rightarrow> [(''upstream'', LS ''broker''), (''broker_outcome'', LS outcome)] @
        (if outcome = ''ADMISSION_REJECTED'' then [(''recovery_action'', LS ''await_loc_signed_non_admission'')] else [])
    | _ \<Rightarrow> [])"

section \<open>The log line of an attempt\<close>

definition log_message :: "operation \<Rightarrow> string \<Rightarrow> string" where
  "log_message o1 stage =
     (if op_FinishedAt o1 \<noteq> None then ''paid operation terminal refusal''
      else if stage = ''broker_exchange_lookup'' then ''paid operation broker recovery pending''
      else ''paid operation pending retry'')"

definition logPaidError :: "(string \<Rightarrow> URL option) \<Rightarrow> operation \<Rightarrow> operationSecrets \<Rightarrow> string \<Rightarrow> err \<Rightarrow> string \<times> fields" where
  "logPaidError parse o1 s stage e = (let terminal = (op_FinishedAt o1 \<noteq> None) in
     (log_message o1 stage,
      [(''operation_id'', LS (op_ID o1)), (''kind'', LS (op_Kind o1)), (''state'', LS (op_State o1)), (''stage'', LS stage),
       (''attempt'', LI (op_Attempts o1)), (''stop_requested'', LB (op_StopRequested o1)), (''retryable'', LB (\<not> terminal))] @
      (if \<not> terminal \<and> stage = ''operation'' then [(''next_attempt_at'', LI (op_NextAttemptAt o1))] else []) @
      (case s_Job s of None \<Rightarrow> []
       | Some j \<Rightarrow> [(''loc_job_id'', LS (job_JobID j)), (''broker_request_id'', LS (job_RequestID j))]) @
      (case s_Session s of None \<Rightarrow> []
       | Some x \<Rightarrow> [(''loc_session_id'', LS (sess_SessionID x)), (''broker_request_id'', LS (sess_RequestID x))]) @
      paidErrorFields parse e))"

section \<open>What may be logged\<close>

definition log_number :: "string \<Rightarrow> bool" where
  "log_number d \<longleftrightarrow> d \<noteq> [] \<and> length d \<le> 78 \<and> list_all is_digit d"

lemma digit_group_SomeD: "digit_group s = Some (d, r) \<Longrightarrow> log_number d"
  unfolding digit_group_def log_number_def Let_def list_all_iff by (auto split: if_splits dest: set_takeWhileD)

lemma limit_at_SomeD: "limit_at s = Some (d1, d2) \<Longrightarrow> log_number d1 \<and> log_number d2"
  unfolding limit_at_def by (split if_splits option.splits prod.splits | blast dest: digit_group_SomeD | clarsimp)+

lemma find_limit_SomeD: "find_limit b s = Some (d1, d2) \<Longrightarrow> log_number d1 \<and> log_number d2"
proof (induction b s rule: find_limit.induct)
  case (2 b c s)
  then show ?case by (auto split: option.splits if_splits dest: limit_at_SomeD)
qed simp

definition log_words :: "string set" where
  "log_words = set loc_log_codes \<union> {''loc'', ''broker'', ''authorization_limit_exceeded'', ''await_loc_signed_non_admission'',
     ''job_submit'', ''job_exchange'', ''session_open'', ''session_end'', ''session_topup'', ''session_status'', ''session_settlement'', ''unknown''}"

lemma loc_fields_texts:
  assumes "(k, LS v) \<in> set (loc_fields a)"
  shows "v \<in> insert ''loc'' (insert ''authorization_limit_exceeded'' (set loc_log_codes)) \<or> log_number v"
proof -
  let ?code = "map to_upper_char (ae_Code a)"
  let ?coded = "if ?code \<in> set loc_log_codes then [(''loc_code'', LS ?code)] else []"
  let ?limit = "case find_limit False (detail_reason a) of None \<Rightarrow> [] | Some (d1, d2) \<Rightarrow>
    [(''reason_code'', LS ''authorization_limit_exceeded''), (''requested_max_debit_wei'', LS d1), (''payer_max_authorization_wei'', LS d2)]"
  consider "v = ''loc''" | "(k, LS v) \<in> set ?coded" | "(k, LS v) \<in> set ?limit"
    using assms unfolding loc_fields_def Let_def set_append Un_iff by (split if_split_asm) fastforce+
  then show ?thesis
  proof cases
    case 2
    then show ?thesis by (split if_split_asm) simp_all
  next
    case 3
    then obtain d1 d2 where m: "find_limit False (detail_reason a) = Some (d1, d2)" by (cases "find_limit False (detail_reason a)") auto
    with 3 have "v \<in> {''authorization_limit_exceeded'', d1, d2}" by simp blast
    with find_limit_SomeD [OF m] show ?thesis by blast
  qed simp
qed

text \<open>The outcomes of an exchange the client tells apart; an unfinished exchange reports one of them.\<close>

definition known_outcomes :: "string set" where
  "known_outcomes = set exchange_outcomes \<union> {''UNKNOWN''}"

definition known_outcome :: "err \<Rightarrow> bool" where
  "known_outcome e \<longleftrightarrow> (case e of ExchangePending outcome \<Rightarrow> outcome \<in> known_outcomes | _ \<Rightarrow> True)"

text \<open>The error codes: two fixed texts, a number behind one of two prefixes, and a known outcome.\<close>

definition bounded_code :: "string \<Rightarrow> bool" where
  "bounded_code v \<longleftrightarrow> v \<in> {''upstream_timeout'', ''upstream_or_accounting_pending''} \<or>
     v \<in> range (\<lambda>n. ''loc_http_'' @ int_text n) \<or> v \<in> range (\<lambda>n. ''broker_http_'' @ int_text n) \<or>
     v \<in> (\<lambda>outcome. ''broker_'' @ ToLower outcome) ` known_outcomes"

lemma safePaidError_bounded: "known_outcome e \<Longrightarrow> bounded_code (safePaidError e)"
  by (cases e) (auto simp: bounded_code_def safePaidError_def known_outcome_def)

lemma lookup_known: "LookupJobV2 C r req job unit work = Inl e \<Longrightarrow> known_outcome e"
  by (drule LookupJobV2_InlD) (auto simp: known_outcome_def known_outcomes_def brokerResponseError_def)

text \<open>C29: the log discloses nothing an upstream wrote. Whatever the message, body, address and details of a
  failed upstream exchange are, every text among the error's log fields is one of a fixed set of words, a
  number of at most 78 digits, a code made of a fixed text, of an HTTP status behind a fixed prefix or of
  one of the eight known outcomes of an exchange, or such an outcome. An unfinished exchange is taken to
  carry a known outcome, as every error of the exchange look-up and the engine's own does.\<close>

theorem log_fields_bounded:
  "(LookupJobV2 C r req job unit work = Inl e \<longrightarrow> known_outcome e) \<and> known_outcome (ExchangePending ''ADMISSION_REJECTED'') \<and>
   (known_outcome e \<and> (k, LS v) \<in> set (paidErrorFields parse e) \<longrightarrow>
     v \<in> log_words \<or> log_number v \<or> (k = ''code'' \<and> bounded_code v) \<or> (k = ''broker_outcome'' \<and> v \<in> known_outcomes))"
proof (intro conjI impI)
  show "known_outcome e" if "LookupJobV2 C r req job unit work = Inl e" using that by (rule lookup_known)
  show "known_outcome (ExchangePending ''ADMISSION_REJECTED'')"
    by (simp add: known_outcome_def known_outcomes_def exchange_outcomes_def)
  have ends: "broker_endpoint p \<in> log_words" for p
    by (simp add: broker_endpoint_def log_words_def)
  assume "known_outcome e \<and> (k, LS v) \<in> set (paidErrorFields parse e)"
  then have known: "known_outcome e" and field: "(k, LS v) \<in> set (paidErrorFields parse e)" by simp_all
  note code = safePaidError_bounded [OF known]
  show "v \<in> log_words \<or> log_number v \<or> (k = ''code'' \<and> bounded_code v) \<or> (k = ''broker_outcome'' \<and> v \<in> known_outcomes)"
  proof (cases e)
    case (LocErr a)
    then have "(k, LS v) \<in> set (loc_fields a) \<or> (k = ''code'' \<and> v = safePaidError e)"
      using field by (auto simp: paidErrorFields_def)
    then show ?thesis using loc_fields_texts code unfolding log_words_def by blast
  next
    case (BrokerErr b)
    then show ?thesis using field code ends by (auto simp: paidErrorFields_def log_words_def split: option.splits)
  qed (use field code known in \<open>auto simp: paidErrorFields_def log_words_def known_outcome_def split: if_splits\<close>)
qed

definition sample_refusal :: APIError where
  "sample_refusal = \<lparr>ae_StatusCode = 403, ae_Code = ''authorization_refused'', ae_Message = ''https://host/key=secret'',
     ae_Details = [(''reason'', JStr ''payer https://host?token=t: max_debit 12 wei exceeds max-authorization-wei 7.'')], ae_RetryAfter = 0\<rparr>"

lemma sample_refusal_fields: "loc_fields sample_refusal = [(''upstream'', LS ''loc''), (''http_status'', LI 403),
    (''loc_code'', LS ''AUTHORIZATION_REFUSED''), (''reason_code'', LS ''authorization_limit_exceeded''),
    (''requested_max_debit_wei'', LS ''12''), (''payer_max_authorization_wei'', LS ''7'')]"
  by code_simp

theorem log_fields_bounded_witness:
  "(''requested_max_debit_wei'', LS ''12'') \<in> set (paidErrorFields (\<lambda>_. None) (LocErr sample_refusal)) \<and>
   (''12'' \<in> log_words \<or> log_number ''12'' \<or> (''requested_max_debit_wei'' = ''code'' \<and> bounded_code ''12'') \<or>
     (''requested_max_debit_wei'' = ''broker_outcome'' \<and> ''12'' \<in> known_outcomes))"
proof -
  have "(''requested_max_debit_wei'', LS ''12'') \<in> set (paidErrorFields (\<lambda>_. None) (LocErr sample_refusal))"
    by (simp add: paidErrorFields_def sample_refusal_fields)
  moreover have "known_outcome (LocErr sample_refusal)" by (simp add: known_outcome_def)
  ultimately show ?thesis using log_fields_bounded [where e = "LocErr sample_refusal"] by blast
qed

end
