(* ===== verification/LOC_Transport.thy ===== *)
theory LOC_Transport
  imports LOC_Client Views
begin

text \<open>
  The HTTP side of the LOC client: \<^verbatim>\<open>proxy/loc/client.go\<close>, \<^verbatim>\<open>capabilities.go\<close>, \<^verbatim>\<open>sessions.go\<close> and the
  requests of \<^verbatim>\<open>v2.go\<close>, whose acceptance checks are in LOC\_Client; wei amounts in JSON
  (\<^verbatim>\<open>types.go\<close>). Parameters are the network (\<open>tp_do\<close>, redirects not followed), the parser of request
  addresses, and JSON encoding and decoding of each body.
\<close>

section \<open>Wei amounts in JSON\<close>

definition TrimQuotes :: "string \<Rightarrow> string" where
  "TrimQuotes s = rev (dropWhile (\<lambda>c. c = CHR 0x22) (rev (dropWhile (\<lambda>c. c = CHR 0x22) s)))"

text \<open>The second argument is the receiver, which an empty text and \<^verbatim>\<open>null\<close> leave as it is.\<close>

definition Wei_UnmarshalJSON :: "string \<Rightarrow> wei \<Rightarrow> string + wei" where
  "Wei_UnmarshalJSON b w = (let s = TrimQuotes (TrimSpace b) in
     if s = '''' \<or> s = ''null'' then Inr w
     else case SetString10 s of
       None \<Rightarrow> Inl (''loc: invalid wei value '' @ s)
     | Some n \<Rightarrow> Inr n)"

definition Wei_MarshalJSON :: "wei option \<Rightarrow> string" where
  "Wei_MarshalJSON w = (case w of None \<Rightarrow> ''null'' | Some n \<Rightarrow> int_text n)"

section \<open>Client and request\<close>

record LocClient =
  lcl_baseURL :: string
  lcl_apiKey :: string
  lcl_sdkID :: string
  lcl_timeout :: int

definition NewLocClient :: "string \<Rightarrow> string \<Rightarrow> string \<Rightarrow> int \<Rightarrow> LocClient option" where
  "NewLocClient baseURL apiKey sdkID timeout =
     (if baseURL = '''' \<or> apiKey = '''' then None
      else Some \<lparr>lcl_baseURL = TrimRight1 baseURL (CHR ''/''), lcl_apiKey = apiKey, lcl_sdkID = sdkID,
        lcl_timeout = (if timeout \<le> 0 then 30 * second else timeout)\<rparr>)"

record Request =
  rq_Method :: string
  rq_URL :: string
  rq_Header :: header
  rq_Body :: "string option"

text \<open>An answer: what its body yields, and the error that ends it before its end.\<close>

record LocResponse =
  lr_Status :: int
  lr_RetryAfter :: string
  lr_Body :: string
  lr_ReadErr :: "err option"

record 's transport =
  tp_newRequest :: "string \<Rightarrow> err option"
  tp_do :: "Request \<Rightarrow> ('s, err, LocResponse) eff"
  tp_envelope :: "string \<Rightarrow> (string \<times> string \<times> (string \<times> json) list) option"

text \<open>\<^verbatim>\<open>http.Header.Set\<close>.\<close>

definition hset :: "string \<Rightarrow> string \<Rightarrow> header \<Rightarrow> header" where
  "hset k v h = (k, v) # filter (\<lambda>p. fst p \<noteq> k) h"

definition loc_header :: "LocClient \<Rightarrow> string option \<Rightarrow> header \<Rightarrow> header" where
  "loc_header c body headers =
     (let h = (if body \<noteq> None then hset ''Content-Type'' ''application/json'' [] else []);
          h = fold (\<lambda>(k, v). hset k v) headers h;
          h = hset ''X-API-Key'' (lcl_apiKey c) h
      in if lcl_sdkID c \<noteq> '''' then hset ''Livepeer-Open-Clearinghouse-SDK'' (lcl_sdkID c) h else h)"

definition loc_request :: "LocClient \<Rightarrow> string \<Rightarrow> string \<Rightarrow> string option \<Rightarrow> header \<Rightarrow> Request" where
  "loc_request c method path body headers =
     \<lparr>rq_Method = method, rq_URL = lcl_baseURL c @ path, rq_Header = loc_header c body headers, rq_Body = body\<rparr>"

section \<open>One exchange\<close>

text \<open>\<^verbatim>\<open>io.ReadAll(io.LimitReader(body, 4<<20))\<close>: an error past the limit is not seen.\<close>

definition read_limited :: "nat \<Rightarrow> LocResponse \<Rightarrow> err + string" where
  "read_limited n r = (if n \<le> length (lr_Body r) then Inr (take n (lr_Body r))
     else case lr_ReadErr r of Some e \<Rightarrow> Inl e | None \<Rightarrow> Inr (lr_Body r))"

definition loc_answer :: "'s transport \<Rightarrow> string \<Rightarrow> string \<Rightarrow> 'a \<Rightarrow> (string \<Rightarrow> string + 'a) \<Rightarrow> LocResponse \<Rightarrow> err + 'a" where
  "loc_answer T method path zero dec r = (case read_limited 4194304 r of
      Inl e \<Rightarrow> Inl e
    | Inr b \<Rightarrow>
        if lr_Status r < 200 \<or> lr_Status r \<ge> 300 then Inl (LocErr (parseAPIError (tp_envelope T) (lr_Status r) (lr_RetryAfter r) b))
        else if b = '''' then Inr zero
        else case dec b of
          Inl e \<Rightarrow> Inl (Msg (''loc: decode '' @ method @ '' '' @ path @ '': '' @ e @ '' (body: '' @ truncate_body b 200 @ '')''))
        | Inr v \<Rightarrow> Inr v)"

text \<open>\<open>body\<close>: none, the encoder's error, or the encoded text; \<open>zero\<close>: the value of an untouched \<^verbatim>\<open>out\<close>.\<close>

definition doJSONHeaders :: "'s transport \<Rightarrow> LocClient \<Rightarrow> 'a \<Rightarrow> (string \<Rightarrow> string + 'a) \<Rightarrow> string \<Rightarrow> string \<Rightarrow>
    (string + string) option \<Rightarrow> header \<Rightarrow> ('s, err, 'a) eff" where
  "doJSONHeaders T c zero dec method path body headers =
     (let send = (\<lambda>b. case tp_newRequest T (lcl_baseURL c @ path) of
            Some e \<Rightarrow> throw e
          | None \<Rightarrow> bindE (tp_do T (loc_request c method path b headers)) (\<lambda>r.
              case loc_answer T method path zero dec r of Inl e \<Rightarrow> throw e | Inr v \<Rightarrow> ret v))
      in case body of
           None \<Rightarrow> send None
         | Some (Inl e) \<Rightarrow> throw (Msg (''loc: marshal '' @ method @ '' '' @ path @ '': '' @ e))
         | Some (Inr b) \<Rightarrow> send (Some b))"

definition doJSON :: "'s transport \<Rightarrow> LocClient \<Rightarrow> 'a \<Rightarrow> (string \<Rightarrow> string + 'a) \<Rightarrow> string \<Rightarrow> string \<Rightarrow>
    (string + string) option \<Rightarrow> ('s, err, 'a) eff" where
  "doJSON T c zero dec method path body = doJSONHeaders T c zero dec method path body []"

section \<open>Calls\<close>

text \<open>\<open>enc\<close> and \<open>dec\<close> encode the request and decode the answer of one endpoint. An answer without a
  body leaves \<^verbatim>\<open>out\<close> zero.\<close>

definition issue_http :: "'s transport \<Rightarrow> LocClient \<Rightarrow> 'a \<Rightarrow> (string \<Rightarrow> string + 'a) \<Rightarrow> string \<Rightarrow> string \<Rightarrow> string + string \<Rightarrow> ('s, err, 'a) eff" where
  "issue_http T c zero dec path rid body = doJSONHeaders T c zero dec ''POST'' path (Some body) [(''Idempotency-Key'', rid)]"

definition zero_job :: CreateJobResponseV2 where
  "zero_job = \<lparr>job_JobID = uuid_nil, job_RequestID = '''', job_WorkID = '''', job_BrokerURL = '''', job_Protocol = '''',
     job_Transport = '''', job_WorkUnit = '''', job_SpendAuthorization = '''', job_AccountingMode = '''',
     job_ExpectedValueWei = None, job_FundedValueWei = None\<rparr>"

definition http_CreateJobV2 :: "'s transport \<Rightarrow> LocClient \<Rightarrow> (CreateJobRequestV2 \<Rightarrow> string + string) \<Rightarrow>
    (string \<Rightarrow> string + CreateJobResponseV2) \<Rightarrow> CreateJobRequestV2 \<Rightarrow> ('s, err, CreateJobResponseV2) eff" where
  "http_CreateJobV2 T c enc dec = CreateJobV2 (\<lambda>i. issue_http T c zero_job dec ''/v1/jobs'' (cj_RequestID i) (enc i))"

definition zero_preparation :: PrepareSessionResponseV2 where
  "zero_preparation = \<lparr>prep_GatewaySessionID = uuid_nil, prep_RouteBinding = JNull, prep_BrokerURL = '''',
     prep_PreparationToken = '''', prep_ExpiresAt = 0\<rparr>"

definition http_PrepareSessionV2 :: "'s transport \<Rightarrow> LocClient \<Rightarrow> (PrepareSessionRequestV2 \<Rightarrow> string + string) \<Rightarrow>
    (string \<Rightarrow> string + PrepareSessionResponseV2) \<Rightarrow> PrepareSessionRequestV2 \<Rightarrow> ('s, err, PrepareSessionResponseV2) eff" where
  "http_PrepareSessionV2 T c enc dec =
     PrepareSessionV2 (\<lambda>i. issue_http T c zero_preparation dec ''/v1/sessions/prepare'' (ps_RequestID i) (enc i))"

definition zero_session :: CreateSessionResponseV2 where
  "zero_session = \<lparr>sess_SessionID = uuid_nil, sess_RequestID = '''', sess_WorkID = '''', sess_BrokerURL = '''', sess_Protocol = '''',
     sess_DescriptorSchema = '''', sess_Refill = '''', sess_SpendAuthorization = '''', sess_AccountingMode = '''',
     sess_ExpectedValueWei = None, sess_FundedValueWei = None\<rparr>"

definition http_OpenSessionV2 :: "'s transport \<Rightarrow> LocClient \<Rightarrow> (CreateSessionRequestV2 \<Rightarrow> string + string) \<Rightarrow>
    (string \<Rightarrow> string + CreateSessionResponseV2) \<Rightarrow> CreateSessionRequestV2 \<Rightarrow> ('s, err, CreateSessionResponseV2) eff" where
  "http_OpenSessionV2 T c enc dec = LocOpenSessionV2 (\<lambda>i. issue_http T c zero_session dec ''/v1/sessions'' (cs_RequestID i) (enc i))"

definition zero_refill :: RefillSessionResponseV2 where
  "zero_refill = \<lparr>refill_WorkID = '''', refill_RequestID = '''', refill_RefillSeq = 0, refill_SpendAuthorization = '''',
     refill_AccountingMode = ''''\<rparr>"

definition http_RefillSessionV2 :: "'s transport \<Rightarrow> LocClient \<Rightarrow> (RefillSessionRequestV2 \<Rightarrow> string + string) \<Rightarrow>
    (string \<Rightarrow> string + RefillSessionResponseV2) \<Rightarrow> uuid \<Rightarrow> RefillSessionRequestV2 \<Rightarrow> ('s, err, RefillSessionResponseV2) eff" where
  "http_RefillSessionV2 T c enc dec sid =
     RefillSessionV2 (\<lambda>i. issue_http T c zero_refill dec (''/v1/sessions/'' @ sid @ ''/refill'') (rf_RequestID i) (enc i))"

text \<open>The accounting calls, retried; an answer without a body counts as success.\<close>

definition http_SettleJobV2 :: "'s transport \<Rightarrow> LocClient \<Rightarrow> (int \<Rightarrow> ('s, err, unit) eff) \<Rightarrow> (SettleJobRequestV2 \<Rightarrow> string + string) \<Rightarrow>
    (string \<Rightarrow> string + SettleJobResponse) \<Rightarrow> uuid \<Rightarrow> SettleJobRequestV2 \<Rightarrow> ('s, err, SettleJobResponse) eff" where
  "http_SettleJobV2 T c wait enc dec jid = SettleJobV2 (\<lambda>i. doJSON T c
     \<lparr>sr_JobID = uuid_nil, sr_WorkID = '''', sr_ActualUnits = 0, sr_BilledValueWei = None, sr_RefundWei = None, sr_Outcome = '''', sr_ClosedAt = 0\<rparr>
     dec ''POST'' (''/v1/jobs/'' @ jid @ ''/settle'') (Some (enc i))) wait"

definition http_CloseSessionV2 :: "'s transport \<Rightarrow> LocClient \<Rightarrow> (int \<Rightarrow> ('s, err, unit) eff) \<Rightarrow> (CloseSessionRequestV2 \<Rightarrow> string + string) \<Rightarrow>
    (string \<Rightarrow> string + CloseSessionResponse) \<Rightarrow> uuid \<Rightarrow> CloseSessionRequestV2 \<Rightarrow> ('s, err, CloseSessionResponse) eff" where
  "http_CloseSessionV2 T c wait enc dec sid = CloseSessionV2 (\<lambda>i. doJSON T c
     \<lparr>cr_SessionID = uuid_nil, cr_WorkID = '''', cr_ActualUnits = 0, cr_BilledValueWei = None, cr_ClosedAt = 0\<rparr>
     dec ''POST'' (''/v1/sessions/'' @ sid @ ''/close'') (Some (enc i))) wait"

definition http_GetJobV2 :: "'s transport \<Rightarrow> LocClient \<Rightarrow> (string \<Rightarrow> string + JobStatusResponseV2) \<Rightarrow> uuid \<Rightarrow> ('s, err, JobStatusResponseV2) eff" where
  "http_GetJobV2 T c dec jid = doJSON T c
     \<lparr>js_JobID = uuid_nil, js_State = '''', js_AccountingOutcome = '''', js_BrokerExchangeOutcome = None, js_ActualUnits = None,
      js_BilledValueWei = None, js_ClosedAt = None\<rparr> dec ''GET'' (''/v1/jobs/'' @ jid) None"

definition http_GetSession :: "'s transport \<Rightarrow> LocClient \<Rightarrow> (string \<Rightarrow> string + SessionStatusResponse) \<Rightarrow> uuid \<Rightarrow> ('s, err, SessionStatusResponse) eff" where
  "http_GetSession T c dec sid = doJSON T c
     \<lparr>ss_SessionID = uuid_nil, ss_State = '''', ss_BilledValueWei = None, ss_ActualUnits = None, ss_ClosedAt = None\<rparr>
     dec ''GET'' (''/v1/sessions/'' @ sid) None"

section \<open>Discovery\<close>

text \<open>\<^verbatim>\<open>url.QueryEscape\<close> on the bytes of a text.\<close>

definition hex_upper :: "nat \<Rightarrow> char" where
  "hex_upper n = char_of (if n < 10 then 48 + n else 55 + n)"

definition query_plain :: "char \<Rightarrow> bool" where
  "query_plain c \<longleftrightarrow> (let n = (of_char c :: nat) in
     (97 \<le> n \<and> n \<le> 122) \<or> (65 \<le> n \<and> n \<le> 90) \<or> (48 \<le> n \<and> n \<le> 57)) \<or> c \<in> set ''-_.~''"

fun QueryEscape :: "string \<Rightarrow> string" where
  "QueryEscape [] = []"
| "QueryEscape (c # s) = (if query_plain c then [c] else if c = CHR '' '' then ''+''
     else [CHR ''%'', hex_upper (of_char c div 16), hex_upper (of_char c mod 16)]) @ QueryEscape s"

definition ListCapabilities :: "'s transport \<Rightarrow> LocClient \<Rightarrow> (string \<Rightarrow> string + LocCapability list) \<Rightarrow> ('s, err, LocCapability list) eff" where
  "ListCapabilities T c dec = doJSON T c [] dec ''GET'' ''/v1/capabilities'' None"

definition ListOrchestrators :: "'s transport \<Rightarrow> LocClient \<Rightarrow> (string \<Rightarrow> string + Orchestrator list) \<Rightarrow> string \<Rightarrow> ('s, err, Orchestrator list) eff" where
  "ListOrchestrators T c dec capability = doJSON T c [] dec ''GET''
     (''/v1/orchestrators'' @ (if capability \<noteq> '''' then ''?capability='' @ QueryEscape capability else '''')) None"

definition Healthy :: "'s transport \<Rightarrow> LocClient \<Rightarrow> (string \<Rightarrow> string + LocCapability list) \<Rightarrow> ('s, err, unit) eff" where
  "Healthy T c dec = bindE (ListCapabilities T c dec) (\<lambda>_. ret ())"

section \<open>Facts\<close>

lemma hget_hset [simp]: "hget (hset k v h) k' = (if k' = k then v else hget h k')"
  by (induction h) (auto simp: hset_def hget_def)

text \<open>An answer is accepted only with a 2xx status and, when it carries anything, a body that decodes.\<close>

lemma loc_answer_InrD:
  assumes "loc_answer T method path zero dec r = Inr v"
  shows "200 \<le> lr_Status r \<and> lr_Status r < 300 \<and>
    (\<exists>b. read_limited 4194304 r = Inr b \<and> (b = '''' \<and> v = zero \<or> b \<noteq> '''' \<and> dec b = Inr v))"
  using assms unfolding loc_answer_def by (auto split: sum.splits if_splits)

lemma doJSONHeaders_InrD:
  assumes "doJSONHeaders T c zero dec method path (Some body) headers s = (Inr v, s')"
  shows "\<exists>b a. body = Inr b \<and> tp_do T (loc_request c method path (Some b) headers) s = (Inr a, s') \<and>
    loc_answer T method path zero dec a = Inr v"
  using assms unfolding doJSONHeaders_def Let_def
  by (auto simp: eng_simps split: sum.splits option.splits prod.splits)

text \<open>The call came back with \<open>v\<close>: one request went out, with the persisted key of the issuance and the
  operator's key, and a 2xx answer whose body decodes to \<open>v\<close> came back.\<close>

definition issued_over :: "'s transport \<Rightarrow> LocClient \<Rightarrow> string \<Rightarrow> string \<Rightarrow> string + string \<Rightarrow> (string \<Rightarrow> string + 'a) \<Rightarrow> 's \<Rightarrow> 'a \<Rightarrow> 's \<Rightarrow> bool" where
  "issued_over T c path rid body dec s v s' \<longleftrightarrow> (\<exists>q a b.
     tp_do T q s = (Inr a, s') \<and> body = Inr b \<and> rq_Body q = Some b \<and> rq_Method q = ''POST'' \<and> rq_URL q = lcl_baseURL c @ path \<and>
     hget (rq_Header q) ''Idempotency-Key'' = rid \<and> hget (rq_Header q) ''X-API-Key'' = lcl_apiKey c \<and>
     200 \<le> lr_Status a \<and> lr_Status a < 300 \<and>
     (\<exists>t. read_limited 4194304 a = Inr t \<and> t \<noteq> '''' \<and> dec t = Inr v))"

lemma issue_http_InrD:
  assumes "issue_http T c zero dec path rid body s = (Inr v, s')" and "v \<noteq> zero"
  shows "issued_over T c path rid body dec s v s'"
proof -
  obtain b a where b: "body = Inr b" "loc_answer T ''POST'' path zero dec a = Inr v"
      "tp_do T (loc_request c ''POST'' path (Some b) [(''Idempotency-Key'', rid)]) s = (Inr a, s')"
    using doJSONHeaders_InrD assms(1) unfolding issue_http_def by metis
  let ?q = "loc_request c ''POST'' path (Some b) [(''Idempotency-Key'', rid)]"
  have "hget (rq_Header ?q) ''Idempotency-Key'' = rid" "hget (rq_Header ?q) ''X-API-Key'' = lcl_apiKey c"
    by (simp_all add: loc_request_def loc_header_def Let_def)
  moreover have "rq_Body ?q = Some b" "rq_Method ?q = ''POST''" "rq_URL ?q = lcl_baseURL c @ path"
    by (simp_all add: loc_request_def)
  ultimately show ?thesis
    unfolding issued_over_def using b loc_answer_InrD [OF b(2)] assms(2) by blast
qed

lemma checked_issue_InrD:
  assumes "bindE (issueV2 rid (issue_http T c zero dec path rid body)) (\<lambda>r. if ok r then ret r else throw e) s = (Inr v, s')"
    and "\<not> ok zero"
  shows "rid \<noteq> '''' \<and> ok v \<and> issued_over T c path rid body dec s v s'"
proof -
  have "rid \<noteq> ''''" using assms(1) by (auto simp: issueV2_def eng_simps)
  then have "issue_http T c zero dec path rid body s = (Inr v, s') \<and> ok v"
    using assms(1) by (auto simp: issueV2_def eng_simps split: prod.splits sum.splits if_splits)
  with \<open>rid \<noteq> ''''\<close> issue_http_InrD assms(2) show ?thesis by metis
qed

text \<open>C30: LOC's authorizations are what LOC said. When the client returns a job authorization, a prepared
  session, a session authorization or a revision, then the operation had an idempotency key; exactly one POST
  went to that endpoint, with the encoded request, this key and the operator's API key; the answer was 2xx (a
  redirect or an empty body is not accepted) and decodes to what is returned, which passed the acceptance checks.\<close>

theorem issuance_over_http:
  "(http_CreateJobV2 T c encj decj j s = (Inr rj, s') \<longrightarrow> cj_RequestID j \<noteq> '''' \<and> job_response_ok j rj \<and>
      issued_over T c ''/v1/jobs'' (cj_RequestID j) (encj j) decj s rj s') \<and>
   (http_PrepareSessionV2 T c encp decp p s = (Inr rp, s') \<longrightarrow> ps_RequestID p \<noteq> '''' \<and> prepare_response_ok rp \<and>
      issued_over T c ''/v1/sessions/prepare'' (ps_RequestID p) (encp p) decp s rp s') \<and>
   (http_OpenSessionV2 T c enco deco i s = (Inr ro, s') \<longrightarrow> cs_RequestID i \<noteq> '''' \<and> session_response_ok i ro \<and>
      issued_over T c ''/v1/sessions'' (cs_RequestID i) (enco i) deco s ro s') \<and>
   (http_RefillSessionV2 T c encr decr sid f s = (Inr rr, s') \<longrightarrow> rf_RequestID f \<noteq> '''' \<and> refill_response_ok rr \<and>
      issued_over T c (''/v1/sessions/'' @ sid @ ''/refill'') (rf_RequestID f) (encr f) decr s rr s')"
proof (intro conjI impI)
  note check = checked_issue_InrD [where zero = zero_job and ok = "job_response_ok j"]
    checked_issue_InrD [where zero = zero_preparation and ok = prepare_response_ok]
    checked_issue_InrD [where zero = zero_session and ok = "session_response_ok i"]
    checked_issue_InrD [where zero = zero_refill and ok = refill_response_ok]
  have zeros: "\<not> job_response_ok j zero_job" "\<not> prepare_response_ok zero_preparation" "\<not> session_response_ok i zero_session"
      "\<not> refill_response_ok zero_refill"
    by (simp_all add: job_response_ok_def zero_job_def prepare_response_ok_def zero_preparation_def session_response_ok_def
        zero_session_def refill_response_ok_def zero_refill_def)
  { assume "http_CreateJobV2 T c encj decj j s = (Inr rj, s')"
    note check(1) [OF this [unfolded http_CreateJobV2_def CreateJobV2_def] zeros(1)]
    then show "cj_RequestID j \<noteq> ''''" "job_response_ok j rj" "issued_over T c ''/v1/jobs'' (cj_RequestID j) (encj j) decj s rj s'" by blast+ }
  { assume "http_PrepareSessionV2 T c encp decp p s = (Inr rp, s')"
    note check(2) [OF this [unfolded http_PrepareSessionV2_def PrepareSessionV2_def] zeros(2)]
    then show "ps_RequestID p \<noteq> ''''" "prepare_response_ok rp"
      "issued_over T c ''/v1/sessions/prepare'' (ps_RequestID p) (encp p) decp s rp s'" by blast+ }
  { assume "http_OpenSessionV2 T c enco deco i s = (Inr ro, s')"
    note check(3) [OF this [unfolded http_OpenSessionV2_def LocOpenSessionV2_def] zeros(3)]
    then show "cs_RequestID i \<noteq> ''''" "session_response_ok i ro"
      "issued_over T c ''/v1/sessions'' (cs_RequestID i) (enco i) deco s ro s'" by blast+ }
  { assume "http_RefillSessionV2 T c encr decr sid f s = (Inr rr, s')"
    note check(4) [OF this [unfolded http_RefillSessionV2_def RefillSessionV2_def] zeros(4)]
    then show "rf_RequestID f \<noteq> ''''" "refill_response_ok rr"
      "issued_over T c (''/v1/sessions/'' @ sid @ ''/refill'') (rf_RequestID f) (encr f) decr s rr s'" by blast+ }
qed

text \<open>A network that answers every request with 200 and one text, and records what was asked.\<close>

definition echo_transport :: "string \<Rightarrow> Request list transport" where
  "echo_transport b = \<lparr>tp_newRequest = \<lambda>_. None,
     tp_do = \<lambda>q qs. (Inr \<lparr>lr_Status = 200, lr_RetryAfter = '''', lr_Body = b, lr_ReadErr = None\<rparr>, qs @ [q]),
     tp_envelope = \<lambda>_. None\<rparr>"

definition sample_client :: LocClient where
  "sample_client = \<lparr>lcl_baseURL = ''https://loc'', lcl_apiKey = ''pymth'', lcl_sdkID = '''', lcl_timeout = 1\<rparr>"

definition sample_refill :: RefillSessionRequestV2 where
  "sample_refill = \<lparr>rf_RequestID = ''rid'', rf_ObservedConsumedUnits = None, rf_MaxTotalUnits = 9, rf_WorkloadRequestDigest = ''d''\<rparr>"

definition sample_revision :: RefillSessionResponseV2 where
  "sample_revision = \<lparr>refill_WorkID = ''w'', refill_RequestID = ''q'', refill_RefillSeq = 1, refill_SpendAuthorization = ''auth'',
     refill_AccountingMode = ''wholesale_account''\<rparr>"

lemma sample_exchange_runs: "\<exists>s'. http_RefillSessionV2 (echo_transport ''r'') sample_client (\<lambda>_. Inr ''q'') (\<lambda>_. Inr sample_revision) ''sid'' sample_refill []
    = (Inr sample_revision, s')"
  by (simp add: http_RefillSessionV2_def RefillSessionV2_def issueV2_def issue_http_def doJSONHeaders_def loc_answer_def read_limited_def
      echo_transport_def sample_refill_def sample_revision_def refill_response_ok_def eng_simps)

theorem issuance_over_http_witness:
  "\<exists>s'. issued_over (echo_transport ''r'') sample_client (''/v1/sessions/'' @ ''sid'' @ ''/refill'') ''rid'' (Inr ''q'') (\<lambda>_. Inr sample_revision) []
     sample_revision s'"
proof -
  obtain s' where "http_RefillSessionV2 (echo_transport ''r'') sample_client (\<lambda>_. Inr ''q'') (\<lambda>_. Inr sample_revision) ''sid'' sample_refill []
      = (Inr sample_revision, s')" using sample_exchange_runs by blast
  note issuance_over_http [THEN conjunct2, THEN conjunct2, THEN conjunct2, THEN mp, OF this]
  then show ?thesis by (intro exI [of _ s']) (simp add: sample_refill_def)
qed

section \<open>Texts\<close>

text \<open>The escaped capability cannot end its parameter or add another one.\<close>

lemma hex_upper_plain: "n < 16 \<Longrightarrow> query_plain (hex_upper n)"
  by (auto simp: query_plain_def hex_upper_def of_char_of Let_def)

lemma QueryEscape_plain: "x \<in> set (QueryEscape s) \<Longrightarrow> query_plain x \<or> x \<in> {CHR ''+'', CHR ''%''}"
proof (induction s)
  case (Cons c s)
  have "(of_char c :: nat) div 16 < 16" using nat_of_char_less_256 [of c] by (intro less_mult_imp_div_less) simp
  then have "query_plain (hex_upper (of_char c div 16))" "query_plain (hex_upper (of_char c mod 16))"
    by (intro hex_upper_plain; simp)+
  with Cons show ?case by (auto split: if_splits)
qed simp

lemma QueryEscape_confined: "set (QueryEscape s) \<inter> set ''&=#;/? '' = {}"
proof -
  have "list_all (\<lambda>x. \<not> query_plain x \<and> x \<noteq> CHR ''+'' \<and> x \<noteq> CHR ''%'') ''&=#;/? ''" by code_simp
  then show ?thesis using QueryEscape_plain unfolding list_all_iff by fast
qed

text \<open>An amount printed as a number or quoted, as the catalog does, is read back whatever the receiver held.\<close>

lemma nat_text_digit: "x \<in> set (nat_text n) \<Longrightarrow> digit_val x \<noteq> None"
proof (induction n rule: nat_text.induct)
  case (1 n)
  then show ?case
    by (subst (asm) nat_text.simps) (auto split: if_splits)
qed

lemma int_text_chars: "x \<in> set (int_text n) \<Longrightarrow> \<not> is_space x \<and> x \<noteq> CHR 0x22 \<and> x \<noteq> CHR ''n''"
  by (auto simp: int_text_def is_space_def digit_val_def split: if_splits dest!: nat_text_digit)

lemma dropWhile_none: "(\<And>x. x \<in> set s \<Longrightarrow> \<not> p x) \<Longrightarrow> dropWhile p s = s"
  by (cases s) auto

lemma int_text_trim: "TrimSpace (int_text n) = int_text n" "TrimQuotes (int_text n) = int_text n"
proof -
  have "dropWhile is_space (rev (int_text n)) = rev (int_text n)" "dropWhile is_space (int_text n) = int_text n"
      "dropWhile (\<lambda>c. c = CHR 0x22) (rev (int_text n)) = rev (int_text n)" "dropWhile (\<lambda>c. c = CHR 0x22) (int_text n) = int_text n"
    by (auto intro!: dropWhile_none dest: int_text_chars)
  then show "TrimSpace (int_text n) = int_text n" "TrimQuotes (int_text n) = int_text n"
    by (simp_all add: TrimSpace_def TrimQuotes_def)
qed

lemma int_text_not_null: "int_text n \<noteq> ''null''"
  using int_text_chars [of "CHR ''n''" n] by auto

lemma int_text_quoted: "TrimQuotes (TrimSpace (CHR 0x22 # int_text n @ [CHR 0x22])) = int_text n"
proof -
  have "TrimSpace (CHR 0x22 # int_text n @ [CHR 0x22]) = CHR 0x22 # int_text n @ [CHR 0x22]"
    by (simp add: TrimSpace_def is_space_def)
  moreover have "dropWhile (\<lambda>c. c = CHR 0x22) (int_text n @ [CHR 0x22]) = int_text n @ [CHR 0x22]"
  proof (cases "int_text n")
    case (Cons a u)
    with int_text_chars [of a n] show ?thesis by simp
  qed simp
  moreover have "dropWhile (\<lambda>c. c = CHR 0x22) (rev (int_text n)) = rev (int_text n)"
    using int_text_chars by (intro dropWhile_none) auto
  ultimately show ?thesis by (simp add: TrimQuotes_def)
qed

text \<open>Wei amounts survive JSON. An amount of any size is read back exactly from the text the gateway
  writes and from the quoted decimal of the catalog, whatever the receiver held before; null and an empty
  text leave the receiver.\<close>

theorem Wei_json_roundtrip:
  "Wei_UnmarshalJSON (Wei_MarshalJSON (Some n)) w = Inr n \<and>
   Wei_UnmarshalJSON (CHR 0x22 # Wei_MarshalJSON (Some n) @ [CHR 0x22]) w = Inr n \<and>
   Wei_UnmarshalJSON (Wei_MarshalJSON None) w = Inr w"
  by (simp add: Wei_UnmarshalJSON_def Wei_MarshalJSON_def int_text_trim int_text_quoted int_text_not_null SetString10_int_text)
    (simp add: TrimSpace_def TrimQuotes_def is_space_def)

end
