(* ===== verification/Server_Front.thy ===== *)
theory Server_Front
  imports Account_Safety LOC_Transport Object_Store
begin

text \<open>
  The handler of the HTTP server: \<^verbatim>\<open>New\<close> of \<^verbatim>\<open>server/server.go\<close> with its middleware in order, the routes,
  and the embedded front ends of \<^verbatim>\<open>server/embed.go\<close>. The router and huma are third-party code: which
  registered pattern they select is the parameter \<open>mux\<close>, of which \<open>mux_ok\<close> states that a pattern
  selected under \<^verbatim>\<open>/api/\<close> is one of the gateway's and that the request's path, as sent or decoded,
  begins with the pattern's literal part; huma adds its own pages (\<^verbatim>\<open>/docs\<close>, \<^verbatim>\<open>/openapi.json\<close>) outside it. What a route's handler does is modelled in the theories of the routes.
\<close>

section \<open>Request targets\<close>

text \<open>\<^verbatim>\<open>url.setPath\<close> of the standard library: the path is decoded, and the text that was sent is kept when it
  is not the usual encoding of the decoded path.\<close>

fun PathUnescape :: "string \<Rightarrow> string option" where
  "PathUnescape [] = Some []"
| "PathUnescape (c # cs) = (if c \<noteq> CHR ''%'' then map_option ((#) c) (PathUnescape cs)
     else (case cs of
       a # b # ds \<Rightarrow> (case (hex_val a, hex_val b) of
           (Some m, Some n) \<Rightarrow> map_option ((#) (char_of (16 * m + n))) (PathUnescape ds)
         | _ \<Rightarrow> None)
     | _ \<Rightarrow> None))"

fun PathEscape :: "string \<Rightarrow> string" where
  "PathEscape [] = []"
| "PathEscape (c # s) = (if query_plain c \<or> c \<in> set ''$&+,/:;=@'' then [c]
     else [CHR ''%'', hex_upper (of_char c div 16), hex_upper (of_char c mod 16)]) @ PathEscape s"

record target =
  tg_Path :: string
  tg_RawPath :: string

definition setPath :: "string \<Rightarrow> target option" where
  "setPath p = (case PathUnescape p of
      None \<Rightarrow> None
    | Some path \<Rightarrow> Some \<lparr>tg_Path = path, tg_RawPath = (if p = PathEscape path then '''' else p)\<rparr>)"

section \<open>Embedded front ends\<close>

text \<open>The embedded file system: path and content of each file. A directory exists when it holds a file.\<close>

type_synonym files = "(string \<times> string) list"

datatype fs_entry = File string | Directory

definition ValidPath :: "string \<Rightarrow> bool" where
  "ValidPath p \<longleftrightarrow> p = ''.'' \<or> list_all (\<lambda>e. e \<noteq> '''' \<and> e \<noteq> ''.'' \<and> e \<noteq> ''..'') (split_slash p)"

definition fs_sub :: "string \<Rightarrow> files \<Rightarrow> files" where
  "fs_sub dir fs = map (\<lambda>(p, c). (drop (length dir + 1) p, c)) (filter (\<lambda>(p, c). HasPrefix p (dir @ ''/'')) fs)"

definition fs_open :: "files \<Rightarrow> string \<Rightarrow> fs_entry option" where
  "fs_open fs p = (if \<not> ValidPath p then None
     else case map_of fs p of
       Some c \<Rightarrow> Some (File c)
     | None \<Rightarrow> if p = ''.'' \<or> list_ex (\<lambda>(q, c). HasPrefix q (p @ ''/'')) fs then Some Directory else None)"

text \<open>What a request is answered with.\<close>

datatype answer = Preflight | Refused weberr | Handled string reqctx | MetricsText | MetricsRefused |
  RedirectTo string | Page string | FileContent string | Missing | WrongMethod

definition serveSPAIndex :: "files \<Rightarrow> answer" where
  "serveSPAIndex sub = (case map_of sub ''index.html'' of None \<Rightarrow> Missing | Some c \<Rightarrow> Page c)"

text \<open>The standard library's file server at a path that names a file.\<close>

definition file_server :: "string \<Rightarrow> string \<Rightarrow> answer" where
  "file_server p c = (if HasSuffix (''/'' @ p) ''/index.html'' then RedirectTo ''./'' else FileContent c)"

definition spaHandler :: "files \<Rightarrow> string \<Rightarrow> string \<Rightarrow> answer" where
  "spaHandler fs subdir path =
     (let sub = fs_sub (''webroot/'' @ subdir) fs; p = TrimPrefix path ''/'' in
      if map_of sub ''index.html'' = None then Missing
      else if p = '''' then serveSPAIndex sub
      else (case fs_open sub p of
          None \<Rightarrow> serveSPAIndex sub
        | Some Directory \<Rightarrow> serveSPAIndex sub
        | Some (File c) \<Rightarrow> file_server p c))"

text \<open>\<^verbatim>\<open>http.StripPrefix\<close>: both texts of the path lose the prefix, or there is no page.\<close>

definition strip_prefix :: "string \<Rightarrow> (string \<Rightarrow> answer) \<Rightarrow> target \<Rightarrow> answer" where
  "strip_prefix pre h t =
     (if HasPrefix (tg_Path t) pre \<and> (tg_RawPath t = '''' \<or> HasPrefix (tg_RawPath t) pre)
      then h (TrimPrefix (tg_Path t) pre) else Missing)"

section \<open>Routes\<close>

definition public_routes :: "(string \<times> string) list" where
  "public_routes = [(''POST'', ''/api/public/waitlist''), (''GET'', ''/api/public/verify'')]"

definition portal_routes :: "(string \<times> string) list" where
  "portal_routes = [(''POST'', ''/api/portal/login''), (''POST'', ''/api/portal/logout''), (''GET'', ''/api/portal/account''),
     (''GET'', ''/api/portal/api-keys''), (''POST'', ''/api/portal/api-keys''), (''DELETE'', ''/api/portal/api-keys/{id}''),
     (''GET'', ''/api/portal/usage''), (''GET'', ''/api/portal/live-streams''), (''GET'', ''/api/portal/abr-jobs''),
     (''DELETE'', ''/api/portal/live-streams/{id}''), (''GET'', ''/api/portal/live-streams/{id}'')]"

definition admin_routes :: "(string \<times> string) list" where
  "admin_routes = [(''GET'', ''/api/admin/waitlist''), (''POST'', ''/api/admin/waitlist/{id}/approve''),
     (''POST'', ''/api/admin/waitlist/{id}/reject''), (''POST'', ''/api/admin/waitlist/{id}/resend-verification''),
     (''GET'', ''/api/admin/capabilities''), (''GET'', ''/api/admin/users''), (''GET'', ''/api/admin/users/{id}''),
     (''GET'', ''/api/admin/usage''), (''GET'', ''/api/admin/usage-by-capability''), (''GET'', ''/api/admin/live-streams''),
     (''GET'', ''/api/admin/abr-jobs''), (''GET'', ''/api/admin/registry/summary''), (''GET'', ''/api/admin/registry/candidates'')]"

definition v1_routes :: "(string \<times> string) list" where
  "v1_routes = [(''GET'', ''/api/v1/capabilities''), (''POST'', ''/api/v1/abr/upload-url''), (''POST'', ''/api/v1/abr''),
     (''GET'', ''/api/v1/abr/{id}''), (''DELETE'', ''/api/v1/abr/objects''), (''POST'', ''/api/v1/live''),
     (''GET'', ''/api/v1/live/{id}''), (''DELETE'', ''/api/v1/live/{id}'')]"

text \<open>\<^verbatim>\<open>mountSPAs\<close> and the metrics; the method of \<^verbatim>\<open>Handle\<close> is any.\<close>

definition spa_routes :: "(string \<times> string) list" where
  "spa_routes = [(''GET'', ''/portal''), (''GET'', ''/admin''), (''*'', ''/portal/*''), (''*'', ''/admin/*'')]"

definition routes :: "(string \<times> string) list" where
  "routes = [(''GET'', ''/metrics''), (''GET'', ''/health'')] @ public_routes @ portal_routes @ admin_routes @ v1_routes @ spa_routes"

datatype matched = Route string | NoRoute | NoMethod

type_synonym mux = "string \<Rightarrow> target \<Rightarrow> matched"

definition literal_part :: "string \<Rightarrow> string" where
  "literal_part = takeWhile (\<lambda>c. c \<noteq> CHR ''{'' \<and> c \<noteq> CHR ''*'')"

definition mux_ok :: "mux \<Rightarrow> bool" where
  "mux_ok mux \<longleftrightarrow> (\<forall>m t pat. mux m t = Route pat \<longrightarrow> CHR ''%'' \<notin> set (literal_part pat) \<and>
     (HasPrefix (literal_part pat) ''/api/'' \<longrightarrow> (m, pat) \<in> set routes) \<and>
     (HasPrefix (tg_Path t) (literal_part pat) \<or> HasPrefix (tg_RawPath t) (literal_part pat)))"

definition no_route :: "files \<Rightarrow> target \<Rightarrow> answer" where
  "no_route fs t = (if HasPrefix (tg_Path t) ''/api/'' then Missing else spaHandler fs ''site'' (tg_Path t))"

definition dispatch :: "WebConfig \<Rightarrow> files \<Rightarrow> matched \<Rightarrow> request \<Rightarrow> target \<Rightarrow> reqctx \<Rightarrow> answer" where
  "dispatch c fs route r t cx = (case route of
      NoMethod \<Rightarrow> WrongMethod
    | NoRoute \<Rightarrow> no_route fs t
    | Route pat \<Rightarrow>
        if pat = ''/metrics'' then (if metrics_allowed c r then MetricsText else MetricsRefused)
        else if pat = ''/portal'' then RedirectTo ''/portal/''
        else if pat = ''/admin'' then RedirectTo ''/admin/''
        else if pat = ''/portal/*'' then strip_prefix ''/portal'' (spaHandler fs ''portal'') t
        else if pat = ''/admin/*'' then strip_prefix ''/admin'' (spaHandler fs ''admin'') t
        else Handled pat cx)"

section \<open>The server\<close>

record response =
  rp_RequestID :: string
  rp_CORS :: "(string \<times> string) list"
  rp_Answer :: answer

text \<open>The middlewares in the order of \<^verbatim>\<open>New\<close>: the request id is set first, a preflight ends at CORS, and
  nothing is routed before authentication by the decoded path.\<close>

definition front :: "wenv \<Rightarrow> files \<Rightarrow> mux \<Rightarrow> string \<Rightarrow> request \<Rightarrow> target \<Rightarrow> webstate \<Rightarrow> response \<times> webstate" where
  "front E fs mux fresh r t x =
     (let r = r\<lparr>rq_Path := tg_Path t\<rparr>; cors = CORS (AllowedOrigins (wCfg E)) r;
          resp = (\<lambda>a. \<lparr>rp_RequestID = RequestID fresh r, rp_CORS = fst cors, rp_Answer = a\<rparr>)
      in if snd cors then (resp Preflight, x)
         else (case pathAwareAuth E r x of
             (Inl e, y) \<Rightarrow> (resp (Refused e), y)
           | (Inr cx, y) \<Rightarrow> (resp (dispatch (wCfg E) fs (mux (request.rq_Method r) t) r t cx), y)))"

text \<open>The access log: the status is the last the handlers wrote, 200 when they wrote none.\<close>

record log_line =
  lg_ReqID :: string
  lg_Method :: string
  lg_Path :: string
  lg_Status :: nat
  lg_DurMS :: int

definition statusWriter :: "nat list \<Rightarrow> nat" where
  "statusWriter written = fold (\<lambda>s _. s) written 200"

definition AccessLog :: "string \<Rightarrow> request \<Rightarrow> nat list \<Rightarrow> time \<Rightarrow> time \<Rightarrow> log_line" where
  "AccessLog fresh r written start now = \<lparr>lg_ReqID = RequestID fresh r, lg_Method = request.rq_Method r, lg_Path = rq_Path r,
     lg_Status = statusWriter written, lg_DurMS = (now - start) sdiv 1000000\<rparr>"

section \<open>Facts\<close>

lemma PathUnescape_plain: "CHR ''%'' \<notin> set a \<Longrightarrow> PathUnescape (a @ b) = map_option ((@) a) (PathUnescape b)"
  by (cases "PathUnescape b"; induction a) auto

text \<open>Authentication looks at the decoded path, the router at the path as sent: a literal beginning of
  either is one of the decoded path.\<close>

lemma decoded_prefix:
  assumes "setPath sent = Some t" and "CHR ''%'' \<notin> set l" and "HasPrefix (tg_Path t) l \<or> HasPrefix (tg_RawPath t) l"
  shows "HasPrefix (tg_Path t) l"
  using assms by (auto simp: setPath_def HasPrefix_def prefix_def PathUnescape_plain split: option.splits if_splits)

lemma mux_path:
  assumes "mux_ok mux" and "setPath sent = Some t" and "mux m t = Route pat"
  shows "HasPrefix (tg_Path t) (literal_part pat)"
  using decoded_prefix [OF assms(2)] assms(1,3) unfolding mux_ok_def by blast

lemma literal_part_prefix: "HasPrefix pat l \<Longrightarrow> CHR ''{'' \<notin> set l \<Longrightarrow> CHR ''*'' \<notin> set l \<Longrightarrow> HasPrefix (literal_part pat) l"
  by (auto simp: HasPrefix_def prefix_def literal_part_def takeWhile_append2 intro!: takeWhile_append2)

lemma routes_beside_login:
  "list_all (\<lambda>(m, p). HasPrefix p ''/api/portal/'' \<and> p \<notin> {''/api/portal/login'', ''/api/portal/logout''} \<longrightarrow>
     \<not> HasPrefix ''/api/portal/login'' (literal_part p) \<and> \<not> HasPrefix ''/api/portal/logout'' (literal_part p)) routes"
  by code_simp


lemma front_cases:
  assumes "front E fs mux fresh r t x = (resp, y)"
  obtains "rp_Answer resp = Preflight"
  | e where "rp_Answer resp = Refused e"
  | cx where "pathAwareAuth E (r\<lparr>rq_Path := tg_Path t\<rparr>) x = (Inr cx, y)"
      and "rp_Answer resp = dispatch (wCfg E) fs (mux (request.rq_Method r) t) (r\<lparr>rq_Path := tg_Path t\<rparr>) t cx"
  using assms that by (auto simp: front_def Let_def split: if_splits prod.splits sum.splits)

lemma dispatch_Handled:
  "dispatch c fs route r t cx = Handled pat cx' \<Longrightarrow> route = Route pat \<and> cx' = cx"
  by (auto simp: dispatch_def no_route_def spaHandler_def serveSPAIndex_def file_server_def strip_prefix_def Let_def
      split: matched.splits if_splits option.splits fs_entry.splits)

definition customer_context :: "wenv \<Rightarrow> request \<Rightarrow> reqctx \<Rightarrow> bool" where
  "customer_context E r cx \<longleftrightarrow> (\<exists>k w. cx = \<lparr>cx_APIKey = Some k, cx_Waitlist = Some w, cx_Session = None\<rparr> \<and>
     ExtractBearer r \<noteq> '''' \<and> ak_KeyHash k = HashWithPepper E (ExtractBearer r) (APIKeyHashPepper (wCfg E)) \<and>
     ak_RevokedAt k = None \<and> wl_ID w = ak_WaitlistID k \<and> wl_Status w = WaitlistApproved)"

definition session_context :: "wenv \<Rightarrow> request \<Rightarrow> reqctx \<Rightarrow> bool" where
  "session_context E r cx \<longleftrightarrow> (\<exists>c s k w. cx = \<lparr>cx_APIKey = Some k, cx_Waitlist = Some w, cx_Session = Some s\<rparr> \<and>
     rq_SessionCookie r = Some c \<and> us_SessionHash s = HashWithPepper E c (IPHashPepper (wCfg E)) \<and>
     us_RevokedAt s = None \<and> us_APIKeyID s = ak_ID k \<and> ak_RevokedAt k = None \<and>
     ak_WaitlistID k = wl_ID w \<and> wl_Status w = WaitlistApproved)"

text \<open>C31: no handler of the API runs without the gate of its path. Whatever the request's path looks like as
  sent, percent-encoded or not, when the router selects a route of the customer API the handler's
  context carries an unrevoked key whose hash is that of the presented token, with its approved account;
  for a route of the portal other than login and logout an unrevoked session of the presented
  cookie with its unrevoked key and approved account; and for an administrator's route the request
  carries the configured token.\<close>

theorem gated_handlers:
  assumes "web_reachable x" and "mux_ok mux" and "setPath sent = Some t"
    and "front E fs mux fresh r t x = (resp, y)" and "rp_Answer resp = Handled pat cx"
  shows "(HasPrefix pat ''/api/v1/'' \<longrightarrow> customer_context E r cx) \<and>
    (HasPrefix pat ''/api/portal/'' \<and> pat \<notin> {''/api/portal/login'', ''/api/portal/logout''} \<longrightarrow> session_context E r cx) \<and>
    (HasPrefix pat ''/api/admin/'' \<longrightarrow> AdminToken (wCfg E) \<noteq> '''' \<and> request.rq_AdminToken r = AdminToken (wCfg E))"
proof (intro conjI impI)
  let ?r = "r\<lparr>rq_Path := tg_Path t\<rparr>"
  obtain cx' where auth: "pathAwareAuth E ?r x = (Inr cx', y)"
      and "dispatch (wCfg E) fs (mux (request.rq_Method r) t) ?r t cx' = Handled pat cx"
    using assms(5) by (rule_tac front_cases [OF assms(4)]) auto
  then have route: "mux (request.rq_Method r) t = Route pat" and cx: "cx' = cx" using dispatch_Handled by blast+
  have path: "HasPrefix (rq_Path ?r) (literal_part pat)" using mux_path [OF assms(2,3) route] by simp
  have lit: "HasPrefix (rq_Path ?r) l" if "HasPrefix pat l" "CHR ''{'' \<notin> set l" "CHR ''*'' \<notin> set l" for l
    using path literal_part_prefix [OF that] by (auto simp: HasPrefix_def)
  show "customer_context E r cx" if "HasPrefix pat ''/api/v1/''"
    using v1_requires_approved_key [OF lit [OF that] auth] by (simp add: cx customer_context_def ExtractBearer_def)
  { assume a: "HasPrefix pat ''/api/admin/''"
    have p: "HasPrefix (rq_Path ?r) ''/api/admin/''" using lit [OF a] by simp
    then have "\<not> HasPrefix (rq_Path ?r) ''/api/v1/''" "\<not> HasPrefix (rq_Path ?r) ''/api/portal/''"
        "rq_Path ?r \<noteq> ''/api/portal/login''" "rq_Path ?r \<noteq> ''/api/portal/logout''"
      by (auto simp: HasPrefix_def prefix_def)
    with p auth have "RequireAdmin E ?r x = (Inr cx', y)" by (simp add: pathAwareAuth_def Let_def)
    then show "AdminToken (wCfg E) \<noteq> ''''" "request.rq_AdminToken r = AdminToken (wCfg E)"
      by (auto simp: RequireAdmin_def ConstantTimeEqual_def throw_def ret_def split: if_splits) }
  assume that: "HasPrefix pat ''/api/portal/'' \<and> pat \<notin> {''/api/portal/login'', ''/api/portal/logout''}"
  then have p: "HasPrefix (rq_Path ?r) ''/api/portal/''" "HasPrefix (literal_part pat) ''/api/portal/''"
    using lit [of "''/api/portal/''"] literal_part_prefix [of pat "''/api/portal/''"] by simp_all
  then have "\<not> HasPrefix (rq_Path ?r) ''/api/v1/''" "HasPrefix (literal_part pat) ''/api/''"
    by (auto simp: HasPrefix_def prefix_def)
  moreover from this(2) have "(request.rq_Method r, pat) \<in> set routes" using assms(2) route unfolding mux_ok_def by blast
  with routes_beside_login that path have "rq_Path ?r \<noteq> ''/api/portal/login''" "rq_Path ?r \<noteq> ''/api/portal/logout''"
    unfolding list_all_iff by fastforce+
  ultimately have "RequirePortalSession E ?r x = (Inr cx', y)" using p(1) auth by (simp add: pathAwareAuth_def Let_def)
  from portal_session_approved [OF assms(1) this] show "session_context E r cx" by (auto simp: cx session_context_def)
qed

section \<open>Pages\<close>

text \<open>The text of a page or a file of the front end \<open>dir\<close>.\<close>

definition shipped :: "files \<Rightarrow> string \<Rightarrow> string \<Rightarrow> bool" where
  "shipped fs dir s \<longleftrightarrow> (\<exists>p. (''webroot/'' @ dir @ ''/'' @ p, s) \<in> set fs)"

lemma fs_sub_shipped: "map_of (fs_sub (''webroot/'' @ dir) fs) p = Some s \<Longrightarrow> shipped fs dir s"
  by (fastforce simp: shipped_def fs_sub_def HasPrefix_def prefix_def dest!: map_of_SomeD)

lemma spaHandler_shipped:
  assumes "spaHandler fs dir path = a"
  shows "(a \<in> {Page s, FileContent s} \<longrightarrow> shipped fs dir s) \<and> (\<forall>u. a = RedirectTo u \<longrightarrow> u = ''./'') \<and>
    (\<exists>u. a \<in> {Page u, FileContent u, RedirectTo u, Missing})"
  using assms fs_sub_shipped [of dir fs]
  by (auto simp: spaHandler_def serveSPAIndex_def file_server_def fs_open_def Let_def split: if_splits option.splits fs_entry.splits)

text \<open>Pages come from the front end of their path and never answer the API. When a request is
  answered with a page or a file, its decoded path is not under \<^verbatim>\<open>/api/\<close> and the text is that of an
  embedded file of the site, or of the portal or the administrators' front end, in which case the path
  begins with \<^verbatim>\<open>/portal\<close> or \<^verbatim>\<open>/admin\<close>; no way of writing the path leads out of these directories.\<close>

theorem pages_confined:
  assumes "mux_ok mux" and "setPath sent = Some t" and "front E fs mux fresh r t x = (resp, y)"
    and "rp_Answer resp \<in> {Page s, FileContent s}"
  shows "\<not> HasPrefix (tg_Path t) ''/api/'' \<and> (shipped fs ''site'' s \<or>
    HasPrefix (tg_Path t) ''/portal'' \<and> shipped fs ''portal'' s \<or> HasPrefix (tg_Path t) ''/admin'' \<and> shipped fs ''admin'' s)"
proof -
  let ?a = "mux (request.rq_Method r) t"
  obtain cx where a: "dispatch (wCfg E) fs ?a (r\<lparr>rq_Path := tg_Path t\<rparr>) t cx \<in> {Page s, FileContent s}"
    using assms(4) by (rule_tac front_cases [OF assms(3)]) auto
  show ?thesis
  proof (cases ?a)
    case NoRoute
    with a show ?thesis using spaHandler_shipped [of fs "''site''"]
      by (auto simp: dispatch_def no_route_def split: if_splits)
  next
    case (Route pat)
    with a have "pat = ''/portal/*'' \<and> shipped fs ''portal'' s \<or> pat = ''/admin/*'' \<and> shipped fs ''admin'' s"
      using spaHandler_shipped [of fs "''portal''"] spaHandler_shipped [of fs "''admin''"]
      by (auto simp: dispatch_def strip_prefix_def split: if_splits)
    moreover have "HasPrefix (tg_Path t) (literal_part pat)" using mux_path [OF assms(1,2) Route] .
    ultimately show ?thesis by (auto simp: literal_part_def HasPrefix_def prefix_def)
  qed (use a in \<open>simp add: dispatch_def\<close>)
qed

section \<open>A concrete server\<close>

text \<open>A router of the patterns without parameters.\<close>

definition exact_mux :: mux where
  "exact_mux m t = (if (m, tg_Path t) \<in> set routes \<and> literal_part (tg_Path t) = tg_Path t then Route (tg_Path t) else NoRoute)"

lemma exact_mux_ok: "mux_ok exact_mux"
proof -
  have "list_all (\<lambda>(m, p). CHR ''%'' \<notin> set p) routes" by code_simp
  then show ?thesis by (auto simp: mux_ok_def exact_mux_def HasPrefix_def list_all_iff split: if_splits)
qed

lemma sample_target: "setPath ''/api/portal/api-keys'' = Some \<lparr>tg_Path = ''/api/portal/api-keys'', tg_RawPath = ''''\<rparr>"
    "setPath ''/%61bout'' = Some \<lparr>tg_Path = ''/about'', tg_RawPath = ''/%61bout''\<rparr>"
  by code_simp+

theorem gated_handlers_witness:
  "\<exists>cx. rp_Answer (fst (front (sample_wenv ''r'') [] exact_mux ''id'' sample_request
       \<lparr>tg_Path = ''/api/portal/api-keys'', tg_RawPath = ''''\<rparr> logged_in)) = Handled ''/api/portal/api-keys'' cx \<and>
     session_context (sample_wenv ''r'') sample_request cx"
proof -
  let ?E = "sample_wenv ''r''" and ?t = "\<lparr>tg_Path = ''/api/portal/api-keys'', tg_RawPath = ''''\<rparr>"
  obtain resp y where f: "front ?E [] exact_mux ''id'' sample_request ?t logged_in = (resp, y)"
    by (cases "front ?E [] exact_mux ''id'' sample_request ?t logged_in")
  have "RequirePortalSession ?E (sample_request\<lparr>rq_Path := tg_Path ?t\<rparr>) = RequirePortalSession ?E sample_request"
    by (simp add: RequirePortalSession_def)
  then obtain cx z where gate: "pathAwareAuth ?E (sample_request\<lparr>rq_Path := tg_Path ?t\<rparr>) logged_in = (Inr cx, z)"
    using sample_gate by (cases "RequirePortalSession ?E sample_request logged_in")
      (auto simp: pathAwareAuth_def Let_def HasPrefix_def)
  have route: "exact_mux ''POST'' ?t = Route ''/api/portal/api-keys''" by code_simp
  have "rp_Answer resp = Handled ''/api/portal/api-keys'' cx"
    using f gate route by (auto simp: front_def CORS_def Let_def sample_request_def dispatch_def)
  with gated_handlers [OF _ exact_mux_ok sample_target(1) f this] f show ?thesis by (auto simp: HasPrefix_def)
qed

theorem pages_confined_witness:
  "shipped [(''webroot/site/index.html'', ''<html>'')] ''site'' ''<html>''"
proof -
  let ?E = "sample_wenv ''r''" and ?t = "\<lparr>tg_Path = ''/about'', tg_RawPath = ''/%61bout''\<rparr>" and ?fs = "[(''webroot/site/index.html'', ''<html>'')]"
  obtain resp y where f: "front ?E ?fs exact_mux ''id'' sample_request ?t sample_web = (resp, y)"
    by (cases "front ?E ?fs exact_mux ''id'' sample_request ?t sample_web")
  have route: "exact_mux ''POST'' ?t = NoRoute" by code_simp
  have page: "spaHandler ?fs ''site'' ''/about'' = Page ''<html>''" by code_simp
  have "rp_Answer resp = Page ''<html>''"
    using f by (auto simp: front_def CORS_def Let_def sample_request_def dispatch_def route no_route_def page
        pathAwareAuth_def HasPrefix_def ret_def)
  then have "rp_Answer resp \<in> {Page ''<html>'', FileContent ''<html>''}" by simp
  from pages_confined [OF exact_mux_ok sample_target(2) f this] show ?thesis by (simp add: HasPrefix_def)
qed

end
