(* ===== verification/Key_Material.thy ===== *)
theory Key_Material
  imports Broker_Client
begin

text \<open>
  The two keys an operator configures: the caller key that signs invocations (\<^verbatim>\<open>proxy/livepeer/caller.go\<close>)
  and the wrapping key of the journal (\<^verbatim>\<open>NewSecretBox\<close> of \<^verbatim>\<open>crypto/secrets.go\<close>). Bytes are numbers below 256.
  Base64 is written out; Keccak, the signature and the derivation of the public key are parameters.
\<close>

section \<open>Base64\<close>

definition b64_char :: "nat \<Rightarrow> char" where
  "b64_char n = (if n < 26 then char_of (65 + n) else if n < 52 then char_of (71 + n)
     else if n < 62 then char_of (n - 4) else if n = 62 then CHR ''+'' else CHR ''/'')"

definition b64_val :: "char \<Rightarrow> nat option" where
  "b64_val c = (let n = (of_char c :: nat) in
     if 65 \<le> n \<and> n \<le> 90 then Some (n - 65) else if 97 \<le> n \<and> n \<le> 122 then Some (n - 71)
     else if 48 \<le> n \<and> n \<le> 57 then Some (n + 4) else if c = CHR ''+'' then Some 62
     else if c = CHR ''/'' then Some 63 else None)"

fun Base64_encode :: "nat list \<Rightarrow> string" where
  "Base64_encode [] = []"
| "Base64_encode [a] = [b64_char (a div 4), b64_char (a mod 4 * 16), CHR ''='', CHR ''='']"
| "Base64_encode [a, b] = [b64_char (a div 4), b64_char (a mod 4 * 16 + b div 16), b64_char (b mod 16 * 4), CHR ''='']"
| "Base64_encode (a # b # c # bs) = [b64_char (a div 4), b64_char (a mod 4 * 16 + b div 16),
     b64_char (b mod 16 * 4 + c div 64), b64_char (c mod 64)] @ Base64_encode bs"

text \<open>The strict decoder: padding only at the end and with no bits left over. Line ends are skipped.\<close>

fun b64_groups :: "string \<Rightarrow> nat list option" where
  "b64_groups [] = Some []"
| "b64_groups (a # b # c # d # cs) =
     (if d = CHR ''='' then
        if cs \<noteq> [] then None
        else if c = CHR ''='' then (case (b64_val a, b64_val b) of
            (Some x, Some y) \<Rightarrow> if y mod 16 = 0 then Some [x * 4 + y div 16] else None
          | _ \<Rightarrow> None)
        else (case (b64_val a, b64_val b, b64_val c) of
            (Some x, Some y, Some z) \<Rightarrow> if z mod 4 = 0 then Some [x * 4 + y div 16, y mod 16 * 16 + z div 4] else None
          | _ \<Rightarrow> None)
      else (case (b64_val a, b64_val b, b64_val c, b64_val d, b64_groups cs) of
          (Some x, Some y, Some z, Some w, Some bs) \<Rightarrow>
            Some ([x * 4 + y div 16, y mod 16 * 16 + z div 4, z mod 4 * 64 + w] @ bs)
        | _ \<Rightarrow> None))"
| "b64_groups _ = None"

definition Base64_decode :: "string \<Rightarrow> nat list option" where
  "Base64_decode s = b64_groups (filter (\<lambda>c. of_char c \<noteq> (10 :: nat) \<and> of_char c \<noteq> (13 :: nat)) s)"

section \<open>Wrapping key\<close>

definition NewSecretBox :: "string \<Rightarrow> err + nat list" where
  "NewSecretBox encodedKey = (case Base64_decode encodedKey of
      None \<Rightarrow> Inl (Msg ''OPERATION_SECRETS_KEY must be canonical base64 of 32 bytes'')
    | Some key \<Rightarrow>
        if length key \<noteq> 32 then Inl (Msg ''OPERATION_SECRETS_KEY must be canonical base64 of 32 bytes'')
        else if Base64_encode key \<noteq> encodedKey then Inl (Msg ''OPERATION_SECRETS_KEY must be canonical base64'')
        else Inr key)"

section \<open>Caller key\<close>

definition be_nat :: "nat list \<Rightarrow> nat" where
  "be_nat bs = fold (\<lambda>b n. 256 * n + b) bs 0"

text \<open>The order of the curve's group.\<close>

definition secp256k1_order :: nat where
  "secp256k1_order = 115792089237316195423570985008687907852837564279074904382605163141518161494337"

definition NewCallerSigner :: "string \<Rightarrow> err + nat" where
  "NewCallerSigner encoded = (case hex_decode (TrimPrefix encoded ''0x'') of
      None \<Rightarrow> Inl (Msg ''caller key must be 32-byte hexadecimal'')
    | Some raw \<Rightarrow>
        if length raw \<noteq> 32 then Inl (Msg ''caller key must be 32-byte hexadecimal'')
        else if be_nat raw \<ge> secp256k1_order \<or> be_nat raw = 0 then Inl (Msg ''caller key outside secp256k1 scalar range'')
        else Inr (be_nat raw))"

definition text_bytes :: "string \<Rightarrow> nat list" where
  "text_bytes = map of_char"

text \<open>What is signed: the authorization under the protocol's own label, hashed, under Ethereum's label.
  The compact signature starts with its recovery byte, which the wire format has last.\<close>

definition proof_digest :: "(nat list \<Rightarrow> nat list) \<Rightarrow> nat list \<Rightarrow> nat list" where
  "proof_digest keccak raw = keccak (25 # text_bytes ''Ethereum Signed Message:'' @ [10] @ text_bytes ''32'' @
     keccak (text_bytes ''livepeer-invocation-proof/v1'' @ [0] @ raw))"

definition Proof :: "(nat list \<Rightarrow> nat list) \<Rightarrow> (nat \<Rightarrow> nat list \<Rightarrow> nat list) \<Rightarrow> nat \<Rightarrow> string \<Rightarrow> err + string" where
  "Proof keccak SignCompact key authorization = (case Base64_decode authorization of
      None \<Rightarrow> Inl (Msg ''invalid spend authorization encoding'')
    | Some raw \<Rightarrow>
        if raw = [] then Inl (Msg ''invalid spend authorization encoding'')
        else let signature = SignCompact key (proof_digest keccak raw)
             in Inr (Base64_encode (tl signature @ [hd signature])))"

section \<open>Facts\<close>

lemma b64_val_char: "n < 64 \<Longrightarrow> b64_val (b64_char n) = Some n"
  by (cases "n < 26"; cases "n < 52"; cases "n < 62"; cases "n = 62") (auto simp: b64_val_def b64_char_def Let_def of_char_of)

lemma b64_char_plain:
  assumes "n < 64"
  shows "b64_char n \<noteq> CHR ''=''" "of_char (b64_char n) \<noteq> (10 :: nat)" "of_char (b64_char n) \<noteq> (13 :: nat)"
proof -
  have pad: "b64_val (CHR ''='') = None" by code_simp
  show "b64_char n \<noteq> CHR ''=''" using b64_val_char [OF assms] pad by auto
  show "of_char (b64_char n) \<noteq> (10 :: nat)" "of_char (b64_char n) \<noteq> (13 :: nat)"
    using assms by (auto simp: b64_char_def of_char_of split: if_splits)
qed

abbreviation bytes :: "nat list \<Rightarrow> bool" where
  "bytes \<equiv> list_all (\<lambda>b. b < 256)"

lemma sextets:
  fixes a b c :: nat
  shows "a < 256 \<Longrightarrow> a div 4 < 64"
    and "b < 256 \<Longrightarrow> a mod 4 * 16 + b div 16 < 64" and "b < 256 \<Longrightarrow> b div 16 div 16 = 0"
    and "b < 256 \<Longrightarrow> b div 16 mod 16 = b div 16" and "c < 256 \<Longrightarrow> b mod 16 * 4 + c div 64 < 64"
    and "c < 256 \<Longrightarrow> c div 64 div 4 = 0" and "c < 256 \<Longrightarrow> c div 64 mod 4 = c div 64"
proof -
  show "a < 256 \<Longrightarrow> a div 4 < 64" by simp
  { assume "b < 256"
    then have b: "b div 16 < 16" by (simp add: less_mult_imp_div_less)
    then show "b div 16 div 16 = 0" "b div 16 mod 16 = b div 16" by simp_all
    from b show "a mod 4 * 16 + b div 16 < 64" using mod_less_divisor [of 4 a] by linarith }
  assume "c < 256"
  then have c: "c div 64 < 4" by (simp add: less_mult_imp_div_less)
  then show "c div 64 div 4 = 0" "c div 64 mod 4 = c div 64" by simp_all
  from c show "b mod 16 * 4 + c div 64 < 64" using mod_less_divisor [of 16 b] by linarith
qed

lemma Base64_roundtrip: "bytes bs \<Longrightarrow> Base64_decode (Base64_encode bs) = Some bs"
  unfolding Base64_decode_def
  by (induction bs rule: Base64_encode.induct) (simp_all add: sextets b64_val_char b64_char_plain div_mult_mod_eq)

text \<open>The wrapping key is read as it was written: the configured texts that are accepted are exactly the
  encodings of 32 bytes, each for these bytes, so two different texts never give the same key.\<close>

theorem NewSecretBox_canonical:
  "bytes key \<Longrightarrow> NewSecretBox s = Inr key \<longleftrightarrow> length key = 32 \<and> s = Base64_encode key"
  by (auto simp: NewSecretBox_def Base64_roundtrip split: option.splits if_splits)

end
