(* ===== verification/Process_Entry.thy ===== *)
theory Process_Entry
  imports Server_Front Worker_Loop RTMP_Listener Catalog Key_Material Diagnostics
begin

text \<open>
  The life of the gateway's process: \<^verbatim>\<open>cmd/gateway/main.go\<close> with \<^verbatim>\<open>db.Migrate\<close>, \<^verbatim>\<open>db.Open\<close>, \<^verbatim>\<open>email.New\<close>,
  \<^verbatim>\<open>metrics.New\<close>, \<^verbatim>\<open>NewPaidEngine\<close> and the threads they start. \<^verbatim>\<open>run\<close> is a list of statements; the deferred
  calls are a stack that a return unwinds. Beside the main thread run the catalog refresher, the
  scheduling loop with its workers (\<^verbatim>\<open>Worker_Loop\<close>), the RTMP listener (\<^verbatim>\<open>RTMP_Listener\<close>) and the HTTP server;
  a step is one action of one of them, in any order. What the database, the object store and
  the network answer during the start is the record \<open>boot\<close>.
\<close>

section \<open>Configuration and collaborators\<close>

record BootConfig = WebConfig +
  Port :: int
  Host :: string
  LogLevel :: string
  DatabaseURL :: string
  MigrationsDir :: string
  FromEmail :: string
  S3Region :: string
  S3Bucket :: string
  S3Endpoint :: string
  S3PublicEndpoint :: string
  S3PresignTTLSecs :: int
  LOCBaseURL :: string

definition RefreshInterval :: "BootConfig \<Rightarrow> int" where
  "RefreshInterval c = wrap64 (RefreshMS c * 1000000)"

datatype LogLevel = LevelDebug | LevelInfo | LevelWarn | LevelError

definition newLogger :: "string \<Rightarrow> LogLevel" where
  "newLogger level = (if level = ''debug'' then LevelDebug else if level = ''warn'' then LevelWarn
     else if level = ''error'' then LevelError else LevelInfo)"

text \<open>\<^verbatim>\<open>Migrate\<close>: what the migration library answers to \<^verbatim>\<open>New\<close>, \<^verbatim>\<open>Up\<close> and \<^verbatim>\<open>Version\<close>. The result is the version
  and the dirty flag of the log line.\<close>

datatype up_answer = UpDone | NoChange | UpFailed string

datatype version_answer = Version nat bool | NilVersion | VersionFailed string

definition Migrate :: "string option \<Rightarrow> up_answer \<Rightarrow> version_answer \<Rightarrow> string + nat \<times> bool" where
  "Migrate new up ver = (case new of
      Some e \<Rightarrow> Inl (''db: migrate.New: '' @ e)
    | None \<Rightarrow> (case up of
        UpFailed e \<Rightarrow> Inl (''db: migrate up: '' @ e)
      | _ \<Rightarrow> (case ver of
          VersionFailed e \<Rightarrow> Inl (''db: migrate version: '' @ e)
        | NilVersion \<Rightarrow> Inr (0, False)
        | Version v d \<Rightarrow> Inr (v, d))))"

text \<open>\<^verbatim>\<open>Open\<close>: the pool has at least twelve connections, and a pool that cannot be reached is closed again.\<close>

datatype pool = NoPool | OpenPool int | ClosedPool

definition db_Open :: "string + int \<Rightarrow> string option \<Rightarrow> string option \<Rightarrow> (string + unit) \<times> pool" where
  "db_Open parsed new ping = (case parsed of
      Inl e \<Rightarrow> (Inl (''db: config: '' @ e), NoPool)
    | Inr n \<Rightarrow> (case new of
        Some e \<Rightarrow> (Inl (''db: pgxpool.New: '' @ e), NoPool)
      | None \<Rightarrow> (case ping of
          Some e \<Rightarrow> (Inl (''db: ping: '' @ e), ClosedPool)
        | None \<Rightarrow> (Inr (), OpenPool (if n < 12 then 12 else n)))))"

text \<open>\<^verbatim>\<open>email.go\<close>: without an API key a mail is logged instead of sent. \<open>post\<close> is the mail service.\<close>

record Mailer =
  ml_from :: string
  ml_client :: "string option"

definition NewMailer :: "string \<Rightarrow> string \<Rightarrow> Mailer" where
  "NewMailer apiKey fromAddr = \<lparr>ml_from = fromAddr, ml_client = (if apiKey \<noteq> '''' then Some apiKey else None)\<rparr>"

record SendEmailRequest =
  em_From :: string
  em_To :: "string list"
  em_Subject :: string
  em_Html :: string
  em_Text :: string

datatype delivery = Logged string string string string | Posted string SendEmailRequest

definition Send :: "(SendEmailRequest \<Rightarrow> string option) \<Rightarrow> Mailer \<Rightarrow> string \<Rightarrow> string \<Rightarrow> string \<Rightarrow> string \<Rightarrow> string option \<times> delivery" where
  "Send post m to subject html txt = (case ml_client m of
      None \<Rightarrow> (None, Logged (ml_from m) to subject txt)
    | Some apiKey \<Rightarrow>
        let mail = \<lparr>em_From = ml_from m, em_To = [to], em_Subject = subject, em_Html = html, em_Text = txt\<rparr>
        in (map_option (\<lambda>e. ''email: send: '' @ e) (post mail), Posted apiKey mail))"

text \<open>\<^verbatim>\<open>metrics.go\<close>: names and labels of the collectors. Registering a name twice panics.\<close>

definition NewMetrics :: "(string \<times> string list) list" where
  "NewMetrics = [(''video_gateway_http_requests_total'', [''method'', ''route'', ''status'']),
     (''video_gateway_http_request_duration_seconds'', [''method'', ''route'', ''status'']),
     (''video_gateway_proxy_reservations_total'', [''capability'', ''outcome'']),
     (''video_gateway_live_streams_active'', []), (''video_gateway_waitlist_signups_total'', []),
     (''livepeer_gateway_route_health_cooldowns_opened_total'', [''capability'']),
     (''livepeer_gateway_session_rotation_retries_total'', [''capability'', ''outcome'']),
     (''livepeer_gateway_live_topup_attempts_total'', [''capability'', ''outcome'']),
     (''livepeer_gateway_rtmp_publishes_total'', [''outcome''])]"

definition AttachRTMPGauge :: "(string \<times> string list) list \<Rightarrow> (string \<times> string list) list" where
  "AttachRTMPGauge r = r @ [(''livepeer_gateway_rtmp_active_publishes'', [])]"

lemma collectors_distinct: "distinct (map fst (AttachRTMPGauge NewMetrics))"
  by code_simp

text \<open>The capability map and the broker client.\<close>

record CapabilitySpec =
  cs_Capability :: string
  cs_DefaultOffering :: string
  cs_Protocol :: string

record CapabilityMap =
  cm_ABR :: CapabilitySpec
  cm_Live :: CapabilitySpec

definition NewDefault :: "string \<Rightarrow> string \<Rightarrow> CapabilityMap" where
  "NewDefault abrCapability liveCapability =
     \<lparr>cm_ABR = \<lparr>cs_Capability = abrCapability, cs_DefaultOffering = ''abr-default'', cs_Protocol = ''paid-job/v1''\<rparr>,
      cm_Live = \<lparr>cs_Capability = liveCapability, cs_DefaultOffering = ''gateway-ingest'', cs_Protocol = ''paid-session/v1''\<rparr>\<rparr>"

definition NewHTTPClient :: "int \<Rightarrow> int" where
  "NewHTTPClient timeout = (if timeout \<le> 0 then 30 * second else timeout)"

text \<open>\<^verbatim>\<open>NewPaidEngine\<close>: no LOC client, no engine. The engine is its two keys.\<close>

record PaidKeys =
  pk_signer :: nat
  pk_box :: "nat list"

definition NewPaidEngine :: "LocClient option \<Rightarrow> BootConfig \<Rightarrow> err + PaidKeys option" where
  "NewPaidEngine loc c = (case loc of
      None \<Rightarrow> Inr None
    | Some _ \<Rightarrow> (case NewCallerSigner (CallerPrivateKey c) of
        Inl e \<Rightarrow> Inl e
      | Inr signer \<Rightarrow> (case NewSecretBox (OperationSecretsKey c) of
          Inl e \<Rightarrow> Inl e
        | Inr box \<Rightarrow> Inr (Some \<lparr>pk_signer = signer, pk_box = box\<rparr>))))"

text \<open>What the handlers are given.\<close>

record Deps =
  dp_Email :: Mailer
  dp_S3 :: "S3Client option"
  dp_LOC :: "LocClient option"
  dp_HTTP :: int
  dp_CapMap :: CapabilityMap
  dp_Metrics :: "(string \<times> string list) list"
  dp_RTMPProbe :: "string option"
  dp_Paid :: "PaidKeys option"

section \<open>State of the process\<close>

datatype exit_error = MigrateErr string | PoolErr string | DrainErr string | DrainRefused nat | PaidErr err | ServerErr string

text \<open>The statements of \<^verbatim>\<open>run\<close> after the configuration was loaded.\<close>

datatype statement = NotifyContext | RunMigrate | OpenPool' | DrainCheck | MakeClients | StartRefresher | MakePaid |
  StartRTMP | StartHTTP | Select | Shutdown | AwaitRequests

definition run_body :: "statement list" where
  "run_body = [NotifyContext, RunMigrate, OpenPool', DrainCheck, MakeClients, StartRefresher, MakePaid, StartRTMP, StartHTTP,
     Select, Shutdown, AwaitRequests]"

datatype deferred = Stop | ClosePool | StopPaid | AwaitPaid

datatype refresher = RefreshOff | RefreshFirst | RefreshTicking | RefreshStopped | RefreshPanicked

datatype http = HttpIdle | HttpLaunching | HttpServing | HttpFailed | HttpDown

record boot =
  bt_migrate :: "string option"
  bt_up :: up_answer
  bt_version :: version_answer
  bt_pool_config :: "string + int"
  bt_pool_new :: "string option"
  bt_ping :: "string option"
  bt_drain :: "string + database"
  bt_bucket :: "string option"
  bt_rtmp :: renv

text \<open>\<open>pr_result\<close> is the result \<^verbatim>\<open>run\<close> returns with, while the deferred calls \<open>pr_defers\<close> still run. \<open>pr_paid\<close> is
  the scheduling loop once it was started, \<open>pr_paid_done\<close> the closed channel \<^verbatim>\<open>paidDone\<close>, \<open>pr_scan\<close> the
  operations of a scan the loop has not looked at yet.\<close>

record process =
  pr_todo :: "statement list"
  pr_defers :: "deferred list"
  pr_result :: "exit_error option option"
  pr_cancelled :: bool
  pr_log :: "string list"
  pr_pool :: pool
  pr_deps :: Deps
  pr_catalog :: catalog
  pr_refresher :: refresher
  pr_paid :: "loop option"
  pr_paid_done :: bool
  pr_scan :: nat
  pr_rtmp :: "listener option"
  pr_http :: http
  pr_requests :: nat
  pr_errCh :: "string option"

definition no_deps :: "BootConfig \<Rightarrow> Deps" where
  "no_deps c = \<lparr>dp_Email = NewMailer '''' '''', dp_S3 = None, dp_LOC = None, dp_HTTP = 0, dp_CapMap = NewDefault '''' '''',
     dp_Metrics = [], dp_RTMPProbe = None, dp_Paid = None\<rparr>"

definition process_start :: "BootConfig \<Rightarrow> catalog \<Rightarrow> process" where
  "process_start c ct = \<lparr>pr_todo = run_body, pr_defers = [], pr_result = None, pr_cancelled = False,
     pr_log = Warnings (WebConfig.truncate c), pr_pool = NoPool, pr_deps = no_deps c, pr_catalog = ct, pr_refresher = RefreshOff,
     pr_paid = None, pr_paid_done = False, pr_scan = 0, pr_rtmp = None, pr_http = HttpIdle, pr_requests = 0, pr_errCh = None\<rparr>"

section \<open>Main thread\<close>

definition sdkIdentity :: string where
  "sdkIdentity = ''transcode-gateway/2.0.0/dev''"

definition make_clients :: "boot \<Rightarrow> BootConfig \<Rightarrow> process \<Rightarrow> process" where
  "make_clients B c p =
     (let s3 = NewS3 (S3Region c) (S3Endpoint c) (S3PublicEndpoint c) (S3Bucket c) (S3AccessKeyID c) (S3SecretAccessKey c) (S3PresignTTLSecs c);
          client = (case s3 of Inl _ \<Rightarrow> None | Inr x \<Rightarrow> x)
      in p\<lparr>pr_log := pr_log p @
             (case s3 of Inl _ \<Rightarrow> [''s3: configuration error; /v1/abr/upload-url disabled''] | Inr _ \<Rightarrow> []) @
             (if client \<noteq> None \<and> bt_bucket B \<noteq> None then [''s3: bucket head failed at boot (may still recover at runtime)''] else []),
           pr_deps := (pr_deps p)\<lparr>dp_Email := NewMailer (ResendAPIKey c) (FromEmail c), dp_S3 := client,
             dp_LOC := NewLocClient (LOCBaseURL c) (LOCAPIKey c) sdkIdentity (30 * second),
             dp_HTTP := NewHTTPClient (30 * second), dp_CapMap := NewDefault (ABRCapability c) (LiveCapability c),
             dp_Metrics := NewMetrics\<rparr>\<rparr>)"

text \<open>The statements that do not wait: an error returns from \<^verbatim>\<open>run\<close>.\<close>

fun exec_stmt :: "boot \<Rightarrow> BootConfig \<Rightarrow> statement \<Rightarrow> process \<Rightarrow> exit_error + process" where
  "exec_stmt B c NotifyContext p = Inr (p\<lparr>pr_defers := Stop # pr_defers p\<rparr>)"
| "exec_stmt B c RunMigrate p = (case Migrate (bt_migrate B) (bt_up B) (bt_version B) of
      Inl e \<Rightarrow> Inl (MigrateErr e) | Inr _ \<Rightarrow> Inr (p\<lparr>pr_log := pr_log p @ [''migrations applied'']\<rparr>))"
| "exec_stmt B c OpenPool' p = (case db_Open (bt_pool_config B) (bt_pool_new B) (bt_ping B) of
      (Inl e, _) \<Rightarrow> Inl (PoolErr e) | (Inr _, po) \<Rightarrow> Inr (p\<lparr>pr_pool := po, pr_defers := ClosePool # pr_defers p\<rparr>))"
| "exec_stmt B c DrainCheck p = (case bt_drain B of
      Inl e \<Rightarrow> Inl (DrainErr e)
    | Inr d \<Rightarrow> (case CheckLegacyDrain d of Inl n \<Rightarrow> Inl (DrainRefused n) | Inr _ \<Rightarrow> Inr p))"
| "exec_stmt B c MakeClients p = Inr (make_clients B c p)"
| "exec_stmt B c StartRefresher p = Inr (p\<lparr>pr_refresher := RefreshFirst\<rparr>)"
| "exec_stmt B c MakePaid p = (let p = p\<lparr>pr_deps := (pr_deps p)\<lparr>dp_RTMPProbe := Some (NewListener (Host c) (LiveRTMPPort c))\<rparr>\<rparr> in
     case NewPaidEngine (dp_LOC (pr_deps p)) c of
       Inl e \<Rightarrow> Inl (PaidErr e)
     | Inr None \<Rightarrow> Inr p
     | Inr (Some k) \<Rightarrow> Inr (p\<lparr>pr_deps := (pr_deps p)\<lparr>dp_Paid := Some k\<rparr>, pr_paid := Some loop_start,
         pr_defers := [StopPaid, AwaitPaid] @ pr_defers p\<rparr>))"
| "exec_stmt B c StartRTMP p = Inr (p\<lparr>pr_rtmp := Some (run_start (NewListener (Host c) (LiveRTMPPort c))),
     pr_deps := (pr_deps p)\<lparr>dp_Metrics := AttachRTMPGauge (dp_Metrics (pr_deps p))\<rparr>\<rparr>)"
| "exec_stmt B c StartHTTP p = Inr (p\<lparr>pr_http := HttpLaunching,
     pr_log := pr_log p @ [''server listening '' @ JoinHostPort (Host c) (int_text (Port c))]\<rparr>)"
| "exec_stmt B c _ p = Inr p"

definition waits :: "statement \<Rightarrow> bool" where
  "waits s \<longleftrightarrow> s \<in> {Select, Shutdown, AwaitRequests}"

inductive main_step :: "boot \<Rightarrow> BootConfig \<Rightarrow> process \<Rightarrow> process \<Rightarrow> bool" for B c where
  exec: "pr_result p = None \<Longrightarrow> pr_todo p = s # ss \<Longrightarrow> \<not> waits s \<Longrightarrow> exec_stmt B c s p = Inr q \<Longrightarrow> main_step B c p (q\<lparr>pr_todo := ss\<rparr>)"
| fail: "pr_result p = None \<Longrightarrow> pr_todo p = s # ss \<Longrightarrow> \<not> waits s \<Longrightarrow> exec_stmt B c s p = Inl e \<Longrightarrow>
    main_step B c p (p\<lparr>pr_todo := [], pr_result := Some (Some e)\<rparr>)"
| signalled: "pr_result p = None \<Longrightarrow> pr_todo p = Select # ss \<Longrightarrow> pr_cancelled p \<Longrightarrow>
    main_step B c p (p\<lparr>pr_todo := ss, pr_log := pr_log p @ [''shutdown signal received'']\<rparr>)"
| server_failed: "pr_result p = None \<Longrightarrow> pr_todo p = Select # ss \<Longrightarrow> pr_errCh p = Some e \<Longrightarrow>
    main_step B c p (p\<lparr>pr_todo := [], pr_cancelled := True, pr_errCh := None, pr_result := Some (Some (ServerErr e))\<rparr>)"
| shutdown: "pr_result p = None \<Longrightarrow> pr_todo p = Shutdown # ss \<Longrightarrow>
    main_step B c p (p\<lparr>pr_todo := ss, pr_http := (if pr_http p = HttpFailed then HttpFailed else HttpDown)\<rparr>)"
| drained: "pr_result p = None \<Longrightarrow> pr_todo p = AwaitRequests # ss \<Longrightarrow> pr_requests p = 0 \<Longrightarrow>
    main_step B c p (p\<lparr>pr_todo := ss, pr_log := pr_log p @ [''server stopped'']\<rparr>)"
| timeout: "pr_result p = None \<Longrightarrow> pr_todo p = AwaitRequests # ss \<Longrightarrow>
    main_step B c p (p\<lparr>pr_todo := ss, pr_log := pr_log p @ [''shutdown returned an error'', ''server stopped'']\<rparr>)"
| return: "pr_result p = None \<Longrightarrow> pr_todo p = [] \<Longrightarrow> main_step B c p (p\<lparr>pr_result := Some None\<rparr>)"
| stop: "pr_result p \<noteq> None \<Longrightarrow> pr_defers p = d # ds \<Longrightarrow> d \<in> {Stop, StopPaid} \<Longrightarrow>
    main_step B c p (p\<lparr>pr_defers := ds, pr_cancelled := True\<rparr>)"
| await_paid: "pr_result p \<noteq> None \<Longrightarrow> pr_defers p = AwaitPaid # ds \<Longrightarrow> pr_paid_done p \<Longrightarrow> main_step B c p (p\<lparr>pr_defers := ds\<rparr>)"
| close_pool: "pr_result p \<noteq> None \<Longrightarrow> pr_defers p = ClosePool # ds \<Longrightarrow> main_step B c p (p\<lparr>pr_defers := ds, pr_pool := ClosedPool\<rparr>)"

inductive_cases main_stepE: "main_step B c p q"

section \<open>The other threads\<close>

text \<open>The steps of the scheduling loop are those of Worker\_Loop, tied to the process: a query of \<^verbatim>\<open>Pending\<close>
  lists at most \<open>scan_limit\<close> operations and fails once the context is cancelled (\<open>pr_scan\<close> counts those
  of the last one that are still to be looked at; a result that arrives after the cancellation is
  taken as one that arrived just before), and the loop is left between two scans only.\<close>

text \<open>A refresh changes the catalog only through the open pool. \<^verbatim>\<open>NewTicker\<close> panics on an interval that is not
  positive, which ends the process.\<close>

definition refresh_filter :: "BootConfig \<Rightarrow> string list" where
  "refresh_filter c = [ABRCapability c, LiveCapability c]"

definition refreshes :: "BootConfig \<Rightarrow> process \<Rightarrow> catalog \<Rightarrow> bool" where
  "refreshes c p ct \<longleftrightarrow> ct = pr_catalog p \<or>
     (\<exists>n now feed. pr_pool p = OpenPool n \<and> ct = snd (Once now feed (refresh_filter c) (pr_catalog p)))"

inductive thread_step :: "boot \<Rightarrow> BootConfig \<Rightarrow> process \<Rightarrow> process \<Rightarrow> bool" for B c where
  signal: "Stop \<in> set (pr_defers p) \<Longrightarrow> thread_step B c p (p\<lparr>pr_cancelled := True\<rparr>)"
| refresh_off: "pr_refresher p = RefreshFirst \<Longrightarrow> dp_LOC (pr_deps p) = None \<Longrightarrow> thread_step B c p (p\<lparr>pr_refresher := RefreshStopped\<rparr>)"
| refresh_first: "pr_refresher p = RefreshFirst \<Longrightarrow> dp_LOC (pr_deps p) \<noteq> None \<Longrightarrow> refreshes c p ct \<Longrightarrow>
    thread_step B c p (p\<lparr>pr_catalog := ct, pr_refresher := (if RefreshInterval c \<le> 0 then RefreshPanicked else RefreshTicking)\<rparr>)"
| refresh_tick: "pr_refresher p = RefreshTicking \<Longrightarrow> refreshes c p ct \<Longrightarrow> thread_step B c p (p\<lparr>pr_catalog := ct\<rparr>)"
| refresh_stop: "pr_refresher p = RefreshTicking \<Longrightarrow> pr_cancelled p \<Longrightarrow> thread_step B c p (p\<lparr>pr_refresher := RefreshStopped\<rparr>)"
| scan: "pr_paid p = Some l \<Longrightarrow> \<not> lp_closed l \<Longrightarrow> lp_offer l = None \<Longrightarrow> pr_scan p = 0 \<Longrightarrow> \<not> pr_cancelled p \<Longrightarrow> n \<le> scan_limit \<Longrightarrow>
    thread_step B c p (p\<lparr>pr_scan := n\<rparr>)"
| paid_mark: "pr_paid p = Some l \<Longrightarrow> \<not> lp_closed l \<Longrightarrow> lp_offer l = None \<Longrightarrow> pr_scan p = Suc n \<Longrightarrow>
    thread_step B c p (p\<lparr>pr_paid := Some (mark k i l), pr_scan := n\<rparr>)"
| paid_send: "pr_paid p = Some l \<Longrightarrow> \<not> lp_closed l \<Longrightarrow> lp_offer l \<noteq> None \<Longrightarrow> thread_step B c p (p\<lparr>pr_paid := Some (send l)\<rparr>)"
| paid_close: "pr_paid p = Some l \<Longrightarrow> \<not> lp_closed l \<Longrightarrow> lp_offer l = None \<Longrightarrow> pr_scan p = 0 \<Longrightarrow> pr_cancelled p \<Longrightarrow>
    thread_step B c p (p\<lparr>pr_paid := Some (l\<lparr>lp_closed := True\<rparr>)\<rparr>)"
| paid_work: "pr_paid p = Some l \<Longrightarrow> worker_step l l' \<Longrightarrow> thread_step B c p (p\<lparr>pr_paid := Some l'\<rparr>)"
| paid_done: "pr_paid p = Some l \<Longrightarrow> lp_closed l \<Longrightarrow> left_to_do l = 0 \<Longrightarrow> \<not> pr_paid_done p \<Longrightarrow> thread_step B c p (p\<lparr>pr_paid_done := True\<rparr>)"
| rtmp: "pr_rtmp p = Some l \<Longrightarrow> run_step (bt_rtmp B) l l' \<Longrightarrow> (ln_cancelled l' \<Longrightarrow> ln_cancelled l \<or> pr_cancelled p) \<Longrightarrow>
    thread_step B c p (p\<lparr>pr_rtmp := Some l'\<rparr>)"
| http_up: "pr_http p = HttpLaunching \<Longrightarrow> thread_step B c p (p\<lparr>pr_http := HttpServing\<rparr>)"
| http_failed: "pr_http p \<in> {HttpLaunching, HttpServing} \<Longrightarrow> thread_step B c p (p\<lparr>pr_http := HttpFailed, pr_errCh := Some e\<rparr>)"
| request: "pr_http p = HttpServing \<Longrightarrow> thread_step B c p (p\<lparr>pr_requests := Suc (pr_requests p)\<rparr>)"
| answered: "pr_requests p = Suc n \<Longrightarrow> thread_step B c p (p\<lparr>pr_requests := n\<rparr>)"

inductive_cases thread_stepE: "thread_step B c p q"

definition exited :: "process \<Rightarrow> bool" where
  "exited p \<longleftrightarrow> pr_result p \<noteq> None \<and> pr_defers p = []"

text \<open>The process exists until \<^verbatim>\<open>run\<close> has returned or a thread panicked.\<close>

definition alive :: "process \<Rightarrow> bool" where
  "alive p \<longleftrightarrow> \<not> exited p \<and> pr_refresher p \<noteq> RefreshPanicked"

inductive process_reachable :: "boot \<Rightarrow> BootConfig \<Rightarrow> process \<Rightarrow> bool" for B c where
  start: "Load parse (Config.truncate c) = Inr c' \<Longrightarrow> process_reachable B c (process_start c ct)"
| main: "process_reachable B c p \<Longrightarrow> alive p \<Longrightarrow> main_step B c p q \<Longrightarrow> process_reachable B c q"
| thread: "process_reachable B c p \<Longrightarrow> alive p \<Longrightarrow> thread_step B c p q \<Longrightarrow> process_reachable B c q"

text \<open>The exit code of \<^verbatim>\<open>main\<close>.\<close>

definition exit_code :: "process \<Rightarrow> nat option" where
  "exit_code p = (if pr_refresher p = RefreshPanicked then Some 2
     else if exited p then Some (case pr_result p of Some (Some _) \<Rightarrow> 1 | _ \<Rightarrow> 0) else None)"

end
