(* ===== verification/Process_Facts.thy ===== *)
theory Process_Facts
  imports Process_Entry Web_Sample Gateway_System Views
begin

text \<open>
  The life of the process: what is established before it serves, in which order it shuts down, and that it
  ends.
\<close>

section \<open>Invariant\<close>

text \<open>What the start has established before anything is served.\<close>

definition ready :: "boot \<Rightarrow> bool" where
  "ready B \<longleftrightarrow> (\<exists>v. Migrate (bt_migrate B) (bt_up B) (bt_version B) = Inr v) \<and>
     (\<exists>d. bt_drain B = Inr d \<and> legacy_count d = 0)"

text \<open>The deferred calls while \<^verbatim>\<open>run\<close> is in its body.\<close>

definition pending_defers :: "process \<Rightarrow> deferred list" where
  "pending_defers p = (if pr_paid p = None then [] else [StopPaid, AwaitPaid]) @ (if pr_pool p = NoPool then [] else [ClosePool]) @
     (if NotifyContext \<in> set (pr_todo p) then [] else [Stop])"

definition body_inv :: "boot \<Rightarrow> BootConfig \<Rightarrow> process \<Rightarrow> bool" where
  "body_inv B c p \<longleftrightarrow> suffix (pr_todo p) run_body \<and> pr_defers p = pending_defers p \<and>
     (RunMigrate \<in> set (pr_todo p) \<or> (\<exists>v. Migrate (bt_migrate B) (bt_up B) (bt_version B) = Inr v)) \<and>
     (OpenPool' \<in> set (pr_todo p) \<longleftrightarrow> pr_pool p = NoPool) \<and> pr_pool p \<noteq> ClosedPool \<and>
     (DrainCheck \<in> set (pr_todo p) \<or> (\<exists>d. bt_drain B = Inr d \<and> legacy_count d = 0)) \<and>
     (MakeClients \<in> set (pr_todo p) \<or> dp_LOC (pr_deps p) = NewLocClient (LOCBaseURL c) (LOCAPIKey c) sdkIdentity (30 * second)) \<and>
     (StartRefresher \<in> set (pr_todo p) \<longrightarrow> pr_refresher p = RefreshOff) \<and>
     (MakePaid \<in> set (pr_todo p) \<longrightarrow> pr_paid p = None) \<and>
     (MakePaid \<in> set (pr_todo p) \<or> (pr_paid p = None \<longleftrightarrow> dp_LOC (pr_deps p) = None)) \<and>
     (StartRTMP \<in> set (pr_todo p) \<longrightarrow> pr_rtmp p = None) \<and> (StartHTTP \<in> set (pr_todo p) \<longleftrightarrow> pr_http p = HttpIdle) \<and>
     (Shutdown \<in> set (pr_todo p) \<or> pr_http p \<in> {HttpDown, HttpFailed})"

definition return_inv :: "process \<Rightarrow> bool" where
  "return_inv p \<longleftrightarrow> pr_todo p = [] \<and> suffix (pr_defers p) [StopPaid, AwaitPaid, ClosePool, Stop] \<and>
     (pr_paid p \<noteq> None \<longrightarrow> pr_paid_done p \<or> AwaitPaid \<in> set (pr_defers p)) \<and>
     (pr_pool p = ClosedPool \<longrightarrow> AwaitPaid \<notin> set (pr_defers p)) \<and>
     (AwaitPaid \<in> set (pr_defers p) \<and> StopPaid \<notin> set (pr_defers p) \<longrightarrow> pr_cancelled p) \<and>
     pr_http p \<notin> {HttpLaunching, HttpServing} \<and> (pr_paid p = None \<longrightarrow> AwaitPaid \<notin> set (pr_defers p))"

definition threads_inv :: "boot \<Rightarrow> BootConfig \<Rightarrow> process \<Rightarrow> bool" where
  "threads_inv B c p \<longleftrightarrow>
     (pr_refresher p \<noteq> RefreshOff \<or> pr_paid p \<noteq> None \<or> pr_rtmp p \<noteq> None \<or> pr_http p \<noteq> HttpIdle \<longrightarrow> ready B \<and> pr_pool p \<noteq> NoPool) \<and>
     (pr_rtmp p \<noteq> None \<or> pr_http p \<noteq> HttpIdle \<longrightarrow>
        (pr_paid p = None \<longleftrightarrow> NewLocClient (LOCBaseURL c) (LOCAPIKey c) sdkIdentity (30 * second) = None)) \<and>
     (pr_requests p > 0 \<longrightarrow> pr_http p \<noteq> HttpIdle) \<and> (pr_errCh p \<noteq> None \<longrightarrow> pr_http p = HttpFailed) \<and>
     (\<forall>l. pr_paid p = Some l \<longrightarrow> loop_reachable l \<and> (lp_closed l \<longrightarrow> pr_cancelled p) \<and>
        (pr_paid_done p \<longrightarrow> lp_closed l \<and> left_to_do l = 0)) \<and>
     (pr_paid p = None \<longrightarrow> \<not> pr_paid_done p)"

definition process_inv :: "boot \<Rightarrow> BootConfig \<Rightarrow> process \<Rightarrow> bool" where
  "process_inv B c p \<longleftrightarrow> threads_inv B c p \<and> (if pr_result p = None then body_inv B c p else return_inv p)"

lemma body_suffix:
  "suffix (s # ss) run_body \<longleftrightarrow>
     s = NotifyContext \<and> ss = [RunMigrate, OpenPool', DrainCheck, MakeClients, StartRefresher, MakePaid, StartRTMP, StartHTTP, Select, Shutdown, AwaitRequests] \<or>
     s = RunMigrate \<and> ss = [OpenPool', DrainCheck, MakeClients, StartRefresher, MakePaid, StartRTMP, StartHTTP, Select, Shutdown, AwaitRequests] \<or>
     s = OpenPool' \<and> ss = [DrainCheck, MakeClients, StartRefresher, MakePaid, StartRTMP, StartHTTP, Select, Shutdown, AwaitRequests] \<or>
     s = DrainCheck \<and> ss = [MakeClients, StartRefresher, MakePaid, StartRTMP, StartHTTP, Select, Shutdown, AwaitRequests] \<or>
     s = MakeClients \<and> ss = [StartRefresher, MakePaid, StartRTMP, StartHTTP, Select, Shutdown, AwaitRequests] \<or>
     s = StartRefresher \<and> ss = [MakePaid, StartRTMP, StartHTTP, Select, Shutdown, AwaitRequests] \<or>
     s = MakePaid \<and> ss = [StartRTMP, StartHTTP, Select, Shutdown, AwaitRequests] \<or>
     s = StartRTMP \<and> ss = [StartHTTP, Select, Shutdown, AwaitRequests] \<or>
     s = StartHTTP \<and> ss = [Select, Shutdown, AwaitRequests] \<or>
     s = Select \<and> ss = [Shutdown, AwaitRequests] \<or>
     s = Shutdown \<and> ss = [AwaitRequests] \<or>
     s = AwaitRequests \<and> ss = []"
  by (auto simp: run_body_def suffix_Cons)

lemma inv_start: "process_inv B c (process_start c ct)"
  by (simp add: process_inv_def threads_inv_def body_inv_def process_start_def pending_defers_def, simp add: run_body_def)

lemma Open_pool: "db_Open a b d = (Inr u, po) \<Longrightarrow> po \<noteq> NoPool \<and> po \<noteq> ClosedPool"
  by (auto simp: db_Open_def split: sum.splits option.splits if_splits)

lemma CheckLegacyDrain_ok: "CheckLegacyDrain d = Inr u \<Longrightarrow> legacy_count d = 0"
  by (simp add: CheckLegacyDrain_def split: if_splits)

lemma NewPaidEngine_None: "NewPaidEngine loc c = Inr k \<Longrightarrow> k = None \<longleftrightarrow> loc = None"
  by (auto simp: NewPaidEngine_def split: option.splits sum.splits)

lemma left_loop_start: "left_to_do loop_start = 0" "\<not> lp_closed loop_start"
  by (simp_all add: left_to_do_def loop_start_def)

lemma suffix_body [simp]:
  "suffix [RunMigrate, OpenPool', DrainCheck, MakeClients, StartRefresher, MakePaid, StartRTMP, StartHTTP, Select, Shutdown, AwaitRequests] run_body"
  "suffix [OpenPool', DrainCheck, MakeClients, StartRefresher, MakePaid, StartRTMP, StartHTTP, Select, Shutdown, AwaitRequests] run_body"
  "suffix [DrainCheck, MakeClients, StartRefresher, MakePaid, StartRTMP, StartHTTP, Select, Shutdown, AwaitRequests] run_body"
  "suffix [MakeClients, StartRefresher, MakePaid, StartRTMP, StartHTTP, Select, Shutdown, AwaitRequests] run_body"
  "suffix [StartRefresher, MakePaid, StartRTMP, StartHTTP, Select, Shutdown, AwaitRequests] run_body"
  "suffix [MakePaid, StartRTMP, StartHTTP, Select, Shutdown, AwaitRequests] run_body"
  "suffix [StartRTMP, StartHTTP, Select, Shutdown, AwaitRequests] run_body"
  "suffix [StartHTTP, Select, Shutdown, AwaitRequests] run_body" "suffix [Select, Shutdown, AwaitRequests] run_body"
  "suffix [Shutdown, AwaitRequests] run_body" "suffix [AwaitRequests] run_body" "suffix [] run_body"
  by (simp_all add: run_body_def suffix_Cons)

lemma inv_exec:
  assumes "process_inv B c p" and "pr_result p = None" and "pr_todo p = s # ss" and "\<not> waits s" and "exec_stmt B c s p = Inr q"
  shows "process_inv B c (q\<lparr>pr_todo := ss\<rparr>)"
proof -
  have b: "body_inv B c p" and t: "threads_inv B c p" using assms(1,2) by (simp_all add: process_inv_def)
  have s: "suffix (s # ss) run_body" using b assms(3) by (simp add: body_inv_def)
  note defs = process_inv_def threads_inv_def body_inv_def pending_defers_def ready_def
  note this = s [unfolded body_suffix] b t assms(2-5)
  then show ?thesis
  proof (elim disjE conjE)
    assume "s = MakePaid" and ss: "ss = [StartRTMP, StartHTTP, Select, Shutdown, AwaitRequests]"
    with assms(5) obtain k where "NewPaidEngine (dp_LOC (pr_deps p)) c = Inr k"
        and "q = (case k of None \<Rightarrow> p\<lparr>pr_deps := (pr_deps p)\<lparr>dp_RTMPProbe := Some (NewListener (Host c) (LiveRTMPPort c))\<rparr>\<rparr>
          | Some k \<Rightarrow> p\<lparr>pr_deps := (pr_deps p)\<lparr>dp_RTMPProbe := Some (NewListener (Host c) (LiveRTMPPort c)), dp_Paid := Some k\<rparr>,
              pr_paid := Some loop_start, pr_defers := [StopPaid, AwaitPaid] @ pr_defers p\<rparr>)"
      by (clarsimp simp: Let_def split: sum.splits option.splits)
    with \<open>s = MakePaid\<close> ss b t assms(2,3) show ?thesis
      by (cases k) (auto simp: defs left_loop_start loop_reachable.start dest!: NewPaidEngine_None)
  qed (clarsimp simp: defs; fail | clarsimp simp: defs split: sum.splits; fail | clarsimp simp: defs make_clients_def Let_def; fail |
      simp add: waits_def; fail | (clarsimp simp: defs split: sum.splits prod.splits, auto dest: Open_pool CheckLegacyDrain_ok; fail))+
qed

lemma inv_body:
  "process_inv B c p \<Longrightarrow> pr_result p = None \<Longrightarrow> threads_inv B c p \<and> body_inv B c p"
  by (simp add: process_inv_def)

lemma inv_returned:
  "process_inv B c p \<Longrightarrow> pr_result p \<noteq> None \<Longrightarrow> threads_inv B c p \<and> return_inv p"
  by (simp add: process_inv_def)

lemma body_order:
  assumes "suffix ss run_body"
  shows "NotifyContext \<in> set ss \<longrightarrow> OpenPool' \<in> set ss" and "OpenPool' \<in> set ss \<longrightarrow> MakePaid \<in> set ss"
  using assms by (auto simp: run_body_def suffix_Cons)

text \<open>When the body is left, the deferred calls are those of what was started.\<close>

lemma body_defers:
  assumes "body_inv B c p"
  shows "suffix (pr_defers p) [StopPaid, AwaitPaid, ClosePool, Stop]"
proof -
  have "suffix (pr_todo p) run_body" "OpenPool' \<in> set (pr_todo p) \<longleftrightarrow> pr_pool p = NoPool"
      "MakePaid \<in> set (pr_todo p) \<longrightarrow> pr_paid p = None" "pr_defers p = pending_defers p"
    using assms by (simp_all add: body_inv_def)
  moreover from this(1-3) have "pr_paid p \<noteq> None \<longrightarrow> pr_pool p \<noteq> NoPool" "pr_pool p \<noteq> NoPool \<longrightarrow> NotifyContext \<notin> set (pr_todo p)"
    using body_order [of "pr_todo p"] by auto
  ultimately show ?thesis by (simp add: pending_defers_def suffix_Cons)
qed

lemma leave_body:
  assumes "body_inv B c p" and "pr_http p \<notin> {HttpLaunching, HttpServing}"
  shows "return_inv (p\<lparr>pr_todo := [], pr_result := Some r\<rparr>)"
proof -
  have "pr_paid p \<noteq> None \<longrightarrow> AwaitPaid \<in> set (pr_defers p)" "AwaitPaid \<in> set (pr_defers p) \<longrightarrow> StopPaid \<in> set (pr_defers p) \<and> pr_paid p \<noteq> None"
      "pr_pool p \<noteq> ClosedPool"
    using assms(1) unfolding body_inv_def pending_defers_def by (simp; fail | auto split: if_splits; fail)+
  with assms(2) body_defers [OF assms(1)] show ?thesis by (auto simp: return_inv_def)
qed

text \<open>A statement that fails has changed nothing.\<close>

lemma inv_fail:
  assumes "process_inv B c p" and "pr_result p = None" and "pr_todo p = s # ss" and "\<not> waits s"
  shows "process_inv B c (p\<lparr>pr_todo := [], pr_result := Some r\<rparr>)"
proof -
  have b: "body_inv B c p" and t: "threads_inv B c p" using inv_body [OF assms(1,2)] by simp_all
  have "suffix (s # ss) run_body" using b assms(3) by (simp add: body_inv_def)
  then have "StartHTTP \<in> set (s # ss)" using assms(4) by (auto simp: body_suffix waits_def)
  then have "pr_http p = HttpIdle" using b assms(3) by (simp add: body_inv_def)
  then have "return_inv (p\<lparr>pr_todo := [], pr_result := Some r\<rparr>)" using leave_body [OF b] by simp
  moreover have "threads_inv B c (p\<lparr>pr_todo := [], pr_result := Some r\<rparr>)" using t by (simp add: threads_inv_def)
  ultimately show ?thesis by (simp add: process_inv_def)
qed

lemma inv_wait:
  assumes "process_inv B c p" and "pr_result p = None" and "pr_todo p = s # ss" and "waits s"
    and "h = (if s = Shutdown then if pr_http p = HttpFailed then HttpFailed else HttpDown else pr_http p)"
  shows "process_inv B c (p\<lparr>pr_todo := ss, pr_log := l, pr_http := h\<rparr>)"
proof -
  have b: "body_inv B c p" and t: "threads_inv B c p" using inv_body [OF assms(1,2)] by simp_all
  have s: "s = Select \<and> ss = [Shutdown, AwaitRequests] \<or> s = Shutdown \<and> ss = [AwaitRequests] \<or> s = AwaitRequests \<and> ss = []"
  proof -
    have "suffix (s # ss) run_body" using b assms(3) by (simp add: body_inv_def)
    then show ?thesis using assms(4) by (auto simp: body_suffix waits_def)
  qed
  have "StartHTTP \<notin> set (pr_todo p)" using s assms(3) by auto
  then have "pr_http p \<noteq> HttpIdle" using b by (simp add: body_inv_def)
  then have "threads_inv B c (p\<lparr>pr_todo := ss, pr_log := l, pr_http := h\<rparr>)"
    using t assms(5) by (simp add: threads_inv_def)
  moreover have "body_inv B c (p\<lparr>pr_todo := ss, pr_log := l, pr_http := h\<rparr>)"
    using s by (elim disjE conjE; use b assms(3,5) in \<open>simp add: body_inv_def pending_defers_def\<close>)
  ultimately show ?thesis using assms(2) by (simp add: process_inv_def)
qed

text \<open>What the parts of the invariant depend on.\<close>

lemma body_same:
  assumes "body_inv B c p" and "pr_todo q = pr_todo p" and "pr_defers q = pr_defers p" and "pr_pool q = pr_pool p"
    and "pr_deps q = pr_deps p" and "pr_refresher p = RefreshOff \<Longrightarrow> pr_refresher q = RefreshOff"
    and "pr_paid q = None \<longleftrightarrow> pr_paid p = None" and "pr_rtmp p = None \<Longrightarrow> pr_rtmp q = None"
    and "pr_http q = HttpIdle \<longleftrightarrow> pr_http p = HttpIdle"
    and "pr_http p \<in> {HttpDown, HttpFailed} \<Longrightarrow> pr_http q \<in> {HttpDown, HttpFailed}"
  shows "body_inv B c q"
  using assms(1,6,8,10) unfolding body_inv_def pending_defers_def assms(2-5,7,9) by (elim conjE, intro conjI)
    (assumption | (rule impI, rule assms(6), erule (1) mp) | (rule impI, rule assms(8), erule (1) mp) |
      (erule disjE, rule disjI1, assumption, rule disjI2, rule assms(10), assumption))+

lemma return_same:
  assumes "return_inv p" and "pr_todo q = pr_todo p" and "pr_defers q = pr_defers p" and "pr_pool q = pr_pool p"
    and "pr_cancelled p \<Longrightarrow> pr_cancelled q" and "pr_paid q = None \<longleftrightarrow> pr_paid p = None" and "pr_paid_done p \<Longrightarrow> pr_paid_done q"
    and "pr_http p \<notin> {HttpLaunching, HttpServing} \<Longrightarrow> pr_http q \<notin> {HttpLaunching, HttpServing}"
  shows "return_inv q"
  using assms(1,5,7,8) unfolding return_inv_def assms(2-4,6) by blast

lemma threads_same:
  assumes "threads_inv B c p" and "pr_refresher p = RefreshOff \<Longrightarrow> pr_refresher q = RefreshOff" and "pr_paid q = pr_paid p"
    and "pr_rtmp p = None \<Longrightarrow> pr_rtmp q = None" and "pr_http p = HttpIdle \<Longrightarrow> pr_http q = HttpIdle" and "pr_pool q = pr_pool p"
    and "(0 < pr_requests p \<Longrightarrow> pr_http p \<noteq> HttpIdle) \<Longrightarrow> 0 < pr_requests q \<Longrightarrow> pr_http q \<noteq> HttpIdle"
    and "(pr_errCh p \<noteq> None \<Longrightarrow> pr_http p = HttpFailed) \<Longrightarrow> pr_errCh q \<noteq> None \<Longrightarrow> pr_http q = HttpFailed"
    and "pr_cancelled p \<Longrightarrow> pr_cancelled q" and "pr_paid_done q = pr_paid_done p"
  shows "threads_inv B c q"
proof -
  have started: "pr_refresher q \<noteq> RefreshOff \<or> pr_paid p \<noteq> None \<or> pr_rtmp q \<noteq> None \<or> pr_http q \<noteq> HttpIdle \<Longrightarrow>
      pr_refresher p \<noteq> RefreshOff \<or> pr_paid p \<noteq> None \<or> pr_rtmp p \<noteq> None \<or> pr_http p \<noteq> HttpIdle"
    and served: "pr_rtmp q \<noteq> None \<or> pr_http q \<noteq> HttpIdle \<Longrightarrow> pr_rtmp p \<noteq> None \<or> pr_http p \<noteq> HttpIdle"
    using assms(2,4,5) by auto
  note t = assms(1) [unfolded threads_inv_def]
  have "0 < pr_requests q \<longrightarrow> pr_http q \<noteq> HttpIdle" "pr_errCh q \<noteq> None \<longrightarrow> pr_http q = HttpFailed"
    using assms(7,8) t by simp_all
  moreover have "pr_rtmp q \<noteq> None \<or> pr_http q \<noteq> HttpIdle \<longrightarrow>
      (pr_paid p = None \<longleftrightarrow> NewLocClient (LOCBaseURL c) (LOCAPIKey c) sdkIdentity (30 * second) = None)"
    by (rule impI, rule mp [OF conjunct1 [OF conjunct2 [OF t]]], erule served)
  moreover have "\<forall>l. pr_paid p = Some l \<longrightarrow> loop_reachable l \<and> (lp_closed l \<longrightarrow> pr_cancelled q) \<and>
      (pr_paid_done p \<longrightarrow> lp_closed l \<and> left_to_do l = 0)"
    using assms(9) t by simp
  ultimately show ?thesis
    unfolding threads_inv_def assms(3,6,10) using mp [OF conjunct1 [OF t] started] conjunct2 [OF t] by (intro conjI) (assumption | simp)+
qed

lemma inv_unwind:
  assumes "process_inv B c p" and "pr_result p \<noteq> None" and "pr_defers p = d # ds"
    and "q = (case d of AwaitPaid \<Rightarrow> p\<lparr>pr_defers := ds\<rparr> | ClosePool \<Rightarrow> p\<lparr>pr_defers := ds, pr_pool := ClosedPool\<rparr>
      | _ \<Rightarrow> p\<lparr>pr_defers := ds, pr_cancelled := True\<rparr>)" and "d = AwaitPaid \<Longrightarrow> pr_paid_done p"
  shows "process_inv B c q"
proof -
  have t: "threads_inv B c p" and r: "return_inv p" using inv_returned [OF assms(1,2)] by simp_all
  have "suffix (d # ds) [StopPaid, AwaitPaid, ClosePool, Stop]" using r assms(3) by (simp add: return_inv_def)
  then have d: "d = StopPaid \<and> ds = [AwaitPaid, ClosePool, Stop] \<or> d = AwaitPaid \<and> ds = [ClosePool, Stop] \<or>
      d = ClosePool \<and> ds = [Stop] \<or> d = Stop \<and> ds = []"
    by (auto simp: suffix_Cons)
  have "return_inv q" using d by (elim disjE conjE; use r assms(3-5) in \<open>simp add: return_inv_def suffix_Cons\<close>)
  moreover have "threads_inv B c q" using t d assms(4) by (elim disjE conjE; simp add: threads_inv_def)
  moreover have "pr_result q \<noteq> None" using d assms(2,4) by auto
  ultimately show ?thesis by (auto simp: process_inv_def)
qed

lemma inv_main:
  assumes "main_step B c p q" and i: "process_inv B c p"
  shows "process_inv B c q"
  using assms(1)
proof cases
  case (exec s ss q')
  then show ?thesis using inv_exec [OF i] by simp
next
  case (fail s ss e)
  then show ?thesis using inv_fail [OF i] by simp
next
  case (signalled ss)
  then show ?thesis using inv_wait [OF i, of Select ss "pr_http p" "pr_log p @ [''shutdown signal received'']"] by (simp add: waits_def)
next
  case (server_failed ss e)
  have "threads_inv B c p \<and> body_inv B c p" using inv_body [OF i server_failed(2)] .
  moreover from this have "pr_http p = HttpFailed" using server_failed(4) by (simp add: threads_inv_def)
  moreover have rec: "p\<lparr>pr_todo := [], pr_cancelled := True, pr_errCh := None, pr_result := Some (Some (ServerErr e))\<rparr> =
      p\<lparr>pr_cancelled := True, pr_errCh := None, pr_todo := [], pr_result := Some (Some (ServerErr e))\<rparr>" by simp
  ultimately show ?thesis
    using leave_body [OF body_same, of B c p "p\<lparr>pr_cancelled := True, pr_errCh := None\<rparr>" "Some (ServerErr e)"]
      threads_same [of B c p "p\<lparr>pr_todo := [], pr_cancelled := True, pr_errCh := None, pr_result := Some (Some (ServerErr e))\<rparr>"]
    unfolding server_failed(1) rec by (simp add: process_inv_def threads_inv_def)
next
  case (shutdown ss)
  then show ?thesis using inv_wait [OF i, of Shutdown ss _ "pr_log p"] by (simp add: waits_def)
next
  case (drained ss)
  then show ?thesis using inv_wait [OF i, of AwaitRequests ss "pr_http p"] by (simp add: waits_def)
next
  case (timeout ss)
  then show ?thesis using inv_wait [OF i, of AwaitRequests ss "pr_http p"] by (simp add: waits_def)
next
  case return
  have b: "threads_inv B c p \<and> body_inv B c p" using inv_body [OF i return(2)] .
  then have "pr_http p \<notin> {HttpLaunching, HttpServing}" using return(3) by (auto simp: body_inv_def)
  moreover have rec: "p\<lparr>pr_result := Some None\<rparr> = p\<lparr>pr_todo := [], pr_result := Some None\<rparr>" using return(3) by (cases p) simp
  ultimately show ?thesis
    using b leave_body [of B c p None] unfolding return(1) rec by (auto simp: process_inv_def elim!: threads_same)
next
  case (stop d ds)
  then show ?thesis using inv_unwind [OF i stop(2,3) refl] by (auto split: deferred.splits)
next
  case (await_paid ds)
  then show ?thesis using inv_unwind [OF i await_paid(2,3) refl] by simp
next
  case (close_pool ds)
  then show ?thesis using inv_unwind [OF i close_pool(2,3) refl] by simp
qed

text \<open>A thread's step keeps the invariant when it keeps each part.\<close>

lemma inv_parts:
  assumes "process_inv B c p" and "pr_result q = pr_result p" and "threads_inv B c p \<Longrightarrow> threads_inv B c q"
    and "body_inv B c p \<Longrightarrow> body_inv B c q" and "return_inv p \<Longrightarrow> return_inv q"
  shows "process_inv B c q"
  using assms by (simp add: process_inv_def split: if_splits)

lemma inv_paid_step:
  assumes i: "process_inv B c p" and p: "pr_paid p = Some l" and l: "loop_step l l'" "lp_closed l' \<Longrightarrow> lp_closed l \<or> pr_cancelled p"
  shows "process_inv B c (p\<lparr>pr_paid := Some l'\<rparr>)"
proof (rule inv_parts [OF i])
  assume t: "threads_inv B c p"
  then have "loop_reachable l" "lp_closed l \<longrightarrow> pr_cancelled p" "pr_paid_done p \<longrightarrow> lp_closed l \<and> left_to_do l = 0"
    using p by (simp_all add: threads_inv_def)
  moreover from this(3) have "\<not> pr_paid_done p" using closed_step [OF l(1)] worker_step_decreases [of l l'] by auto
  ultimately show "threads_inv B c (p\<lparr>pr_paid := Some l'\<rparr>)"
    using t p l loop_reachable.step [of l l'] by (simp add: threads_inv_def) blast
qed (simp, (erule body_same; simp add: p), (erule return_same; simp add: p))

lemma inv_scan: "process_inv B c (p\<lparr>pr_scan := n\<rparr>) = process_inv B c p"
  by (simp add: process_inv_def threads_inv_def body_inv_def return_inv_def pending_defers_def)

lemma send_closed: "lp_closed (send l) = lp_closed l"
  by (simp add: send_def split: option.split prod.split)

lemma work_closed: "worker_step l l' \<Longrightarrow> lp_closed l' = lp_closed l"
  by (auto elim!: worker_stepE simp: take_next_def finish_def split: list.splits if_splits)

lemma inv_thread:
  assumes "thread_step B c p q" and i: "process_inv B c p"
  shows "process_inv B c q"
  using assms(1)
proof cases
  case (paid_mark l n k j)
  have "process_inv B c (p\<lparr>pr_paid := Some (mark k j l)\<rparr>)"
    by (rule inv_paid_step [OF i paid_mark(2) loop_step.mark [OF paid_mark(3,4)]]) (use paid_mark(3) in \<open>simp add: mark_def split: if_splits\<close>)
  then have "process_inv B c (p\<lparr>pr_paid := Some (mark k j l)\<rparr>\<lparr>pr_scan := n\<rparr>)" by (simp only: inv_scan)
  then show ?thesis by (simp add: paid_mark(1))
next
  case (paid_send l)
  then show ?thesis using inv_paid_step [OF i paid_send(2) loop_step.send [OF paid_send(3,4)]] by (simp add: send_closed)
next
  case (paid_close l)
  then show ?thesis using inv_paid_step [OF i paid_close(2) loop_step.close [OF paid_close(3,4)]] by simp
next
  case (paid_work l l')
  then show ?thesis using inv_paid_step [OF i paid_work(2) loop_step.work [OF paid_work(3)]] by (simp add: work_closed)
next
  case (paid_done l)
  then show ?thesis
    using inv_parts [OF i, of q] body_same [of B c p q] return_same [of p q] by (simp add: threads_inv_def)
qed (rule inv_parts [OF i]; (erule threads_same body_same return_same)?; auto simp: threads_inv_def)+

lemma reachable_process: "process_reachable B c p \<Longrightarrow> process_inv B c p"
  by (induction rule: process_reachable.induct) (simp_all add: inv_start inv_main inv_thread)

section \<open>Start and shutdown\<close>

text \<open>C32: nothing is served before the gateway is ready. Whenever the HTTP server accepts or a request is in
  progress, the RTMP listener is bound, or a worker processes an operation, the migrations have been
  applied, no legacy work was left in the database, the pool has been opened, and, where the payment service is
  configured, the scheduling loop that settles paid work has been started.\<close>

theorem serves_only_when_ready:
  assumes "process_reachable B c p"
    and "pr_http p = HttpServing \<or> 0 < pr_requests p \<or> (\<exists>l. pr_rtmp p = Some l \<and> ln_listening l) \<or>
      (\<exists>l k. pr_paid p = Some l \<and> lp_working l k \<noteq> [])"
  shows "ready B \<and> pr_pool p \<noteq> NoPool \<and> (LOCBaseURL c \<noteq> '''' \<and> LOCAPIKey c \<noteq> '''' \<longrightarrow> pr_paid p \<noteq> None)"
proof -
  have t: "threads_inv B c p" using reachable_process [OF assms(1)] by (simp add: process_inv_def)
  have "0 < pr_requests p \<Longrightarrow> pr_http p \<noteq> HttpIdle" using t by (simp add: threads_inv_def)
  with assms(2) have started: "pr_paid p \<noteq> None \<or> pr_rtmp p \<noteq> None \<or> pr_http p \<noteq> HttpIdle" by auto
  then have "ready B \<and> pr_pool p \<noteq> NoPool" using t by (simp add: threads_inv_def)
  moreover have "pr_paid p \<noteq> None" if "LOCBaseURL c \<noteq> ''''" "LOCAPIKey c \<noteq> ''''"
  proof -
    have "NewLocClient (LOCBaseURL c) (LOCAPIKey c) sdkIdentity (30 * second) \<noteq> None" using that by (simp add: NewLocClient_def)
    then show ?thesis using t started by (auto simp: threads_inv_def)
  qed
  ultimately show ?thesis by blast
qed

text \<open>C33: the pool is closed last. Once the database pool has been closed, the HTTP server accepts nothing any
  more, and the scheduling loop, if it ran, has ended with its queues empty and no operation marked or
  being processed: no worker is left that could lose its database in the middle of an attempt.\<close>

theorem pool_outlives_workers:
  assumes "process_reachable B c p" and "pr_pool p = ClosedPool"
  shows "pr_http p \<notin> {HttpLaunching, HttpServing} \<and> (\<forall>l. pr_paid p = Some l \<longrightarrow>
    pr_cancelled p \<and> lp_closed l \<and> lp_busy l = {} \<and> (\<forall>k. lp_queue l k = [] \<and> lp_working l k = []))"
proof -
  have i: "process_inv B c p" using reachable_process [OF assms(1)] .
  then have r: "return_inv p" and t: "threads_inv B c p" using assms(2) by (auto simp: process_inv_def body_inv_def split: if_splits)
  have "pr_cancelled p \<and> lp_closed l \<and> lp_busy l = {} \<and> (\<forall>k. lp_queue l k = [] \<and> lp_working l k = [])"
    if l: "pr_paid p = Some l" for l
  proof -
    have "pr_paid_done p" using r l assms(2) by (auto simp: return_inv_def)
    with t l have "loop_reachable l" "lp_closed l" "left_to_do l = 0" "pr_cancelled p" by (simp_all add: threads_inv_def)
    with drained_empty show ?thesis by blast
  qed
  then show ?thesis using r by (auto simp: return_inv_def)
qed

section \<open>The end\<close>

text \<open>The steps that count towards the end of the process: the main thread's, and those of the other threads
  that change anything of the scheduling loop. Requests, connections, refreshes and signals are the steps
  of others. Together these are all steps of the process.\<close>

definition engine_part :: "process \<Rightarrow> loop option \<times> bool \<times> nat" where
  "engine_part p = (pr_paid p, pr_paid_done p, pr_scan p)"

inductive own_step :: "boot \<Rightarrow> BootConfig \<Rightarrow> process \<Rightarrow> process \<Rightarrow> bool" for B c where
  main: "alive p \<Longrightarrow> main_step B c p q \<Longrightarrow> own_step B c p q"
| engine: "alive p \<Longrightarrow> thread_step B c p q \<Longrightarrow> engine_part q \<noteq> engine_part p \<Longrightarrow> own_step B c p q"

definition other_step :: "boot \<Rightarrow> BootConfig \<Rightarrow> process \<Rightarrow> process \<Rightarrow> bool" where
  "other_step B c p q \<longleftrightarrow> alive p \<and> thread_step B c p q \<and> engine_part q = engine_part p"

text \<open>A run of the whole process in which \<open>n\<close> steps are its own.\<close>

inductive process_run :: "boot \<Rightarrow> BootConfig \<Rightarrow> process \<Rightarrow> nat \<Rightarrow> process \<Rightarrow> bool" for B c p where
  start: "process_run B c p 0 p"
| own: "process_run B c p n q \<Longrightarrow> own_step B c q r \<Longrightarrow> process_run B c p (Suc n) r"
| other: "process_run B c p n q \<Longrightarrow> other_step B c q r \<Longrightarrow> process_run B c p n r"

lemma all_steps: "own_step B c p q \<or> other_step B c p q \<longleftrightarrow> alive p \<and> (main_step B c p q \<or> thread_step B c p q)"
  by (auto simp: other_step_def elim: own_step.cases intro: own_step.intros)

lemma step_reachable:
  "own_step B c p q \<or> other_step B c p q \<Longrightarrow> process_reachable B c p \<Longrightarrow> process_reachable B c q"
  unfolding all_steps by (blast intro: process_reachable.main process_reachable.thread)

definition loop_left :: "loop \<Rightarrow> nat" where
  "loop_left l = left_to_do l + (if lp_closed l then 0 else 1) + (if lp_offer l = None then 0 else 3)"

definition steps_left :: "process \<Rightarrow> nat" where
  "steps_left p = 5 * length (pr_todo p) + (if pr_result p = None then 1 else 0) + length (pr_defers p) +
     (case pr_paid p of None \<Rightarrow> 0 | Some l \<Rightarrow> loop_left l + (if pr_paid_done p then 0 else 1)) + 4 * pr_scan p"

lemma exec_effect:
  assumes "exec_stmt B c s p = Inr q"
  shows "pr_todo q = pr_todo p \<and> pr_result q = pr_result p \<and> pr_cancelled q = pr_cancelled p \<and> pr_paid_done q = pr_paid_done p \<and>
    pr_scan q = pr_scan p \<and> (pr_refresher p \<noteq> RefreshPanicked \<longrightarrow> pr_refresher q \<noteq> RefreshPanicked)"
    and "s \<noteq> MakePaid \<Longrightarrow> pr_paid q = pr_paid p \<and> length (pr_defers q) \<le> length (pr_defers p) + 1"
    and "s = MakePaid \<Longrightarrow> pr_paid q = pr_paid p \<and> pr_defers q = pr_defers p \<or>
      pr_paid q = Some loop_start \<and> length (pr_defers q) = length (pr_defers p) + 2"
  using assms by (cases s; clarsimp simp: make_clients_def Let_def split: sum.splits prod.splits option.splits)+

lemma main_decreases:
  assumes "main_step B c p q" and i: "process_inv B c p"
  shows "steps_left q < steps_left p"
  using assms(1)
proof cases
  case (exec s ss q')
  have "pr_paid p = None" if "s = MakePaid"
    using inv_body [OF i exec(2)] exec(3) that by (simp add: body_inv_def)
  moreover have "loop_left loop_start = 1" by (simp add: loop_left_def left_loop_start) (simp add: loop_start_def)
  ultimately show ?thesis
    using exec_effect [OF exec(5)] exec(1-3) by (cases "s = MakePaid") (auto simp: steps_left_def split: option.splits)
qed (auto simp: steps_left_def)

lemma mark_decreases:
  "lp_offer l = None \<Longrightarrow> loop_left (mark k i l) \<le> loop_left l + 3"
  by (simp add: mark_def loop_left_def left_to_do_def)

lemma send_decreases: "lp_offer l \<noteq> None \<Longrightarrow> loop_left (send l) < loop_left l"
proof -
  assume "lp_offer l \<noteq> None"
  then obtain k u where "lp_offer l = Some (k, u)" by (cases "lp_offer l") auto
  then show ?thesis by (cases k) (auto simp: loop_left_def send_def left_to_do_def)
qed

lemma work_decreases: "worker_step l l' \<Longrightarrow> loop_left l' < loop_left l"
  using worker_step_decreases [of l l'] work_closed [of l l']
  by (auto simp: loop_left_def elim!: worker_stepE simp: take_next_def finish_def split: list.splits if_splits)

lemma thread_decreases:
  assumes "thread_step B c p q" and "pr_cancelled p" and "engine_part q \<noteq> engine_part p"
  shows "steps_left q < steps_left p"
  using assms(1)
proof cases
  case (paid_mark l n k i)
  then show ?thesis using mark_decreases [OF paid_mark(4), of k i] by (simp add: steps_left_def)
next
  case (paid_send l)
  then show ?thesis using send_decreases [OF paid_send(4)] by (simp add: steps_left_def)
next
  case (paid_close l)
  then show ?thesis by (simp add: steps_left_def loop_left_def left_to_do_def)
next
  case (paid_work l l')
  then show ?thesis using work_decreases [OF paid_work(3)] by (simp add: steps_left_def)
next
  case (paid_done l)
  then show ?thesis by (simp add: steps_left_def)
qed (use assms(2,3) in \<open>simp_all add: engine_part_def\<close>)

lemma own_decreases:
  assumes "own_step B c p q" and "process_inv B c p" and "pr_cancelled p"
  shows "steps_left q < steps_left p"
  using assms(1) by cases (use main_decreases assms(2,3) thread_decreases in blast)+

lemma thread_keeps:
  "thread_step B c p q \<Longrightarrow> pr_todo q = pr_todo p \<and> pr_result q = pr_result p \<and> pr_defers q = pr_defers p \<and>
     (pr_cancelled p \<longrightarrow> pr_cancelled q)"
  by (erule thread_stepE) simp_all

lemma other_keeps: "other_step B c p q \<Longrightarrow> steps_left q = steps_left p"
  using thread_keeps [of B c p q] by (simp add: other_step_def steps_left_def engine_part_def)

lemma main_cancelled: "main_step B c p q \<Longrightarrow> pr_cancelled p \<Longrightarrow> pr_cancelled q"
  by (erule main_stepE) (auto dest: exec_effect(1))

lemma step_cancelled: "own_step B c p q \<or> other_step B c p q \<Longrightarrow> pr_cancelled p \<Longrightarrow> pr_cancelled q"
  unfolding all_steps using main_cancelled thread_keeps by blast

lemma scan_bounded: "process_reachable B c p \<Longrightarrow> pr_scan p \<le> scan_limit"
proof (induction rule: process_reachable.induct)
  case (main p q)
  from main(3) have "pr_scan q = pr_scan p" by cases (auto dest: exec_effect(1))
  with main show ?case by simp
next
  case (thread p q)
  from thread(3) show ?case by cases (use thread.IH in simp_all)
qed (simp add: process_start_def)

lemma main_possible:
  assumes "alive p" and "pr_result p = None" and "pr_cancelled p"
  shows "\<exists>q. own_step B c p q"
proof (cases "pr_todo p")
  case Nil
  then show ?thesis using own_step.main [OF assms(1) main_step.return [OF assms(2)]] by blast
next
  case (Cons s ss)
  show ?thesis
  proof (cases "waits s")
    case True
    then have "s = Select \<or> s = Shutdown \<or> s = AwaitRequests" by (simp add: waits_def)
    then show ?thesis
    proof (elim disjE)
      assume "s = Select"
      with Cons show ?thesis using own_step.main [OF assms(1) main_step.signalled [OF assms(2) _ assms(3)]] by blast
    next
      assume "s = Shutdown"
      with Cons show ?thesis using own_step.main [OF assms(1) main_step.shutdown [OF assms(2)]] by blast
    next
      assume "s = AwaitRequests"
      with Cons show ?thesis using own_step.main [OF assms(1) main_step.timeout [OF assms(2)]] by blast
    qed
  next
    case False
    show ?thesis
    proof (cases "exec_stmt B c s p")
      case (Inl e)
      then show ?thesis using own_step.main [OF assms(1) main_step.fail [OF assms(2) Cons False]] by blast
    next
      case (Inr q)
      then show ?thesis using own_step.main [OF assms(1) main_step.exec [OF assms(2) Cons False]] by blast
    qed
  qed
qed

lemma paid_possible:
  assumes "alive p" and "pr_paid p = Some l" and "\<not> pr_paid_done p" and "pr_cancelled p"
  shows "\<exists>q. own_step B c p q"
proof -
  have "\<exists>q. thread_step B c p q \<and> engine_part q \<noteq> engine_part p"
  proof (cases "lp_closed l")
    case True
    show ?thesis
    proof (cases "left_to_do l = 0")
      case False
      then have "\<exists>l'. worker_step l l'" using stuck_empty [of l] by auto
      then obtain l' where l': "worker_step l l'" ..
      have "loop_left l' < loop_left l" using work_decreases [OF l'] .
      then have "l' \<noteq> l" by auto
      then show ?thesis using thread_step.paid_work [OF assms(2) l', of B c] assms(2)
        by (intro exI [of _ "p\<lparr>pr_paid := Some l'\<rparr>"]) (simp add: engine_part_def)
    qed (use thread_step.paid_done [OF assms(2) True _ assms(3), of B c] assms(3) in
        \<open>auto simp: engine_part_def intro!: exI [of _ "p\<lparr>pr_paid_done := True\<rparr>"]\<close>)
  next
    case op: False
    show ?thesis
    proof (cases "lp_offer l = None")
      case offer: True
      show ?thesis
      proof (cases "pr_scan p")
        case 0
        then show ?thesis using thread_step.paid_close [OF assms(2) op offer 0 assms(4), of B c] assms(2) op
          by (intro exI [of _ "p\<lparr>pr_paid := Some (l\<lparr>lp_closed := True\<rparr>)\<rparr>"]) (auto simp: engine_part_def dest: arg_cong [where f = lp_closed])
      next
        case (Suc n)
        then show ?thesis using thread_step.paid_mark [OF assms(2) op offer Suc, of B c AbrLane "''i''"]
          by (intro exI [of _ "p\<lparr>pr_paid := Some (mark AbrLane ''i'' l), pr_scan := n\<rparr>"]) (simp add: engine_part_def)
      qed
    next
      case False
      have "loop_left (send l) < loop_left l" using send_decreases [OF False] .
      then have "send l \<noteq> l" by (metis less_irrefl)
      then show ?thesis using thread_step.paid_send [OF assms(2) op False, of B c] assms(2)
        by (intro exI [of _ "p\<lparr>pr_paid := Some (send l)\<rparr>"]) (simp add: engine_part_def)
    qed
  qed
  then show ?thesis using own_step.engine [OF assms(1)] by blast
qed

lemma unwind_possible:
  assumes "alive p" and i: "process_inv B c p" and r: "pr_result p \<noteq> None"
  shows "\<exists>q. own_step B c p q"
proof -
  have ret: "return_inv p" using inv_returned [OF i r] by simp
  obtain d ds where d: "pr_defers p = d # ds" using assms(1) r by (cases "pr_defers p") (auto simp: alive_def exited_def)
  show ?thesis
  proof (cases "d = AwaitPaid")
    case True
    then have "ds = [ClosePool, Stop]" "pr_paid p \<noteq> None" using ret d by (auto simp: return_inv_def suffix_Cons)
    then have "pr_cancelled p" using ret d True by (simp add: return_inv_def)
    then show ?thesis
      using paid_possible [OF assms(1)] own_step.main [OF assms(1) main_step.await_paid [OF r d [unfolded True]]] \<open>pr_paid p \<noteq> None\<close> by blast
  next
    case False
    show ?thesis
      using own_step.main [OF assms(1) main_step.stop [OF r d]] own_step.main [OF assms(1) main_step.close_pool [OF r, of ds]] d False
      by (cases d) auto
  qed
qed

text \<open>C34: a process that is told to stop ends. From any state in which the context is cancelled, which a signal,
  a failed server and the deferred calls of \<^verbatim>\<open>run\<close> do, however all threads are scheduled and whatever requests,
  connections and refreshes still happen in between, the main thread, the scanner and the workers together
  take at most 238 further steps, the scanner's last scan included; and where they can take none any
  more, \<^verbatim>\<open>run\<close> has returned with its deferred calls done, or the refresher's panic has ended the process: no
  thread waits for another forever.\<close>

theorem stopped_process_exits:
  assumes "process_reachable B c p" and "pr_cancelled p" and "process_run B c p n q"
  shows "n \<le> 238 \<and> ((\<nexists>r. own_step B c q r) \<longrightarrow> exited q \<or> pr_refresher q = RefreshPanicked)"
proof -
  have run: "process_reachable B c q \<and> pr_cancelled q \<and> steps_left q + n \<le> steps_left p"
    using assms(3)
  proof induction
    case (own n q r)
    with step_reachable [of B c q r] step_cancelled [of B c q r] own_decreases [OF own(2) reachable_process] show ?case by fastforce
  next
    case (other n q r)
    with step_reachable [of B c q r] step_cancelled [of B c q r] other_keeps [OF other(2)] show ?case by simp
  qed (use assms(1,2) in simp)
  moreover have "steps_left p \<le> 238"
  proof -
    have i: "process_inv B c p" using reachable_process [OF assms(1)] .
    have "length (pr_todo p) \<le> 12 \<and> length (pr_defers p) \<le> 4"
    proof (cases "pr_result p = None")
      case True
      then have "body_inv B c p" using inv_body [OF i] by simp
      then have "suffix (pr_todo p) run_body" "suffix (pr_defers p) [StopPaid, AwaitPaid, ClosePool, Stop]"
        using body_defers by (simp_all add: body_inv_def)
      then show ?thesis by (auto dest!: suffix_length_le simp: run_body_def)
    next
      case False
      then have "return_inv p" using inv_returned [OF i] by simp
      then show ?thesis by (auto simp: return_inv_def dest!: suffix_length_le)
    qed
    moreover have "loop_left l \<le> 44" if "pr_paid p = Some l" for l
    proof -
      have "loop_reachable l" using i that by (simp add: process_inv_def threads_inv_def)
      then have "room_inv l" using reachable_loop_inv by blast
      then have "length (lp_queue l AbrLane) \<le> 2" "length (lp_queue l LiveLane) \<le> 16" "length (lp_working l AbrLane) \<le> 2" "length (lp_working l LiveLane) \<le> 2"
        unfolding room_inv_def workers_per_lane_def by (metis queue_cap.simps)+
      then show ?thesis by (simp add: loop_left_def left_to_do_def)
    qed
    moreover have "pr_scan p \<le> 32" using scan_bounded [OF assms(1)] by (simp add: scan_limit_def)
    ultimately show ?thesis by (auto simp: steps_left_def split: option.splits)
  qed
  moreover have "exited q \<or> pr_refresher q = RefreshPanicked" if stuck: "\<nexists>r. own_step B c q r"
  proof (rule ccontr)
    assume "\<not> (exited q \<or> pr_refresher q = RefreshPanicked)"
    then have "alive q" by (simp add: alive_def)
    then show False
      using stuck main_possible unwind_possible [OF _ reachable_process] run by blast
  qed
  ultimately show ?thesis by (intro conjI impI) (linarith, blast)
qed

section \<open>A concrete process\<close>

text \<open>The main thread alone through statements that do not wait.\<close>

fun boot_run :: "boot \<Rightarrow> BootConfig \<Rightarrow> statement list \<Rightarrow> process \<Rightarrow> exit_error + process" where
  "boot_run B c [] p = Inr p"
| "boot_run B c (s # ss) p = (case exec_stmt B c s p of Inl e \<Rightarrow> Inl e | Inr q \<Rightarrow> boot_run B c ss (q\<lparr>pr_todo := tl (pr_todo p)\<rparr>))"

lemma boot_reachable:
  assumes "process_reachable B c p" and "pr_result p = None" and "pr_refresher p \<noteq> RefreshPanicked"
    and "pr_todo p = ss @ rest" and "list_all (\<lambda>s. \<not> waits s) ss" and "boot_run B c ss p = Inr q"
  shows "process_reachable B c q"
  using assms
proof (induction ss arbitrary: p)
  case (Cons s ss)
  then obtain p' where p': "exec_stmt B c s p = Inr p'" "boot_run B c ss (p'\<lparr>pr_todo := ss @ rest\<rparr>) = Inr q"
    by (auto split: sum.splits)
  have "alive p" using Cons.prems(2,3) by (simp add: alive_def exited_def)
  then have "process_reachable B c (p'\<lparr>pr_todo := ss @ rest\<rparr>)"
    using process_reachable.main [OF Cons.prems(1)] main_step.exec [OF Cons.prems(2), of s "ss @ rest" B c p'] Cons.prems(4,5) p'(1) by simp
  with Cons.IH [of "p'\<lparr>pr_todo := ss @ rest\<rparr>"] exec_effect(1) [OF p'(1)] Cons.prems(2,3,5) p'(2) show ?case by simp
qed simp

definition sample_bootcfg :: BootConfig where
  "sample_bootcfg = WebConfig.extend (sample_webcfg\<lparr>CallerPrivateKey := replicate 63 (CHR ''0'') @ ''1'',
       OperationSecretsKey := Base64_encode (replicate 32 0)\<rparr>)
     (BootConfig.fields 4000 ''0.0.0.0'' ''info'' ''postgres://db'' ''migrations'' ''gw@x'' ''us-east-1'' ''bucket'' ''http://s3''
       ''http://s3'' 3600 ''https://loc'')"

definition sample_boot :: boot where
  "sample_boot = \<lparr>bt_migrate = None, bt_up = NoChange, bt_version = Version 9 False, bt_pool_config = Inr 4, bt_pool_new = None,
     bt_ping = None, bt_drain = Inr \<lparr>db_reservations = [], db_live = [], db_ops = []\<rparr>, bt_bucket = None, bt_rtmp = sample_renv True\<rparr>"

definition no_catalog :: catalog where
  "no_catalog = \<lparr>ct_rows = [], ct_meta = RecordRefresh 0 ''never'' '''' 0 []\<rparr>"

lemma sample_signer: "NewCallerSigner (replicate 63 (CHR ''0'') @ ''1'') = Inr 1"
proof -
  have hex: "hex_decode (replicate (2 * n) (CHR ''0'') @ ''01'') = Some (replicate n 0 @ [1])" for n
    by (induction n) (simp_all add: hex_val_def)
  have zeros: "fold (\<lambda>b n. 256 * n + b) (replicate k 0) (0 :: nat) = 0" for k by (induction k) simp_all
  have "replicate 63 (CHR ''0'') @ ''1'' = replicate (2 * 31) (CHR ''0'') @ ''01''" by (simp add: eval_nat_numeral)
  moreover have "TrimPrefix (replicate (2 * 31) (CHR ''0'') @ ''01'') ''0x'' = replicate (2 * 31) (CHR ''0'') @ ''01''"
    by (simp add: TrimPrefix_def eval_nat_numeral)
  ultimately show ?thesis using hex [of 31] zeros [of 31] by (simp add: NewCallerSigner_def be_nat_def secp256k1_order_def)
qed

lemma sample_engine:
  "\<exists>k. NewPaidEngine (NewLocClient (LOCBaseURL sample_bootcfg) (LOCAPIKey sample_bootcfg) i t) sample_bootcfg = Inr (Some k)"
proof -
  have "NewSecretBox (Base64_encode (replicate 32 0)) = Inr (replicate 32 0)"
    by (subst NewSecretBox_canonical) (simp_all add: list_all_iff)
  moreover have "CallerPrivateKey sample_bootcfg = replicate 63 (CHR ''0'') @ ''1''"
      "OperationSecretsKey sample_bootcfg = Base64_encode (replicate 32 0)" "LOCBaseURL sample_bootcfg = ''https://loc''"
      "LOCAPIKey sample_bootcfg = ''loc-key''"
    by (simp_all add: sample_bootcfg_def WebConfig.defs BootConfig.defs sample_webcfg_def Config.defs sample_config_def)
  ultimately show ?thesis by (simp add: NewPaidEngine_def NewLocClient_def sample_signer)
qed

lemma Base64_encode_nonempty: "bs \<noteq> [] \<Longrightarrow> Base64_encode bs \<noteq> []"
  by (cases bs rule: Base64_encode.cases) simp_all

lemma sample_loads: "Load (\<lambda>_. Some sample_url) (Config.truncate sample_bootcfg) = Inr (Config.truncate sample_bootcfg)"
  by (simp add: Load_def sample_bootcfg_def WebConfig.defs BootConfig.defs sample_webcfg_def Config.defs sample_config_def
      rtmp_server_url_ok_def sample_url_def Base64_encode_nonempty)

abbreviation sample_reachable :: "process \<Rightarrow> bool" where
  "sample_reachable \<equiv> process_reachable sample_boot sample_bootcfg"

text \<open>The start with every statement succeeding.\<close>

lemma sample_booted:
  "\<exists>p. sample_reachable p \<and> pr_todo p = [Select, Shutdown, AwaitRequests] \<and> pr_result p = None \<and>
     pr_defers p = [StopPaid, AwaitPaid, ClosePool, Stop] \<and> pr_http p = HttpLaunching \<and> pr_paid p = Some loop_start \<and>
     pr_refresher p = RefreshFirst \<and> pr_catalog p = no_catalog \<and> pr_requests p = 0 \<and> \<not> pr_paid_done p \<and> pr_scan p = 0"
proof -
  let ?s = "process_start sample_bootcfg no_catalog"
  obtain k where k: "NewPaidEngine (NewLocClient (LOCBaseURL sample_bootcfg) (LOCAPIKey sample_bootcfg) sdkIdentity (30 * second))
      sample_bootcfg = Inr (Some k)" using sample_engine by blast
  have drain: "CheckLegacyDrain (\<lparr>db_reservations = [], db_live = [], db_ops = []\<rparr> :: database) = Inr ()"
    by (simp add: CheckLegacyDrain_def legacy_count_def count_where_def)
  let ?ss = "[NotifyContext, RunMigrate, OpenPool', DrainCheck, MakeClients, StartRefresher, MakePaid, StartRTMP, StartHTTP]"
  obtain q where q: "boot_run sample_boot sample_bootcfg ?ss ?s = Inr q" "pr_todo q = [Select, Shutdown, AwaitRequests]"
      "pr_result q = None" "pr_defers q = [StopPaid, AwaitPaid, ClosePool, Stop]" "pr_http q = HttpLaunching"
      "pr_paid q = Some loop_start" "pr_refresher q = RefreshFirst" "pr_catalog q = no_catalog" "pr_requests q = 0" "\<not> pr_paid_done q" "pr_scan q = 0"
    using k drain by (simp add: process_start_def run_body_def sample_boot_def Migrate_def db_Open_def make_clients_def Let_def)
  have "sample_reachable q"
    by (rule boot_reachable [OF process_reachable.start [OF sample_loads] _ _ _ _ q(1), where rest = "[Select, Shutdown, AwaitRequests]"])
      (simp_all add: process_start_def run_body_def waits_def)
  with q show ?thesis by blast
qed

text \<open>And its shutdown: a signal, the server shut down, the loop closed and awaited, the pool closed.\<close>

lemma sample_unwound:
  "\<exists>p. sample_reachable p \<and> pr_pool p = ClosedPool \<and> pr_defers p = [Stop] \<and> pr_result p = Some None \<and>
     pr_paid p \<noteq> None \<and> pr_refresher p = RefreshFirst \<and> pr_cancelled p"
proof -
  obtain p where p: "sample_reachable p" "pr_todo p = [Select, Shutdown, AwaitRequests]" "pr_result p = None"
      "pr_defers p = [StopPaid, AwaitPaid, ClosePool, Stop]" "pr_http p = HttpLaunching" "pr_paid p = Some loop_start"
      "pr_refresher p = RefreshFirst" "pr_requests p = 0" "\<not> pr_paid_done p" "pr_scan p = 0"
    using sample_booted by blast
  note al = alive_def exited_def and go = process_reachable.main
  let ?l = "loop_start\<lparr>lp_closed := True\<rparr>"
  define a b c where "a = p\<lparr>pr_cancelled := True\<rparr>"
    and "b = a\<lparr>pr_todo := [Shutdown, AwaitRequests], pr_log := pr_log a @ [''shutdown signal received'']\<rparr>"
    and "c = b\<lparr>pr_todo := [AwaitRequests], pr_http := HttpDown\<rparr>"
  define d e where "d = c\<lparr>pr_todo := [], pr_log := pr_log c @ [''server stopped'']\<rparr>" and "e = d\<lparr>pr_result := Some None\<rparr>"
  define f g where "f = e\<lparr>pr_paid := Some ?l\<rparr>" and "g = f\<lparr>pr_paid_done := True\<rparr>"
  define h i where "h = g\<lparr>pr_defers := [AwaitPaid, ClosePool, Stop], pr_cancelled := True\<rparr>" and "i = h\<lparr>pr_defers := [ClosePool, Stop]\<rparr>"
  note defs = a_def b_def c_def d_def e_def f_def g_def h_def i_def
  have "thread_step sample_boot sample_bootcfg p a" unfolding a_def by (rule thread_step.signal) (simp add: p)
  then have "sample_reachable a" using process_reachable.thread [OF p(1)] p by (simp add: al)
  then have "sample_reachable b" by (rule go, simp add: al defs p)
      (use main_step.signalled [of a "[Shutdown, AwaitRequests]"] in \<open>simp add: defs p\<close>)
  then have "sample_reachable c" by (rule go, simp add: al defs p)
      (use main_step.shutdown [of b "[AwaitRequests]"] in \<open>simp add: defs p\<close>)
  then have "sample_reachable d" by (rule go, simp add: al defs p)
      (use main_step.drained [of c "[]"] in \<open>simp add: defs p\<close>)
  then have "sample_reachable e" by (rule go, simp add: al defs p)
      (use main_step.return [of d] in \<open>simp add: defs p\<close>)
  then have "sample_reachable f"
    by (rule process_reachable.thread, simp add: al defs p)
      (use thread_step.paid_close [of e loop_start] in \<open>simp add: defs p loop_start_def\<close>)
  then have "sample_reachable g"
    by (rule process_reachable.thread, simp add: al defs p)
      (use thread_step.paid_done [of f ?l] in \<open>simp add: defs p left_to_do_def loop_start_def\<close>)
  then have "sample_reachable h" by (rule go, simp add: al defs p)
      (use main_step.stop [of g StopPaid "[AwaitPaid, ClosePool, Stop]"] in \<open>simp add: defs p\<close>)
  then have "sample_reachable i" by (rule go, simp add: al defs p)
      (use main_step.await_paid [of h "[ClosePool, Stop]"] in \<open>simp add: defs p\<close>)
  then have "sample_reachable (i\<lparr>pr_defers := [Stop], pr_pool := ClosedPool\<rparr>)" by (rule go, simp add: al defs p)
      (use main_step.close_pool [of i "[Stop]"] in \<open>simp add: defs p\<close>)
  then show ?thesis by (intro exI conjI, assumption) (simp_all add: defs p)
qed

theorem serves_only_when_ready_witness:
  "\<exists>p. sample_reachable p \<and> pr_http p = HttpServing \<and> ready sample_boot \<and> pr_paid p \<noteq> None"
proof -
  obtain p where p: "sample_reachable p" "pr_result p = None" "pr_http p = HttpLaunching" "pr_paid p = Some loop_start"
      "pr_refresher p = RefreshFirst"
    using sample_booted by blast
  have "thread_step sample_boot sample_bootcfg p (p\<lparr>pr_http := HttpServing\<rparr>)" by (rule thread_step.http_up [OF p(3)])
  then have "sample_reachable (p\<lparr>pr_http := HttpServing\<rparr>)"
    using process_reachable.thread [OF p(1)] p(2,5) by (simp add: alive_def exited_def)
  with serves_only_when_ready [OF this] p(4) show ?thesis by (intro exI [of _ "p\<lparr>pr_http := HttpServing\<rparr>"] conjI) simp_all
qed

theorem pool_outlives_workers_witness:
  "\<exists>p l. sample_reachable p \<and> pr_pool p = ClosedPool \<and> pr_paid p = Some l \<and> lp_closed l \<and> lp_busy l = {}"
proof -
  obtain p l where p: "sample_reachable p" "pr_pool p = ClosedPool" "pr_paid p = Some l" using sample_unwound by blast
  with pool_outlives_workers [OF p(1,2)] show ?thesis by blast
qed

theorem stopped_process_exits_witness:
  "\<exists>p q. sample_reachable p \<and> pr_cancelled p \<and> process_run sample_boot sample_bootcfg p 1 q \<and> exited q"
proof -
  obtain p where p: "sample_reachable p" "pr_defers p = [Stop]" "pr_result p = Some None" "pr_refresher p = RefreshFirst" "pr_cancelled p"
    using sample_unwound by blast
  let ?q = "p\<lparr>pr_defers := [], pr_cancelled := True\<rparr>"
  have "main_step sample_boot sample_bootcfg p ?q" using p by (intro main_step.stop [of p Stop "[]"]) simp_all
  then have "own_step sample_boot sample_bootcfg p ?q" using p by (intro own_step.main) (simp_all add: alive_def exited_def)
  then have s: "process_run sample_boot sample_bootcfg p 1 ?q" using process_run.own [OF process_run.start] by simp
  have "\<nexists>r. own_step sample_boot sample_bootcfg ?q r" using p by (auto simp: alive_def exited_def elim: own_step.cases)
  with stopped_process_exits [OF p(1,5) s] have "exited ?q" using p(4) by auto
  then show ?thesis using p(1,5) s by blast
qed

section \<open>What the start does not wait for\<close>

text \<open>The first refresh of the catalog runs beside the start: requests are served while the catalog is empty
  and the payment service has not been asked yet.\<close>

theorem serves_before_first_refresh:
  "\<exists>p. sample_reachable p \<and> pr_http p = HttpServing \<and> pr_refresher p = RefreshFirst \<and> ct_rows (pr_catalog p) = []"
proof -
  obtain p where p: "sample_reachable p" "pr_result p = None" "pr_http p = HttpLaunching" "pr_refresher p = RefreshFirst"
      "pr_catalog p = no_catalog" using sample_booted by blast
  have "sample_reachable (p\<lparr>pr_http := HttpServing\<rparr>)"
    using process_reachable.thread [OF p(1) _ thread_step.http_up [OF p(3)]] p(2,4) by (simp add: alive_def exited_def)
  then show ?thesis by (intro exI conjI, assumption) (simp_all add: p no_catalog_def)
qed

text \<open>The start-up check looks at the configured milliseconds, not at the interval they give: an accepted value
  can overflow to a negative interval, at which the ticker panics.\<close>

theorem accepted_interval_overflows:
  "\<exists>c. Load (\<lambda>_. Some sample_url) (Config.truncate c) = Inr (Config.truncate c) \<and> RefreshInterval c < 0"
proof -
  let ?c = "sample_bootcfg\<lparr>RefreshMS := 9223372036855\<rparr>"
  have "Load (\<lambda>_. Some sample_url) (Config.truncate ?c) = Inr (Config.truncate ?c)"
    using sample_loads by (auto simp: Load_def Config.defs split: if_splits)
  moreover have "RefreshInterval ?c < 0" by (simp add: RefreshInterval_def wrap64_def)
  ultimately show ?thesis by blast
qed

section \<open>The probe of the RTMP listener\<close>

text \<open>What the health check is given: nothing when the dependencies hold no probe, otherwise whether the
  listener is bound.\<close>

definition rtmp_probe :: "process \<Rightarrow> bool option" where
  "rtmp_probe p = (case dp_RTMPProbe (pr_deps p) of
      None \<Rightarrow> None
    | Some _ \<Rightarrow> Some (case pr_rtmp p of None \<Rightarrow> False | Some l \<Rightarrow> Listening l))"

definition probe_inv :: "boot \<Rightarrow> BootConfig \<Rightarrow> process \<Rightarrow> bool" where
  "probe_inv B c p \<longleftrightarrow>
     (pr_result p = None \<and> MakePaid \<notin> set (pr_todo p) \<or> pr_http p \<noteq> HttpIdle \<longrightarrow> dp_RTMPProbe (pr_deps p) \<noteq> None) \<and>
     (\<forall>l. pr_rtmp p = Some l \<longrightarrow> (run_step (bt_rtmp B))\<^sup>*\<^sup>* (run_start (NewListener (Host c) (LiveRTMPPort c))) l)"

lemma probe_main:
  assumes "main_step B c p q" and i: "process_inv B c p" and "probe_inv B c p"
  shows "probe_inv B c q"
  using assms(1)
proof cases
  case (exec s ss q')
  have "suffix (s # ss) run_body" using inv_body [OF i exec(2)] exec(3) by (simp add: body_inv_def)
  then show ?thesis
    using exec assms(3) unfolding body_suffix
    by (elim disjE conjE) (auto simp: probe_inv_def make_clients_def waits_def Let_def split: sum.splits prod.splits option.splits)
next
  case (shutdown ss)
  have "suffix (Shutdown # ss) run_body" using inv_body [OF i shutdown(2)] shutdown(3) by (simp add: body_inv_def)
  then have "ss = [AwaitRequests]" by (simp add: body_suffix)
  with shutdown assms(3) show ?thesis by (auto simp: probe_inv_def)
qed (use assms(3) in \<open>auto simp: probe_inv_def\<close>)

lemma probe_reachable: "process_reachable B c p \<Longrightarrow> probe_inv B c p"
proof (induction rule: process_reachable.induct)
  case (start parse c' ct)
  show ?case by (simp add: probe_inv_def process_start_def run_body_def)
next
  case (main p q)
  then show ?case using probe_main reachable_process by blast
next
  case (thread p q)
  from thread(3) show ?case
  proof cases
    case (rtmp l l')
    then show ?thesis using thread.IH by (auto simp: probe_inv_def intro: rtranclp.rtrancl_into_rtrancl)
  qed (use thread.IH in \<open>auto simp: probe_inv_def\<close>)
qed

text \<open>With the RTMP port unset the health check does not skip the listener: while the server serves it
  always reports the disabled listener as an error.\<close>

theorem disabled_rtmp_reported_closed:
  assumes "process_reachable B c p" and "pr_http p = HttpServing" and "LiveRTMPPort c = 0"
  shows "hc_Status (rtmp_state (rtmp_probe p)) = ''error''"
proof -
  have i: "probe_inv B c p" using probe_reachable [OF assms(1)] .
  then have probe: "dp_RTMPProbe (pr_deps p) \<noteq> None" using assms(2) by (simp add: probe_inv_def)
  have closed: "\<not> Listening l" if "pr_rtmp p = Some l" for l
  proof -
    have "(run_step (bt_rtmp B))\<^sup>*\<^sup>* (run_start '''') l" using i that assms(3) by (simp add: probe_inv_def NewListener_def)
    with Listening_accurate [OF this] disabled_never_listens [OF this] show ?thesis by auto
  qed
  with probe show ?thesis by (auto simp: rtmp_probe_def rtmp_state_def split: option.splits)
qed

end
