(* ===== verification/LOC_Fake.thy ===== *)
theory LOC_Fake
  imports LOC_Transport Object_Store
begin

text \<open>
  \<^verbatim>\<open>proxy/loc/loctest/fake.go\<close>: the in-memory LOC that the gateway's tests run against, and the gateway's
  client in front of it over a network that loses requests and answers. The JSON codec is a parameter:
  \<open>render\<close> writes a body, \<open>parse\<close> reads the units and the outcome of a settlement request. The struct's
  fields that no function reads (\<^verbatim>\<open>OpenSession\<close>, \<^verbatim>\<open>Refill\<close>, \<^verbatim>\<open>Close\<close>, \<^verbatim>\<open>refillSeq\<close>) are left out.
\<close>

section \<open>State and answers\<close>

type_synonym override = "(string \<Rightarrow> LocResponse) option"

record fake =
  fk_BrokerURL :: string
  fk_CreateJob :: override
  fk_SettleJob :: override
  fk_ListCaps :: override
  fk_createCalls :: nat
  fk_settleCalls :: "string \<Rightarrow> nat"
  fk_settled :: "string \<Rightarrow> int option"

definition NewFake :: fake where
  "NewFake = \<lparr>fk_BrokerURL = '''', fk_CreateJob = None, fk_SettleJob = None, fk_ListCaps = None, fk_createCalls = 0,
     fk_settleCalls = (\<lambda>_. 0), fk_settled = (\<lambda>_. None)\<rparr>"

definition CreateCalls :: "fake \<Rightarrow> nat" where
  "CreateCalls f = fk_createCalls f"

definition SettledUnits :: "fake \<Rightarrow> string \<Rightarrow> int \<times> bool" where
  "SettledUnits f jobID = (case fk_settled f jobID of None \<Rightarrow> (0, False) | Some u \<Rightarrow> (u, True))"

definition WriteJSON :: "(json \<Rightarrow> string) \<Rightarrow> int \<Rightarrow> json \<Rightarrow> LocResponse" where
  "WriteJSON render status body = \<lparr>lr_Status = status, lr_RetryAfter = '''', lr_Body = render body, lr_ReadErr = None\<rparr>"

definition error_json :: "string \<Rightarrow> string \<Rightarrow> json" where
  "error_json code message =
     JObj [(''error'', JObj [(''code'', JStr code), (''message'', JStr message), (''details'', JObj [])])]"

definition WriteError :: "(json \<Rightarrow> string) \<Rightarrow> int \<Rightarrow> string \<Rightarrow> string \<Rightarrow> LocResponse" where
  "WriteError render status code message = WriteJSON render status (error_json code message)"

definition WriteRateLimited :: "(json \<Rightarrow> string) \<Rightarrow> int \<Rightarrow> LocResponse" where
  "WriteRateLimited render retryAfterSecs =
     (WriteError render 429 ''rate_limited'' ''slow down'')\<lparr>lr_RetryAfter := int_text retryAfterSecs\<rparr>"

definition nonEmpty :: "string \<Rightarrow> string \<Rightarrow> string" where
  "nonEmpty s fallback = (if s \<noteq> '''' then s else fallback)"

definition defaultCapStatus :: "bool \<Rightarrow> json" where
  "defaultCapStatus winddown = JObj [(''session_pct_used'', JNum ''0.1''), (''spend_period_pct_used'', JNull),
     (''user_balance_pct_used'', JNum ''0.2''), (''operator_pool_pct_used'', JNull), (''will_refuse_next_refill'', JBool winddown),
     (''winddown_reason'', if winddown then JStr ''spend_period_cap_imminent'' else JNull)]"

section \<open>Routes\<close>

definition defaultCreateJob :: "(json \<Rightarrow> string) \<Rightarrow> uuid \<Rightarrow> fake \<Rightarrow> LocResponse" where
  "defaultCreateJob render fresh f = WriteJSON render 201 (JObj [(''job_id'', JStr fresh), (''work_id'', JStr ''authorization-id''),
     (''request_id'', JStr ''broker-request-id''), (''broker_url'', JStr (fk_BrokerURL f)), (''protocol'', JStr ''paid-job/v1''),
     (''transport'', JStr ''stream''), (''accounting_mode'', JStr ''wholesale_account''), (''work_unit'', JStr ''units''),
     (''spend_authorization'', JStr ''fixture'')])"

definition defaultSettleJob :: "(json \<Rightarrow> string) \<Rightarrow> (string \<Rightarrow> int \<times> string) \<Rightarrow> string \<Rightarrow> string \<Rightarrow> fake \<Rightarrow> LocResponse \<times> fake" where
  "defaultSettleJob render parse jobID body f =
     (let (actualUnits, outcome) = parse body;
          dup = fk_settled f jobID \<noteq> None;
          f = f\<lparr>fk_settleCalls := (fk_settleCalls f)(jobID := Suc (fk_settleCalls f jobID))\<rparr>;
          f = (if dup then f else f\<lparr>fk_settled := (fk_settled f)(jobID \<mapsto> actualUnits)\<rparr>)
      in if dup then (WriteError render 409 ''job_already_settled'' ''job already settled'', f)
         else (WriteJSON render 200 (JObj [(''job_id'', JStr jobID), (''work_id'', JStr ''deadbeef''),
             (''actual_units'', JNum (int_text actualUnits)), (''billed_value_wei'', JNum (int_text (wrap64 (actualUnits * 500)))),
             (''refund_wei'', JNum ''100''), (''outcome'', JStr (nonEmpty outcome ''EXACT'')),
             (''closed_at'', JStr ''2026-01-01T00:01:00Z''), (''cap_status'', defaultCapStatus False)]), f))"

definition default_caps :: json where
  "default_caps = JObj [(''items'', JArr [JObj [(''name'', JStr ''video:transcode.abr''), (''work_unit'', JStr ''video-frame-megapixel''),
     (''offerings'', JArr [JObj [(''id'', JStr ''abr-default''), (''price_per_work_unit_wei'', JStr ''1000''),
       (''work_unit'', JStr ''video-frame-megapixel'')]])]])]"

text \<open>The patterns of the standard library's router; \<^verbatim>\<open>{id}\<close> is one non-empty segment.\<close>

datatype fake_target = FakeCreate | FakeSettle string | FakeCaps | FakeNone

definition fake_route :: "string \<Rightarrow> string \<Rightarrow> fake_target" where
  "fake_route method path = (case split_slash path of
      [e, v, jobs] \<Rightarrow> if e = '''' \<and> v = ''v1'' then
          if method = ''POST'' \<and> jobs = ''jobs'' then FakeCreate
          else if method = ''GET'' \<and> jobs = ''capabilities'' then FakeCaps else FakeNone
        else FakeNone
    | [e, v, jobs, i, settle] \<Rightarrow>
        if method = ''POST'' \<and> e = '''' \<and> v = ''v1'' \<and> jobs = ''jobs'' \<and> i \<noteq> '''' \<and> settle = ''settle'' then FakeSettle i else FakeNone
    | _ \<Rightarrow> FakeNone)"

definition fake_serve :: "(json \<Rightarrow> string) \<Rightarrow> (string \<Rightarrow> int \<times> string) \<Rightarrow> uuid \<Rightarrow> string \<Rightarrow> string \<Rightarrow> string \<Rightarrow> fake \<Rightarrow> LocResponse \<times> fake" where
  "fake_serve render parse fresh method path body f = (case fake_route method path of
      FakeCreate \<Rightarrow>
        let f = f\<lparr>fk_createCalls := Suc (fk_createCalls f)\<rparr>
        in (case fk_CreateJob f of Some h \<Rightarrow> h body | None \<Rightarrow> defaultCreateJob render fresh f, f)
    | FakeSettle i \<Rightarrow> (case fk_SettleJob f of Some h \<Rightarrow> (h body, f) | None \<Rightarrow> defaultSettleJob render parse i body f)
    | FakeCaps \<Rightarrow> (case fk_ListCaps f of Some h \<Rightarrow> h body | None \<Rightarrow> WriteJSON render 200 default_caps, f)
    | FakeNone \<Rightarrow> (\<lparr>lr_Status = 404, lr_RetryAfter = '''', lr_Body = ''404 page not found'', lr_ReadErr = None\<rparr>, f))"

section \<open>The client in front of it\<close>

datatype fake_net = Delivered | RequestLost | AnswerLost

text \<open>The network decides by number of the exchange. The state is the fake and the number of exchanges.\<close>

definition lossy :: "(json \<Rightarrow> string) \<Rightarrow> (string \<Rightarrow> int \<times> string) \<Rightarrow> (nat \<Rightarrow> fake_net) \<Rightarrow> string \<Rightarrow> Request \<Rightarrow> (fake \<times> nat, err, LocResponse) eff" where
  "lossy render parse net base r = (\<lambda>(f, n).
     let path = drop (length base) (rq_URL r);
         (a, f') = fake_serve render parse (nat_text n) (rq_Method r) path (case rq_Body r of None \<Rightarrow> '''' | Some b \<Rightarrow> b) f
     in case net n of
          Delivered \<Rightarrow> (Inr a, (f', Suc n))
        | RequestLost \<Rightarrow> (Inl (NetErr True), (f, Suc n))
        | AnswerLost \<Rightarrow> (Inl (NetErr True), (f', Suc n)))"

definition fake_transport :: "(json \<Rightarrow> string) \<Rightarrow> (string \<Rightarrow> int \<times> string) \<Rightarrow>
    (string \<Rightarrow> (string \<times> string \<times> (string \<times> json) list) option) \<Rightarrow> (nat \<Rightarrow> fake_net) \<Rightarrow> string \<Rightarrow> (fake \<times> nat) transport" where
  "fake_transport render parse envelope net base =
     \<lparr>tp_newRequest = (\<lambda>_. None), tp_do = lossy render parse net base, tp_envelope = envelope\<rparr>"

section \<open>Settlement through a lossy network\<close>

lemma triple_retry:
  assumes call: "triple I call Q E" and wait: "\<And>d. triple I (wait d) (\<lambda>_. I) E" and keep: "\<And>e s. E e s \<Longrightarrow> I s"
  shows "triple I (doJSONRetry call wait b n) Q E"
proof (induction n arbitrary: b)
  case (Suc n)
  have again: "triple I (thenE (wait d) (doJSONRetry call wait (wrap64 (b * 2)) n)) Q E" for d
    by (rule triple_bind [OF wait Suc.IH])
  have "triple I (attempt call) (\<lambda>r s. case r of Inr y \<Rightarrow> Q y s | Inl e \<Rightarrow> E e s) E"
    by (rule triple_attempt) (use call in simp)
  then show ?case
    unfolding doJSONRetry.simps
    by (rule triple_bind, intro triple_sum triple_if)
      (auto intro: triple_ret triple_throw triple_pre [OF again] keep)
qed (simp add: call)

lemma settle_route: "CHR ''/'' \<notin> set jid \<Longrightarrow> jid \<noteq> '''' \<Longrightarrow> fake_route ''POST'' (''/v1/jobs/'' @ jid @ ''/settle'') = FakeSettle jid"
  by (simp add: fake_route_def split_slash_append [of jid "''settle''", simplified])

text \<open>What a settlement of the job \<open>jid\<close> with \<open>u\<close> units may have done to the settlements \<open>S\<close>.\<close>

definition perhaps_settled :: "(string \<Rightarrow> int option) \<Rightarrow> string \<Rightarrow> int \<Rightarrow> fake \<times> nat \<Rightarrow> bool" where
  "perhaps_settled S jid u s \<longleftrightarrow> fk_SettleJob (fst s) = None \<and> fk_settled (fst s) \<in> {S, S(jid \<mapsto> u)}"

definition surely_settled :: "(string \<Rightarrow> int option) \<Rightarrow> string \<Rightarrow> int \<Rightarrow> fake \<times> nat \<Rightarrow> bool" where
  "surely_settled S jid u s \<longleftrightarrow> fk_SettleJob (fst s) = None \<and> fk_settled (fst s) = S(jid \<mapsto> u)"

lemma served_settles:
  assumes "S jid = None" and "parse b = (u, out)" and "fake_route ''POST'' path = FakeSettle jid" and "perhaps_settled S jid u (f, n)"
  shows "surely_settled S jid u (snd (fake_serve render parse fresh ''POST'' path b f), m)"
  using assms by (auto simp: perhaps_settled_def surely_settled_def fake_serve_def defaultSettleJob_def Let_def)

lemma settle_exchange:
  assumes "S jid = None" and "parse b = (u, out)" and "fake_route ''POST'' path = FakeSettle jid"
  shows "triple (perhaps_settled S jid u)
    (doJSON (fake_transport render parse envelope net (lcl_baseURL c)) c zero dec ''POST'' path (Some (Inr b)))
    (\<lambda>_. surely_settled S jid u) (\<lambda>e s. perhaps_settled S jid u s \<and> (IsAlreadySettled e \<longrightarrow> surely_settled S jid u s))"
proof -
  have perhaps: "surely_settled S jid u s \<Longrightarrow> perhaps_settled S jid u s" for s
    by (simp add: perhaps_settled_def surely_settled_def)
  have lost: "perhaps_settled S jid u (f, Suc n) = perhaps_settled S jid u (f, n)" for f n by (simp add: perhaps_settled_def)
  have net: "\<not> IsAlreadySettled (NetErr b)" for b by (simp add: codeIs_def IsAlreadySettled_def)
  note served = served_settles [where S = S and jid = jid and u = u and parse = parse and b = b and path = path, OF assms]
  show ?thesis
    unfolding triple_def
  proof (intro allI impI)
    fix s
    assume s: "perhaps_settled S jid u s"
    obtain f n where fn: "s = (f, n)" by (cases s)
    let ?answer = "fake_serve render parse (nat_text n) ''POST'' path b f"
    have "surely_settled S jid u (snd ?answer, m)" for m using served s fn by blast
    then show "case doJSON (fake_transport render parse envelope net (lcl_baseURL c)) c zero dec ''POST'' path (Some (Inr b)) s of
        (Inr x, s') \<Rightarrow> surely_settled S jid u s'
      | (Inl e, s') \<Rightarrow> perhaps_settled S jid u s' \<and> (IsAlreadySettled e \<longrightarrow> surely_settled S jid u s')"
      using s perhaps
      by (cases "net n"; cases ?answer)
        (auto simp: fn lost net doJSON_def doJSONHeaders_def fake_transport_def lossy_def loc_request_def eng_simps split: sum.splits)
  qed
qed

text \<open>The wait between attempts changes nothing and may end with the context.\<close>

definition plain_wait :: "(int \<Rightarrow> ('s, err, unit) eff) \<Rightarrow> bool" where
  "plain_wait wait \<longleftrightarrow> (\<forall>d s. wait d s \<in> {(Inr (), s), (Inl Canceled, s)})"

text \<open>A settlement is recorded once and believed only when it is recorded. When the gateway's retried
  settlement call runs against the in-memory LOC for a job that is not settled, over a network that
  loses any requests and answers, no other job's settlement changes and this job's is the reported units
  or none; and when the call succeeds, or fails with the error the gateway reads as already settled, it is
  the reported units.\<close>

theorem settle_through_losses:
  assumes "fk_SettleJob f = None" and "fk_settled f jid = None" and "CHR ''/'' \<notin> set jid" and "jid \<noteq> ''''"
    and "enc i = Inr b" and "parse b = (u, out)" and "plain_wait wait"
    and "http_SettleJobV2 (fake_transport render parse envelope net (lcl_baseURL c)) c wait enc dec jid i (f, n) = (r, (f', n'))"
  shows "fk_settled f' \<in> {fk_settled f, (fk_settled f)(jid \<mapsto> u)} \<and>
    ((\<exists>v. r = Inr v) \<or> (\<exists>e. r = Inl e \<and> IsAlreadySettled e) \<longrightarrow> fk_settled f' = (fk_settled f)(jid \<mapsto> u))"
proof -
  let ?S = "fk_settled f" and ?P = "perhaps_settled (fk_settled f) jid u"
  let ?E = "\<lambda>e s. ?P s \<and> (IsAlreadySettled e \<longrightarrow> surely_settled ?S jid u s)"
  have wait: "triple ?P (wait d) (\<lambda>_. ?P) ?E" for d
  proof -
    have "wait d s = (Inr (), s) \<or> wait d s = (Inl Canceled, s)" for s using assms(7) unfolding plain_wait_def by blast
    moreover have "\<not> IsAlreadySettled Canceled" by (simp add: codeIs_def IsAlreadySettled_def)
    ultimately show ?thesis unfolding triple_def by (metis (no_types, lifting) case_prod_conv old.sum.simps(5) old.sum.simps(6))
  qed
  have refused: "\<not> IsAlreadySettled (Msg m)" for m by (simp add: codeIs_def IsAlreadySettled_def)
  let ?post = "doJSON (fake_transport render parse envelope net (lcl_baseURL c)) c
     \<lparr>sr_JobID = uuid_nil, sr_WorkID = '''', sr_ActualUnits = 0, sr_BilledValueWei = None, sr_RefundWei = None, sr_Outcome = '''', sr_ClosedAt = 0\<rparr>
     dec ''POST'' (''/v1/jobs/'' @ jid @ ''/settle'') (Some (Inr b))"
  have post: "triple ?P ?post (\<lambda>_. surely_settled ?S jid u) ?E"
    by (rule settle_exchange) (rule assms settle_route)+
  have "triple ?P (http_SettleJobV2 (fake_transport render parse envelope net (lcl_baseURL c)) c wait enc dec jid i)
      (\<lambda>_. surely_settled ?S jid u) ?E"
    unfolding http_SettleJobV2_def SettleJobV2_def assms(5)
  proof (rule triple_if)
    show "triple ?P (throw (Msg ''loc: signed terminal claim required'')) (\<lambda>_. surely_settled ?S jid u) ?E"
      by (rule triple_throw) (simp add: refused)
    show "triple ?P (loc_retry ?post wait) (\<lambda>_. surely_settled ?S jid u) ?E"
      by (rule triple_retry [OF post wait]) (rule conjunct1)
  qed
  note spec = this
  have start: "?P (f, n)" using assms(1) by (simp add: perhaps_settled_def)
  show ?thesis
  proof (cases r)
    case (Inl e)
    with tripleD_err [OF spec start] assms(8) have "?E e (f', n')" by blast
    with Inl show ?thesis by (auto simp: perhaps_settled_def surely_settled_def)
  next
    case (Inr v)
    with tripleD_ok [OF spec start] assms(8) have "surely_settled ?S jid u (f', n')" by blast
    then show ?thesis by (simp add: surely_settled_def)
  qed
qed

text \<open>A settled job stays as it is: every further call fails.\<close>

lemma settled_stays:
  assumes "fk_SettleJob f = None" and "fk_settled f jid = Some u"
  shows "fk_settled (snd (defaultSettleJob render parse jid b f)) = fk_settled f \<and>
    lr_Status (fst (defaultSettleJob render parse jid b f)) = 409"
  using assms by (simp add: defaultSettleJob_def Let_def WriteError_def WriteJSON_def split: prod.splits)

section \<open>A concrete exchange\<close>

definition sample_settlement :: SettleJobRequestV2 where
  "sample_settlement = \<lparr>sj_ActualUnits = 7, sj_BrokerJobID = ''b'', sj_WorkUnit = ''u'', sj_Settlement = Some JNull\<rparr>"

definition conflict_envelope :: "string \<Rightarrow> (string \<times> string \<times> (string \<times> json) list) option" where
  "conflict_envelope b = (if b = ''error'' then Some (''job_already_settled'', ''job already settled'', []) else None)"

definition error_or_text :: "json \<Rightarrow> string" where
  "error_or_text j = (if jfield j ''error'' = JNull then ''{}'' else ''error'')"

text \<open>The first answer is lost, the repeated request finds the settlement of the first.\<close>

lemma sample_settle:
  assumes "net 0 = AnswerLost" and "net 1 = Delivered"
  shows "\<exists>e. fst (http_SettleJobV2 (fake_transport error_or_text (\<lambda>_. (7, [])) conflict_envelope net (lcl_baseURL sample_client)) sample_client
    (\<lambda>_. ret ()) (\<lambda>_. Inr ''body'') (\<lambda>_. Inl []) ''job'' sample_settlement (NewFake, 0)) = Inl e \<and> IsAlreadySettled e"
proof -
  have route: "fake_route ''POST'' ''/v1/jobs/job/settle'' = FakeSettle ''job''" by code_simp
  have retry: "LocIsRetryable (Some (NetErr True))" "retryAfterOf (NetErr True) = 0" by (simp_all add: LocIsRetryable_def retryAfterOf_def)
  have conflict: "LocErr (parseAPIError conflict_envelope 409 [] ''error'') =
      LocErr \<lparr>ae_StatusCode = 409, ae_Code = ''job_already_settled'', ae_Message = ''job already settled'', ae_Details = [], ae_RetryAfter = 0\<rparr>"
    by code_simp
  have body: "error_or_text (error_json ''job_already_settled'' ''job already settled'') = ''error''" by code_simp
  show ?thesis
    using assms
    by (simp add: body http_SettleJobV2_def SettleJobV2_def sample_settlement_def numeral_2_eq_2 eng_simps doJSON_def doJSONHeaders_def
        fake_transport_def lossy_def loc_request_def fake_serve_def route sample_client_def defaultSettleJob_def NewFake_def retry
        loc_answer_def read_limited_def WriteError_def WriteJSON_def conflict
        LocIsRetryable_def IsAlreadySettled_def codeIs_def EqualFold_def)
qed

theorem settle_through_losses_witness:
  "\<exists>e f' n'. http_SettleJobV2 (fake_transport error_or_text (\<lambda>_. (7, '''')) conflict_envelope
       (\<lambda>n. if n = 0 then AnswerLost else Delivered) (lcl_baseURL sample_client)) sample_client (\<lambda>_. ret ()) (\<lambda>_. Inr ''body'') (\<lambda>_. Inl '''')
       ''job'' sample_settlement (NewFake, 0) = (Inl e, (f', n')) \<and> IsAlreadySettled e \<and> fk_settled f' = [''job'' \<mapsto> 7]"
proof -
  let ?T = "fake_transport error_or_text (\<lambda>_. (7, '''')) conflict_envelope (\<lambda>n. if n = 0 then AnswerLost else Delivered) (lcl_baseURL sample_client)"
  let ?call = "http_SettleJobV2 ?T sample_client (\<lambda>_. ret ()) (\<lambda>_. Inr ''body'') (\<lambda>_. Inl '''') ''job'' sample_settlement (NewFake, 0)"
  obtain r f' n' where c: "?call = (r, (f', n'))" by (metis prod.collapse)
  have "\<exists>e. fst ?call = Inl e \<and> IsAlreadySettled e"
    by (rule sample_settle) simp_all
  then obtain e where e: "r = Inl e" "IsAlreadySettled e" using c by auto
  have "plain_wait (\<lambda>_ :: int. ret ())" by (simp add: plain_wait_def ret_def)
  with settle_through_losses [OF _ _ _ _ _ _ this c, of "''body''" 7 "''''"] e have "fk_settled f' = [''job'' \<mapsto> 7]"
    by (simp add: NewFake_def)
  with c e show ?thesis by blast
qed

end
