(* ===== verification/Broker_Transport.thy ===== *)
theory Broker_Transport
  imports LOC_Transport
begin

text \<open>
  The HTTP side of the broker client: \<^verbatim>\<open>requestV2\<close> of \<^verbatim>\<open>proxy/livepeer/v2.go\<close> and the request each of its
  calls makes; what the calls make of the answers is in Broker\_Client. \<open>round_trip\<close> sends one request
  and receives one answer; the redirect loop of \<^verbatim>\<open>http.Client.Do\<close> is written out, because the client
  replaces its policy. Parameters are the network, the parsers of addresses, the resolution of a
  redirect's target, and JSON encoding.
\<close>

section \<open>Client and requests\<close>

text \<open>A timeout of zero is none. \<open>hc_UseLast\<close>: \<^verbatim>\<open>CheckRedirect\<close> answers \<^verbatim>\<open>http.ErrUseLastResponse\<close>.\<close>

record HTTPClient =
  hc_Timeout :: int
  hc_UseLast :: bool

record BrokerRequest =
  br_Method :: string
  br_URL :: string
  br_Header :: header
  br_Body :: string
  br_Timeout :: int

record 's broker_net =
  bn_newRequest :: "string \<Rightarrow> err option"
  bn_round_trip :: "BrokerRequest \<Rightarrow> ('s, err, HttpResponse) eff"
  bn_resolve :: "string \<Rightarrow> string \<Rightarrow> string"
  bn_same_host :: "string \<Rightarrow> string \<Rightarrow> bool"

text \<open>\<^verbatim>\<open>http.Client.Do\<close>: a redirect with a target is followed, ten times at most, unless the policy asks
  for the last response. 307 and 308 repeat the method and the body, credentials stay on their host.\<close>

definition is_redirect :: "HttpResponse \<Rightarrow> bool" where
  "is_redirect a \<longleftrightarrow> hr_Status a \<in> {301, 302, 303, 307, 308} \<and> hget (hr_Header a) ''Location'' \<noteq> ''''"

definition redirected :: "'s broker_net \<Rightarrow> BrokerRequest \<Rightarrow> HttpResponse \<Rightarrow> BrokerRequest" where
  "redirected N r a = (let target = bn_resolve N (br_URL r) (hget (hr_Header a) ''Location''); again = hr_Status a \<in> {307, 308} in
     r\<lparr>br_Method := (if again \<or> br_Method r = ''GET'' then br_Method r else ''GET''), br_URL := target,
       br_Header := (if bn_same_host N (br_URL r) target then br_Header r else filter (\<lambda>(k, _). k \<noteq> ''Authorization'') (br_Header r)),
       br_Body := (if again then br_Body r else '''')\<rparr>)"

fun client_Do :: "'s broker_net \<Rightarrow> HTTPClient \<Rightarrow> nat \<Rightarrow> BrokerRequest \<Rightarrow> ('s, err, HttpResponse) eff" where
  "client_Do N c hops r = bindE (bn_round_trip N r) (\<lambda>a.
     if \<not> is_redirect a \<or> hc_UseLast c then ret a
     else (case hops of 0 \<Rightarrow> throw (Msg ''stopped after 10 redirects'') | Suc n \<Rightarrow> client_Do N c n (redirected N r a)))"

definition requestV2 :: "'s broker_net \<Rightarrow> HTTPClient \<Rightarrow> string \<Rightarrow> string \<Rightarrow> header \<Rightarrow> string option \<Rightarrow> bool \<Rightarrow> ('s, err, HttpResponse) eff" where
  "requestV2 N c method target headers body stream = (case bn_newRequest N target of
      Some e \<Rightarrow> throw e
    | None \<Rightarrow>
        let h = (if body \<noteq> None then hset ''Content-Type'' ''application/json'' headers else headers);
            clone = c\<lparr>hc_UseLast := True\<rparr>;
            clone = (if stream then clone\<lparr>hc_Timeout := 0\<rparr> else clone);
            h = (if stream then hset ''Accept'' ''text/event-stream'' h else h)
        in client_Do N clone 10 \<lparr>br_Method = method, br_URL = target, br_Header = h,
             br_Body = (case body of None \<Rightarrow> '''' | Some b \<Rightarrow> b), br_Timeout = hc_Timeout clone\<rparr>)"

section \<open>Calls\<close>

text \<open>\<^verbatim>\<open>url.PathEscape\<close> on the bytes of a segment.\<close>

fun url_PathEscape :: "string \<Rightarrow> string" where
  "url_PathEscape [] = []"
| "url_PathEscape (c # s) = (if query_plain c \<or> c \<in> set ''$&+:=@'' then [c]
     else [CHR ''%'', hex_upper (of_char c div 16), hex_upper (of_char c mod 16)]) @ url_PathEscape s"

definition session_endpoint :: "string \<Rightarrow> string \<Rightarrow> string" where
  "session_endpoint brokerURL sid = endpoint brokerURL (''/v1/session/'' @ url_PathEscape sid)"

definition get_request :: "'s broker_net \<Rightarrow> HTTPClient \<Rightarrow> string \<Rightarrow> header \<Rightarrow> ('s, err, HttpResponse) eff" where
  "get_request N c target h = requestV2 N c ''GET'' target h None False"

definition post_request :: "'s broker_net \<Rightarrow> HTTPClient \<Rightarrow> string \<Rightarrow> header \<Rightarrow> string \<Rightarrow> ('s, err, HttpResponse) eff" where
  "post_request N c target h body = requestV2 N c ''POST'' target h (Some body) False"

definition http_LookupJobV2 :: "'s broker_net \<Rightarrow> HTTPClient \<Rightarrow> codec \<Rightarrow> string \<Rightarrow> string \<Rightarrow> string \<Rightarrow> string \<Rightarrow> string \<Rightarrow>
    ('s, err, TerminalClaim) eff" where
  "http_LookupJobV2 N c C brokerURL requestID jobID unit workID =
     bindE (get_request N c (endpoint brokerURL (''/v1/exchange/'' @ url_PathEscape requestID)) [])
       (\<lambda>r. lift_result (LookupJobV2 C r requestID jobID unit workID))"

definition http_SubmitJobV2 :: "'s broker_net \<Rightarrow> HTTPClient \<Rightarrow> codec \<Rightarrow> string \<Rightarrow> BrokerAuth \<Rightarrow> string \<Rightarrow> string \<Rightarrow>
    (SSEEvent \<Rightarrow> ('s, err, unit) eff) \<Rightarrow> ('s, err, TerminalClaim) eff" where
  "http_SubmitJobV2 N c C brokerURL a body unit onEvent = (case auth_headers a ''paid-job/v1'' of
      Inl e \<Rightarrow> throw e
    | Inr h \<Rightarrow> SubmitJobV2 C a unit (requestV2 N c ''POST'' (endpoint brokerURL ''/v1/job'') h (Some body) True)
        (\<lambda>jobID. http_LookupJobV2 N c C brokerURL (ba_RequestID a) jobID unit (ba_WorkID a)) onEvent)"

definition http_BrokerOpenSessionV2 :: "'s broker_net \<Rightarrow> HTTPClient \<Rightarrow> codec \<Rightarrow> string \<Rightarrow> BrokerAuth \<Rightarrow> string \<Rightarrow> ('s, err, BrokerSessionV2) eff" where
  "http_BrokerOpenSessionV2 N c C brokerURL a body = (case auth_headers a ''paid-session/v1'' of
      Inl e \<Rightarrow> throw e
    | Inr h \<Rightarrow> BrokerOpenSessionV2 C a (post_request N c (endpoint brokerURL ''/v1/session'') h body))"

definition http_StatusSessionV2 :: "'s broker_net \<Rightarrow> HTTPClient \<Rightarrow> codec \<Rightarrow> string \<Rightarrow> string \<Rightarrow> string \<Rightarrow> ('s, err, BrokerSessionV2) eff" where
  "http_StatusSessionV2 N c C brokerURL sid credential = (case credentialHeader credential of
      Inl e \<Rightarrow> throw e
    | Inr h \<Rightarrow> StatusSessionV2 C sid credential (get_request N c (session_endpoint brokerURL sid) h))"

definition http_TopUpSessionV2 :: "'s broker_net \<Rightarrow> HTTPClient \<Rightarrow> codec \<Rightarrow> string \<Rightarrow> string \<Rightarrow> string \<Rightarrow> BrokerAuth \<Rightarrow> string \<Rightarrow>
    ('s, err, BrokerSessionV2) eff" where
  "http_TopUpSessionV2 N c C brokerURL sid credential a body = (case auth_headers a ''paid-session/v1'' of
      Inl e \<Rightarrow> throw e
    | Inr h \<Rightarrow> TopUpSessionV2 C sid credential a
        (post_request N c (session_endpoint brokerURL sid @ ''/topup'') (hset ''Authorization'' (''Bearer '' @ credential) h) body))"

definition http_EndSessionV2 :: "'s broker_net \<Rightarrow> HTTPClient \<Rightarrow> codec \<Rightarrow> (json \<Rightarrow> string) \<Rightarrow> string \<Rightarrow> string \<Rightarrow> string \<Rightarrow> string \<Rightarrow>
    ('s, err, BrokerSessionV2) eff" where
  "http_EndSessionV2 N c C render brokerURL sid credential reason = (case credentialHeader credential of
      Inl e \<Rightarrow> throw e
    | Inr h \<Rightarrow> EndSessionV2 C sid credential
        (post_request N c (session_endpoint brokerURL sid @ ''/end'') h (render (JObj [(''reason'', JStr reason)]))))"

definition http_LookupSessionSettlementV2 :: "'s broker_net \<Rightarrow> HTTPClient \<Rightarrow> codec \<Rightarrow> string \<Rightarrow> string \<Rightarrow> string \<Rightarrow> string \<Rightarrow>
    ('s, err, TerminalClaim) eff" where
  "http_LookupSessionSettlementV2 N c C brokerURL sid workID unit =
     bindE (get_request N c (endpoint brokerURL (''/v1/settlement/'' @ url_PathEscape sid)) [])
       (\<lambda>r. lift_result (LookupSessionSettlementV2 C r sid workID unit))"

definition http_LookupSessionOpenV2 :: "'s broker_net \<Rightarrow> HTTPClient \<Rightarrow> codec \<Rightarrow> string \<Rightarrow> string \<Rightarrow> string \<Rightarrow>
    ('s, err, SessionOpenOutcomeV2) eff" where
  "http_LookupSessionOpenV2 N c C brokerURL requestID gatewayID =
     bindE (get_request N c (endpoint brokerURL (''/v1/exchange/'' @ url_PathEscape requestID)) [])
       (\<lambda>r. lift_result (LookupSessionOpenV2 C r requestID gatewayID))"

definition runtime_grant_ok :: "URL option \<Rightarrow> bool" where
  "runtime_grant_ok p = (case p of None \<Rightarrow> False
    | Some u \<Rightarrow> \<not> (u_Scheme u \<noteq> ''http'' \<and> u_Scheme u \<noteq> ''https'' \<or> u_Hostname u = '''' \<or> u_HasUser u \<or> u_Fragment u \<noteq> ''''))"

definition http_IssueRuntimeKeyV2 :: "'s broker_net \<Rightarrow> HTTPClient \<Rightarrow> (string \<Rightarrow> URL option) \<Rightarrow> (string \<Rightarrow> 'a option) \<Rightarrow> string \<Rightarrow> string \<Rightarrow> string \<Rightarrow>
    ('s, err, 'a) eff" where
  "http_IssueRuntimeKeyV2 N c parse dec target secret body =
     (if \<not> runtime_grant_ok (parse target) then throw (Msg ''broker: invalid runtime grant endpoint'')
      else case credentialHeader secret of
        Inl e \<Rightarrow> throw e
      | Inr h \<Rightarrow> bindE (post_request N c target h body) (\<lambda>r. lift_result (map_sum id snd (jsonV2 dec r))))"

section \<open>What a call sends\<close>

datatype broker_call = CSubmit BrokerAuth string string | COpen BrokerAuth string | CStatus string string |
  CTopUp string string BrokerAuth string | CEnd string string string | CLookupJob string string string string |
  CLookupSettlement string string string | CLookupOpen string string

text \<open>The network with a record of the requests that left the gateway.\<close>

definition logged :: "'s broker_net \<Rightarrow> ('s \<times> BrokerRequest list) broker_net" where
  "logged N = \<lparr>bn_newRequest = bn_newRequest N,
     bn_round_trip = (\<lambda>r (s, sent). case bn_round_trip N r s of (a, s') \<Rightarrow> (a, (s', sent @ [r]))),
     bn_resolve = bn_resolve N, bn_same_host = bn_same_host N\<rparr>"

definition unlogged :: "('s, err, unit) eff \<Rightarrow> ('s \<times> BrokerRequest list, err, unit) eff" where
  "unlogged m = (\<lambda>(s, sent). case m s of (a, s') \<Rightarrow> (a, (s', sent)))"

definition no_result :: "('s, err, 'a) eff \<Rightarrow> ('s, err, unit) eff" where
  "no_result m = bindE m (\<lambda>_. ret ())"

fun run_call :: "'s broker_net \<Rightarrow> HTTPClient \<Rightarrow> codec \<Rightarrow> (json \<Rightarrow> string) \<Rightarrow> (SSEEvent \<Rightarrow> ('s, err, unit) eff) \<Rightarrow> string \<Rightarrow> broker_call \<Rightarrow>
    ('s \<times> BrokerRequest list, err, unit) eff" where
  "run_call N c C render cb u (CSubmit a body unit) = no_result (http_SubmitJobV2 (logged N) c C u a body unit (\<lambda>e. unlogged (cb e)))"
| "run_call N c C render cb u (COpen a body) = no_result (http_BrokerOpenSessionV2 (logged N) c C u a body)"
| "run_call N c C render cb u (CStatus sid cred) = no_result (http_StatusSessionV2 (logged N) c C u sid cred)"
| "run_call N c C render cb u (CTopUp sid cred a body) = no_result (http_TopUpSessionV2 (logged N) c C u sid cred a body)"
| "run_call N c C render cb u (CEnd sid cred reason) = no_result (http_EndSessionV2 (logged N) c C render u sid cred reason)"
| "run_call N c C render cb u (CLookupJob rid jid unit wid) = no_result (http_LookupJobV2 (logged N) c C u rid jid unit wid)"
| "run_call N c C render cb u (CLookupSettlement sid wid unit) = no_result (http_LookupSessionSettlementV2 (logged N) c C u sid wid unit)"
| "run_call N c C render cb u (CLookupOpen rid gid) = no_result (http_LookupSessionOpenV2 (logged N) c C u rid gid)"

text \<open>The requests a call is allowed, from its arguments alone: addresses below the given broker, the scoped
  authorization or the session's credential in the headers, the body as given.\<close>

definition scoped :: "BrokerAuth \<Rightarrow> string \<Rightarrow> header" where
  "scoped a protocol = [(''Livepeer-Capability'', ba_Capability a), (''Livepeer-Offering'', ba_Offering a),
     (''Livepeer-Protocol'', protocol), (''Livepeer-Request-Id'', ba_RequestID a),
     (''Livepeer-Authorization'', ba_Authorization a), (''Livepeer-Caller-Proof'', ba_CallerProof a)]"

definition bearer :: "string \<Rightarrow> header" where
  "bearer cred = [(''Authorization'', ''Bearer '' @ cred)]"

definition getting :: "int \<Rightarrow> string \<Rightarrow> string \<Rightarrow> header \<Rightarrow> BrokerRequest" where
  "getting t u path h = \<lparr>br_Method = ''GET'', br_URL = TrimRight1 u (CHR ''/'') @ path, br_Header = h, br_Body = '''', br_Timeout = t\<rparr>"

definition posting :: "int \<Rightarrow> string \<Rightarrow> string \<Rightarrow> header \<Rightarrow> string \<Rightarrow> BrokerRequest" where
  "posting t u path h body = \<lparr>br_Method = ''POST'', br_URL = TrimRight1 u (CHR ''/'') @ path,
     br_Header = (''Content-Type'', ''application/json'') # h, br_Body = body, br_Timeout = t\<rparr>"

fun call_requests :: "int \<Rightarrow> (json \<Rightarrow> string) \<Rightarrow> string \<Rightarrow> broker_call \<Rightarrow> BrokerRequest list" where
  "call_requests t render u (CSubmit a body unit) =
     [(posting 0 u ''/v1/job'' (scoped a ''paid-job/v1'') body)
        \<lparr>br_Header := [(''Accept'', ''text/event-stream''), (''Content-Type'', ''application/json'')] @ scoped a ''paid-job/v1''\<rparr>,
      getting t u (''/v1/exchange/'' @ url_PathEscape (ba_RequestID a)) []]"
| "call_requests t render u (COpen a body) = [posting t u ''/v1/session'' (scoped a ''paid-session/v1'') body]"
| "call_requests t render u (CStatus sid cred) = [getting t u (''/v1/session/'' @ url_PathEscape sid) (bearer cred)]"
| "call_requests t render u (CTopUp sid cred a body) =
     [posting t u (''/v1/session/'' @ url_PathEscape sid @ ''/topup'') (bearer cred @ scoped a ''paid-session/v1'') body]"
| "call_requests t render u (CEnd sid cred reason) =
     [posting t u (''/v1/session/'' @ url_PathEscape sid @ ''/end'') (bearer cred) (render (JObj [(''reason'', JStr reason)]))]"
| "call_requests t render u (CLookupJob rid jid unit wid) = [getting t u (''/v1/exchange/'' @ url_PathEscape rid) []]"
| "call_requests t render u (CLookupSettlement sid wid unit) = [getting t u (''/v1/settlement/'' @ url_PathEscape sid) []]"
| "call_requests t render u (CLookupOpen rid gid) = [getting t u (''/v1/exchange/'' @ url_PathEscape rid) []]"

section \<open>Facts\<close>

text \<open>\<open>sends rs m\<close>: whatever happens, \<open>m\<close> sends a beginning of \<open>rs\<close>. \<open>once r m\<close>: it sends \<open>r\<close> when it succeeds.\<close>

definition sends :: "BrokerRequest list \<Rightarrow> ('s \<times> BrokerRequest list, err, 'a) eff \<Rightarrow> bool" where
  "sends rs m \<longleftrightarrow> (\<forall>x. \<exists>k. snd (snd (m x)) = snd x @ take k rs)"

definition once :: "BrokerRequest \<Rightarrow> ('s \<times> BrokerRequest list, err, 'a) eff \<Rightarrow> bool" where
  "once r m \<longleftrightarrow> (\<forall>x. case m x of (Inr _, y) \<Rightarrow> snd y = snd x @ [r] | (Inl _, y) \<Rightarrow> snd y \<in> {snd x, snd x @ [r]})"

named_theorems send_rules

lemma sends_ret [send_rules]: "sends rs (ret v)"
  by (auto simp: sends_def ret_def intro: exI [of _ 0])

lemma sends_throw [send_rules]: "sends rs (throw e)"
  by (auto simp: sends_def throw_def intro: exI [of _ 0])

lemma sends_lift [send_rules]: "sends rs (lift_result v)"
  by (cases v) (simp_all add: lift_result_def sends_ret sends_throw)

lemma sends_if [send_rules]: "sends rs m \<Longrightarrow> sends rs n \<Longrightarrow> sends rs (if b then m else n)"
  by simp

lemma sends_sum [send_rules]: "(\<And>e. sends rs (f e)) \<Longrightarrow> (\<And>y. sends rs (g y)) \<Longrightarrow> sends rs (case v of Inl e \<Rightarrow> f e | Inr y \<Rightarrow> g y)"
  by (cases v) simp_all

lemma sends_option [send_rules]: "sends rs f \<Longrightarrow> (\<And>y. sends rs (g y)) \<Longrightarrow> sends rs (case v of None \<Rightarrow> f | Some y \<Rightarrow> g y)"
  by (cases v) simp_all

lemma once_then: "once r m \<Longrightarrow> (\<And>v. sends rs (k v)) \<Longrightarrow> sends (r # rs) (bindE m k)"
proof -
  assume m: "once r m" and k: "\<And>v. sends rs (k v)"
  have "\<exists>j. snd (snd (bindE m k x)) = snd x @ take j (r # rs)" for x
  proof -
    obtain v y where Pair: "m x = (v, y)" by (rule prod.exhaust)
    with m have v: "case v of Inr _ \<Rightarrow> snd y = snd x @ [r] | Inl _ \<Rightarrow> snd y \<in> {snd x, snd x @ [r]}"
      unfolding once_def by (metis (no_types, lifting) case_prod_conv)
    show ?thesis
    proof (cases v)
      case (Inl e)
      with v have "snd y = snd x @ take 0 (r # rs) \<or> snd y = snd x @ take 1 (r # rs)" by simp
      with Pair Inl show ?thesis by (auto simp: bindE_def intro: exI [of _ 0] exI [of _ 1])
    next
      case (Inr a)
      obtain j where "snd (snd (k a y)) = snd y @ take j rs" using k unfolding sends_def by blast
      with Pair Inr v have "snd (snd (bindE m k x)) = snd x @ take (Suc j) (r # rs)" by (simp add: bindE_def)
      then show ?thesis by blast
    qed
  qed
  then show ?thesis by (simp add: sends_def)
qed

lemma sends_none: "sends [] m \<longleftrightarrow> (\<forall>x. snd (snd (m x)) = snd x)"
  by (simp add: sends_def)

lemma none_then: "sends [] m \<Longrightarrow> (\<And>v. sends rs (k v)) \<Longrightarrow> sends rs (bindE m k)"
proof -
  assume m: "sends [] m" and k: "\<And>v. sends rs (k v)"
  have "\<exists>j. snd (snd (bindE m k x)) = snd x @ take j rs" for x
  proof -
    obtain v y where Pair: "m x = (v, y)" by (rule prod.exhaust)
    with m have y: "snd y = snd x" by (metis sends_none snd_conv)
    show ?thesis
    proof (cases v)
      case (Inr a)
      obtain j where "snd (snd (k a y)) = snd y @ take j rs" using k unfolding sends_def by blast
      with Pair Inr y show ?thesis by (auto simp: bindE_def)
    qed (use Pair y in \<open>auto simp: bindE_def intro: exI [of _ 0]\<close>)
  qed
  then show ?thesis by (simp add: sends_def)
qed

lemma sends_sse: "(\<And>e. sends [] (cb e)) \<Longrightarrow> sends [] (readSSE_loop cb err ls w data)"
proof (induction cb err ls w data rule: readSSE_loop.induct)
  case (1 cb err w data)
  then show ?case
    by (auto simp: sse_dispatch_def intro!: none_then send_rules split: option.splits)
next
  case (2 cb err line ls w data)
  have d: "sends [] (sse_dispatch cb w data)"
    unfolding sse_dispatch_def by (intro none_then send_rules 2)
  consider "line = ''''" | "line \<noteq> ''''" "HasPrefix line '':''" | "line \<noteq> ''''" "\<not> HasPrefix line '':''" by blast
  then show ?case
  proof cases
    case 1
    with 2 show ?thesis by (auto intro!: none_then [OF d])
  next
    case 3
    with 2 show ?thesis by (cases "sse_field line w data") simp
  qed (use 2 in simp)
qed

lemma unlogged_none: "sends [] (unlogged m)"
  by (auto simp: sends_none unlogged_def split: prod.splits)

declare client_Do.simps [simp del]

lemma one_trip: "hc_UseLast c \<Longrightarrow> client_Do N c n r = bn_round_trip N r"
  by (rule ext, subst client_Do.simps) (simp add: bindE_def ret_def split: prod.splits sum.splits)

lemma once_request:
  assumes "r = \<lparr>br_Method = method, br_URL = target,
     br_Header = (if stream then hset ''Accept'' ''text/event-stream'' else id)
       ((if body \<noteq> None then hset ''Content-Type'' ''application/json'' else id) h),
     br_Body = (case body of None \<Rightarrow> '''' | Some b \<Rightarrow> b), br_Timeout = (if stream then 0 else hc_Timeout c)\<rparr>"
  shows "once r (requestV2 (logged N) c method target h body stream)"
  using assms by (cases "bn_newRequest N target"; cases stream; cases body)
    (auto simp: once_def requestV2_def one_trip Let_def logged_def throw_def split: prod.splits sum.splits)

lemma once_get: "once (getting (hc_Timeout c) u path h) (get_request (logged N) c (endpoint u path) h)"
  unfolding get_request_def by (rule once_request) (simp add: getting_def endpoint_def)

lemma once_post:
  "hset ''Content-Type'' ''application/json'' h = (''Content-Type'', ''application/json'') # h \<Longrightarrow>
    once (posting (hc_Timeout c) u path h body) (post_request (logged N) c (endpoint u path) h body)"
  unfolding post_request_def by (rule once_request) (simp add: posting_def endpoint_def)

lemma auth_scoped: "auth_headers a p = Inr h \<Longrightarrow> h = scoped a p"
  by (simp add: auth_headers_def scoped_def split: if_splits)

lemma credential_bearer: "credentialHeader cred = Inr h \<Longrightarrow> h = bearer cred"
  by (simp add: credentialHeader_def bearer_def split: if_splits)

lemma sends_none_any: "sends [] m \<Longrightarrow> sends rs m"
  unfolding sends_def by (metis append_Nil2 take0 take_Nil)

lemma sends_no_result: "sends rs m \<Longrightarrow> sends rs (no_result m)"
proof -
  assume m: "sends rs m"
  have "snd (no_result m x) = snd (m x)" for x
    by (simp add: no_result_def bindE_def ret_def split: prod.splits sum.splits)
  with m show ?thesis by (simp add: sends_def)
qed

lemma call_job_lookup: "sends [getting (hc_Timeout c) u (''/v1/exchange/'' @ url_PathEscape rid) []] (http_LookupJobV2 (logged N) c C u rid jid unit wid)"
  unfolding http_LookupJobV2_def by (intro once_then [OF once_get] send_rules)

lemma call_submit: "sends (call_requests (hc_Timeout c) render u (CSubmit a body unit)) (http_SubmitJobV2 (logged N) c C u a body unit (\<lambda>e. unlogged (cb e)))"
proof (cases "auth_headers a ''paid-job/v1''")
  case (Inr h)
  have h: "h = scoped a ''paid-job/v1''" using auth_scoped [OF Inr] .
  have post: "once (hd (call_requests (hc_Timeout c) render u (CSubmit a body unit)))
      (requestV2 (logged N) c ''POST'' (endpoint u ''/v1/job'') h (Some body) True)"
    by (rule once_request) (simp add: h posting_def scoped_def hset_def endpoint_def)
  have events: "sends rs (bindE (readSSE (\<lambda>e. unlogged (cb e)) ls err) k)" if "\<And>v. sends rs (k v)" for rs ls err k
    by (rule readSSE_cases; intro none_then [OF sends_sse] unlogged_none that)
  have "sends (call_requests (hc_Timeout c) render u (CSubmit a body unit))
      (SubmitJobV2 C a unit (requestV2 (logged N) c ''POST'' (endpoint u ''/v1/job'') h (Some body) True)
        (\<lambda>jobID. http_LookupJobV2 (logged N) c C u (ba_RequestID a) jobID unit (ba_WorkID a)) (\<lambda>e. unlogged (cb e)))"
    unfolding SubmitJobV2_def Let_def Inr sum.case call_requests.simps
    by (intro once_then [OF post [unfolded call_requests.simps list.sel]] events send_rules call_job_lookup)
  then show ?thesis by (simp add: http_SubmitJobV2_def Inr)
qed (simp add: http_SubmitJobV2_def sends_throw)

lemma call_open: "sends (call_requests (hc_Timeout c) render u (COpen a body)) (http_BrokerOpenSessionV2 (logged N) c C u a body)"
proof (cases "auth_headers a ''paid-session/v1''")
  case (Inr h)
  then show ?thesis
    unfolding http_BrokerOpenSessionV2_def BrokerOpenSessionV2_def Inr sum.case call_requests.simps
    by (auto intro!: once_then once_post send_rules simp: auth_scoped [OF Inr] scoped_def hset_def split: prod.splits)
qed (simp add: http_BrokerOpenSessionV2_def sends_throw)

lemma call_status: "sends (call_requests (hc_Timeout c) render u (CStatus sid cred)) (http_StatusSessionV2 (logged N) c C u sid cred)"
proof (cases "credentialHeader cred")
  case (Inr h)
  then show ?thesis
    unfolding http_StatusSessionV2_def StatusSessionV2_def Inr sum.case call_requests.simps session_endpoint_def
    by (auto intro!: once_then once_get send_rules simp: credential_bearer [OF Inr])
qed (simp add: http_StatusSessionV2_def sends_throw)

lemma session_path: "session_endpoint u sid @ p = endpoint u (''/v1/session/'' @ url_PathEscape sid @ p)"
  by (simp add: session_endpoint_def endpoint_def)

lemma call_topup: "sends (call_requests (hc_Timeout c) render u (CTopUp sid cred a body)) (http_TopUpSessionV2 (logged N) c C u sid cred a body)"
proof (cases "auth_headers a ''paid-session/v1''")
  case (Inr h)
  have h: "hset ''Authorization'' (''Bearer '' @ cred) h = bearer cred @ scoped a ''paid-session/v1''"
    by (simp add: auth_scoped [OF Inr] scoped_def hset_def bearer_def)
  show ?thesis
    unfolding http_TopUpSessionV2_def TopUpSessionV2_def Inr sum.case call_requests.simps session_path h
    by (intro send_rules once_then once_post) (simp add: bearer_def scoped_def hset_def)
qed (simp add: http_TopUpSessionV2_def sends_throw)

lemma call_end: "sends (call_requests (hc_Timeout c) render u (CEnd sid cred reason)) (http_EndSessionV2 (logged N) c C render u sid cred reason)"
proof (cases "credentialHeader cred")
  case (Inr h)
  have h: "h = bearer cred" by (rule credential_bearer [OF Inr])
  show ?thesis
    unfolding http_EndSessionV2_def EndSessionV2_def Inr sum.case call_requests.simps session_path h
    by (intro send_rules once_then once_post) (simp add: bearer_def hset_def)
qed (simp add: http_EndSessionV2_def sends_throw)

lemma call_settlement:
  "sends (call_requests (hc_Timeout c) render u (CLookupSettlement sid wid unit)) (http_LookupSessionSettlementV2 (logged N) c C u sid wid unit)"
  unfolding http_LookupSessionSettlementV2_def call_requests.simps by (intro once_then [OF once_get] send_rules)

lemma call_opened: "sends (call_requests (hc_Timeout c) render u (CLookupOpen rid gid)) (http_LookupSessionOpenV2 (logged N) c C u rid gid)"
  unfolding http_LookupSessionOpenV2_def call_requests.simps by (intro once_then [OF once_get] send_rules)

text \<open>C35: the broker client sends what its caller handed it, to the broker its caller named, and nothing
  else. Whatever the network and the broker answer, redirects to other addresses included, and whatever
  becomes of the call, the requests a call sends are a beginning of a list that its arguments alone
  determine: one request (a submitted job may be followed by one look-up of its outcome), below the given
  address, with the scoped authorization or the session's credential in its headers and the given body.\<close>

theorem broker_requests_fixed:
  "\<exists>k. snd (snd (run_call N c C render cb u call (s, sent))) = sent @ take k (call_requests (hc_Timeout c) render u call)"
proof -
  have "sends (call_requests (hc_Timeout c) render u call) (run_call N c C render cb u call)"
    by (cases call) (simp_all only: run_call.simps call_requests.simps(6) sends_no_result call_submit call_open call_status
      call_topup call_end call_job_lookup call_settlement call_opened)
  then show ?thesis unfolding sends_def by (metis snd_conv)
qed

end
