(* ===== verification/Row_Codec.thy ===== *)
theory Row_Codec
  imports Views
begin

text \<open>
  Between the tables and the structs of \<^verbatim>\<open>internal/repo\<close>: the select lists of the statements and the scan
  functions that read a result row by position. \<open>reservation_row\<close> and its siblings are the stored rows, by
  the column names of the migrations; a \<^verbatim>\<open>numeric\<close> column crosses the driver as decimal text. The sealed
  secrets and the public view of an operation are the types of the journal's model.
\<close>

section \<open>Columns\<close>

datatype ('s, 'v) column = CNull | CText string | CInt int | CTime time | CBool bool | CFloat rat | CNum string | CTexts "string list" | CSecret 's | CView 'v

type_synonym ('s, 'v) row = "(string \<times> ('s, 'v) column) list"

definition of_null :: "('a \<Rightarrow> ('s, 'v) column) \<Rightarrow> 'a option \<Rightarrow> ('s, 'v) column" where
  "of_null c x = (case x of None \<Rightarrow> CNull | Some v \<Rightarrow> c v)"

text \<open>A statement fails on an unknown column.\<close>

definition select :: "string list \<Rightarrow> ('s, 'v) row \<Rightarrow> ('s, 'v) column list option" where
  "select cols r = those (map (map_of r) cols)"

text \<open>\<^verbatim>\<open>Scan\<close>: destinations are filled in order, a null needs a pointer, and as many columns as destinations
  are required.\<close>

fun as_text :: "('s, 'v) column \<Rightarrow> string option" where
  "as_text (CText s) = Some s" | "as_text _ = None"

fun as_int :: "('s, 'v) column \<Rightarrow> int option" where
  "as_int (CInt n) = Some n" | "as_int _ = None"

fun as_time :: "('s, 'v) column \<Rightarrow> time option" where
  "as_time (CTime t) = Some t" | "as_time _ = None"

fun as_bool :: "('s, 'v) column \<Rightarrow> bool option" where
  "as_bool (CBool b) = Some b" | "as_bool _ = None"

fun as_float :: "('s, 'v) column \<Rightarrow> rat option" where
  "as_float (CFloat x) = Some x" | "as_float _ = None"

fun as_num :: "('s, 'v) column \<Rightarrow> string option" where
  "as_num (CNum s) = Some s" | "as_num _ = None"

fun as_texts :: "('s, 'v) column \<Rightarrow> string list option" where
  "as_texts (CTexts ss) = Some ss" | "as_texts _ = None"

fun as_secret :: "('s, 'v) column \<Rightarrow> 's option" where
  "as_secret (CSecret x) = Some x" | "as_secret _ = None"

fun as_view :: "('s, 'v) column \<Rightarrow> 'v option" where
  "as_view (CView x) = Some x" | "as_view _ = None"

fun nullable :: "(('s, 'v) column \<Rightarrow> 'a option) \<Rightarrow> ('s, 'v) column \<Rightarrow> 'a option option" where
  "nullable d CNull = Some None"
| "nullable d v = map_option Some (d v)"

definition scan1 :: "(('s, 'v) column \<Rightarrow> 'a option) \<Rightarrow> ('a \<Rightarrow> ('s, 'v) column list \<Rightarrow> 'b option) \<Rightarrow> ('s, 'v) column list \<Rightarrow> 'b option" where
  "scan1 d k vs = (case vs of [] \<Rightarrow> None | v # vs' \<Rightarrow> (case d v of None \<Rightarrow> None | Some x \<Rightarrow> k x vs'))"

definition scan_done :: "'b option \<Rightarrow> ('s, 'v) column list \<Rightarrow> 'b option" where
  "scan_done r vs = (if vs = [] then r else None)"

text \<open>The texts of the state columns; the \<^verbatim>\<open>CHECK\<close> constraints admit no others.\<close>

fun settle_state_text :: "SettleState \<Rightarrow> string" where
  "settle_state_text SettleNone = ''none''"
| "settle_state_text SettlePending = ''pending''"
| "settle_state_text SettleSettled = ''settled''"
| "settle_state_text SettleRefunded = ''refunded''"
| "settle_state_text SettleFailed = ''failed''"

definition settle_state_check :: "string \<Rightarrow> SettleState option" where
  "settle_state_check s = find (\<lambda>x. settle_state_text x = s) [SettleNone, SettlePending, SettleSettled, SettleRefunded, SettleFailed]"

definition reservation_state_check :: "string \<Rightarrow> ReservationState option" where
  "reservation_state_check s = find (\<lambda>x. reservation_state_text x = s) [ReservationOpen, ReservationCommitted, ReservationRefunded]"

definition waitlist_status_check :: "string \<Rightarrow> WaitlistStatus option" where
  "waitlist_status_check s = find (\<lambda>x. waitlist_status_text x = s) [WaitlistPending, WaitlistApproved, WaitlistRejected]"

text \<open>\<^verbatim>\<open>SetString\<close> into a fresh number, zero here when the text is none.\<close>

definition parseUnits :: "string option \<Rightarrow> int option" where
  "parseUnits s = map_option (\<lambda>t. case SetString10 t of Some n \<Rightarrow> n | None \<Rightarrow> 0) s"

section \<open>Rows, select lists and scans\<close>

definition reservation_row :: "UsageReservation \<Rightarrow> ('s, 'v) row" where
  "reservation_row r =
     [(''id'', CText (ur_ID r)), (''api_key_id'', CText (ur_APIKeyID r)), (''work_id'', CText (ur_WorkID r)),
      (''capability'', CText (ur_Capability r)), (''offering'', CText (ur_Offering r)),
      (''broker_url'', of_null CText (ur_BrokerURL r)), (''eth_address'', of_null CText (ur_EthAddress r)),
      (''state'', CText (reservation_state_text (ur_State r))),
      (''estimated_work_units'', of_null CInt (ur_EstimatedWorkUnits r)),
      (''committed_work_units'', of_null CInt (ur_CommittedWorkUnits r)),
      (''price_per_work_unit_wei'', of_null CNum (stringifyBig (ur_PricePerWorkUnitWei r))),
      (''latency_ms'', of_null CInt (ur_LatencyMs r)), (''status_code'', of_null CInt (ur_StatusCode r)),
      (''error_text'', of_null CText (ur_ErrorText r)), (''runner_job_id'', of_null CText (ur_RunnerJobID r)),
      (''webhook_secret'', of_null CText (ur_WebhookSecret r)),
      (''runner_status'', of_null CText (ur_RunnerStatus r)), (''runner_phase'', of_null CText (ur_RunnerPhase r)),
      (''runner_progress'', of_null CFloat (ur_RunnerProgress r)),
      (''runner_error_code'', of_null CText (ur_RunnerErrorCode r)),
      (''runner_error_text'', of_null CText (ur_RunnerErrorText r)),
      (''runner_state_json'', of_null CText (ur_RunnerStateJSON r)),
      (''runner_completed_at'', of_null CTime (ur_RunnerCompletedAt r)),
      (''loc_job_id'', of_null CText (ur_LOCJobID r)), (''loc_work_id'', of_null CText (ur_LOCWorkID r)),
      (''funded_value_wei'', of_null CNum (stringifyBig (ur_FundedValueWei r))),
      (''expected_value_wei'', of_null CNum (stringifyBig (ur_ExpectedValueWei r))),
      (''billed_value_wei'', of_null CNum (stringifyBig (ur_BilledValueWei r))),
      (''settled_at'', of_null CTime (ur_SettledAt r)),
      (''settle_state'', CText (settle_state_text (ur_SettleState r))), (''created_at'', CTime (ur_CreatedAt r)),
      (''resolved_at'', of_null CTime (ur_ResolvedAt r)), (''live_stream_id'', of_null CText (ur_live_stream_id r))]"

definition reservation_Open_columns :: "string list" where
  "reservation_Open_columns =
     [''id'', ''api_key_id'', ''work_id'', ''capability'', ''offering'', ''broker_url'', ''eth_address'',
      ''state'', ''estimated_work_units'', ''committed_work_units'', ''price_per_work_unit_wei'',
      ''latency_ms'', ''status_code'', ''error_text'', ''runner_job_id'', ''webhook_secret'', ''runner_status'',
      ''runner_phase'', ''runner_progress'', ''runner_error_code'', ''runner_error_text'',
      ''runner_state_json'', ''runner_completed_at'', ''loc_job_id'', ''loc_work_id'', ''funded_value_wei'',
      ''expected_value_wei'', ''billed_value_wei'', ''settled_at'', ''settle_state'', ''created_at'',
      ''resolved_at'']"

definition reservation_GetByWorkID_columns :: "string list" where
  "reservation_GetByWorkID_columns =
     [''id'', ''api_key_id'', ''work_id'', ''capability'', ''offering'', ''broker_url'', ''eth_address'',
      ''state'', ''estimated_work_units'', ''committed_work_units'', ''price_per_work_unit_wei'',
      ''latency_ms'', ''status_code'', ''error_text'', ''runner_job_id'', ''webhook_secret'', ''runner_status'',
      ''runner_phase'', ''runner_progress'', ''runner_error_code'', ''runner_error_text'',
      ''runner_state_json'', ''runner_completed_at'', ''loc_job_id'', ''loc_work_id'', ''funded_value_wei'',
      ''expected_value_wei'', ''billed_value_wei'', ''settled_at'', ''settle_state'', ''created_at'',
      ''resolved_at'']"

definition reservation_GetByID_columns :: "string list" where
  "reservation_GetByID_columns =
     [''id'', ''api_key_id'', ''work_id'', ''capability'', ''offering'', ''broker_url'', ''eth_address'',
      ''state'', ''estimated_work_units'', ''committed_work_units'', ''price_per_work_unit_wei'',
      ''latency_ms'', ''status_code'', ''error_text'', ''runner_job_id'', ''webhook_secret'', ''runner_status'',
      ''runner_phase'', ''runner_progress'', ''runner_error_code'', ''runner_error_text'',
      ''runner_state_json'', ''runner_completed_at'', ''loc_job_id'', ''loc_work_id'', ''funded_value_wei'',
      ''expected_value_wei'', ''billed_value_wei'', ''settled_at'', ''settle_state'', ''created_at'',
      ''resolved_at'']"

definition reservation_ListByAPIKey_columns :: "string list" where
  "reservation_ListByAPIKey_columns =
     [''id'', ''api_key_id'', ''work_id'', ''capability'', ''offering'', ''broker_url'', ''eth_address'',
      ''state'', ''estimated_work_units'', ''committed_work_units'', ''price_per_work_unit_wei'',
      ''latency_ms'', ''status_code'', ''error_text'', ''runner_job_id'', ''webhook_secret'', ''runner_status'',
      ''runner_phase'', ''runner_progress'', ''runner_error_code'', ''runner_error_text'',
      ''runner_state_json'', ''runner_completed_at'', ''loc_job_id'', ''loc_work_id'', ''funded_value_wei'',
      ''expected_value_wei'', ''billed_value_wei'', ''settled_at'', ''settle_state'', ''created_at'',
      ''resolved_at'']"

definition reservation_ListByCapability_columns :: "string list" where
  "reservation_ListByCapability_columns =
     [''id'', ''api_key_id'', ''work_id'', ''capability'', ''offering'', ''broker_url'', ''eth_address'',
      ''state'', ''estimated_work_units'', ''committed_work_units'', ''price_per_work_unit_wei'',
      ''latency_ms'', ''status_code'', ''error_text'', ''runner_job_id'', ''webhook_secret'', ''runner_status'',
      ''runner_phase'', ''runner_progress'', ''runner_error_code'', ''runner_error_text'',
      ''runner_state_json'', ''runner_completed_at'', ''loc_job_id'', ''loc_work_id'', ''funded_value_wei'',
      ''expected_value_wei'', ''billed_value_wei'', ''settled_at'', ''settle_state'', ''created_at'',
      ''resolved_at'']"

definition reservation_LookupByRunnerJobID_columns :: "string list" where
  "reservation_LookupByRunnerJobID_columns =
     [''id'', ''api_key_id'', ''work_id'', ''capability'', ''offering'', ''broker_url'', ''eth_address'',
      ''state'', ''estimated_work_units'', ''committed_work_units'', ''price_per_work_unit_wei'',
      ''latency_ms'', ''status_code'', ''error_text'', ''runner_job_id'', ''webhook_secret'', ''runner_status'',
      ''runner_phase'', ''runner_progress'', ''runner_error_code'', ''runner_error_text'',
      ''runner_state_json'', ''runner_completed_at'', ''loc_job_id'', ''loc_work_id'', ''funded_value_wei'',
      ''expected_value_wei'', ''billed_value_wei'', ''settled_at'', ''settle_state'', ''created_at'',
      ''resolved_at'']"

definition reservation_ListPendingSettle_columns :: "string list" where
  "reservation_ListPendingSettle_columns =
     [''id'', ''api_key_id'', ''work_id'', ''capability'', ''offering'', ''broker_url'', ''eth_address'',
      ''state'', ''estimated_work_units'', ''committed_work_units'', ''price_per_work_unit_wei'',
      ''latency_ms'', ''status_code'', ''error_text'', ''runner_job_id'', ''webhook_secret'', ''runner_status'',
      ''runner_phase'', ''runner_progress'', ''runner_error_code'', ''runner_error_text'',
      ''runner_state_json'', ''runner_completed_at'', ''loc_job_id'', ''loc_work_id'', ''funded_value_wei'',
      ''expected_value_wei'', ''billed_value_wei'', ''settled_at'', ''settle_state'', ''created_at'',
      ''resolved_at'']"

definition scanReservation :: "('s, 'v) column list \<Rightarrow> UsageReservation option" where
  "scanReservation =
     scan1 as_text (\<lambda>vID. scan1 as_text (\<lambda>vAPIKeyID. scan1 as_text (\<lambda>vWorkID.
     scan1 as_text (\<lambda>vCapability. scan1 as_text (\<lambda>vOffering. scan1 (nullable as_text) (\<lambda>vBrokerURL.
     scan1 (nullable as_text) (\<lambda>vEthAddress. scan1 as_text (\<lambda>vState.
     scan1 (nullable as_int) (\<lambda>vEstimatedWorkUnits. scan1 (nullable as_int) (\<lambda>vCommittedWorkUnits.
     scan1 (nullable as_num) (\<lambda>vPricePerWorkUnitWei. scan1 (nullable as_int) (\<lambda>vLatencyMs.
     scan1 (nullable as_int) (\<lambda>vStatusCode. scan1 (nullable as_text) (\<lambda>vErrorText.
     scan1 (nullable as_text) (\<lambda>vRunnerJobID. scan1 (nullable as_text) (\<lambda>vWebhookSecret.
     scan1 (nullable as_text) (\<lambda>vRunnerStatus. scan1 (nullable as_text) (\<lambda>vRunnerPhase.
     scan1 (nullable as_float) (\<lambda>vRunnerProgress. scan1 (nullable as_text) (\<lambda>vRunnerErrorCode.
     scan1 (nullable as_text) (\<lambda>vRunnerErrorText. scan1 (nullable as_text) (\<lambda>vRunnerStateJSON.
     scan1 (nullable as_time) (\<lambda>vRunnerCompletedAt. scan1 (nullable as_text) (\<lambda>vLOCJobID.
     scan1 (nullable as_text) (\<lambda>vLOCWorkID. scan1 (nullable as_num) (\<lambda>vFundedValueWei.
     scan1 (nullable as_num) (\<lambda>vExpectedValueWei. scan1 (nullable as_num) (\<lambda>vBilledValueWei.
     scan1 (nullable as_time) (\<lambda>vSettledAt. scan1 as_text (\<lambda>vSettleState. scan1 as_time (\<lambda>vCreatedAt.
     scan1 (nullable as_time) (\<lambda>vResolvedAt.
     scan_done (case reservation_state_check vState of None \<Rightarrow> None | Some vState' \<Rightarrow> case settle_state_check vSettleState of None \<Rightarrow> None | Some vSettleState' \<Rightarrow> Some
       \<lparr>ur_ID = vID, ur_APIKeyID = vAPIKeyID, ur_WorkID = vWorkID, ur_Capability = vCapability,
        ur_Offering = vOffering, ur_BrokerURL = vBrokerURL, ur_EthAddress = vEthAddress, ur_State = vState',
        ur_EstimatedWorkUnits = vEstimatedWorkUnits, ur_CommittedWorkUnits = vCommittedWorkUnits,
        ur_PricePerWorkUnitWei = parseBig vPricePerWorkUnitWei, ur_LatencyMs = vLatencyMs,
        ur_StatusCode = vStatusCode, ur_ErrorText = vErrorText, ur_RunnerJobID = vRunnerJobID,
        ur_WebhookSecret = vWebhookSecret, ur_RunnerStatus = vRunnerStatus, ur_RunnerPhase = vRunnerPhase,
        ur_RunnerProgress = vRunnerProgress, ur_RunnerErrorCode = vRunnerErrorCode,
        ur_RunnerErrorText = vRunnerErrorText, ur_RunnerStateJSON = vRunnerStateJSON,
        ur_RunnerCompletedAt = vRunnerCompletedAt, ur_LOCJobID = vLOCJobID, ur_LOCWorkID = vLOCWorkID,
        ur_FundedValueWei = parseBig vFundedValueWei, ur_ExpectedValueWei = parseBig vExpectedValueWei,
        ur_BilledValueWei = parseBig vBilledValueWei, ur_SettledAt = vSettledAt, ur_SettleState = vSettleState',
        ur_CreatedAt = vCreatedAt, ur_ResolvedAt = vResolvedAt, ur_live_stream_id = None\<rparr>)))))))))))))))))))))))))))))))))"

definition live_row :: "LiveStream \<Rightarrow> ('s, 'v) row" where
  "live_row r =
     [(''id'', CText (ls_ID r)), (''api_key_id'', CText (ls_APIKeyID r)),
      (''reservation_id'', of_null CText (ls_ReservationID r)), (''name'', of_null CText (ls_Name r)),
      (''status'', CText (live_status_text (ls_Status r))), (''capability'', CText (ls_Capability r)),
      (''offering'', CText (ls_Offering r)), (''broker_url'', of_null CText (ls_BrokerURL r)),
      (''eth_address'', of_null CText (ls_EthAddress r)), (''ingest_url'', of_null CText (ls_IngestURL r)),
      (''stream_key_hash'', of_null CText (ls_StreamKeyHash r)),
      (''playback_url'', of_null CText (ls_PlaybackURL r)), (''ladder_json'', of_null CText (ls_LadderJSON r)),
      (''error_text'', of_null CText (ls_ErrorText r)),
      (''broker_session_id'', of_null CText (ls_BrokerSessionID r)),
      (''runner_session_id'', of_null CText (ls_RunnerSessionID r)),
      (''broker_work_id'', of_null CText (ls_BrokerWorkID r)), (''close_reason'', of_null CText (ls_CloseReason r)),
      (''last_broker_sync_at'', of_null CTime (ls_LastBrokerSyncAt r)),
      (''s3_output_prefix'', of_null CText (ls_S3OutputPrefix r)),
      (''private_ingest_url'', of_null CText (ls_PrivateIngestURL r)),
      (''stream_key_hint'', of_null CText (ls_StreamKeyHint r)), (''created_at'', CTime (ls_CreatedAt r)),
      (''started_at'', of_null CTime (ls_StartedAt r)),
      (''last_heartbeat_at'', of_null CTime (ls_LastHeartbeatAt r)), (''ended_at'', of_null CTime (ls_EndedAt r)),
      (''runner_status_json'', of_null CText (ls_RunnerStatusJSON r)),
      (''loc_session_id'', of_null CText (ls_LOCSessionID r)), (''loc_work_id'', of_null CText (ls_LOCWorkID r)),
      (''loc_refill_count'', CInt (ls_LOCRefillCount r)), (''loc_closed_at'', of_null CTime (ls_LOCClosedAt r))]"

definition liveSelectCols :: "string list" where
  "liveSelectCols =
     [''id'', ''api_key_id'', ''reservation_id'', ''name'', ''status'', ''capability'', ''offering'', ''broker_url'',
      ''eth_address'', ''ingest_url'', ''stream_key_hash'', ''playback_url'', ''ladder_json'', ''error_text'',
      ''broker_session_id'', ''runner_session_id'', ''broker_work_id'', ''close_reason'', ''last_broker_sync_at'',
      ''s3_output_prefix'', ''private_ingest_url'', ''stream_key_hint'', ''runner_status_json'', ''loc_session_id'',
      ''loc_work_id'', ''loc_refill_count'', ''loc_closed_at'', ''created_at'', ''started_at'',
      ''last_heartbeat_at'', ''ended_at'']"

definition scanLive :: "('s, 'v) column list \<Rightarrow> LiveStream option" where
  "scanLive =
     scan1 as_text (\<lambda>vID. scan1 as_text (\<lambda>vAPIKeyID. scan1 (nullable as_text) (\<lambda>vReservationID.
     scan1 (nullable as_text) (\<lambda>vName. scan1 as_text (\<lambda>vStatus. scan1 as_text (\<lambda>vCapability.
     scan1 as_text (\<lambda>vOffering. scan1 (nullable as_text) (\<lambda>vBrokerURL.
     scan1 (nullable as_text) (\<lambda>vEthAddress. scan1 (nullable as_text) (\<lambda>vIngestURL.
     scan1 (nullable as_text) (\<lambda>vStreamKeyHash. scan1 (nullable as_text) (\<lambda>vPlaybackURL.
     scan1 (nullable as_text) (\<lambda>vLadderJSON. scan1 (nullable as_text) (\<lambda>vErrorText.
     scan1 (nullable as_text) (\<lambda>vBrokerSessionID. scan1 (nullable as_text) (\<lambda>vRunnerSessionID.
     scan1 (nullable as_text) (\<lambda>vBrokerWorkID. scan1 (nullable as_text) (\<lambda>vCloseReason.
     scan1 (nullable as_time) (\<lambda>vLastBrokerSyncAt. scan1 (nullable as_text) (\<lambda>vS3OutputPrefix.
     scan1 (nullable as_text) (\<lambda>vPrivateIngestURL. scan1 (nullable as_text) (\<lambda>vStreamKeyHint.
     scan1 (nullable as_text) (\<lambda>vRunnerStatusJSON. scan1 (nullable as_text) (\<lambda>vLOCSessionID.
     scan1 (nullable as_text) (\<lambda>vLOCWorkID. scan1 as_int (\<lambda>vLOCRefillCount.
     scan1 (nullable as_time) (\<lambda>vLOCClosedAt. scan1 as_time (\<lambda>vCreatedAt.
     scan1 (nullable as_time) (\<lambda>vStartedAt. scan1 (nullable as_time) (\<lambda>vLastHeartbeatAt.
     scan1 (nullable as_time) (\<lambda>vEndedAt.
     scan_done (case live_status_check vStatus of None \<Rightarrow> None | Some vStatus' \<Rightarrow> Some
       \<lparr>ls_ID = vID, ls_APIKeyID = vAPIKeyID, ls_ReservationID = vReservationID, ls_Name = vName,
        ls_Status = vStatus', ls_Capability = vCapability, ls_Offering = vOffering, ls_BrokerURL = vBrokerURL,
        ls_EthAddress = vEthAddress, ls_IngestURL = vIngestURL, ls_StreamKeyHash = vStreamKeyHash,
        ls_PlaybackURL = vPlaybackURL, ls_LadderJSON = vLadderJSON, ls_ErrorText = vErrorText,
        ls_BrokerSessionID = vBrokerSessionID, ls_RunnerSessionID = vRunnerSessionID,
        ls_BrokerWorkID = vBrokerWorkID, ls_CloseReason = vCloseReason, ls_LastBrokerSyncAt = vLastBrokerSyncAt,
        ls_S3OutputPrefix = vS3OutputPrefix, ls_PrivateIngestURL = vPrivateIngestURL,
        ls_StreamKeyHint = vStreamKeyHint, ls_CreatedAt = vCreatedAt, ls_StartedAt = vStartedAt,
        ls_LastHeartbeatAt = vLastHeartbeatAt, ls_EndedAt = vEndedAt, ls_RunnerStatusJSON = vRunnerStatusJSON,
        ls_LOCSessionID = vLOCSessionID, ls_LOCWorkID = vLOCWorkID, ls_LOCRefillCount = vLOCRefillCount,
        ls_LOCClosedAt = vLOCClosedAt\<rparr>))))))))))))))))))))))))))))))))"

definition operation_row :: "('s, 'v) PaidOperation \<Rightarrow> ('s, 'v) row" where
  "operation_row r =
     [(''id'', CText (op_ID r)), (''api_key_id'', CText (op_APIKeyID r)),
      (''reservation_id'', CText (op_ReservationID r)), (''live_stream_id'', of_null CText (op_LiveStreamID r)),
      (''kind'', CText (op_Kind r)), (''request_key'', CText (op_RequestKey r)),
      (''request_hash'', CText (op_RequestHash r)), (''state'', CText (op_State r)),
      (''secrets'', CSecret (op_Secrets r)), (''public_json'', CView (op_PublicJSON r)),
      (''last_error'', of_null CText (op_LastError r)), (''attempts'', CInt (op_Attempts r)),
      (''next_attempt_at'', CTime (op_NextAttemptAt r)), (''stop_requested'', CBool (op_StopRequested r)),
      (''created_at'', CTime (op_CreatedAt r)), (''updated_at'', CTime (op_UpdatedAt r)),
      (''finished_at'', of_null CTime (op_FinishedAt r))]"

definition operationColumns :: "string list" where
  "operationColumns =
     [''id'', ''api_key_id'', ''reservation_id'', ''live_stream_id'', ''kind'', ''request_key'', ''request_hash'',
      ''state'', ''secrets'', ''public_json'', ''last_error'', ''attempts'', ''next_attempt_at'', ''stop_requested'',
      ''created_at'', ''updated_at'', ''finished_at'']"

definition scanOperation :: "('s, 'v) column list \<Rightarrow> ('s, 'v) PaidOperation option" where
  "scanOperation =
     scan1 as_text (\<lambda>vID. scan1 as_text (\<lambda>vAPIKeyID. scan1 as_text (\<lambda>vReservationID.
     scan1 (nullable as_text) (\<lambda>vLiveStreamID. scan1 as_text (\<lambda>vKind. scan1 as_text (\<lambda>vRequestKey.
     scan1 as_text (\<lambda>vRequestHash. scan1 as_text (\<lambda>vState. scan1 as_secret (\<lambda>vSecrets.
     scan1 as_view (\<lambda>vPublicJSON. scan1 (nullable as_text) (\<lambda>vLastError. scan1 as_int (\<lambda>vAttempts.
     scan1 as_time (\<lambda>vNextAttemptAt. scan1 as_bool (\<lambda>vStopRequested. scan1 as_time (\<lambda>vCreatedAt.
     scan1 as_time (\<lambda>vUpdatedAt. scan1 (nullable as_time) (\<lambda>vFinishedAt.
     scan_done (Some
       \<lparr>op_ID = vID, op_APIKeyID = vAPIKeyID, op_ReservationID = vReservationID,
        op_LiveStreamID = vLiveStreamID, op_Kind = vKind, op_RequestKey = vRequestKey, op_RequestHash = vRequestHash,
        op_State = vState, op_Secrets = vSecrets, op_PublicJSON = vPublicJSON, op_LastError = vLastError,
        op_Attempts = vAttempts, op_NextAttemptAt = vNextAttemptAt, op_StopRequested = vStopRequested,
        op_CreatedAt = vCreatedAt, op_UpdatedAt = vUpdatedAt, op_FinishedAt = vFinishedAt\<rparr>))))))))))))))))))"

text \<open>\<^verbatim>\<open>PublicViews\<close> has a list and a scan of its own.\<close>

definition PublicViews_columns :: "string list" where
  "PublicViews_columns = [''id'', ''state'', ''public_json'', ''stop_requested'', ''finished_at'']"

definition PublicViews_scan :: "('s, 'v) column list \<Rightarrow> 'v PublicView option" where
  "PublicViews_scan =
     scan1 as_text (\<lambda>vID. scan1 as_text (\<lambda>vState. scan1 as_view (\<lambda>vPublicJSON.
     scan1 as_bool (\<lambda>vStopRequested. scan1 (nullable as_time) (\<lambda>vFinishedAt.
     scan_done (Some
       \<lparr>pv_ID = vID, pv_State = vState, pv_PublicJSON = vPublicJSON, pv_StopRequested = vStopRequested,
        pv_FinishedAt = vFinishedAt\<rparr>))))))"

definition capability_row :: "Capability \<Rightarrow> ('s, 'v) row" where
  "capability_row r =
     [(''protocol'', CText (cap_Protocol r)), (''work_unit'', CText (cap_WorkUnit r)),
      (''units_per_price'', of_null CNum (stringifyBig (cap_UnitsPerPrice r))),
      (''work_unit_estimator_json'', of_null CText (cap_WorkUnitEstimatorJSON r)),
      (''job_json'', of_null CText (cap_JobJSON r)), (''session_json'', of_null CText (cap_SessionJSON r)),
      (''capability_id'', CText (cap_CapabilityID r)), (''capability'', CText (cap_Capability r)),
      (''offering'', CText (cap_Offering r)), (''interaction_mode'', of_null CText (cap_InteractionMode r)),
      (''name'', of_null CText (cap_Name r)), (''description'', of_null CText (cap_Description r)),
      (''provider'', of_null CText (cap_Provider r)), (''category'', of_null CText (cap_Category r)),
      (''eth_address'', of_null CText (cap_EthAddress r)),
      (''price_per_work_unit_wei'', of_null CNum (stringifyBig (cap_PricePerWorkUnitWei r))),
      (''broker_url'', of_null CText (cap_BrokerURL r)), (''extra_json'', of_null CText (cap_ExtraJSON r)),
      (''constraints_json'', of_null CText (cap_ConstraintsJSON r)), (''active'', CBool (cap_Active r)),
      (''snapshot_at'', CTime (cap_SnapshotAt r))]"

definition capability_columns :: "string list" where
  "capability_columns =
     [''capability_id'', ''capability'', ''offering'', ''interaction_mode'', ''name'', ''description'', ''provider'',
      ''category'', ''eth_address'', ''price_per_work_unit_wei'', ''broker_url'', ''extra_json'',
      ''constraints_json'', ''active'', ''snapshot_at'', ''protocol'', ''work_unit'', ''units_per_price'',
      ''work_unit_estimator_json'', ''job_json'', ''session_json'']"

definition scanCapability :: "('s, 'v) column list \<Rightarrow> Capability option" where
  "scanCapability =
     scan1 as_text (\<lambda>vCapabilityID. scan1 as_text (\<lambda>vCapability. scan1 as_text (\<lambda>vOffering.
     scan1 (nullable as_text) (\<lambda>vInteractionMode. scan1 (nullable as_text) (\<lambda>vName.
     scan1 (nullable as_text) (\<lambda>vDescription. scan1 (nullable as_text) (\<lambda>vProvider.
     scan1 (nullable as_text) (\<lambda>vCategory. scan1 (nullable as_text) (\<lambda>vEthAddress.
     scan1 (nullable as_num) (\<lambda>vPricePerWorkUnitWei. scan1 (nullable as_text) (\<lambda>vBrokerURL.
     scan1 (nullable as_text) (\<lambda>vExtraJSON. scan1 (nullable as_text) (\<lambda>vConstraintsJSON.
     scan1 as_bool (\<lambda>vActive. scan1 as_time (\<lambda>vSnapshotAt. scan1 as_text (\<lambda>vProtocol.
     scan1 as_text (\<lambda>vWorkUnit. scan1 (nullable as_num) (\<lambda>vUnitsPerPrice.
     scan1 (nullable as_text) (\<lambda>vWorkUnitEstimatorJSON. scan1 (nullable as_text) (\<lambda>vJobJSON.
     scan1 (nullable as_text) (\<lambda>vSessionJSON.
     scan_done (Some
       \<lparr>cap_Protocol = vProtocol, cap_WorkUnit = vWorkUnit, cap_UnitsPerPrice = parseUnits vUnitsPerPrice,
        cap_WorkUnitEstimatorJSON = vWorkUnitEstimatorJSON, cap_JobJSON = vJobJSON, cap_SessionJSON = vSessionJSON,
        cap_CapabilityID = vCapabilityID, cap_Capability = vCapability, cap_Offering = vOffering,
        cap_InteractionMode = vInteractionMode, cap_Name = vName, cap_Description = vDescription,
        cap_Provider = vProvider, cap_Category = vCategory, cap_EthAddress = vEthAddress,
        cap_PricePerWorkUnitWei = parseBig vPricePerWorkUnitWei, cap_BrokerURL = vBrokerURL,
        cap_ExtraJSON = vExtraJSON, cap_ConstraintsJSON = vConstraintsJSON, cap_Active = vActive,
        cap_SnapshotAt = vSnapshotAt\<rparr>))))))))))))))))))))))"

definition waitlist_row :: "Waitlist \<Rightarrow> ('s, 'v) row" where
  "waitlist_row r =
     [(''id'', CText (wl_ID r)), (''name'', CText (wl_Name r)), (''email'', CText (wl_Email r)),
      (''ip_hash'', of_null CText (wl_IPHash r)), (''email_verified_at'', of_null CTime (wl_EmailVerifiedAt r)),
      (''verification_token_hash'', of_null CText (wl_VerificationTokenHash r)),
      (''verification_token_expires_at'', of_null CTime (wl_VerificationTokenExpiresAt r)),
      (''status'', CText (waitlist_status_text (wl_Status r))), (''approved_at'', of_null CTime (wl_ApprovedAt r)),
      (''approved_by'', of_null CText (wl_ApprovedBy r)), (''created_at'', CTime (wl_CreatedAt r))]"

definition waitlist_Insert_columns :: "string list" where
  "waitlist_Insert_columns =
     [''id'', ''name'', ''email'', ''ip_hash'', ''email_verified_at'', ''verification_token_hash'',
      ''verification_token_expires_at'', ''status'', ''approved_at'', ''approved_by'', ''created_at'']"

definition waitlist_ConsumeVerificationToken_columns :: "string list" where
  "waitlist_ConsumeVerificationToken_columns =
     [''id'', ''name'', ''email'', ''ip_hash'', ''email_verified_at'', ''verification_token_hash'',
      ''verification_token_expires_at'', ''status'', ''approved_at'', ''approved_by'', ''created_at'']"

definition waitlist_GetByID_columns :: "string list" where
  "waitlist_GetByID_columns =
     [''id'', ''name'', ''email'', ''ip_hash'', ''email_verified_at'', ''verification_token_hash'',
      ''verification_token_expires_at'', ''status'', ''approved_at'', ''approved_by'', ''created_at'']"

definition waitlist_ListByStatus_columns :: "string list" where
  "waitlist_ListByStatus_columns =
     [''id'', ''name'', ''email'', ''ip_hash'', ''email_verified_at'', ''verification_token_hash'',
      ''verification_token_expires_at'', ''status'', ''approved_at'', ''approved_by'', ''created_at'']"

definition scanWaitlist :: "('s, 'v) column list \<Rightarrow> Waitlist option" where
  "scanWaitlist =
     scan1 as_text (\<lambda>vID. scan1 as_text (\<lambda>vName. scan1 as_text (\<lambda>vEmail.
     scan1 (nullable as_text) (\<lambda>vIPHash. scan1 (nullable as_time) (\<lambda>vEmailVerifiedAt.
     scan1 (nullable as_text) (\<lambda>vVerificationTokenHash.
     scan1 (nullable as_time) (\<lambda>vVerificationTokenExpiresAt. scan1 as_text (\<lambda>vStatus.
     scan1 (nullable as_time) (\<lambda>vApprovedAt. scan1 (nullable as_text) (\<lambda>vApprovedBy.
     scan1 as_time (\<lambda>vCreatedAt.
     scan_done (case waitlist_status_check vStatus of None \<Rightarrow> None | Some vStatus' \<Rightarrow> Some
       \<lparr>wl_ID = vID, wl_Name = vName, wl_Email = vEmail, wl_IPHash = vIPHash,
        wl_EmailVerifiedAt = vEmailVerifiedAt, wl_VerificationTokenHash = vVerificationTokenHash,
        wl_VerificationTokenExpiresAt = vVerificationTokenExpiresAt, wl_Status = vStatus',
        wl_ApprovedAt = vApprovedAt, wl_ApprovedBy = vApprovedBy, wl_CreatedAt = vCreatedAt\<rparr>))))))))))))"

text \<open>\<^verbatim>\<open>Insert\<close> of the waitlist scans in place.\<close>

definition waitlist_Insert_scan :: "('s, 'v) column list \<Rightarrow> Waitlist option" where
  "waitlist_Insert_scan =
     scan1 as_text (\<lambda>vID. scan1 as_text (\<lambda>vName. scan1 as_text (\<lambda>vEmail.
     scan1 (nullable as_text) (\<lambda>vIPHash. scan1 (nullable as_time) (\<lambda>vEmailVerifiedAt.
     scan1 (nullable as_text) (\<lambda>vVerificationTokenHash.
     scan1 (nullable as_time) (\<lambda>vVerificationTokenExpiresAt. scan1 as_text (\<lambda>vStatus.
     scan1 (nullable as_time) (\<lambda>vApprovedAt. scan1 (nullable as_text) (\<lambda>vApprovedBy.
     scan1 as_time (\<lambda>vCreatedAt.
     scan_done (case waitlist_status_check vStatus of None \<Rightarrow> None | Some vStatus' \<Rightarrow> Some
       \<lparr>wl_ID = vID, wl_Name = vName, wl_Email = vEmail, wl_IPHash = vIPHash,
        wl_EmailVerifiedAt = vEmailVerifiedAt, wl_VerificationTokenHash = vVerificationTokenHash,
        wl_VerificationTokenExpiresAt = vVerificationTokenExpiresAt, wl_Status = vStatus',
        wl_ApprovedAt = vApprovedAt, wl_ApprovedBy = vApprovedBy, wl_CreatedAt = vCreatedAt\<rparr>))))))))))))"

definition api_key_row :: "APIKey \<Rightarrow> ('s, 'v) row" where
  "api_key_row r =
     [(''id'', CText (ak_ID r)), (''waitlist_id'', CText (ak_WaitlistID r)), (''label'', of_null CText (ak_Label r)),
      (''key_prefix'', CText (ak_KeyPrefix r)), (''key_hash'', CText (ak_KeyHash r)),
      (''created_at'', CTime (ak_CreatedAt r)), (''last_used_at'', of_null CTime (ak_LastUsedAt r)),
      (''revoked_at'', of_null CTime (ak_RevokedAt r))]"

definition api_key_Insert_columns :: "string list" where
  "api_key_Insert_columns =
     [''id'', ''waitlist_id'', ''label'', ''key_prefix'', ''key_hash'', ''created_at'', ''last_used_at'',
      ''revoked_at'']"

definition api_key_GetByHash_columns :: "string list" where
  "api_key_GetByHash_columns =
     [''id'', ''waitlist_id'', ''label'', ''key_prefix'', ''key_hash'', ''created_at'', ''last_used_at'',
      ''revoked_at'']"

definition api_key_ListByWaitlist_columns :: "string list" where
  "api_key_ListByWaitlist_columns =
     [''id'', ''waitlist_id'', ''label'', ''key_prefix'', ''key_hash'', ''created_at'', ''last_used_at'',
      ''revoked_at'']"

definition scanAPIKey :: "('s, 'v) column list \<Rightarrow> APIKey option" where
  "scanAPIKey =
     scan1 as_text (\<lambda>vID. scan1 as_text (\<lambda>vWaitlistID. scan1 (nullable as_text) (\<lambda>vLabel.
     scan1 as_text (\<lambda>vKeyPrefix. scan1 as_text (\<lambda>vKeyHash. scan1 as_time (\<lambda>vCreatedAt.
     scan1 (nullable as_time) (\<lambda>vLastUsedAt. scan1 (nullable as_time) (\<lambda>vRevokedAt.
     scan_done (Some
       \<lparr>ak_ID = vID, ak_WaitlistID = vWaitlistID, ak_Label = vLabel, ak_KeyPrefix = vKeyPrefix,
        ak_KeyHash = vKeyHash, ak_CreatedAt = vCreatedAt, ak_LastUsedAt = vLastUsedAt,
        ak_RevokedAt = vRevokedAt\<rparr>)))))))))"

definition session_row :: "UserSession \<Rightarrow> ('s, 'v) row" where
  "session_row r =
     [(''id'', CText (us_ID r)), (''api_key_id'', CText (us_APIKeyID r)),
      (''session_hash'', CText (us_SessionHash r)), (''expires_at'', CTime (us_ExpiresAt r)),
      (''revoked_at'', of_null CTime (us_RevokedAt r)), (''created_at'', CTime (us_CreatedAt r))]"

definition session_Insert_columns :: "string list" where
  "session_Insert_columns =
     [''id'', ''api_key_id'', ''session_hash'', ''expires_at'', ''revoked_at'', ''created_at'']"

definition session_GetByHash_columns :: "string list" where
  "session_GetByHash_columns =
     [''id'', ''api_key_id'', ''session_hash'', ''expires_at'', ''revoked_at'', ''created_at'']"

definition scanSession :: "('s, 'v) column list \<Rightarrow> UserSession option" where
  "scanSession =
     scan1 as_text (\<lambda>vID. scan1 as_text (\<lambda>vAPIKeyID. scan1 as_text (\<lambda>vSessionHash.
     scan1 as_time (\<lambda>vExpiresAt. scan1 (nullable as_time) (\<lambda>vRevokedAt. scan1 as_time (\<lambda>vCreatedAt.
     scan_done (Some
       \<lparr>us_ID = vID, us_APIKeyID = vAPIKeyID, us_SessionHash = vSessionHash, us_ExpiresAt = vExpiresAt,
        us_RevokedAt = vRevokedAt, us_CreatedAt = vCreatedAt\<rparr>)))))))"

definition refresh_row :: "RefreshMeta \<Rightarrow> ('s, 'v) row" where
  "refresh_row m =
     [(''last_refresh_at'', CTime (rm_LastRefreshAt m)), (''last_outcome'', CText (rm_LastOutcome m)),
      (''last_error'', of_null CText (rm_LastError m)), (''rows_matched'', CInt (int (rm_RowsMatched m))),
      (''capability_filter'', CTexts (rm_CapabilityFilter m))]"

definition refresh_columns :: "string list" where
  "refresh_columns = [''last_refresh_at'', ''last_outcome'', ''last_error'', ''rows_matched'', ''capability_filter'']"

text \<open>\<^verbatim>\<open>GetRefreshMeta\<close> scans in place.\<close>

definition GetRefreshMeta :: "('s, 'v) column list \<Rightarrow> RefreshMeta option" where
  "GetRefreshMeta =
     scan1 as_time (\<lambda>vLastRefreshAt. scan1 as_text (\<lambda>vLastOutcome. scan1 (nullable as_text) (\<lambda>vLastError.
     scan1 as_int (\<lambda>vRowsMatched. scan1 as_texts (\<lambda>vCapabilityFilter.
     scan_done (Some
       \<lparr>rm_LastRefreshAt = vLastRefreshAt, rm_LastOutcome = vLastOutcome, rm_LastError = vLastError,
        rm_RowsMatched = nat vRowsMatched, rm_CapabilityFilter = vCapabilityFilter\<rparr>))))))"

section \<open>Round trip\<close>

lemma settle_state_back [simp]: "settle_state_check (settle_state_text a) = Some a"
  by (cases a) (simp_all add: settle_state_check_def)

lemma reservation_state_back [simp]: "reservation_state_check (reservation_state_text b) = Some b"
  by (cases b) (simp_all add: reservation_state_check_def)

lemma waitlist_status_back [simp]: "waitlist_status_check (waitlist_status_text c) = Some c"
  by (cases c) (simp_all add: waitlist_status_check_def)

lemma nullable_of_null [simp]:
  "nullable as_text (of_null CText s) = Some s" "nullable as_int (of_null CInt n) = Some n"
  "nullable as_time (of_null CTime t) = Some t" "nullable as_num (of_null CNum s) = Some s"
  "nullable as_float (of_null CFloat x) = Some x"
  by (cases s; cases n; cases t; cases x; simp add: of_null_def)+

lemma parseUnits_stringifyBig [simp]: "parseUnits (stringifyBig n) = n"
  by (cases n) (simp_all add: parseUnits_def stringifyBig_def SetString10_int_text)

definition read_back :: "string list \<Rightarrow> (('s, 'v) column list \<Rightarrow> 'r option) \<Rightarrow> ('s, 'v) row \<Rightarrow> 'r option" where
  "read_back cols scan r = (case select cols r of None \<Rightarrow> None | Some vs \<Rightarrow> scan vs)"

lemmas scan_simps = read_back_def select_def scan1_def scan_done_def parseBig_stringifyBig

text \<open>Every list of one table reads back the same row.\<close>

definition all_read_back :: "(('s, 'v) column list \<Rightarrow> 'r option) \<Rightarrow> ('s, 'v) row \<Rightarrow> 'r \<Rightarrow> string list list \<Rightarrow> bool" where
  "all_read_back scan r x css = list_all (\<lambda>cols. read_back cols scan r = Some x) css"

lemma all_read_back_simps [simp]:
  "all_read_back scan r x []"
  "all_read_back scan r x (cols # css) \<longleftrightarrow> read_back cols scan r = Some x \<and> all_read_back scan r x css"
  by (simp_all add: all_read_back_def)

lemma reservation_back:
  "all_read_back scanReservation (reservation_row u :: ('s, 'v) row) (u\<lparr>ur_live_stream_id := None\<rparr>)
     [reservation_Open_columns, reservation_GetByWorkID_columns, reservation_GetByID_columns,
      reservation_ListByAPIKey_columns, reservation_ListByCapability_columns,
      reservation_LookupByRunnerJobID_columns, reservation_ListPendingSettle_columns]"
proof -
  have "reservation_GetByWorkID_columns = reservation_Open_columns" "reservation_GetByID_columns = reservation_Open_columns"
    "reservation_ListByAPIKey_columns = reservation_Open_columns" "reservation_ListByCapability_columns = reservation_Open_columns"
    "reservation_LookupByRunnerJobID_columns = reservation_Open_columns"
    "reservation_ListPendingSettle_columns = reservation_Open_columns"
    by (simp_all only: reservation_Open_columns_def reservation_GetByWorkID_columns_def reservation_GetByID_columns_def reservation_ListByAPIKey_columns_def reservation_ListByCapability_columns_def reservation_LookupByRunnerJobID_columns_def reservation_ListPendingSettle_columns_def)
  moreover have "read_back reservation_Open_columns scanReservation (reservation_row u :: ('s, 'v) row) = Some (u\<lparr>ur_live_stream_id := None\<rparr>)"
    by (simp add: scan_simps reservation_Open_columns_def scanReservation_def reservation_row_def)
  ultimately show ?thesis by simp
qed

lemma live_back: "read_back liveSelectCols scanLive (live_row l :: ('s, 'v) row) = Some l"
  by (simp add: scan_simps liveSelectCols_def scanLive_def live_row_def)

lemma operation_back:
  "read_back operationColumns scanOperation (operation_row p) = Some p"
  "read_back PublicViews_columns PublicViews_scan (operation_row p) = Some (public_view p)"
  by (simp_all add: scan_simps operationColumns_def scanOperation_def operation_row_def PublicViews_columns_def
      PublicViews_scan_def public_view_def)

lemma capability_back: "read_back capability_columns scanCapability (capability_row c :: ('s, 'v) row) = Some c"
  by (simp add: scan_simps capability_columns_def scanCapability_def capability_row_def)

lemma waitlist_back:
  "read_back waitlist_Insert_columns waitlist_Insert_scan (waitlist_row w :: ('s, 'v) row) = Some w"
  "all_read_back scanWaitlist (waitlist_row w :: ('s, 'v) row) w
     [waitlist_ConsumeVerificationToken_columns, waitlist_GetByID_columns, waitlist_ListByStatus_columns]"
  by (simp_all add: scan_simps scanWaitlist_def waitlist_Insert_scan_def waitlist_row_def waitlist_Insert_columns_def waitlist_ConsumeVerificationToken_columns_def waitlist_GetByID_columns_def waitlist_ListByStatus_columns_def)

lemma key_back:
  "all_read_back scanAPIKey (api_key_row k :: ('s, 'v) row) k
     [api_key_Insert_columns, api_key_GetByHash_columns, api_key_ListByWaitlist_columns]"
  "all_read_back scanSession (session_row x :: ('s, 'v) row) x
     [session_Insert_columns, session_GetByHash_columns]"
  by (simp_all add: scan_simps scanAPIKey_def api_key_row_def api_key_Insert_columns_def api_key_GetByHash_columns_def api_key_ListByWaitlist_columns_def
      scanSession_def session_row_def session_Insert_columns_def session_GetByHash_columns_def)

lemma refresh_back: "read_back refresh_columns GetRefreshMeta (refresh_row m :: ('s, 'v) row) = Some m"
  by (simp add: scan_simps refresh_columns_def GetRefreshMeta_def refresh_row_def)

text \<open>C36: what is stored is what is read. For every statement of the repositories that reads rows of a table by
  its columns, each with the select list it has of its own, scanning the result by position gives back the
  stored row, field by field, nulls and numbers in their decimal text included: no list and scan function
  disagree on number, order or type of the columns. Of a reservation, the foreign key to its live stream
  is the one column that is not read; the listing of operations reads the public view. The aggregate
  queries of the usage summaries are not among them.\<close>

theorem rows_read_back:
  "all_read_back scanReservation (reservation_row u :: ('s, 'v) row) (u\<lparr>ur_live_stream_id := None\<rparr>)
     [reservation_Open_columns, reservation_GetByWorkID_columns, reservation_GetByID_columns,
      reservation_ListByAPIKey_columns, reservation_ListByCapability_columns,
      reservation_LookupByRunnerJobID_columns, reservation_ListPendingSettle_columns] \<and>
   read_back liveSelectCols scanLive (live_row l :: ('s, 'v) row) = Some l \<and>
   read_back operationColumns scanOperation (operation_row p :: ('s, 'v) row) = Some p \<and>
   read_back PublicViews_columns PublicViews_scan (operation_row p :: ('s, 'v) row) = Some (public_view p) \<and>
   read_back capability_columns scanCapability (capability_row c :: ('s, 'v) row) = Some c \<and>
   read_back waitlist_Insert_columns waitlist_Insert_scan (waitlist_row w :: ('s, 'v) row) = Some w \<and>
   all_read_back scanWaitlist (waitlist_row w :: ('s, 'v) row) w
     [waitlist_ConsumeVerificationToken_columns, waitlist_GetByID_columns, waitlist_ListByStatus_columns] \<and>
   all_read_back scanAPIKey (api_key_row k :: ('s, 'v) row) k
     [api_key_Insert_columns, api_key_GetByHash_columns, api_key_ListByWaitlist_columns] \<and>
   all_read_back scanSession (session_row x :: ('s, 'v) row) x
     [session_Insert_columns, session_GetByHash_columns] \<and>
   read_back refresh_columns GetRefreshMeta (refresh_row m :: ('s, 'v) row) = Some m"
  by (intro conjI reservation_back live_back operation_back capability_back waitlist_back key_back refresh_back)

end
