(* ===== verification/Route_Schemas.thy ===== *)
theory Route_Schemas
  imports Server_Front Views_Facts "HOL-Library.List_Lexorder" "HOL-Library.Char_ord"
begin

text \<open>
  What the routes declare to huma: identity, method, path, status and the parameters with their limits, as
  the \<^verbatim>\<open>huma.Operation\<close> values and the tags of the input structs in \<^verbatim>\<open>server/handlers_*.go\<close> have them;
  summaries, examples and documentation are left out. Validation is huma's: a parameter \<open>huma\<close> that gives the
  value a handler sees for what a request carries, of which \<open>huma_ok\<close> states the documented rule.
\<close>

section \<open>Declarations\<close>

datatype place = InQuery | InPath | InHeader | InBody

datatype schema = SInt "int option" "int option" | SText "nat option" "nat option" | SEnum "string list" | SFormat string |
  SUUID | SBool | SObject

datatype arg = VInt int | VText string | VBool bool | VObject

record param =
  pa_In :: place
  pa_Name :: string
  pa_Required :: bool
  pa_Default :: "arg option"
  pa_Schema :: schema

record operation =
  on_ID :: string
  on_Method :: string
  on_Path :: string
  on_Status :: nat
  on_Tag :: string
  on_Params :: "param list"

text \<open>Parameters of the path are required, a body field unless its tag has \<^verbatim>\<open>omitempty\<close>. Status 0: the default.\<close>

definition path_param :: "string \<Rightarrow> schema \<Rightarrow> param" where
  "path_param n s = \<lparr>pa_In = InPath, pa_Name = n, pa_Required = True, pa_Default = None, pa_Schema = s\<rparr>"

definition query_param :: "string \<Rightarrow> bool \<Rightarrow> arg option \<Rightarrow> schema \<Rightarrow> param" where
  "query_param n req d s = \<lparr>pa_In = InQuery, pa_Name = n, pa_Required = req, pa_Default = d, pa_Schema = s\<rparr>"

definition header_param :: "string \<Rightarrow> schema \<Rightarrow> param" where
  "header_param n s = \<lparr>pa_In = InHeader, pa_Name = n, pa_Required = False, pa_Default = None, pa_Schema = s\<rparr>"

definition body_field :: "string \<Rightarrow> bool \<Rightarrow> schema \<Rightarrow> param" where
  "body_field n req s = \<lparr>pa_In = InBody, pa_Name = n, pa_Required = req, pa_Default = None, pa_Schema = s\<rparr>"

section \<open>Validation\<close>

text \<open>The rule of JSON Schema; formats and identifiers are left to huma. Lengths count code points.\<close>

fun admits :: "schema \<Rightarrow> arg \<Rightarrow> bool" where
  "admits (SInt lo hi) (VInt n) \<longleftrightarrow> (case lo of None \<Rightarrow> True | Some a \<Rightarrow> a \<le> n) \<and> (case hi of None \<Rightarrow> True | Some b \<Rightarrow> n \<le> b)"
| "admits (SText lo hi) (VText s) \<longleftrightarrow>
     (case lo of None \<Rightarrow> True | Some a \<Rightarrow> a \<le> char_length s) \<and> (case hi of None \<Rightarrow> True | Some b \<Rightarrow> char_length s \<le> b)"
| "admits (SEnum vs) (VText s) \<longleftrightarrow> s \<in> set vs"
| "admits (SFormat f) (VText s) \<longleftrightarrow> True"
| "admits SUUID (VText s) \<longleftrightarrow> True"
| "admits SBool (VBool b) \<longleftrightarrow> True"
| "admits SObject VObject \<longleftrightarrow> True"
| "admits _ _ \<longleftrightarrow> False"

text \<open>An optional parameter that is absent has its default, or its type's zero value.\<close>

fun zero_value :: "schema \<Rightarrow> arg" where
  "zero_value (SInt _ _) = VInt 0" | "zero_value SBool = VBool False" | "zero_value SObject = VObject" | "zero_value _ = VText ''''"

type_synonym huma = "param \<Rightarrow> arg option \<Rightarrow> arg option"

definition huma_ok :: "huma \<Rightarrow> bool" where
  "huma_ok H \<longleftrightarrow> (\<forall>p sent v. H p sent = Some v \<longrightarrow> (case sent of
      Some x \<Rightarrow> v = x \<and> admits (pa_Schema p) x
    | None \<Rightarrow> \<not> pa_Required p \<and> v = (case pa_Default p of Some d \<Rightarrow> d | None \<Rightarrow> zero_value (pa_Schema p))))"

section \<open>Inputs and operations\<close>

definition WaitlistSignupInput_params :: "param list" where
  "WaitlistSignupInput_params =
     [body_field ''name'' True (SText (Some 1) (Some 200)),
      body_field ''email'' True (SFormat ''email'')]"

definition UploadURLIn_params :: "param list" where
  "UploadURLIn_params =
     [body_field ''filename'' True (SText None (Some 200)),
      body_field ''content_type'' True (SText None None)]"

definition ABRIn_params :: "param list" where
  "ABRIn_params =
     [header_param ''Idempotency-Key'' (SText None (Some 255)),
      body_field ''input_url'' True (SFormat ''uri''),
      body_field ''preset'' False (SEnum [''abr-standard'', ''abr-premium'', ''abr-mobile'', ''abr-hevc'', ''abr-av1'']),
      body_field ''ladder'' False SObject,
      body_field ''estimated_input_seconds'' False (SInt (Some 0) None),
      body_field ''max_total_units'' False (SInt (Some 0) None)]"

definition LiveIn_params :: "param list" where
  "LiveIn_params =
     [header_param ''Idempotency-Key'' (SText None (Some 255)),
      body_field ''name'' False (SText None (Some 200)),
      body_field ''output_profile'' False (SText None None),
      body_field ''ladder'' False SObject]"

definition op_health :: operation where
  "op_health = \<lparr>on_ID = ''health'', on_Method = ''GET'', on_Path = ''/health'', on_Status = 0, on_Tag = ''ops'',
     on_Params = []\<rparr>"

definition op_waitlist_signup :: operation where
  "op_waitlist_signup = \<lparr>on_ID = ''waitlist-signup'', on_Method = ''POST'', on_Path = ''/api/public/waitlist'', on_Status = 0, on_Tag = ''public'',
     on_Params = WaitlistSignupInput_params\<rparr>"

definition op_waitlist_verify :: operation where
  "op_waitlist_verify = \<lparr>on_ID = ''waitlist-verify'', on_Method = ''GET'', on_Path = ''/api/public/verify'', on_Status = 0, on_Tag = ''public'',
     on_Params = [query_param ''token'' True None (SText None None)]\<rparr>"

definition op_portal_login :: operation where
  "op_portal_login = \<lparr>on_ID = ''portal-login'', on_Method = ''POST'', on_Path = ''/api/portal/login'', on_Status = 0, on_Tag = ''portal'',
     on_Params = [body_field ''apiKey'' True (SText (Some 10) None)]\<rparr>"

definition op_portal_logout :: operation where
  "op_portal_logout = \<lparr>on_ID = ''portal-logout'', on_Method = ''POST'', on_Path = ''/api/portal/logout'', on_Status = 0, on_Tag = ''portal'',
     on_Params = []\<rparr>"

definition op_portal_account :: operation where
  "op_portal_account = \<lparr>on_ID = ''portal-account'', on_Method = ''GET'', on_Path = ''/api/portal/account'', on_Status = 0, on_Tag = ''portal'',
     on_Params = []\<rparr>"

definition op_portal_list_keys :: operation where
  "op_portal_list_keys = \<lparr>on_ID = ''portal-list-keys'', on_Method = ''GET'', on_Path = ''/api/portal/api-keys'', on_Status = 0, on_Tag = ''portal'',
     on_Params = []\<rparr>"

definition op_portal_mint_key :: operation where
  "op_portal_mint_key = \<lparr>on_ID = ''portal-mint-key'', on_Method = ''POST'', on_Path = ''/api/portal/api-keys'', on_Status = 0, on_Tag = ''portal'',
     on_Params = [body_field ''label'' True (SText None (Some 100))]\<rparr>"

definition op_portal_revoke_key :: operation where
  "op_portal_revoke_key = \<lparr>on_ID = ''portal-revoke-key'', on_Method = ''DELETE'', on_Path = ''/api/portal/api-keys/{id}'', on_Status = 0, on_Tag = ''portal'',
     on_Params = [path_param ''id'' SUUID]\<rparr>"

definition op_portal_usage :: operation where
  "op_portal_usage = \<lparr>on_ID = ''portal-usage'', on_Method = ''GET'', on_Path = ''/api/portal/usage'', on_Status = 0, on_Tag = ''portal'',
     on_Params = [query_param ''limit'' False (Some (VInt 100)) (SInt (Some 1) (Some 500))]\<rparr>"

definition op_portal_live_streams :: operation where
  "op_portal_live_streams = \<lparr>on_ID = ''portal-live-streams'', on_Method = ''GET'', on_Path = ''/api/portal/live-streams'', on_Status = 0, on_Tag = ''portal'',
     on_Params = [query_param ''limit'' False (Some (VInt 100)) (SInt (Some 1) (Some 500))]\<rparr>"

definition op_portal_abr_jobs :: operation where
  "op_portal_abr_jobs = \<lparr>on_ID = ''portal-abr-jobs'', on_Method = ''GET'', on_Path = ''/api/portal/abr-jobs'', on_Status = 0, on_Tag = ''portal'',
     on_Params = [query_param ''limit'' False (Some (VInt 100)) (SInt (Some 1) (Some 500))]\<rparr>"

definition op_portal_live_stop :: operation where
  "op_portal_live_stop = \<lparr>on_ID = ''portal-live-stop'', on_Method = ''DELETE'', on_Path = ''/api/portal/live-streams/{id}'', on_Status = 202, on_Tag = ''portal'',
     on_Params = [path_param ''id'' SUUID]\<rparr>"

definition op_portal_live_stream :: operation where
  "op_portal_live_stream = \<lparr>on_ID = ''portal-live-stream'', on_Method = ''GET'', on_Path = ''/api/portal/live-streams/{id}'', on_Status = 0, on_Tag = ''portal'',
     on_Params = [path_param ''id'' SUUID]\<rparr>"

definition op_admin_list_waitlist :: operation where
  "op_admin_list_waitlist = \<lparr>on_ID = ''admin-list-waitlist'', on_Method = ''GET'', on_Path = ''/api/admin/waitlist'', on_Status = 0, on_Tag = ''admin'',
     on_Params = [query_param ''status'' False (Some (VText ''pending'')) (SEnum [''pending'', ''approved'', ''rejected'', ''all'']),
       query_param ''limit'' False (Some (VInt 100)) (SInt (Some 1) (Some 500))]\<rparr>"

definition op_admin_approve_waitlist :: operation where
  "op_admin_approve_waitlist = \<lparr>on_ID = ''admin-approve-waitlist'', on_Method = ''POST'', on_Path = ''/api/admin/waitlist/{id}/approve'', on_Status = 0, on_Tag = ''admin'',
     on_Params = [path_param ''id'' SUUID]\<rparr>"

definition op_admin_reject_waitlist :: operation where
  "op_admin_reject_waitlist = \<lparr>on_ID = ''admin-reject-waitlist'', on_Method = ''POST'', on_Path = ''/api/admin/waitlist/{id}/reject'', on_Status = 0, on_Tag = ''admin'',
     on_Params = [path_param ''id'' SUUID]\<rparr>"

definition op_admin_resend_verification :: operation where
  "op_admin_resend_verification = \<lparr>on_ID = ''admin-resend-verification'', on_Method = ''POST'', on_Path = ''/api/admin/waitlist/{id}/resend-verification'', on_Status = 0, on_Tag = ''admin'',
     on_Params = [path_param ''id'' SUUID]\<rparr>"

definition op_admin_capabilities :: operation where
  "op_admin_capabilities = \<lparr>on_ID = ''admin-capabilities'', on_Method = ''GET'', on_Path = ''/api/admin/capabilities'', on_Status = 0, on_Tag = ''admin'',
     on_Params = []\<rparr>"

definition op_admin_list_users :: operation where
  "op_admin_list_users = \<lparr>on_ID = ''admin-list-users'', on_Method = ''GET'', on_Path = ''/api/admin/users'', on_Status = 0, on_Tag = ''admin'',
     on_Params = [query_param ''limit'' False (Some (VInt 200)) (SInt (Some 1) (Some 500))]\<rparr>"

definition op_admin_get_user :: operation where
  "op_admin_get_user = \<lparr>on_ID = ''admin-get-user'', on_Method = ''GET'', on_Path = ''/api/admin/users/{id}'', on_Status = 0, on_Tag = ''admin'',
     on_Params = [path_param ''id'' SUUID]\<rparr>"

definition op_admin_usage :: operation where
  "op_admin_usage = \<lparr>on_ID = ''admin-usage'', on_Method = ''GET'', on_Path = ''/api/admin/usage'', on_Status = 0, on_Tag = ''admin'',
     on_Params = [query_param ''limit'' False (Some (VInt 200)) (SInt (Some 1) (Some 500))]\<rparr>"

definition op_admin_usage_by_capability :: operation where
  "op_admin_usage_by_capability = \<lparr>on_ID = ''admin-usage-by-capability'', on_Method = ''GET'', on_Path = ''/api/admin/usage-by-capability'', on_Status = 0, on_Tag = ''admin'',
     on_Params = [query_param ''since_hours'' False (Some (VInt 168)) (SInt (Some 1) (Some 8760))]\<rparr>"

definition op_admin_live_streams :: operation where
  "op_admin_live_streams = \<lparr>on_ID = ''admin-live-streams'', on_Method = ''GET'', on_Path = ''/api/admin/live-streams'', on_Status = 0, on_Tag = ''admin'',
     on_Params = [query_param ''active_only'' False None SBool,
       query_param ''limit'' False (Some (VInt 200)) (SInt (Some 1) (Some 500))]\<rparr>"

definition op_admin_abr_jobs :: operation where
  "op_admin_abr_jobs = \<lparr>on_ID = ''admin-abr-jobs'', on_Method = ''GET'', on_Path = ''/api/admin/abr-jobs'', on_Status = 0, on_Tag = ''admin'',
     on_Params = [query_param ''since_hours'' False (Some (VInt 168)) (SInt (Some 1) (Some 8760)),
       query_param ''limit'' False (Some (VInt 200)) (SInt (Some 1) (Some 500))]\<rparr>"

definition op_admin_registry_summary :: operation where
  "op_admin_registry_summary = \<lparr>on_ID = ''admin-registry-summary'', on_Method = ''GET'', on_Path = ''/api/admin/registry/summary'', on_Status = 0, on_Tag = ''admin'',
     on_Params = []\<rparr>"

definition op_admin_registry_candidates :: operation where
  "op_admin_registry_candidates = \<lparr>on_ID = ''admin-registry-candidates'', on_Method = ''GET'', on_Path = ''/api/admin/registry/candidates'', on_Status = 0, on_Tag = ''admin'',
     on_Params = [query_param ''capability'' False None (SText None None),
       query_param ''offering'' False None (SText None None)]\<rparr>"

definition op_v1_capabilities :: operation where
  "op_v1_capabilities = \<lparr>on_ID = ''v1-capabilities'', on_Method = ''GET'', on_Path = ''/api/v1/capabilities'', on_Status = 0, on_Tag = ''v1'',
     on_Params = []\<rparr>"

definition op_v1_abr_upload_url :: operation where
  "op_v1_abr_upload_url = \<lparr>on_ID = ''v1-abr-upload-url'', on_Method = ''POST'', on_Path = ''/api/v1/abr/upload-url'', on_Status = 0, on_Tag = ''v1'',
     on_Params = UploadURLIn_params\<rparr>"

definition op_v1_abr_submit :: operation where
  "op_v1_abr_submit = \<lparr>on_ID = ''v1-abr-submit'', on_Method = ''POST'', on_Path = ''/api/v1/abr'', on_Status = 202, on_Tag = ''v1'',
     on_Params = ABRIn_params\<rparr>"

definition op_v1_abr_get :: operation where
  "op_v1_abr_get = \<lparr>on_ID = ''v1-abr-get'', on_Method = ''GET'', on_Path = ''/api/v1/abr/{id}'', on_Status = 0, on_Tag = ''v1'',
     on_Params = [path_param ''id'' SUUID]\<rparr>"

definition op_v1_abr_delete_objects :: operation where
  "op_v1_abr_delete_objects = \<lparr>on_ID = ''v1-abr-delete-objects'', on_Method = ''DELETE'', on_Path = ''/api/v1/abr/objects'', on_Status = 0, on_Tag = ''v1'',
     on_Params = [body_field ''object_url'' False (SText None None),
       body_field ''work_id'' False SUUID]\<rparr>"

definition op_v1_live_create :: operation where
  "op_v1_live_create = \<lparr>on_ID = ''v1-live-create'', on_Method = ''POST'', on_Path = ''/api/v1/live'', on_Status = 0, on_Tag = ''v1'',
     on_Params = LiveIn_params\<rparr>"

definition op_v1_live_get :: operation where
  "op_v1_live_get = \<lparr>on_ID = ''v1-live-get'', on_Method = ''GET'', on_Path = ''/api/v1/live/{id}'', on_Status = 0, on_Tag = ''v1'',
     on_Params = [path_param ''id'' SUUID]\<rparr>"

definition op_v1_live_delete :: operation where
  "op_v1_live_delete = \<lparr>on_ID = ''v1-live-delete'', on_Method = ''DELETE'', on_Path = ''/api/v1/live/{id}'', on_Status = 202, on_Tag = ''v1'',
     on_Params = [path_param ''id'' SUUID]\<rparr>"

text \<open>In the order of \<^verbatim>\<open>RegisterHealth\<close> to \<^verbatim>\<open>RegisterV1\<close>.\<close>

definition operations :: "operation list" where
  "operations = [op_health, op_waitlist_signup, op_waitlist_verify,
     op_portal_live_stop, op_portal_live_stream, op_portal_login, op_portal_logout, op_portal_account, op_portal_list_keys,
     op_portal_mint_key, op_portal_revoke_key, op_portal_usage, op_portal_live_streams, op_portal_abr_jobs,
     op_admin_list_waitlist, op_admin_approve_waitlist, op_admin_reject_waitlist, op_admin_resend_verification,
     op_admin_capabilities, op_admin_list_users, op_admin_get_user, op_admin_usage, op_admin_usage_by_capability,
     op_admin_live_streams, op_admin_abr_jobs, op_admin_registry_summary, op_admin_registry_candidates,
     op_v1_capabilities, op_v1_abr_upload_url, op_v1_abr_submit, op_v1_abr_get, op_v1_abr_delete_objects,
     op_v1_live_create, op_v1_live_get, op_v1_live_delete]"

lemmas op_defs = WaitlistSignupInput_params_def UploadURLIn_params_def ABRIn_params_def LiveIn_params_def op_health_def
  op_waitlist_signup_def op_waitlist_verify_def op_portal_login_def op_portal_logout_def op_portal_account_def
  op_portal_list_keys_def op_portal_mint_key_def op_portal_revoke_key_def op_portal_usage_def
  op_portal_live_streams_def op_portal_abr_jobs_def op_portal_live_stop_def op_portal_live_stream_def
  op_admin_list_waitlist_def op_admin_approve_waitlist_def op_admin_reject_waitlist_def
  op_admin_resend_verification_def op_admin_capabilities_def op_admin_list_users_def op_admin_get_user_def
  op_admin_usage_def op_admin_usage_by_capability_def op_admin_live_streams_def op_admin_abr_jobs_def
  op_admin_registry_summary_def op_admin_registry_candidates_def op_v1_capabilities_def
  op_v1_abr_upload_url_def op_v1_abr_submit_def op_v1_abr_get_def op_v1_abr_delete_objects_def
  op_v1_live_create_def op_v1_live_get_def op_v1_live_delete_def

text \<open>Every operation is one of the front's routes and the other way round; no identity and no route is
  declared twice.\<close>

lemma operations_routed:
  "set (map (\<lambda>o1. (on_Method o1, on_Path o1)) operations) = set routes - set ((''GET'', ''/metrics'') # spa_routes)"
  by code_simp

lemma operations_distinct: "distinct (map on_ID operations)" "distinct (map (\<lambda>o1. (on_Method o1, on_Path o1)) operations)"
  by code_simp+

text \<open>The tag is the gate's part of the path.\<close>

lemma operations_tagged: "list_all (\<lambda>o1. on_Tag o1 = ''ops'' \<or> HasPrefix (on_Path o1) (''/api/'' @ on_Tag o1 @ ''/'')) operations"
  by code_simp

section \<open>Presets\<close>

definition Names :: "string list" where
  "Names = sort (map fst loaded_presets)"

text \<open>Every preset a request may name is embedded, and the other way round.\<close>

lemma preset_enum: "\<exists>vs. pa_Schema (ABRIn_params ! 2) = SEnum vs \<and> set vs = set Names \<and> (\<forall>s. s \<in> set vs \<longleftrightarrow> GetPreset s \<noteq> None)"
proof -
  have keys: "map fst loaded_presets = [''abr-standard'', ''abr-premium'', ''abr-mobile'', ''abr-hevc'', ''abr-av1'']"
    by code_simp
  have "GetPreset s \<noteq> None \<longleftrightarrow> s \<in> set (map fst loaded_presets)" for s
    by (simp add: GetPreset_def map_of_eq_None_iff)
  then show ?thesis by (auto simp: ABRIn_params_def body_field_def Names_def keys)
qed

section \<open>Limits\<close>

definition param_of :: "operation \<Rightarrow> string \<Rightarrow> param" where
  "param_of o1 n = hd (filter (\<lambda>p. pa_Name p = n) (on_Params o1))"

definition int_within :: "int \<Rightarrow> int \<Rightarrow> param \<Rightarrow> bool" where
  "int_within lo hi p \<longleftrightarrow> pa_Schema p = SInt (Some lo) (Some hi) \<and>
     (case pa_Default p of Some (VInt d) \<Rightarrow> lo \<le> d \<and> d \<le> hi | _ \<Rightarrow> False)"

lemma bounded_received:
  assumes "huma_ok H" and "int_within lo hi p" and "H p sent = Some v"
  shows "\<exists>n. v = VInt n \<and> lo \<le> n \<and> n \<le> hi"
proof (cases sent)
  case None
  with assms have "v = (case pa_Default p of Some d \<Rightarrow> d | None \<Rightarrow> zero_value (pa_Schema p))"
    unfolding huma_ok_def by fastforce
  with assms(2) show ?thesis by (auto simp: int_within_def split: option.splits arg.splits)
next
  case (Some x)
  with assms have "v = x" "admits (pa_Schema p) x" unfolding huma_ok_def by fastforce+
  with assms(2) show ?thesis by (cases x) (auto simp: int_within_def)
qed

lemma limits_bounded:
  "o1 \<in> set operations \<Longrightarrow> p \<in> set (on_Params o1) \<Longrightarrow> pa_Name p = ''limit'' \<Longrightarrow> int_within 1 500 p"
proof -
  have "list_all (\<lambda>o1. list_all (\<lambda>p. pa_Name p = ''limit'' \<longrightarrow> int_within 1 500 p) (on_Params o1)) operations" by code_simp
  then show "o1 \<in> set operations \<Longrightarrow> p \<in> set (on_Params o1) \<Longrightarrow> pa_Name p = ''limit'' \<Longrightarrow> int_within 1 500 p"
    by (simp add: list_all_iff)
qed

lemma default_limit_le: "1 \<le> n \<Longrightarrow> n \<le> 500 \<Longrightarrow> default_limit n d \<le> 500"
  by (simp add: default_limit_def)

lemmas listing_defs = portal_usage_def portal_live_streams_def portal_abr_jobs_def admin_list_waitlist_def admin_list_users_def
  admin_usage_def admin_live_streams_def admin_abr_jobs_def with_key_def read_or_def
  ListByAPIKey_def LiveListByAPIKey_def ListByStatus_def SummaryByAPIKey_def LiveListAll_def ListByCapability_def

lemma portal_bounded:
  assumes "n \<le> 500"
  shows "portal_usage E cx n = Inr us \<Longrightarrow> length us \<le> 500" "portal_live_streams E cx n = Inr ls \<Longrightarrow> length ls \<le> 500"
    "portal_abr_jobs E cx n = Inr js \<Longrightarrow> length js \<le> 500"
    "admin_list_waitlist E st n = Inr ws \<Longrightarrow> length ws \<le> 500" "admin_list_users E n = Inr xs \<Longrightarrow> length xs \<le> 500"
  using assms by (auto simp: listing_defs split: option.splits if_splits intro!: le_trans [OF length_filter_le])

lemma admin_bounded:
  assumes "1 \<le> n" "n \<le> 500"
  shows "admin_usage E n = Inr ks \<Longrightarrow> length ks \<le> 500" "admin_live_streams E active n = Inr ls \<Longrightarrow> length ls \<le> 500"
    "admin_abr_jobs E h n = Inr js \<Longrightarrow> length js \<le> 500"
  using default_limit_le [OF assms] by (auto simp: listing_defs min_le_iff_disj split: option.splits if_splits)

text \<open>A validator that does what \<open>huma_ok\<close> asks.\<close>

definition plain_huma :: huma where
  "plain_huma p sent = (case sent of
      Some x \<Rightarrow> if admits (pa_Schema p) x then Some x else None
    | None \<Rightarrow> if pa_Required p then None
        else Some (case pa_Default p of Some d \<Rightarrow> d | None \<Rightarrow> zero_value (pa_Schema p)))"

lemma plain_huma_ok: "huma_ok plain_huma"
  by (auto simp: huma_ok_def plain_huma_def split: option.splits if_splits)

text \<open>C37: a listing with a limit is bounded. Whatever limit a request carries or leaves out, a route whose
  parameter passes validation hands its handler a number, and with that number each of the eight listings that
  have such a parameter answers with at most 500 items, however many rows the tables hold. The two lists without
  one, of an account's keys and of the active capabilities, are not bounded.\<close>

theorem listings_bounded:
  assumes "huma_ok H" and "o1 \<in> set operations" and "p \<in> set (on_Params o1)" and "pa_Name p = ''limit''" and "H p sent = Some v"
  shows "\<exists>n. v = VInt n \<and>
    (\<forall>xs. portal_usage E cx (nat n) = Inr xs \<longrightarrow> length xs \<le> 500) \<and>
    (\<forall>xs. portal_live_streams E cx (nat n) = Inr xs \<longrightarrow> length xs \<le> 500) \<and>
    (\<forall>xs. portal_abr_jobs E cx (nat n) = Inr xs \<longrightarrow> length xs \<le> 500) \<and>
    (\<forall>xs. admin_list_waitlist E st (nat n) = Inr xs \<longrightarrow> length xs \<le> 500) \<and>
    (\<forall>xs. admin_list_users E (nat n) = Inr xs \<longrightarrow> length xs \<le> 500) \<and>
    (\<forall>xs. admin_usage E n = Inr xs \<longrightarrow> length xs \<le> 500) \<and>
    (\<forall>xs. admin_live_streams E active n = Inr xs \<longrightarrow> length xs \<le> 500) \<and>
    (\<forall>xs. admin_abr_jobs E h n = Inr xs \<longrightarrow> length xs \<le> 500)"
proof -
  obtain n where n: "v = VInt n" "1 \<le> n" "n \<le> 500"
    using bounded_received [OF assms(1) limits_bounded [OF assms(2-4)] assms(5)] by blast
  then have m: "nat n \<le> 500" by simp
  from n show ?thesis
    by (intro exI [of _ n] conjI allI impI)
      (simp, (erule portal_bounded [OF m] admin_bounded(1) [OF n(2,3)] admin_bounded(2) [OF n(2,3)] admin_bounded(3) [OF n(2,3)])+)
qed

theorem listings_bounded_witness:
  "plain_huma (param_of op_portal_usage ''limit'') None = Some (VInt 100)
    \<and> (\<exists>xs. portal_usage (sample_venv two_reservations) sample_session 100 = Inr xs \<and> xs \<noteq> [] \<and> length xs \<le> 500)"
proof -
  have sent: "plain_huma (param_of op_portal_usage ''limit'') None = Some (VInt 100)" by code_simp
  have o1: "op_portal_usage \<in> set operations" by (simp add: operations_def)
  have p: "param_of op_portal_usage ''limit'' \<in> set (on_Params op_portal_usage)"
    "pa_Name (param_of op_portal_usage ''limit'') = ''limit''" by code_simp+
  have "\<exists>xs. portal_usage (sample_venv two_reservations) sample_session 100 = Inr xs \<and> xs \<noteq> []"
    by (simp add: portal_usage_def with_key_def read_or_def sample_venv_def sample_session_def view_world_def
        two_reservations_def ListByAPIKey_def order_desc_def fresh_reservation_def fresh_key_def)
  with listings_bounded [OF plain_huma_ok o1 p sent, of "sample_venv two_reservations" sample_session] sent
  show ?thesis by auto
qed

text \<open>What validation accepts, the gateway can serve. A preset that a transcoding request names is embedded
  (an empty one means the standard preset), a sign-up's name satisfies the constraint of the table's column,
  so that the row is inserted or the address is taken already, and the window of an administrator's report
  is positive and short enough for 64-bit durations.\<close>

theorem accepted_inputs_fit:
  assumes "huma_ok H" and "H (param_of op_v1_abr_submit ''preset'') sent1 = Some (VText preset)"
    and "H (param_of op_waitlist_signup ''name'') sent2 = Some (VText name)"
    and "H (param_of op_admin_abr_jobs ''since_hours'') sent3 = Some (VInt hours)"
  shows "(preset = '''' \<or> GetPreset preset \<noteq> None) \<and>
    (i \<notin> set (map wl_ID t) \<and> \<not> token_taken h t \<longrightarrow> WaitlistInsert i now name email ip h expires t \<noteq> None) \<and>
    0 < hours * (3600 * second) \<and> hours * (3600 * second) < 2 ^ 63"
proof (intro conjI)
  have p: "param_of op_v1_abr_submit ''preset'' = ABRIn_params ! 2" by code_simp
  obtain vs where vs: "pa_Schema (ABRIn_params ! 2) = SEnum vs" "\<And>s. s \<in> set vs \<longleftrightarrow> GetPreset s \<noteq> None" using preset_enum by blast
  have d: "pa_Default (ABRIn_params ! 2) = None" by code_simp
  show "preset = '''' \<or> GetPreset preset \<noteq> None"
    using assms(1,2) vs d unfolding p huma_ok_def by (cases sent1) fastforce+
  have q: "param_of op_waitlist_signup ''name'' = body_field ''name'' True (SText (Some 1) (Some 200))" by code_simp
  have "1 \<le> char_length name \<and> char_length name \<le> 200"
    using assms(1,3) unfolding q huma_ok_def body_field_def by (cases sent2) fastforce+
  then show "i \<notin> set (map wl_ID t) \<and> \<not> token_taken h t \<longrightarrow> WaitlistInsert i now name email ip h expires t \<noteq> None"
    by (auto simp: WaitlistInsert_def Let_def)
  have "int_within 1 8760 (param_of op_admin_abr_jobs ''since_hours'')" by code_simp
  from bounded_received [OF assms(1) this assms(4)] have "1 \<le> hours" "hours \<le> 8760" by auto
  then show "0 < hours * (3600 * second)" "hours * (3600 * second) < 2 ^ 63" by simp_all
qed

theorem accepted_inputs_fit_witness:
  "GetPreset ''abr-hevc'' \<noteq> None \<and> WaitlistInsert ''w1'' 10 ''Ann'' ''ann@example.org'' ''ip'' ''token'' 20 [] \<noteq> None
    \<and> (168::int) * (3600 * second) < 2 ^ 63"
proof -
  have "plain_huma (param_of op_v1_abr_submit ''preset'') (Some (VText ''abr-hevc'')) = Some (VText ''abr-hevc'')"
    "plain_huma (param_of op_waitlist_signup ''name'') (Some (VText ''Ann'')) = Some (VText ''Ann'')"
    "plain_huma (param_of op_admin_abr_jobs ''since_hours'') None = Some (VInt 168)" by code_simp+
  note fit = accepted_inputs_fit [OF plain_huma_ok this, of "''w1''" "[]" "''token''" 10 "''ann@example.org''" "''ip''" 20]
  then show ?thesis by (simp add: token_taken_def)
qed

end
