(* ===== verification/Object_Access.thy ===== *)
theory Object_Access
  imports Views_Facts
begin

text \<open>
  The calls of \<^verbatim>\<open>internal/s3/client.go\<close> that reach the object store, and the route that deletes uploads and
  outputs, \<^verbatim>\<open>DELETE /v1/abr/objects\<close> of \<^verbatim>\<open>server/handlers_v1.go\<close>. The AWS SDK is the parameter \<open>A\<close>: one
  effect per call on the store's state \<open>'s\<close>, which other clients may change as well. The texts that wrap an
  error of the SDK are left out. A nil client is \<open>None\<close>.
\<close>

section \<open>Client\<close>

text \<open>\<open>api_DeleteObjects\<close> answers with the keys whose deletion failed: in quiet mode the answer of the batch lists
  nothing else.\<close>

record ListAnswer =
  la_Contents :: "string list"
  la_IsTruncated :: "bool option"
  la_NextContinuationToken :: "string option"

record 's s3_api =
  api_HeadBucket :: "string \<Rightarrow> ('s, err, unit) eff"
  api_HeadObject :: "string \<Rightarrow> string \<Rightarrow> ('s, err, unit) eff"
  api_DeleteObject :: "string \<Rightarrow> string \<Rightarrow> ('s, err, unit) eff"
  api_ListObjectsV2 :: "string \<Rightarrow> string \<Rightarrow> string option \<Rightarrow> ('s, err, ListAnswer) eff"
  api_DeleteObjects :: "string \<Rightarrow> string list \<Rightarrow> ('s, err, string list) eff"

definition HeadBucket :: "'s s3_api \<Rightarrow> S3Client option \<Rightarrow> ('s, err, unit) eff" where
  "HeadBucket A s3 = (case s3 of None \<Rightarrow> throw (Msg ''s3 not configured'') | Some c \<Rightarrow> api_HeadBucket A (sc_bucket c))"

definition Bucket :: "S3Client option \<Rightarrow> string" where
  "Bucket s3 = (case s3 of None \<Rightarrow> '''' | Some c \<Rightarrow> sc_bucket c)"

definition DeleteObject :: "'s s3_api \<Rightarrow> S3Client option \<Rightarrow> string \<Rightarrow> ('s, err, unit) eff" where
  "DeleteObject A s3 key = (case s3 of None \<Rightarrow> throw (Msg ''s3 not configured'') | Some c \<Rightarrow> api_DeleteObject A (sc_bucket c) key)"

text \<open>Every error of the look-up counts as absence.\<close>

definition ObjectExists :: "'s s3_api \<Rightarrow> S3Client option \<Rightarrow> string \<Rightarrow> ('s, err, bool) eff" where
  "ObjectExists A s3 key = (case s3 of None \<Rightarrow> throw (Msg ''s3 not configured'')
    | Some c \<Rightarrow> bindE (attempt (api_HeadObject A (sc_bucket c) key)) (\<lambda>r. ret (case r of Inl _ \<Rightarrow> False | Inr _ \<Rightarrow> True)))"

text \<open>
  \<^verbatim>\<open>DeletePrefix\<close> returns a count and an error. Its loop lists a page, deletes it as a batch and goes on from
  the continuation token while the listing is truncated; the answer of the batch is not looked at. The 15 s
  deadline of the call cuts the loop after \<open>rounds\<close> rounds.
\<close>

fun delete_pages :: "'s s3_api \<Rightarrow> string \<Rightarrow> string \<Rightarrow> nat \<Rightarrow> string option \<Rightarrow> nat \<Rightarrow> ('s, err, nat \<times> err option) eff" where
  "delete_pages A b pre 0 token deleted = ret (deleted, Some DeadlineExceeded)"
| "delete_pages A b pre (Suc rounds) token deleted =
     bindE (attempt (api_ListObjectsV2 A b pre token)) (\<lambda>l. case l of
       Inl e \<Rightarrow> ret (deleted, Some e)
     | Inr page \<Rightarrow>
         let go_on = (\<lambda>n. if la_IsTruncated page \<noteq> Some True then ret (n, None)
                          else delete_pages A b pre rounds (la_NextContinuationToken page) n)
         in if la_Contents page = [] then go_on deleted
            else bindE (attempt (api_DeleteObjects A b (la_Contents page))) (\<lambda>d. case d of
                Inl e \<Rightarrow> ret (deleted, Some e)
              | Inr _ \<Rightarrow> go_on (deleted + length (la_Contents page))))"

definition DeletePrefix :: "'s s3_api \<Rightarrow> nat \<Rightarrow> S3Client option \<Rightarrow> string \<Rightarrow> ('s, err, nat \<times> err option) eff" where
  "DeletePrefix A rounds s3 pre = (case s3 of None \<Rightarrow> ret (0, Some (Msg ''s3 not configured''))
    | Some c \<Rightarrow> delete_pages A (sc_bucket c) pre rounds None 0)"

section \<open>The delete route\<close>

record ABRDeleteOut =
  ad_OK :: bool
  ad_InputDeleted :: bool
  ad_OutputObjectsDeleted :: nat

definition delete_input :: "'s s3_api \<Rightarrow> S3Client \<Rightarrow> uuid \<Rightarrow> string \<Rightarrow> ('s, err, bool) eff" where
  "delete_input A c akID objectURL =
     (if objectURL = '''' then ret False
      else let key = KeyFromURL c objectURL in
        if key = '''' then throw (HumaErr 400 ''object_url is not a recognized bucket URL'')
        else if \<not> HasPrefix key (''abr/'' @ akID @ ''/'') then throw (HumaErr 403 ''object_url is outside your namespace'')
        else bindE (attempt (DeleteObject A (Some c) key)) (\<lambda>r. case r of
            Inl _ \<Rightarrow> throw (HumaErr 500 ''delete input failed'')
          | Inr _ \<Rightarrow> ret True))"

definition output_prefix :: "uuid \<Rightarrow> uuid \<Rightarrow> string" where
  "output_prefix akID w = ''abr-out/'' @ akID @ ''/'' @ w @ ''/''"

definition delete_outputs :: "'s s3_api \<Rightarrow> nat \<Rightarrow> S3Client \<Rightarrow> uuid \<Rightarrow> uuid option \<Rightarrow> ('s, err, nat) eff" where
  "delete_outputs A rounds c akID workID = (case workID of
      None \<Rightarrow> ret 0
    | Some w \<Rightarrow> bindE (DeletePrefix A rounds (Some c) (output_prefix akID w)) (\<lambda>(n, e). case e of
        Some _ \<Rightarrow> throw (HumaErr 500 ''delete outputs failed'')
      | None \<Rightarrow> ret n))"

definition v1_abr_delete :: "'s s3_api \<Rightarrow> nat \<Rightarrow> S3Client option \<Rightarrow> reqctx \<Rightarrow> string \<Rightarrow> uuid option \<Rightarrow> ('s, err, ABRDeleteOut) eff" where
  "v1_abr_delete A rounds s3 cx objectURL workID = (case s3 of
      None \<Rightarrow> throw (HumaErr 503 ''s3_unavailable'')
    | Some c \<Rightarrow> (case cx_APIKey cx of
        None \<Rightarrow> throw (HumaErr 401 ''invalid_api_key'')
      | Some ak \<Rightarrow> bindE (delete_input A c (ak_ID ak) objectURL) (\<lambda>i.
          bindE (delete_outputs A rounds c (ak_ID ak) workID) (\<lambda>n.
          ret \<lparr>ad_OK = True, ad_InputDeleted = i, ad_OutputObjectsDeleted = n\<rparr>))))"

section \<open>What the store promises\<close>

text \<open>\<open>objs\<close> are the keys of the bucket. \<open>store_ok\<close>: a deletion removes nothing it was not asked for, a listing
  names keys below the prefix only. Keys may appear at any time, calls may fail.\<close>

definition store_ok :: "'s s3_api \<Rightarrow> string \<Rightarrow> ('s \<Rightarrow> string set) \<Rightarrow> bool" where
  "store_ok A b objs \<longleftrightarrow>
     (\<forall>k s. objs s - {k} \<subseteq> objs (exec (api_DeleteObject A b k) s)) \<and>
     (\<forall>p t s. objs s \<subseteq> objs (exec (api_ListObjectsV2 A b p t) s)) \<and>
     (\<forall>p t s page. result (api_ListObjectsV2 A b p t) s = Inr page \<longrightarrow> (\<forall>k \<in> set (la_Contents page). HasPrefix k p)) \<and>
     (\<forall>ids s. objs s - set ids \<subseteq> objs (exec (api_DeleteObjects A b ids) s))"

text \<open>The documented limits of the two operations: a listing answers at most 1000 keys, a batch that names more than
  1000 is refused.\<close>

definition batch_limit :: nat where
  "batch_limit = 1000"

text \<open>\<open>store_serves\<close>: every call within these limits succeeds and no key of a batch is refused, on a bucket nobody
  else changes; nothing is promised of a larger batch. A listing that starts at a token covers the keys after
  it, page by page; \<open>beyond\<close> is the store's reading of a token.\<close>

definition store_serves :: "'s s3_api \<Rightarrow> string \<Rightarrow> ('s \<Rightarrow> string set) \<Rightarrow> (string option \<Rightarrow> string \<Rightarrow> bool) \<Rightarrow> bool" where
  "store_serves A b objs beyond \<longleftrightarrow>
     (\<forall>k. beyond None k) \<and> (\<forall>s. finite (objs s)) \<and>
     (\<forall>k s. \<exists>s'. api_DeleteObject A b k s = (Inr (), s') \<and> objs s' = objs s - {k}) \<and>
     (\<forall>ids s. length ids \<le> batch_limit \<longrightarrow> (\<exists>s'. api_DeleteObjects A b ids s = (Inr [], s') \<and> objs s' = objs s - set ids)) \<and>
     (\<forall>p t s. \<exists>page s'. api_ListObjectsV2 A b p t s = (Inr page, s') \<and> objs s' = objs s \<and>
        distinct (la_Contents page) \<and> length (la_Contents page) \<le> batch_limit \<and>
        set (la_Contents page) \<subseteq> {k \<in> objs s. HasPrefix k p} \<and> (la_IsTruncated page = Some True \<longrightarrow> la_Contents page \<noteq> []) \<and>
        (\<forall>k \<in> objs s. HasPrefix k p \<longrightarrow> beyond t k \<longrightarrow>
           k \<in> set (la_Contents page) \<or> la_IsTruncated page = Some True \<and> beyond (la_NextContinuationToken page) k))"

section \<open>Facts\<close>

text \<open>\<open>loses K m\<close>: whatever happens, \<open>m\<close> removes keys of \<open>K\<close> only.\<close>

definition loses :: "('s \<Rightarrow> string set) \<Rightarrow> string set \<Rightarrow> ('s, err, 'a) eff \<Rightarrow> bool" where
  "loses objs K m \<longleftrightarrow> (\<forall>s. objs s - K \<subseteq> objs (exec m s))"

lemma loses_ret: "loses objs K (ret x)" and loses_throw: "loses objs K (throw e)"
  by (simp_all add: loses_def exec_def ret_def throw_def)

lemma loses_attempt: "loses objs K m \<Longrightarrow> loses objs K (attempt m)"
  by (simp add: loses_def exec_def attempt_def case_prod_unfold)

lemma loses_bind:
  assumes "loses objs K m" and "\<And>x s. result m s = Inr x \<Longrightarrow> loses objs K (k x)"
  shows "loses objs K (bindE m k)"
  unfolding loses_def
proof
  fix s
  obtain v y where m: "m s = (v, y)" by (rule prod.exhaust)
  have y: "objs s - K \<subseteq> objs y" using assms(1) m unfolding loses_def exec_def by (metis snd_conv)
  show "objs s - K \<subseteq> objs (exec (bindE m k) s)"
  proof (cases v)
    case (Inr x)
    with assms(2) [of s x] m have "objs y - K \<subseteq> objs (exec (k x) y)" by (simp add: result_def loses_def)
    with y m Inr show ?thesis by (auto simp: bindE_def exec_def)
  qed (use y m in \<open>simp add: bindE_def exec_def\<close>)
qed

lemma loses_mono: "loses objs K m \<Longrightarrow> K \<subseteq> K' \<Longrightarrow> loses objs K' m"
  unfolding loses_def by blast

lemma loses_delete: "store_ok A b objs \<Longrightarrow> loses objs {k} (api_DeleteObject A b k)"
  by (simp add: store_ok_def loses_def)

lemma loses_list: "store_ok A b objs \<Longrightarrow> loses objs K (api_ListObjectsV2 A b p t)"
  unfolding store_ok_def loses_def by blast

lemma loses_batch: "store_ok A b objs \<Longrightarrow> set ids \<subseteq> K \<Longrightarrow> loses objs K (api_DeleteObjects A b ids)"
  unfolding store_ok_def loses_def by blast

lemma listed_prefix: "store_ok A b objs \<Longrightarrow> result (attempt (api_ListObjectsV2 A b p t)) s = Inr (Inr page) \<Longrightarrow> set (la_Contents page) \<subseteq> {k. HasPrefix k p}"
  unfolding store_ok_def result_def attempt_def by (auto split: prod.splits) (metis fst_conv)

lemma loses_pages: "store_ok A b objs \<Longrightarrow> loses objs {k. HasPrefix k pre} (delete_pages A b pre rounds token deleted)"
proof (induction rounds arbitrary: token deleted)
  case (Suc rounds)
  note step = loses_attempt [OF loses_list [OF Suc.prems]] loses_attempt [OF loses_batch [OF Suc.prems]] Suc.IH [OF Suc.prems]
  have go: "loses objs {k. HasPrefix k pre} (if b1 then ret x else delete_pages A b pre rounds t n)" for b1 x t n
    by (simp add: loses_ret step)
  show ?case
    unfolding delete_pages.simps Let_def
    by (rule loses_bind [OF step(1)])
      (auto simp: loses_ret split: sum.splits intro!: loses_bind go step(2,3) dest: listed_prefix [OF Suc.prems])
qed (simp add: loses_ret)

lemma loses_input:
  "store_ok A (sc_bucket c) objs \<Longrightarrow> loses objs {k. HasPrefix k (''abr/'' @ akID @ ''/'') \<and> k = KeyFromURL c url} (delete_input A c akID url)"
  unfolding delete_input_def Let_def DeleteObject_def
  by (auto simp: loses_ret loses_throw split: sum.splits intro!: loses_bind loses_attempt loses_mono [OF loses_delete])

lemma loses_outputs:
  "store_ok A (sc_bucket c) objs \<Longrightarrow> loses objs {k. \<exists>w. workID = Some w \<and> HasPrefix k (output_prefix akID w)} (delete_outputs A rounds c akID workID)"
  unfolding delete_outputs_def DeletePrefix_def
  by (cases workID) (auto simp: loses_ret loses_throw split: option.splits intro!: loses_bind loses_mono [OF loses_pages])

text \<open>Namespaces of different keys are apart, their identifiers contain no slash.\<close>

lemma below_segment:
  assumes "CHR ''/'' \<notin> set a" and "CHR ''/'' \<notin> set b" and "HasPrefix k (p @ a @ ''/'')" and "HasPrefix k (p @ b @ ''/'')"
  shows "a = b"
proof -
  from assms(3) obtain x where "k = p @ a @ ''/'' @ x" by (auto simp: HasPrefix_def prefix_def)
  moreover from assms(4) obtain y where "k = p @ b @ ''/'' @ y" by (auto simp: HasPrefix_def prefix_def)
  ultimately have "a @ CHR ''/'' # x = b @ CHR ''/'' # y" by simp
  moreover have "takeWhile (\<lambda>c. c \<noteq> CHR ''/'') (d @ CHR ''/'' # z) = d" if "CHR ''/'' \<notin> set d" for d z
    using that by (induction d) auto
  ultimately show ?thesis using assms(1,2) by metis
qed

definition namespace :: "uuid \<Rightarrow> string set" where
  "namespace akID = {k. HasPrefix k (''abr/'' @ akID @ ''/'') \<or> HasPrefix k (''abr-out/'' @ akID @ ''/'')}"

lemma namespaces_apart: "plain_segment a \<Longrightarrow> plain_segment b \<Longrightarrow> a \<noteq> b \<Longrightarrow> namespace a \<inter> namespace b = {}"
  using below_segment [of a b _ "''abr/''"] below_segment [of a b _ "''abr-out/''"]
  by (auto simp: namespace_def plain_segment_def HasPrefix_def prefix_def)

section \<open>Deletions\<close>

text \<open>C38: a customer can only delete what is the customer's. Whatever address and work id the delete route is given,
  and whatever its answer, errors half-way included, an object that disappears is the upload the address
  names, below the calling key's uploads, or an output of that job below the calling key's outputs; no object of
  another key is removed.\<close>

theorem delete_objects_confined:
  assumes "store_ok A (sc_bucket c) objs" and "k \<in> objs s" and "k \<notin> objs (exec (v1_abr_delete A rounds (Some c) cx url workID) s)"
  shows "\<exists>ak. cx_APIKey cx = Some ak \<and> k \<in> namespace (ak_ID ak) \<and>
    (k = KeyFromURL c url \<or> (\<exists>w. workID = Some w \<and> HasPrefix k (output_prefix (ak_ID ak) w))) \<and>
    (\<forall>other. plain_segment (ak_ID ak) \<and> plain_segment other \<and> other \<noteq> ak_ID ak \<longrightarrow> k \<notin> namespace other)"
proof (cases "cx_APIKey cx")
  case None
  with assms show ?thesis by (simp add: v1_abr_delete_def exec_def throw_def)
next
  case (Some ak)
  let ?in = "{k. HasPrefix k (''abr/'' @ ak_ID ak @ ''/'') \<and> k = KeyFromURL c url}"
  let ?out = "{k. \<exists>w. workID = Some w \<and> HasPrefix k (output_prefix (ak_ID ak) w)}"
  have "loses objs (?in \<union> ?out) (v1_abr_delete A rounds (Some c) cx url workID)"
    unfolding v1_abr_delete_def Some option.case
    by (intro loses_bind loses_ret loses_mono [OF loses_input [OF assms(1)]] loses_mono [OF loses_outputs [OF assms(1)]]) auto
  with assms(2,3) have k: "k \<in> ?in \<union> ?out" unfolding loses_def by blast
  then have "k \<in> namespace (ak_ID ak)" by (auto simp: namespace_def output_prefix_def HasPrefix_def prefix_def)
  with k Some namespaces_apart [of "ak_ID ak"] show ?thesis by blast
qed

text \<open>On a bucket that serves, the loop removes every key below the prefix and counts them, when it has more
  rounds than there are such keys: a truncated page is never empty.\<close>

definition below :: "('s \<Rightarrow> string set) \<Rightarrow> 's \<Rightarrow> string \<Rightarrow> string set" where
  "below objs s pre = {k \<in> objs s. HasPrefix k pre}"

lemma below_list: "below set ks pre = set (filter (\<lambda>k. HasPrefix k pre) ks)"
  by (auto simp: below_def)

lemma serves_list:
  "store_serves A b objs beyond \<Longrightarrow> \<exists>page s'. api_ListObjectsV2 A b p t s = (Inr page, s') \<and> objs s' = objs s \<and>
     distinct (la_Contents page) \<and> length (la_Contents page) \<le> batch_limit \<and>
     set (la_Contents page) \<subseteq> below objs s p \<and> (la_IsTruncated page = Some True \<longrightarrow> la_Contents page \<noteq> []) \<and>
     (\<forall>k \<in> objs s. HasPrefix k p \<longrightarrow> beyond t k \<longrightarrow>
        k \<in> set (la_Contents page) \<or> la_IsTruncated page = Some True \<and> beyond (la_NextContinuationToken page) k)"
  unfolding store_serves_def below_def by (elim conjE) (erule allE [of _ p], erule allE [of _ t], erule allE [of _ s])

lemma pages_clear:
  assumes "store_serves A b objs beyond"
  shows "\<forall>k \<in> below objs s pre. beyond token k \<Longrightarrow> card (below objs s pre) < rounds \<Longrightarrow>
    \<exists>s'. delete_pages A b pre rounds token deleted s = (Inr (deleted + card (below objs s pre), None), s') \<and>
      objs s' = objs s - below objs s pre"
proof (induction rounds arbitrary: token deleted s)
  case (Suc rounds)
  obtain page s1 where page: "api_ListObjectsV2 A b pre token s = (Inr page, s1)" "objs s1 = objs s" "distinct (la_Contents page)"
    "length (la_Contents page) \<le> batch_limit" "set (la_Contents page) \<subseteq> below objs s pre" "la_IsTruncated page = Some True \<longrightarrow> la_Contents page \<noteq> []"
    and rest: "\<forall>k \<in> below objs s pre - set (la_Contents page). la_IsTruncated page = Some True \<and> beyond (la_NextContinuationToken page) k"
    using serves_list [OF assms, of pre token s] Suc.prems(1) that unfolding below_def by blast
  have fin: "finite (below objs s pre)" using assms by (simp add: store_serves_def below_def)
  have count: "length (la_Contents page) = card (set (la_Contents page))" using page(3) by (simp add: distinct_card)
  show ?case
  proof (cases "la_Contents page = []")
    case True
    with page rest have "below objs s pre = {}" by auto
    with True page show ?thesis by (auto simp: bindE_def attempt_def ret_def)
  next
    case False
    obtain s2 where batch: "api_DeleteObjects A b (la_Contents page) s1 = (Inr [], s2)" "objs s2 = objs s - set (la_Contents page)"
      using assms page(2,4) unfolding store_serves_def by metis
    have left: "below objs s2 pre = below objs s pre - set (la_Contents page)" using batch(2) by (auto simp: below_def)
    have card: "card (below objs s pre) = length (la_Contents page) + card (below objs s2 pre)"
      using card_Diff_subset [OF _ page(5)] card_mono [OF fin page(5)] by (simp add: left count)
    show ?thesis
    proof (cases "la_IsTruncated page = Some True")
      case True
      have "\<forall>k \<in> below objs s2 pre. beyond (la_NextContinuationToken page) k" using rest left by blast
      moreover have "card (below objs s2 pre) < rounds" using card False Suc.prems(2) by (cases "la_Contents page") auto
      ultimately obtain s' where s': "delete_pages A b pre rounds (la_NextContinuationToken page) (deleted + length (la_Contents page)) s2 =
          (Inr (deleted + length (la_Contents page) + card (below objs s2 pre), None), s')" "objs s' = objs s2 - below objs s2 pre"
        using Suc.IH by blast
      moreover have "objs s' = objs s - below objs s pre" using s'(2) batch(2) left page(5) by auto
      ultimately show ?thesis using page(1) batch(1) False True card by (simp add: bindE_def attempt_def)
    next
      case False': False
      with rest left have "below objs s2 pre = {}" by blast
      moreover from this left page(5) have "set (la_Contents page) = below objs s pre" by blast
      ultimately show ?thesis using page(1) batch False False' card by (simp add: bindE_def attempt_def ret_def)
    qed
  qed
qed simp

text \<open>C39: a deletion that is asked for takes place. On a bucket that answers every call
  within the deadline, accepts every batch of at most 1000 keys, refuses the deletion of none of them, and lists
  at most 1000 keys a page, the delete route for an upload of the calling key and one of its jobs succeeds,
  however many outputs there are: it reports the input as deleted and the exact number of outputs removed, and
  leaves precisely the objects that were not asked for.\<close>

theorem deletion_complete:
  assumes "store_serves A (sc_bucket c) objs beyond" and "cx_APIKey cx = Some ak"
    and "HasPrefix (KeyFromURL c url) (''abr/'' @ ak_ID ak @ ''/'')"
    and "card (below objs s (output_prefix (ak_ID ak) w)) < rounds"
  shows "\<exists>s'. v1_abr_delete A rounds (Some c) cx url (Some w) s =
      (Inr \<lparr>ad_OK = True, ad_InputDeleted = True,
         ad_OutputObjectsDeleted = card (below objs s (output_prefix (ak_ID ak) w))\<rparr>, s') \<and>
    objs s' = objs s - below objs s (output_prefix (ak_ID ak) w) - {KeyFromURL c url}"
proof -
  let ?pre = "output_prefix (ak_ID ak) w"
  have no_key: "KeyFromURL c '''' = ''''" by (simp add: KeyFromURL_def HasPrefix_def)
  have key: "KeyFromURL c url \<noteq> ''''" "url \<noteq> ''''"
    using assms(3) no_key by (auto simp: HasPrefix_def)
  have "\<not> HasPrefix (KeyFromURL c url) ?pre"
    using assms(3) by (auto simp: output_prefix_def HasPrefix_def prefix_def)
  obtain s1 where s1: "api_DeleteObject A (sc_bucket c) (KeyFromURL c url) s = (Inr (), s1)" "objs s1 = objs s - {KeyFromURL c url}"
    using assms(1) unfolding store_serves_def by metis
  with \<open>\<not> HasPrefix (KeyFromURL c url) ?pre\<close> have same: "below objs s1 ?pre = below objs s ?pre" by (auto simp: below_def)
  have "\<forall>k \<in> below objs s1 ?pre. beyond None k" using assms(1) by (simp add: store_serves_def)
  from pages_clear [OF assms(1) this, of rounds 0] assms(4) obtain s2 where
    s2: "delete_pages A (sc_bucket c) ?pre rounds None 0 s1 = (Inr (card (below objs s ?pre), None), s2)" "objs s2 = objs s1 - below objs s ?pre"
    by (auto simp: same)
  have "delete_input A c (ak_ID ak) url s = (Inr True, s1)"
    using key assms(3) s1 by (simp add: delete_input_def DeleteObject_def bindE_def attempt_def ret_def)
  moreover have "delete_outputs A rounds c (ak_ID ak) (Some w) s1 = (Inr (card (below objs s ?pre)), s2)"
    using s2 by (simp add: delete_outputs_def DeletePrefix_def bindE_def ret_def)
  ultimately have "v1_abr_delete A rounds (Some c) cx url (Some w) s =
      (Inr \<lparr>ad_OK = True, ad_InputDeleted = True, ad_OutputObjectsDeleted = card (below objs s ?pre)\<rparr>, s2)"
    using assms(2) by (simp add: v1_abr_delete_def bindE_def ret_def)
  with s1 s2 show ?thesis by auto
qed

section \<open>A bucket\<close>

text \<open>A store whose state is its list of keys, listing \<open>Suc n\<close> of them per page; \<open>refused\<close> are the keys it will
  not delete in a batch, and a batch above the limit is an error.\<close>

definition list_store :: "nat \<Rightarrow> string list \<Rightarrow> string list s3_api" where
  "list_store n refused = \<lparr>api_HeadBucket = \<lambda>b. ret (),
     api_HeadObject = \<lambda>b k s. (if k \<in> set s then Inr () else Inl (Msg ''NotFound''), s),
     api_DeleteObject = \<lambda>b k s. (Inr (), filter (\<lambda>x. x \<noteq> k) s),
     api_ListObjectsV2 = \<lambda>b p t s. (let ks = remdups (filter (\<lambda>k. HasPrefix k p) s) in
       (Inr \<lparr>la_Contents = take (Suc n) ks, la_IsTruncated = Some (Suc n < length ks), la_NextContinuationToken = Some ''next''\<rparr>, s)),
     api_DeleteObjects = \<lambda>b ids s. if batch_limit < length ids then (Inl (Msg ''MalformedXML''), s)
       else (Inr (filter (\<lambda>k. k \<in> set refused) ids), filter (\<lambda>k. k \<in> set refused \<or> k \<notin> set ids) s)\<rparr>"

lemma list_store_ok: "store_ok (list_store n refused) b set"
  by (auto simp: store_ok_def list_store_def exec_def result_def Let_def dest: in_set_takeD)

lemma list_store_serves: "n < batch_limit \<Longrightarrow> store_serves (list_store n []) b set (\<lambda>_ _. True)"
proof -
  assume n: "n < batch_limit"
  have "take (Suc n) ks = ks" if "\<not> Suc n < length ks" for ks :: "string list" using that by simp
  then show ?thesis
    using n by (auto simp: store_serves_def list_store_def Let_def dest: in_set_takeD)
qed

definition sample_bucket :: "string list" where
  "sample_bucket = [''abr/key/f1/movie.mp4'', ''abr-out/key/w1/a.ts'', ''abr-out/key/w1/b.ts'', ''abr-out/key/w1/c.ts'', ''abr/other/f2/x.mp4'']"

theorem delete_objects_confined_witness:
  "''abr/key/f1/movie.mp4'' \<in> namespace ''key'' \<and> ''abr/key/f1/movie.mp4'' \<notin> namespace ''other''"
proof -
  let ?run = "v1_abr_delete (list_store 1 []) 9 (Some sample_s3) sample_session ''https://cdn/media/abr/key/f1/movie.mp4'' None"
  have lost: "''abr/key/f1/movie.mp4'' \<in> set sample_bucket" "''abr/key/f1/movie.mp4'' \<notin> set (exec ?run sample_bucket)"
    by (simp add: sample_bucket_def)
      (simp add: sample_bucket_def sample_session_def sample_s3_def fresh_key_def v1_abr_delete_def delete_input_def delete_outputs_def
        DeleteObject_def list_store_def KeyFromURL_def HasPrefix_def TrimPrefix_def exec_def bindE_def attempt_def ret_def)
  from delete_objects_confined [OF list_store_ok lost] show ?thesis
    by (auto simp: sample_session_def fresh_key_def plain_segment_def)
qed

theorem deletion_complete_witness:
  "fst (v1_abr_delete (list_store 1 []) 9 (Some sample_s3) sample_session ''https://cdn/media/abr/key/f1/movie.mp4'' (Some ''w1'') sample_bucket) =
     Inr \<lparr>ad_OK = True, ad_InputDeleted = True, ad_OutputObjectsDeleted = 3\<rparr>"
proof -
  let ?ak = "fresh_key ''key'' 0 ''w'' '''' ''sk-'' ''hash''"
  have out: "below set sample_bucket (output_prefix (ak_ID ?ak) ''w1'') = {''abr-out/key/w1/a.ts'', ''abr-out/key/w1/b.ts'', ''abr-out/key/w1/c.ts''}"
    by (simp add: below_list sample_bucket_def output_prefix_def fresh_key_def HasPrefix_def)
  have key: "HasPrefix (KeyFromURL sample_s3 ''https://cdn/media/abr/key/f1/movie.mp4'') (''abr/'' @ ak_ID ?ak @ ''/'')"
    by code_simp
  have page: "(1 :: nat) < batch_limit" by (simp add: batch_limit_def)
  have "cx_APIKey sample_session = Some ?ak" by (simp add: sample_session_def)
  note all_gone = deletion_complete [OF list_store_serves [OF page] this key, of sample_bucket "''w1''" 9]
  have three: "card (below set sample_bucket (output_prefix (ak_ID ?ak) ''w1'')) = 3" unfolding out by simp
  then have "card (below set sample_bucket (output_prefix (ak_ID ?ak) ''w1'')) < 9" by simp
  from all_gone [OF this] show ?thesis unfolding three by (elim exE conjE) (simp only: fst_conv)
qed

text \<open>A key that the store refuses to delete is counted as deleted.\<close>

lemma refused_counted:
  "v1_abr_delete (list_store 1 [''abr-out/key/w1/a.ts'']) 9 (Some sample_s3) sample_session '''' (Some ''w1'') [''abr-out/key/w1/a.ts''] =
     (Inr \<lparr>ad_OK = True, ad_InputDeleted = False, ad_OutputObjectsDeleted = 1\<rparr>, [''abr-out/key/w1/a.ts''])"
  by code_simp

end
