(* ===== verification/Wire_Format.thy ===== *)
theory Wire_Format
  imports Object_Access LOC_Transport Handler_Facts "HOL-Library.List_Lexorder" "HOL-Library.Char_ord"
begin

text \<open>
  What the answers look like to a client: the JSON of the output structs in \<^verbatim>\<open>server/handlers_*.go\<close>, field
  by field with the names and the \<^verbatim>\<open>omitempty\<close> of their tags. How \<^verbatim>\<open>encoding/json\<close> prints an instant and a
  float, and the value of a stored JSON text, are the parameter \<open>R\<close>. A nil slice is \<^verbatim>\<open>null\<close>; the handlers
  append to nil slices, so that an empty list is one.
\<close>

section \<open>Fields\<close>

record wire =
  wr_Time :: "time \<Rightarrow> string"
  wr_Float :: "rat \<Rightarrow> string"
  wr_Raw :: "string \<Rightarrow> json"

text \<open>Instants and floats are printed so that they can be read back. Nothing is asked of stored JSON texts: they are
  compacted, so that texts that differ in white space become the same.\<close>

definition wire_ok :: "wire \<Rightarrow> bool" where
  "wire_ok R \<longleftrightarrow> inj (wr_Time R) \<and> inj (wr_Float R)"

text \<open>\<open>None\<close>: the field is left out.\<close>

type_synonym 'a fields = "(string \<times> ('a \<Rightarrow> json option)) list"

definition struct :: "'a fields \<Rightarrow> 'a \<Rightarrow> json" where
  "struct fs x = JObj (List.map_filter (\<lambda>(k, f). map_option (Pair k) (f x)) fs)"

definition w_text :: "('a \<Rightarrow> string) \<Rightarrow> 'a \<Rightarrow> json option" where
  "w_text g x = Some (JStr (g x))"

definition w_otext :: "('a \<Rightarrow> string) \<Rightarrow> 'a \<Rightarrow> json option" where
  "w_otext g x = (if g x = '''' then None else Some (JStr (g x)))"

definition w_int :: "('a \<Rightarrow> int) \<Rightarrow> 'a \<Rightarrow> json option" where
  "w_int g x = Some (JNum (int_text (g x)))"

definition w_oint :: "('a \<Rightarrow> int) \<Rightarrow> 'a \<Rightarrow> json option" where
  "w_oint g x = (if g x = 0 then None else Some (JNum (int_text (g x))))"

definition w_nat :: "('a \<Rightarrow> nat) \<Rightarrow> 'a \<Rightarrow> json option" where
  "w_nat g x = Some (JNum (nat_text (g x)))"

definition w_bool :: "('a \<Rightarrow> bool) \<Rightarrow> 'a \<Rightarrow> json option" where
  "w_bool g x = Some (JBool (g x))"

definition w_time :: "wire \<Rightarrow> ('a \<Rightarrow> time) \<Rightarrow> 'a \<Rightarrow> json option" where
  "w_time R g x = Some (JStr (wr_Time R (g x)))"

definition w_ofloat :: "wire \<Rightarrow> ('a \<Rightarrow> rat) \<Rightarrow> 'a \<Rightarrow> json option" where
  "w_ofloat R g x = (if g x = 0 then None else Some (JNum (wr_Float R (g x))))"

text \<open>Pointers: a null one is left out. A stored JSON text is never empty.\<close>

definition w_otime :: "wire \<Rightarrow> ('a \<Rightarrow> time option) \<Rightarrow> 'a \<Rightarrow> json option" where
  "w_otime R g x = map_option (\<lambda>t. JStr (wr_Time R t)) (g x)"

definition w_optint :: "('a \<Rightarrow> int option) \<Rightarrow> 'a \<Rightarrow> json option" where
  "w_optint g x = map_option (\<lambda>n. JNum (int_text n)) (g x)"

definition w_raw :: "wire \<Rightarrow> ('a \<Rightarrow> string option) \<Rightarrow> 'a \<Rightarrow> json option" where
  "w_raw R g x = map_option (wr_Raw R) (g x)"

definition w_obj :: "('b \<Rightarrow> json) \<Rightarrow> ('a \<Rightarrow> 'b) \<Rightarrow> 'a \<Rightarrow> json option" where
  "w_obj f g x = Some (f (g x))"

definition json_list :: "('b \<Rightarrow> json) \<Rightarrow> 'b list \<Rightarrow> json" where
  "json_list f xs = (if xs = [] then JNull else JArr (map f xs))"

definition w_list :: "('b \<Rightarrow> json) \<Rightarrow> ('a \<Rightarrow> 'b list) \<Rightarrow> 'a \<Rightarrow> json option" where
  "w_list f g x = Some (json_list f (g x))"

definition w_olist :: "('b \<Rightarrow> json) \<Rightarrow> ('a \<Rightarrow> 'b list) \<Rightarrow> 'a \<Rightarrow> json option" where
  "w_olist f g x = (if g x = [] then None else Some (JArr (map f (g x))))"

section \<open>Portal\<close>

definition GenericOK_json :: json where
  "GenericOK_json = JObj [(''ok'', JBool True)]"

definition VerifyOut_json :: "string \<Rightarrow> json" where
  "VerifyOut_json message = JObj [(''ok'', JBool True), (''message'', JStr message)]"

definition PortalAccountOut_json :: "AccountOut \<Rightarrow> json" where
  "PortalAccountOut_json = struct [(''email'', w_text ao_Email), (''name'', w_text ao_Name), (''waitlist_id'', w_text ao_WaitlistID),
     (''api_key_prefix'', w_text ao_APIKeyPrefix)]"

definition APIKeyView_json :: "wire \<Rightarrow> APIKeyView \<Rightarrow> json" where
  "APIKeyView_json R = struct [(''id'', w_text kv_ID), (''label'', w_otext kv_Label), (''key_prefix'', w_text kv_KeyPrefix),
     (''created_at'', w_time R kv_CreatedAt), (''last_used_at'', w_otime R kv_LastUsedAt), (''revoked_at'', w_otime R kv_RevokedAt)]"

definition PortalKeysOut_json :: "wire \<Rightarrow> APIKeyView list \<Rightarrow> json" where
  "PortalKeysOut_json R = struct [(''keys'', w_list (APIKeyView_json R) id)]"

definition PortalMintKeyOut_json :: "wire \<Rightarrow> string \<times> APIKeyView \<Rightarrow> json" where
  "PortalMintKeyOut_json R = struct [(''plaintext_key'', w_text fst), (''key'', w_obj (APIKeyView_json R) snd)]"

definition UsageItem_json :: "wire \<Rightarrow> UsageItem \<Rightarrow> json" where
  "UsageItem_json R = struct [(''id'', w_text ui_ID), (''work_id'', w_text ui_WorkID), (''capability'', w_text ui_Capability),
     (''offering'', w_text ui_Offering), (''state'', w_text ui_State), (''latency_ms'', w_oint ui_LatencyMs),
     (''status_code'', w_oint ui_StatusCode), (''created_at'', w_time R ui_CreatedAt)]"

definition PortalUsageOut_json :: "wire \<Rightarrow> UsageItem list \<Rightarrow> json" where
  "PortalUsageOut_json R = struct [(''items'', w_list (UsageItem_json R) id)]"

definition PortalLiveStreamView_json :: "wire \<Rightarrow> PortalLiveStreamView \<Rightarrow> json" where
  "PortalLiveStreamView_json R = struct [(''status_message'', w_text pl_StatusMessage), (''accounting_state'', w_otext pl_AccountingState),
     (''settlement_pending'', w_bool pl_SettlementPending), (''output_state'', w_otext pl_OutputState),
     (''close_reason'', w_otext pl_CloseReason), (''id'', w_text pl_ID), (''name'', w_otext pl_Name), (''status'', w_text pl_Status),
     (''playback_url'', w_otext pl_PlaybackURL), (''error_text'', w_otext pl_ErrorText), (''created_at'', w_time R pl_CreatedAt),
     (''started_at'', w_otime R pl_StartedAt), (''ended_at'', w_otime R pl_EndedAt)]"

definition PortalLiveStreamsOut_json :: "wire \<Rightarrow> PortalLiveStreamView list \<Rightarrow> json" where
  "PortalLiveStreamsOut_json R = struct [(''items'', w_list (PortalLiveStreamView_json R) id)]"

definition PortalABRJobView_json :: "wire \<Rightarrow> PortalABRJobView \<Rightarrow> json" where
  "PortalABRJobView_json R = struct [(''work_id'', w_text pj_WorkID), (''runner_job_id'', w_otext pj_RunnerJobID), (''state'', w_text pj_State),
     (''broker_url'', w_otext pj_BrokerURL), (''latency_ms'', w_oint pj_LatencyMs), (''error_text'', w_otext pj_ErrorText),
     (''created_at'', w_time R pj_CreatedAt), (''resolved_at'', w_otime R pj_ResolvedAt)]"

definition PortalABRJobsOut_json :: "wire \<Rightarrow> PortalABRJobView list \<Rightarrow> json" where
  "PortalABRJobsOut_json R = struct [(''items'', w_list (PortalABRJobView_json R) id)]"

section \<open>Customers\<close>

definition CapabilityListed_json :: "wire \<Rightarrow> CapabilityListed \<Rightarrow> json" where
  "CapabilityListed_json R = struct [(''protocol'', w_text cl_Protocol), (''work_unit'', w_otext cl_WorkUnit),
     (''units_per_price'', w_otext cl_UnitsPerPrice), (''work_unit_estimator'', w_raw R cl_WorkUnitEstimator), (''job'', w_raw R cl_Job),
     (''session'', w_raw R cl_Session), (''id'', w_text cl_ID), (''capability'', w_text cl_Capability), (''offering'', w_text cl_Offering),
     (''interaction_mode'', w_otext cl_InteractionMode), (''name'', w_otext cl_Name), (''category'', w_otext cl_Category),
     (''price_per_work_unit_wei'', w_otext cl_PriceWei), (''extra'', w_raw R cl_Extra), (''constraints'', w_raw R cl_Constraints)]"

definition CapabilitiesOut_json :: "wire \<Rightarrow> time \<times> CapabilityListed list \<Rightarrow> json" where
  "CapabilitiesOut_json R = struct [(''object'', w_text (\<lambda>_. ''list'')), (''data'', w_list (CapabilityListed_json R) snd),
     (''snapshot_at'', w_time R fst)]"

definition UploadURLOut_json :: "wire \<Rightarrow> PresignedPut \<Rightarrow> json" where
  "UploadURLOut_json R = struct [(''upload_url'', w_text pp_UploadURL), (''object_url'', w_text pp_ObjectURL), (''expires_at'', w_time R pp_ExpiresAt)]"

definition ABRRendition_json :: "ABRRendition \<Rightarrow> json" where
  "ABRRendition_json = struct [(''name'', w_text rd_Name), (''playlist_url'', w_text rd_PlaylistURL), (''bandwidth'', w_int rd_Bandwidth)]"

text \<open>No handler sets the fields for the GPU, the input, the broker and its address.\<close>

definition ABRJob_json :: "wire \<Rightarrow> ABRJob \<Rightarrow> json" where
  "ABRJob_json R = struct [(''accounting_state'', w_otext aj_AccountingState), (''work_unit'', w_otext aj_WorkUnit),
     (''actual_units'', w_optint aj_ActualUnits), (''id'', w_text aj_ID), (''status'', w_text aj_Status), (''phase'', w_otext aj_Phase),
     (''overall_progress'', w_ofloat R aj_OverallProgress), (''error'', w_otext aj_Error), (''error_code'', w_otext aj_ErrorCode),
     (''gpu'', w_otext (\<lambda>_. '''')), (''input_url'', w_text (\<lambda>_. '''')), (''master_playlist_url'', w_otext aj_MasterPlaylistURL),
     (''renditions'', w_olist ABRRendition_json aj_Renditions), (''broker_url'', w_otext (\<lambda>_. '''')), (''eth_address'', w_otext (\<lambda>_. '''')),
     (''created_at'', w_time R aj_CreatedAt)]"

definition ABROut_json :: "wire \<Rightarrow> ABRJob \<Rightarrow> json" where
  "ABROut_json R = struct [(''job'', w_obj (ABRJob_json R) id)]"

definition LiveIngest_json :: "LiveSessionView \<Rightarrow> json" where
  "LiveIngest_json = struct [(''rtmp_url'', w_text lv_RTMPURL), (''stream_key'', w_otext lv_StreamKey)]"

definition LivePlayback_json :: "LiveSessionView \<Rightarrow> json" where
  "LivePlayback_json = struct [(''hls_url'', w_text lv_HLSURL)]"

text \<open>No handler sets the start of a session.\<close>

definition LiveSessionView_json :: "wire \<Rightarrow> LiveSessionView \<Rightarrow> json" where
  "LiveSessionView_json R = struct [(''status_message'', w_text lv_StatusMessage), (''settlement_pending'', w_bool lv_SettlementPending),
     (''accounting_state'', w_otext lv_AccountingState), (''output_state'', w_otext lv_OutputState), (''actual_units'', w_int lv_ActualUnits),
     (''last_failure_code'', w_otext lv_LastFailureCode), (''id'', w_text lv_ID), (''status'', w_text lv_Status),
     (''ingest'', w_obj LiveIngest_json id), (''playback'', w_obj LivePlayback_json id), (''close_reason'', w_otext lv_CloseReason),
     (''created_at'', w_time R lv_CreatedAt), (''started_at'', w_otime R (\<lambda>_. None)), (''ended_at'', w_otime R lv_EndedAt)]"

definition LiveCreateOut_json :: "wire \<Rightarrow> LiveSessionView \<Rightarrow> json" where
  "LiveCreateOut_json R = struct [(''session'', w_obj (LiveSessionView_json R) id)]"

definition ABRDeleteOut_json :: "ABRDeleteOut \<Rightarrow> json" where
  "ABRDeleteOut_json = struct [(''ok'', w_bool ad_OK), (''input_deleted'', w_bool ad_InputDeleted),
     (''output_objects_deleted'', w_nat ad_OutputObjectsDeleted)]"

section \<open>Administrators\<close>

definition WaitlistView_json :: "wire \<Rightarrow> WaitlistView \<Rightarrow> json" where
  "WaitlistView_json R = struct [(''id'', w_text wv_ID), (''name'', w_text wv_Name), (''email'', w_text wv_Email),
     (''email_verified_at'', w_otime R wv_EmailVerifiedAt), (''status'', w_text wv_Status), (''approved_at'', w_otime R wv_ApprovedAt),
     (''approved_by'', w_otext wv_ApprovedBy), (''created_at'', w_time R wv_CreatedAt)]"

definition AdminWaitlistOut_json :: "wire \<Rightarrow> WaitlistView list \<Rightarrow> json" where
  "AdminWaitlistOut_json R = struct [(''items'', w_list (WaitlistView_json R) id)]"

definition AdminApproveOut_json :: "ApproveOut \<Rightarrow> json" where
  "AdminApproveOut_json = struct [(''ok'', w_bool (\<lambda>_. True)), (''key_prefix'', w_text apo_KeyPrefix), (''plain_key'', w_otext apo_PlainKey)]"

definition AdminUserSummary_json :: "wire \<Rightarrow> AdminUserSummary \<Rightarrow> json" where
  "AdminUserSummary_json R = struct [(''id'', w_text as_ID), (''name'', w_text as_Name), (''email'', w_text as_Email),
     (''approved_at'', w_otime R as_ApprovedAt), (''created_at'', w_time R as_CreatedAt)]"

definition AdminUsersListOut_json :: "wire \<Rightarrow> AdminUserSummary list \<Rightarrow> json" where
  "AdminUsersListOut_json R = struct [(''items'', w_list (AdminUserSummary_json R) id)]"

definition AdminUserUsageSummary_json :: "wire \<Rightarrow> UsageSummary \<Rightarrow> json" where
  "AdminUserUsageSummary_json R = struct [(''total_requests'', w_nat sum_TotalRequests), (''committed_total'', w_nat sum_CommittedTotal),
     (''refunded_total'', w_nat sum_RefundedTotal), (''open_total'', w_nat sum_OpenTotal), (''last_used_at'', w_otime R sum_LastUsedAt)]"

definition AdminUserDetailOut_json :: "wire \<Rightarrow> AdminUserDetailOut \<Rightarrow> json" where
  "AdminUserDetailOut_json R = struct [(''id'', w_text au_ID), (''email'', w_text au_Email), (''name'', w_text au_Name),
     (''status'', w_text au_Status), (''email_verified_at'', w_otime R au_EmailVerifiedAt), (''approved_at'', w_otime R au_ApprovedAt),
     (''created_at'', w_time R au_CreatedAt), (''api_keys'', w_list (APIKeyView_json R) au_APIKeys),
     (''usage'', w_obj (AdminUserUsageSummary_json R) au_Usage)]"

text \<open>The totals of a row are its summary's.\<close>

definition AdminUsageRow_json :: "wire \<Rightarrow> UsageSummaryByAPIKey \<Rightarrow> json" where
  "AdminUsageRow_json R = struct [(''api_key_id'', w_text uk_APIKeyID), (''waitlist_id'', w_text uk_WaitlistID), (''email'', w_text uk_Email),
     (''key_prefix'', w_text uk_KeyPrefix), (''total_requests'', w_nat (\<lambda>r. sum_TotalRequests (uk_Summary r))),
     (''committed_total'', w_nat (\<lambda>r. sum_CommittedTotal (uk_Summary r))), (''refunded_total'', w_nat (\<lambda>r. sum_RefundedTotal (uk_Summary r))),
     (''open_total'', w_nat (\<lambda>r. sum_OpenTotal (uk_Summary r))), (''last_used_at'', w_otime R (\<lambda>r. sum_LastUsedAt (uk_Summary r)))]"

definition AdminUsageOut_json :: "wire \<Rightarrow> UsageSummaryByAPIKey list \<Rightarrow> json" where
  "AdminUsageOut_json R = struct [(''items'', w_list (AdminUsageRow_json R) id)]"

definition AdminUsageByCapRow_json :: "wire \<Rightarrow> CapabilityRollup \<Rightarrow> json" where
  "AdminUsageByCapRow_json R = struct [(''capability'', w_text cr_Capability), (''total_requests'', w_nat (\<lambda>r. sum_TotalRequests (cr_Summary r))),
     (''committed_total'', w_nat (\<lambda>r. sum_CommittedTotal (cr_Summary r))), (''refunded_total'', w_nat (\<lambda>r. sum_RefundedTotal (cr_Summary r))),
     (''open_total'', w_nat (\<lambda>r. sum_OpenTotal (cr_Summary r))), (''runner_succeeded'', w_nat cr_RunnerSucceeded),
     (''runner_failed'', w_nat cr_RunnerFailed), (''last_used_at'', w_otime R (\<lambda>r. sum_LastUsedAt (cr_Summary r)))]"

definition AdminUsageByCapOut_json :: "wire \<Rightarrow> int \<times> CapabilityRollup list \<Rightarrow> json" where
  "AdminUsageByCapOut_json R = struct [(''since_hours'', w_int fst), (''items'', w_list (AdminUsageByCapRow_json R) snd)]"

text \<open>No handler sets the ingest mode.\<close>

definition AdminLiveStreamView_json :: "wire \<Rightarrow> AdminLiveStreamView \<Rightarrow> json" where
  "AdminLiveStreamView_json R = struct [(''id'', w_text al_ID), (''api_key_id'', w_text al_APIKeyID), (''name'', w_otext al_Name),
     (''status'', w_text al_Status), (''ingest_mode'', w_otext (\<lambda>_. '''')), (''capability'', w_text al_Capability),
     (''offering'', w_text al_Offering), (''broker_url'', w_otext al_BrokerURL), (''eth_address'', w_otext al_EthAddress),
     (''ingest_url'', w_otext al_IngestURL), (''playback_url'', w_otext al_PlaybackURL), (''error_text'', w_otext al_ErrorText),
     (''created_at'', w_time R al_CreatedAt), (''started_at'', w_otime R al_StartedAt), (''last_heartbeat_at'', w_otime R al_LastHeartbeatAt),
     (''ended_at'', w_otime R al_EndedAt), (''runner_status'', w_raw R al_RunnerStatus)]"

definition AdminLiveStreamsOut_json :: "wire \<Rightarrow> AdminLiveStreamView list \<Rightarrow> json" where
  "AdminLiveStreamsOut_json R = struct [(''items'', w_list (AdminLiveStreamView_json R) id)]"

definition AdminABRJobView_json :: "wire \<Rightarrow> AdminABRJobView \<Rightarrow> json" where
  "AdminABRJobView_json R = struct [(''status'', w_otext av_Status), (''accounting_state'', w_otext av_AccountingState),
     (''error_code'', w_otext av_ErrorCode), (''work_id'', w_text av_WorkID), (''api_key_id'', w_text av_APIKeyID),
     (''runner_job_id'', w_otext av_RunnerJobID), (''state'', w_text av_State), (''broker_url'', w_otext av_BrokerURL),
     (''latency_ms'', w_oint av_LatencyMs), (''status_code'', w_oint av_StatusCode), (''error_text'', w_otext av_ErrorText),
     (''created_at'', w_time R av_CreatedAt), (''resolved_at'', w_otime R av_ResolvedAt)]"

definition AdminABRJobsOut_json :: "wire \<Rightarrow> AdminABRJobView list \<Rightarrow> json" where
  "AdminABRJobsOut_json R = struct [(''items'', w_list (AdminABRJobView_json R) id)]"

text \<open>No handler sets the quote.\<close>

definition AdminRegistryCandidate_json :: "wire \<Rightarrow> AdminRegistryCandidate \<Rightarrow> json" where
  "AdminRegistryCandidate_json R = struct [(''worker_url'', w_text rc_WorkerURL), (''eth_address'', w_otext rc_EthAddress),
     (''capability'', w_text rc_Capability), (''offering'', w_text rc_Offering), (''price_per_work_unit_wei'', w_otext rc_PriceWei),
     (''work_unit'', w_otext rc_WorkUnit), (''quote_id'', w_otext (\<lambda>_. '''')), (''quote_version'', w_oint (\<lambda>_. 0)),
     (''units_per_price'', w_otext rc_UnitsPerPrice), (''protocol'', w_text rc_Protocol), (''work_unit_estimator'', w_raw R rc_WorkUnitEstimator),
     (''job'', w_raw R rc_Job), (''session'', w_raw R rc_Session), (''extra'', w_raw R rc_Extra)]"

definition AdminRegistryCandidatesOut_json :: "wire \<Rightarrow> string \<times> string \<times> AdminRegistryCandidate list \<Rightarrow> json" where
  "AdminRegistryCandidatesOut_json R = struct [(''capability'', w_text fst), (''offering'', w_text (\<lambda>x. fst (snd x))),
     (''items'', w_list (AdminRegistryCandidate_json R) (\<lambda>x. snd (snd x)))]"

definition CapabilityView_json :: "wire \<Rightarrow> CapabilityView \<Rightarrow> json" where
  "CapabilityView_json R = struct [(''protocol'', w_text cv_Protocol), (''work_unit'', w_otext cv_WorkUnit),
     (''units_per_price'', w_otext cv_UnitsPerPrice), (''work_unit_estimator'', w_raw R cv_WorkUnitEstimator), (''job'', w_raw R cv_Job),
     (''session'', w_raw R cv_Session), (''extra'', w_raw R cv_Extra), (''id'', w_text cv_ID), (''capability'', w_text cv_Capability),
     (''offering'', w_text cv_Offering), (''interaction_mode'', w_otext cv_InteractionMode), (''name'', w_otext cv_Name),
     (''broker_url'', w_otext cv_BrokerURL), (''eth_address'', w_otext cv_EthAddress), (''price_per_work_unit_wei'', w_otext cv_PriceWei),
     (''active'', w_bool cv_Active)]"

text \<open>\<open>filter_json\<close>: the filter of the refresh row; a row that was not read leaves it nil.\<close>

definition filter_json :: "bool \<Rightarrow> RefreshMeta \<Rightarrow> json" where
  "filter_json was_read m = (if was_read then JArr (map JStr (rm_CapabilityFilter m)) else JNull)"

definition AdminCapabilitiesOut_json :: "wire \<Rightarrow> bool \<Rightarrow> RefreshMeta \<times> time \<times> CapabilityView list \<Rightarrow> json" where
  "AdminCapabilitiesOut_json R was_read = struct [(''items'', w_list (CapabilityView_json R) (\<lambda>x. snd (snd x))),
     (''snapshot_at'', w_time R (\<lambda>x. fst (snd x))), (''last_refresh_at'', w_time R (\<lambda>x. rm_LastRefreshAt (fst x))),
     (''last_outcome'', w_text (\<lambda>x. rm_LastOutcome (fst x))), (''last_error'', w_otext (\<lambda>x. derefString (rm_LastError (fst x)))),
     (''rows_matched'', w_nat (\<lambda>x. rm_RowsMatched (fst x))), (''capability_filter'', w_obj (filter_json was_read) fst)]"

definition AdminRegistryCapCount_json :: "string \<times> nat \<Rightarrow> json" where
  "AdminRegistryCapCount_json = struct [(''capability'', w_text fst), (''count'', w_nat snd)]"

definition AdminRegistrySummaryOut_json :: "wire \<Rightarrow> bool \<Rightarrow> RefreshMeta \<times> nat \<times> (string \<times> nat) list \<Rightarrow> json" where
  "AdminRegistrySummaryOut_json R was_read = struct [(''last_refresh_at'', w_time R (\<lambda>x. rm_LastRefreshAt (fst x))),
     (''last_outcome'', w_text (\<lambda>x. rm_LastOutcome (fst x))), (''last_error'', w_otext (\<lambda>x. derefString (rm_LastError (fst x)))),
     (''capability_filter'', w_obj (filter_json was_read) fst), (''rows_matched'', w_nat (\<lambda>x. rm_RowsMatched (fst x))),
     (''active_count'', w_nat (\<lambda>x. fst (snd x))), (''by_capability'', w_list AdminRegistryCapCount_json (\<lambda>x. snd (snd x)))]"

section \<open>Session cookies\<close>

text \<open>\<^verbatim>\<open>Cookie.String\<close> for the attributes in use; the token is hexadecimal and printed as it is. A negative age
  is printed as zero, which deletes the cookie, and age zero is not printed.\<close>

definition SessionCookieName :: string where
  "SessionCookieName = ''lvp_video_session''"

definition cookie_text :: "Cookie \<Rightarrow> string" where
  "cookie_text k = SessionCookieName @ ''='' @ ck_Value k @ ''; Path=/'' @
     (if 0 < ck_MaxAge k then ''; Max-Age='' @ int_text (ck_MaxAge k) else if ck_MaxAge k < 0 then ''; Max-Age=0'' else '''') @
     ''; HttpOnly'' @ (if ck_Secure k then ''; Secure'' else '''') @ ''; SameSite=Lax''"

definition cookieHeaderValue :: "WebConfig \<Rightarrow> string \<Rightarrow> string" where
  "cookieHeaderValue c token = cookie_text (SetSessionCookie c token)"

definition clearedCookieHeaderValue :: "WebConfig \<Rightarrow> string" where
  "clearedCookieHeaderValue c = cookie_text (clearSessionCookie c)"

section \<open>Health\<close>

definition HealthCheck_json :: "HealthCheck \<Rightarrow> json" where
  "HealthCheck_json = struct [(''status'', w_text hc_Status), (''latency_ms'', w_int hc_LatencyMs), (''error'', w_otext hc_Error)]"

text \<open>The checks are a map, printed in the order of its keys.\<close>

definition HealthOut_json :: "string \<times> (string \<times> HealthCheck) list \<Rightarrow> json" where
  "HealthOut_json h = JObj [(''status'', JStr (fst h)),
     (''checks'', JObj (map (\<lambda>(k, c). (k, HealthCheck_json c)) (sort_key fst (snd h))))]"

section \<open>Facts\<close>

text \<open>A struct whose field names differ shows each field.\<close>

lemma absent_field: "k \<notin> fst ` set fs \<Longrightarrow> map_of (List.map_filter (\<lambda>(k, f). map_option (Pair k) (f x)) fs) k = None"
  by (induction fs) (auto simp: List.map_filter_simps split: option.splits)

lemma shown_field:
  "distinct (map fst fs) \<Longrightarrow> (k, f) \<in> set fs \<Longrightarrow> map_of (List.map_filter (\<lambda>(k, f). map_option (Pair k) (f x)) fs) k = f x"
proof (induction fs)
  case (Cons p fs)
  show ?case
  proof (cases "p = (k, f)")
    case True
    with Cons.prems absent_field [of k fs x] show ?thesis by (cases "f x") (auto simp: List.map_filter_simps)
  next
    case False
    with Cons.prems have "(k, f) \<in> set fs" by simp
    moreover from this Cons.prems(1) have "fst p \<noteq> k" by (metis distinct.simps(2) fst_conv image_eqI list.simps(9) set_map)
    ultimately show ?thesis using Cons by (cases p; cases "snd p x") (auto simp: List.map_filter_simps)
  qed
qed simp


lemma struct_eq: "distinct (map fst fs) \<Longrightarrow> struct fs x = struct fs y \<longleftrightarrow> list_all (\<lambda>p. snd p x = snd p y) fs"
proof
  assume d: "distinct (map fst fs)" and "struct fs x = struct fs y"
  then have same: "List.map_filter (\<lambda>(k, f). map_option (Pair k) (f x)) fs = List.map_filter (\<lambda>(k, f). map_option (Pair k) (f y)) fs"
    by (simp add: struct_def)
  have "f x = f y" if "(k, f) \<in> set fs" for k f
    using shown_field [OF d that, of x] shown_field [OF d that, of y] same by simp
  then show "list_all (\<lambda>p. snd p x = snd p y) fs" by (auto simp: list_all_iff)
next
  show "list_all (\<lambda>p. snd p x = snd p y) fs \<Longrightarrow> struct fs x = struct fs y"
    unfolding struct_def
  proof (induction fs)
    case (Cons p fs)
    then show ?case by (cases "snd p y") (auto simp: List.map_filter_simps case_prod_unfold)
  qed simp
qed

named_theorems wire_fields

lemma int_text_inj: "int_text m = int_text n \<longleftrightarrow> m = n"
  by (metis SetString10_int_text option.inject)

lemma nat_text_inj: "nat_text m = nat_text n \<longleftrightarrow> m = n"
  using int_text_inj [of "int m" "int n"] by (simp add: int_text_def)

lemma plain_fields [wire_fields]:
  "w_text g x = w_text g y \<longleftrightarrow> g x = g y" "w_otext g x = w_otext g y \<longleftrightarrow> g x = g y"
  "w_int i x = w_int i y \<longleftrightarrow> i x = i y" "w_oint i x = w_oint i y \<longleftrightarrow> i x = i y" "w_nat n x = w_nat n y \<longleftrightarrow> n x = n y"
  "w_bool b x = w_bool b y \<longleftrightarrow> b x = b y"
  by (auto simp: w_text_def w_otext_def w_int_def w_oint_def w_nat_def w_bool_def int_text_inj nat_text_inj)

lemma optint_field [wire_fields]: "w_optint g x = w_optint g y \<longleftrightarrow> g x = g y"
  by (cases "g x"; cases "g y") (auto simp: w_optint_def int_text_inj)

lemma wire_field [wire_fields]:
  assumes "wire_ok R"
  shows "w_time R t x = w_time R t y \<longleftrightarrow> t x = t y" "w_otime R ot x = w_otime R ot y \<longleftrightarrow> ot x = ot y"
    "w_ofloat R q x = w_ofloat R q y \<longleftrightarrow> q x = q y"
  using assms by (auto simp: wire_ok_def inj_eq w_time_def w_otime_def w_ofloat_def map_option_case split: option.splits)

lemma obj_field [wire_fields]: "inj f \<Longrightarrow> w_obj f g x = w_obj f g y \<longleftrightarrow> g x = g y"
  by (simp add: w_obj_def inj_eq)

lemma json_list_eq: "inj f \<Longrightarrow> json_list f xs = json_list f ys \<longleftrightarrow> xs = ys"
  by (auto simp: json_list_def inj_map_eq_map)

lemma list_field [wire_fields]: "inj f \<Longrightarrow> w_list f g x = w_list f g y \<longleftrightarrow> g x = g y"
  by (simp add: w_list_def json_list_eq)

lemma olist_field [wire_fields]: "inj f \<Longrightarrow> w_olist f g x = w_olist f g y \<longleftrightarrow> g x = g y"
  by (auto simp: w_olist_def inj_map_eq_map)

lemma struct_inj:
  assumes "distinct (map fst fs)" and "\<And>x y. list_all (\<lambda>p. snd p x = snd p y) fs \<Longrightarrow> x = y"
  shows "inj (struct fs)"
  using assms by (auto intro: injI simp: struct_eq)

text \<open>Every item of a listing can be read back from its JSON.\<close>

lemma inj_APIKeyView: "wire_ok R \<Longrightarrow> inj (APIKeyView_json R)"
  unfolding APIKeyView_json_def by (rule struct_inj) (simp_all add: wire_fields)

lemma inj_UsageItem: "wire_ok R \<Longrightarrow> inj (UsageItem_json R)"
  unfolding UsageItem_json_def by (rule struct_inj) (simp_all add: wire_fields)

lemma inj_PortalLiveStreamView: "wire_ok R \<Longrightarrow> inj (PortalLiveStreamView_json R)"
  unfolding PortalLiveStreamView_json_def by (rule struct_inj) (simp_all add: wire_fields)

lemma inj_PortalABRJobView: "wire_ok R \<Longrightarrow> inj (PortalABRJobView_json R)"
  unfolding PortalABRJobView_json_def by (rule struct_inj) (simp_all add: wire_fields)

lemma inj_ABRRendition: "inj ABRRendition_json"
  unfolding ABRRendition_json_def by (rule struct_inj) (simp_all add: wire_fields)

lemma inj_ABRJob: "wire_ok R \<Longrightarrow> inj (ABRJob_json R)"
  unfolding ABRJob_json_def by (rule struct_inj) (simp_all add: wire_fields inj_ABRRendition)

lemma inj_WaitlistView: "wire_ok R \<Longrightarrow> inj (WaitlistView_json R)"
  unfolding WaitlistView_json_def by (rule struct_inj) (simp_all add: wire_fields)

lemma inj_AdminUserSummary: "wire_ok R \<Longrightarrow> inj (AdminUserSummary_json R)"
  unfolding AdminUserSummary_json_def by (rule struct_inj) (simp_all add: wire_fields)

lemma inj_AdminUserUsageSummary: "wire_ok R \<Longrightarrow> inj (AdminUserUsageSummary_json R)"
  unfolding AdminUserUsageSummary_json_def by (rule struct_inj) (simp_all add: wire_fields)

lemma inj_AdminUserDetailOut: "wire_ok R \<Longrightarrow> inj (AdminUserDetailOut_json R)"
  unfolding AdminUserDetailOut_json_def by (rule struct_inj) (simp_all add: wire_fields inj_APIKeyView inj_AdminUserUsageSummary)

lemma inj_AdminUsageRow: "wire_ok R \<Longrightarrow> inj (AdminUsageRow_json R)"
  unfolding AdminUsageRow_json_def by (rule struct_inj) (simp_all add: wire_fields)

lemma inj_AdminUsageByCapRow: "wire_ok R \<Longrightarrow> inj (AdminUsageByCapRow_json R)"
  unfolding AdminUsageByCapRow_json_def by (rule struct_inj) (simp_all add: wire_fields)

lemma inj_AdminABRJobView: "wire_ok R \<Longrightarrow> inj (AdminABRJobView_json R)"
  unfolding AdminABRJobView_json_def by (rule struct_inj) (simp_all add: wire_fields)

lemma inj_AdminRegistryCapCount: "inj AdminRegistryCapCount_json"
  unfolding AdminRegistryCapCount_json_def by (rule struct_inj) (simp_all add: wire_fields prod_eq_iff)

lemma inj_HealthCheck: "inj HealthCheck_json"
  unfolding HealthCheck_json_def by (rule struct_inj) (simp_all add: wire_fields)

lemma inj_LiveSessionView: "wire_ok R \<Longrightarrow> inj (LiveSessionView_json R)"
proof -
  have i: "w_obj LiveIngest_json id x = w_obj LiveIngest_json id y \<longleftrightarrow> lv_RTMPURL x = lv_RTMPURL y \<and> lv_StreamKey x = lv_StreamKey y"
    and p: "w_obj LivePlayback_json id x = w_obj LivePlayback_json id y \<longleftrightarrow> lv_HLSURL x = lv_HLSURL y" for x y
    by (simp_all add: w_obj_def LiveIngest_json_def LivePlayback_json_def struct_eq wire_fields)
  show "wire_ok R \<Longrightarrow> inj (LiveSessionView_json R)"
    unfolding LiveSessionView_json_def by (rule struct_inj) (simp_all add: wire_fields i p)
qed

lemma inj_AdminApproveOut: "inj AdminApproveOut_json"
  unfolding AdminApproveOut_json_def by (rule struct_inj) (simp_all add: wire_fields)

lemma inj_UploadURLOut: "wire_ok R \<Longrightarrow> inj (UploadURLOut_json R)"
  unfolding UploadURLOut_json_def by (rule struct_inj) (simp_all add: wire_fields)

lemma inj_ABRDeleteOut: "inj ABRDeleteOut_json"
  unfolding ABRDeleteOut_json_def by (rule struct_inj) (simp_all add: wire_fields)

lemma inj_PortalAccountOut: "inj PortalAccountOut_json"
  unfolding PortalAccountOut_json_def by (rule struct_inj) (simp_all add: wire_fields)

lemmas inj_items = inj_APIKeyView inj_UsageItem inj_PortalLiveStreamView inj_PortalABRJobView inj_ABRJob
  inj_WaitlistView inj_AdminUserSummary inj_AdminUsageRow inj_AdminUsageByCapRow inj_AdminABRJobView inj_LiveSessionView

lemma inj_body: "inj f \<Longrightarrow> inj (struct [(k, w_list f id)])" "inj f \<Longrightarrow> inj (struct [(k, w_obj f id)])"
  by (rule struct_inj; simp add: wire_fields)+

text \<open>The JSON of an answer without stored JSON texts determines the answer.\<close>

theorem answers_decodable:
  assumes "wire_ok R"
  shows "inj (PortalKeysOut_json R) \<and> inj (PortalMintKeyOut_json R) \<and> inj PortalAccountOut_json \<and> inj (PortalUsageOut_json R) \<and>
    inj (PortalLiveStreamsOut_json R) \<and> inj (PortalABRJobsOut_json R) \<and> inj (UploadURLOut_json R) \<and>
    inj (ABROut_json R) \<and> inj ABRDeleteOut_json \<and> inj (LiveCreateOut_json R) \<and> inj (AdminWaitlistOut_json R) \<and> inj AdminApproveOut_json \<and>
    inj (AdminUsersListOut_json R) \<and> inj (AdminUserDetailOut_json R) \<and> inj (AdminUsageOut_json R) \<and> inj (AdminUsageByCapOut_json R) \<and>
    inj (AdminABRJobsOut_json R)"
proof -
  note i = inj_items [OF assms]
  have mint: "inj (PortalMintKeyOut_json R)" unfolding PortalMintKeyOut_json_def
    by (rule struct_inj) (simp_all add: wire_fields i prod_eq_iff)
  have rows: "inj (AdminUsageByCapOut_json R)" unfolding AdminUsageByCapOut_json_def
    by (rule struct_inj) (simp_all add: wire_fields i prod_eq_iff)
  show ?thesis
    unfolding PortalKeysOut_json_def PortalUsageOut_json_def PortalLiveStreamsOut_json_def PortalABRJobsOut_json_def
      ABROut_json_def LiveCreateOut_json_def AdminWaitlistOut_json_def AdminUsersListOut_json_def AdminUsageOut_json_def
      AdminABRJobsOut_json_def
    by (intro conjI inj_body i mint rows inj_PortalAccountOut inj_UploadURLOut [OF assms] inj_ABRDeleteOut inj_AdminApproveOut
      inj_AdminUserDetailOut [OF assms])
qed

definition plain_wire :: wire where
  "plain_wire = \<lparr>wr_Time = int_text, wr_Float = (\<lambda>q. int_text (fst (quotient_of q)) @ ''/'' @ int_text (snd (quotient_of q))),
     wr_Raw = JStr\<rparr>"

lemma no_slash: "CHR ''/'' \<notin> set (int_text n)"
  by (auto simp: int_text_def digit_val_def dest!: nat_text_digit split: if_splits)

lemma plain_wire_ok: "wire_ok plain_wire"
proof -
  have "p = q" if "int_text (fst (quotient_of p)) @ ''/'' @ int_text (snd (quotient_of p)) =
      int_text (fst (quotient_of q)) @ ''/'' @ int_text (snd (quotient_of q))" for p q
  proof -
    have "split_slash (int_text a @ ''/'' @ int_text b) = int_text a # split_slash (int_text b)" for a b
      using split_slash_append [OF no_slash, of a "int_text b"] by simp
    with that have "quotient_of p = quotient_of q"
      by (metis append_same_eq int_text_inj list.inject prod_eq_iff same_append_eq)
    then show ?thesis by (simp add: quotient_of_inject_eq)
  qed
  then show ?thesis by (auto simp: wire_ok_def plain_wire_def inj_def int_text_inj)
qed

theorem answers_decodable_witness:
  "wire_ok plain_wire \<and> PortalUsageOut_json plain_wire [] \<noteq> PortalUsageOut_json plain_wire [usage_item (fresh_reservation ''r1'' ''key'' ''job1'' ''video:abr'' ''default'' None None 10)]"
proof -
  have "inj (PortalUsageOut_json plain_wire)" using answers_decodable [OF plain_wire_ok] by blast
  then show ?thesis by (auto simp: plain_wire_ok dest: injD)
qed

section \<open>The stream key\<close>









end
