(* ===== verification/Spec2Isabelle.thy ===== *)
theory Spec2Isabelle
  imports Paid_Facts Engine_Recorded Engine_Typed Account_Safety Rate_Facts Worker_Loop RTMP_Listener Views_Facts Diagnostics LOC_Transport
    Process_Facts LOC_Fake Broker_Transport Row_Codec Route_Schemas Object_Access Wire_Format
begin

text \<open>
  Verification library of the Livepeer video gateway (\<^verbatim>\<open>gateway/\<close>), a Go service that sells two
  paid operations to API-key holders: transcoding a file (ABR) and a live stream. Each operation is
  authorized and settled with the payment service LOC and executed by a capability broker; both are
  remote, slow and unreliable, so the gateway journals every operation and drives it by retried
  attempts. The subject of this library is that core: what may be lost, repeated or charged when
  calls fail at any point.

  Theories, in import order, with the code they model (paths below \<^verbatim>\<open>gateway/internal\<close>):

    \<^item> Gateway\_Prelude: shared types and lemmas. Table rows are lists (\<^verbatim>\<open>row_by\<close>, \<^verbatim>\<open>sql_update\<close>); a
      fallible effect is \<open>'s \<Rightarrow> ('e + 'a) \<times> 's\<close> with \<open>ret\<close>, \<open>throw\<close>, \<open>bindE\<close>, \<open>attempt\<close>; \<open>triple\<close> and
      \<open>steps\<close> are its Hoare triples and two-state contracts, and the locale \<open>step_contract\<close> carries
      a reflexive transitive relation along effects. 64-bit wrap-around is \<open>wrap64\<close>.
    \<^item> Repo\_Types, Reservation\_Repo, Live\_Repo, Operation\_Repo: \<^verbatim>\<open>repo/types.go\<close>,
      \<^verbatim>\<open>repo/reservations.go\<close> (usage ledger), \<^verbatim>\<open>repo/live.go\<close>, \<^verbatim>\<open>repo/operations.go\<close> (journal, advisory
      locks). One function per statement, including column defaults, uniqueness and checks.
    \<^item> Upstream, LOC\_Client, Broker\_Client: error values and their classification
      (\<^verbatim>\<open>proxy/*/errors.go\<close>), \<^verbatim>\<open>proxy/loc/v2.go\<close> with the bounded retry of \<^verbatim>\<open>client.go\<close>, and
      \<^verbatim>\<open>proxy/livepeer/v2.go\<close>: event stream, claim envelope, identity checks.
    \<^item> Paid\_Model: configuration (\<^verbatim>\<open>config.Load\<close>), journal contents, environment and state of the
      engine, primitive effects. Paid\_ABR, Paid\_Live, Paid\_Engine: \<^verbatim>\<open>server/paid_engine.go\<close> from
      \<^verbatim>\<open>runABR\<close> to \<^verbatim>\<open>Process\<close> and \<^verbatim>\<open>UpstreamURL\<close>. Paid\_Sample: a concrete deployment for witnesses.
    \<^item> Engine\_Contracts: which primitive effects a contract has to admit to hold for the whole
      engine (locales \<open>engine_prims\<close>, \<open>engine_finish\<close>, \<open>engine_drive\<close>, \<open>engine_run\<close>, and \<open>engine_settle\<close>,
      \<open>engine_free\<close>, \<open>engine_dispatch\<close> that give them). Engine\_Safety, Engine\_Dispatch, Engine\_Finish
      interpret them on concrete relations and state the properties of \<^verbatim>\<open>Process\<close>. Paid\_Facts:
      properties of single engine functions.
    \<^item> Engine\_Progress (what an attempt achieves when the database answers: success triples up to
      completion and refusal), Engine\_Recorded (a granted job stays in the journal until it is
      settled), Engine\_Types and Engine\_Typed (which pointers are set when: no attempt dereferences
      nil). A pointer the code reads goes through \<open>deref\<close>, which panics on \<open>None\<close>, and the guards
      that protect it are combined with \<open>orE\<close> and \<open>andE\<close> in the code's order, so that a missing
      guard is a panic of the model.
    \<^item> Catalog (\<^verbatim>\<open>repo/capabilities.go\<close>, \<^verbatim>\<open>registry/refresh.go\<close>), Object\_Store (\<^verbatim>\<open>s3/client.go\<close>),
      ABR\_Presets (\<^verbatim>\<open>abr/presets.go\<close>, sizing of \<^verbatim>\<open>server/paid_handlers.go\<close>).
    \<^item> Paid\_Handlers: \<^verbatim>\<open>server/paid_handlers.go\<close> and the paid routes of \<^verbatim>\<open>server/handlers_v1.go\<close>.
      Gateway\_System: submissions, stops, attempts and relay look-ups as a step relation on the
      database, its reachable states and their invariant. Handler\_Facts: properties of the routes.

    \<^item> Worker\_Loop: \<^verbatim>\<open>PaidEngine.Run\<close>, its scanner, lanes and workers as a step relation.
    \<^item> Accounts (\<^verbatim>\<open>repo/waitlist.go\<close>, \<^verbatim>\<open>repo/apikeys.go\<close>, \<^verbatim>\<open>repo/sessions.go\<close>), Access\_Control
      (\<^verbatim>\<open>server/middleware.go\<close>, the dispatch of \<^verbatim>\<open>server/server.go\<close>, the rest of \<^verbatim>\<open>config.go\<close>),
      Account\_Routes (the routes of \<^verbatim>\<open>handlers_public.go\<close>, \<^verbatim>\<open>handlers_portal.go\<close> and
      \<^verbatim>\<open>handlers_admin.go\<close> that change accounts). Account\_Facts: the tables' invariant and the
      abstract life of an account; Account\_Safety: properties of a request among others;
      Rate\_Facts: the token bucket.
    \<^item> RTMP (\<^verbatim>\<open>rtmp/*.go\<close>): key authentication, outgoing relays, connections and the registry of the
      stop route. RTMP\_Facts: step relation of the callbacks, its invariant and properties.
      RTMP\_Listener: start, service and end of the listener.
    \<^item> Views: the routes that only read (\<^verbatim>\<open>handlers_portal.go\<close>, \<^verbatim>\<open>handlers_admin.go\<close>,
      \<^verbatim>\<open>handlers_v1.go\<close>), each as a function of what its n-th query finds, the checks of the paid
      routes, and \<^verbatim>\<open>handlers_health.go\<close>. Views\_Facts: what the lists may depend on. Web\_Sample: a
      concrete web configuration. Diagnostics: the log lines of \<^verbatim>\<open>server/paid_diagnostics.go\<close>.
    \<^item> LOC\_Transport: \<^verbatim>\<open>proxy/loc/client.go\<close>, \<^verbatim>\<open>capabilities.go\<close>, \<^verbatim>\<open>sessions.go\<close> and the requests of
      \<^verbatim>\<open>v2.go\<close> around the checks of LOC\_Client; wei amounts in JSON. LOC\_Fake: the in-memory LOC of the
      tests (\<^verbatim>\<open>proxy/loc/loctest/fake.go\<close>) and the client's retried settlement in front of it.
      Broker\_Transport: the request of every call of \<^verbatim>\<open>proxy/livepeer/v2.go\<close> and its redirect policy, around
      the checks of Broker\_Client.
    \<^item> Row\_Codec: the select list of every statement that reads rows, and the scan functions, of \<^verbatim>\<open>repo/*.go\<close>
      over rows by column name.
    \<^item> Server\_Front: \<^verbatim>\<open>New\<close> of \<^verbatim>\<open>server/server.go\<close>: the middlewares in order, the routes, the embedded pages
      of \<^verbatim>\<open>server/embed.go\<close>, the access log. Key\_Material: the operator's keys (\<^verbatim>\<open>proxy/livepeer/caller.go\<close>,
      \<^verbatim>\<open>NewSecretBox\<close>) with Base64 written out.
    \<^item> Route\_Schemas: every operation that \<^verbatim>\<open>server/handlers_*.go\<close> register, with its parameters, defaults
      and limits; \<open>Names\<close> of \<^verbatim>\<open>abr/presets.go\<close>. Object\_Access: the calls of \<^verbatim>\<open>s3/client.go\<close> on the store and
      the delete route. Wire\_Format: the JSON of every output struct and the cookie headers.
    \<^item> Process\_Entry: \<^verbatim>\<open>cmd/gateway/main.go\<close> with \<^verbatim>\<open>db\<close>, \<^verbatim>\<open>email\<close>, \<^verbatim>\<open>metrics\<close>, \<^verbatim>\<open>NewPaidEngine\<close> and the ticker of
      \<^verbatim>\<open>registry/refresh.go\<close>: the statements of \<^verbatim>\<open>run\<close>, its deferred calls and the threads it starts as a
      step relation that contains those of Worker\_Loop and RTMP\_Listener. Process\_Facts: its invariant
      and the order of start and shutdown.

  How code and model correspond. \<^verbatim>\<open>Process\<close> works on three Go pointers (row, secrets, view): they are
  the fields \<open>eo\<close>, \<open>es\<close>, \<open>ev\<close> of \<open>estate\<close>, so what was mutated before an error stays mutated. Every
  contact with the outside is one tick of \<open>interact\<close>: before it, the stop requests that other
  requests committed are applied, and the environment record \<open>env\<close> decides by tick what LOC or the
  broker answers, whether an SQL statement is lost before or after it took effect, what the clock
  shows and which locks others hold. Nothing is assumed about these answers but where a theorem
  names it: \<open>loc_outcomes_ok\<close> (LOC does not use the gateway's own refusal marker as an accounting
  outcome) and \<open>config_ok\<close> (the configuration passed the start-up checks). The fields \<open>calls\<close> record
  each upstream call with the durable row at that moment.

  The account routes work the same way on the record \<open>webstate\<close>: between any two statements of a
  request the environment \<open>wenv\<close> lets other requests commit (\<open>wOthers\<close>, a list of the changes the
  routes can make), and a statement may fail before or after it took effect. A transaction's
  statements leave the tables as they are and its commit makes their changes at once, on rows they
  have locked. The RTMP server and the scheduling loop run on several threads; their step relations
  take one critical section, channel operation or callback at a time, in any order.

  Parameters, not modelled: HTTP transport, TLS, JSON decoding, URL parsing, S3 signing, hashing,
  elliptic curves, the migration and pool libraries; the router, of which \<open>mux_ok\<close> states that a
  pattern it selects under \<^verbatim>\<open>/api/\<close> is a registered one whose literal part begins the path; huma's
  validation, of which \<open>huma_ok\<close> states that what it lets through was sent and admitted, or is the default
  of an absent optional parameter; the object store, of which \<open>store_ok\<close> states that deletions remove and
  listings name nothing else than asked (\<open>store_serves\<close> that it answers on a quiet bucket, within its limits of
  1000 keys a page and a batch); AES-GCM is symbolic (\<open>Sealed key nonce identity plain\<close> opens under exactly
  that key and identity). Progress is a rational number where Go has a \<^verbatim>\<open>float64\<close>; the ABR estimate
  is computed with \<^verbatim>\<open>float64\<close> rounding written out. Fuel: \<open>lock_poll\<close> takes the number of polls after
  which the caller's context ends; \<open>doJSONRetry\<close> the number of further attempts (two for LOC's
  accounting calls, as in the code); \<open>client_Do\<close> ten redirects, as \<^verbatim>\<open>net/http\<close>; \<open>delete_pages\<close> the rounds the
  call's deadline leaves, and more rounds than objects are enough (\<open>deletion_complete\<close>); \<open>scan_lines\<close> is the scanner of an event stream
  with its limit of 4 MB a line; the bound on the steps of a stopped process counts at most 32 operations of a
  last scan and the operations that fit the queues; every other function is total by structural recursion.

  What the groups of properties show: the reachable-state invariant (Gateway\_System); per attempt,
  the ledger moves forward only, attempts are isolated, the journal stays recoverable, dispatches
  are journaled first, a stop prevents a dispatch, finished means resolved, a granted job is settled in the end, a refused
  one is over at once, no attempt dereferences nil (Engine\_*); exactly-once
  resolution, idempotent admission, at-most-once close (repositories); a claim is accepted only for
  its job, event streams are read exactly, retries are bounded (clients); spending, sizing and
  refills stay within limits; tenants and keys are isolated (routes, object store); the catalog is
  replaced as a whole. Accounts: keys, sessions and approvals stay consistent, the routes refine an
  abstract life of an account, revoked and unapproved keys open nothing, approval is all or nothing
  also under failure; the token bucket bounds what a key gets in any interval and isolates keys. The
  scheduling loop never handles an operation twice at once and drains at shutdown. The RTMP server's
  counters and connections balance, a stop silences the publisher, a stopped stream's key is refused.
  A customer's lists depend on no other customer's rows, no list depends on a stored secret, and the
  log takes only listed words and numbers from an upstream failure. An authorization of LOC is
  accepted only from a 2xx answer to a request that carried its idempotency key, and a settlement
  reported as done is recorded whatever messages the network lost. No handler runs without the gate
  of its path; no request is served before migrations, drain check and keys have passed; the database
  pool is closed after the last worker has ended; a process that was told to stop ends after a bounded
  number of steps of its own, in whatever order the threads are scheduled. A call to a broker sends exactly the requests its arguments determine, redirects are
  not followed; what a statement of the repositories selects is what is scanned; a listing with a limit
  parameter answers with at most 500 items; the delete route removes only objects of the calling key, and
  removes all it was asked for; a stream key is shown to its owner only, while it can be used.

  Case conversion (\<^verbatim>\<open>strings.ToUpper\<close>, \<^verbatim>\<open>EqualFold\<close>) is that of ASCII texts.

  Not modelled: the SQL of the migrations (its constraints are in the statements), the values of the
  metrics, the web front ends, the schemas and documentation huma generates, the exit when the
  environment cannot be parsed, and that closing the pool waits for connections in use.
\<close>

end
